(* ===== verification/Prelude.thy ===== *)
theory Prelude
  imports Complex_Main "HOL-Library.Word"
begin

text \<open>
  Shared vocabulary of the development: Go's time types, the string functions the
  sources call (\<^verbatim>\<open>strings.TrimSpace\<close>, \<^verbatim>\<open>strings.Split\<close>, \<^verbatim>\<open>strings.Cut\<close>,
  \<^verbatim>\<open>strconv.Atoi\<close>), first-occurrence de-duplication, and the generic lemmas about
  them. A \<^verbatim>\<open>time.Duration\<close> is its number of nanoseconds, a \<^verbatim>\<open>time.Time\<close> is the number of
  nanoseconds since Go's zero time, so the zero time is 0 and \<^verbatim>\<open>t.IsZero()\<close> is \<open>t = 0\<close>.
  Strings are lists of bytes, as Go's are.
\<close>

section \<open>Theorem collections\<close>

named_theorems inv_rules \<open>preservation lemmas of the components' invariants\<close>
named_theorems frame_simps \<open>equations for the fields an operation leaves alone\<close>

section \<open>Durations and instants\<close>

type_synonym duration = int
type_synonym gtime = int

definition nanos_per_second :: int where
  "nanos_per_second = 1000000000"

definition seconds :: "int \<Rightarrow> duration" where
  "seconds n = n * nanos_per_second"

definition minutes :: "int \<Rightarrow> duration" where
  "minutes n = seconds (60 * n)"

definition hours :: "int \<Rightarrow> duration" where
  "hours n = seconds (3600 * n)"

definition max_duration :: duration where
  "max_duration = 9223372036854775807"

definition min_duration :: duration where
  "min_duration = -9223372036854775808"

lemmas duration_defs = nanos_per_second_def seconds_def minutes_def hours_def
  max_duration_def min_duration_def

text \<open>\<^verbatim>\<open>t.Sub(u)\<close> saturates at the range of an int64.\<close>

definition time_sub :: "gtime \<Rightarrow> gtime \<Rightarrow> duration" where
  "time_sub t u = max min_duration (min max_duration (t - u))"

lemma time_sub_pos_iff: "0 < time_sub t u \<longleftrightarrow> u < t"
  by (auto simp: time_sub_def duration_defs)

lemma time_sub_nonpos_iff: "time_sub t u \<le> 0 \<longleftrightarrow> t \<le> u"
  using time_sub_pos_iff [of t u] by linarith

lemma time_sub_le_diff: "u \<le> t \<Longrightarrow> time_sub t u \<le> t - u"
  by (auto simp: time_sub_def duration_defs)

lemma time_sub_exact: "0 \<le> t - u \<Longrightarrow> t - u \<le> max_duration \<Longrightarrow> time_sub t u = t - u"
  by (auto simp: time_sub_def duration_defs)

lemma time_sub_le_max: "time_sub t u \<le> max_duration"
  by (auto simp: time_sub_def duration_defs)

text \<open>\<^verbatim>\<open>d.Seconds()\<close>, a quotient; \<^verbatim>\<open>float64\<close> values are modelled by rational numbers.\<close>

definition in_seconds :: "duration \<Rightarrow> rat" where
  "in_seconds d = of_int d / of_int nanos_per_second"

lemma in_seconds_pos [simp]: "0 < in_seconds d \<longleftrightarrow> 0 < d"
  by (simp add: in_seconds_def nanos_per_second_def)

lemma in_seconds_nonneg [simp]: "0 \<le> in_seconds d \<longleftrightarrow> 0 \<le> d"
  by (simp add: in_seconds_def nanos_per_second_def)

lemma in_seconds_add: "in_seconds (d + e) = in_seconds d + in_seconds e"
  by (simp add: in_seconds_def add_divide_distrib)

lemma in_seconds_diff: "in_seconds (d - e) = in_seconds d - in_seconds e"
  by (simp add: in_seconds_def diff_divide_distrib)

lemma in_seconds_mono: "in_seconds d \<le> in_seconds e \<longleftrightarrow> d \<le> e"
  by (simp add: in_seconds_def nanos_per_second_def divide_le_cancel)

text \<open>Go's conversion of an untrusted option: a non-positive value means the default.\<close>

definition default_if_nonpos :: "int \<Rightarrow> int \<Rightarrow> int" where
  "default_if_nonpos v fallback = (if v \<le> 0 then fallback else v)"

lemma default_if_nonpos_pos: "0 < fallback \<Longrightarrow> 0 < default_if_nonpos v fallback"
  by (simp add: default_if_nonpos_def)

section \<open>Strings\<close>

text \<open>The bytes \<^verbatim>\<open>strings.TrimSpace\<close> removes from an ASCII string.\<close>

definition is_space :: "char \<Rightarrow> bool" where
  "is_space c = (of_char c \<in> {9, 10, 11, 12, 13, 32 :: nat})"

definition trim_left :: "string \<Rightarrow> string" where
  "trim_left s = dropWhile is_space s"

definition trim_space :: "string \<Rightarrow> string" where
  "trim_space s = rev (trim_left (rev (trim_left s)))"

text \<open>\<^verbatim>\<open>strings.Split(s, sep)\<close> for a one-byte separator: never empty.\<close>

fun split_on :: "char \<Rightarrow> string \<Rightarrow> string list" where
  "split_on sep [] = [[]]"
| "split_on sep (c # cs) =
     (if c = sep then [] # split_on sep cs
      else (case split_on sep cs of [] \<Rightarrow> [[c]] | w # ws \<Rightarrow> (c # w) # ws))"

text \<open>\<^verbatim>\<open>strings.Cut(s, sep)\<close> for a one-byte separator.\<close>

fun cut_on :: "char \<Rightarrow> string \<Rightarrow> (string \<times> string) option" where
  "cut_on sep [] = None"
| "cut_on sep (c # cs) =
     (if c = sep then Some ([], cs)
      else map_option (\<lambda>(a, b). (c # a, b)) (cut_on sep cs))"

definition is_digit :: "char \<Rightarrow> bool" where
  "is_digit c = (48 \<le> (of_char c :: nat) \<and> (of_char c :: nat) \<le> 57)"

definition digit_val :: "char \<Rightarrow> nat" where
  "digit_val c = of_char c - 48"

fun digits_val :: "nat \<Rightarrow> string \<Rightarrow> nat option" where
  "digits_val acc [] = Some acc"
| "digits_val acc (c # cs) =
     (if is_digit c then digits_val (10 * acc + digit_val c) cs else None)"

definition decimal_val :: "string \<Rightarrow> nat option" where
  "decimal_val s = (if s = [] then None else digits_val 0 s)"

text \<open>
  \<^verbatim>\<open>strconv.Atoi\<close>: an optional sign, at least one digit, and a value an int64 can hold.
\<close>

definition in_int64 :: "int \<Rightarrow> bool" where
  "in_int64 v = (min_duration \<le> v \<and> v \<le> max_duration)"

definition atoi :: "string \<Rightarrow> int option" where
  "atoi s =
     (let parsed =
        (case s of
           [] \<Rightarrow> None
         | c # cs \<Rightarrow>
             if c = CHR ''-'' then map_option (\<lambda>n. - int n) (decimal_val cs)
             else if c = CHR ''+'' then map_option int (decimal_val cs)
             else map_option int (decimal_val s))
      in case parsed of None \<Rightarrow> None | Some v \<Rightarrow> if in_int64 v then Some v else None)"

lemma atoi_range: "atoi s = Some v \<Longrightarrow> in_int64 v"
  by (auto simp: atoi_def Let_def split: option.splits if_splits)

text \<open>Decimal notation, the inverse the round-trip lemmas are stated with.\<close>

definition digit_char :: "nat \<Rightarrow> char" where
  "digit_char d = char_of (48 + d)"

fun decimal :: "nat \<Rightarrow> string" where
  "decimal n = (if n < 10 then [digit_char n] else decimal (n div 10) @ [digit_char (n mod 10)])"

declare decimal.simps [simp del]

lemma of_char_digit_char: "d < 10 \<Longrightarrow> of_char (digit_char d) = (48 + d :: nat)"
  by (simp add: digit_char_def)

lemma digit_char_is_digit: "d < 10 \<Longrightarrow> is_digit (digit_char d)"
  by (simp add: is_digit_def of_char_digit_char)

lemma digit_char_val: "d < 10 \<Longrightarrow> digit_val (digit_char d) = d"
  by (simp add: digit_val_def of_char_digit_char)

lemma digits_val_append:
  "digits_val acc (xs @ ys) = Option.bind (digits_val acc xs) (\<lambda>a. digits_val a ys)"
  by (induction xs arbitrary: acc) auto

lemma digits_val_decimal: "digits_val 0 (decimal n) = Some n"
proof (induction n rule: decimal.induct)
  case (1 n)
  show ?case
  proof (cases "n < 10")
    case True
    then show ?thesis
      by (subst decimal.simps) (simp add: digit_char_is_digit digit_char_val)
  next
    case False
    with "1.IH" show ?thesis
      by (subst decimal.simps)
        (simp add: digits_val_append digit_char_is_digit digit_char_val)
  qed
qed

lemma decimal_nonempty: "decimal n \<noteq> []"
  by (subst decimal.simps) simp

lemma decimal_digits: "c \<in> set (decimal n) \<Longrightarrow> is_digit c"
proof (induction n rule: decimal.induct)
  case (1 n)
  show ?case
  proof (cases "n < 10")
    case True
    with "1.prems" show ?thesis
      by (simp add: decimal.simps [of n] digit_char_is_digit)
  next
    case False
    with "1.prems" have "c \<in> set (decimal (n div 10)) \<or> c = digit_char (n mod 10)"
      by (auto simp: decimal.simps [of n])
    then show ?thesis
    proof
      assume "c \<in> set (decimal (n div 10))"
      then show ?thesis using "1.IH" False by simp
    qed (simp add: digit_char_is_digit)
  qed
qed

lemma atoi_decimal: "int n \<le> max_duration \<Longrightarrow> atoi (decimal n) = Some (int n)"
proof -
  assume le: "int n \<le> max_duration"
  obtain c cs where d: "decimal n = c # cs"
    using decimal_nonempty by (cases "decimal n") auto
  have "is_digit c"
    using decimal_digits [of c n] d by simp
  then have "c \<noteq> CHR ''-''" "c \<noteq> CHR ''+''"
    by (auto simp: is_digit_def)
  then show ?thesis
    using le digits_val_decimal [of n]
    by (simp add: atoi_def d decimal_val_def in_int64_def min_duration_def)
qed

lemma trim_space_id: "(\<And>c. c \<in> set s \<Longrightarrow> \<not> is_space c) \<Longrightarrow> trim_space s = s"
proof -
  assume a: "\<And>c. c \<in> set s \<Longrightarrow> \<not> is_space c"
  have l: "trim_left s = s"
    using a by (cases s) (auto simp: trim_left_def)
  have "trim_left (rev s) = rev s"
    using a by (cases "rev s") (auto simp: trim_left_def dest: arg_cong [where f = set])
  with l show ?thesis
    by (simp add: trim_space_def)
qed

lemma digit_not_space: "is_digit c \<Longrightarrow> \<not> is_space c"
  by (auto simp: is_digit_def is_space_def)

lemma split_on_nonempty: "split_on sep s \<noteq> []"
  by (induction s) (auto split: list.splits)

lemma split_on_no_sep: "sep \<notin> set s \<Longrightarrow> split_on sep s = [s]"
  by (induction s) auto

lemma split_on_append_sep:
  "sep \<notin> set a \<Longrightarrow> split_on sep (a @ sep # b) = a # split_on sep b"
  by (induction a) auto

lemma cut_on_append_sep: "sep \<notin> set a \<Longrightarrow> cut_on sep (a @ sep # b) = Some (a, b)"
  by (induction a) auto

section \<open>First-occurrence de-duplication\<close>

text \<open>
  The sources de-duplicate with a \<^verbatim>\<open>seen\<close> map and an output slice; \<open>dedupe_from seen xs\<close> is
  that loop with the set of keys already seen.
\<close>

fun dedupe_from :: "('a \<Rightarrow> 'k) \<Rightarrow> 'k set \<Rightarrow> 'a list \<Rightarrow> 'a list" where
  "dedupe_from key seen [] = []"
| "dedupe_from key seen (x # xs) =
     (if key x \<in> seen then dedupe_from key seen xs
      else x # dedupe_from key (insert (key x) seen) xs)"

definition dedupe_by :: "('a \<Rightarrow> 'k) \<Rightarrow> 'a list \<Rightarrow> 'a list" where
  "dedupe_by key xs = dedupe_from key {} xs"

lemma dedupe_from_subset: "set (dedupe_from key seen xs) \<subseteq> set xs"
  by (induction xs arbitrary: seen) auto

lemma dedupe_from_keys: "key ` set (dedupe_from key seen xs) = key ` set xs - seen"
  by (induction xs arbitrary: seen) auto

lemma dedupe_from_distinct: "distinct (map key (dedupe_from key seen xs))"
proof (induction xs arbitrary: seen)
  case (Cons x xs)
  have "key x \<notin> key ` set (dedupe_from key (insert (key x) seen) xs)"
    by (simp add: dedupe_from_keys)
  with Cons show ?case by simp
qed simp

lemma dedupe_by_subset: "set (dedupe_by key xs) \<subseteq> set xs"
  by (simp add: dedupe_by_def dedupe_from_subset)

lemma dedupe_by_keys: "key ` set (dedupe_by key xs) = key ` set xs"
  by (simp add: dedupe_by_def dedupe_from_keys)

lemma dedupe_by_distinct: "distinct (map key (dedupe_by key xs))"
  by (simp add: dedupe_by_def dedupe_from_distinct)

lemma dedupe_by_length: "length (dedupe_by key xs) \<le> length xs"
proof -
  have "length (dedupe_from key seen xs) \<le> length xs" for seen
    by (induction xs arbitrary: seen) (auto simp: le_SucI)
  then show ?thesis by (simp add: dedupe_by_def)
qed

lemma dedupe_from_id:
  "distinct (map key xs) \<Longrightarrow> \<forall>x \<in> set xs. key x \<notin> seen \<Longrightarrow> dedupe_from key seen xs = xs"
proof (induction xs arbitrary: seen)
  case (Cons x xs)
  then have "\<forall>y \<in> set xs. key y \<notin> insert (key x) seen"
    by (auto dest: image_eqI [OF sym])
  with Cons show ?case by simp
qed simp

lemma dedupe_by_idem: "dedupe_by key (dedupe_by key xs) = dedupe_by key xs"
  using dedupe_from_id [OF dedupe_by_distinct, where seen = "{}"] by (simp add: dedupe_by_def)

end
