(* ===== verification/Riot_Headers.thy ===== *)
theory Riot_Headers
  imports Prelude
begin

text \<open>
  Riot's rate-limit headers (\<^verbatim>\<open>internal/riot/headers.go\<close>): the advertised windows, the usage
  counts and the Retry-After delay, as they are read from the response headers. The bound
  on a window's period is checked before the multiplication by a second, which
  \<^verbatim>\<open>headerPeriod\<close> performs on a 64-bit word; the lemmas show the product never wraps for an
  accepted value, and the round trip shows a well-formed header is read back exactly.
\<close>

section \<open>Windows\<close>

record window =
  w_limit :: int
  w_period :: duration

definition maxWindowPeriod :: duration where
  "maxWindowPeriod = hours 24"

type_synonym int64 = "64 word"

text \<open>
  \<^verbatim>\<open>headerPeriod\<close>: the product is taken on int64, as Go takes it. The quotient
  \<^verbatim>\<open>maxWindowPeriod/time.Second\<close> is an integer constant.
\<close>

definition headerPeriod :: "int64 \<Rightarrow> int64 \<times> bool" where
  "headerPeriod secs =
     (if sint secs \<le> 0 \<or> sint secs > maxWindowPeriod div nanos_per_second then (0, False)
      else (secs * word_of_int nanos_per_second, True))"

definition header_period :: "int \<Rightarrow> duration option" where
  "header_period secs =
     (case headerPeriod (word_of_int secs) of (p, ok) \<Rightarrow> if ok then Some (sint p) else None)"

definition DevelopmentKeyWindows :: "window list" where
  "DevelopmentKeyWindows =
     [\<lparr>w_limit = 20, w_period = seconds 1\<rparr>, \<lparr>w_limit = 100, w_period = minutes 2\<rparr>]"

text \<open>\<^verbatim>\<open>int(perSecond)\<close> truncates; the value is at least 1 where it is taken.\<close>

definition ConfigWindows :: "rat \<Rightarrow> int \<Rightarrow> window list" where
  "ConfigWindows perSecond per2Min =
     (let out = (if 1 \<le> perSecond then [\<lparr>w_limit = \<lfloor>perSecond\<rfloor>, w_period = seconds 1\<rparr>] else []) @
                (if 1 \<le> per2Min then [\<lparr>w_limit = per2Min, w_period = minutes 2\<rparr>] else [])
      in if out = [] then DevelopmentKeyWindows else out)"

definition valid_window :: "window \<Rightarrow> bool" where
  "valid_window w = (0 < w_limit w \<and> 0 < w_period w)"

section \<open>Parsing\<close>

text \<open>One \<^verbatim>\<open>limit:seconds\<close> pair; a pair that cannot be read is dropped.\<close>

definition parse_pair :: "(int \<Rightarrow> bool) \<Rightarrow> string \<Rightarrow> (int \<times> duration) option" where
  "parse_pair keep p =
     (case cut_on CHR '':'' (trim_space p) of
        None \<Rightarrow> None
      | Some (a, b) \<Rightarrow>
          (case atoi (trim_space a) of
             None \<Rightarrow> None
           | Some n \<Rightarrow>
               if \<not> keep n then None
               else (case atoi (trim_space b) of
                       None \<Rightarrow> None
                     | Some secs \<Rightarrow> map_option (Pair n) (header_period secs))))"

definition ParseWindows :: "string \<Rightarrow> window list" where
  "ParseWindows header =
     (if trim_space header = [] then []
      else map (\<lambda>(n, p). \<lparr>w_limit = n, w_period = p\<rparr>)
             (List.map_filter (parse_pair (\<lambda>n. 0 < n)) (split_on CHR '','' header)))"

text \<open>A later pair for the same period overwrites an earlier one, as in the Go map.\<close>

fun put_counts :: "(duration \<rightharpoonup> int) \<Rightarrow> (int \<times> duration) list \<Rightarrow> (duration \<rightharpoonup> int)" where
  "put_counts m [] = m"
| "put_counts m ((n, p) # xs) = put_counts (m(p \<mapsto> n)) xs"

definition parseCounts :: "string \<Rightarrow> (duration \<rightharpoonup> int)" where
  "parseCounts header =
     (if trim_space header = [] then Map.empty
      else put_counts Map.empty
             (List.map_filter (parse_pair (\<lambda>n. 0 \<le> n)) (split_on CHR '','' header)))"

record rateLimitHeaders =
  AppLimit :: "window list"
  AppCount :: "duration \<rightharpoonup> int"
  MethodLimit :: "window list"
  MethodCount :: "duration \<rightharpoonup> int"
  HasApplication :: bool
  HasMethod :: bool

text \<open>\<open>get\<close> is \<^verbatim>\<open>http.Header.Get\<close>, which is empty for a header that was not sent.\<close>

definition readRateLimitHeaders :: "(string \<Rightarrow> string) \<Rightarrow> rateLimitHeaders" where
  "readRateLimitHeaders get =
     (let appv = get ''X-App-Rate-Limit'';
          methodv = get ''X-Method-Rate-Limit'';
          app = (if appv \<noteq> [] then ParseWindows appv else []);
          method = (if methodv \<noteq> [] then ParseWindows methodv else [])
      in \<lparr>AppLimit = app, AppCount = parseCounts (get ''X-App-Rate-Limit-Count''),
          MethodLimit = method, MethodCount = parseCounts (get ''X-Method-Rate-Limit-Count''),
          HasApplication = (app \<noteq> []), HasMethod = (method \<noteq> [])\<rparr>)"

text \<open>
  \<^verbatim>\<open>ParseRetryAfter\<close>. Reading an HTTP date is \<^verbatim>\<open>http.ParseTime\<close>, the parameter
  \<open>parse_time\<close>.
\<close>

definition ParseRetryAfter :: "(string \<Rightarrow> gtime option) \<Rightarrow> string \<Rightarrow> gtime \<Rightarrow> duration" where
  "ParseRetryAfter parse_time header now =
     (let h = trim_space header
      in if h = [] then 0
         else (case atoi h of
                 Some secs \<Rightarrow> (case header_period secs of Some d \<Rightarrow> d | None \<Rightarrow> 0)
               | None \<Rightarrow>
                   (case parse_time h of
                      Some t \<Rightarrow> (let d = time_sub t now in if 0 < d then d else 0)
                    | None \<Rightarrow> 0)))"

section \<open>Lemmas\<close>

lemma maxWindowPeriod_val: "maxWindowPeriod = 86400000000000"
  by (simp add: maxWindowPeriod_def duration_defs)

lemma maxWindowPeriod_secs: "maxWindowPeriod div nanos_per_second = 86400"
  by (simp add: maxWindowPeriod_val nanos_per_second_def)

lemma sint_word64: "in_int64 v \<Longrightarrow> sint (word_of_int v :: int64) = v"
  by (simp add: in_int64_def duration_defs signed_take_bit_int_eq_self sint_sbintrunc')

lemma headerPeriod_exact:
  assumes "headerPeriod secs = (p, True)"
  shows "sint p = sint secs * nanos_per_second \<and> 0 < sint p \<and> sint p \<le> maxWindowPeriod"
proof -
  from assms have r: "0 < sint secs" "sint secs \<le> 86400" and p: "p = secs * word_of_int nanos_per_second"
    by (auto simp: headerPeriod_def maxWindowPeriod_secs split: if_splits)
  have "p = word_of_int (sint secs * nanos_per_second)"
    by (simp add: p)
  moreover have "in_int64 (sint secs * nanos_per_second)"
    using r by (simp add: in_int64_def duration_defs)
  ultimately have "sint p = sint secs * nanos_per_second"
    using sint_word64 by blast
  with r show ?thesis
    by (simp add: maxWindowPeriod_val nanos_per_second_def)
qed

lemma header_period_Some:
  assumes "header_period secs = Some d" and "in_int64 secs"
  shows "d = seconds secs \<and> 0 < d \<and> d \<le> maxWindowPeriod"
proof -
  from assms(1) obtain p where "headerPeriod (word_of_int secs) = (p, True)" "d = sint p"
    by (auto simp: header_period_def split: prod.splits if_splits)
  with headerPeriod_exact [of "word_of_int secs" p] sint_word64 [OF assms(2)] show ?thesis
    by (simp add: seconds_def)
qed

lemma header_period_valid:
  assumes "0 < secs" and "secs \<le> 86400"
  shows "header_period secs = Some (seconds secs)"
proof -
  have i: "in_int64 secs"
    using assms by (simp add: in_int64_def duration_defs)
  have "header_period secs \<noteq> None"
    using assms sint_word64 [OF i]
    by (simp add: header_period_def headerPeriod_def maxWindowPeriod_secs)
  then show ?thesis
    using header_period_Some [OF _ i] by auto
qed

lemma parse_pair_Some:
  assumes "parse_pair keep p = Some (n, d)"
  shows "keep n \<and> 0 < d \<and> d \<le> maxWindowPeriod"
  using assms header_period_Some atoi_range
  by (fastforce simp: parse_pair_def split: option.splits if_splits)

lemma map_filter_mem:
  "y \<in> set (List.map_filter f xs) \<longleftrightarrow> (\<exists>x \<in> set xs. f x = Some y)"
  by (force simp: List.map_filter_def)

lemma ParseWindows_bounds:
  assumes "w \<in> set (ParseWindows header)"
  shows "0 < w_limit w \<and> 0 < w_period w \<and> w_period w \<le> maxWindowPeriod"
  using assms
  by (auto simp: ParseWindows_def map_filter_mem split: if_splits dest!: parse_pair_Some)

lemma ParseWindows_valid: "w \<in> set (ParseWindows header) \<Longrightarrow> valid_window w"
  by (simp add: valid_window_def ParseWindows_bounds)

lemma put_counts_range: "put_counts m xs k = Some v \<Longrightarrow> m k = Some v \<or> (v, k) \<in> set xs"
proof (induction m xs rule: put_counts.induct)
  case (2 m n p xs)
  have "put_counts (m(p \<mapsto> n)) xs k = Some v"
    using "2.prems" by (simp only: put_counts.simps)
  then have "(m(p \<mapsto> n)) k = Some v \<or> (v, k) \<in> set xs"
    by (rule "2.IH")
  then show ?case by (auto split: if_splits)
qed simp

lemma parseCounts_bounds:
  assumes "parseCounts header d = Some n"
  shows "0 \<le> n \<and> 0 < d \<and> d \<le> maxWindowPeriod"
  using assms
  by (auto simp: parseCounts_def map_filter_mem split: if_splits
      dest!: put_counts_range parse_pair_Some)

lemma ParseRetryAfter_nonneg: "0 \<le> ParseRetryAfter pt h now"
proof -
  have "0 \<le> d" if "atoi t = Some secs" "header_period secs = Some d" for t secs d
    using header_period_Some [OF that(2) atoi_range [OF that(1)]] by simp
  then show ?thesis
    by (auto simp: ParseRetryAfter_def Let_def split: option.splits)
qed

section \<open>Reading back a well-formed header\<close>

definition show_pair :: "nat \<times> nat \<Rightarrow> string" where
  "show_pair np = decimal (fst np) @ CHR '':'' # decimal (snd np)"

fun show_windows :: "(nat \<times> nat) list \<Rightarrow> string" where
  "show_windows [] = []"
| "show_windows [np] = show_pair np"
| "show_windows (np # nps) = show_pair np @ CHR '','' # show_windows nps"

lemma show_pair_chars: "c \<in> set (show_pair np) \<Longrightarrow> is_digit c \<or> c = CHR '':''"
  by (auto simp: show_pair_def decimal_digits)

lemma trim_decimal: "trim_space (decimal n) = decimal n"
  by (rule trim_space_id) (simp add: decimal_digits digit_not_space)

lemma trim_show_pair: "trim_space (show_pair np) = show_pair np"
  by (rule trim_space_id) (auto dest!: show_pair_chars digit_not_space simp: is_space_def)

lemma comma_not_in_show_pair: "CHR '','' \<notin> set (show_pair np)"
  by (auto dest: show_pair_chars simp: is_digit_def)

lemma colon_not_in_decimal: "CHR '':'' \<notin> set (decimal n)"
  by (auto dest: decimal_digits simp: is_digit_def)

lemma split_show_windows:
  "nps \<noteq> [] \<Longrightarrow> split_on CHR '','' (show_windows nps) = map show_pair nps"
proof (induction nps rule: show_windows.induct)
  case (3 np np' nps)
  then show ?case
    by (simp add: split_on_append_sep comma_not_in_show_pair)
qed (simp_all add: split_on_no_sep comma_not_in_show_pair)

definition readable_pair :: "nat \<times> nat \<Rightarrow> bool" where
  "readable_pair np = (0 < fst np \<and> int (fst np) \<le> max_duration \<and> 0 < snd np \<and> snd np \<le> 86400)"

lemma parse_show_pair:
  assumes "readable_pair np"
  shows "parse_pair (\<lambda>n. 0 < n) (show_pair np) = Some (int (fst np), seconds (int (snd np)))"
proof -
  have "int (snd np) \<le> max_duration"
    using assms by (simp add: readable_pair_def max_duration_def)
  moreover have "header_period (int (snd np)) = Some (seconds (int (snd np)))"
    using assms by (intro header_period_valid) (auto simp: readable_pair_def)
  moreover have "cut_on CHR '':'' (show_pair np) = Some (decimal (fst np), decimal (snd np))"
    by (simp add: show_pair_def cut_on_append_sep colon_not_in_decimal)
  ultimately show ?thesis
    using assms
    by (simp add: parse_pair_def trim_show_pair trim_decimal atoi_decimal readable_pair_def)
qed

lemma show_windows_hd:
  assumes "nps \<noteq> []"
  obtains c cs where "show_windows nps = c # cs" and "is_digit c"
proof -
  obtain np rest where nps: "nps = np # rest" using assms by (cases nps) auto
  obtain c cs where d: "decimal (fst np) = c # cs"
    using decimal_nonempty by (cases "decimal (fst np)") auto
  have "is_digit c" using decimal_digits [of c "fst np"] d by simp
  moreover have "\<exists>cs'. show_windows nps = c # cs'"
    by (cases rest) (simp_all add: nps show_pair_def d)
  ultimately show thesis using that by blast
qed

lemma trim_show_windows: "nps \<noteq> [] \<Longrightarrow> trim_space (show_windows nps) \<noteq> []"
proof -
  assume "nps \<noteq> []"
  then obtain c cs where s: "show_windows nps = c # cs" and c: "\<not> is_space c"
    using show_windows_hd digit_not_space by metis
  have "c \<in> set (dropWhile is_space (xs @ [c]))" for xs
    using c by (induction xs) auto
  then show ?thesis
    using c by (auto simp: s trim_space_def trim_left_def)
qed

lemma map_filter_parse_show:
  "\<forall>np \<in> set nps. readable_pair np \<Longrightarrow>
   List.map_filter (parse_pair (\<lambda>n. 0 < n)) (map show_pair nps)
     = map (\<lambda>np. (int (fst np), seconds (int (snd np)))) nps"
  by (induction nps) (auto simp: List.map_filter_simps parse_show_pair)

section \<open>Properties\<close>

text \<open>
  A header that lists readable \<^verbatim>\<open>limit:seconds\<close> pairs is read back exactly, in order:
  nothing is dropped, rounded or merged.
\<close>

theorem windows_roundtrip:
  assumes "nps \<noteq> []" and "\<forall>np \<in> set nps. readable_pair np"
  shows "ParseWindows (show_windows nps) =
    map (\<lambda>np. \<lparr>w_limit = int (fst np), w_period = seconds (int (snd np))\<rparr>) nps"
  using assms map_filter_parse_show [OF assms(2)]
  by (simp add: ParseWindows_def trim_show_windows split_show_windows)

theorem windows_roundtrip_witness:
  "show_windows [(20, 1), (100, 120)] = ''20:1,100:120'' \<and>
   ParseWindows (show_windows [(20, 1), (100, 120)]) = DevelopmentKeyWindows"
proof
  show "show_windows [(20, 1), (100, 120)] = ''20:1,100:120''" by code_simp
  show "ParseWindows (show_windows [(20, 1), (100, 120)]) = DevelopmentKeyWindows"
    using windows_roundtrip [of "[(20, 1), (100, 120)]"]
    by (simp add: readable_pair_def DevelopmentKeyWindows_def duration_defs)
qed

text \<open>
  No header can put a wrapped or absurd number into the limiter: for any bytes, every window
  has a positive limit and every period, of a window or of a count, is between one nanosecond
  and a day; the 64-bit product that converts the seconds is exact whenever it is taken; and a
  Retry-After delay is never negative.
\<close>

theorem header_values_bounded:
  "(\<forall>w. w \<in> set (ParseWindows header) \<longrightarrow> 0 < w_limit w \<and> 0 < w_period w \<and> w_period w \<le> hours 24) \<and>
   (\<forall>d n. parseCounts header d = Some n \<longrightarrow> 0 \<le> n \<and> 0 < d \<and> d \<le> hours 24) \<and>
   (snd (headerPeriod secs) \<longrightarrow> sint (fst (headerPeriod secs)) = sint secs * nanos_per_second) \<and>
   0 \<le> ParseRetryAfter parse_time header now"
proof (intro conjI allI impI)
  show "sint (fst (headerPeriod secs)) = sint secs * nanos_per_second" if "snd (headerPeriod secs)"
    using headerPeriod_exact [of secs "fst (headerPeriod secs)"] that by (cases "headerPeriod secs") auto
qed (use ParseWindows_bounds parseCounts_bounds ParseRetryAfter_nonneg in
    \<open>auto simp: maxWindowPeriod_def\<close>)

theorem header_values_bounded_witness:
  "snd (headerPeriod 600) \<and> sint (fst (headerPeriod 600)) = sint (600 :: int64) * nanos_per_second"
proof -
  have "snd (headerPeriod 600)" by (simp add: headerPeriod_def maxWindowPeriod_val nanos_per_second_def)
  then show ?thesis using header_values_bounded [of "[]" 600 "\<lambda>_. None" 0] by blast
qed

text \<open>
  The overflow the bound exists for is real: without it, a window advertised over 18446744074
  seconds would be read as 290448384 nanoseconds, less than a third of a second.
\<close>

theorem unchecked_period_wraps:
  "sint ((18446744074 :: int64) * word_of_int nanos_per_second) = 290448384 \<and>
   headerPeriod 18446744074 = (0, False)"
  by (simp add: headerPeriod_def maxWindowPeriod_val nanos_per_second_def)

text \<open>
  A fractional allowance is truncated, not dropped: 18.5 requests per second become a window
  of 18 requests.
\<close>

theorem fractional_rate_is_truncated:
  "ConfigWindows (37 / 2) 0 = [\<lparr>w_limit = 18, w_period = seconds 1\<rparr>]"
  by (simp add: ConfigWindows_def Let_def floor_eq_iff)

end
