(* ===== verification/Riot_Limiter.thy ===== *)
theory Riot_Limiter
  imports Riot_Headers
begin

text \<open>
  The adaptive token-bucket limiter (\<^verbatim>\<open>internal/riot/limiter.go\<close>). A bucket holds a
  fractional balance (\<^verbatim>\<open>float64\<close> in the source, a rational number here); \<^verbatim>\<open>reserve\<close> takes one
  token from every bucket and returns how long the caller has to wait; \<^verbatim>\<open>Observe\<close> rebuilds
  a scope's buckets from the advertised windows and the configured ceiling. The mutex makes
  each operation atomic, so an operation is a function from limiter to limiter, and the
  clock reading it takes is its argument \<open>now\<close>.
\<close>

section \<open>Buckets\<close>

definition defaultMaxRetryAfter :: duration where
  "defaultMaxRetryAfter = minutes 5"

definition maxWait :: duration where
  "maxWait = minutes 30"

record bucket =
  b_limit :: rat
  b_period :: duration
  b_tokens :: rat
  b_last :: gtime

definition newBucket :: "window \<Rightarrow> gtime \<Rightarrow> bucket" where
  "newBucket w now =
     \<lparr>b_limit = of_int (w_limit w), b_period = w_period w, b_tokens = of_int (w_limit w), b_last = now\<rparr>"

definition rate :: "bucket \<Rightarrow> rat" where
  "rate b = b_limit b / in_seconds (b_period b)"

definition refill :: "bucket \<Rightarrow> gtime \<Rightarrow> bucket" where
  "refill b t =
     (let elapsed = time_sub t (b_last b)
      in if elapsed \<le> 0 then b
         else b\<lparr>b_last := t, b_tokens := min (b_limit b) (b_tokens b + in_seconds elapsed * rate b)\<rparr>)"

definition waitFor :: "bucket \<Rightarrow> duration" where
  "waitFor b =
     (if 1 \<le> b_tokens b then 0
      else \<lceil>(1 - b_tokens b) / rate b * of_int nanos_per_second\<rceil>)"

section \<open>The limiter\<close>

record limiter =
  l_ceiling :: "window list"
  l_maxRetryAfter :: duration
  l_app :: "bucket list"
  l_method :: "bucket list"
  l_blockedUntil :: gtime
  l_advertised :: bool

definition newBuckets :: "window list \<Rightarrow> gtime \<Rightarrow> bucket list" where
  "newBuckets ws now =
     map (\<lambda>w. newBucket w now) (filter (\<lambda>w. \<not> (w_limit w \<le> 0 \<or> w_period w \<le> 0)) ws)"

text \<open>The options: an empty window list or a non-positive cap selects the default.\<close>

definition NewLimiter :: "window list \<Rightarrow> window list \<Rightarrow> duration \<Rightarrow> gtime \<Rightarrow> limiter" where
  "NewLimiter ceil0 bootstrap0 maxRetryAfter0 now =
     (let ceil = (if ceil0 = [] then DevelopmentKeyWindows else ceil0);
          bootstrap = (if bootstrap0 = [] then ceil else bootstrap0);
          maxRetryAfter = (if maxRetryAfter0 \<le> 0 then defaultMaxRetryAfter else maxRetryAfter0)
      in \<lparr>l_ceiling = ceil, l_maxRetryAfter = maxRetryAfter, l_app = newBuckets bootstrap now,
          l_method = [], l_blockedUntil = 0, l_advertised = False\<rparr>)"

definition allBuckets :: "limiter \<Rightarrow> bucket list" where
  "allBuckets l = l_app l @ l_method l"

definition spend :: "gtime \<Rightarrow> bucket \<Rightarrow> bucket" where
  "spend t b = (let b' = refill b t in b'\<lparr>b_tokens := max (b_tokens b' - 1) (- b_limit b')\<rparr>)"

text \<open>The longest wait any bucket or the suspension asks for, before the cap.\<close>

definition wanted_wait :: "limiter \<Rightarrow> gtime \<Rightarrow> duration" where
  "wanted_wait l now =
     foldl (\<lambda>w b. if w < waitFor (refill b now) then waitFor (refill b now) else w)
       (if now < l_blockedUntil l then time_sub (l_blockedUntil l) now else 0) (allBuckets l)"

definition reserve :: "limiter \<Rightarrow> gtime \<Rightarrow> duration \<times> limiter" where
  "reserve l now =
     (let wait0 = wanted_wait l now;
          wait = (if maxWait < wait0 then maxWait else wait0);
          t = now + wait;
          step = (\<lambda>b. spend t (refill b now))
      in (wait, l\<lparr>l_app := map step (l_app l), l_method := map step (l_method l)\<rparr>))"

text \<open>\<^verbatim>\<open>clampTo\<close>: the first ceiling window of the same period that is tighter.\<close>

fun clampTo :: "window \<Rightarrow> window list \<Rightarrow> int \<times> bool" where
  "clampTo w [] = (w_limit w, False)"
| "clampTo w (c # cs) =
     (if w_period c = w_period w \<and> w_limit c < w_limit w then (w_limit c, True) else clampTo w cs)"

text \<open>
  \<^verbatim>\<open>resize\<close> updates the bucket in place; the caller drops the old set, so returning the
  updated bucket is the same. Only the first bucket of the period is considered.
\<close>

fun resize :: "bucket list \<Rightarrow> window \<Rightarrow> gtime \<Rightarrow> bucket" where
  "resize [] w now = newBucket w now"
| "resize (b # bs) w now =
     (if b_period b \<noteq> w_period w then resize bs w now
      else (let b' = refill b now; lim = of_int (w_limit w)
            in b'\<lparr>b_limit := lim, b_tokens := min (b_tokens b') lim\<rparr>))"

definition apply_count :: "(duration \<rightharpoonup> int) \<Rightarrow> window \<Rightarrow> bucket \<Rightarrow> bucket" where
  "apply_count counts w b =
     (case counts (w_period w) of
        None \<Rightarrow> b
      | Some used \<Rightarrow>
          (let observed = max (of_int (w_limit w - used)) (- b_limit b)
           in b\<lparr>b_tokens := min (b_tokens b) observed\<rparr>))"

fun add_windows :: "bucket list \<Rightarrow> (duration \<rightharpoonup> int) \<Rightarrow> gtime \<Rightarrow> duration set \<Rightarrow> window list \<Rightarrow> bucket list" where
  "add_windows current counts now added [] = []"
| "add_windows current counts now added (w # ws) =
     (if w_limit w \<le> 0 \<or> w_period w \<le> 0 \<or> w_period w \<in> added
      then add_windows current counts now added ws
      else apply_count counts w (resize current w now)
           # add_windows current counts now (insert (w_period w) added) ws)"

definition clamp_window :: "window list \<Rightarrow> window \<Rightarrow> window" where
  "clamp_window ceil w =
     (case clampTo w ceil of (limit, ok) \<Rightarrow> if ok then w\<lparr>w_limit := limit\<rparr> else w)"

definition resolve :: "window list \<Rightarrow> bucket list \<Rightarrow> window list \<Rightarrow> (duration \<rightharpoonup> int) \<Rightarrow> gtime \<Rightarrow> bucket list" where
  "resolve ceil current advertised counts now =
     add_windows current counts now {} (map (clamp_window ceil) advertised @ ceil)"

definition Observe :: "limiter \<Rightarrow> rateLimitHeaders \<Rightarrow> gtime \<Rightarrow> limiter" where
  "Observe l h now =
     (let l1 = (if HasApplication h
                then l\<lparr>l_app := resolve (l_ceiling l) (l_app l) (AppLimit h) (AppCount h) now\<rparr> else l);
          l2 = (if HasMethod h
                then l1\<lparr>l_method := resolve (l_ceiling l1) (l_method l1) (MethodLimit h) (MethodCount h) now\<rparr>
                else l1)
      in if HasApplication h \<or> HasMethod h then l2\<lparr>l_advertised := True\<rparr> else l2)"

definition Penalize :: "limiter \<Rightarrow> duration \<Rightarrow> gtime \<Rightarrow> limiter" where
  "Penalize l d0 now =
     (if d0 \<le> 0 then l
      else (let d = (if l_maxRetryAfter l < d0 then l_maxRetryAfter l else d0); until = now + d
            in if l_blockedUntil l < until then l\<lparr>l_blockedUntil := until\<rparr> else l))"

definition limiter_Blocked :: "limiter \<Rightarrow> gtime \<Rightarrow> duration" where
  "limiter_Blocked l now =
     (if \<not> now < l_blockedUntil l then 0 else time_sub (l_blockedUntil l) now)"

definition Advertised :: "limiter \<Rightarrow> bool" where
  "Advertised l = l_advertised l"

text \<open>The minimum starts from plus infinity, so it is the least rate of a non-empty set.\<close>

definition EffectiveRate :: "limiter \<Rightarrow> rat" where
  "EffectiveRate l =
     (case allBuckets l of [] \<Rightarrow> 0 | b # bs \<Rightarrow> foldl (\<lambda>r b. min r (rate b)) (rate b) bs)"

section \<open>Bucket lemmas\<close>

definition bucket_ok :: "bucket \<Rightarrow> bool" where
  "bucket_ok b = (1 \<le> b_limit b \<and> 0 < b_period b \<and> b_tokens b \<le> b_limit b)"

lemma rate_pos: "bucket_ok b \<Longrightarrow> 0 < rate b"
  by (simp add: bucket_ok_def rate_def)

lemma refill_frame [frame_simps, simp]:
  "b_limit (refill b t) = b_limit b" "b_period (refill b t) = b_period b"
  by (simp_all add: refill_def Let_def)

lemma rate_refill [simp]: "rate (refill b t) = rate b"
  by (simp add: rate_def)

lemma spend_frame [frame_simps, simp]:
  "b_limit (spend t b) = b_limit b" "b_period (spend t b) = b_period b"
  by (simp_all add: spend_def Let_def)

lemma rate_spend [simp]: "rate (spend t b) = rate b"
  by (simp add: rate_def)

lemma refill_ok [inv_rules]: "bucket_ok b \<Longrightarrow> bucket_ok (refill b t)"
  by (simp add: bucket_ok_def refill_def Let_def)

lemma spend_ok [inv_rules]: "bucket_ok b \<Longrightarrow> bucket_ok (spend t b)"
  using refill_ok [of b t] by (auto simp: bucket_ok_def spend_def Let_def)

lemma newBucket_ok [inv_rules]: "valid_window w \<Longrightarrow> bucket_ok (newBucket w now)"
  by (simp add: valid_window_def bucket_ok_def newBucket_def)

lemma refill_mono: "bucket_ok b \<Longrightarrow> b_tokens b \<le> b_tokens (refill b t)"
  using rate_pos [of b] by (auto simp: refill_def Let_def bucket_ok_def min_def)

lemma refill_upper:
  assumes "bucket_ok b" and "b_last b \<le> t"
  shows "b_tokens (refill b t) \<le> b_tokens b + rate b * in_seconds (t - b_last b)"
proof (cases "time_sub t (b_last b) \<le> 0")
  case True
  then have "t = b_last b"
    using assms(2) by (simp add: time_sub_nonpos_iff)
  then show ?thesis
    by (simp add: refill_def time_sub_nonpos_iff in_seconds_def)
next
  case False
  have "in_seconds (time_sub t (b_last b)) \<le> in_seconds (t - b_last b)"
    using time_sub_le_diff [OF assms(2)] by (simp add: in_seconds_mono)
  then have "in_seconds (time_sub t (b_last b)) * rate b \<le> in_seconds (t - b_last b) * rate b"
    using rate_pos [OF assms(1)] by (intro mult_right_mono) auto
  with False show ?thesis
    by (simp add: refill_def Let_def min_def mult.commute)
qed

lemma refill_last: "b_last b \<le> t \<Longrightarrow> b_last (refill b t) = t"
  by (auto simp: refill_def Let_def time_sub_nonpos_iff)

lemma waitFor_nonneg: "bucket_ok b \<Longrightarrow> 0 \<le> waitFor b"
proof -
  assume "bucket_ok b"
  then have r: "0 < rate b" by (rule rate_pos)
  have "0 \<le> (1 - b_tokens b) / rate b * (of_int nanos_per_second :: rat)" if "\<not> 1 \<le> b_tokens b"
    using r that by (simp add: nanos_per_second_def)
  then show ?thesis
    unfolding waitFor_def by (metis ceiling_mono ceiling_zero order_refl)
qed

text \<open>After the wait it asks for, and with the clock not behind it, a bucket holds a whole token.\<close>

lemma waitFor_enough:
  assumes ok: "bucket_ok b" and le: "waitFor b \<le> d" and d: "d \<le> max_duration"
  shows "1 \<le> b_tokens (refill b (b_last b + d))"
proof (cases "1 \<le> b_tokens b")
  case True
  then show ?thesis using refill_mono [OF ok, of "b_last b + d"] by linarith
next
  case False
  have r: "0 < rate b" by (rule rate_pos [OF ok])
  have "(1 - b_tokens b) / rate b * of_int nanos_per_second \<le> of_int d"
    using le False by (simp add: waitFor_def ceiling_le_iff)
  then have "1 - b_tokens b \<le> in_seconds d * rate b"
    using r by (simp add: in_seconds_def nanos_per_second_def field_simps)
  moreover have "0 < d"
  proof -
    have "0 < (1 - b_tokens b) / rate b * (of_int nanos_per_second :: rat)"
      using False r by (simp add: nanos_per_second_def)
    then show ?thesis using le False by (simp add: waitFor_def) linarith
  qed
  moreover have "time_sub (b_last b + d) (b_last b) = d"
    using d \<open>0 < d\<close> by (intro trans [OF time_sub_exact]) auto
  ultimately show ?thesis
    using ok by (simp add: refill_def Let_def bucket_ok_def)
qed

section \<open>Waiting\<close>

lemma foldl_max_ge_start:
  fixes w0 :: int
  shows "w0 \<le> foldl (\<lambda>w b. if w < f b then f b else w) w0 bs"
proof (induction bs arbitrary: w0)
  case (Cons x bs)
  have "w0 \<le> (if w0 < f x then f x else w0)" by simp
  also have "\<dots> \<le> foldl (\<lambda>w b. if w < f b then f b else w) (if w0 < f x then f x else w0) bs"
    by (rule Cons.IH)
  finally show ?case by simp
qed simp

lemma foldl_max_ge_elem:
  fixes w0 :: int
  assumes "b \<in> set bs"
  shows "f b \<le> foldl (\<lambda>w b. if w < f b then f b else w) w0 bs"
  using assms
proof (induction bs arbitrary: w0)
  case (Cons x bs)
  show ?case
  proof (cases "b = x")
    case True
    have "f x \<le> (if w0 < f x then f x else w0)" by simp
    also have "\<dots> \<le> foldl (\<lambda>w b. if w < f b then f b else w) (if w0 < f x then f x else w0) bs"
      by (rule foldl_max_ge_start)
    finally show ?thesis by (simp add: True)
  next
    case False
    with Cons show ?thesis by simp
  qed
qed simp

lemma wanted_wait_nonneg: "0 \<le> wanted_wait l now"
proof -
  have "0 \<le> (if now < l_blockedUntil l then time_sub (l_blockedUntil l) now else 0)"
    using time_sub_pos_iff [of "l_blockedUntil l" now] by (auto intro: less_imp_le)
  also have "\<dots> \<le> wanted_wait l now"
    unfolding wanted_wait_def by (rule foldl_max_ge_start)
  finally show ?thesis .
qed

lemma wanted_wait_bucket:
  "b \<in> set (allBuckets l) \<Longrightarrow> waitFor (refill b now) \<le> wanted_wait l now"
  unfolding wanted_wait_def
  by (rule foldl_max_ge_elem [where f = "\<lambda>b. waitFor (refill b now)"])

lemma maxWait_pos: "0 < maxWait" and maxWait_le: "maxWait \<le> max_duration"
  by (simp_all add: maxWait_def duration_defs)

lemma reserve_wait: "fst (reserve l now) = min (wanted_wait l now) maxWait"
  by (simp add: reserve_def Let_def)

lemma reserve_frame [frame_simps]:
  "l_ceiling (snd (reserve l now)) = l_ceiling l"
  "l_maxRetryAfter (snd (reserve l now)) = l_maxRetryAfter l"
  "l_blockedUntil (snd (reserve l now)) = l_blockedUntil l"
  "l_advertised (snd (reserve l now)) = l_advertised l"
  by (simp_all add: reserve_def Let_def)

lemma reserve_buckets:
  "l_app (snd (reserve l now)) =
     map (\<lambda>b. spend (now + fst (reserve l now)) (refill b now)) (l_app l)"
  "l_method (snd (reserve l now)) =
     map (\<lambda>b. spend (now + fst (reserve l now)) (refill b now)) (l_method l)"
  by (simp_all add: reserve_def Let_def)

lemma reserve_allBuckets:
  "allBuckets (snd (reserve l now)) =
     map (\<lambda>b. spend (now + fst (reserve l now)) (refill b now)) (allBuckets l)"
  by (simp add: allBuckets_def reserve_buckets)

end
