(* ===== verification/Limiter_Props.thy ===== *)
theory Limiter_Props
  imports Riot_Limiter
begin

text \<open>
  Properties of the adaptive limiter: the invariant that the configured ceiling is always
  among the buckets, its preservation by every operation, the bound on the number of requests
  a sequential caller can make, and what resizing does to the balances.
\<close>

section \<open>Resizing\<close>

lemma resize_shape [simp]:
  "b_limit (resize bs w now) = of_int (w_limit w)" "b_period (resize bs w now) = w_period w"
  by (induction bs) (auto simp: newBucket_def Let_def)

lemma resize_tokens_le: "b_tokens (resize bs w now) \<le> of_int (w_limit w)"
  by (induction bs) (auto simp: newBucket_def Let_def)

lemma resize_eq:
  assumes "distinct (map b_period bs)" and "b \<in> set bs" and "b_period b = w_period w"
  shows "resize bs w now =
    (refill b now)\<lparr>b_limit := of_int (w_limit w), b_tokens := min (b_tokens (refill b now)) (of_int (w_limit w))\<rparr>"
  using assms by (induction bs) (auto simp: Let_def image_iff)

lemma apply_count_shape [simp]:
  "b_limit (apply_count counts w b) = b_limit b" "b_period (apply_count counts w b) = b_period b"
  "b_last (apply_count counts w b) = b_last b"
  by (simp_all add: apply_count_def Let_def split: option.splits)

lemma apply_count_tokens_le: "b_tokens (apply_count counts w b) \<le> b_tokens b"
  by (simp add: apply_count_def Let_def split: option.splits)

lemma resized_ok: "valid_window w \<Longrightarrow> bucket_ok (apply_count counts w (resize bs w now))"
  using order_trans [OF apply_count_tokens_le resize_tokens_le]
  by (simp add: bucket_ok_def valid_window_def)

lemma add_windows_ok: "b \<in> set (add_windows cur counts now added ws) \<Longrightarrow> bucket_ok b"
  by (induction ws arbitrary: added) (auto simp: resized_ok valid_window_def split: if_splits)

lemma add_windows_periods:
  "b_period ` set (add_windows cur counts now added ws) =
     w_period ` {w \<in> set ws. valid_window w} - added"
  by (induction ws arbitrary: added) (auto simp: valid_window_def)

lemma add_windows_distinct: "distinct (map b_period (add_windows cur counts now added ws))"
proof (induction ws arbitrary: added)
  case (Cons w ws)
  have "w_period w \<notin> b_period ` set (add_windows cur counts now (insert (w_period w) added) ws)"
    by (simp add: add_windows_periods)
  with Cons show ?case by simp
qed simp

lemma add_windows_covers:
  assumes "w \<in> set ws" and "valid_window w" and "w_period w \<notin> added"
  shows "\<exists>w' \<in> set ws. valid_window w' \<and> w_period w' = w_period w \<and>
           apply_count counts w' (resize cur w' now) \<in> set (add_windows cur counts now added ws)"
  using assms
proof (induction ws arbitrary: added)
  case (Cons x ws)
  show ?case
  proof (cases "valid_window x \<and> w_period x \<notin> added")
    case True
    show ?thesis
    proof (cases "w_period w = w_period x")
      case True
      with \<open>valid_window x \<and> w_period x \<notin> added\<close> show ?thesis
        by (intro bexI [of _ x]) (auto simp: valid_window_def)
    next
      case False
      then have "w \<in> set ws" "w_period w \<notin> insert (w_period x) added"
        using Cons.prems by auto
      from Cons.IH [OF this(1) Cons.prems(2) this(2)] True show ?thesis
        by (auto simp: valid_window_def)
    qed
  next
    case False
    with Cons.prems have "w \<in> set ws" by auto
    from Cons.IH [OF this Cons.prems(2,3)] False show ?thesis
      by (auto simp: valid_window_def)
  qed
qed simp

lemma clampTo_le:
  assumes "distinct (map w_period cs)" and "c \<in> set cs" and "w_period w = w_period c"
  shows "fst (clampTo w cs) \<le> w_limit c"
  using assms
proof (induction cs)
  case (Cons x cs)
  show ?case
  proof (cases "c = x")
    case True
    have "fst (clampTo w ds) \<le> w_limit w" for ds by (induction ds) auto
    from this [of cs] show ?thesis
      using True Cons.prems by simp
  next
    case False
    then show ?thesis using Cons by auto
  qed
qed simp

lemma clampTo_unclamped: "\<not> snd (clampTo w cs) \<Longrightarrow> fst (clampTo w cs) = w_limit w"
  by (induction cs) (auto split: if_splits)

lemma clamp_window_shape [simp]:
  "w_period (clamp_window cs w) = w_period w" "w_limit (clamp_window cs w) = fst (clampTo w cs)"
  using clampTo_unclamped [of w cs] by (auto simp: clamp_window_def split: prod.splits)

section \<open>The ceiling invariant\<close>

definition covers :: "bucket list \<Rightarrow> window \<Rightarrow> bool" where
  "covers bs c = (\<exists>b \<in> set bs. b_period b = w_period c \<and> b_limit b \<le> of_int (w_limit c))"

definition limiter_inv :: "limiter \<Rightarrow> bool" where
  "limiter_inv l =
     ((\<forall>b \<in> set (allBuckets l). bucket_ok b) \<and> distinct (map b_period (l_app l)) \<and>
      distinct (map w_period (l_ceiling l)) \<and>
      (\<forall>c \<in> set (l_ceiling l). valid_window c \<longrightarrow> covers (l_app l) c))"

lemma limiter_invD:
  assumes "limiter_inv l"
  shows "b \<in> set (allBuckets l) \<Longrightarrow> bucket_ok b" "distinct (map b_period (l_app l))"
    "distinct (map w_period (l_ceiling l))"
    "c \<in> set (l_ceiling l) \<Longrightarrow> valid_window c \<Longrightarrow> covers (l_app l) c"
  using assms by (auto simp: limiter_inv_def)

lemma resolve_ok: "b \<in> set (resolve cs cur adv counts now) \<Longrightarrow> bucket_ok b"
  by (auto simp: resolve_def dest: add_windows_ok)

lemma resolve_bucket:
  assumes "distinct (map w_period cs)" and "c \<in> set cs" and "valid_window c"
  obtains w where "w_period w = w_period c" "w_limit w \<le> w_limit c" "valid_window w"
    "apply_count counts w (resize cur w now) \<in> set (resolve cs cur adv counts now)"
proof -
  let ?ws = "map (clamp_window cs) adv @ cs"
  obtain w where w: "w \<in> set ?ws" "valid_window w" "w_period w = w_period c"
    "apply_count counts w (resize cur w now) \<in> set (add_windows cur counts now {} ?ws)"
    using add_windows_covers [of c ?ws "{}" counts cur now] assms(2,3) by auto
  have "w_limit w \<le> w_limit c"
    using w(1,3) assms(1,2) clampTo_le by (auto dest: eq_key_imp_eq_value simp: distinct_map inj_on_def)
  with w show thesis by (auto intro: that simp: resolve_def)
qed

lemma resolve_covers:
  assumes "distinct (map w_period cs)" and "c \<in> set cs" and "valid_window c"
  shows "covers (resolve cs cur adv counts now) c"
proof -
  obtain w where "w_period w = w_period c" "w_limit w \<le> w_limit c"
    "apply_count counts w (resize cur w now) \<in> set (resolve cs cur adv counts now)"
    using resolve_bucket [OF assms] by blast
  then show ?thesis
    unfolding covers_def by (intro bexI) auto
qed

lemma resolve_distinct: "distinct (map b_period (resolve cs cur adv counts now))"
  by (simp add: resolve_def add_windows_distinct)

lemma Observe_frame [frame_simps]:
  "l_ceiling (Observe l h now) = l_ceiling l" "l_blockedUntil (Observe l h now) = l_blockedUntil l"
  by (simp_all add: Observe_def Let_def)

lemma Observe_app:
  "l_app (Observe l h now) =
     (if HasApplication h then resolve (l_ceiling l) (l_app l) (AppLimit h) (AppCount h) now else l_app l)"
  by (simp add: Observe_def Let_def)

lemma Observe_method:
  "l_method (Observe l h now) =
     (if HasMethod h then resolve (l_ceiling l) (l_method l) (MethodLimit h) (MethodCount h) now else l_method l)"
  by (simp add: Observe_def Let_def)

lemma Penalize_frame [frame_simps]:
  "l_ceiling (Penalize l d now) = l_ceiling l" "l_app (Penalize l d now) = l_app l"
  "l_method (Penalize l d now) = l_method l"
  by (simp_all add: Penalize_def Let_def)

lemma newBuckets_covers: "c \<in> set cs \<Longrightarrow> valid_window c \<Longrightarrow> covers (newBuckets cs now) c"
  by (force simp: covers_def newBuckets_def newBucket_def valid_window_def)

lemma newBuckets_distinct: "distinct (map w_period cs) \<Longrightarrow> distinct (map b_period (newBuckets cs now))"
  by (induction cs) (auto simp: newBuckets_def newBucket_def image_iff)

lemma NewLimiter_inv [inv_rules]:
  assumes "distinct (map w_period cs)"
  shows "limiter_inv (NewLimiter cs [] mra now)"
proof -
  have d: "distinct (map w_period (if cs = [] then DevelopmentKeyWindows else cs))"
    using assms by (simp add: DevelopmentKeyWindows_def duration_defs)
  have "bucket_ok b" if "b \<in> set (newBuckets ws now)" for b ws
    using that by (auto simp: newBuckets_def intro!: newBucket_ok simp: valid_window_def)
  with d newBuckets_distinct [OF d] newBuckets_covers show ?thesis
    by (auto simp: limiter_inv_def NewLimiter_def Let_def allBuckets_def)
qed

lemma reserve_inv [inv_rules]:
  assumes "limiter_inv l"
  shows "limiter_inv (snd (reserve l now))"
proof -
  have "map b_period (l_app (snd (reserve l now))) = map b_period (l_app l)"
    by (simp add: reserve_buckets comp_def)
  moreover have "covers (l_app (snd (reserve l now))) c" if "covers (l_app l) c" for c
    using that by (auto simp: covers_def reserve_buckets)
  ultimately show ?thesis
    using assms
    by (auto simp: limiter_inv_def reserve_allBuckets frame_simps intro: refill_ok spend_ok)
qed

lemma Observe_inv [inv_rules]:
  assumes "limiter_inv l"
  shows "limiter_inv (Observe l h now)"
  using assms resolve_covers resolve_distinct
  by (auto simp: limiter_inv_def allBuckets_def Observe_app Observe_method frame_simps dest: resolve_ok)

lemma Penalize_inv [inv_rules]: "limiter_inv l \<Longrightarrow> limiter_inv (Penalize l d now)"
  by (simp add: limiter_inv_def allBuckets_def frame_simps)

section \<open>Reachable limiters\<close>

text \<open>
  The limiter a process builds from its configured ceiling (no bootstrap of its own, as
  \<^verbatim>\<open>newRiotClient\<close> wires it), after any sequence of its operations.
\<close>

inductive limiter_reach :: "window list \<Rightarrow> limiter \<Rightarrow> bool" for cs where
  start: "limiter_reach cs (NewLimiter cs [] mra now)"
| reserve: "limiter_reach cs l \<Longrightarrow> limiter_reach cs (snd (reserve l now))"
| observe: "limiter_reach cs l \<Longrightarrow> limiter_reach cs (Observe l h now)"
| penalize: "limiter_reach cs l \<Longrightarrow> limiter_reach cs (Penalize l d now)"

inductive_cases limiter_reachE: "limiter_reach cs l"

lemma limiter_reach_inv:
  assumes "limiter_reach cs l" and "distinct (map w_period cs)"
  shows "limiter_inv l"
  using assms by induction (auto intro: inv_rules)

lemma limiter_reach_ceiling:
  "limiter_reach cs l \<Longrightarrow> l_ceiling l = (if cs = [] then DevelopmentKeyWindows else cs)"
  by (induction rule: limiter_reach.induct) (auto simp: NewLimiter_def Let_def frame_simps)

lemma foldl_min_le_start:
  fixes r0 :: rat
  shows "foldl (\<lambda>r b. min r (f b)) r0 bs \<le> r0"
proof (induction bs arbitrary: r0)
  case (Cons b bs)
  have "foldl (\<lambda>r b. min r (f b)) (min r0 (f b)) bs \<le> min r0 (f b)" by (rule Cons.IH)
  also have "\<dots> \<le> r0" by simp
  finally show ?case by simp
qed simp

lemma foldl_min_le_elem:
  fixes r0 :: rat
  shows "b \<in> set bs \<Longrightarrow> foldl (\<lambda>r b. min r (f b)) r0 bs \<le> f b"
  by (induction bs arbitrary: r0) (auto intro: order_trans [OF foldl_min_le_start min.cobounded2])

lemma foldl_min_pos:
  fixes r0 :: rat
  shows "0 < r0 \<Longrightarrow> (\<And>b. b \<in> set bs \<Longrightarrow> 0 < f b) \<Longrightarrow> 0 < foldl (\<lambda>r b. min r (f b)) r0 bs"
  by (induction bs arbitrary: r0) auto

lemma EffectiveRate_le: "b \<in> set (allBuckets l) \<Longrightarrow> EffectiveRate l \<le> rate b"
  by (auto simp: EffectiveRate_def split: list.splits
      intro: foldl_min_le_start foldl_min_le_elem)

lemma EffectiveRate_pos:
  "limiter_inv l \<Longrightarrow> allBuckets l \<noteq> [] \<Longrightarrow> 0 < EffectiveRate l"
  by (auto simp: EffectiveRate_def split: list.splits
      intro!: foldl_min_pos rate_pos dest: limiter_invD(1))

definition window_rate :: "window \<Rightarrow> rat" where
  "window_rate c = of_int (w_limit c) / in_seconds (w_period c)"

lemma rate_le_window:
  assumes "b_period b = w_period c" "b_limit b \<le> of_int (w_limit c)" "valid_window c"
  shows "rate b \<le> window_rate c"
  using assms by (simp add: rate_def window_rate_def valid_window_def divide_right_mono)

text \<open>
  C13: Whatever headers Riot sends and however often, the rate the limiter runs at stays at or
  below the rate of every configured ceiling window, and it is never zero: an advertised
  window can lower the rate but neither raise it above the ceiling nor drop the ceiling.
\<close>

theorem ceiling_is_authoritative:
  assumes "limiter_reach cs l" and "distinct (map w_period cs)"
    and "c \<in> set cs" and "valid_window c"
  shows "0 < EffectiveRate l \<and> EffectiveRate l \<le> window_rate c"
proof -
  have inv: "limiter_inv l" and c: "c \<in> set (l_ceiling l)"
    using limiter_reach_inv [OF assms(1,2)] limiter_reach_ceiling [OF assms(1)] assms(3) by auto
  then obtain b where b: "b \<in> set (l_app l)" "b_period b = w_period c" "b_limit b \<le> of_int (w_limit c)"
    using limiter_invD(4) [OF inv c assms(4)] by (auto simp: covers_def)
  then have "EffectiveRate l \<le> window_rate c"
    using EffectiveRate_le [of b l] rate_le_window [OF b(2,3) assms(4)] by (simp add: allBuckets_def)
  moreover have "0 < EffectiveRate l"
    using b(1) by (intro EffectiveRate_pos inv) (auto simp: allBuckets_def)
  ultimately show ?thesis by simp
qed

section \<open>How many requests get through\<close>

datatype limiter_event =
    EReserve gtime
  | EObserve rateLimitHeaders gtime
  | EPenalize duration gtime

text \<open>The instants at which the reservations of a run are released.\<close>

fun releases :: "limiter \<Rightarrow> limiter_event list \<Rightarrow> gtime list" where
  "releases l [] = []"
| "releases l (EReserve now # es) =
     (now + fst (reserve l now)) # releases (snd (reserve l now)) es"
| "releases l (EObserve h now # es) = releases (Observe l h now) es"
| "releases l (EPenalize d now # es) = releases (Penalize l d now) es"

text \<open>
  A caller that waits each reservation out before it does anything else, with no wait cut
  short by the cap of thirty minutes: \<open>t\<close> is the instant the previous event ended.
\<close>

fun orderly :: "limiter \<Rightarrow> gtime \<Rightarrow> limiter_event list \<Rightarrow> bool" where
  "orderly l t [] = True"
| "orderly l t (EReserve now # es) =
     (t \<le> now \<and> wanted_wait l now \<le> maxWait \<and>
      orderly (snd (reserve l now)) (now + fst (reserve l now)) es)"
| "orderly l t (EObserve h now # es) = (t \<le> now \<and> orderly (Observe l h now) now es)"
| "orderly l t (EPenalize d now # es) = (t \<le> now \<and> orderly (Penalize l d now) now es)"

definition not_ahead :: "limiter \<Rightarrow> gtime \<Rightarrow> bool" where
  "not_ahead l t = (\<forall>b \<in> set (allBuckets l). b_last b \<le> t)"

lemma not_ahead_mono: "not_ahead l t \<Longrightarrow> t \<le> t' \<Longrightarrow> not_ahead l t'"
  by (auto simp: not_ahead_def intro: order_trans)

lemma spend_last: "b_last b \<le> t \<Longrightarrow> b_last (spend t b) = t"
  by (simp add: spend_def Let_def refill_last)

lemma reserve_not_ahead:
  assumes "not_ahead l now"
  shows "not_ahead (snd (reserve l now)) (now + fst (reserve l now))"
proof -
  have w: "0 \<le> fst (reserve l now)"
    using wanted_wait_nonneg [of l now] maxWait_pos by (simp add: reserve_wait)
  have "b_last (spend (now + fst (reserve l now)) (refill b now)) = now + fst (reserve l now)"
    if "b \<in> set (allBuckets l)" for b
    using assms that w by (intro spend_last) (auto simp: not_ahead_def refill_last)
  then show ?thesis by (auto simp: not_ahead_def reserve_allBuckets)
qed

lemma resize_last: "\<forall>b \<in> set bs. b_last b \<le> now \<Longrightarrow> b_last (resize bs w now) = now"
  by (induction bs) (auto simp: newBucket_def Let_def refill_last)

lemma add_windows_last:
  "\<forall>b \<in> set bs. b_last b \<le> now \<Longrightarrow> b \<in> set (add_windows bs counts now added ws) \<Longrightarrow> b_last b = now"
  by (induction ws arbitrary: added) (auto simp: resize_last split: if_splits)

lemma Observe_not_ahead: "not_ahead l now \<Longrightarrow> not_ahead (Observe l h now) now"
  by (auto simp: not_ahead_def allBuckets_def Observe_app Observe_method resolve_def
      dest!: add_windows_last [rotated])

lemma Penalize_not_ahead: "not_ahead l t \<Longrightarrow> not_ahead (Penalize l d now) t"
  by (simp add: not_ahead_def allBuckets_def frame_simps)

text \<open>One reservation: the balance never goes negative and pays one token for the time passed.\<close>

lemma spend_balance:
  assumes ok: "bucket_ok b" and last: "b_last b \<le> now"
    and w: "waitFor (refill b now) \<le> w" "0 \<le> w" "w \<le> maxWait"
  shows "0 \<le> b_tokens (spend (now + w) (refill b now))"
    and "b_tokens (spend (now + w) (refill b now)) + 1
         \<le> b_tokens b + rate b * in_seconds (now + w - b_last b)"
proof -
  let ?r = "refill b now"
  have ok': "bucket_ok ?r" by (rule refill_ok [OF ok])
  have l': "b_last ?r = now" by (rule refill_last [OF last])
  have 1: "1 \<le> b_tokens (refill ?r (now + w))"
    using waitFor_enough [OF ok' w(1)] w(3) maxWait_le l' by simp
  then have eq: "b_tokens (spend (now + w) ?r) = b_tokens (refill ?r (now + w)) - 1"
    using ok by (simp add: spend_def Let_def bucket_ok_def max_def)
  with 1 show "0 \<le> b_tokens (spend (now + w) ?r)" by simp
  have "b_tokens (refill ?r (now + w)) \<le> b_tokens ?r + rate b * in_seconds w"
    using refill_upper [OF ok', of "now + w"] l' w(2) by simp
  moreover have "b_tokens ?r \<le> b_tokens b + rate b * in_seconds (now - b_last b)"
    by (rule refill_upper [OF ok last])
  moreover have "in_seconds (now + w - b_last b) = in_seconds (now - b_last b) + in_seconds w"
    by (simp add: in_seconds_add in_seconds_diff)
  ultimately show "b_tokens (spend (now + w) ?r) + 1 \<le> b_tokens b + rate b * in_seconds (now + w - b_last b)"
    using eq by (simp add: distrib_left)
qed

text \<open>Observing a response never refills the bucket of a ceiling window.\<close>

lemma Observe_bucket:
  assumes inv: "limiter_inv l" and c: "c \<in> set (l_ceiling l)" "valid_window c"
    and b: "b \<in> set (l_app l)" "b_period b = w_period c" "b_limit b \<le> of_int (w_limit c)" "b_last b \<le> now"
  obtains b' where "b' \<in> set (l_app (Observe l h now))" "b_period b' = w_period c"
    "b_limit b' \<le> of_int (w_limit c)" "b_last b \<le> b_last b'"
    "b_tokens b' + rate b * in_seconds (b_last b - b_last b') \<le> b_tokens b"
proof (cases "HasApplication h")
  case False
  then show thesis
    using b by (intro that [of b]) (auto simp: Observe_app in_seconds_def)
next
  case True
  obtain w where w: "w_period w = w_period c" "w_limit w \<le> w_limit c" "valid_window w"
    "apply_count (AppCount h) w (resize (l_app l) w now) \<in> set (l_app (Observe l h now))"
    using resolve_bucket [OF limiter_invD(3) [OF inv] c] True by (metis Observe_app)
  let ?b' = "apply_count (AppCount h) w (resize (l_app l) w now)"
  have r: "resize (l_app l) w now = (refill b now)\<lparr>b_limit := of_int (w_limit w),
      b_tokens := min (b_tokens (refill b now)) (of_int (w_limit w))\<rparr>"
    using limiter_invD(2) [OF inv] b(1,2) w(1) by (intro resize_eq) auto
  have ok: "bucket_ok b" using limiter_invD(1) [OF inv] b(1) by (simp add: allBuckets_def)
  have last: "b_last ?b' = now" using b(4) by (simp add: r refill_last)
  have "b_tokens ?b' \<le> b_tokens (refill b now)"
    using order_trans [OF apply_count_tokens_le, of "resize (l_app l) w now"] by (simp add: r)
  also have "\<dots> \<le> b_tokens b + rate b * in_seconds (now - b_last b)"
    by (rule refill_upper [OF ok b(4)])
  finally have "b_tokens ?b' + rate b * in_seconds (b_last b - b_last ?b') \<le> b_tokens b"
    unfolding last by (simp add: in_seconds_diff right_diff_distrib)
  then show thesis
    using w last b(4) by (intro that [of ?b']) auto
qed

lemma releases_balance:
  assumes "limiter_inv l" "not_ahead l t" "orderly l t es" "c \<in> set (l_ceiling l)" "valid_window c"
    and "b \<in> set (l_app l)" "b_period b = w_period c" "b_limit b \<le> of_int (w_limit c)"
    and "releases l es \<noteq> []"
  shows "of_nat (length (releases l es))
         \<le> b_tokens b + window_rate c * in_seconds (last (releases l es) - b_last b)"
  using assms
proof (induction l es arbitrary: t b rule: releases.induct)
  case (2 l now es)
  let ?w = "fst (reserve l now)" and ?l = "snd (reserve l now)"
  have ok: "bucket_ok b" and last: "b_last b \<le> now" and na: "not_ahead l now"
    using "2.prems" limiter_invD(1) not_ahead_mono by (auto simp: not_ahead_def allBuckets_def)
  have w: "waitFor (refill b now) \<le> ?w" "0 \<le> ?w" "?w \<le> maxWait"
    using wanted_wait_bucket [of b l now] wanted_wait_nonneg [of l now] maxWait_pos "2.prems"
    by (auto simp: reserve_wait allBuckets_def)
  let ?b = "spend (now + ?w) (refill b now)"
  have b': "?b \<in> set (l_app ?l)" "b_last ?b = now + ?w"
    using "2.prems"(6) last w(2) by (auto simp: reserve_buckets spend_last refill_last)
  have "rate b * in_seconds (now + ?w - b_last b) \<le> window_rate c * in_seconds (now + ?w - b_last b)"
    using rate_le_window [OF "2.prems"(7,8,5)] last w(2) by (intro mult_right_mono) auto
  then have one: "b_tokens ?b + 1 \<le> b_tokens b + window_rate c * in_seconds (now + ?w - b_last b)"
    using spend_balance(2) [OF ok last w] by linarith
  have rel: "releases l (EReserve now # es) = (now + ?w) # releases ?l es"
    by simp
  show ?case
  proof (cases "releases ?l es = []")
    case True
    then show ?thesis unfolding rel using one spend_balance(1) [OF ok last w] by simp
  next
    case False
    have "of_nat (length (releases ?l es))
          \<le> b_tokens ?b + window_rate c * in_seconds (last (releases ?l es) - b_last ?b)"
      using "2.prems" b' False reserve_not_ahead [OF na]
      by (intro "2.IH") (auto simp: frame_simps intro: inv_rules)
    moreover have "in_seconds (last (releases ?l es) - b_last b) =
        in_seconds (now + ?w - b_last b) + in_seconds (last (releases ?l es) - b_last ?b)"
      by (simp add: b'(2) in_seconds_add in_seconds_diff)
    ultimately show ?thesis
      unfolding rel using one False by (simp add: distrib_left)
  qed
next
  case (3 l h now es)
  have last: "b_last b \<le> now" and na: "not_ahead l now" and ok: "bucket_ok b"
    using "3.prems" limiter_invD(1) not_ahead_mono by (auto simp: not_ahead_def allBuckets_def)
  obtain b' where b': "b' \<in> set (l_app (Observe l h now))" "b_period b' = w_period c"
    "b_limit b' \<le> of_int (w_limit c)" "b_last b \<le> b_last b'"
    "b_tokens b' + rate b * in_seconds (b_last b - b_last b') \<le> b_tokens b"
    using Observe_bucket [OF "3.prems"(1,4,5,6,7,8) last] by metis
  have "of_nat (length (releases (Observe l h now) es))
      \<le> b_tokens b' + window_rate c * in_seconds (last (releases (Observe l h now) es) - b_last b')"
    using "3.prems" b' Observe_not_ahead [OF na]
    by (intro "3.IH") (auto simp: frame_simps intro: inv_rules)
  moreover have "rate b * in_seconds (b_last b' - b_last b) \<le> window_rate c * in_seconds (b_last b' - b_last b)"
    using rate_le_window [OF "3.prems"(7,8,5)] b'(4) by (intro mult_right_mono) auto
  ultimately show ?case
    using b'(5) by (simp add: in_seconds_diff right_diff_distrib)
next
  case (4 l d now es)
  then show ?case
    by (simp add: frame_simps Penalize_inv)
      (metis Penalize_inv Penalize_frame Penalize_not_ahead not_ahead_mono)
qed simp

text \<open>
  C3: However Riot's headers and its Retry-After suspensions interleave with the calls, one
  caller that makes its calls in turn, waiting out each reservation before the next, with no wait
  longer than the cap, releases at most the ceiling window's burst plus its rate times the elapsed time,
  for every configured ceiling window. Of several callers at once this does not hold
  (\<open>concurrent_callers_share_a_slot\<close>).
\<close>

theorem releases_within_ceiling:
  assumes "distinct (map w_period cs)" and "c \<in> set cs" and "valid_window c"
    and "orderly (NewLimiter cs [] mra t0) t0 es"
    and "releases (NewLimiter cs [] mra t0) es = rs" and "rs \<noteq> []"
  shows "of_nat (length rs) \<le> of_int (w_limit c) + window_rate c * in_seconds (last rs - t0)"
proof -
  let ?l = "NewLimiter cs [] mra t0" and ?b = "newBucket c t0"
  have "cs \<noteq> []" using assms(2) by auto
  then have "?b \<in> set (l_app ?l)" "c \<in> set (l_ceiling ?l)" "not_ahead ?l t0"
    using assms(2,3)
    by (auto simp: NewLimiter_def Let_def newBuckets_def valid_window_def not_ahead_def
        allBuckets_def newBucket_def)
  from releases_balance [OF NewLimiter_inv [OF assms(1)] this(3) assms(4) this(2) assms(3) this(1)]
  show ?thesis
    using assms(5,6) by (simp add: newBucket_def)
qed

theorem releases_within_ceiling_witness:
  "of_nat (length [0, 0, minutes 1]) \<le>
     of_int 2 + window_rate \<lparr>w_limit = 2, w_period = minutes 2\<rparr> * in_seconds (minutes 1 - 0)"
proof -
  let ?c = "\<lparr>w_limit = 2, w_period = minutes 2\<rparr>"
  let ?l = "NewLimiter [?c] [] 0 0" and ?es = "[EReserve 0, EReserve 0, EReserve 0]"
  have "orderly ?l 0 ?es" by code_simp
  moreover have "releases ?l ?es = [0, 0, minutes 1]" by code_simp
  moreover have "valid_window ?c" by (simp add: valid_window_def duration_defs)
  ultimately show ?thesis
    using releases_within_ceiling [of "[?c]" ?c 0 0 ?es "[0, 0, minutes 1]"] by simp
qed

text \<open>A reservation never asks the caller to sleep for more than thirty minutes, in any state.\<close>

theorem reserve_wait_bounded:
  "0 \<le> fst (reserve l now) \<and> fst (reserve l now) \<le> minutes 30"
  using wanted_wait_nonneg [of l now] maxWait_pos by (simp add: reserve_wait maxWait_def)

text \<open>
  Within one instant the tokens of future instants are not told apart: after a bucket of
  one request per second has been used, two more callers at the same instant are both told to
  wait one second, so both are released together, one more than the window allows.
\<close>

theorem concurrent_callers_share_a_slot:
  "releases (NewLimiter [\<lparr>w_limit = 1, w_period = seconds 1\<rparr>] [] 0 0) [EReserve 0, EReserve 0, EReserve 0]
   = [0, seconds 1, seconds 1]"
  by code_simp

text \<open>
  Resizing does not keep the debt within one window: a bucket that owes 90 of 100 requests
  and is shrunk to a limit of 10 is left below the floor of one window's worth that every write
  of a balance is said to keep, and asks for more than nine periods of waiting.
\<close>

theorem resize_exceeds_debt_floor:
  "let b = \<lparr>b_limit = 100, b_period = seconds 10, b_tokens = -90, b_last = 0\<rparr>;
       b' = resize [b] \<lparr>w_limit = 10, w_period = seconds 10\<rparr> 0
   in b_tokens b' < - b_limit b' \<and> waitFor b' = seconds 91"
  by code_simp

text \<open>
  Observing a response never hands a window its allowance back: for every period already
  known to the application scope, the new balance is at most what the old bucket had refilled to.
\<close>

theorem observe_never_refills:
  assumes inv: "limiter_inv l" and b: "b \<in> set (l_app l)"
    and b': "b' \<in> set (l_app (Observe l h now))" "b_period b' = b_period b"
  shows "b_tokens b' \<le> b_tokens (refill b now)"
proof (cases "HasApplication h")
  case False
  then have "b' = b"
    using limiter_invD(2) [OF inv] b b' by (auto simp: Observe_app distinct_map inj_on_def)
  then show ?thesis
    using limiter_invD(1) [OF inv] b by (simp add: refill_mono allBuckets_def)
next
  case True
  have "b_tokens b' \<le> b_tokens (refill b now)"
    if "b' \<in> set (add_windows (l_app l) counts now added ws)" for counts added ws
    using that
  proof (induction ws arbitrary: added)
    case (Cons w ws)
    have "b_tokens (apply_count counts w (resize (l_app l) w now)) \<le> b_tokens (refill b now)"
      if "w_period w = b_period b"
      using resize_eq [OF limiter_invD(2) [OF inv] b, of w now] that
        order_trans [OF apply_count_tokens_le, of "resize (l_app l) w now"] by simp
    with Cons b'(2) show ?case by (auto split: if_splits)
  qed simp
  with True b'(1) show ?thesis by (auto simp: Observe_app resolve_def)
qed

theorem observe_never_refills_witness:
  "b_tokens (hd (l_app (Observe (NewLimiter [\<lparr>w_limit = 2, w_period = seconds 1\<rparr>] [] 0 0)
      (readRateLimitHeaders (\<lambda>n. if n = ''X-App-Rate-Limit'' then ''5:1'' else [])) 7)))
   \<le> b_tokens (refill (newBucket \<lparr>w_limit = 2, w_period = seconds 1\<rparr> 0) 7)"
proof (rule observe_never_refills)
  let ?c = "\<lparr>w_limit = 2, w_period = seconds 1\<rparr>"
  let ?l = "NewLimiter [?c] [] 0 0"
  let ?l' = "Observe ?l (readRateLimitHeaders (\<lambda>n. if n = ''X-App-Rate-Limit'' then ''5:1'' else [])) 7"
  show "limiter_inv ?l" by (rule NewLimiter_inv) simp
  show "newBucket ?c 0 \<in> set (l_app ?l)"
    by (simp add: NewLimiter_def newBuckets_def duration_defs)
  show "hd (l_app ?l') \<in> set (l_app ?l')" by (rule hd_in_set) code_simp
  show "b_period (hd (l_app ?l')) = b_period (newBucket ?c 0)" by code_simp
qed

text \<open>
  A suspension is honoured by every caller: after \<^verbatim>\<open>Penalize\<close> with a delay within the cap,
  a reservation is not released before the suspension ends, unless that is further away than the
  limiter's own cap on a wait.
\<close>

theorem penalty_is_served:
  assumes "0 < d" and "d \<le> l_maxRetryAfter l" and "t0 \<le> now" and "now + maxWait \<ge> t0 + d"
  shows "t0 + d \<le> now + fst (reserve (Penalize l d t0) now)"
proof -
  let ?l = "Penalize l d t0"
  have until: "t0 + d \<le> l_blockedUntil ?l"
    using assms(1,2) by (auto simp: Penalize_def Let_def)
  have "min (t0 + d - now) max_duration \<le> wanted_wait ?l now" if "now < t0 + d"
  proof -
    have "min (t0 + d - now) max_duration \<le> time_sub (l_blockedUntil ?l) now"
      using until that by (auto simp: time_sub_def duration_defs)
    also have "\<dots> \<le> wanted_wait ?l now"
      using until that foldl_max_ge_start [of "time_sub (l_blockedUntil ?l) now"]
      by (simp add: wanted_wait_def)
    finally show ?thesis .
  qed
  then show ?thesis
    using assms(4) maxWait_le wanted_wait_nonneg [of ?l now] by (cases "now < t0 + d") (auto simp: reserve_wait)
qed

theorem penalty_is_served_witness:
  "seconds 15 \<le> 0 + fst (reserve (Penalize (NewLimiter [] [] 0 0) (seconds 15) 0) 0)"
  using penalty_is_served [of "seconds 15" "NewLimiter [] [] 0 0" 0 0]
  by (simp add: NewLimiter_def defaultMaxRetryAfter_def maxWait_def duration_defs)

text \<open>Witness for the ceiling theorem.\<close>

theorem ceiling_is_authoritative_witness:
  "0 < EffectiveRate (NewLimiter DevelopmentKeyWindows [] 0 0) \<and>
   EffectiveRate (NewLimiter DevelopmentKeyWindows [] 0 0)
     \<le> window_rate \<lparr>w_limit = 100, w_period = minutes 2\<rparr>"
  by (rule ceiling_is_authoritative [OF limiter_reach.start])
    (simp_all add: DevelopmentKeyWindows_def valid_window_def duration_defs)

end
