(* ===== verification/Riot_Clock.thy ===== *)
theory Riot_Clock
  imports Prelude
begin

text \<open>
  Time and cancellation (\<^verbatim>\<open>internal/riot/clock.go\<close> and Go's \<^verbatim>\<open>context\<close>). A context is the
  instant at which it becomes done and why: \<^verbatim>\<open>WithTimeout\<close> keeps the earlier of the parent's
  instant and its own deadline, and \<^verbatim>\<open>ctx.Err()\<close> is a comparison with the clock. A sleep on
  the real clock ends at the timer or at the context's instant, whichever comes first; when the
  two coincide the runtime may choose either, and the model takes the timer.
\<close>

datatype ctx_err = Canceled | DeadlineExceeded

type_synonym ctx = "(gtime \<times> ctx_err) option"

definition background :: ctx where
  "background = None"

definition ctx_err :: "ctx \<Rightarrow> gtime \<Rightarrow> ctx_err option" where
  "ctx_err c now =
     (case c of None \<Rightarrow> None | Some (t, e) \<Rightarrow> if t \<le> now then Some e else None)"

definition with_timeout :: "ctx \<Rightarrow> gtime \<Rightarrow> duration \<Rightarrow> ctx" where
  "with_timeout c now d =
     (case c of
        None \<Rightarrow> Some (now + d, DeadlineExceeded)
      | Some (t, e) \<Rightarrow> if t \<le> now + d then Some (t, e) else Some (now + d, DeadlineExceeded))"

text \<open>\<^verbatim>\<open>context.WithoutCancel\<close> drops the parent's cancellation.\<close>

definition without_cancel :: "ctx \<Rightarrow> ctx" where
  "without_cancel c = None"

text \<open>\<^verbatim>\<open>RealClock.Sleep\<close>: the instant it returns at, and its error.\<close>

definition clock_sleep :: "ctx \<Rightarrow> gtime \<Rightarrow> duration \<Rightarrow> gtime \<times> ctx_err option" where
  "clock_sleep c now d =
     (if d \<le> 0 then (now, ctx_err c now)
      else (case c of
              None \<Rightarrow> (now + d, None)
            | Some (t, e) \<Rightarrow>
                if t \<le> now then (now, Some e)
                else if t < now + d then (t, Some e)
                else (now + d, None)))"

text \<open>The test clock: virtual time moves only when something sleeps on it or advances it.\<close>

record fake_clock =
  fc_now :: gtime
  fc_slept :: duration
  fc_sleeps :: "duration list"

definition NewFakeClock :: "gtime \<Rightarrow> fake_clock" where
  "NewFakeClock start = \<lparr>fc_now = start, fc_slept = 0, fc_sleeps = []\<rparr>"

definition fake_sleep :: "fake_clock \<Rightarrow> ctx \<Rightarrow> duration \<Rightarrow> ctx_err option \<times> fake_clock" where
  "fake_sleep c ctx d =
     (case ctx_err ctx (fc_now c) of
        Some e \<Rightarrow> (Some e, c)
      | None \<Rightarrow>
          (None, if 0 < d
                 then c\<lparr>fc_now := fc_now c + d, fc_slept := fc_slept c + d, fc_sleeps := fc_sleeps c @ [d]\<rparr>
                 else c))"

definition fake_advance :: "fake_clock \<Rightarrow> duration \<Rightarrow> fake_clock" where
  "fake_advance c d = c\<lparr>fc_now := fc_now c + d\<rparr>"

section \<open>Lemmas\<close>

lemma clock_sleep_mono: "now \<le> fst (clock_sleep c now d)"
  by (auto simp: clock_sleep_def split: option.splits prod.splits)

lemma clock_sleep_upper: "0 \<le> d \<Longrightarrow> fst (clock_sleep c now d) \<le> now + d"
  by (auto simp: clock_sleep_def split: option.splits prod.splits)

lemma clock_sleep_full:
  assumes "snd (clock_sleep c now d) = None"
  shows "fst (clock_sleep c now d) = now + max d 0"
  using assms by (auto simp: clock_sleep_def split: option.splits prod.splits if_splits)

lemma clock_sleep_err:
  assumes "snd (clock_sleep c now d) = Some e"
  shows "ctx_err c (fst (clock_sleep c now d)) = Some e"
  using assms by (auto simp: clock_sleep_def ctx_err_def split: option.splits prod.splits if_splits)

lemma ctx_err_mono: "ctx_err c t = Some e \<Longrightarrow> t \<le> t' \<Longrightarrow> ctx_err c t' = Some e"
  by (auto simp: ctx_err_def split: option.splits prod.splits if_splits)

lemma with_timeout_parent: "ctx_err c t = Some e \<Longrightarrow> t \<le> now + d \<Longrightarrow> ctx_err (with_timeout c now d) t = Some e"
  by (auto simp: ctx_err_def with_timeout_def split: option.splits prod.splits if_splits)

lemma with_timeout_deadline: "now + d \<le> t \<Longrightarrow> ctx_err (with_timeout c now d) t \<noteq> None"
  by (auto simp: ctx_err_def with_timeout_def split: option.splits prod.splits if_splits)

lemma with_timeout_alive:
  "ctx_err (with_timeout c now d) t = None \<Longrightarrow> t < now + d \<and> ctx_err c t = None"
  by (auto simp: ctx_err_def with_timeout_def split: option.splits prod.splits if_splits)

end
