(* ===== verification/Riot_Breaker.thy ===== *)
theory Riot_Breaker
  imports Riot_Clock
begin

text \<open>
  The circuit breaker over repeated refusals (\<^verbatim>\<open>internal/riot/breaker.go\<close>): a count of
  consecutive failures, the instant until which it is open, and the backoff of the last trip.
\<close>

record breaker =
  br_threshold :: int
  br_cooldown :: duration
  br_maxWait :: duration
  br_consecutive :: int
  br_openUntil :: gtime
  br_backoff :: duration
  br_trips :: int

definition newBreaker :: "int \<Rightarrow> duration \<Rightarrow> duration \<Rightarrow> breaker" where
  "newBreaker threshold cooldown maxw =
     \<lparr>br_threshold = (if threshold \<le> 0 then 5 else threshold),
      br_cooldown = (if cooldown \<le> 0 then seconds 30 else cooldown),
      br_maxWait = (if maxw \<le> 0 then minutes 2 else maxw),
      br_consecutive = 0, br_openUntil = 0, br_backoff = 0, br_trips = 0\<rparr>"

definition breaker_state :: "breaker \<Rightarrow> gtime \<Rightarrow> duration \<times> bool" where
  "breaker_state b now =
     (if \<not> now < br_openUntil b then (0, False)
      else (time_sub (br_openUntil b) now, br_maxWait b \<le> br_backoff b))"

definition breaker_remaining :: "breaker \<Rightarrow> gtime \<Rightarrow> duration" where
  "breaker_remaining b now =
     (if \<not> now < br_openUntil b then 0 else time_sub (br_openUntil b) now)"

datatype allow_result = Allowed | CtxDone ctx_err | CircuitOpen

text \<open>
  \<^verbatim>\<open>allow\<close>: the loop sleeps until the breaker is closed, unless it has stopped. The model is
  the loop of one caller: the breaker's fields are those of the moment of the call, and \<open>fuel\<close>
  bounds the rounds. The result carries the instant the call returns at.
\<close>

fun allow_loop :: "nat \<Rightarrow> breaker \<Rightarrow> ctx \<Rightarrow> gtime \<Rightarrow> (allow_result \<times> gtime) option" where
  "allow_loop 0 b c now = None"
| "allow_loop (Suc fuel) b c now =
     (let (wait, stop) = breaker_state b now
      in if wait \<le> 0
         then Some (case ctx_err c now of None \<Rightarrow> Allowed | Some e \<Rightarrow> CtxDone e, now)
         else if stop then Some (CircuitOpen, now)
         else (case clock_sleep c now wait of
                 (now', Some e) \<Rightarrow> Some (CtxDone e, now')
               | (now', None) \<Rightarrow> allow_loop fuel b c now'))"

definition record_failure :: "bool \<Rightarrow> breaker \<Rightarrow> gtime \<Rightarrow> bool \<times> breaker" where
  "record_failure auth b0 now =
     (let b = b0\<lparr>br_consecutive := br_consecutive b0 + 1\<rparr>
      in if br_consecutive b < br_threshold b then (False, b)
         else (let backoff =
                     (if auth then br_maxWait b
                      else if br_backoff b \<le> 0 then min (br_cooldown b) (br_maxWait b)
                      else if br_backoff b < br_maxWait b then min (br_backoff b * 2) (br_maxWait b)
                      else br_backoff b)
               in (True, b\<lparr>br_backoff := backoff, br_openUntil := now + backoff, br_trips := br_trips b + 1\<rparr>)))"

definition breaker_fail :: "breaker \<Rightarrow> gtime \<Rightarrow> bool \<times> breaker" where
  "breaker_fail b now = record_failure False b now"

definition breaker_failAuth :: "breaker \<Rightarrow> gtime \<Rightarrow> bool \<times> breaker" where
  "breaker_failAuth b now = record_failure True b now"

definition breaker_succeed :: "breaker \<Rightarrow> breaker" where
  "breaker_succeed b = b\<lparr>br_consecutive := 0, br_openUntil := 0, br_backoff := 0\<rparr>"

definition breaker_Trips :: "breaker \<Rightarrow> int" where
  "breaker_Trips b = br_trips b"

section \<open>Invariant\<close>

definition breaker_inv :: "breaker \<Rightarrow> bool" where
  "breaker_inv b =
     (0 < br_threshold b \<and> 0 < br_cooldown b \<and> 0 < br_maxWait b \<and> 0 \<le> br_consecutive b \<and>
      0 \<le> br_backoff b \<and> br_backoff b \<le> br_maxWait b \<and> 0 \<le> br_trips b \<and>
      (br_consecutive b < br_threshold b \<longrightarrow> br_backoff b = 0 \<and> br_openUntil b = 0))"

lemma newBreaker_inv [inv_rules]: "breaker_inv (newBreaker t c m)"
  by (simp add: breaker_inv_def newBreaker_def duration_defs)

lemma record_failure_frame [frame_simps]:
  "br_threshold (snd (record_failure a b now)) = br_threshold b"
  "br_cooldown (snd (record_failure a b now)) = br_cooldown b"
  "br_maxWait (snd (record_failure a b now)) = br_maxWait b"
  "br_consecutive (snd (record_failure a b now)) = br_consecutive b + 1"
  by (simp_all add: record_failure_def Let_def)

lemma record_failure_inv [inv_rules]: "breaker_inv b \<Longrightarrow> breaker_inv (snd (record_failure a b now))"
  by (auto simp: breaker_inv_def record_failure_def Let_def)

lemma breaker_succeed_inv [inv_rules]: "breaker_inv b \<Longrightarrow> breaker_inv (breaker_succeed b)"
  by (simp add: breaker_inv_def breaker_succeed_def)

text \<open>The open period never reaches further than the longest wait.\<close>

lemma record_failure_open:
  assumes "breaker_inv b"
  shows "fst (record_failure a b now) \<longleftrightarrow> br_threshold b \<le> br_consecutive b + 1"
    and "fst (record_failure a b now) \<Longrightarrow>
      now < br_openUntil (snd (record_failure a b now)) \<and>
      br_openUntil (snd (record_failure a b now)) \<le> now + br_maxWait b"
  using assms by (auto simp: breaker_inv_def record_failure_def Let_def)

lemma allow_loop_two:
  assumes "br_openUntil b - now \<le> max_duration"
  shows "\<exists>r. allow_loop (Suc (Suc fuel)) b c now = Some r"
proof (cases "now < br_openUntil b \<and> \<not> br_maxWait b \<le> br_backoff b")
  case True
  then have st: "breaker_state b now = (br_openUntil b - now, False)"
    using assms by (simp add: breaker_state_def time_sub_exact)
  obtain now' e where sl: "clock_sleep c now (br_openUntil b - now) = (now', e)" by fastforce
  have "now' = br_openUntil b" if "e = None"
    using clock_sleep_full [of c now "br_openUntil b - now"] sl that True by simp
  then have "breaker_state b now' = (0, False)" if "e = None"
    using that by (simp add: breaker_state_def)
  then show ?thesis
    using True by (cases e) (auto simp: st sl)
next
  case False
  then show ?thesis
    by (auto simp: breaker_state_def)
qed

section \<open>Properties\<close>

text \<open>
  The breaker's loop always returns within two rounds: it either hands back an answer at
  once, or sleeps the remaining cooldown once and is then allowed or cut off by its context.
\<close>

theorem allow_terminates:
  assumes "br_openUntil b - now \<le> max_duration"
  shows "\<exists>r t. allow_loop 2 b c now = Some (r, t) \<and> now \<le> t \<and> (r = Allowed \<longrightarrow> br_openUntil b \<le> t)"
proof -
  obtain r t where r: "allow_loop 2 b c now = Some (r, t)"
    using allow_loop_two [OF assms, of 0 c] by (auto simp: numeral_2_eq_2)
  have "now \<le> t \<and> (r = Allowed \<longrightarrow> br_openUntil b \<le> t)" if "allow_loop n b c now = Some (r, t)" for n
    using that
  proof (induction n arbitrary: now)
    case (Suc n)
    obtain wait stop where st: "breaker_state b now = (wait, stop)" by fastforce
    obtain now' e where sl: "clock_sleep c now wait = (now', e)" by fastforce
    have "now \<le> now'" using clock_sleep_mono [of now c wait] sl by simp
    moreover have "wait \<le> 0 \<Longrightarrow> br_openUntil b \<le> now"
      using st by (auto simp: breaker_state_def time_sub_nonpos_iff split: if_splits)
    ultimately show ?case
      using Suc.prems Suc.IH [of now'] st sl by (cases e) (auto split: if_splits option.splits)
  qed simp
  with r show ?thesis by blast
qed

theorem allow_terminates_witness:
  "\<exists>r t. allow_loop 2 (snd (breaker_fail (newBreaker 1 0 0) 100)) background 200 = Some (r, t) \<and> 200 \<le> t \<and>
     (r = Allowed \<longrightarrow> br_openUntil (snd (breaker_fail (newBreaker 1 0 0) 100)) \<le> t)"
  by (rule allow_terminates)
    (simp add: breaker_fail_def record_failure_def newBreaker_def duration_defs)

text \<open>
  The abstract specification of a run of failures: the backoff after a number of trips since the
  last success, and the trip condition as a count.
\<close>

fun spec_backoff :: "duration \<Rightarrow> duration \<Rightarrow> nat \<Rightarrow> duration" where
  "spec_backoff cooldown maxw 0 = 0"
| "spec_backoff cooldown maxw (Suc n) = min (cooldown * 2 ^ n) maxw"

fun fail_run :: "breaker \<Rightarrow> gtime list \<Rightarrow> breaker" where
  "fail_run b [] = b"
| "fail_run b (t # ts) = fail_run (snd (breaker_fail b t)) ts"

lemma spec_backoff_step:
  assumes "0 < cd" and "0 < mw"
  shows "(if spec_backoff cd mw n \<le> 0 then min cd mw
          else if spec_backoff cd mw n < mw then min (spec_backoff cd mw n * 2) mw
          else spec_backoff cd mw n) = spec_backoff cd mw (Suc n)"
proof (cases n)
  case (Suc m)
  have pos: "0 < min (cd * 2 ^ m) mw" using assms by simp
  show ?thesis
  proof (cases "cd * 2 ^ m < mw")
    case True
    then show ?thesis using pos by (simp add: Suc mult.commute)
  next
    case False
    have "cd * 2 ^ m \<le> cd * 2 ^ n" using assms(1) by (simp add: Suc)
    with False show ?thesis using pos by (simp add: Suc)
  qed
qed (use assms in simp)

text \<open>
  Failures refine the specification: starting from a closed breaker, after \<open>k\<close> failures in a
  row the breaker has tripped exactly \<open>k - threshold + 1\<close> times (never below the threshold), and
  the backoff is the cooldown doubled once per further trip, capped at the longest wait. In
  particular a single failure after the threshold re-opens it: only a success resets the count.
\<close>

theorem fail_run_refines:
  assumes "0 < th" and "0 < cd" and "0 < mw"
  shows "let b = fail_run (newBreaker th cd mw) ts; trips = Suc (length ts) - nat th
         in br_trips b = int trips \<and> br_consecutive b = int (length ts) \<and>
            br_backoff b = spec_backoff cd mw trips"
proof (induction ts rule: rev_induct)
  case Nil
  have "Suc 0 - nat th = 0" using assms(1) by simp
  then show ?case by (simp add: newBreaker_def Let_def)
next
  case (snoc t ts)
  have app: "fail_run b (us @ [t]) = snd (breaker_fail (fail_run b us) t)" for b us
    by (induction us arbitrary: b) auto
  have frame: "br_threshold (fail_run b us) = br_threshold b \<and> br_cooldown (fail_run b us) = br_cooldown b \<and>
      br_maxWait (fail_run b us) = br_maxWait b" for b us
    by (induction us arbitrary: b) (auto simp: breaker_fail_def frame_simps)
  let ?b = "fail_run (newBreaker th cd mw) ts"
  have shape: "br_threshold ?b = th" "br_cooldown ?b = cd" "br_maxWait ?b = mw"
    using frame [of "newBreaker th cd mw" ts] assms by (auto simp: newBreaker_def)
  show ?case
  proof (cases "int (length ts) + 1 < th")
    case True
    then have "Suc (length ts) - nat th = 0" "Suc (Suc (length ts)) - nat th = 0" by auto
    with True snoc shape show ?thesis
      by (simp add: app breaker_fail_def record_failure_def Let_def)
  next
    case False
    then have "Suc (Suc (length ts)) - nat th = Suc (Suc (length ts) - nat th)"
      using assms(1) by auto
    with False snoc shape spec_backoff_step [OF assms(2,3), of "Suc (length ts) - nat th"] show ?thesis
      by (simp add: app breaker_fail_def record_failure_def Let_def del: spec_backoff.simps split: if_splits)
  qed
qed

theorem fail_run_refines_witness:
  "br_backoff (fail_run (newBreaker 2 (seconds 30) (minutes 2)) [1, 2, 3]) = minutes 1"
  using fail_run_refines [of 2 "seconds 30" "minutes 2" "[1, 2, 3]"]
  by (simp add: Let_def duration_defs numeral_2_eq_2)

text \<open>
  A refused key stops the client at once: the first authorisation failure that trips the
  breaker saturates the backoff, so every call until the longest wait has passed is refused
  without sleeping, while a breaker tripped by fewer transient failures sleeps instead.
\<close>

theorem auth_failure_stops:
  assumes "breaker_inv b" and "br_threshold b \<le> br_consecutive b + 1"
    and "t \<le> now" and "now < t + br_maxWait b"
  shows "fst (breaker_failAuth b t) \<and>
    allow_loop (Suc fuel) (snd (breaker_failAuth b t)) c now = Some (CircuitOpen, now)"
  using assms time_sub_nonpos_iff [of "t + br_maxWait b" now]
  by (auto simp: breaker_failAuth_def record_failure_def Let_def breaker_state_def)

theorem auth_failure_stops_witness:
  "fst (breaker_failAuth (newBreaker 1 0 0) 10) \<and>
   allow_loop (Suc 0) (snd (breaker_failAuth (newBreaker 1 0 0) 10)) background 11 = Some (CircuitOpen, 11)"
  using auth_failure_stops [OF newBreaker_inv, of 1 0 0 10 11 0 background]
  by (simp add: newBreaker_def duration_defs)

end
