(* ===== verification/Riot_Key.thy ===== *)
theory Riot_Key
  imports Prelude
begin

text \<open>
  The key provider (\<^verbatim>\<open>internal/riot/key.go\<close>, \<^verbatim>\<open>keyage.go\<close>) and the declared key expiry
  (\<^verbatim>\<open>internal/riot/expiry.go\<close>). What the key file holds at the moment of a call is an argument:
  \<open>None\<close> when \<^verbatim>\<open>os.ReadFile\<close> fails, \<open>Some\<close> of its bytes otherwise.
\<close>

section \<open>The provider\<close>

definition keyFileTTL :: duration where
  "keyFileTTL = seconds 30"

record key_provider =
  kp_file :: string
  kp_env :: string
  kp_ttl :: duration
  kp_current :: string
  kp_firstSeen :: gtime
  kp_lastRead :: gtime
  kp_fileErr :: bool

definition NewKeyProviderFrom :: "string \<Rightarrow> string \<Rightarrow> key_provider" where
  "NewKeyProviderFrom envKey file =
     \<lparr>kp_file = trim_space file, kp_env = trim_space envKey, kp_ttl = keyFileTTL,
      kp_current = [], kp_firstSeen = 0, kp_lastRead = 0, kp_fileErr = False\<rparr>"

definition set_key :: "string \<Rightarrow> gtime \<Rightarrow> key_provider \<Rightarrow> key_provider" where
  "set_key key now k =
     (if key \<noteq> kp_current k then k\<lparr>kp_current := key, kp_firstSeen := now\<rparr> else k)"

definition reread_due :: "key_provider \<Rightarrow> gtime \<Rightarrow> bool" where
  "reread_due k now =
     (kp_file k \<noteq> [] \<and> (kp_current k = [] \<or> kp_ttl k \<le> time_sub now (kp_lastRead k)))"

definition reread :: "string option \<Rightarrow> gtime \<Rightarrow> key_provider \<Rightarrow> key_provider" where
  "reread disk now k0 =
     (let k = k0\<lparr>kp_lastRead := now\<rparr>
      in case disk of
           None \<Rightarrow> k\<lparr>kp_fileErr := True\<rparr>
         | Some bytes \<Rightarrow>
             (let trimmed = trim_space bytes
              in if trimmed \<noteq> [] then set_key trimmed now (k\<lparr>kp_fileErr := False\<rparr>) else k))"

definition Key :: "string option \<Rightarrow> gtime \<Rightarrow> key_provider \<Rightarrow> (string \<times> bool) \<times> key_provider" where
  "Key disk now k0 =
     (let k1 = (if reread_due k0 now then reread disk now k0 else k0);
          k2 = (if kp_current k1 = [] \<and> kp_env k1 \<noteq> [] then set_key (kp_env k1) now k1 else k1)
      in ((kp_current k2, kp_current k2 \<noteq> []), k2))"

definition AgeKnown :: "gtime \<Rightarrow> key_provider \<Rightarrow> duration \<times> bool" where
  "AgeKnown now k =
     (if kp_current k = [] then (0, False) else (time_sub now (kp_firstSeen k), True))"

definition Age :: "gtime \<Rightarrow> key_provider \<Rightarrow> duration" where
  "Age now k = fst (AgeKnown now k)"

definition Source :: "key_provider \<Rightarrow> string" where
  "Source k =
     (if kp_current k = [] then ''none''
      else if kp_file k \<noteq> [] \<and> \<not> kp_fileErr k then ''file''
      else ''environment'')"

definition Rotated :: "key_provider \<Rightarrow> bool" where
  "Rotated k = (Source k = ''file'')"

section \<open>The declared expiry\<close>

record key_expiry =
  ke_at :: gtime

datatype expiry_error = KeyExpiredError gtime gtime

definition NewKeyExpiry :: "gtime \<Rightarrow> key_expiry" where
  "NewKeyExpiry t = \<lparr>ke_at = t\<rparr>"

definition Declared :: "key_expiry \<Rightarrow> bool" where
  "Declared e = (ke_at e \<noteq> 0)"

definition Remaining :: "key_expiry \<Rightarrow> gtime \<Rightarrow> duration \<times> bool" where
  "Remaining e now = (if \<not> Declared e then (0, False) else (time_sub (ke_at e) now, True))"

definition Check :: "key_expiry \<Rightarrow> gtime \<Rightarrow> expiry_error option" where
  "Check e now = (if \<not> Declared e \<or> now < ke_at e then None else Some (KeyExpiredError (ke_at e) now))"

section \<open>Lemmas\<close>

lemma set_key_frame [frame_simps, simp]:
  "kp_file (set_key x now k) = kp_file k" "kp_env (set_key x now k) = kp_env k"
  "kp_ttl (set_key x now k) = kp_ttl k" "kp_current (set_key x now k) = x"
  "kp_lastRead (set_key x now k) = kp_lastRead k" "kp_fileErr (set_key x now k) = kp_fileErr k"
  by (auto simp: set_key_def)

lemma reread_frame [frame_simps, simp]:
  "kp_file (reread d now k) = kp_file k" "kp_env (reread d now k) = kp_env k"
  "kp_ttl (reread d now k) = kp_ttl k" "kp_lastRead (reread d now k) = now"
  by (auto simp: reread_def Let_def split: option.splits)

lemma reread_current:
  "kp_current (reread d now k) =
     (case d of Some bytes \<Rightarrow> if trim_space bytes \<noteq> [] then trim_space bytes else kp_current k
      | None \<Rightarrow> kp_current k)"
  by (auto simp: reread_def Let_def split: option.splits)

lemma Key_frame [frame_simps]:
  "kp_file (snd (Key d now k)) = kp_file k" "kp_env (snd (Key d now k)) = kp_env k"
  by (simp_all add: Key_def Let_def)

text \<open>The calls of a run, each with what the file held.\<close>

fun key_run :: "key_provider \<Rightarrow> (string option \<times> gtime) list \<Rightarrow> key_provider" where
  "key_run k [] = k"
| "key_run k ((d, now) # cs) = key_run (snd (Key d now k)) cs"

lemma Key_keeps: "kp_current k \<noteq> [] \<Longrightarrow> kp_current (snd (Key d now k)) \<noteq> []"
  by (auto simp: Key_def Let_def reread_current split: option.splits)

lemma Key_env: "kp_env k \<noteq> [] \<Longrightarrow> kp_current (snd (Key d now k)) \<noteq> []"
  by (auto simp: Key_def Let_def)

section \<open>Properties\<close>

text \<open>
  A key is never lost: once the provider has answered with a key, every later call answers
  with one, whatever happens to the file - missing, unreadable or blank - and however the calls
  are spaced.
\<close>

theorem key_never_lost:
  assumes "kp_current k \<noteq> []"
  shows "snd (fst (Key d now (key_run k cs)))"
proof -
  have "kp_current (key_run k cs) \<noteq> []"
    using assms by (induction k cs rule: key_run.induct) (auto simp: Key_keeps)
  then show ?thesis
    using Key_keeps by (auto simp: Key_def Let_def)
qed

theorem key_never_lost_witness:
  "snd (fst (Key None 90 (key_run (snd (Key None 1 (NewKeyProviderFrom ''RGAPI'' ''/k'')))
      [(Some [], 40), (None, 50)])))"
  by (rule key_never_lost) code_simp

text \<open>
  A rotation is picked up within the trust period: once the period has passed since the last
  read, the next call answers with what the file holds, trimmed, and the age clock restarts
  exactly when the material changed.
\<close>

theorem key_rotation:
  assumes "kp_file k \<noteq> []" and "kp_ttl k \<le> time_sub now (kp_lastRead k)" and "trim_space bytes \<noteq> []"
  shows "fst (Key (Some bytes) now k) = (trim_space bytes, True) \<and>
    AgeKnown now (snd (Key (Some bytes) now k)) =
      (if trim_space bytes = kp_current k then time_sub now (kp_firstSeen k) else 0, True)"
  using assms
  by (auto simp: Key_def Let_def reread_due_def reread_def AgeKnown_def set_key_def time_sub_def duration_defs)

theorem key_rotation_witness:
  "fst (Key (Some '' new '') (seconds 31) (snd (Key (Some ''old'') 1 (NewKeyProviderFrom [] ''/k'')))) = (''new'', True)"
proof -
  let ?k = "snd (Key (Some ''old'') 1 (NewKeyProviderFrom [] ''/k''))"
  have "kp_file ?k \<noteq> []" "kp_ttl ?k \<le> time_sub (seconds 31) (kp_lastRead ?k)" "trim_space '' new '' \<noteq> []"
    by code_simp+
  moreover have "trim_space '' new '' = ''new''" by code_simp
  ultimately show ?thesis using key_rotation [of ?k "seconds 31" "'' new ''"] by metis
qed

text \<open>
  The reported source can be wrong: with a key file that exists but is blank, the key in use is
  the one from the environment, and the provider says it was loaded from the file.
\<close>

theorem blank_file_is_reported_as_source:
  "case Key (Some '' '') 1 (NewKeyProviderFrom ''ENV'' ''/k'') of
     ((key, ok), k) \<Rightarrow> key = ''ENV'' \<and> ok \<and> Source k = ''file'' \<and> Rotated k"
  by code_simp

text \<open>
  An undeclared expiry never stops the crawl and a declared one stops it exactly from the
  declared instant on; the remaining time is known exactly when one was declared.
\<close>

theorem expiry_check_exact:
  "(Check e now = None \<longleftrightarrow> ke_at e = 0 \<or> now < ke_at e) \<and>
   (Check e now \<noteq> None \<longrightarrow> Check e now = Some (KeyExpiredError (ke_at e) now)) \<and>
   (snd (Remaining e now) \<longleftrightarrow> ke_at e \<noteq> 0) \<and>
   (ke_at e \<noteq> 0 \<longrightarrow> (0 < fst (Remaining e now) \<longleftrightarrow> Check e now = None))"
  by (auto simp: Check_def Declared_def Remaining_def time_sub_pos_iff)

theorem expiry_check_exact_witness:
  "Check (NewKeyExpiry 5) 5 = Some (KeyExpiredError 5 5)"
  using expiry_check_exact [of "NewKeyExpiry 5" 5] by (simp add: NewKeyExpiry_def)

end
