(* ===== verification/Riot_Errors.thy ===== *)
theory Riot_Errors
  imports Riot_Clock
begin

text \<open>
  The error values of the ingest side: the sentinels and error types of
  \<^verbatim>\<open>internal/riot/errors.go\<close>, the context's errors, the store's absence, and Go's wrapping
  (\<^verbatim>\<open>fmt.Errorf("...: %w", err)\<close>) and joining. \<^verbatim>\<open>errors.Is\<close> and \<^verbatim>\<open>errors.As\<close> walk the chain;
  a context sentinel is compared with the cause the context carries.
\<close>

datatype go_error =
    ErrNoAPIKey
  | ErrCircuitOpen
  | ErrMatchNotFound
  | ErrClosed
  | CtxError ctx_err
  | StatusError string int string
  | RateLimitedError string int duration bool
  | OtherError string
  | Wrapped string go_error
  | Joined go_error go_error

fun errors_Is :: "go_error \<Rightarrow> go_error \<Rightarrow> bool" where
  "errors_Is (Wrapped msg e) target = (Wrapped msg e = target \<or> errors_Is e target)"
| "errors_Is (Joined e1 e2) target = (Joined e1 e2 = target \<or> errors_Is e1 target \<or> errors_Is e2 target)"
| "errors_Is e target = (e = target)"

text \<open>\<^verbatim>\<open>errors.As\<close> into \<^verbatim>\<open>*RateLimitedError\<close> and \<^verbatim>\<open>*StatusError\<close>: the first in the chain.\<close>

fun as_limited :: "go_error \<Rightarrow> (string \<times> int \<times> duration \<times> bool) option" where
  "as_limited (RateLimitedError m n d s) = Some (m, n, d, s)"
| "as_limited (Wrapped msg e) = as_limited e"
| "as_limited (Joined e1 e2) = (case as_limited e1 of Some x \<Rightarrow> Some x | None \<Rightarrow> as_limited e2)"
| "as_limited e = None"

fun as_status :: "go_error \<Rightarrow> (string \<times> int \<times> string) option" where
  "as_status (StatusError m n b) = Some (m, n, b)"
| "as_status (Wrapped msg e) = as_status e"
| "as_status (Joined e1 e2) = (case as_status e1 of Some x \<Rightarrow> Some x | None \<Rightarrow> as_status e2)"
| "as_status e = None"

definition is_ctx_error :: "go_error \<Rightarrow> bool" where
  "is_ctx_error e = (errors_Is e (CtxError Canceled) \<or> errors_Is e (CtxError DeadlineExceeded))"

definition IsNotFound :: "go_error \<Rightarrow> bool" where
  "IsNotFound e = (case as_status e of Some (m, n, b) \<Rightarrow> n = 404 | None \<Rightarrow> False)"

definition IsStatus :: "go_error \<Rightarrow> bool" where
  "IsStatus e = (as_status e \<noteq> None)"

lemma is_ctx_error_simps [simp]:
  "is_ctx_error (CtxError e)"
  "is_ctx_error (Wrapped m x) = is_ctx_error x"
  "\<not> is_ctx_error (StatusError m n b)" "\<not> is_ctx_error (RateLimitedError m k d s)"
  "\<not> is_ctx_error ErrNoAPIKey" "\<not> is_ctx_error ErrCircuitOpen" "\<not> is_ctx_error (OtherError m)"
  by (cases e) (auto simp: is_ctx_error_def)

end
