(* ===== verification/Riot_Client.thy ===== *)
theory Riot_Client
  imports Limiter_Props Riot_Breaker Riot_Key Riot_Errors
begin

text \<open>
  The HTTP client's call (\<^verbatim>\<open>internal/riot/client.go\<close>, \<^verbatim>\<open>Client.do\<close>): the breaker, the key, the
  limiter and the HTTP round trip of each attempt, the retry of 429, 5xx and transport
  failures, and the two deadlines (one round trip, and the whole call with its budget for
  Riot's Retry-After). The client's collaborators are the models of the other theories; what
  the network does in an attempt, what the key file holds and the random number of the jitter
  are the attempt's \<open>exchange\<close>. The world records, beside the clock and the collaborators'
  state, the requests sent and the deliberate waits, which the source reports through its
  metrics and logs.
\<close>

section \<open>Options\<close>

record client_opts =
  co_Timeout :: duration
  co_RetryWaitBudget :: duration
  co_MaxAttempts :: int
  co_MaxBodyBytes :: int
  co_BackoffBase :: duration
  co_BackoffMax :: duration
  co_parse_time :: "string \<Rightarrow> gtime option"

definition DefaultTimeout :: duration where
  "DefaultTimeout = seconds 10"

definition DefaultRetryWaitBudget :: duration where
  "DefaultRetryWaitBudget = seconds 60"

text \<open>\<^verbatim>\<open>NewClient\<close> replaces every non-positive number by its default.\<close>

definition normalize_opts :: "client_opts \<Rightarrow> client_opts" where
  "normalize_opts opt =
     opt\<lparr>co_Timeout := default_if_nonpos (co_Timeout opt) DefaultTimeout,
       co_RetryWaitBudget := default_if_nonpos (co_RetryWaitBudget opt) DefaultRetryWaitBudget,
       co_MaxAttempts := default_if_nonpos (co_MaxAttempts opt) 5,
       co_MaxBodyBytes := default_if_nonpos (co_MaxBodyBytes opt) (64 * 1048576),
       co_BackoffBase := default_if_nonpos (co_BackoffBase opt) (500 * 1000000),
       co_BackoffMax := default_if_nonpos (co_BackoffMax opt) (seconds 30)\<rparr>"

text \<open>The validation of \<^verbatim>\<open>NewClient\<close>: both hosts are required.\<close>

definition missing_hosts :: "string \<Rightarrow> string \<Rightarrow> string list" where
  "missing_hosts platform regional =
     (if trim_space platform = [] then [''platform base URL''] else []) @
     (if trim_space regional = [] then [''regional base URL''] else [])"

section \<open>The world of one call\<close>

datatype body_read = BodyFailed | BodyRead string

text \<open>
  What the network does with a request: no response after a delay, or headers after one delay
  and the whole (decompressed) body after another.
\<close>

datatype http_outcome =
    NoResponse duration
  | Responds duration duration int "string \<Rightarrow> string" body_read

record exchange =
  ex_disk :: "string option"
  ex_http :: http_outcome
  ex_jitter :: rat

datatype wait_kind = RetryAfterWait | BackoffWait

record client_world =
  cw_now :: gtime
  cw_limiter :: limiter
  cw_breaker :: breaker
  cw_keys :: key_provider
  cw_requests :: "(gtime \<times> string) list"
  cw_waits :: "(wait_kind \<times> duration) list"

section \<open>Backoff\<close>

fun backoff_loop :: "nat \<Rightarrow> duration \<Rightarrow> duration \<Rightarrow> duration" where
  "backoff_loop 0 d mx = d"
| "backoff_loop (Suc k) d mx = (let d2 = d * 2 in if mx \<le> d2 then mx else backoff_loop k d2 mx)"

definition backoff :: "client_opts \<Rightarrow> nat \<Rightarrow> rat \<Rightarrow> duration" where
  "backoff opt attempt jitter =
     (let d0 = backoff_loop (attempt - 1) (co_BackoffBase opt) (co_BackoffMax opt);
          d = (if co_BackoffMax opt < d0 then co_BackoffMax opt else d0);
          half = d div 2
      in half + \<lfloor>jitter * of_int half\<rfloor>)"

section \<open>One attempt\<close>

definition rateLimitedWait :: "duration \<Rightarrow> duration \<Rightarrow> duration \<Rightarrow> duration \<times> bool" where
  "rateLimitedWait after fallback remaining =
     (let wait = (if after \<le> 0 then fallback else after) in (wait, remaining < wait))"

definition ownDeadline :: "ctx \<Rightarrow> gtime \<Rightarrow> go_error \<Rightarrow> string \<Rightarrow> go_error" where
  "ownDeadline parent now err method =
     (case ctx_err parent now of
        Some e \<Rightarrow> CtxError e
      | None \<Rightarrow> if is_ctx_error err then Wrapped (''riot '' @ method @ '': call deadline exceeded'') err else err)"

text \<open>\<^verbatim>\<open>Limiter.Wait\<close>: the error, the instant it returns at, and the limiter.\<close>

definition limiter_Wait :: "limiter \<Rightarrow> ctx \<Rightarrow> gtime \<Rightarrow> ctx_err option \<times> gtime \<times> limiter" where
  "limiter_Wait l c now =
     (case ctx_err c now of
        Some e \<Rightarrow> (Some e, now, l)
      | None \<Rightarrow>
          (let (wait, l') = reserve l now
           in if wait \<le> 0 then (None, now, l')
              else (case clock_sleep c now wait of (now', e) \<Rightarrow> (e, now', l'))))"

text \<open>\<^verbatim>\<open>Client.sleep\<close>, recording the wait it is asked for.\<close>

definition client_sleep :: "wait_kind \<Rightarrow> ctx \<Rightarrow> duration \<Rightarrow> client_world \<Rightarrow> ctx_err option \<times> client_world" where
  "client_sleep kind c d w =
     (if d \<le> 0 then (None, w)
      else (case clock_sleep c (cw_now w) d of
              (now', e) \<Rightarrow> (e, w\<lparr>cw_now := now', cw_waits := cw_waits w @ [(kind, d)]\<rparr>)))"

text \<open>The instant a network event due at \<open>t\<close> is cut off at, when the context ends first.\<close>

definition cut_off :: "ctx \<Rightarrow> gtime \<Rightarrow> gtime \<Rightarrow> gtime option" where
  "cut_off c now t =
     (case c of None \<Rightarrow> None | Some (d, e) \<Rightarrow> if d < t then Some (max now d) else None)"

definition readBody :: "client_opts \<Rightarrow> body_read \<Rightarrow> string option" where
  "readBody opt b =
     (case b of BodyFailed \<Rightarrow> None
      | BodyRead s \<Rightarrow> if co_MaxBodyBytes opt < int (length s) then None else Some s)"

definition attempt_call ::
  "client_opts \<Rightarrow> ctx \<Rightarrow> http_outcome \<Rightarrow> string \<Rightarrow> string \<Rightarrow> client_world \<Rightarrow>
     (go_error + string \<times> int \<times> (string \<Rightarrow> string)) \<times> client_world" where
  "attempt_call opt c http method key w0 =
     (let now = cw_now w0;
          w = w0\<lparr>cw_requests := cw_requests w0 @ [(now, key)]\<rparr>
      in case http of
           NoResponse d \<Rightarrow>
             (let t = now + max d 0
              in (Inl (Wrapped (''riot '' @ method) (OtherError ''transport'')),
                  w\<lparr>cw_now := (case cut_off c now t of Some t' \<Rightarrow> t' | None \<Rightarrow> t)\<rparr>))
         | Responds dh db status header body \<Rightarrow>
             (let th = now + max dh 0; tb = th + max db 0
              in case cut_off c now th of
                   Some t' \<Rightarrow> (Inl (Wrapped (''riot '' @ method) (OtherError ''transport'')), w\<lparr>cw_now := t'\<rparr>)
                 | None \<Rightarrow>
                     (let (tend, read) = (case cut_off c th tb of
                                            Some t' \<Rightarrow> (t', None)
                                          | None \<Rightarrow> (tb, readBody opt body));
                          w' = w\<lparr>cw_now := tend,
                                 cw_limiter := Observe (cw_limiter w) (readRateLimitHeaders header) tend\<rparr>
                      in case read of
                           None \<Rightarrow> (Inl (Wrapped (''riot '' @ method @ '': read body'') (OtherError ''read'')), w')
                         | Some s \<Rightarrow> (Inr (s, status, header), w'))))"

section \<open>The retry loop\<close>

text \<open>
  The body of the loop for one attempt. \<open>Done\<close> is a return; \<open>Again\<close> is the end of the body, with
  the waiting paid so far and the last error.
\<close>

datatype step_result = Done "go_error + string" | Again duration go_error

definition riot_wrap :: "string \<Rightarrow> go_error \<Rightarrow> go_error" where
  "riot_wrap method e = Wrapped (''riot '' @ method) e"

definition snippet :: "string \<Rightarrow> string" where
  "snippet body =
     (let s = trim_space body in if 200 < length s then take 200 s @ ''...'' else s)"

definition retry_after_backoff ::
  "client_opts \<Rightarrow> ctx \<Rightarrow> int \<Rightarrow> exchange \<Rightarrow> duration \<Rightarrow> go_error \<Rightarrow> client_world \<Rightarrow> step_result \<times> client_world" where
  "retry_after_backoff opt c attempt ex paid err w =
     (if attempt = co_MaxAttempts opt then (Again paid err, w)
      else (case client_sleep BackoffWait c (backoff opt (nat attempt) (ex_jitter ex)) w of
              (Some e, w') \<Rightarrow> (Done (Inl (CtxError e)), w')
            | (None, w') \<Rightarrow> (Again paid err, w')))"

definition on_rate_limited ::
  "client_opts \<Rightarrow> ctx \<Rightarrow> ctx \<Rightarrow> string \<Rightarrow> int \<Rightarrow> exchange \<Rightarrow> duration \<Rightarrow> (string \<Rightarrow> string) \<Rightarrow> client_world
     \<Rightarrow> step_result \<times> client_world" where
  "on_rate_limited opt parent c method attempt ex paid header w0 =
     (let after = ParseRetryAfter (co_parse_time opt) (header ''Retry-After'') (cw_now w0);
          (wait, suspended) = rateLimitedWait after (backoff opt (nat attempt) (ex_jitter ex))
                                (co_RetryWaitBudget opt - paid);
          w = w0\<lparr>cw_limiter := Penalize (cw_limiter w0) wait (cw_now w0),
                 cw_breaker := snd (breaker_fail (cw_breaker w0) (cw_now w0))\<rparr>;
          limited = RateLimitedError method attempt wait suspended
      in if suspended then (Done (Inl limited), w)
         else if attempt = co_MaxAttempts opt then (Again paid limited, w)
         else (case client_sleep RetryAfterWait c wait w of
                 (None, w') \<Rightarrow> (Again (paid + wait) limited, w')
               | (Some e, w') \<Rightarrow>
                   (if ctx_err parent (cw_now w') \<noteq> None
                    then (Done (Inl (ownDeadline parent (cw_now w') (CtxError e) method)), w')
                    else (Done (Inl (RateLimitedError method attempt wait True)), w'))))"

definition on_response ::
  "client_opts \<Rightarrow> ctx \<Rightarrow> ctx \<Rightarrow> string \<Rightarrow> int \<Rightarrow> exchange \<Rightarrow> duration \<Rightarrow> string \<times> int \<times> (string \<Rightarrow> string)
     \<Rightarrow> client_world \<Rightarrow> step_result \<times> client_world" where
  "on_response opt parent c method attempt ex paid resp w =
     (case resp of (body, status, header) \<Rightarrow>
        if 200 \<le> status \<and> status < 300 then
          (Done (Inr body), w\<lparr>cw_breaker := breaker_succeed (cw_breaker w)\<rparr>)
        else if status = 429 then on_rate_limited opt parent c method attempt ex paid header w
        else if 500 \<le> status then
          retry_after_backoff opt c attempt ex paid (StatusError method status (snippet body)) w
        else (Done (Inl (StatusError method status (snippet body))),
              if status = 403
              then w\<lparr>cw_breaker := snd (breaker_failAuth (cw_breaker w) (cw_now w))\<rparr> else w))"

definition do_step ::
  "client_opts \<Rightarrow> ctx \<Rightarrow> ctx \<Rightarrow> string \<Rightarrow> int \<Rightarrow> exchange \<Rightarrow> duration \<Rightarrow> client_world
     \<Rightarrow> step_result \<times> client_world" where
  "do_step opt parent c method attempt ex paid w0 =
     (case allow_loop 2 (cw_breaker w0) c (cw_now w0) of
        None \<Rightarrow> (Done (Inl (OtherError ''unreachable'')), w0)
      | Some (r, now1) \<Rightarrow>
          (let w1 = w0\<lparr>cw_now := now1\<rparr>
           in case r of
                CircuitOpen \<Rightarrow> (Done (Inl (riot_wrap method ErrCircuitOpen)), w1)
              | CtxDone e \<Rightarrow> (Done (Inl (riot_wrap method (CtxError e))), w1)
              | Allowed \<Rightarrow>
                  (let ((key, ok), keys) = Key (ex_disk ex) now1 (cw_keys w1);
                       w2 = w1\<lparr>cw_keys := keys\<rparr>
                   in if \<not> ok then (Done (Inl ErrNoAPIKey), w2)
                      else (let ac = with_timeout c now1 (co_Timeout opt);
                                (lerr, now2, lim) = limiter_Wait (cw_limiter w2) ac now1;
                                w3 = w2\<lparr>cw_now := now2, cw_limiter := lim\<rparr>
                            in case lerr of
                                 Some e \<Rightarrow> (Done (Inl (ownDeadline parent now2 (CtxError e) method)), w3)
                               | None \<Rightarrow>
                                   (case attempt_call opt ac (ex_http ex) method key w3 of
                                      (Inl err, w4) \<Rightarrow>
                                        (case ctx_err ac (cw_now w4) of
                                           Some e \<Rightarrow>
                                             (Done (Inl (ownDeadline parent (cw_now w4) (CtxError e) method)), w4)
                                         | None \<Rightarrow> retry_after_backoff opt c attempt ex paid err w4)
                                    | (Inr resp, w4) \<Rightarrow>
                                        on_response opt parent c method attempt ex paid resp w4)))))"

text \<open>What is returned after the loop.\<close>

definition finish_call :: "ctx \<Rightarrow> gtime \<Rightarrow> string \<Rightarrow> go_error option \<Rightarrow> go_error" where
  "finish_call c now method lastErr =
     (case lastErr of
        None \<Rightarrow> riot_wrap method (OtherError ''no attempt was made'')
      | Some e \<Rightarrow>
          (case e of
             RateLimitedError m k d s \<Rightarrow>
               if \<not> s \<and> ctx_err c now \<noteq> None then RateLimitedError m k d True else e
           | _ \<Rightarrow> e))"

fun do_loop ::
  "client_opts \<Rightarrow> ctx \<Rightarrow> ctx \<Rightarrow> string \<Rightarrow> (nat \<Rightarrow> exchange) \<Rightarrow> nat \<Rightarrow> nat \<Rightarrow> duration \<Rightarrow> go_error option
     \<Rightarrow> client_world \<Rightarrow> (go_error + string) \<times> client_world" where
  "do_loop opt parent c method script 0 attempt paid lastErr w =
     (Inl (finish_call c (cw_now w) method lastErr), w)"
| "do_loop opt parent c method script (Suc n) attempt paid lastErr w =
     (case do_step opt parent c method (int attempt) (script attempt) paid w of
        (Done r, w') \<Rightarrow> (r, w')
      | (Again paid' e, w') \<Rightarrow> do_loop opt parent c method script n (Suc attempt) paid' (Some e) w')"

definition client_do ::
  "client_opts \<Rightarrow> ctx \<Rightarrow> string \<Rightarrow> (nat \<Rightarrow> exchange) \<Rightarrow> client_world \<Rightarrow> (go_error + string) \<times> client_world" where
  "client_do opt parent method script w =
     do_loop opt parent (with_timeout parent (cw_now w) (co_Timeout opt + co_RetryWaitBudget opt))
       method script (nat (co_MaxAttempts opt)) 1 0 None w"

text \<open>
  The surface the crawl worker paces itself by: the longer of the limiter's suspension and the
  breaker's remaining open time.
\<close>

definition client_Blocked :: "client_world \<Rightarrow> gtime \<Rightarrow> duration \<times> bool" where
  "client_Blocked w now =
     (let wait0 = limiter_Blocked (cw_limiter w) now;
          d = breaker_remaining (cw_breaker w) now;
          wait = (if wait0 < d then d else wait0)
      in (wait, 0 < wait))"

end
