(* ===== verification/Client_Props.thy ===== *)
theory Client_Props
  imports Riot_Client
begin

text \<open>
  Properties of one call of the HTTP client: how many requests it makes, how long it may take,
  how much of Riot's Retry-After it pays, and what the breaker and the key have to say first.
\<close>

section \<open>Time\<close>

text \<open>The latest instant a call under context \<open>c\<close> that started at \<open>t0\<close> can be at.\<close>

definition by_then :: "ctx \<Rightarrow> gtime \<Rightarrow> gtime \<Rightarrow> bool" where
  "by_then c t0 t = (case c of None \<Rightarrow> True | Some (d, e) \<Rightarrow> t \<le> max t0 d)"

lemma by_then_refl: "by_then c t0 t0"
  by (auto simp: by_then_def split: option.splits)

lemma clock_sleep_by_then: "by_then c t0 now \<Longrightarrow> by_then c t0 (fst (clock_sleep c now d))"
  by (auto simp: by_then_def clock_sleep_def split: option.splits)

lemma by_then_with_timeout: "by_then (with_timeout c now d) t0 t \<Longrightarrow> by_then c t0 t"
  by (auto simp: by_then_def with_timeout_def split: option.splits if_splits)

lemma by_then_start: "by_then c t0 now \<Longrightarrow> by_then c now t \<Longrightarrow> by_then c t0 t"
  by (auto simp: by_then_def split: option.splits)

lemma allow_loop_by_then:
  "allow_loop n b c now = Some (r, t) \<Longrightarrow> by_then c t0 now \<Longrightarrow> by_then c t0 t"
proof (induction n arbitrary: now)
  case (Suc n)
  obtain wait stop where st: "breaker_state b now = (wait, stop)" by fastforce
  obtain now' e where sl: "clock_sleep c now wait = (now', e)" by fastforce
  have "by_then c t0 now'"
    using clock_sleep_by_then [OF Suc.prems(2), of wait] sl by simp
  then show ?case
    using Suc.prems Suc.IH [of now'] st sl by (cases e) (auto split: if_splits option.splits)
qed simp

lemma limiter_Wait_by_then:
  "limiter_Wait l c now = (e, t, l') \<Longrightarrow> by_then c t0 now \<Longrightarrow> by_then c t0 t"
  using clock_sleep_by_then [of c t0 now "fst (reserve l now)"]
  by (auto simp: limiter_Wait_def split: option.splits prod.splits if_splits)

lemma client_sleep_by_then:
  "client_sleep k c d w = (e, w') \<Longrightarrow> by_then c t0 (cw_now w) \<Longrightarrow> by_then c t0 (cw_now w')"
  using clock_sleep_by_then [of c t0 "cw_now w" d]
  by (auto simp: client_sleep_def split: prod.splits if_splits)

lemma cut_off_None: "cut_off c now t = None \<Longrightarrow> by_then c now t"
  by (auto simp: cut_off_def by_then_def split: option.splits if_splits)

lemma cut_off_Some: "cut_off c now t = Some t' \<Longrightarrow> by_then c now t'"
  by (auto simp: cut_off_def by_then_def split: option.splits if_splits)

lemma attempt_call_by_then:
  assumes "attempt_call opt c http m key w = (r, w')"
  shows "by_then c (cw_now w) (cw_now w')"
  using assms
  by (auto simp: attempt_call_def Let_def split: http_outcome.splits option.splits prod.splits
      dest!: cut_off_None cut_off_Some elim: by_then_start)

section \<open>Requests and waits\<close>

lemma client_sleep_frame [frame_simps]:
  assumes "client_sleep k c d w = (e, w')"
  shows "cw_requests w' = cw_requests w" "cw_limiter w' = cw_limiter w" "cw_breaker w' = cw_breaker w"
    "cw_keys w' = cw_keys w" "cw_waits w' = cw_waits w @ (if d \<le> 0 then [] else [(k, d)])"
  using assms by (auto simp: client_sleep_def split: prod.splits if_splits)

lemma attempt_call_frame [frame_simps]:
  assumes "attempt_call opt c http m key w = (r, w')"
  shows "cw_requests w' = cw_requests w @ [(cw_now w, key)]" "cw_breaker w' = cw_breaker w"
    "cw_keys w' = cw_keys w" "cw_waits w' = cw_waits w"
  using assms by (auto simp: attempt_call_def Let_def split: http_outcome.splits option.splits prod.splits)

definition paid_waits :: "(wait_kind \<times> duration) list \<Rightarrow> duration" where
  "paid_waits ws = sum_list (map snd (filter (\<lambda>x. fst x = RetryAfterWait) ws))"

lemma paid_waits_append: "paid_waits (xs @ ys) = paid_waits xs + paid_waits ys"
  by (simp add: paid_waits_def)

lemma paid_waits_one: "paid_waits [(k, d)] = (if k = RetryAfterWait then d else 0)"
  by (simp add: paid_waits_def)

lemma paid_waits_Nil: "paid_waits [] = 0"
  by (simp add: paid_waits_def)

lemmas paid_simps = paid_waits_append paid_waits_one paid_waits_Nil

text \<open>
  What a response handler does to the world: no request, and the paid waiting grows exactly by
  what the budget is charged, or the call is over.
\<close>

definition handled :: "client_opts \<Rightarrow> ctx \<Rightarrow> duration \<Rightarrow> client_world \<Rightarrow> step_result \<times> client_world \<Rightarrow> bool" where
  "handled opt c paid w rw =
     (case rw of (r, w') \<Rightarrow>
        cw_requests w' = cw_requests w \<and> (\<forall>t0. by_then c t0 (cw_now w) \<longrightarrow> by_then c t0 (cw_now w')) \<and>
        (\<exists>d. 0 \<le> d \<and> d \<le> max 0 (co_RetryWaitBudget opt - paid) \<and> paid_waits (cw_waits w') = paid_waits (cw_waits w) + d \<and>
             (case r of Done _ \<Rightarrow> True | Again paid' e \<Rightarrow> paid' = paid + d)))"

lemma handled_retry: "handled opt c paid w (retry_after_backoff opt c a ex paid err w)"
  by (auto simp: handled_def retry_after_backoff_def frame_simps paid_simps
      split: prod.splits option.splits intro: client_sleep_by_then)

lemma backoff_loop_nonneg: "0 \<le> d \<Longrightarrow> 0 \<le> mx \<Longrightarrow> 0 \<le> backoff_loop k d mx"
  by (induction k arbitrary: d) (auto simp: Let_def)

lemma backoff_loop_le: "d \<le> mx \<Longrightarrow> backoff_loop k d mx \<le> mx"
  by (induction k arbitrary: d) (auto simp: Let_def)

text \<open>The delay is between half and all of the nominal value, as the jitter is in \<open>[0, 1)\<close>.\<close>

lemma backoff_bounds:
  assumes "0 \<le> co_BackoffBase opt" and "0 \<le> co_BackoffMax opt" and "0 \<le> j" and "j < 1"
  shows "0 \<le> backoff opt a j" and "backoff opt a j \<le> co_BackoffMax opt"
proof -
  define d where "d = min (co_BackoffMax opt) (backoff_loop (a - 1) (co_BackoffBase opt) (co_BackoffMax opt))"
  have d: "0 \<le> d" "d \<le> co_BackoffMax opt"
    using assms backoff_loop_nonneg by (auto simp: d_def)
  have "j * of_int (d div 2) \<le> of_int (d div 2)"
    using assms(3,4) d(1) by (intro mult_left_le_one_le) auto
  then have "\<lfloor>j * of_int (d div 2)\<rfloor> \<le> d div 2" by linarith
  moreover have "0 \<le> j * of_int (d div 2)" using assms(3) d(1) by simp
  moreover have "backoff opt a j = d div 2 + \<lfloor>j * of_int (d div 2)\<rfloor>"
    by (auto simp: backoff_def d_def Let_def min_def)
  ultimately show "0 \<le> backoff opt a j" "backoff opt a j \<le> co_BackoffMax opt"
    using d by (auto simp: zero_le_floor)
qed

definition opts_ok :: "client_opts \<Rightarrow> bool" where
  "opts_ok opt =
     (0 < co_Timeout opt \<and> 0 < co_RetryWaitBudget opt \<and> 0 < co_MaxAttempts opt \<and>
      0 < co_BackoffBase opt \<and> 0 < co_BackoffMax opt)"

lemma normalize_opts_ok: "opts_ok (normalize_opts opt)"
  by (simp add: opts_ok_def normalize_opts_def default_if_nonpos_def DefaultTimeout_def
      DefaultRetryWaitBudget_def duration_defs)

definition exchange_ok :: "exchange \<Rightarrow> bool" where
  "exchange_ok ex = (0 \<le> ex_jitter ex \<and> ex_jitter ex < 1)"

lemma handled_rate_limited:
  assumes "opts_ok opt" and "exchange_ok ex"
  shows "handled opt c paid w (on_rate_limited opt parent c m a ex paid header w)"
proof -
  let ?after = "ParseRetryAfter (co_parse_time opt) (header ''Retry-After'') (cw_now w)"
  let ?fb = "backoff opt (nat a) (ex_jitter ex)"
  define wait where "wait = (if ?after \<le> 0 then ?fb else ?after)"
  have nn: "0 \<le> wait"
    using assms backoff_bounds(1) by (auto simp: wait_def opts_ok_def exchange_ok_def)
  have rl: "rateLimitedWait ?after ?fb (co_RetryWaitBudget opt - paid) = (wait, co_RetryWaitBudget opt - paid < wait)"
    by (simp add: rateLimitedWait_def wait_def Let_def)
  show ?thesis
    using nn unfolding handled_def on_rate_limited_def Let_def rl
    by (auto simp: frame_simps paid_simps split: prod.splits option.splits
        intro: client_sleep_by_then dest: client_sleep_frame client_sleep_by_then)
qed

lemma handled_response:
  assumes "opts_ok opt" and "exchange_ok ex"
  shows "handled opt c paid w (on_response opt parent c m a ex paid resp w)"
proof -
  have "handled opt c paid w (Done r, w)" "handled opt c paid w (Done r, w\<lparr>cw_breaker := b\<rparr>)" for r b
    by (auto simp: handled_def intro: exI [of _ 0])
  then show ?thesis
    using handled_rate_limited [OF assms] handled_retry
    by (auto simp: on_response_def split: prod.splits)
qed

text \<open>One attempt, whatever the network does.\<close>

definition stepped :: "client_opts \<Rightarrow> ctx \<Rightarrow> duration \<Rightarrow> client_world \<Rightarrow> step_result \<times> client_world \<Rightarrow> bool" where
  "stepped opt c paid w rw =
     (case rw of (r, w') \<Rightarrow>
        length (cw_requests w') \<le> Suc (length (cw_requests w)) \<and>
        (\<forall>t0. by_then c t0 (cw_now w) \<longrightarrow> by_then c t0 (cw_now w')) \<and>
        (\<exists>d. 0 \<le> d \<and> d \<le> max 0 (co_RetryWaitBudget opt - paid) \<and> paid_waits (cw_waits w') = paid_waits (cw_waits w) + d \<and>
             (case r of Done _ \<Rightarrow> True | Again paid' e \<Rightarrow> paid' = paid + d)))"

lemma stepped_return:
  assumes "\<And>t0. by_then c t0 (cw_now w) \<Longrightarrow> by_then c t0 t"
  shows "cw_requests w' = cw_requests w \<Longrightarrow> cw_waits w' = cw_waits w \<Longrightarrow> cw_now w' = t \<Longrightarrow>
    stepped opt c paid w (Done r, w')"
  using assms by (auto simp: stepped_def intro: exI [of _ 0])

lemma stepped_handled:
  assumes h: "handled opt c paid w4 rw"
    and at: "attempt_call opt ac http m key w3 = (x, w4)"
    and t: "\<And>t0. by_then c t0 (cw_now w) \<Longrightarrow> by_then c t0 (cw_now w4)"
    and w3: "cw_requests w3 = cw_requests w" "cw_waits w3 = cw_waits w"
  shows "stepped opt c paid w rw"
  using h t w3 attempt_call_frame [OF at] by (cases rw) (auto simp: handled_def stepped_def)

lemma do_step_stepped:
  assumes "opts_ok opt" and "exchange_ok ex"
  shows "stepped opt c paid w (do_step opt parent c m a ex paid w)"
proof (cases "allow_loop 2 (cw_breaker w) c (cw_now w)")
  case None
  then show ?thesis by (auto simp: do_step_def intro: stepped_return)
next
  case (Some rt)
  obtain r now1 where al: "allow_loop 2 (cw_breaker w) c (cw_now w) = Some (r, now1)"
    using Some by (cases rt) auto
  have t1: "by_then c t0 now1" if "by_then c t0 (cw_now w)" for t0
    by (rule allow_loop_by_then [OF al that])
  obtain key ok keys where k: "Key (ex_disk ex) now1 (cw_keys w) = ((key, ok), keys)"
    by (metis surj_pair)
  let ?ac = "with_timeout c now1 (co_Timeout opt)"
  obtain lerr now2 lim where lw: "limiter_Wait (cw_limiter w) ?ac now1 = (lerr, now2, lim)"
    by (metis surj_pair)
  have t2: "by_then c t0 now2" if "by_then c t0 (cw_now w)" for t0
    using t1 [OF that] limiter_Wait_by_then [OF lw, of now1] by_then_refl
    by (blast intro: by_then_start by_then_with_timeout)
  let ?w3 = "w\<lparr>cw_keys := keys, cw_now := now2, cw_limiter := lim\<rparr>"
  obtain x w4 where at: "attempt_call opt ?ac (ex_http ex) m key ?w3 = (x, w4)"
    by (metis surj_pair)
  have t4: "by_then c t0 (cw_now w4)" if "by_then c t0 (cw_now w)" for t0
  proof -
    have "by_then ?ac now2 (cw_now w4)" using attempt_call_by_then [OF at] by simp
    then have "by_then c now2 (cw_now w4)" by (rule by_then_with_timeout)
    with t2 [OF that] show ?thesis by (rule by_then_start)
  qed
  note frame = attempt_call_frame [OF at]
  have fin: "stepped opt c paid w (Done e, w4)" for e
    using t4 frame by (auto simp: stepped_def intro: exI [of _ 0])
  have retry: "stepped opt c paid w (retry_after_backoff opt c a ex paid e w4)" for e
    by (rule stepped_handled [OF handled_retry at t4]) auto
  have resp: "stepped opt c paid w (on_response opt parent c m a ex paid rs w4)" for rs
    by (rule stepped_handled [OF handled_response [OF assms] at t4]) auto
  show ?thesis
  proof (cases r)
    case Allowed
    note unf = do_step_def al k lw at Let_def Allowed
    show ?thesis
    proof (cases "\<not> ok \<or> lerr \<noteq> None")
      case True
      have "stepped opt c paid w (Done e, w\<lparr>cw_now := now1, cw_keys := keys\<rparr>)" for e
        by (rule stepped_return [where t = now1]) (simp_all add: t1)
      moreover have "stepped opt c paid w (Done e, w\<lparr>cw_keys := keys, cw_now := now2, cw_limiter := lim\<rparr>)" for e
        by (rule stepped_return [where t = now2]) (simp_all add: t2)
      ultimately show ?thesis
        using True by (auto simp: unf)
    next
      case False
      then show ?thesis
      proof (cases x)
        case (Inl e)
        then show ?thesis
          using False fin retry by (cases "ctx_err ?ac (cw_now w4)") (simp_all add: unf)
      next
        case (Inr rs)
        then show ?thesis using False resp by (simp add: unf)
      qed
    qed
  qed (use t1 in \<open>auto simp: do_step_def al Let_def intro: stepped_return [where t = now1]\<close>)
qed

lemma do_loop_bounds:
  assumes "opts_ok opt" and "\<And>i. exchange_ok (script i)" and "paid \<le> co_RetryWaitBudget opt"
    and "do_loop opt parent c m script n a paid le w = (r, w')"
  shows "length (cw_requests w') \<le> length (cw_requests w) + n \<and>
    (by_then c start (cw_now w) \<longrightarrow> by_then c start (cw_now w')) \<and>
    paid_waits (cw_waits w') \<le> paid_waits (cw_waits w) + (co_RetryWaitBudget opt - paid)"
  using assms(3,4)
proof (induction n arbitrary: a paid le w)
  case (Suc n)
  obtain s w1 where st: "do_step opt parent c m (int a) (script a) paid w = (s, w1)" by fastforce
  obtain d where d: "0 \<le> d" "d \<le> co_RetryWaitBudget opt - paid" "paid_waits (cw_waits w1) = paid_waits (cw_waits w) + d"
    and again: "\<And>paid' e. s = Again paid' e \<Longrightarrow> paid' = paid + d"
    and len: "length (cw_requests w1) \<le> Suc (length (cw_requests w))"
    and by_t: "by_then c start (cw_now w) \<longrightarrow> by_then c start (cw_now w1)"
    using do_step_stepped [OF assms(1,2), of c paid w parent m "int a" a] Suc.prems(1)
    unfolding stepped_def st by (cases s) auto
  show ?case
  proof (cases s)
    case (Done x)
    then show ?thesis using Suc.prems(2) st d len by_t by auto
  next
    case (Again paid' e)
    then have "paid' \<le> co_RetryWaitBudget opt" "do_loop opt parent c m script n (Suc a) paid' (Some e) w1 = (r, w')"
      using again d(2) Suc.prems(2) st by auto
    from Suc.IH [OF this] show ?thesis
      using again [OF Again] d len by_t by auto
  qed
qed auto

section \<open>Properties\<close>

text \<open>
  C11: One call of the client is bounded in every respect, whatever the network answers: it sends
  at most \<^verbatim>\<open>MaxAttempts\<close> requests, the Retry-After waits it pays add up to at most its budget,
  and it is over by the round-trip timeout plus the budget after it started.
\<close>

theorem client_call_bounded:
  assumes "opts_ok opt" and "\<And>i. exchange_ok (script i)"
    and "client_do opt parent method script w = (r, w')"
  shows "length (cw_requests w') \<le> length (cw_requests w) + nat (co_MaxAttempts opt) \<and>
    paid_waits (cw_waits w') \<le> paid_waits (cw_waits w) + co_RetryWaitBudget opt \<and>
    cw_now w' \<le> cw_now w + (co_Timeout opt + co_RetryWaitBudget opt)"
proof -
  let ?d = "co_Timeout opt + co_RetryWaitBudget opt"
  let ?c = "with_timeout parent (cw_now w) ?d"
  have "0 < ?d" using assms(1) by (simp add: opts_ok_def)
  have "by_then ?c (cw_now w) (cw_now w')" and
    "length (cw_requests w') \<le> length (cw_requests w) + nat (co_MaxAttempts opt)"
    "paid_waits (cw_waits w') \<le> paid_waits (cw_waits w) + co_RetryWaitBudget opt"
    using do_loop_bounds [OF assms(1,2), where paid = 0 and c = ?c and w = w and start = "cw_now w"]
      assms(1,3) by (auto simp: client_do_def opts_ok_def by_then_refl)
  then show ?thesis
    using \<open>0 < ?d\<close> by (auto simp: by_then_def with_timeout_def split: option.splits if_splits)
qed

definition quiet_world :: "gtime \<Rightarrow> client_world" where
  "quiet_world now =
     \<lparr>cw_now = now, cw_limiter = NewLimiter DevelopmentKeyWindows [] 0 now, cw_breaker = newBreaker 0 0 0,
      cw_keys = NewKeyProviderFrom ''RGAPI-1'' [], cw_requests = [], cw_waits = []\<rparr>"

definition zero_opts :: "client_opts" where
  "zero_opts = normalize_opts \<lparr>co_Timeout = 0, co_RetryWaitBudget = 0, co_MaxAttempts = 0,
     co_MaxBodyBytes = 0, co_BackoffBase = 0, co_BackoffMax = 0, co_parse_time = (\<lambda>_. None)\<rparr>"

text \<open>A throttled call: Riot asks for 15 seconds on the first attempt and answers the second.\<close>

definition throttled_once :: "nat \<Rightarrow> exchange" where
  "throttled_once n =
     (if n = 1
      then \<lparr>ex_disk = None, ex_http = Responds 1000 1000 429 (\<lambda>h. if h = ''Retry-After'' then ''15'' else []) (BodyRead []),
            ex_jitter = 0\<rparr>
      else \<lparr>ex_disk = None, ex_http = Responds 1000 1000 200 (\<lambda>_. []) (BodyRead ''{}''), ex_jitter = 0\<rparr>)"

theorem client_call_bounded_witness:
  "fst (client_do zero_opts background ''match'' throttled_once (quiet_world 7)) = Inr ''{}'' \<and>
   length (cw_requests (snd (client_do zero_opts background ''match'' throttled_once (quiet_world 7)))) \<le> 5 \<and>
   paid_waits (cw_waits (snd (client_do zero_opts background ''match'' throttled_once (quiet_world 7)))) \<le> seconds 60 \<and>
   cw_now (snd (client_do zero_opts background ''match'' throttled_once (quiet_world 7))) \<le> 7 + (seconds 10 + seconds 60)"
proof -
  have ok: "opts_ok zero_opts"
    by (simp add: zero_opts_def normalize_opts_ok)
  have ex: "exchange_ok (throttled_once i)" for i
    by (simp add: throttled_once_def exchange_ok_def)
  have vals: "co_MaxAttempts zero_opts = 5" "co_RetryWaitBudget zero_opts = seconds 60"
    "co_Timeout zero_opts = seconds 10" "cw_requests (quiet_world 7) = []" "cw_waits (quiet_world 7) = []"
    "cw_now (quiet_world 7) = 7"
    by (simp_all add: zero_opts_def normalize_opts_def default_if_nonpos_def DefaultTimeout_def
        DefaultRetryWaitBudget_def duration_defs quiet_world_def)
  have r: "fst (client_do zero_opts background ''match'' throttled_once (quiet_world 7)) = Inr ''{}''"
    by code_simp
  then have "client_do zero_opts background ''match'' throttled_once (quiet_world 7) =
      (Inr ''{}'', snd (client_do zero_opts background ''match'' throttled_once (quiet_world 7)))"
    by (metis prod.collapse)
  from client_call_bounded [OF ok ex this] r show ?thesis
    by (simp add: vals paid_waits_Nil)
qed

text \<open>
  A client whose breaker has stopped refuses the call at once: no request is sent, nothing is
  waited for and nothing changes, so the caller decides when to come back.
\<close>

theorem stopped_breaker_sends_nothing:
  assumes "opts_ok opt" and "cw_now w < br_openUntil (cw_breaker w)"
    and "br_maxWait (cw_breaker w) \<le> br_backoff (cw_breaker w)"
  shows "client_do opt parent method script w = (Inl (riot_wrap method ErrCircuitOpen), w)"
proof -
  obtain n where n: "nat (co_MaxAttempts opt) = Suc n"
    using assms(1) by (cases "nat (co_MaxAttempts opt)") (auto simp: opts_ok_def)
  have "allow_loop 2 (cw_breaker w) c (cw_now w) = Some (CircuitOpen, cw_now w)" for c
    using assms(2,3) time_sub_nonpos_iff [of "br_openUntil (cw_breaker w)" "cw_now w"]
    by (simp add: numeral_2_eq_2 breaker_state_def)
  then show ?thesis
    by (simp add: client_do_def n do_step_def)
qed

theorem stopped_breaker_sends_nothing_witness:
  "client_do zero_opts background ''match'' throttled_once
     (quiet_world 7\<lparr>cw_breaker := snd (breaker_failAuth (newBreaker 1 0 0) 7)\<rparr>)
   = (Inl (riot_wrap ''match'' ErrCircuitOpen), quiet_world 7\<lparr>cw_breaker := snd (breaker_failAuth (newBreaker 1 0 0) 7)\<rparr>)"
  by (rule stopped_breaker_sends_nothing)
    (simp_all add: zero_opts_def normalize_opts_ok quiet_world_def breaker_failAuth_def record_failure_def
      newBreaker_def duration_defs)

lemma retry_not_body: "retry_after_backoff opt c a ex paid e w \<noteq> (Done (Inr b), w')"
  by (auto simp: retry_after_backoff_def split: prod.splits option.splits)

lemma limited_not_body: "on_rate_limited opt parent c m a ex paid h w \<noteq> (Done (Inr b), w')"
  by (auto simp: on_rate_limited_def Let_def split: prod.splits option.splits)

lemma attempt_call_body:
  "attempt_call opt c http m key w = (Inr (b, st, h), w') \<Longrightarrow> int (length b) \<le> co_MaxBodyBytes opt"
  by (auto simp: attempt_call_def Let_def readBody_def
      split: http_outcome.splits option.splits prod.splits body_read.splits if_splits)

lemma do_step_body:
  assumes "do_step opt parent c m a ex paid w = (Done (Inr b), w')"
  shows "int (length b) \<le> co_MaxBodyBytes opt \<and> br_consecutive (cw_breaker w') = 0 \<and>
    br_openUntil (cw_breaker w') = 0 \<and> br_backoff (cw_breaker w') = 0"
proof -
  have resp: "int (length b) \<le> co_MaxBodyBytes opt \<and> br_consecutive (cw_breaker w') = 0 \<and>
      br_openUntil (cw_breaker w') = 0 \<and> br_backoff (cw_breaker w') = 0"
    if "on_response opt parent c m a ex paid rs w4 = (Done (Inr b), w')"
      "attempt_call opt ac http m key w3 = (Inr rs, w4)" for rs w4 ac http key w3
    using that attempt_call_body [of opt ac http m key w3]
    by (cases rs) (auto simp: on_response_def breaker_succeed_def retry_not_body limited_not_body split: if_splits)
  show ?thesis
    using assms unfolding do_step_def Let_def
    by (auto simp: retry_not_body split: option.splits prod.splits allow_result.splits if_splits sum.splits
        dest: resp)
qed

text \<open>
  A body is only ever returned whole and from a success: it is within the size limit, and the
  breaker is closed and its count cleared by the response that carried it.
\<close>

theorem returned_body_is_whole:
  assumes "client_do opt parent method script w = (Inr body, w')"
  shows "int (length body) \<le> co_MaxBodyBytes opt \<and> br_consecutive (cw_breaker w') = 0 \<and>
    breaker_remaining (cw_breaker w') (max 0 now) = 0"
proof -
  have "int (length body) \<le> co_MaxBodyBytes opt \<and> br_consecutive (cw_breaker w') = 0 \<and>
      br_openUntil (cw_breaker w') = 0"
    if "do_loop opt parent c method script n a paid le v = (Inr body, w')" for c n a paid le v
    using that
  proof (induction n arbitrary: a paid le v)
    case (Suc n)
    obtain s v1 where st: "do_step opt parent c method (int a) (script a) paid v = (s, v1)" by fastforce
    show ?case
    proof (cases s)
      case (Done x)
      with Suc.prems st have "do_step opt parent c method (int a) (script a) paid v = (Done (Inr body), w')"
        by simp
      then show ?thesis using do_step_body by blast
    next
      case (Again paid' e)
      with Suc st show ?thesis by simp
    qed
  qed simp
  with assms show ?thesis
    by (auto simp: client_do_def breaker_remaining_def)
qed

theorem returned_body_is_whole_witness:
  "int (length ''{}'') \<le> 64 * 1048576 \<and>
   br_consecutive (cw_breaker (snd (client_do zero_opts background ''match'' throttled_once (quiet_world 7)))) = 0"
proof -
  have "fst (client_do zero_opts background ''match'' throttled_once (quiet_world 7)) = Inr ''{}''"
    by code_simp
  then have "client_do zero_opts background ''match'' throttled_once (quiet_world 7) =
      (Inr ''{}'', snd (client_do zero_opts background ''match'' throttled_once (quiet_world 7)))"
    by (metis prod.collapse)
  from returned_body_is_whole [OF this, of 0] show ?thesis
    by (simp add: zero_opts_def normalize_opts_def default_if_nonpos_def)
qed

end
