(* ===== verification/Contract.thy ===== *)
theory Contract
  imports Prelude
begin

text \<open>
  The types the ingest components share (\<^verbatim>\<open>internal/contract/contract.go\<close>): the queue's
  statuses and kinds, the rows of the control plane's tables as the Go structs see them, and
  the metadata a payload is archived with. A \<^verbatim>\<open>time.Time\<close> field that may be unset is 0.
\<close>

datatype MatchStatus = MatchPending | MatchFetched | MatchParsed | MatchFailed

datatype JobStatus = JobPending | JobClaimed | JobDone | JobRetry | JobDead

text \<open>
  A kind is a string in Go; \<^verbatim>\<open>ParseQueueKind\<close> and \<^verbatim>\<open>Stored\<close> send every value but \<^verbatim>\<open>timeline\<close>
  to \<^verbatim>\<open>match\<close>, so two values are told apart.
\<close>

datatype QueueKind = KindMatch | KindTimeline

definition ParseQueueKind :: "string \<Rightarrow> QueueKind" where
  "ParseQueueKind s = (if s = ''timeline'' then KindTimeline else KindMatch)"

definition Stored :: "QueueKind \<Rightarrow> string" where
  "Stored k = (if k = KindTimeline then ''timeline'' else ''match'')"

lemma ParseQueueKind_Stored [simp]: "ParseQueueKind (Stored k) = k"
  by (cases k) (simp_all add: ParseQueueKind_def Stored_def)

record MatchMeta =
  mm_MatchID :: string
  mm_Region :: string
  mm_QueueID :: int
  mm_Patch :: string
  mm_GameVersion :: string
  mm_GameCreation :: gtime
  mm_GameDurationS :: int
  mm_PayloadVersion :: string
  mm_FetchedAt :: gtime

record MatchRecord =
  mr_MatchID :: string
  mr_Region :: string
  mr_QueueID :: int
  mr_Patch :: string
  mr_GameVersion :: string
  mr_GameCreation :: gtime
  mr_GameDurationS :: int
  mr_PayloadVersion :: string
  mr_RawURI :: string
  mr_Status :: "MatchStatus option"
  mr_FetchedAt :: gtime
  mr_ParsedAt :: gtime
  mr_Err :: string

record QueueItem =
  qi_ID :: int
  qi_MatchID :: string
  qi_Kind :: QueueKind
  qi_Priority :: int
  qi_Attempts :: int
  qi_NotBefore :: gtime
  qi_ClaimedAt :: gtime
  qi_Status :: "JobStatus option"

record FrontierEntry =
  fe_PUUID :: string
  fe_Region :: string
  fe_SeedTier :: string
  fe_SeedDivision :: string
  fe_LastSeenAt :: gtime
  fe_LastFetchedAt :: gtime
  fe_ConsecutiveEmpty :: int
  fe_Priority :: int
  fe_Dead :: bool

record TimelineQuery =
  tq_Region :: string
  tq_QueueID :: int
  tq_Since :: gtime
  tq_MinDurationS :: int
  tq_Limit :: int
  tq_IncludeShort :: bool

record TimelineCandidate =
  tc_MatchID :: string
  tc_Region :: string
  tc_QueueID :: int
  tc_Patch :: string
  tc_GameVersion :: string
  tc_GameCreation :: gtime
  tc_GameDurationS :: int

record CandidateReport =
  tcs_Matches :: "TimelineCandidate list"
  tcs_Eligible :: int
  tcs_Ready :: int
  tcs_ShortExcluded :: int
  tcs_AlreadyQueued :: int
  tcs_AlreadyDone :: int

text \<open>A queue item as the callers that enqueue work build it: everything else is zero.\<close>

definition new_item :: "string \<Rightarrow> QueueKind \<Rightarrow> int \<Rightarrow> QueueItem" where
  "new_item match_id kind priority =
     \<lparr>qi_ID = 0, qi_MatchID = match_id, qi_Kind = kind, qi_Priority = priority, qi_Attempts = 0,
      qi_NotBefore = 0, qi_ClaimedAt = 0, qi_Status = None\<rparr>"

text \<open>\<^verbatim>\<open>clampLimit\<close> of the store: the rows one statement may touch.\<close>

definition maxClaimLimit :: int where
  "maxClaimLimit = 1000"

definition clampLimit :: "int \<Rightarrow> int" where
  "clampLimit limit = (if limit \<le> 0 then 0 else if maxClaimLimit < limit then maxClaimLimit else limit)"

lemma clampLimit_bounds: "0 \<le> clampLimit n \<and> clampLimit n \<le> 1000 \<and> (0 < n \<longrightarrow> clampLimit n \<le> n)"
  by (simp add: clampLimit_def maxClaimLimit_def)

text \<open>\<^verbatim>\<open>nullText\<close> and \<^verbatim>\<open>nullTime\<close>: the empty value is SQL NULL.\<close>

definition nullText :: "string \<Rightarrow> string option" where
  "nullText s = (if s = [] then None else Some s)"

definition nullTime :: "gtime \<Rightarrow> gtime option" where
  "nullTime t = (if t = 0 then None else Some t)"

end
