(* ===== verification/Store_Queue.thy ===== *)
theory Store_Queue
  imports Contract
begin

text \<open>
  The fetch queue (\<^verbatim>\<open>internal/store/queue.go\<close> and the queue statements of
  \<^verbatim>\<open>internal/store/maintain.go\<close>): the table as a list of rows in insertion order, and one
  function per SQL statement. A statement is atomic, so a statement is a function on the table;
  \<^verbatim>\<open>FOR UPDATE SKIP LOCKED\<close> is the set of row ids other transactions hold. Sorting follows the
  statement's ORDER BY; ties the statement leaves open are broken by the table's order.
\<close>

section \<open>Rows\<close>

record job =
  j_id :: int
  j_match :: string
  j_kind :: QueueKind
  j_priority :: int
  j_attempts :: int
  j_notBefore :: gtime
  j_claimedAt :: "gtime option"
  j_status :: JobStatus
  j_cause :: "string option"
  j_revivals :: int

record queue =
  q_rows :: "job list"
  q_next :: int

definition enqueueBatch :: nat where
  "enqueueBatch = 500"

definition revivalBudget :: int where
  "revivalBudget = 3"

section \<open>The claim order\<close>

text \<open>ORDER BY priority, not_before, id.\<close>

datatype claim_key = Claim_Key int gtime int

fun claim_key_less_eq :: "claim_key \<Rightarrow> claim_key \<Rightarrow> bool" where
  "claim_key_less_eq (Claim_Key p n i) (Claim_Key p' n' i') =
     (p < p' \<or> p = p' \<and> (n < n' \<or> n = n' \<and> i \<le> i'))"

instantiation claim_key :: linorder
begin

definition less_eq_claim_key :: "claim_key \<Rightarrow> claim_key \<Rightarrow> bool" where
  "less_eq_claim_key a b = claim_key_less_eq a b"

definition less_claim_key :: "claim_key \<Rightarrow> claim_key \<Rightarrow> bool" where
  "less_claim_key a b = (claim_key_less_eq a b \<and> \<not> claim_key_less_eq b a)"

instance
proof
  fix x y z :: claim_key
  show "x < y \<longleftrightarrow> x \<le> y \<and> \<not> y \<le> x"
    by (simp add: less_claim_key_def less_eq_claim_key_def)
  show "x \<le> x"
    by (cases x) (simp add: less_eq_claim_key_def)
  show "x \<le> z" if "x \<le> y" "y \<le> z"
    using that by (cases x; cases y; cases z) (auto simp: less_eq_claim_key_def)
  show "x = y" if "x \<le> y" "y \<le> x"
    using that by (cases x; cases y) (auto simp: less_eq_claim_key_def)
  show "x \<le> y \<or> y \<le> x"
    by (cases x; cases y) (auto simp: less_eq_claim_key_def)
qed

end

definition claim_key :: "job \<Rightarrow> claim_key" where
  "claim_key j = Claim_Key (j_priority j) (j_notBefore j) (j_id j)"

section \<open>Enqueue\<close>

definition item_key :: "QueueItem \<Rightarrow> string \<times> QueueKind" where
  "item_key i = (qi_MatchID i, qi_Kind i)"

text \<open>\<^verbatim>\<open>dedupeQueueItems\<close>: the first item of a key stays, with the lowest priority of its key.\<close>

fun lower_priority :: "(string \<times> QueueKind) \<Rightarrow> int \<Rightarrow> QueueItem list \<Rightarrow> QueueItem list" where
  "lower_priority k p [] = []"
| "lower_priority k p (i # is) =
     (if item_key i = k then (if p < qi_Priority i then i\<lparr>qi_Priority := p\<rparr> else i) # is
      else i # lower_priority k p is)"

fun dedupe_items :: "QueueItem list \<Rightarrow> QueueItem list \<Rightarrow> QueueItem list" where
  "dedupe_items out [] = out"
| "dedupe_items out (i # is) =
     (if qi_MatchID i = [] then dedupe_items out is
      else if item_key i \<in> item_key ` set out
      then dedupe_items (lower_priority (item_key i) (qi_Priority i) out) is
      else dedupe_items (out @ [i]) is)"

definition dedupeQueueItems :: "QueueItem list \<Rightarrow> QueueItem list" where
  "dedupeQueueItems items = dedupe_items [] items"

text \<open>One proposed row: insert it, or revive the dead row of its key if it has budget left.\<close>

definition job_key :: "job \<Rightarrow> string \<times> QueueKind" where
  "job_key j = (j_match j, j_kind j)"

definition revivable :: "(string \<times> QueueKind) \<Rightarrow> job \<Rightarrow> bool" where
  "revivable k j = (job_key j = k \<and> j_status j = JobDead \<and> j_revivals j < revivalBudget)"

definition enqueue_one :: "gtime \<Rightarrow> QueueItem \<Rightarrow> queue \<Rightarrow> queue \<times> int" where
  "enqueue_one now i q =
     (let nb = (if qi_NotBefore i = 0 then now else qi_NotBefore i);
          q1 = q\<lparr>q_next := q_next q + 1\<rparr>
      in if item_key i \<in> job_key ` set (q_rows q)
         then (q1\<lparr>q_rows := map (\<lambda>j. if revivable (item_key i) j
                                     then j\<lparr>j_status := JobPending, j_attempts := 0,
                                            j_revivals := j_revivals j + 1, j_notBefore := nb,
                                            j_claimedAt := None, j_cause := None\<rparr>
                                     else j) (q_rows q)\<rparr>,
               int (length (filter (revivable (item_key i)) (q_rows q))))
         else (q1\<lparr>q_rows := q_rows q @
                 [\<lparr>j_id = q_next q, j_match = qi_MatchID i, j_kind = qi_Kind i, j_priority = qi_Priority i,
                   j_attempts = qi_Attempts i, j_notBefore = nb, j_claimedAt = None, j_status = JobPending,
                   j_cause = None, j_revivals = 0\<rparr>]\<rparr>, 1))"

fun enqueue_rows :: "gtime \<Rightarrow> QueueItem list \<Rightarrow> queue \<Rightarrow> queue \<times> int" where
  "enqueue_rows now [] q = (q, 0)"
| "enqueue_rows now (i # is) q =
     (let (q1, n) = enqueue_one now i q; (q2, m) = enqueue_rows now is q1 in (q2, n + m))"

text \<open>
  The chunks of 500: a statement that fails leaves the table alone and ends the call with what was
  added before it. \<open>db_ok\<close> says which statements succeed.
\<close>

fun enqueue_chunks :: "gtime \<Rightarrow> bool list \<Rightarrow> nat \<Rightarrow> QueueItem list \<Rightarrow> queue \<Rightarrow> int \<Rightarrow> queue \<times> int \<times> bool" where
  "enqueue_chunks now db_ok 0 batch q added = (q, added, True)"
| "enqueue_chunks now db_ok (Suc n) batch q added =
     (if batch = [] then (q, added, True)
      else if db_ok \<noteq> [] \<and> \<not> hd db_ok then (q, added, False)
      else (let (q', k) = enqueue_rows now (take enqueueBatch batch) q
            in enqueue_chunks now (tl db_ok) n (drop enqueueBatch batch) q' (added + k)))"

definition EnqueueMatches :: "gtime \<Rightarrow> bool list \<Rightarrow> QueueItem list \<Rightarrow> queue \<Rightarrow> queue \<times> int \<times> bool" where
  "EnqueueMatches now db_ok items q =
     (let batch = dedupeQueueItems items in enqueue_chunks now db_ok (length batch) batch q 0)"

section \<open>Claim\<close>

definition ready :: "QueueKind \<Rightarrow> gtime \<Rightarrow> job \<Rightarrow> bool" where
  "ready kind now j =
     (j_kind j = kind \<and> (j_status j = JobPending \<or> j_status j = JobRetry) \<and> j_notBefore j \<le> now)"

definition claim_pick :: "QueueKind \<Rightarrow> nat \<Rightarrow> gtime \<Rightarrow> int set \<Rightarrow> queue \<Rightarrow> job list" where
  "claim_pick kind n now locked q =
     take n (sort_key claim_key (filter (\<lambda>j. ready kind now j \<and> j_id j \<notin> locked) (q_rows q)))"

definition claim_job :: "gtime \<Rightarrow> job \<Rightarrow> job" where
  "claim_job now j = j\<lparr>j_status := JobClaimed, j_claimedAt := Some now, j_attempts := j_attempts j + 1\<rparr>"

definition item_of :: "job \<Rightarrow> QueueItem" where
  "item_of j = \<lparr>qi_ID = j_id j, qi_MatchID = j_match j, qi_Kind = j_kind j, qi_Priority = j_priority j,
     qi_Attempts = j_attempts j, qi_NotBefore = j_notBefore j,
     qi_ClaimedAt = (case j_claimedAt j of Some t \<Rightarrow> t | None \<Rightarrow> 0), qi_Status = Some (j_status j)\<rparr>"

definition update_rows :: "(job \<Rightarrow> bool) \<Rightarrow> (job \<Rightarrow> job) \<Rightarrow> queue \<Rightarrow> queue" where
  "update_rows P f q = q\<lparr>q_rows := map (\<lambda>j. if P j then f j else j) (q_rows q)\<rparr>"

text \<open>The items come back in the claim order: RETURNING promises none, so the code sorts them.\<close>

definition ClaimJobsOfKind :: "QueueKind \<Rightarrow> int \<Rightarrow> gtime \<Rightarrow> int set \<Rightarrow> queue \<Rightarrow> QueueItem list \<times> queue" where
  "ClaimJobsOfKind kind limit now locked q =
     (let n = nat (clampLimit limit)
      in if n = 0 then ([], q)
         else (let picked = claim_pick kind n now locked q
               in (map item_of (sort_key claim_key (map (claim_job now) picked)),
                   update_rows (\<lambda>j. j_id j \<in> j_id ` set picked) (claim_job now) q)))"

definition ClaimJobs :: "int \<Rightarrow> gtime \<Rightarrow> int set \<Rightarrow> queue \<Rightarrow> QueueItem list \<times> queue" where
  "ClaimJobs limit now locked q = ClaimJobsOfKind KindMatch limit now locked q"

section \<open>The guarded transitions of a claimed row\<close>

definition guarded :: "(job \<Rightarrow> job) \<Rightarrow> int \<Rightarrow> queue \<Rightarrow> queue" where
  "guarded f i q = update_rows (\<lambda>j. j_id j = i \<and> j_status j = JobClaimed) f q"

definition complete_job :: "job \<Rightarrow> job" where
  "complete_job j = j\<lparr>j_status := JobDone, j_claimedAt := None, j_cause := None\<rparr>"

definition CompleteJob :: "int \<Rightarrow> queue \<Rightarrow> queue" where
  "CompleteJob i q = guarded complete_job i q"

definition retry_job :: "gtime \<Rightarrow> string \<Rightarrow> job \<Rightarrow> job" where
  "retry_job nb cause j =
     j\<lparr>j_status := JobRetry, j_notBefore := nb, j_claimedAt := None, j_cause := nullText cause\<rparr>"

definition RetryJob :: "int \<Rightarrow> gtime \<Rightarrow> string \<Rightarrow> queue \<Rightarrow> queue" where
  "RetryJob i nb cause q = guarded (retry_job nb cause) i q"

definition dead_letter_job :: "gtime \<Rightarrow> string \<Rightarrow> job \<Rightarrow> job" where
  "dead_letter_job now cause j =
     j\<lparr>j_status := JobDead, j_claimedAt := Some now, j_cause := nullText cause\<rparr>"

definition DeadLetterJob :: "int \<Rightarrow> string \<Rightarrow> gtime \<Rightarrow> queue \<Rightarrow> queue" where
  "DeadLetterJob i cause now q = guarded (dead_letter_job now cause) i q"

definition release_job :: "gtime \<Rightarrow> string \<Rightarrow> job \<Rightarrow> job" where
  "release_job nb cause j =
     j\<lparr>j_status := JobRetry, j_notBefore := nb, j_claimedAt := None, j_cause := nullText cause,
       j_attempts := max (j_attempts j - 1) 0\<rparr>"

definition ReleaseJob :: "int \<Rightarrow> gtime \<Rightarrow> string \<Rightarrow> queue \<Rightarrow> queue" where
  "ReleaseJob i nb cause q = guarded (release_job nb cause) i q"

section \<open>Maintenance\<close>

definition claimTimeoutCause :: string where
  "claimTimeoutCause = ''claim expired: worker did not finish or report''"

definition replayedDeadLetterCause :: string where
  "replayedDeadLetterCause = ''replayed from dead letter: the condition that retired it has cleared''"

definition stuck_pick :: "gtime \<Rightarrow> nat \<Rightarrow> queue \<Rightarrow> job list" where
  "stuck_pick olderThan n q =
     take n (sort_key (\<lambda>j. the (j_claimedAt j))
       (filter (\<lambda>j. j_status j = JobClaimed \<and> (case j_claimedAt j of Some t \<Rightarrow> t < olderThan | None \<Rightarrow> False))
          (q_rows q)))"

definition ResetStuckClaims :: "gtime \<Rightarrow> int \<Rightarrow> gtime \<Rightarrow> queue \<Rightarrow> int \<times> queue" where
  "ResetStuckClaims olderThan limit now q =
     (let n = nat (clampLimit limit)
      in if n = 0 then (0, q)
         else (let picked = stuck_pick olderThan n q
               in (int (length picked),
                   update_rows (\<lambda>j. j_id j \<in> j_id ` set picked)
                     (\<lambda>j. j\<lparr>j_status := JobRetry, j_claimedAt := None, j_notBefore := now,
                           j_cause := Some claimTimeoutCause\<rparr>) q)))"

text \<open>ORDER BY claimed_at, id, with the rows that have no instant last, as SQL orders NULLs.\<close>

definition letter_key :: "job \<Rightarrow> claim_key" where
  "letter_key j = (case j_claimedAt j of Some t \<Rightarrow> Claim_Key 0 t (j_id j) | None \<Rightarrow> Claim_Key 1 0 (j_id j))"

definition letter_pick :: "nat \<Rightarrow> queue \<Rightarrow> job list" where
  "letter_pick n q = take n (sort_key letter_key (filter (\<lambda>j. j_status j = JobDead) (q_rows q)))"

definition ReplayDeadLettered :: "int \<Rightarrow> gtime \<Rightarrow> queue \<Rightarrow> int \<times> queue" where
  "ReplayDeadLettered limit now q =
     (let n = nat (clampLimit limit)
      in if n = 0 then (0, q)
         else (let picked = letter_pick n q
               in (int (length picked),
                   update_rows (\<lambda>j. j_id j \<in> j_id ` set picked)
                     (\<lambda>j. j\<lparr>j_status := JobPending, j_attempts := 0, j_claimedAt := None,
                           j_notBefore := now, j_cause := Some replayedDeadLetterCause\<rparr>) q)))"

definition QueueDepths :: "queue \<Rightarrow> JobStatus \<Rightarrow> int" where
  "QueueDepths q s = int (length (filter (\<lambda>j. j_status j = s) (q_rows q)))"

definition QueueOldest :: "queue \<Rightarrow> gtime option" where
  "QueueOldest q =
     (let due = map j_notBefore (filter (\<lambda>j. j_status j = JobPending \<or> j_status j = JobRetry) (q_rows q))
      in case due of [] \<Rightarrow> None | t # ts \<Rightarrow> Some (foldl min t ts))"

end
