(* ===== verification/Queue_Props.thy ===== *)
theory Queue_Props
  imports Store_Queue
begin

text \<open>
  Properties of the fetch queue. A locale states what a statement that rewrites rows promises;
  its lemmas give the preservation of the invariant, and, for the statements guarded by
  \<^verbatim>\<open>status = 'claimed'\<close>, that repeating one changes nothing. Every transition of the model
  interprets it. Histories of the queue are lists of operations.
\<close>

section \<open>The invariant\<close>

definition row_ok :: "job \<Rightarrow> bool" where
  "row_ok j =
     (j_match j \<noteq> [] \<and> 0 \<le> j_attempts j \<and> 0 \<le> j_revivals j \<and> j_revivals j \<le> revivalBudget \<and>
      (j_status j = JobClaimed \<or> j_status j = JobDead \<longrightarrow> j_claimedAt j \<noteq> None) \<and>
      (j_status j = JobPending \<or> j_status j = JobRetry \<or> j_status j = JobDone \<longrightarrow> j_claimedAt j = None))"

definition queue_inv :: "queue \<Rightarrow> bool" where
  "queue_inv q =
     (distinct (map j_id (q_rows q)) \<and> distinct (map job_key (q_rows q)) \<and>
      (\<forall>j \<in> set (q_rows q). j_id j < q_next q \<and> row_ok j))"

lemma queue_invD:
  assumes "queue_inv q"
  shows "distinct (map j_id (q_rows q))" "distinct (map job_key (q_rows q))"
    "j \<in> set (q_rows q) \<Longrightarrow> j_id j < q_next q" "j \<in> set (q_rows q) \<Longrightarrow> row_ok j"
  using assms by (auto simp: queue_inv_def)

lemma same_id:
  "queue_inv q \<Longrightarrow> j \<in> set (q_rows q) \<Longrightarrow> j' \<in> set (q_rows q) \<Longrightarrow> j_id j = j_id j' \<Longrightarrow> j = j'"
  by (auto dest!: queue_invD(1) simp: distinct_map inj_on_def)

lemma same_key:
  "queue_inv q \<Longrightarrow> j \<in> set (q_rows q) \<Longrightarrow> j' \<in> set (q_rows q) \<Longrightarrow> job_key j = job_key j' \<Longrightarrow> j = j'"
  by (auto dest!: queue_invD(2) simp: distinct_map inj_on_def)

definition empty_queue :: queue where
  "empty_queue = \<lparr>q_rows = [], q_next = 1\<rparr>"

lemma empty_queue_inv [inv_rules]: "queue_inv empty_queue"
  by (simp add: queue_inv_def empty_queue_def)

section \<open>Statements that rewrite rows\<close>

locale row_transition =
  fixes f :: "job \<Rightarrow> job"
  assumes keeps_id: "j_id (f j) = j_id j"
    and keeps_key: "job_key (f j) = job_key j"
    and keeps_ok: "row_ok j \<Longrightarrow> row_ok (f j)"
begin

lemma update_ids: "map j_id (q_rows (update_rows P f q)) = map j_id (q_rows q)"
  by (simp add: update_rows_def comp_def keeps_id if_distrib)

lemma update_keys: "map job_key (q_rows (update_rows P f q)) = map job_key (q_rows q)"
  by (simp add: update_rows_def comp_def keeps_key if_distrib)

lemma update_inv: "queue_inv q \<Longrightarrow> queue_inv (update_rows P f q)"
  using update_ids [of P q] update_keys [of P q] keeps_ok
  by (auto simp: queue_inv_def) (auto simp: update_rows_def keeps_id)

lemma update_row:
  assumes "j \<in> set (q_rows q)"
  shows "(if P j then f j else j) \<in> set (q_rows (update_rows P f q))"
  using assms by (auto simp: update_rows_def)

end

locale claim_exit = row_transition +
  assumes leaves_claim: "j_status (f j) \<noteq> JobClaimed"
begin

text \<open>The second execution of a guarded statement changes nothing.\<close>

lemma guarded_idem: "guarded f i (guarded f i q) = guarded f i q"
  by (simp add: guarded_def update_rows_def keeps_id leaves_claim)

lemma guarded_inv: "queue_inv q \<Longrightarrow> queue_inv (guarded f i q)"
  by (simp add: guarded_def update_inv)

lemma guarded_other:
  assumes "j \<in> set (q_rows q)" and "j_id j \<noteq> i \<or> j_status j \<noteq> JobClaimed"
  shows "j \<in> set (q_rows (guarded f i q))"
  using update_row [OF assms(1), of "\<lambda>j. j_id j = i \<and> j_status j = JobClaimed"] assms(2)
  by (auto simp: guarded_def)

lemma guarded_hit:
  assumes "j \<in> set (q_rows q)" and "j_status j = JobClaimed"
  shows "f j \<in> set (q_rows (guarded f (j_id j) q))"
  using update_row [OF assms(1), of "\<lambda>x. j_id x = j_id j \<and> j_status x = JobClaimed"] assms(2)
  by (simp add: guarded_def)

lemma guarded_unclaimed:
  assumes "queue_inv q" and "j \<in> set (q_rows q)" and "j_status j \<noteq> JobClaimed"
  shows "guarded f (j_id j) q = q"
proof -
  have "(if j_id x = j_id j \<and> j_status x = JobClaimed then f x else x) = x" if "x \<in> set (q_rows q)" for x
    using same_id [OF assms(1) that assms(2)] assms(3) by auto
  then have "map (\<lambda>x. if j_id x = j_id j \<and> j_status x = JobClaimed then f x else x) (q_rows q) = q_rows q"
    by (intro map_idI) simp
  then show ?thesis by (simp add: guarded_def update_rows_def)
qed

end

interpretation complete: claim_exit complete_job
  by unfold_locales (auto simp: complete_job_def job_key_def row_ok_def)

interpretation retry: claim_exit "retry_job nb cause" for nb cause
  by unfold_locales (auto simp: retry_job_def job_key_def row_ok_def)

interpretation dead: claim_exit "dead_letter_job now cause" for now cause
  by unfold_locales (auto simp: dead_letter_job_def job_key_def row_ok_def)

interpretation release: claim_exit "release_job nb cause" for nb cause
  by unfold_locales (auto simp: release_job_def job_key_def row_ok_def)

interpretation claim: row_transition "claim_job now" for now
  by unfold_locales (auto simp: claim_job_def job_key_def row_ok_def)

definition reset_job :: "gtime \<Rightarrow> job \<Rightarrow> job" where
  "reset_job now j = j\<lparr>j_status := JobRetry, j_claimedAt := None, j_notBefore := now,
     j_cause := Some claimTimeoutCause\<rparr>"

definition replay_job :: "gtime \<Rightarrow> job \<Rightarrow> job" where
  "replay_job now j = j\<lparr>j_status := JobPending, j_attempts := 0, j_claimedAt := None,
     j_notBefore := now, j_cause := Some replayedDeadLetterCause\<rparr>"

interpretation reset: row_transition "reset_job now" for now
  by unfold_locales (auto simp: reset_job_def job_key_def row_ok_def)

interpretation replay: row_transition "replay_job now" for now
  by unfold_locales (auto simp: replay_job_def job_key_def row_ok_def)

lemma ResetStuckClaims_rows:
  "snd (ResetStuckClaims olderThan limit now q) =
     update_rows (\<lambda>j. j_id j \<in> j_id ` set (stuck_pick olderThan (nat (clampLimit limit)) q)) (reset_job now) q"
  by (simp add: ResetStuckClaims_def Let_def reset_job_def [abs_def] stuck_pick_def update_rows_def)

lemma ReplayDeadLettered_rows:
  "snd (ReplayDeadLettered limit now q) =
     update_rows (\<lambda>j. j_id j \<in> j_id ` set (letter_pick (nat (clampLimit limit)) q)) (replay_job now) q"
  by (simp add: ReplayDeadLettered_def Let_def replay_job_def [abs_def] letter_pick_def update_rows_def)

lemma Claim_rows:
  "snd (ClaimJobsOfKind kind limit now locked q) =
     update_rows (\<lambda>j. j_id j \<in> j_id ` set (claim_pick kind (nat (clampLimit limit)) now locked q)) (claim_job now) q"
  by (simp add: ClaimJobsOfKind_def Let_def claim_pick_def update_rows_def)

lemma Reset_inv [inv_rules]: "queue_inv q \<Longrightarrow> queue_inv (snd (ResetStuckClaims t n now q))"
  by (simp add: ResetStuckClaims_rows reset.update_inv)

lemma Replay_inv [inv_rules]: "queue_inv q \<Longrightarrow> queue_inv (snd (ReplayDeadLettered n now q))"
  by (simp add: ReplayDeadLettered_rows replay.update_inv)

lemma Claim_inv [inv_rules]: "queue_inv q \<Longrightarrow> queue_inv (snd (ClaimJobsOfKind k n now l q))"
  by (simp add: Claim_rows claim.update_inv)

lemma transitions_inv [inv_rules]:
  "queue_inv q \<Longrightarrow> queue_inv (CompleteJob i q)" "queue_inv q \<Longrightarrow> queue_inv (RetryJob i nb c q)"
  "queue_inv q \<Longrightarrow> queue_inv (DeadLetterJob i c now q)" "queue_inv q \<Longrightarrow> queue_inv (ReleaseJob i nb c q)"
  by (simp_all add: CompleteJob_def RetryJob_def DeadLetterJob_def ReleaseJob_def
      complete.guarded_inv retry.guarded_inv dead.guarded_inv release.guarded_inv)

section \<open>Enqueue\<close>

definition item_ok :: "QueueItem \<Rightarrow> bool" where
  "item_ok i = (qi_MatchID i \<noteq> [] \<and> 0 \<le> qi_Attempts i)"

definition revive_job :: "gtime \<Rightarrow> job \<Rightarrow> job" where
  "revive_job nb j = j\<lparr>j_status := JobPending, j_attempts := 0, j_revivals := j_revivals j + 1,
     j_notBefore := nb, j_claimedAt := None, j_cause := None\<rparr>"

definition due_at :: "gtime \<Rightarrow> QueueItem \<Rightarrow> gtime" where
  "due_at now i = (if qi_NotBefore i = 0 then now else qi_NotBefore i)"

definition new_job :: "int \<Rightarrow> gtime \<Rightarrow> QueueItem \<Rightarrow> job" where
  "new_job n now i = \<lparr>j_id = n, j_match = qi_MatchID i, j_kind = qi_Kind i, j_priority = qi_Priority i,
     j_attempts = qi_Attempts i, j_notBefore = due_at now i, j_claimedAt = None, j_status = JobPending,
     j_cause = None, j_revivals = 0\<rparr>"

lemma enqueue_one_rows:
  "q_rows (fst (enqueue_one now i q)) =
     (if item_key i \<in> job_key ` set (q_rows q)
      then map (\<lambda>j. if revivable (item_key i) j then revive_job (due_at now i) j else j) (q_rows q)
      else q_rows q @ [new_job (q_next q) now i])"
  by (simp add: enqueue_one_def Let_def revive_job_def new_job_def due_at_def)

lemma enqueue_one_count:
  "snd (enqueue_one now i q) =
     (if item_key i \<in> job_key ` set (q_rows q)
      then int (length (filter (revivable (item_key i)) (q_rows q))) else 1)"
  by (simp add: enqueue_one_def Let_def)

lemma enqueue_one_next: "q_next (fst (enqueue_one now i q)) = q_next q + 1"
  by (simp add: enqueue_one_def Let_def)

lemma revive_job_shape [simp]:
  "j_id (revive_job nb j) = j_id j" "job_key (revive_job nb j) = job_key j"
  by (simp_all add: revive_job_def job_key_def)

lemma new_job_shape [simp]: "j_id (new_job n now i) = n" "job_key (new_job n now i) = item_key i"
  by (simp_all add: new_job_def job_key_def item_key_def)

lemma revive_ok: "row_ok j \<Longrightarrow> revivable k j \<Longrightarrow> row_ok (revive_job nb j)"
  by (auto simp: row_ok_def revive_job_def revivable_def)

lemma enqueue_one_inv:
  assumes "queue_inv q" and "item_ok i"
  shows "queue_inv (fst (enqueue_one now i q))"
proof (cases "item_key i \<in> job_key ` set (q_rows q)")
  case True
  let ?f = "\<lambda>j. if revivable (item_key i) j then revive_job (due_at now i) j else j"
  have rows: "q_rows (fst (enqueue_one now i q)) = map ?f (q_rows q)"
    using True by (simp only: enqueue_one_rows if_True)
  have ids: "map j_id (map ?f (q_rows q)) = map j_id (q_rows q)"
    "map job_key (map ?f (q_rows q)) = map job_key (q_rows q)"
    by (simp_all add: comp_def if_distrib)
  have "row_ok (?f j) \<and> j_id (?f j) < q_next q + 1" if "j \<in> set (q_rows q)" for j
    using queue_invD(3,4) [OF assms(1) that] by (simp add: revive_ok)
  then have "\<forall>j \<in> set (map ?f (q_rows q)). j_id j < q_next q + 1 \<and> row_ok j"
    by (simp only: set_map ball_simps) blast
  then show ?thesis
    using queue_invD(1,2) [OF assms(1)] unfolding queue_inv_def rows ids enqueue_one_next by blast
next
  case False
  have ok: "row_ok (new_job (q_next q) now i)"
    using assms(2) by (simp add: row_ok_def new_job_def item_ok_def revivalBudget_def)
  have rows: "q_rows (fst (enqueue_one now i q)) = q_rows q @ [new_job (q_next q) now i]"
    using False by (simp only: enqueue_one_rows if_False)
  have "q_next q \<notin> j_id ` set (q_rows q)"
    using queue_invD(3) [OF assms(1)] by force
  with False ok queue_invD [OF assms(1)] show ?thesis
    unfolding queue_inv_def rows enqueue_one_next by (auto intro: less_imp_le)
qed

lemma enqueue_rows_Cons:
  "fst (enqueue_rows now (i # is) q) = fst (enqueue_rows now is (fst (enqueue_one now i q)))"
  "snd (enqueue_rows now (i # is) q) =
     snd (enqueue_one now i q) + snd (enqueue_rows now is (fst (enqueue_one now i q)))"
  by (simp_all add: Let_def split_beta)

lemma enqueue_rows_inv:
  "queue_inv q \<Longrightarrow> \<forall>i \<in> set is. item_ok i \<Longrightarrow> queue_inv (fst (enqueue_rows now is q))"
proof (induction "is" arbitrary: q)
  case (Cons i "is")
  have "queue_inv (fst (enqueue_one now i q))"
    using Cons.prems by (intro enqueue_one_inv) simp_all
  with Cons.IH Cons.prems(2) show ?case
    by (simp only: enqueue_rows_Cons) simp
qed simp

lemma lower_priority_keys: "map item_key (lower_priority k p is) = map item_key is"
proof (induction "is")
  case (Cons i "is")
  then show ?case by (simp add: item_key_def)
qed simp

lemma lower_priority_keys_set: "item_key ` set (lower_priority k p is) = item_key ` set is"
  using lower_priority_keys [of k p "is"] by (metis set_map)

lemma item_ok_priority [simp]: "item_ok (i\<lparr>qi_Priority := p\<rparr>) = item_ok i"
  by (simp add: item_ok_def)

lemma lower_priority_ok: "list_all item_ok is \<Longrightarrow> list_all item_ok (lower_priority k p is)"
  by (induction "is") simp_all

lemma dedupe_items_props:
  assumes "distinct (map item_key out)"
  shows "distinct (map item_key (dedupe_items out is)) \<and>
    item_key ` set (dedupe_items out is) = item_key ` set out \<union> item_key ` {i \<in> set is. qi_MatchID i \<noteq> []}"
  using assms
proof (induction "is" arbitrary: out)
  case (Cons i "is")
  consider (blank) "qi_MatchID i = []"
    | (dup) "qi_MatchID i \<noteq> []" "item_key i \<in> item_key ` set out"
    | (new) "qi_MatchID i \<noteq> []" "item_key i \<notin> item_key ` set out" by blast
  then show ?case
  proof cases
    case blank
    then have "{x \<in> set (i # is). qi_MatchID x \<noteq> []} = {x \<in> set is. qi_MatchID x \<noteq> []}" by auto
    with blank Cons show ?thesis by simp
  next
    case dup
    let ?out = "lower_priority (item_key i) (qi_Priority i) out"
    have d: "distinct (map item_key ?out)"
      using Cons.prems by (simp only: lower_priority_keys)
    have "{x \<in> set (i # is). qi_MatchID x \<noteq> []} = insert i {x \<in> set is. qi_MatchID x \<noteq> []}"
      using dup by auto
    moreover have "dedupe_items out (i # is) = dedupe_items ?out is"
      using dup by simp
    ultimately show ?thesis
      using Cons.IH [OF d] dup(2) by (simp only: lower_priority_keys_set) auto
  next
    case new
    have d: "distinct (map item_key (out @ [i]))"
      using Cons.prems new by simp
    have "{x \<in> set (i # is). qi_MatchID x \<noteq> []} = insert i {x \<in> set is. qi_MatchID x \<noteq> []}"
      using new by auto
    moreover have "dedupe_items out (i # is) = dedupe_items (out @ [i]) is"
      using new by simp
    ultimately show ?thesis
      using Cons.IH [OF d] by auto
  qed
qed simp

lemma dedupe_items_ok:
  "list_all item_ok out \<Longrightarrow> \<forall>i \<in> set is. 0 \<le> qi_Attempts i \<Longrightarrow> list_all item_ok (dedupe_items out is)"
proof (induction "is" arbitrary: out)
  case (Cons i "is")
  have ok: "list_all item_ok (lower_priority (item_key i) (qi_Priority i) out)"
    using Cons.prems(1) by (rule lower_priority_ok)
  have "qi_MatchID i \<noteq> [] \<Longrightarrow> item_ok i"
    using Cons.prems(2) by (simp add: item_ok_def)
  then have new: "qi_MatchID i \<noteq> [] \<Longrightarrow> list_all item_ok (out @ [i])"
    using Cons.prems(1) by simp
  have rest: "\<forall>x \<in> set is. 0 \<le> qi_Attempts x"
    using Cons.prems(2) by simp
  show ?case
    using Cons.IH [OF Cons.prems(1) rest] Cons.IH [OF ok rest] Cons.IH [OF new rest] by simp
qed simp

lemma dedupeQueueItems_distinct: "distinct (map item_key (dedupeQueueItems is))"
  using dedupe_items_props [of "[]" "is"] by (simp add: dedupeQueueItems_def)

lemma dedupeQueueItems_ok:
  "\<forall>i \<in> set is. 0 \<le> qi_Attempts i \<Longrightarrow> \<forall>i \<in> set (dedupeQueueItems is). item_ok i"
  using dedupe_items_ok [of "[]" "is"] by (simp add: dedupeQueueItems_def list_all_iff)

lemma enqueue_rows_append:
  "fst (enqueue_rows now (xs @ ys) q) = fst (enqueue_rows now ys (fst (enqueue_rows now xs q)))"
  "snd (enqueue_rows now (xs @ ys) q) =
     snd (enqueue_rows now xs q) + snd (enqueue_rows now ys (fst (enqueue_rows now xs q)))"
  by (induction xs arbitrary: q) (simp_all add: enqueue_rows_Cons del: enqueue_rows.simps(2))

text \<open>What a call wrote is what one statement over a prefix of the batch would have written.\<close>

lemma enqueue_chunks_step:
  assumes "batch \<noteq> []" and "ok = [] \<or> hd ok"
  shows "enqueue_chunks now ok (Suc n) batch q added =
    enqueue_chunks now (tl ok) n (drop enqueueBatch batch)
      (fst (enqueue_rows now (take enqueueBatch batch) q))
      (added + snd (enqueue_rows now (take enqueueBatch batch) q))"
  using assms by (auto simp: Let_def split_beta)

lemma enqueue_chunks_prefix:
  "\<exists>m. fst (enqueue_chunks now ok n batch q added) = fst (enqueue_rows now (take m batch) q) \<and>
    fst (snd (enqueue_chunks now ok n batch q added)) = added + snd (enqueue_rows now (take m batch) q)"
proof (induction n arbitrary: ok batch q added)
  case 0
  then show ?case by (intro exI [of _ 0]) simp
next
  case (Suc n)
  show ?case
  proof (cases "batch = [] \<or> ok \<noteq> [] \<and> \<not> hd ok")
    case True
    then show ?thesis by (intro exI [of _ 0]) auto
  next
    case False
    then have step: "batch \<noteq> []" "ok = [] \<or> hd ok" by auto
    let ?h = "take enqueueBatch batch"
    let ?q = "fst (enqueue_rows now ?h q)"
    let ?k = "added + snd (enqueue_rows now ?h q)"
    obtain m where m:
      "fst (enqueue_chunks now (tl ok) n (drop enqueueBatch batch) ?q ?k) =
         fst (enqueue_rows now (take m (drop enqueueBatch batch)) ?q)"
      "fst (snd (enqueue_chunks now (tl ok) n (drop enqueueBatch batch) ?q ?k)) =
         ?k + snd (enqueue_rows now (take m (drop enqueueBatch batch)) ?q)"
      using Suc.IH by blast
    have "take (enqueueBatch + m) batch = ?h @ take m (drop enqueueBatch batch)"
      by (rule take_add)
    then show ?thesis
      unfolding enqueue_chunks_step [OF step] m
      by (intro exI [of _ "enqueueBatch + m"]) (simp only: enqueue_rows_append add.assoc)
  qed
qed

lemma EnqueueMatches_inv [inv_rules]:
  assumes "queue_inv q" and "\<forall>i \<in> set items. 0 \<le> qi_Attempts i"
  shows "queue_inv (fst (EnqueueMatches now ok items q))"
proof -
  let ?b = "dedupeQueueItems items"
  obtain m where m: "fst (enqueue_chunks now ok (length ?b) ?b q 0) = fst (enqueue_rows now (take m ?b) q)"
    using enqueue_chunks_prefix [of now ok "length ?b" ?b q 0] by blast
  have "\<forall>i \<in> set (take m ?b). item_ok i"
    using dedupeQueueItems_ok [OF assms(2)] by (auto dest: in_set_takeD)
  with m enqueue_rows_inv [OF assms(1)] show ?thesis
    by (simp add: EnqueueMatches_def Let_def)
qed

section \<open>Histories\<close>

datatype queue_op =
    OpEnqueue gtime "bool list" "QueueItem list"
  | OpClaim QueueKind int gtime "int set"
  | OpComplete int
  | OpRetry int gtime string
  | OpDead int string gtime
  | OpRelease int gtime string
  | OpReset gtime int gtime
  | OpReplay int gtime

fun apply_op :: "queue_op \<Rightarrow> queue \<Rightarrow> queue" where
  "apply_op (OpEnqueue now ok items) q = fst (EnqueueMatches now ok items q)"
| "apply_op (OpClaim k n now l) q = snd (ClaimJobsOfKind k n now l q)"
| "apply_op (OpComplete i) q = CompleteJob i q"
| "apply_op (OpRetry i nb c) q = RetryJob i nb c q"
| "apply_op (OpDead i c now) q = DeadLetterJob i c now q"
| "apply_op (OpRelease i nb c) q = ReleaseJob i nb c q"
| "apply_op (OpReset t n now) q = snd (ResetStuckClaims t n now q)"
| "apply_op (OpReplay n now) q = snd (ReplayDeadLettered n now q)"

definition run_queue :: "queue_op list \<Rightarrow> queue \<Rightarrow> queue" where
  "run_queue ops q = fold apply_op ops q"

fun op_ok :: "queue_op \<Rightarrow> bool" where
  "op_ok (OpEnqueue now ok items) = (\<forall>i \<in> set items. 0 \<le> qi_Attempts i)"
| "op_ok op = True"

lemma run_queue_simps [simp]:
  "run_queue [] q = q" "run_queue (op # ops) q = run_queue ops (apply_op op q)"
  by (simp_all add: run_queue_def)

lemma apply_op_inv: "queue_inv q \<Longrightarrow> op_ok op \<Longrightarrow> queue_inv (apply_op op q)"
  by (cases op) (simp_all add: inv_rules)

lemma run_queue_inv: "queue_inv q \<Longrightarrow> \<forall>op \<in> set ops. op_ok op \<Longrightarrow> queue_inv (run_queue ops q)"
  by (induction ops arbitrary: q) (simp_all add: apply_op_inv)

text \<open>
  C12: every history of the queue's statements, started on the empty table, keeps the table's
  constraints: ids and (match, kind) pairs are unique, attempts are never negative, no row is
  revived more than three times, and \<^verbatim>\<open>claimed_at\<close> is set exactly on claimed and dead rows.
\<close>

theorem queue_histories_keep_invariant:
  assumes "\<forall>op \<in> set ops. op_ok op"
  shows "queue_inv (run_queue ops empty_queue)"
  using run_queue_inv [OF empty_queue_inv assms] .

theorem queue_histories_keep_invariant_witness:
  "queue_inv (run_queue
     [OpEnqueue 10 [] [new_item ''EUW1_1'' KindMatch 3], OpClaim KindMatch 20 15 {}, OpRelease 1 16 ''later'',
      OpClaim KindMatch 20 17 {}, OpDead 1 ''gone'' 18, OpEnqueue 20 [] [new_item ''EUW1_1'' KindMatch 3]] empty_queue)"
  by (rule queue_histories_keep_invariant) (simp add: new_item_def)

section \<open>Rows a statement leaves alone\<close>

lemma update_keeps: "j \<in> set (q_rows q) \<Longrightarrow> \<not> P j \<Longrightarrow> j \<in> set (q_rows (update_rows P f q))"
  by (force simp: update_rows_def)

lemma picked_keeps:
  assumes "queue_inv q" and "j \<in> set (q_rows q)" and "set picked \<subseteq> set (q_rows q)" and "j \<notin> set picked"
  shows "j \<in> set (q_rows (update_rows (\<lambda>x. j_id x \<in> j_id ` set picked) f q))"
proof (rule update_keeps [OF assms(2)])
  show "j_id j \<notin> j_id ` set picked"
    using same_id [OF assms(1,2)] assms(3,4) by auto
qed

lemma set_take_sort: "set (take n (sort_key g xs)) \<subseteq> set xs"
  using set_take_subset [of n "sort_key g xs"] by simp

lemma claim_pick_set: "set (claim_pick k n now l q) \<subseteq> {j \<in> set (q_rows q). ready k now j \<and> j_id j \<notin> l}"
  unfolding claim_pick_def using set_take_sort by fastforce

lemma stuck_pick_set:
  "set (stuck_pick t n q) \<subseteq>
     {j \<in> set (q_rows q). j_status j = JobClaimed \<and> (\<exists>c. j_claimedAt j = Some c \<and> c < t)}"
proof -
  have "set (stuck_pick t n q) \<subseteq> set (filter (\<lambda>j. j_status j = JobClaimed \<and>
      (case j_claimedAt j of Some c \<Rightarrow> c < t | None \<Rightarrow> False)) (q_rows q))"
    unfolding stuck_pick_def by (rule set_take_sort)
  then show ?thesis by (auto split: option.splits)
qed

lemma letter_pick_set: "set (letter_pick n q) \<subseteq> {j \<in> set (q_rows q). j_status j = JobDead}"
  unfolding letter_pick_def using set_take_sort by fastforce

lemma enqueue_one_keeps:
  assumes "j \<in> set (q_rows q)" and "\<not> revivable (job_key j) j"
  shows "j \<in> set (q_rows (fst (enqueue_one now i q)))"
proof -
  have "\<not> revivable (item_key i) j" using assms(2) by (auto simp: revivable_def)
  with assms(1) show ?thesis by (force simp: enqueue_one_rows)
qed

lemma enqueue_rows_keeps:
  "j \<in> set (q_rows q) \<Longrightarrow> \<not> revivable (job_key j) j \<Longrightarrow> j \<in> set (q_rows (fst (enqueue_rows now is q)))"
proof (induction "is" arbitrary: q)
  case (Cons i "is")
  then show ?case unfolding enqueue_rows_Cons by (blast intro: enqueue_one_keeps)
qed simp

lemma EnqueueMatches_keeps:
  assumes "j \<in> set (q_rows q)" and "\<not> revivable (job_key j) j"
  shows "j \<in> set (q_rows (fst (EnqueueMatches now ok items q)))"
proof -
  let ?b = "dedupeQueueItems items"
  obtain m where "fst (enqueue_chunks now ok (length ?b) ?b q 0) = fst (enqueue_rows now (take m ?b) q)"
    using enqueue_chunks_prefix [of now ok "length ?b" ?b q 0] by blast
  with enqueue_rows_keeps [OF assms] show ?thesis by (simp add: EnqueueMatches_def Let_def)
qed

lemmas op_unfolds = CompleteJob_def RetryJob_def DeadLetterJob_def ReleaseJob_def guarded_def

text \<open>The operations that leave the holders of the claims \<open>ids\<close>, made at \<open>at0\<close>, alone.\<close>

fun op_spares :: "gtime \<Rightarrow> int set \<Rightarrow> queue_op \<Rightarrow> bool" where
  "op_spares at0 ids (OpComplete i) = (i \<notin> ids)"
| "op_spares at0 ids (OpRetry i nb c) = (i \<notin> ids)"
| "op_spares at0 ids (OpDead i c now) = (i \<notin> ids)"
| "op_spares at0 ids (OpRelease i nb c) = (i \<notin> ids)"
| "op_spares at0 ids (OpReset t n now) = (t \<le> at0)"
| "op_spares at0 ids op = True"

lemma apply_op_spares:
  assumes "queue_inv q" and "j \<in> set (q_rows q)" and "j_status j = JobClaimed"
    and "j_claimedAt j = Some at0" and "j_id j \<in> ids" and "op_spares at0 ids op"
  shows "j \<in> set (q_rows (apply_op op q))"
proof (cases op)
  case (OpEnqueue now ok items)
  then show ?thesis
    using assms(2,3) by (auto intro: EnqueueMatches_keeps simp: revivable_def)
next
  case (OpClaim k n now l)
  have "set (claim_pick k (nat (clampLimit n)) now l q) \<subseteq> set (q_rows q)"
    "j \<notin> set (claim_pick k (nat (clampLimit n)) now l q)"
    using claim_pick_set [of k "nat (clampLimit n)" now l q] assms(3) by (auto simp: ready_def)
  with OpClaim picked_keeps [OF assms(1,2)] show ?thesis by (simp add: Claim_rows)
next
  case (OpReset t n now)
  have "set (stuck_pick t (nat (clampLimit n)) q) \<subseteq> set (q_rows q)"
    "j \<notin> set (stuck_pick t (nat (clampLimit n)) q)"
    using stuck_pick_set [of t "nat (clampLimit n)" q] assms(4,6) OpReset by auto
  with OpReset picked_keeps [OF assms(1,2)] show ?thesis by (simp add: ResetStuckClaims_rows)
next
  case (OpReplay n now)
  have "set (letter_pick (nat (clampLimit n)) q) \<subseteq> set (q_rows q)"
    "j \<notin> set (letter_pick (nat (clampLimit n)) q)"
    using letter_pick_set [of "nat (clampLimit n)" q] assms(3) by auto
  with OpReplay picked_keeps [OF assms(1,2)] show ?thesis by (simp add: ReplayDeadLettered_rows)
qed (use assms in \<open>auto simp: op_unfolds intro!: update_keeps\<close>)

lemma run_queue_spares:
  assumes "queue_inv q" and "j \<in> set (q_rows q)" and "j_status j = JobClaimed"
    and "j_claimedAt j = Some at0" and "j_id j \<in> ids"
    and "\<forall>op \<in> set ops. op_ok op \<and> op_spares at0 ids op"
  shows "j \<in> set (q_rows (run_queue ops q))"
  using assms(1,2,6)
proof (induction ops arbitrary: q)
  case (Cons op ops)
  have "j \<in> set (q_rows (apply_op op q))"
    using Cons.prems by (intro apply_op_spares [OF _ _ assms(3-5)]) auto
  with Cons show ?case by (simp add: apply_op_inv)
qed simp

section \<open>What a claim returns\<close>

lemma claim_job_key [simp]: "claim_key (claim_job now j) = claim_key j"
  by (simp add: claim_key_def claim_job_def)

lemma claim_pick_sorted: "sorted (map claim_key (claim_pick k n now l q))"
  unfolding claim_pick_def take_map [symmetric] by (intro sorted_wrt_take) simp

text \<open>Sorting the returned rows does not move them: they were picked in that order.\<close>

lemma Claim_items:
  "fst (ClaimJobsOfKind k limit now l q) =
     map (item_of \<circ> claim_job now) (claim_pick k (nat (clampLimit limit)) now l q)"
proof -
  let ?p = "claim_pick k (nat (clampLimit limit)) now l q"
  have "map claim_key (map (claim_job now) ?p) = map claim_key ?p" by simp
  then have "sort_key claim_key (map (claim_job now) ?p) = map (claim_job now) ?p"
    using claim_pick_sorted [of k "nat (clampLimit limit)" now l q]
    by (intro sort_key_id_if_sorted) (simp only:)
  then show ?thesis
    by (cases "nat (clampLimit limit) = 0") (simp_all add: ClaimJobsOfKind_def Let_def claim_pick_def)
qed

lemma item_of_claimed [simp]: "qi_ID (item_of (claim_job now j)) = j_id j"
  by (simp add: item_of_def claim_job_def)

lemma Claim_ids:
  "qi_ID ` set (fst (ClaimJobsOfKind k limit now l q)) =
     j_id ` set (claim_pick k (nat (clampLimit limit)) now l q)"
  by (simp add: Claim_items image_image)

lemma claimed_row:
  assumes "j \<in> set (claim_pick k (nat (clampLimit limit)) now l q)"
  shows "claim_job now j \<in> set (q_rows (snd (ClaimJobsOfKind k limit now l q)))"
proof -
  have "j \<in> set (q_rows q)" using assms claim_pick_set by blast
  from claim.update_row [OF this] assms show ?thesis
    unfolding Claim_rows by (metis (no_types, lifting) image_eqI)
qed

text \<open>
  C2: a claim is exclusive. Whatever runs between two claims - other claims, enqueues, replays,
  the exits of other rows, resets of claims older than the first - no item of the first is handed
  out by the second, as long as its own holder does not give it back.
\<close>

theorem claims_are_exclusive:
  assumes "queue_inv q"
    and "ClaimJobsOfKind k limit now l q = (items, q1)"
    and "\<forall>op \<in> set ops. op_ok op \<and> op_spares now (qi_ID ` set items) op"
    and "ClaimJobsOfKind k' limit' now' l' (run_queue ops q1) = (items', q2)"
  shows "qi_ID ` set items \<inter> qi_ID ` set items' = {}"
proof -
  let ?p = "claim_pick k (nat (clampLimit limit)) now l q"
  let ?p' = "claim_pick k' (nat (clampLimit limit')) now' l' (run_queue ops q1)"
  have ids: "qi_ID ` set items = j_id ` set ?p" "qi_ID ` set items' = j_id ` set ?p'"
    using Claim_ids [of k limit now l q] assms(2) Claim_ids [of k' limit' now' l' "run_queue ops q1"] assms(4)
    by simp_all
  have inv1: "queue_inv q1" using Claim_inv [OF assms(1)] assms(2) by (metis snd_conv)
  have inv2: "queue_inv (run_queue ops q1)" using run_queue_inv [OF inv1] assms(3) by blast
  have "j_id j \<notin> j_id ` set ?p'" if "j \<in> set ?p" for j
  proof
    assume "j_id j \<in> j_id ` set ?p'"
    then obtain j' where j': "j' \<in> set ?p'" "j_id j' = j_id j" by auto
    have "claim_job now j \<in> set (q_rows q1)"
      using claimed_row [OF that] assms(2) by simp
    then have "claim_job now j \<in> set (q_rows (run_queue ops q1))"
      using that ids(1) assms(3)
      by (intro run_queue_spares [OF inv1, where ids = "qi_ID ` set items" and ?at0.0 = now])
        (auto simp: claim_job_def)
    moreover have "j' \<in> set (q_rows (run_queue ops q1))" "ready k' now' j'"
      using j'(1) claim_pick_set by blast+
    ultimately have "ready k' now' (claim_job now j)"
      using same_id [OF inv2] j'(2) by (metis claim.keeps_id)
    then show False by (simp add: ready_def claim_job_def)
  qed
  then show ?thesis unfolding ids by auto
qed

definition demo_queue :: queue where
  "demo_queue = run_queue [OpEnqueue 10 [] [new_item ''EUW1_1'' KindMatch 9, new_item ''EUW1_2'' KindMatch 3,
     new_item ''EUW1_3'' KindMatch 5]] empty_queue"

lemma demo_queue_inv: "queue_inv demo_queue"
  unfolding demo_queue_def by (intro run_queue_inv empty_queue_inv) (simp add: new_item_def)

theorem claims_are_exclusive_witness:
  "qi_ID ` set (fst (ClaimJobsOfKind KindMatch 2 20 {} demo_queue)) \<inter>
   qi_ID ` set (fst (ClaimJobsOfKind KindMatch 5 30 {}
     (run_queue [OpReset 20 100 25] (snd (ClaimJobsOfKind KindMatch 2 20 {} demo_queue))))) = {}"
  by (rule claims_are_exclusive [OF demo_queue_inv surjective_pairing _ surjective_pairing]) simp

lemma sort_take_least:
  assumes "x \<in> set (take n (sort_key g xs))" and "y \<in> set xs" and "y \<notin> set (take n (sort_key g xs))"
  shows "g x \<le> g y"
proof -
  let ?s = "sort_key g xs"
  have "y \<in> set (drop n ?s)"
    using assms(2,3) by (metis (no_types) Un_iff append_take_drop_id set_append set_sort)
  moreover have "sorted (map g (take n ?s) @ map g (drop n ?s))"
    by (simp flip: map_append)
  ultimately show ?thesis
    using assms(1) by (simp add: sorted_append)
qed

text \<open>The rows a claim at \<open>now\<close> may take.\<close>

definition claimable :: "QueueKind \<Rightarrow> gtime \<Rightarrow> int set \<Rightarrow> queue \<Rightarrow> job list" where
  "claimable kind now locked q = filter (\<lambda>j. ready kind now j \<and> j_id j \<notin> locked) (q_rows q)"

text \<open>
  The order of the claim, written out: ORDER BY priority, not_before, id. It is strict, so a list in
  this order repeats no row.
\<close>

definition urgent_before :: "job \<Rightarrow> job \<Rightarrow> bool" where
  "urgent_before a b =
     (j_priority a < j_priority b \<or>
      j_priority a = j_priority b \<and>
        (j_notBefore a < j_notBefore b \<or> j_notBefore a = j_notBefore b \<and> j_id a < j_id b))"

lemma urgent_before_key: "claim_key a \<le> claim_key b \<Longrightarrow> j_id a \<noteq> j_id b \<Longrightarrow> urgent_before a b"
  by (auto simp: claim_key_def less_eq_claim_key_def urgent_before_def)

lemma sorted_urgent:
  "sorted (map claim_key js) \<Longrightarrow> distinct (map j_id js) \<Longrightarrow> sorted_wrt urgent_before js"
  by (induction js) (auto intro!: urgent_before_key)

lemma claim_pick_distinct: "queue_inv q \<Longrightarrow> distinct (map j_id (claim_pick k n now l q))"
  unfolding claim_pick_def take_map [symmetric]
  by (intro distinct_take) (auto simp: distinct_map inj_on_def dest!: queue_invD(1))

lemma clampLimit_as_bounds: "clampLimit n = max 0 (min n 1000)"
  by (simp add: clampLimit_def maxClaimLimit_def)

lemma claim_picked_rows:
  assumes "queue_inv q"
  shows "q_rows (update_rows (\<lambda>j. j_id j \<in> j_id ` set (claim_pick k n now l q)) f q) =
    map (\<lambda>j. if j \<in> set (claim_pick k n now l q) then f j else j) (q_rows q)"
proof -
  have "(j_id j \<in> j_id ` set (claim_pick k n now l q)) = (j \<in> set (claim_pick k n now l q))"
    if "j \<in> set (q_rows q)" for j
    using that claim_pick_set [of k n now l q] same_id [OF assms] by blast
  then show ?thesis by (simp add: update_rows_def)
qed

text \<open>
  C14: a claim hands out the most urgent rows that are due, and charges each of them one attempt. The
  rows picked are of the kind asked for, pending or to be retried, due at the instant of the claim and
  not locked by another transaction; they come in the order priority, due time, id, without
  repetition, and every due row left behind is less urgent than each of them; there are as many as the limit
  (at most 1000) and the table allow. The items returned are those rows, claimed now, with one attempt
  more; in the table exactly those rows are claimed, with the same instant and attempt, and every other row
  and the id counter stay as they were.
\<close>

theorem claim_takes_the_most_urgent:
  assumes "queue_inv q" and "ClaimJobsOfKind kind limit now locked q = (items, q')"
  defines "due \<equiv> {j \<in> set (q_rows q). j_kind j = kind \<and> (j_status j = JobPending \<or> j_status j = JobRetry) \<and>
    j_notBefore j \<le> now \<and> j_id j \<notin> locked}"
  shows "\<exists>picked. set picked \<subseteq> due \<and>
    length picked = min (nat (max 0 (min limit 1000))) (card due) \<and>
    sorted_wrt urgent_before picked \<and>
    (\<forall>j \<in> set picked. \<forall>j' \<in> due - set picked. urgent_before j j') \<and>
    items = map (\<lambda>j. \<lparr>qi_ID = j_id j, qi_MatchID = j_match j, qi_Kind = kind, qi_Priority = j_priority j,
      qi_Attempts = j_attempts j + 1, qi_NotBefore = j_notBefore j, qi_ClaimedAt = now,
      qi_Status = Some JobClaimed\<rparr>) picked \<and>
    q' = q\<lparr>q_rows := map (\<lambda>j. if j \<in> set picked
      then j\<lparr>j_attempts := j_attempts j + 1, j_claimedAt := Some now, j_status := JobClaimed\<rparr> else j) (q_rows q)\<rparr>"
proof (intro exI conjI)
  let ?p = "claim_pick kind (nat (clampLimit limit)) now locked q"
  have p: "?p = take (nat (clampLimit limit)) (sort_key claim_key (claimable kind now locked q))"
    by (simp add: claim_pick_def claimable_def)
  have due: "due = set (claimable kind now locked q)"
    by (auto simp: due_def claimable_def ready_def)
  show "set ?p \<subseteq> due" unfolding p due by (rule set_take_sort)
  have "distinct (claimable kind now locked q)"
    using queue_invD(1) [OF assms(1)] by (simp add: claimable_def distinct_map)
  then have "card due = length (claimable kind now locked q)" unfolding due by (rule distinct_card)
  then have "length ?p = min (nat (clampLimit limit)) (card due)" unfolding p by simp
  then show "length ?p = min (nat (max 0 (min limit 1000))) (card due)" by (simp add: clampLimit_as_bounds)
  show "sorted_wrt urgent_before ?p"
    by (rule sorted_urgent [OF claim_pick_sorted claim_pick_distinct [OF assms(1)]])
  show "\<forall>j \<in> set ?p. \<forall>j' \<in> due - set ?p. urgent_before j j'"
  proof (intro ballI urgent_before_key)
    fix j j' assume j: "j \<in> set ?p" and j': "j' \<in> due - set ?p"
    show "claim_key j \<le> claim_key j'" using j j' unfolding p due by (auto intro: sort_take_least)
    have "j \<in> set (q_rows q)" using j claim_pick_set by blast
    moreover have "j' \<in> set (q_rows q)" using j' by (simp add: due_def)
    ultimately show "j_id j \<noteq> j_id j'" using same_id [OF assms(1)] j j' by blast
  qed
  have "j_kind j = kind" if "j \<in> set ?p" for j using that claim_pick_set by (fastforce simp: ready_def)
  then show "items = map (\<lambda>j. \<lparr>qi_ID = j_id j, qi_MatchID = j_match j, qi_Kind = kind, qi_Priority = j_priority j,
      qi_Attempts = j_attempts j + 1, qi_NotBefore = j_notBefore j, qi_ClaimedAt = now,
      qi_Status = Some JobClaimed\<rparr>) ?p"
    using Claim_items [of kind limit now locked q] assms(2) by (simp add: item_of_def claim_job_def)
  have "q' = update_rows (\<lambda>j. j_id j \<in> j_id ` set ?p) (claim_job now) q"
    using Claim_rows [of kind limit now locked q] assms(2) by simp
  then show "q' = q\<lparr>q_rows := map (\<lambda>j. if j \<in> set ?p
      then j\<lparr>j_attempts := j_attempts j + 1, j_claimedAt := Some now, j_status := JobClaimed\<rparr> else j) (q_rows q)\<rparr>"
    using claim_picked_rows [OF assms(1), of kind "nat (clampLimit limit)" now locked "claim_job now"]
    by (simp add: update_rows_def claim_job_def)
qed

theorem claim_takes_the_most_urgent_witness:
  "\<exists>picked :: job list. length picked = 2 \<and> fst (ClaimJobsOfKind KindMatch 2 20 {} demo_queue) =
     map (\<lambda>j. \<lparr>qi_ID = j_id j, qi_MatchID = j_match j, qi_Kind = KindMatch, qi_Priority = j_priority j,
      qi_Attempts = j_attempts j + 1, qi_NotBefore = j_notBefore j, qi_ClaimedAt = 20,
      qi_Status = Some JobClaimed\<rparr>) picked"
proof -
  have "length (fst (ClaimJobsOfKind KindMatch 2 20 {} demo_queue)) = 2" by code_simp
  moreover have "\<exists>picked :: job list. fst (ClaimJobsOfKind KindMatch 2 20 {} demo_queue) =
     map (\<lambda>j. \<lparr>qi_ID = j_id j, qi_MatchID = j_match j, qi_Kind = KindMatch, qi_Priority = j_priority j,
      qi_Attempts = j_attempts j + 1, qi_NotBefore = j_notBefore j, qi_ClaimedAt = 20,
      qi_Status = Some JobClaimed\<rparr>) picked"
    using claim_takes_the_most_urgent [OF demo_queue_inv surjective_pairing, where kind = KindMatch and limit = 2 and
      now = 20 and locked = "{}"] by (elim exE conjE) (rule exI)
  ultimately show ?thesis by (metis (no_types, lifting) length_map)
qed

text \<open>
  \<^verbatim>\<open>ReleaseJob\<close> gives back exactly the attempt its claim charged, so a job that is claimed and
  released by a rate-limited run any number of times reaches its retry limit no sooner.
\<close>

theorem release_refunds_the_claim:
  assumes "queue_inv q"
    and "j \<in> set (claim_pick kind (nat (clampLimit limit)) now locked q)"
  shows "j\<lparr>j_status := JobRetry, j_notBefore := nb, j_claimedAt := None, j_cause := nullText cause\<rparr>
    \<in> set (q_rows (ReleaseJob (j_id j) nb cause (snd (ClaimJobsOfKind kind limit now locked q))))"
proof -
  have "j \<in> set (q_rows q)" using assms(2) claim_pick_set by blast
  then have "0 \<le> j_attempts j" using assms(1) queue_invD(4) by (auto simp: row_ok_def)
  then have "release_job nb cause (claim_job now j) =
      j\<lparr>j_status := JobRetry, j_notBefore := nb, j_claimedAt := None, j_cause := nullText cause\<rparr>"
    by (simp add: release_job_def claim_job_def)
  then show ?thesis
    using release.guarded_hit [OF claimed_row [OF assms(2)], of nb cause]
    by (simp add: ReleaseJob_def claim_job_def)
qed

definition demo_row :: "int \<Rightarrow> string \<Rightarrow> int \<Rightarrow> job" where
  "demo_row i m p = \<lparr>j_id = i, j_match = m, j_kind = KindMatch, j_priority = p, j_attempts = 0, j_notBefore = 10,
     j_claimedAt = None, j_status = JobPending, j_cause = None, j_revivals = 0\<rparr>"

theorem release_refunds_the_claim_witness:
  "(demo_row 2 ''EUW1_2'' 3)\<lparr>j_status := JobRetry, j_notBefore := 99, j_claimedAt := None, j_cause := nullText ''limited''\<rparr>
     \<in> set (q_rows (ReleaseJob (j_id (demo_row 2 ''EUW1_2'' 3)) 99 ''limited''
         (snd (ClaimJobsOfKind KindMatch 2 20 {} demo_queue))))"
  by (rule release_refunds_the_claim [OF demo_queue_inv]) code_simp

text \<open>
  Every way out of a claim is idempotent: executing the statement again, as a retried
  transaction does, changes nothing.
\<close>

theorem claim_exits_are_idempotent:
  "CompleteJob i (CompleteJob i q) = CompleteJob i q \<and>
   RetryJob i nb c (RetryJob i nb c q) = RetryJob i nb c q \<and>
   DeadLetterJob i c now (DeadLetterJob i c now q) = DeadLetterJob i c now q \<and>
   ReleaseJob i nb c (ReleaseJob i nb c q) = ReleaseJob i nb c q"
  by (simp add: CompleteJob_def RetryJob_def DeadLetterJob_def ReleaseJob_def
      complete.guarded_idem retry.guarded_idem dead.guarded_idem release.guarded_idem)

text \<open>
  A worker whose claim was taken back cannot act on the row while nobody holds it: every exit
  leaves the whole table as it was.
\<close>

theorem late_exit_of_unclaimed_row:
  assumes "queue_inv q" and "j \<in> set (q_rows q)" and "j_status j \<noteq> JobClaimed"
  shows "CompleteJob (j_id j) q = q \<and> RetryJob (j_id j) nb c q = q \<and>
    DeadLetterJob (j_id j) c now q = q \<and> ReleaseJob (j_id j) nb c q = q"
  using assms
  by (simp add: CompleteJob_def RetryJob_def DeadLetterJob_def ReleaseJob_def
      complete.guarded_unclaimed retry.guarded_unclaimed dead.guarded_unclaimed release.guarded_unclaimed)

theorem late_exit_of_unclaimed_row_witness:
  "ReleaseJob (j_id (demo_row 2 ''EUW1_2'' 3)) 99 ''late'' demo_queue = demo_queue"
proof -
  have "demo_row 2 ''EUW1_2'' 3 \<in> set (q_rows demo_queue)" by code_simp
  moreover have "j_status (demo_row 2 ''EUW1_2'' 3) \<noteq> JobClaimed" by code_simp
  ultimately show ?thesis
    using late_exit_of_unclaimed_row [OF demo_queue_inv] by blast
qed

text \<open>
  The guard does not tell one holder from the next. A worker whose claim expired and whose row
  another worker claimed since completes that worker's claim: the row is done while its holder
  still works on it.
\<close>

theorem stale_holder_closes_a_new_claim:
  "map (\<lambda>j. (j_status j, j_attempts j))
     (q_rows (run_queue [OpEnqueue 10 [] [new_item ''EUW1_1'' KindMatch 9], OpClaim KindMatch 1 20 {},
        OpReset 40 100 50, OpClaim KindMatch 1 60 {}] empty_queue)) = [(JobClaimed, 2)] \<and>
   map j_status (q_rows (run_queue [OpEnqueue 10 [] [new_item ''EUW1_1'' KindMatch 9], OpClaim KindMatch 1 20 {},
        OpReset 40 100 50, OpClaim KindMatch 1 60 {}, OpComplete 1] empty_queue)) = [JobDone]"
  by code_simp

section \<open>The revival budget\<close>

fun automatic :: "queue_op \<Rightarrow> bool" where
  "automatic (OpReplay n now) = False"
| "automatic op = True"

lemma apply_op_exhausted:
  assumes "queue_inv q" and "j \<in> set (q_rows q)" and "j_status j = JobDead"
    and "j_revivals j = revivalBudget" and "automatic op"
  shows "j \<in> set (q_rows (apply_op op q))"
proof (cases op)
  case (OpEnqueue now ok items)
  then show ?thesis
    using assms(2,4) by (auto intro: EnqueueMatches_keeps simp: revivable_def)
next
  case (OpClaim k n now l)
  have "set (claim_pick k (nat (clampLimit n)) now l q) \<subseteq> set (q_rows q)"
    "j \<notin> set (claim_pick k (nat (clampLimit n)) now l q)"
    using claim_pick_set [of k "nat (clampLimit n)" now l q] assms(3) by (auto simp: ready_def)
  with OpClaim picked_keeps [OF assms(1,2)] show ?thesis by (simp add: Claim_rows)
next
  case (OpReset t n now)
  have "set (stuck_pick t (nat (clampLimit n)) q) \<subseteq> set (q_rows q)"
    "j \<notin> set (stuck_pick t (nat (clampLimit n)) q)"
    using stuck_pick_set [of t "nat (clampLimit n)" q] assms(3) OpReset by auto
  with OpReset picked_keeps [OF assms(1,2)] show ?thesis by (simp add: ResetStuckClaims_rows)
qed (use assms in \<open>auto simp: op_unfolds intro!: update_keeps\<close>)

text \<open>
  A match whose payload never parses cannot cycle for ever. A dead row that used its three
  revivals stays exactly as it is through every history that contains no operator replay, however
  often the walk enqueues it again.
\<close>

theorem exhausted_row_stays_dead:
  assumes "queue_inv q" and "j \<in> set (q_rows q)" and "j_status j = JobDead"
    and "j_revivals j = revivalBudget" and "\<forall>op \<in> set ops. op_ok op \<and> automatic op"
  shows "j \<in> set (q_rows (run_queue ops q))"
  using assms(1,2,5)
proof (induction ops arbitrary: q)
  case (Cons op ops)
  have "j \<in> set (q_rows (apply_op op q))"
    using Cons.prems by (intro apply_op_exhausted [OF _ _ assms(3,4)]) auto
  with Cons show ?case by (simp add: apply_op_inv)
qed simp

definition exhausted_row :: job where
  "exhausted_row = (demo_row 1 ''EUW1_1'' 5)\<lparr>j_status := JobDead, j_claimedAt := Some 44, j_revivals := 3\<rparr>"

theorem exhausted_row_stays_dead_witness:
  "exhausted_row \<in> set (q_rows (run_queue
     [OpEnqueue 50 [] [new_item ''EUW1_1'' KindMatch 9], OpClaim KindMatch 9 60 {}] \<lparr>q_rows = [exhausted_row], q_next = 2\<rparr>))"
proof (rule exhausted_row_stays_dead)
  show "queue_inv \<lparr>q_rows = [exhausted_row], q_next = 2\<rparr>"
    by (simp add: queue_inv_def row_ok_def exhausted_row_def demo_row_def revivalBudget_def)
qed (simp_all add: exhausted_row_def revivalBudget_def new_item_def)

section \<open>What an enqueue does\<close>

lemma enqueue_chunks_all:
  assumes "length batch \<le> n"
  shows "enqueue_chunks now [] n batch q added =
    (fst (enqueue_rows now batch q), added + snd (enqueue_rows now batch q), True)"
  using assms
proof (induction n arbitrary: batch q added)
  case (Suc n)
  show ?case
  proof (cases "batch = []")
    case False
    let ?h = "take enqueueBatch batch"
    have "length (drop enqueueBatch batch) \<le> n"
      using Suc.prems by (simp add: enqueueBatch_def)
    note IH = Suc.IH [OF this]
    have split: "?h @ drop enqueueBatch batch = batch" by (rule append_take_drop_id)
    note rows = enqueue_rows_append [of now ?h "drop enqueueBatch batch" q, unfolded split]
    show ?thesis
      using enqueue_chunks_step [OF False, of "[]" now n q added]
      by (simp only: IH list.sel rows add.assoc simp_thms)
  qed simp
qed simp

text \<open>
  C34: writing in chunks of 500 statements is the same as one pass over the de-duplicated batch: the
  same rows, the same count, whatever the batch's length.
\<close>

theorem chunked_enqueue_is_one_pass:
  "EnqueueMatches now [] items q =
     (fst (enqueue_rows now (dedupeQueueItems items) q),
      snd (enqueue_rows now (dedupeQueueItems items) q), True)"
  by (simp add: EnqueueMatches_def Let_def enqueue_chunks_all)

lemma revive_count:
  "length (filter (\<lambda>j. j_status j = JobPending) (map (\<lambda>j. if revivable k j then revive_job nb j else j) js)) =
   length (filter (\<lambda>j. j_status j = JobPending) js) + length (filter (revivable k) js)"
  by (induction js) (simp_all add: revive_job_def revivable_def)

lemma enqueue_one_depth:
  "snd (enqueue_one now i q) = QueueDepths (fst (enqueue_one now i q)) JobPending - QueueDepths q JobPending"
proof (cases "item_key i \<in> job_key ` set (q_rows q)")
  case True
  then show ?thesis
    unfolding enqueue_one_count enqueue_one_rows QueueDepths_def if_P [OF True] revive_count by simp
next
  case False
  then show ?thesis
    by (simp only: enqueue_one_count enqueue_one_rows QueueDepths_def if_False) (simp add: new_job_def)
qed

lemma enqueue_rows_depth:
  "snd (enqueue_rows now is q) = QueueDepths (fst (enqueue_rows now is q)) JobPending - QueueDepths q JobPending"
proof (induction "is" arbitrary: q)
  case (Cons i "is")
  show ?case
    unfolding enqueue_rows_Cons Cons.IH enqueue_one_depth by simp
qed simp

lemma revive_keys:
  "job_key ` (\<lambda>j. if P j then revive_job nb j else j) ` A = job_key ` A"
proof -
  have "job_key (if P j then revive_job nb j else j) = job_key j" for j by simp
  then show ?thesis by (simp only: image_image)
qed

definition settled :: "(string \<times> QueueKind) \<Rightarrow> queue \<Rightarrow> bool" where
  "settled k q = (k \<in> job_key ` set (q_rows q) \<and> (\<forall>j \<in> set (q_rows q). \<not> revivable k j))"

lemma not_revivable_fresh [simp]:
  "\<not> revivable k (revive_job nb j)" "\<not> revivable k (new_job n now i)"
  by (simp_all add: revivable_def revive_job_def new_job_def)

lemma enqueue_one_settles: "settled (item_key i) (fst (enqueue_one now i q))"
proof (cases "item_key i \<in> job_key ` set (q_rows q)")
  case True
  then show ?thesis
    unfolding settled_def by (simp only: enqueue_one_rows if_True set_map revive_keys) auto
next
  case False
  then have "\<not> revivable (item_key i) j" if "j \<in> set (q_rows q)" for j
    using that False by (metis image_eqI revivable_def)
  with False show ?thesis
    unfolding settled_def by (simp only: enqueue_one_rows if_False) auto
qed

lemma enqueue_one_keeps_settled:
  assumes "settled k q"
  shows "settled k (fst (enqueue_one now i q))"
proof (cases "item_key i \<in> job_key ` set (q_rows q)")
  case True
  with assms show ?thesis
    unfolding settled_def by (simp only: enqueue_one_rows if_True set_map revive_keys) auto
next
  case False
  with assms show ?thesis
    unfolding settled_def by (simp only: enqueue_one_rows if_False) auto
qed

lemma enqueue_rows_keeps_settled: "settled k q \<Longrightarrow> settled k (fst (enqueue_rows now is q))"
proof (induction "is" arbitrary: q)
  case (Cons i "is")
  then show ?case unfolding enqueue_rows_Cons by (blast intro: enqueue_one_keeps_settled)
qed simp

lemma enqueue_rows_settles: "i \<in> set is \<Longrightarrow> settled (item_key i) (fst (enqueue_rows now is q))"
proof (induction "is" arbitrary: q)
  case (Cons i' "is")
  then show ?case
    unfolding enqueue_rows_Cons by (auto intro: enqueue_rows_keeps_settled enqueue_one_settles)
qed simp

lemma enqueue_one_settled:
  assumes "settled (item_key i) q"
  shows "q_rows (fst (enqueue_one now i q)) = q_rows q" "snd (enqueue_one now i q) = 0"
proof -
  have k: "item_key i \<in> job_key ` set (q_rows q)" "\<forall>j \<in> set (q_rows q). \<not> revivable (item_key i) j"
    using assms by (auto simp: settled_def)
  then show "snd (enqueue_one now i q) = 0"
    by (simp only: enqueue_one_count if_True) (simp add: filter_empty_conv)
  from k show "q_rows (fst (enqueue_one now i q)) = q_rows q"
    by (simp only: enqueue_one_rows if_True) (simp add: map_idI)
qed

lemma settled_cong: "q_rows q' = q_rows q \<Longrightarrow> settled k q' = settled k q"
  by (simp add: settled_def)

lemma enqueue_rows_settled:
  "\<forall>i \<in> set is. settled (item_key i) q \<Longrightarrow>
     q_rows (fst (enqueue_rows now is q)) = q_rows q \<and> snd (enqueue_rows now is q) = 0"
proof (induction "is" arbitrary: q)
  case (Cons i "is")
  have h: "q_rows (fst (enqueue_one now i q)) = q_rows q" "snd (enqueue_one now i q) = 0"
    using Cons.prems enqueue_one_settled by simp_all
  have "\<forall>x \<in> set is. settled (item_key x) (fst (enqueue_one now i q))"
    using Cons.prems settled_cong [OF h(1)] by simp
  from Cons.IH [OF this] h show ?case unfolding enqueue_rows_Cons by simp
qed simp

text \<open>
  The count an enqueue reports is the growth of the pending backlog, and enqueuing the same
  items again, at any later time, writes no row and reports zero. A walk that rediscovers a
  player's matches costs the queue nothing.
\<close>

theorem reenqueue_is_a_noop:
  assumes "EnqueueMatches now [] items q = (q1, n, ok1)"
    and "EnqueueMatches now' [] items q1 = (q2, m, ok2)"
  shows "n = QueueDepths q1 JobPending - QueueDepths q JobPending \<and> q_rows q2 = q_rows q1 \<and> m = 0"
proof -
  let ?b = "dedupeQueueItems items"
  have one: "EnqueueMatches t [] items p = (fst (enqueue_rows t ?b p), snd (enqueue_rows t ?b p), True)" for t p
    by (simp add: EnqueueMatches_def Let_def enqueue_chunks_all)
  have q1: "q1 = fst (enqueue_rows now ?b q)" and n: "n = snd (enqueue_rows now ?b q)"
    and q2: "q2 = fst (enqueue_rows now' ?b q1)" and m: "m = snd (enqueue_rows now' ?b q1)"
    using assms unfolding one by simp_all
  have "\<forall>i \<in> set ?b. settled (item_key i) q1"
    unfolding q1 by (blast intro: enqueue_rows_settles)
  from enqueue_rows_settled [OF this, of now'] show ?thesis
    unfolding q2 m by (simp add: n enqueue_rows_depth q1)
qed

theorem reenqueue_is_a_noop_witness:
  "q_rows (fst (EnqueueMatches 90 [] [new_item ''EUW1_1'' KindMatch 9, new_item ''EUW1_1'' KindMatch 2]
      (fst (EnqueueMatches 10 [] [new_item ''EUW1_1'' KindMatch 9, new_item ''EUW1_1'' KindMatch 2] empty_queue)))) =
   q_rows (fst (EnqueueMatches 10 [] [new_item ''EUW1_1'' KindMatch 9, new_item ''EUW1_1'' KindMatch 2] empty_queue))"
proof -
  let ?items = "[new_item ''EUW1_1'' KindMatch 9, new_item ''EUW1_1'' KindMatch 2]"
  let ?r = "EnqueueMatches 10 [] ?items empty_queue"
  let ?s = "EnqueueMatches 90 [] ?items (fst ?r)"
  have "?r = (fst ?r, fst (snd ?r), snd (snd ?r))" "?s = (fst ?s, fst (snd ?s), snd (snd ?s))" by simp_all
  from reenqueue_is_a_noop [OF this] show ?thesis by blast
qed

end
