(* ===== verification/Store_Frontier.thy ===== *)
theory Store_Frontier
  imports Contract "HOL-Library.List_Lexorder" "HOL-Library.Char_ord"
begin

text \<open>
  The crawl frontier (\<^verbatim>\<open>internal/store/frontier.go\<close> and the frontier statements of
  \<^verbatim>\<open>internal/store/maintain.go\<close>): the players the crawl may walk, as a list of rows. One
  function per statement, as in the queue. PUUIDs are compared by bytes.
\<close>

section \<open>Rows\<close>

record frontier_row =
  f_puuid :: string
  f_region :: string
  f_tier :: string
  f_division :: string
  f_seen :: "gtime option"
  f_fetched :: "gtime option"
  f_empty :: int
  f_priority :: int
  f_dead :: bool
  f_cause :: "string option"

type_synonym frontier = "frontier_row list"

definition frontierBatch :: nat where
  "frontierBatch = 500"

section \<open>Upsert\<close>

definition dedupeFrontier :: "FrontierEntry list \<Rightarrow> FrontierEntry list" where
  "dedupeFrontier entries = dedupe_by fe_PUUID (filter (\<lambda>e. fe_PUUID e \<noteq> []) entries)"

text \<open>GREATEST ignores NULL.\<close>

definition greatest :: "gtime option \<Rightarrow> gtime \<Rightarrow> gtime option" where
  "greatest a b = (case a of None \<Rightarrow> Some b | Some x \<Rightarrow> Some (max x b))"

definition entry_region :: "string \<Rightarrow> FrontierEntry \<Rightarrow> string" where
  "entry_region fallback e = (if fe_Region e = [] then fallback else fe_Region e)"

definition entry_seen :: "gtime \<Rightarrow> FrontierEntry \<Rightarrow> gtime" where
  "entry_seen now e = (if fe_LastSeenAt e = 0 then now else fe_LastSeenAt e)"

definition merge_row :: "string \<Rightarrow> gtime \<Rightarrow> FrontierEntry \<Rightarrow> frontier_row \<Rightarrow> frontier_row" where
  "merge_row region now e r =
     r\<lparr>f_region := entry_region region e, f_tier := fe_SeedTier e, f_division := fe_SeedDivision e,
       f_seen := greatest (f_seen r) (entry_seen now e), f_priority := min (f_priority r) (fe_Priority e)\<rparr>"

definition new_row :: "string \<Rightarrow> gtime \<Rightarrow> FrontierEntry \<Rightarrow> frontier_row" where
  "new_row region now e =
     \<lparr>f_puuid = fe_PUUID e, f_region = entry_region region e, f_tier = fe_SeedTier e,
      f_division = fe_SeedDivision e, f_seen = Some (entry_seen now e), f_fetched = None, f_empty = 0,
      f_priority = fe_Priority e, f_dead = False, f_cause = None\<rparr>"

definition upsert_one :: "string \<Rightarrow> gtime \<Rightarrow> FrontierEntry \<Rightarrow> frontier \<Rightarrow> frontier \<times> int" where
  "upsert_one region now e fr =
     (if fe_PUUID e \<in> f_puuid ` set fr
      then (map (\<lambda>r. if f_puuid r = fe_PUUID e then merge_row region now e r else r) fr, 0)
      else (fr @ [new_row region now e], 1))"

fun upsert_rows :: "string \<Rightarrow> gtime \<Rightarrow> FrontierEntry list \<Rightarrow> frontier \<Rightarrow> frontier \<times> int" where
  "upsert_rows region now [] fr = (fr, 0)"
| "upsert_rows region now (e # es) fr =
     (let (fr1, n) = upsert_one region now e fr; (fr2, m) = upsert_rows region now es fr1 in (fr2, n + m))"

text \<open>The statements of 500 rows; a failed one ends the call with what was added before it.\<close>

fun upsert_chunks :: "string \<Rightarrow> gtime \<Rightarrow> bool list \<Rightarrow> nat \<Rightarrow> FrontierEntry list \<Rightarrow> frontier \<Rightarrow> int
    \<Rightarrow> frontier \<times> int \<times> bool" where
  "upsert_chunks region now db_ok 0 batch fr added = (fr, added, True)"
| "upsert_chunks region now db_ok (Suc n) batch fr added =
     (if batch = [] then (fr, added, True)
      else if db_ok \<noteq> [] \<and> \<not> hd db_ok then (fr, added, False)
      else (let (fr', k) = upsert_rows region now (take frontierBatch batch) fr
            in upsert_chunks region now (tl db_ok) n (drop frontierBatch batch) fr' (added + k)))"

definition UpsertFrontier :: "string \<Rightarrow> gtime \<Rightarrow> bool list \<Rightarrow> FrontierEntry list \<Rightarrow> frontier \<Rightarrow> frontier \<times> int \<times> bool" where
  "UpsertFrontier region now db_ok entries fr =
     (let batch = dedupeFrontier entries in upsert_chunks region now db_ok (length batch) batch fr 0)"

section \<open>Claim\<close>

text \<open>ORDER BY priority, last_fetched_at NULLS FIRST, puuid.\<close>

definition front_le :: "frontier_row \<Rightarrow> frontier_row \<Rightarrow> bool" where
  "front_le a b =
     (f_priority a < f_priority b \<or> f_priority a = f_priority b \<and>
       (case (f_fetched a, f_fetched b) of
          (None, None) \<Rightarrow> f_puuid a \<le> f_puuid b
        | (None, Some _) \<Rightarrow> True
        | (Some _, None) \<Rightarrow> False
        | (Some x, Some y) \<Rightarrow> x < y \<or> x = y \<and> f_puuid a \<le> f_puuid b))"

fun insert_by :: "('a \<Rightarrow> 'a \<Rightarrow> bool) \<Rightarrow> 'a \<Rightarrow> 'a list \<Rightarrow> 'a list" where
  "insert_by le x [] = [x]"
| "insert_by le x (y # ys) = (if le x y then x # y # ys else y # insert_by le x ys)"

definition sort_by_rel :: "('a \<Rightarrow> 'a \<Rightarrow> bool) \<Rightarrow> 'a list \<Rightarrow> 'a list" where
  "sort_by_rel le xs = foldr (insert_by le) xs []"

definition walkable :: "duration \<Rightarrow> gtime \<Rightarrow> frontier_row \<Rightarrow> bool" where
  "walkable cooldown now r =
     (\<not> f_dead r \<and> (case f_fetched r of None \<Rightarrow> True | Some t \<Rightarrow> t \<le> now - cooldown))"

definition frontier_pick :: "duration \<Rightarrow> nat \<Rightarrow> gtime \<Rightarrow> string set \<Rightarrow> frontier \<Rightarrow> frontier_row list" where
  "frontier_pick cooldown n now locked fr =
     take n (sort_by_rel front_le (filter (\<lambda>r. walkable cooldown now r \<and> f_puuid r \<notin> locked) fr))"

definition walk_row :: "gtime \<Rightarrow> frontier_row \<Rightarrow> frontier_row" where
  "walk_row now r =
     r\<lparr>f_fetched := Some now, f_seen := (case f_seen r of None \<Rightarrow> Some now | Some t \<Rightarrow> Some t)\<rparr>"

text \<open>The entry a claim returns: the row after the update, without its fetch time.\<close>

definition entry_of :: "frontier_row \<Rightarrow> FrontierEntry" where
  "entry_of r = \<lparr>fe_PUUID = f_puuid r, fe_Region = f_region r, fe_SeedTier = f_tier r,
     fe_SeedDivision = f_division r, fe_LastSeenAt = (case f_seen r of Some t \<Rightarrow> t | None \<Rightarrow> 0),
     fe_LastFetchedAt = 0, fe_ConsecutiveEmpty = f_empty r, fe_Priority = f_priority r, fe_Dead = f_dead r\<rparr>"

definition ClaimFrontier :: "duration \<Rightarrow> int \<Rightarrow> gtime \<Rightarrow> string set \<Rightarrow> frontier \<Rightarrow> FrontierEntry list \<times> frontier" where
  "ClaimFrontier cooldown limit now locked fr =
     (let n = nat (clampLimit limit)
      in if n = 0 then ([], fr)
         else (let picked = frontier_pick cooldown n now locked fr
               in (map (\<lambda>r. entry_of (walk_row now r)) (sort_by_rel front_le picked),
                   map (\<lambda>r. if f_puuid r \<in> f_puuid ` set picked then walk_row now r else r) fr)))"

section \<open>Outcomes of a walk\<close>

definition MarkFrontierFetched :: "string \<Rightarrow> gtime \<Rightarrow> bool \<Rightarrow> frontier \<Rightarrow> frontier" where
  "MarkFrontierFetched puuid t none fr =
     map (\<lambda>r. if f_puuid r = puuid
              then r\<lparr>f_seen := Some t, f_fetched := Some t, f_empty := (if none then f_empty r + 1 else 0)\<rparr>
              else r) fr"

definition MarkFrontierDead :: "string \<Rightarrow> string \<Rightarrow> frontier \<Rightarrow> frontier" where
  "MarkFrontierDead puuid cause fr =
     map (\<lambda>r. if f_puuid r = puuid then r\<lparr>f_dead := True, f_cause := nullText cause\<rparr> else r) fr"

section \<open>Maintenance\<close>

text \<open>SQL's three-valued comparison: NULL is not before anything.\<close>

definition before_opt :: "gtime option \<Rightarrow> gtime \<Rightarrow> bool" where
  "before_opt a t = (case a of None \<Rightarrow> False | Some x \<Rightarrow> x < t)"

definition coalesce :: "'a option \<Rightarrow> 'a option \<Rightarrow> 'a option" where
  "coalesce a b = (case a of None \<Rightarrow> b | Some x \<Rightarrow> Some x)"

definition prunable :: "gtime \<Rightarrow> int \<Rightarrow> frontier_row \<Rightarrow> bool" where
  "prunable before maxEmpty r =
     (f_dead r \<and> before_opt (coalesce (f_fetched r) (f_seen r)) before \<or>
      maxEmpty \<le> f_empty r \<and> before_opt (f_seen r) before)"

definition PruneFrontier :: "gtime \<Rightarrow> int \<Rightarrow> frontier \<Rightarrow> int \<times> frontier" where
  "PruneFrontier before maxEmpty fr =
     (int (length (filter (prunable before maxEmpty) fr)), filter (\<lambda>r. \<not> prunable before maxEmpty r) fr)"

definition FrontierSize :: "frontier \<Rightarrow> int" where
  "FrontierSize fr = int (length (filter (\<lambda>r. \<not> f_dead r) fr))"

definition DeadFrontierSize :: "frontier \<Rightarrow> int" where
  "DeadFrontierSize fr = int (length (filter f_dead fr))"

definition derived_priority :: "int \<Rightarrow> int" where
  "derived_priority empties = min 300 (50 + 25 * empties)"

definition RecomputeFrontierPriority :: "frontier \<Rightarrow> int \<times> frontier" where
  "RecomputeFrontierPriority fr =
     (int (length (filter (\<lambda>r. \<not> f_dead r \<and> f_priority r \<noteq> derived_priority (f_empty r)) fr)),
      map (\<lambda>r. if \<not> f_dead r then r\<lparr>f_priority := derived_priority (f_empty r)\<rparr> else r) fr)"

section \<open>Sorting by a relation\<close>

lemma insert_by_set [simp]: "set (insert_by le x ys) = insert x (set ys)"
  by (induction ys) auto

lemma sort_by_rel_set [simp]: "set (sort_by_rel le xs) = set xs"
  unfolding sort_by_rel_def by (induction xs) auto

lemma insert_by_length [simp]: "length (insert_by le x ys) = Suc (length ys)"
  by (induction ys) auto

lemma sort_by_rel_length [simp]: "length (sort_by_rel le xs) = length xs"
  unfolding sort_by_rel_def by (induction xs) auto

lemma insert_by_sorted:
  assumes "\<And>a b. le a b \<or> le b a" and "\<And>a b c. le a b \<Longrightarrow> le b c \<Longrightarrow> le a c"
  shows "sorted_wrt le ys \<Longrightarrow> sorted_wrt le (insert_by le x ys)"
proof (induction ys)
  case (Cons y ys)
  then show ?case
    using assms(1) [of x y] by (auto intro: assms(2))
qed simp

lemma sort_by_rel_sorted:
  assumes "\<And>a b. le a b \<or> le b a" and "\<And>a b c. le a b \<Longrightarrow> le b c \<Longrightarrow> le a c"
  shows "sorted_wrt le (sort_by_rel le xs)"
  unfolding sort_by_rel_def by (induction xs) (simp_all add: insert_by_sorted [OF assms])

lemma front_le_total: "front_le a b \<or> front_le b a"
  by (auto simp: front_le_def split: option.splits)

lemma front_le_trans: "front_le a b \<Longrightarrow> front_le b c \<Longrightarrow> front_le a c"
  by (auto simp: front_le_def split: option.splits)

lemma insert_by_head: "\<forall>y \<in> set ys. le x y \<Longrightarrow> insert_by le x ys = x # ys"
  by (cases ys) auto

lemma sort_by_rel_id: "sorted_wrt le xs \<Longrightarrow> sort_by_rel le xs = xs"
proof (induction xs)
  case (Cons x xs)
  then have "sort_by_rel le xs = xs" by simp
  with Cons.prems show ?case
    by (simp add: sort_by_rel_def insert_by_head)
qed (simp add: sort_by_rel_def)

end
