(* ===== verification/Frontier_Props.thy ===== *)
theory Frontier_Props
  imports Store_Frontier
begin

text \<open>
  Properties of the frontier. The locale states what every statement that rewrites rows keeps; it
  is interpreted on each rewrite of the model. Histories of the frontier are lists of operations.
\<close>

section \<open>The invariant\<close>

definition front_ok :: "frontier_row \<Rightarrow> bool" where
  "front_ok r = (f_puuid r \<noteq> [] \<and> 0 \<le> f_empty r)"

definition frontier_inv :: "frontier \<Rightarrow> bool" where
  "frontier_inv fr = (distinct (map f_puuid fr) \<and> (\<forall>r \<in> set fr. front_ok r))"

locale row_rewrite =
  fixes g :: "frontier_row \<Rightarrow> frontier_row"
  assumes keeps_puuid: "f_puuid (g r) = f_puuid r"
    and keeps_ok: "front_ok r \<Longrightarrow> front_ok (g r)"
begin

lemma rewrite_puuids: "map f_puuid (map (\<lambda>r. if P r then g r else r) fr) = map f_puuid fr"
  by (simp add: comp_def keeps_puuid if_distrib)

lemma rewrite_inv: "frontier_inv fr \<Longrightarrow> frontier_inv (map (\<lambda>r. if P r then g r else r) fr)"
  unfolding frontier_inv_def rewrite_puuids by (auto simp: keeps_ok)

end

interpretation merge: row_rewrite "merge_row region now e" for region now e
  by unfold_locales (simp_all add: merge_row_def front_ok_def)

interpretation walk: row_rewrite "walk_row now" for now
  by unfold_locales (simp_all add: walk_row_def front_ok_def)

interpretation fetched: row_rewrite "\<lambda>r. r\<lparr>f_seen := Some t, f_fetched := Some t, f_empty := (if none then f_empty r + 1 else 0)\<rparr>"
  for t none
  by unfold_locales (simp_all add: front_ok_def)

interpretation retire: row_rewrite "\<lambda>r. r\<lparr>f_dead := True, f_cause := c\<rparr>" for c
  by unfold_locales (simp_all add: front_ok_def)

interpretation rank: row_rewrite "\<lambda>r. r\<lparr>f_priority := derived_priority (f_empty r)\<rparr>"
  by unfold_locales (simp_all add: front_ok_def)

lemma same_puuid:
  "frontier_inv fr \<Longrightarrow> r \<in> set fr \<Longrightarrow> r' \<in> set fr \<Longrightarrow> f_puuid r = f_puuid r' \<Longrightarrow> r = r'"
  by (auto simp: frontier_inv_def distinct_map inj_on_def)

lemma upsert_one_inv:
  assumes "frontier_inv fr" and "fe_PUUID e \<noteq> []"
  shows "frontier_inv (fst (upsert_one region now e fr))"
proof (cases "fe_PUUID e \<in> f_puuid ` set fr")
  case True
  then show ?thesis using assms(1) by (simp add: upsert_one_def merge.rewrite_inv)
next
  case False
  with assms show ?thesis
    by (auto simp: upsert_one_def frontier_inv_def new_row_def front_ok_def)
qed

lemma upsert_rows_Cons:
  "fst (upsert_rows region now (e # es) fr) = fst (upsert_rows region now es (fst (upsert_one region now e fr)))"
  "snd (upsert_rows region now (e # es) fr) =
     snd (upsert_one region now e fr) + snd (upsert_rows region now es (fst (upsert_one region now e fr)))"
  by (simp_all add: Let_def split_beta)

lemma upsert_rows_append:
  "fst (upsert_rows region now (xs @ ys) fr) = fst (upsert_rows region now ys (fst (upsert_rows region now xs fr)))"
  "snd (upsert_rows region now (xs @ ys) fr) =
     snd (upsert_rows region now xs fr) + snd (upsert_rows region now ys (fst (upsert_rows region now xs fr)))"
  by (induction xs arbitrary: fr) (simp_all add: upsert_rows_Cons del: upsert_rows.simps(2))

lemma upsert_rows_inv:
  "frontier_inv fr \<Longrightarrow> \<forall>e \<in> set es. fe_PUUID e \<noteq> [] \<Longrightarrow> frontier_inv (fst (upsert_rows region now es fr))"
proof (induction es arbitrary: fr)
  case (Cons e es)
  have "frontier_inv (fst (upsert_one region now e fr))"
    using Cons.prems by (intro upsert_one_inv) simp_all
  with Cons show ?case unfolding upsert_rows_Cons by simp
qed simp

lemma upsert_chunks_prefix:
  "\<exists>m. fst (upsert_chunks region now ok n batch fr added) = fst (upsert_rows region now (take m batch) fr) \<and>
    fst (snd (upsert_chunks region now ok n batch fr added)) = added + snd (upsert_rows region now (take m batch) fr)"
proof (induction n arbitrary: ok batch fr added)
  case 0
  then show ?case by (intro exI [of _ 0]) simp
next
  case (Suc n)
  show ?case
  proof (cases "batch = [] \<or> ok \<noteq> [] \<and> \<not> hd ok")
    case True
    then show ?thesis by (intro exI [of _ 0]) auto
  next
    case False
    let ?h = "take frontierBatch batch"
    let ?d = "drop frontierBatch batch"
    let ?r = "upsert_rows region now ?h fr"
    have step: "upsert_chunks region now ok (Suc n) batch fr added =
        upsert_chunks region now (tl ok) n ?d (fst ?r) (added + snd ?r)"
      using False by (auto simp: Let_def split_beta)
    obtain m where m:
      "fst (upsert_chunks region now (tl ok) n ?d (fst ?r) (added + snd ?r)) =
         fst (upsert_rows region now (take m ?d) (fst ?r))"
      "fst (snd (upsert_chunks region now (tl ok) n ?d (fst ?r) (added + snd ?r))) =
         added + snd ?r + snd (upsert_rows region now (take m ?d) (fst ?r))"
      using Suc.IH by blast
    have "take (frontierBatch + m) batch = ?h @ take m ?d" by (rule take_add)
    then show ?thesis
      unfolding step m
      by (intro exI [of _ "frontierBatch + m"]) (simp only: upsert_rows_append add.assoc)
  qed
qed

lemma dedupeFrontier_named: "e \<in> set (dedupeFrontier entries) \<Longrightarrow> fe_PUUID e \<noteq> []"
  using dedupe_by_subset [of fe_PUUID "filter (\<lambda>e. fe_PUUID e \<noteq> []) entries"]
  by (auto simp: dedupeFrontier_def)

lemma UpsertFrontier_prefix:
  "\<exists>m. fst (UpsertFrontier region now ok entries fr) =
      fst (upsert_rows region now (take m (dedupeFrontier entries)) fr) \<and>
    fst (snd (UpsertFrontier region now ok entries fr)) =
      snd (upsert_rows region now (take m (dedupeFrontier entries)) fr)"
  using upsert_chunks_prefix [of region now ok "length (dedupeFrontier entries)" "dedupeFrontier entries" fr 0]
  by (simp add: UpsertFrontier_def Let_def)

lemma UpsertFrontier_inv [inv_rules]:
  assumes "frontier_inv fr"
  shows "frontier_inv (fst (UpsertFrontier region now ok entries fr))"
proof -
  obtain m where "fst (UpsertFrontier region now ok entries fr) =
      fst (upsert_rows region now (take m (dedupeFrontier entries)) fr)"
    using UpsertFrontier_prefix by blast
  then show ?thesis
    by (auto intro!: upsert_rows_inv assms dest: in_set_takeD dedupeFrontier_named)
qed

lemma ClaimFrontier_inv [inv_rules]:
  "frontier_inv fr \<Longrightarrow> frontier_inv (snd (ClaimFrontier cd limit now l fr))"
  by (simp add: ClaimFrontier_def Let_def walk.rewrite_inv)

lemma MarkFrontierFetched_inv [inv_rules]:
  "frontier_inv fr \<Longrightarrow> frontier_inv (MarkFrontierFetched p t e fr)"
  unfolding MarkFrontierFetched_def by (rule fetched.rewrite_inv)

lemma MarkFrontierDead_inv [inv_rules]: "frontier_inv fr \<Longrightarrow> frontier_inv (MarkFrontierDead p c fr)"
  unfolding MarkFrontierDead_def by (rule retire.rewrite_inv)

lemma PruneFrontier_inv [inv_rules]: "frontier_inv fr \<Longrightarrow> frontier_inv (snd (PruneFrontier t n fr))"
  by (auto simp: PruneFrontier_def frontier_inv_def distinct_map_filter)

lemma Recompute_inv [inv_rules]: "frontier_inv fr \<Longrightarrow> frontier_inv (snd (RecomputeFrontierPriority fr))"
  unfolding RecomputeFrontierPriority_def snd_conv by (rule rank.rewrite_inv)

section \<open>Histories\<close>

datatype frontier_op =
    FOpUpsert string gtime "bool list" "FrontierEntry list"
  | FOpClaim duration int gtime "string set"
  | FOpFetched string gtime bool
  | FOpDead string string
  | FOpPrune gtime int
  | FOpRecompute

fun apply_front :: "frontier_op \<Rightarrow> frontier \<Rightarrow> frontier" where
  "apply_front (FOpUpsert region now ok es) fr = fst (UpsertFrontier region now ok es fr)"
| "apply_front (FOpClaim cd n now l) fr = snd (ClaimFrontier cd n now l fr)"
| "apply_front (FOpFetched p t e) fr = MarkFrontierFetched p t e fr"
| "apply_front (FOpDead p c) fr = MarkFrontierDead p c fr"
| "apply_front (FOpPrune t n) fr = snd (PruneFrontier t n fr)"
| "apply_front FOpRecompute fr = snd (RecomputeFrontierPriority fr)"

definition run_front :: "frontier_op list \<Rightarrow> frontier \<Rightarrow> frontier" where
  "run_front ops fr = fold apply_front ops fr"

lemma apply_front_inv: "frontier_inv fr \<Longrightarrow> frontier_inv (apply_front op fr)"
  by (cases op) (simp_all add: inv_rules)

lemma run_front_inv: "frontier_inv fr \<Longrightarrow> frontier_inv (run_front ops fr)"
  unfolding run_front_def by (induction ops arbitrary: fr) (simp_all add: apply_front_inv)

lemma run_front_simps [simp]:
  "run_front [] fr = fr" "run_front (op # ops) fr = run_front ops (apply_front op fr)"
  by (simp_all add: run_front_def)

section \<open>The cooldown\<close>

text \<open>A player is resting when it is retired or was handed out no earlier than \<open>start\<close>.\<close>

definition rests :: "gtime \<Rightarrow> frontier_row \<Rightarrow> bool" where
  "rests start r = (f_dead r \<or> (\<exists>t. f_fetched r = Some t \<and> start \<le> t))"

definition resting :: "gtime \<Rightarrow> string \<Rightarrow> frontier \<Rightarrow> bool" where
  "resting start p fr = (\<exists>r \<in> set fr. f_puuid r = p \<and> rests start r)"

fun front_spares :: "gtime \<Rightarrow> frontier_op \<Rightarrow> bool" where
  "front_spares start (FOpClaim cd n now l) = (0 \<le> cd)"
| "front_spares start (FOpFetched p t e) = (start \<le> t)"
| "front_spares start (FOpPrune t n) = False"
| "front_spares start op = True"

lemma resting_rewrite:
  assumes "resting start p fr" and "\<And>r. f_puuid (g r) = f_puuid r"
    and "\<And>r. r \<in> set fr \<Longrightarrow> P r \<Longrightarrow> rests start r \<Longrightarrow> rests start (g r)"
  shows "resting start p (map (\<lambda>r. if P r then g r else r) fr)"
proof -
  obtain r where r: "r \<in> set fr" "f_puuid r = p" "rests start r"
    using assms(1) by (auto simp: resting_def)
  have "(if P r then g r else r) \<in> set (map (\<lambda>r. if P r then g r else r) fr)"
    using r(1) by (simp only: set_map) (rule imageI)
  moreover have "f_puuid (if P r then g r else r) = p" "rests start (if P r then g r else r)"
    using assms(2,3) r by simp_all
  ultimately show ?thesis unfolding resting_def by blast
qed

lemma resting_upsert_rows: "resting start p fr \<Longrightarrow> resting start p (fst (upsert_rows region now es fr))"
proof (induction es arbitrary: fr)
  case (Cons e es)
  have "resting start p (fst (upsert_one region now e fr))"
  proof (cases "fe_PUUID e \<in> f_puuid ` set fr")
    case True
    then show ?thesis
      unfolding upsert_one_def if_P [OF True] fst_conv
      by (intro resting_rewrite Cons.prems) (simp_all add: merge_row_def rests_def)
  next
    case False
    then show ?thesis using Cons.prems by (auto simp: upsert_one_def resting_def)
  qed
  with Cons.IH show ?case unfolding upsert_rows_Cons by blast
qed simp

lemma frontier_pick_set:
  "set (frontier_pick cd n now l fr) \<subseteq> {r \<in> set fr. walkable cd now r \<and> f_puuid r \<notin> l}"
  unfolding frontier_pick_def
  using set_take_subset [of n "sort_by_rel front_le (filter (\<lambda>r. walkable cd now r \<and> f_puuid r \<notin> l) fr)"] by auto

lemma apply_front_resting:
  assumes "frontier_inv fr" and "resting start p fr" and "front_spares start op"
  shows "resting start p (apply_front op fr)"
proof (cases op)
  case (FOpUpsert region now ok es)
  obtain m where "fst (UpsertFrontier region now ok es fr) =
      fst (upsert_rows region now (take m (dedupeFrontier es)) fr)"
    using UpsertFrontier_prefix by blast
  with FOpUpsert assms(2) show ?thesis by (simp add: resting_upsert_rows)
next
  case (FOpClaim cd n now l)
  let ?picked = "frontier_pick cd (nat (clampLimit n)) now l fr"
  have "rests start (walk_row now r)"
    if "r \<in> set fr" and "f_puuid r \<in> f_puuid ` set ?picked" and "rests start r" for r
  proof -
    have "r \<in> set ?picked"
      using that(1,2) same_puuid [OF assms(1) that(1)] frontier_pick_set [of cd "nat (clampLimit n)" now l fr]
      by auto
    then have "walkable cd now r" using frontier_pick_set by blast
    with that(3) assms(3) FOpClaim show ?thesis
      by (auto simp: walkable_def rests_def walk_row_def)
  qed
  then have "resting start p (map (\<lambda>r. if f_puuid r \<in> f_puuid ` set ?picked then walk_row now r else r) fr)"
    by (intro resting_rewrite assms(2)) (simp_all add: walk_row_def)
  with FOpClaim assms(2) show ?thesis by (simp add: ClaimFrontier_def Let_def)
next
  case (FOpFetched q t e)
  then show ?thesis
    using assms(2,3) unfolding FOpFetched apply_front.simps MarkFrontierFetched_def
    by (intro resting_rewrite) (simp_all add: rests_def)
next
  case (FOpDead q c)
  show ?thesis
    using assms(2) unfolding FOpDead apply_front.simps MarkFrontierDead_def
    by (intro resting_rewrite) (simp_all add: rests_def)
next
  case FOpRecompute
  show ?thesis
    using assms(2) unfolding FOpRecompute apply_front.simps RecomputeFrontierPriority_def snd_conv
    by (intro resting_rewrite) (simp_all add: rests_def)
qed (use assms in simp)

lemma run_front_resting:
  assumes "frontier_inv fr" and "resting start p fr" and "\<forall>op \<in> set ops. front_spares start op"
  shows "resting start p (run_front ops fr)"
  using assms
proof (induction ops arbitrary: fr)
  case (Cons op ops)
  then show ?case using apply_front_resting apply_front_inv by simp
qed simp

lemma Claim_puuids:
  "fe_PUUID ` set (fst (ClaimFrontier cd limit now l fr)) =
     f_puuid ` set (frontier_pick cd (nat (clampLimit limit)) now l fr)"
  by (cases "nat (clampLimit limit) = 0")
    (simp_all add: ClaimFrontier_def Let_def image_image entry_of_def walk_row_def frontier_pick_def)

text \<open>
  C28: inside one cooldown a player is walked once. A second claim made less than the cooldown after
  the first hands out none of the first's players, whatever discoveries, outcomes, retirements and
  other claims happen in between: the fetch time a claim writes is the claim. Two things are excluded in between:
  an outcome dated before the claim, and a pruning, after which a player found again is a new row.
\<close>

theorem frontier_claims_respect_cooldown:
  assumes "frontier_inv fr"
    and "ClaimFrontier cd limit now l fr = (entries, fr1)"
    and "\<forall>op \<in> set ops. front_spares now op"
    and "now' < now + cd"
    and "ClaimFrontier cd limit' now' l' (run_front ops fr1) = (entries', fr2)"
  shows "fe_PUUID ` set entries \<inter> fe_PUUID ` set entries' = {}"
proof -
  let ?p = "frontier_pick cd (nat (clampLimit limit)) now l fr"
  let ?q = "frontier_pick cd (nat (clampLimit limit')) now' l' (run_front ops fr1)"
  have ids: "fe_PUUID ` set entries = f_puuid ` set ?p" "fe_PUUID ` set entries' = f_puuid ` set ?q"
    using Claim_puuids assms(2,5) by (metis fst_conv)+
  have inv1: "frontier_inv fr1" using ClaimFrontier_inv [OF assms(1)] assms(2) by (metis snd_conv)
  note inv2 = run_front_inv [OF inv1, of ops]
  have "f_puuid r \<notin> f_puuid ` set ?q" if "r \<in> set ?p" for r
  proof
    assume "f_puuid r \<in> f_puuid ` set ?q"
    then obtain r' where r': "r' \<in> set ?q" "f_puuid r' = f_puuid r" by auto
    have "r \<in> set fr" using that frontier_pick_set by blast
    then have "resting now (f_puuid r) fr1"
      using assms(2) that
      by (auto simp: ClaimFrontier_def Let_def resting_def rests_def walk_row_def frontier_pick_def split: if_splits
          intro!: bexI [of _ "walk_row now r"])
    then have "resting now (f_puuid r) (run_front ops fr1)"
      using run_front_resting [OF inv1] assms(3) by blast
    moreover have "r' \<in> set (run_front ops fr1)" "walkable cd now' r'"
      using r'(1) frontier_pick_set by blast+
    ultimately have "rests now r'"
      using same_puuid [OF inv2] r'(2) unfolding resting_def by metis
    with \<open>walkable cd now' r'\<close> assms(4) show False by (auto simp: walkable_def rests_def)
  qed
  then show ?thesis unfolding ids by auto
qed

definition demo_entry :: "string \<Rightarrow> int \<Rightarrow> FrontierEntry" where
  "demo_entry p prio = \<lparr>fe_PUUID = p, fe_Region = [], fe_SeedTier = ''GOLD'', fe_SeedDivision = ''I'',
     fe_LastSeenAt = 0, fe_LastFetchedAt = 0, fe_ConsecutiveEmpty = 0, fe_Priority = prio, fe_Dead = False\<rparr>"

theorem frontier_claims_respect_cooldown_witness:
  "fe_PUUID ` set (fst (ClaimFrontier 100 5 20 {} (run_front [FOpUpsert ''euw1'' 10 [] [demo_entry ''p'' 0, demo_entry ''q'' 9]] []))) \<inter>
   fe_PUUID ` set (fst (ClaimFrontier 100 5 60 {} (run_front [FOpFetched ''p'' 30 True]
     (snd (ClaimFrontier 100 5 20 {} (run_front [FOpUpsert ''euw1'' 10 [] [demo_entry ''p'' 0, demo_entry ''q'' 9]] [])))))) = {}"
  by (rule frontier_claims_respect_cooldown [OF run_front_inv surjective_pairing _ _ surjective_pairing])
    (simp_all add: frontier_inv_def)

section \<open>Discovery\<close>

definition grows :: "frontier_row \<Rightarrow> frontier_row \<Rightarrow> bool" where
  "grows r r' =
     (f_puuid r' = f_puuid r \<and> f_dead r' = f_dead r \<and> f_cause r' = f_cause r \<and> f_fetched r' = f_fetched r \<and>
      f_empty r' = f_empty r \<and> f_priority r' \<le> f_priority r \<and>
      (\<forall>t. f_seen r = Some t \<longrightarrow> (\<exists>t' \<ge> t. f_seen r' = Some t')))"

lemma grows_refl [simp]: "grows r r"
  by (simp add: grows_def)

lemma grows_trans: "grows a b \<Longrightarrow> grows b c \<Longrightarrow> grows a c"
  by (fastforce simp: grows_def)

lemma upsert_one_grows:
  "list_all2 grows fr (take (length fr) (fst (upsert_one region now e fr))) \<and>
   int (length (fst (upsert_one region now e fr))) = int (length fr) + snd (upsert_one region now e fr)"
proof -
  have "grows r (merge_row region now e r)" for r
    by (auto simp: grows_def merge_row_def greatest_def split: option.splits)
  then show ?thesis
    by (auto simp: upsert_one_def list_all2_map2 intro!: list_all2_refl list.rel_refl_strong)
qed

lemma list_all2_take_trans:
  assumes "list_all2 P xs (take (length xs) ys)" and "list_all2 P ys (take (length ys) zs)"
    and "length xs \<le> length ys" and "\<And>a b c. P a b \<Longrightarrow> P b c \<Longrightarrow> P a c"
  shows "list_all2 P xs (take (length xs) zs)"
  using assms unfolding list_all2_conv_all_nth by (auto simp: min_def)

lemma upsert_one_count: "0 \<le> snd (upsert_one region now e fr)"
  by (simp add: upsert_one_def)

lemma upsert_rows_grows:
  "list_all2 grows fr (take (length fr) (fst (upsert_rows region now es fr))) \<and>
   int (length (fst (upsert_rows region now es fr))) = int (length fr) + snd (upsert_rows region now es fr)"
proof (induction es arbitrary: fr)
  case Nil
  show ?case by (simp add: list.rel_refl)
next
  case (Cons e es)
  let ?fr = "fst (upsert_one region now e fr)"
  note one = upsert_one_grows [of fr region now e]
  have len: "length fr \<le> length ?fr"
    using one upsert_one_count [of region now e fr] by linarith
  show ?case
    unfolding upsert_rows_Cons
    using one Cons.IH [of ?fr] list_all2_take_trans [OF _ _ len grows_trans] by auto
qed

text \<open>
  Discovery never rewrites what the crawl learned. Whatever statements of the upsert succeed,
  every row that was there keeps its retirement, its cause, its fetch time and its empty count, its
  priority only falls and its last sighting only moves forward; and the count returned is exactly
  the number of rows the table gained.
\<close>

theorem discovery_never_revives:
  "list_all2 grows fr (take (length fr) (fst (UpsertFrontier region now ok entries fr))) \<and>
   int (length (fst (UpsertFrontier region now ok entries fr))) =
     int (length fr) + fst (snd (UpsertFrontier region now ok entries fr))"
proof -
  obtain m where m: "fst (UpsertFrontier region now ok entries fr) =
      fst (upsert_rows region now (take m (dedupeFrontier entries)) fr)"
    "fst (snd (UpsertFrontier region now ok entries fr)) =
      snd (upsert_rows region now (take m (dedupeFrontier entries)) fr)"
    using UpsertFrontier_prefix by blast
  show ?thesis unfolding m by (rule upsert_rows_grows)
qed

section \<open>Ranking and pruning\<close>

text \<open>
  Re-ranking is derived from the evidence alone: it is idempotent, puts every live row between
  50 and 300 and never touches a retired row.
\<close>

theorem recompute_is_idempotent:
  assumes "frontier_inv fr"
  shows "RecomputeFrontierPriority (snd (RecomputeFrontierPriority fr)) = (0, snd (RecomputeFrontierPriority fr)) \<and>
    (\<forall>r \<in> set (snd (RecomputeFrontierPriority fr)). \<not> f_dead r \<longrightarrow> 50 \<le> f_priority r \<and> f_priority r \<le> 300)"
proof -
  let ?g = "\<lambda>r. if \<not> f_dead r then r\<lparr>f_priority := derived_priority (f_empty r)\<rparr> else r"
  have "?g (?g r) = ?g r" for r by simp
  then have "map ?g (map ?g fr) = map ?g fr" by (simp add: comp_def)
  moreover have "\<not> (\<not> f_dead r \<and> f_priority r \<noteq> derived_priority (f_empty r))" if "r \<in> set (map ?g fr)" for r
    using that by (auto split: if_splits)
  then have "filter (\<lambda>r. \<not> f_dead r \<and> f_priority r \<noteq> derived_priority (f_empty r)) (map ?g fr) = []"
    unfolding filter_empty_conv by blast
  moreover have "\<forall>r \<in> set (map ?g fr). \<not> f_dead r \<longrightarrow> 50 \<le> f_priority r \<and> f_priority r \<le> 300"
    using assms by (auto simp: frontier_inv_def front_ok_def derived_priority_def)
  ultimately show ?thesis unfolding RecomputeFrontierPriority_def snd_conv by simp
qed

theorem recompute_is_idempotent_witness:
  "fst (RecomputeFrontierPriority (snd (RecomputeFrontierPriority
     (run_front [FOpUpsert ''euw1'' 10 [] [demo_entry ''p'' 0]] [])))) = 0"
proof -
  have "frontier_inv (run_front [FOpUpsert ''euw1'' 10 [] [demo_entry ''p'' 0]] [])"
    by (rule run_front_inv) (simp add: frontier_inv_def)
  from recompute_is_idempotent [OF this] show ?thesis by simp
qed

text \<open>
  A seed enters with priority 0, so that it is walked before anything discovered; the next
  maintenance pass gives it the priority of every other unwalked player.
\<close>

lemma recompute_overtakes_seeds:
  "map f_priority (run_front [FOpUpsert ''euw1'' 10 [] [demo_entry ''seed'' 0, demo_entry ''other'' 50]] []) = [0, 50] \<and>
   map f_priority (run_front [FOpUpsert ''euw1'' 10 [] [demo_entry ''seed'' 0, demo_entry ''other'' 50], FOpRecompute] []) = [50, 50]"
  by code_simp

text \<open>Pruning needs evidence: a live row that was never seen, or not walked empty often enough, stays.\<close>

lemma prune_keeps:
  assumes "r \<in> set fr" and "\<not> f_dead r" and "f_seen r = None \<or> f_empty r < maxEmpty"
  shows "r \<in> set (snd (PruneFrontier t maxEmpty fr))"
  using assms by (auto simp: PruneFrontier_def prunable_def before_opt_def)

end
