(* ===== verification/Store_Matches.thy ===== *)
theory Store_Matches
  imports Store_Queue "HOL-Library.List_Lexorder" "HOL-Library.Char_ord"
begin

text \<open>
  The match metadata table, the selection of timeline candidates and the audit tables
  (\<^verbatim>\<open>internal/store/matches.go\<close>, \<^verbatim>\<open>internal/store/timeline.go\<close>, \<^verbatim>\<open>internal/store/runs.go\<close> and the
  helpers of \<^verbatim>\<open>internal/store/store.go\<close>). A statement that the schema's CHECK constraints reject,
  or that the database fails, is an error value. SQL's \<^verbatim>\<open>md5\<close> is a parameter.
\<close>

section \<open>Errors and helpers\<close>

datatype store_error =
    EmptyMatchID | EmptyRawURI | VersionNotANumber | VersionOutOfRange | MatchNotFound
  | TierDivisionRequired | PatchBracketRequired | StatusRequired | UnknownStatus
  | SourceRequired | DecidedByRequired | ConstraintViolated

definition defaultPayloadVersion :: int where
  "defaultPayloadVersion = 1"

fun version_digits :: "int \<Rightarrow> string \<Rightarrow> store_error + int" where
  "version_digits n [] = Inr n"
| "version_digits n (c # cs) =
     (if \<not> is_digit c then Inl VersionNotANumber
      else (let m = n * 10 + int (digit_val c)
            in if 2 ^ 20 < m then Inl VersionOutOfRange else version_digits m cs))"

definition payloadVersion :: "string \<Rightarrow> store_error + int" where
  "payloadVersion v = (if v = [] then Inr defaultPayloadVersion else version_digits 0 v)"

definition itoa :: "int \<Rightarrow> string" where
  "itoa n = (if n < 0 then CHR ''-'' # decimal (nat (- n)) else decimal (nat n))"

definition or_default :: "string \<Rightarrow> string \<Rightarrow> string" where
  "or_default s fallback = (if s = [] then fallback else s)"

definition or_now :: "gtime \<Rightarrow> gtime \<Rightarrow> gtime" where
  "or_now t now = (if t = 0 then now else t)"

section \<open>The matches table\<close>

record match_row =
  m_id :: string
  m_region :: string
  m_queue :: int
  m_patch :: string
  m_version :: string
  m_created :: gtime
  m_duration :: int
  m_payload :: int
  m_uri :: string
  m_status :: MatchStatus
  m_fetched :: "gtime option"
  m_parsed :: "gtime option"
  m_error :: "string option"

type_synonym matches = "match_row list"

definition find_match :: "string \<Rightarrow> matches \<Rightarrow> match_row option" where
  "find_match i ms = find (\<lambda>r. m_id r = i) ms"

text \<open>The schema's CHECK admits every status the Go type has except \<^verbatim>\<open>pending\<close>.\<close>

definition status_allowed :: "MatchStatus \<Rightarrow> bool" where
  "status_allowed s = (s \<noteq> MatchPending)"

definition match_row_of :: "string \<Rightarrow> int \<Rightarrow> MatchRecord \<Rightarrow> match_row" where
  "match_row_of region version rec =
     \<lparr>m_id = mr_MatchID rec, m_region = or_default (mr_Region rec) region, m_queue = mr_QueueID rec,
      m_patch = mr_Patch rec, m_version = mr_GameVersion rec, m_created = mr_GameCreation rec,
      m_duration = mr_GameDurationS rec, m_payload = version, m_uri = mr_RawURI rec,
      m_status = (case mr_Status rec of None \<Rightarrow> MatchFetched | Some s \<Rightarrow> s),
      m_fetched = nullTime (mr_FetchedAt rec), m_parsed = nullTime (mr_ParsedAt rec),
      m_error = nullText (mr_Err rec)\<rparr>"

definition UpsertMatch :: "string \<Rightarrow> MatchRecord \<Rightarrow> matches \<Rightarrow> (store_error + bool) \<times> matches" where
  "UpsertMatch region rec ms =
     (if mr_MatchID rec = [] then (Inl EmptyMatchID, ms)
      else if mr_RawURI rec = [] then (Inl EmptyRawURI, ms)
      else (case payloadVersion (mr_PayloadVersion rec) of
              Inl e \<Rightarrow> (Inl e, ms)
            | Inr v \<Rightarrow>
                (let row = match_row_of region v rec
                 in if \<not> status_allowed (m_status row) then (Inl ConstraintViolated, ms)
                    else if find_match (m_id row) ms \<noteq> None then (Inr False, ms)
                    else (Inr True, ms @ [row]))))"

definition MatchProvenance :: "string \<Rightarrow> matches \<Rightarrow> store_error + MatchRecord" where
  "MatchProvenance i ms =
     (case find_match i ms of
        None \<Rightarrow> Inl MatchNotFound
      | Some r \<Rightarrow> Inr \<lparr>mr_MatchID = m_id r, mr_Region = m_region r, mr_QueueID = m_queue r,
          mr_Patch = m_patch r, mr_GameVersion = m_version r, mr_GameCreation = m_created r,
          mr_GameDurationS = m_duration r, mr_PayloadVersion = itoa (m_payload r), mr_RawURI = [],
          mr_Status = None, mr_FetchedAt = (case m_fetched r of None \<Rightarrow> 0 | Some t \<Rightarrow> t),
          mr_ParsedAt = 0, mr_Err = []\<rparr>)"

definition update_match :: "string \<Rightarrow> (match_row \<Rightarrow> match_row) \<Rightarrow> matches \<Rightarrow> matches" where
  "update_match i f ms = map (\<lambda>r. if m_id r = i then f r else r) ms"

definition MarkMatchParsed :: "string \<Rightarrow> gtime \<Rightarrow> matches \<Rightarrow> matches" where
  "MarkMatchParsed i parsedAt ms =
     update_match i (\<lambda>r. r\<lparr>m_status := MatchParsed, m_parsed := nullTime parsedAt, m_error := None\<rparr>) ms"

definition MarkMatchFailed :: "string \<Rightarrow> string \<Rightarrow> matches \<Rightarrow> matches" where
  "MarkMatchFailed i cause ms =
     update_match i (\<lambda>r. r\<lparr>m_status := MatchFailed, m_error := nullText cause\<rparr>) ms"

definition MatchExists :: "string \<Rightarrow> matches \<Rightarrow> bool" where
  "MatchExists i ms = (find_match i ms \<noteq> None)"

definition NewestFetchedAt :: "matches \<Rightarrow> gtime option" where
  "NewestFetchedAt ms =
     (case List.map_filter m_fetched ms of [] \<Rightarrow> None | t # ts \<Rightarrow> Some (foldl max t ts))"

section \<open>Timeline candidates\<close>

definition maxCandidateLimit :: int where
  "maxCandidateLimit = 100000"

definition defaultSoloQueueID :: int where
  "defaultSoloQueueID = 420"

definition timeline_job :: "queue \<Rightarrow> string \<Rightarrow> job option" where
  "timeline_job q i = find (\<lambda>j. job_key j = (i, KindTimeline)) (q_rows q)"

definition duration_floor :: "TimelineQuery \<Rightarrow> int" where
  "duration_floor tq = (if tq_IncludeShort tq then 0 else tq_MinDurationS tq)"

definition eligible :: "string \<Rightarrow> TimelineQuery \<Rightarrow> match_row \<Rightarrow> bool" where
  "eligible region tq r =
     (m_region r = or_default (tq_Region tq) region \<and>
      m_queue r = (if tq_QueueID tq = 0 then defaultSoloQueueID else tq_QueueID tq) \<and>
      tq_Since tq \<le> m_created r)"

definition is_short :: "TimelineQuery \<Rightarrow> match_row \<Rightarrow> bool" where
  "is_short tq r = (m_duration r < duration_floor tq \<and> 0 < duration_floor tq)"

definition candidate_of :: "match_row \<Rightarrow> TimelineCandidate" where
  "candidate_of r = \<lparr>tc_MatchID = m_id r, tc_Region = m_region r, tc_QueueID = m_queue r, tc_Patch = m_patch r,
     tc_GameVersion = m_version r, tc_GameCreation = m_created r, tc_GameDurationS = m_duration r\<rparr>"

definition clampCandidates :: "int \<Rightarrow> nat" where
  "clampCandidates limit = nat (if limit \<le> 0 then 0 else min limit maxCandidateLimit)"

definition count_rows :: "('a \<Rightarrow> bool) \<Rightarrow> 'a list \<Rightarrow> int" where
  "count_rows P xs = int (length (filter P xs))"

definition selectable :: "string \<Rightarrow> TimelineQuery \<Rightarrow> queue \<Rightarrow> matches \<Rightarrow> matches" where
  "selectable region tq q ms =
     filter (\<lambda>r. eligible region tq r \<and> timeline_job q (m_id r) = None \<and>
       (duration_floor tq \<le> 0 \<or> duration_floor tq \<le> m_duration r)) ms"

definition TimelineCandidates :: "(string \<Rightarrow> string) \<Rightarrow> string \<Rightarrow> TimelineQuery \<Rightarrow> queue \<Rightarrow> matches \<Rightarrow> CandidateReport" where
  "TimelineCandidates md5 region tq q ms =
     (let es = filter (eligible region tq) ms;
          st = (\<lambda>r. map_option j_status (timeline_job q (m_id r)));
          n = clampCandidates (tq_Limit tq)
      in \<lparr>tcs_Matches = (if n = 0 then []
            else map candidate_of (take n (sort_key (\<lambda>r. md5 (m_id r)) (sort_key m_id (selectable region tq q ms))))),
          tcs_Eligible = int (length es),
          tcs_Ready = count_rows (\<lambda>r. \<not> is_short tq r \<and> st r = None) es,
          tcs_ShortExcluded = count_rows (is_short tq) es,
          tcs_AlreadyQueued = count_rows (\<lambda>r. \<not> is_short tq r \<and>
            (st r = Some JobPending \<or> st r = Some JobClaimed \<or> st r = Some JobRetry)) es,
          tcs_AlreadyDone = count_rows (\<lambda>r. \<not> is_short tq r \<and> (st r = Some JobDone \<or> st r = Some JobDead)) es\<rparr>)"

section \<open>Seed runs, build runs, source toggles\<close>

record SeedRun =
  sr_ID :: int
  sr_Tier :: string
  sr_Division :: string
  sr_Queue :: string
  sr_Region :: string
  sr_StartedAt :: gtime
  sr_FinishedAt :: "gtime option"
  sr_EntriesFound :: int

text \<open>\<open>crawl_seeds_entries_found_check\<close>: the count is not negative.\<close>

definition StartSeedRun :: "string \<Rightarrow> gtime \<Rightarrow> SeedRun \<Rightarrow> SeedRun list \<times> int \<Rightarrow> (store_error + int) \<times> (SeedRun list \<times> int)" where
  "StartSeedRun region now run tab =
     (if sr_Tier run = [] \<or> sr_Division run = [] then (Inl TierDivisionRequired, tab)
      else (Inr (snd tab),
            (fst tab @ [run\<lparr>sr_ID := snd tab, sr_Region := or_default (sr_Region run) region,
               sr_StartedAt := or_now (sr_StartedAt run) now, sr_FinishedAt := None, sr_EntriesFound := 0\<rparr>],
             snd tab + 1)))"

definition FinishSeedRun :: "int \<Rightarrow> gtime \<Rightarrow> int \<Rightarrow> SeedRun list \<times> int \<Rightarrow> (store_error + unit) \<times> (SeedRun list \<times> int)" where
  "FinishSeedRun i finishedAt n tab =
     (if n < 0 \<and> i \<in> sr_ID ` set (fst tab) then (Inl ConstraintViolated, tab)
      else (Inr (), (map (\<lambda>r. if sr_ID r = i then r\<lparr>sr_FinishedAt := Some finishedAt, sr_EntriesFound := n\<rparr> else r)
                       (fst tab), snd tab)))"

datatype BuildStatus = BuildRunning | BuildSucceeded | BuildFailed

record BuildRow =
  br_ID :: int
  br_Patch :: string
  br_Region :: string
  br_Queue :: int
  br_Bracket :: string
  br_StartedAt :: gtime
  br_GitSHA :: string
  br_FinishedAt :: "gtime option"
  br_Status :: BuildStatus
  br_Total :: int
  br_Published :: int
  br_Suppressed :: int
  br_URI :: "string option"
  br_Err :: "string option"

record BuildResult =
  bres_Status :: string
  bres_FinishedAt :: gtime
  bres_Total :: int
  bres_Published :: int
  bres_Suppressed :: int
  bres_URI :: string
  bres_Err :: string

definition StartBuildRun :: "string \<Rightarrow> gtime \<Rightarrow> BuildRow \<Rightarrow> BuildRow list \<times> int \<Rightarrow> (store_error + int) \<times> (BuildRow list \<times> int)" where
  "StartBuildRun region now run tab =
     (if br_Patch run = [] \<or> br_Bracket run = [] then (Inl PatchBracketRequired, tab)
      else (Inr (snd tab),
            (fst tab @ [\<lparr>br_ID = snd tab, br_Patch = br_Patch run, br_Region = or_default (br_Region run) region,
               br_Queue = br_Queue run, br_Bracket = br_Bracket run, br_StartedAt = or_now (br_StartedAt run) now,
               br_GitSHA = br_GitSHA run, br_FinishedAt = None, br_Status = BuildRunning, br_Total = 0,
               br_Published = 0, br_Suppressed = 0, br_URI = None, br_Err = None\<rparr>], snd tab + 1)))"

definition buildRunStatus :: "string \<Rightarrow> store_error + BuildStatus" where
  "buildRunStatus s =
     (if s = ''ok'' then Inr BuildSucceeded
      else if s = ''failed'' \<or> s = ''quarantined'' then Inr BuildFailed
      else if s = [] then Inl StatusRequired
      else Inl UnknownStatus)"

text \<open>\<open>build_runs_totals_check\<close>: published plus suppressed never exceed the total.\<close>

definition FinishBuildRun :: "int \<Rightarrow> BuildResult \<Rightarrow> BuildRow list \<times> int \<Rightarrow> (store_error + unit) \<times> (BuildRow list \<times> int)" where
  "FinishBuildRun i res tab =
     (case buildRunStatus (bres_Status res) of
        Inl e \<Rightarrow> (Inl e, tab)
      | Inr st \<Rightarrow>
          (if bres_Total res < bres_Published res + bres_Suppressed res \<and> i \<in> br_ID ` set (fst tab)
           then (Inl ConstraintViolated, tab)
           else (Inr (), (map (\<lambda>r. if br_ID r = i
              then r\<lparr>br_FinishedAt := Some (bres_FinishedAt res), br_Status := st, br_Total := bres_Total res,
                br_Published := bres_Published res, br_Suppressed := bres_Suppressed res,
                br_URI := nullText (bres_URI res), br_Err := nullText (bres_Err res)\<rparr>
              else r) (fst tab), snd tab))))"

record SourceToggle =
  st_Source :: string
  st_Enabled :: bool
  st_DecidedBy :: string
  st_DecidedAt :: gtime
  st_ReviewDueAt :: gtime
  st_Notes :: string

definition merge_toggle :: "SourceToggle \<Rightarrow> SourceToggle \<Rightarrow> SourceToggle" where
  "merge_toggle new old =
     new\<lparr>st_DecidedAt := (if st_Enabled old \<noteq> st_Enabled new then st_DecidedAt new else st_DecidedAt old)\<rparr>"

definition SetSourceToggle :: "gtime \<Rightarrow> SourceToggle \<Rightarrow> SourceToggle list \<Rightarrow> (store_error + unit) \<times> SourceToggle list" where
  "SetSourceToggle now tg tab =
     (if st_Source tg = [] then (Inl SourceRequired, tab)
      else if st_DecidedBy tg = [] then (Inl DecidedByRequired, tab)
      else (let new = tg\<lparr>st_DecidedAt := or_now (st_DecidedAt tg) now\<rparr>
            in (Inr (), if st_Source tg \<in> st_Source ` set tab
                        then map (\<lambda>r. if st_Source r = st_Source tg then merge_toggle new r else r) tab
                        else tab @ [new])))"

definition SourceToggles :: "SourceToggle list \<Rightarrow> SourceToggle list" where
  "SourceToggles tab = sort_key st_Source tab"

end
