(* ===== verification/Matches_Props.thy ===== *)
theory Matches_Props
  imports Store_Matches
begin

text \<open>
  Properties of the metadata tables: the first record of a match wins and is read back unchanged,
  payload versions are parsed exactly, and the candidate report accounts for every match.
\<close>

section \<open>Payload versions\<close>

lemma version_digits_range: "version_digits n s = Inr v \<Longrightarrow> 0 \<le> n \<Longrightarrow> n \<le> 2 ^ 20 \<Longrightarrow> 0 \<le> v \<and> v \<le> 2 ^ 20"
  by (induction n s rule: version_digits.induct) (auto simp: Let_def split: if_splits)

lemma version_digits_val:
  "digits_val n s = Some m \<Longrightarrow> version_digits (int n) s = (if s \<noteq> [] \<and> 2 ^ 20 < int m then Inl VersionOutOfRange else Inr (int m))"
proof (induction s arbitrary: n)
  case (Cons c s)
  let ?k = "10 * n + digit_val c"
  have d: "is_digit c" "digits_val ?k s = Some m"
    using Cons.prems by (auto split: if_splits)
  have grow: "digits_val a t = Some b \<Longrightarrow> a \<le> b" for a b t
    by (induction t arbitrary: a) (force split: if_splits)+
  have k: "int n * 10 + int (digit_val c) = int ?k" by simp
  have "version_digits (int n) (c # s) =
      (if 2 ^ 20 < int ?k then Inl VersionOutOfRange else version_digits (int ?k) s)"
    using d(1) by (simp only: version_digits.simps Let_def k not_not if_False simp_thms)
  with Cons.IH [OF d(2)] grow [OF d(2)] show ?case
    by (cases "s = []") (use d(2) in auto)
qed simp

text \<open>
  \<^verbatim>\<open>payloadVersion\<close> reads back every version the store writes, up to its bound, and refuses
  exactly the larger ones.
\<close>

theorem payload_version_exact:
  "payloadVersion (itoa (int n)) = (if n \<le> 2 ^ 20 then Inr (int n) else Inl VersionOutOfRange)"
  using version_digits_val [OF digits_val_decimal [of n]] decimal_nonempty [of n]
  by (simp add: payloadVersion_def itoa_def)

section \<open>Match rows\<close>

definition matches_inv :: "matches \<Rightarrow> bool" where
  "matches_inv ms =
     (distinct (map m_id ms) \<and>
      (\<forall>r \<in> set ms. m_id r \<noteq> [] \<and> m_uri r \<noteq> [] \<and> status_allowed (m_status r) \<and> 0 \<le> m_payload r \<and> m_payload r \<le> 2 ^ 20))"

lemma find_match_None: "find_match i ms = None \<longleftrightarrow> i \<notin> m_id ` set ms"
  by (auto simp: find_match_def find_None_iff)

lemma find_match_append:
  "find_match i (xs @ ys) = (case find_match i xs of None \<Rightarrow> find_match i ys | Some r \<Rightarrow> Some r)"
  by (induction xs) (simp_all add: find_match_def)

lemma payloadVersion_range: "payloadVersion s = Inr v \<Longrightarrow> 0 \<le> v \<and> v \<le> 2 ^ 20"
  using version_digits_range [of 0 s v]
  by (auto simp: payloadVersion_def defaultPayloadVersion_def split: if_splits)

lemma UpsertMatch_inv [inv_rules]:
  assumes "matches_inv ms"
  shows "matches_inv (snd (UpsertMatch region rec ms))"
proof (cases "payloadVersion (mr_PayloadVersion rec)")
  case (Inr v)
  show ?thesis
    using assms payloadVersion_range [OF Inr]
    by (auto simp: UpsertMatch_def Inr Let_def matches_inv_def find_match_None match_row_of_def)
qed (use assms in \<open>simp add: UpsertMatch_def\<close>)

lemma update_match_inv:
  assumes "matches_inv ms" and "\<And>r. m_id (f r) = m_id r \<and> m_uri (f r) = m_uri r \<and> m_payload (f r) = m_payload r"
    and "\<And>r. status_allowed (m_status (f r))"
  shows "matches_inv (update_match i f ms)"
proof -
  have "map m_id (update_match i f ms) = map m_id ms"
    using assms(2) unfolding update_match_def map_map by (intro map_cong) simp_all
  then show ?thesis
    using assms unfolding matches_inv_def by simp (auto simp: update_match_def)
qed

lemma Mark_inv [inv_rules]:
  "matches_inv ms \<Longrightarrow> matches_inv (MarkMatchParsed i t ms)"
  "matches_inv ms \<Longrightarrow> matches_inv (MarkMatchFailed i c ms)"
  unfolding MarkMatchParsed_def MarkMatchFailed_def
  by (rule update_match_inv; simp add: status_allowed_def)+

text \<open>
  The first record of a match wins. An accepted insert is read back by the provenance query
  with the values it was written with; writing any record for the same match again, by any worker,
  reports "not inserted" and changes nothing.
\<close>

theorem first_match_record_wins:
  assumes "UpsertMatch region rec ms = (Inr inserted, ms')"
  shows "(\<forall>rec'. mr_MatchID rec' = mr_MatchID rec \<longrightarrow> snd (UpsertMatch region rec' ms') = ms') \<and>
    (\<exists>v. payloadVersion (mr_PayloadVersion rec) = Inr v \<and>
      (inserted \<longrightarrow> MatchProvenance (mr_MatchID rec) ms' =
        Inr \<lparr>mr_MatchID = mr_MatchID rec, mr_Region = or_default (mr_Region rec) region, mr_QueueID = mr_QueueID rec,
          mr_Patch = mr_Patch rec, mr_GameVersion = mr_GameVersion rec, mr_GameCreation = mr_GameCreation rec,
          mr_GameDurationS = mr_GameDurationS rec, mr_PayloadVersion = itoa v, mr_RawURI = [],
          mr_Status = None, mr_FetchedAt = mr_FetchedAt rec, mr_ParsedAt = 0, mr_Err = []\<rparr>))"
proof -
  obtain v where v: "payloadVersion (mr_PayloadVersion rec) = Inr v"
    using assms by (auto simp: UpsertMatch_def split: if_splits sum.splits)
  have "ms' = (if find_match (mr_MatchID rec) ms = None then ms @ [match_row_of region v rec] else ms)"
    using assms v by (auto simp: UpsertMatch_def Let_def match_row_of_def split: if_splits)
  then have known: "find_match (mr_MatchID rec) ms' \<noteq> None"
    by (auto simp: find_match_None match_row_of_def)
  have "snd (UpsertMatch region rec' ms') = ms'" if "mr_MatchID rec' = mr_MatchID rec" for rec'
    using known that by (simp add: UpsertMatch_def Let_def match_row_of_def split: sum.split)
  moreover have "MatchProvenance (mr_MatchID rec) ms' =
        Inr \<lparr>mr_MatchID = mr_MatchID rec, mr_Region = or_default (mr_Region rec) region, mr_QueueID = mr_QueueID rec,
          mr_Patch = mr_Patch rec, mr_GameVersion = mr_GameVersion rec, mr_GameCreation = mr_GameCreation rec,
          mr_GameDurationS = mr_GameDurationS rec, mr_PayloadVersion = itoa v, mr_RawURI = [],
          mr_Status = None, mr_FetchedAt = mr_FetchedAt rec, mr_ParsedAt = 0, mr_Err = []\<rparr>"
    if inserted
  proof -
    have new: "find_match (mr_MatchID rec) ms = None" "ms' = ms @ [match_row_of region v rec]"
      using assms v that by (auto simp: UpsertMatch_def Let_def match_row_of_def split: if_splits)
    then have "find_match (mr_MatchID rec) ms' = Some (match_row_of region v rec)"
      by (simp add: find_match_append) (simp add: find_match_def match_row_of_def)
    then show ?thesis
      by (simp add: MatchProvenance_def) (simp add: match_row_of_def nullTime_def)
  qed
  ultimately show ?thesis using v by blast
qed

definition demo_match :: MatchRecord where
  "demo_match = \<lparr>mr_MatchID = ''EUW1_7'', mr_Region = [], mr_QueueID = 420, mr_Patch = ''15.1'',
     mr_GameVersion = ''15.1.649'', mr_GameCreation = 100, mr_GameDurationS = 1800, mr_PayloadVersion = ''2'',
     mr_RawURI = ''raw/x.ndjson.zst'', mr_Status = None, mr_FetchedAt = 200, mr_ParsedAt = 0, mr_Err = []\<rparr>"

theorem first_match_record_wins_witness:
  "snd (UpsertMatch ''EUW'' (demo_match\<lparr>mr_Patch := ''99.9''\<rparr>) (snd (UpsertMatch ''EUW'' demo_match []))) =
     snd (UpsertMatch ''EUW'' demo_match [])"
proof -
  have "UpsertMatch ''EUW'' demo_match [] = (Inr True, snd (UpsertMatch ''EUW'' demo_match []))" by code_simp
  from first_match_record_wins [OF this] show ?thesis by (simp add: demo_match_def)
qed

section \<open>Timeline candidates\<close>

lemma count_rows_split: "count_rows P xs = count_rows (\<lambda>x. P x \<and> Q x) xs + count_rows (\<lambda>x. P x \<and> \<not> Q x) xs"
  by (induction xs) (auto simp: count_rows_def)

lemma count_rows_cong: "(\<And>x. x \<in> set xs \<Longrightarrow> P x = Q x) \<Longrightarrow> count_rows P xs = count_rows Q xs"
  by (simp add: count_rows_def cong: filter_cong)

lemma selectable_filter:
  "selectable region tq q ms = filter (\<lambda>r. \<not> is_short tq r \<and> timeline_job q (m_id r) = None) (filter (eligible region tq) ms)"
  by (auto simp: selectable_def is_short_def intro!: filter_cong)

text \<open>
  The candidate report accounts for every eligible match exactly once - short, queued, done or
  ready - and the selection is drawn from the ready ones: it holds as many as the limit allows,
  each of them eligible, long enough and without a timeline job.
\<close>

theorem timeline_candidates_accounted:
  "let rep = TimelineCandidates md5 region tq q ms in
    tcs_Eligible rep = tcs_ShortExcluded rep + tcs_AlreadyQueued rep + tcs_AlreadyDone rep + tcs_Ready rep \<and>
    int (length (tcs_Matches rep)) = min (int (clampCandidates (tq_Limit tq))) (tcs_Ready rep) \<and>
    set (tcs_Matches rep) \<subseteq>
      candidate_of ` {r \<in> set ms. eligible region tq r \<and> \<not> is_short tq r \<and> timeline_job q (m_id r) = None}"
proof -
  let ?rep = "TimelineCandidates md5 region tq q ms"
  let ?es = "filter (eligible region tq) ms"
  let ?st = "\<lambda>r. map_option j_status (timeline_job q (m_id r))"
  let ?queued = "\<lambda>r. ?st r = Some JobPending \<or> ?st r = Some JobClaimed \<or> ?st r = Some JobRetry"
  let ?done = "\<lambda>r. ?st r = Some JobDone \<or> ?st r = Some JobDead"
  have cases: "?st r = None \<or> ?queued r \<or> ?done r" for r
    by (cases "timeline_job q (m_id r)") (auto intro: JobStatus.exhaust [of "j_status (the (timeline_job q (m_id r)))"])
  have "int (length ?es) = count_rows (\<lambda>r. True) ?es" by (simp add: count_rows_def)
  also have "\<dots> = count_rows (is_short tq) ?es + count_rows (\<lambda>r. \<not> is_short tq r) ?es"
    using count_rows_split [of "\<lambda>r. True" ?es "is_short tq"] by simp
  also have "count_rows (\<lambda>r. \<not> is_short tq r) ?es =
      count_rows (\<lambda>r. \<not> is_short tq r \<and> ?queued r) ?es + count_rows (\<lambda>r. \<not> is_short tq r \<and> \<not> ?queued r) ?es"
    by (rule count_rows_split)
  also have "count_rows (\<lambda>r. \<not> is_short tq r \<and> \<not> ?queued r) ?es =
      count_rows (\<lambda>r. (\<not> is_short tq r \<and> \<not> ?queued r) \<and> ?done r) ?es +
      count_rows (\<lambda>r. (\<not> is_short tq r \<and> \<not> ?queued r) \<and> \<not> ?done r) ?es"
    by (rule count_rows_split)
  also have "count_rows (\<lambda>r. (\<not> is_short tq r \<and> \<not> ?queued r) \<and> ?done r) ?es = count_rows (\<lambda>r. \<not> is_short tq r \<and> ?done r) ?es"
    by (rule count_rows_cong) auto
  also have "count_rows (\<lambda>r. (\<not> is_short tq r \<and> \<not> ?queued r) \<and> \<not> ?done r) ?es = count_rows (\<lambda>r. \<not> is_short tq r \<and> ?st r = None) ?es"
    using cases by (intro count_rows_cong) force
  finally have sum: "tcs_Eligible ?rep = tcs_ShortExcluded ?rep + tcs_AlreadyQueued ?rep +
      tcs_AlreadyDone ?rep + tcs_Ready ?rep"
    by (simp add: TimelineCandidates_def Let_def)
  let ?sel = "selectable region tq q ms"
  let ?sorted = "sort_key (\<lambda>r. md5 (m_id r)) (sort_key m_id ?sel)"
  have picked: "tcs_Matches ?rep = map candidate_of (take (clampCandidates (tq_Limit tq)) ?sorted)"
    by (simp add: TimelineCandidates_def Let_def)
  have "int (length ?sel) = tcs_Ready ?rep"
    by (simp add: TimelineCandidates_def Let_def count_rows_def selectable_filter)
  then have len: "int (length (tcs_Matches ?rep)) = min (int (clampCandidates (tq_Limit tq))) (tcs_Ready ?rep)"
    unfolding picked by simp
  have "set (take (clampCandidates (tq_Limit tq)) ?sorted) \<subseteq> set ?sel"
    using set_take_subset [of "clampCandidates (tq_Limit tq)" ?sorted] by simp
  then have "set (tcs_Matches ?rep) \<subseteq> candidate_of ` set ?sel"
    unfolding picked set_map by blast
  also have "set ?sel = {r \<in> set ms. eligible region tq r \<and> \<not> is_short tq r \<and> timeline_job q (m_id r) = None}"
    by (auto simp: selectable_filter)
  finally show ?thesis using sum len by (simp only: Let_def simp_thms)
qed

text \<open>A smaller limit asks for a prefix of what a larger one would return.\<close>

lemma candidate_samples_nest:
  assumes "clampCandidates n \<le> clampCandidates m"
  shows "tcs_Matches (TimelineCandidates md5 region (tq\<lparr>tq_Limit := n\<rparr>) q ms) =
    take (clampCandidates n) (tcs_Matches (TimelineCandidates md5 region (tq\<lparr>tq_Limit := m\<rparr>) q ms))"
proof -
  have "eligible region (tq\<lparr>tq_Limit := k\<rparr>) = eligible region tq" "is_short (tq\<lparr>tq_Limit := k\<rparr>) = is_short tq" for k
    by (simp_all add: fun_eq_iff eligible_def is_short_def duration_floor_def)
  then have "selectable region (tq\<lparr>tq_Limit := n\<rparr>) q ms = selectable region (tq\<lparr>tq_Limit := m\<rparr>) q ms"
    by (simp only: selectable_filter)
  with assms show ?thesis
    by (auto simp: TimelineCandidates_def Let_def take_map min_def)
qed

section \<open>Audit rows\<close>

text \<open>A build row is closed only with a known status, and never with more cells than it counted.\<close>

lemma FinishBuildRun_totals:
  assumes "FinishBuildRun i res tab = (Inr (), tab')" and "\<forall>r \<in> set (fst tab). br_Published r + br_Suppressed r \<le> br_Total r"
  shows "\<forall>r \<in> set (fst tab'). br_Published r + br_Suppressed r \<le> br_Total r"
  using assms by (auto simp: FinishBuildRun_def split: sum.splits if_splits)

text \<open>Repeating a decision keeps its date; reversing it sets a new one.\<close>

lemma toggle_decision_date:
  "st_DecidedAt (merge_toggle new old) = (if st_Enabled old = st_Enabled new then st_DecidedAt old else st_DecidedAt new)"
  by (simp add: merge_toggle_def)

end
