(* ===== verification/Store_Connect.thy ===== *)
theory Store_Connect
  imports Prelude
begin

text \<open>
  The startup connect (\<^verbatim>\<open>internal/store/connect.go\<close>): the retry policy with its defaults and the
  loop that pings until the database answers. The database is a parameter: what the ping of
  attempt \<open>n\<close>, made at an instant with a timeout, answers and how long it takes. The context is
  the instant it ends, if it ends. The loop carries fuel; the lemmas give how much is enough.
\<close>

section \<open>The policy\<close>

record connect_policy =
  cp_window :: duration
  cp_timeout :: duration
  cp_base :: duration
  cp_max :: duration

definition millisecond :: duration where
  "millisecond = 1000000"

definition defaultConnectWindow :: duration where
  "defaultConnectWindow = seconds 60"

definition defaultConnTimeout :: duration where
  "defaultConnTimeout = seconds 10"

definition connectRetryBase :: duration where
  "connectRetryBase = 500 * millisecond"

definition connectRetryMax :: duration where
  "connectRetryMax = seconds 8"

definition connectPolicyFrom :: "duration \<Rightarrow> duration \<Rightarrow> connect_policy" where
  "connectPolicyFrom window timeout =
     (let base = default_if_nonpos connectRetryBase connectRetryBase
      in \<lparr>cp_window = (if window = 0 then defaultConnectWindow else window),
          cp_timeout = default_if_nonpos timeout defaultConnTimeout,
          cp_base = base,
          cp_max = (if connectRetryMax < base then base else connectRetryMax)\<rparr>)"

section \<open>The loop\<close>

type_synonym 'e ping = "nat \<Rightarrow> gtime \<Rightarrow> duration \<Rightarrow> 'e option \<times> duration"

text \<open>
  What the run returns. Only \<open>Connected\<close> is a nil error: \<open>SingleAttempt\<close> is
  \<^verbatim>\<open>fmt.Errorf("store: connect: %w", err)\<close>, which is an error value whatever \<open>err\<close> is.
\<close>

datatype 'e connect_result =
    Connected nat gtime
  | SingleAttempt "'e option"
  | GaveUp gtime nat 'e
  | Stopped gtime nat 'e

definition connect_nil :: "'e connect_result \<Rightarrow> bool" where
  "connect_nil r = (case r of Connected n t \<Rightarrow> True | _ \<Rightarrow> False)"

definition ended :: "gtime option \<Rightarrow> gtime \<Rightarrow> bool" where
  "ended ctx t = (case ctx of None \<Rightarrow> False | Some e \<Rightarrow> e \<le> t)"

definition pingWithin :: "'e ping \<Rightarrow> nat \<Rightarrow> gtime \<Rightarrow> duration \<Rightarrow> 'e option \<times> duration" where
  "pingWithin ping n t timeout = ping n t (if timeout \<le> 0 then millisecond else timeout)"

fun connect_loop :: "connect_policy \<Rightarrow> gtime option \<Rightarrow> 'e ping \<Rightarrow> gtime \<Rightarrow> nat \<Rightarrow> nat \<Rightarrow> gtime \<Rightarrow> duration
    \<Rightarrow> 'e connect_result option" where
  "connect_loop p ctx ping deadline 0 attempt t wait = None"
| "connect_loop p ctx ping deadline (Suc fuel) attempt t wait =
     (let left = time_sub deadline t;
          (err, took) = pingWithin ping attempt t (if left < cp_timeout p then left else cp_timeout p);
          t1 = t + took
      in case err of
           None \<Rightarrow> Some (Connected attempt t1)
         | Some e \<Rightarrow>
             if ended ctx t1 then Some (Stopped t1 attempt e)
             else if time_sub deadline t1 \<le> 0 then Some (GaveUp t1 attempt e)
             else (let sleep = (if time_sub deadline t1 < wait then time_sub deadline t1 else wait)
                   in if ended ctx (t1 + sleep) then Some (Stopped (max t1 (the ctx)) attempt e)
                      else connect_loop p ctx ping deadline fuel (Suc attempt) (t1 + sleep)
                             (if cp_max p < 2 * wait then cp_max p else 2 * wait)))"

text \<open>Every wait but the last is at least the base, so the window bounds the attempts.\<close>

definition connect_fuel :: "connect_policy \<Rightarrow> nat" where
  "connect_fuel p = 2 + nat (cp_window p div cp_base p)"

definition connect_run :: "connect_policy \<Rightarrow> gtime option \<Rightarrow> 'e ping \<Rightarrow> gtime \<Rightarrow> 'e connect_result option" where
  "connect_run p ctx ping started =
     (if cp_window p < 0 then Some (SingleAttempt (fst (pingWithin ping 1 started (cp_timeout p))))
      else connect_loop p ctx ping (started + cp_window p) (connect_fuel p) 1 started (cp_base p))"

section \<open>Termination and bounds\<close>

definition policy_ok :: "connect_policy \<Rightarrow> bool" where
  "policy_ok p = (0 < cp_base p \<and> cp_base p \<le> cp_max p \<and> 0 < cp_timeout p)"

lemma connectPolicyFrom_ok: "policy_ok (connectPolicyFrom window timeout)"
  by (simp add: policy_ok_def connectPolicyFrom_def Let_def default_if_nonpos_def connectRetryBase_def
      connectRetryMax_def defaultConnTimeout_def millisecond_def duration_defs)

text \<open>A ping that honours its timeout.\<close>

definition honours :: "'e ping \<Rightarrow> bool" where
  "honours ping = (\<forall>n t d. 0 < d \<longrightarrow> 0 \<le> snd (ping n t d) \<and> snd (ping n t d) \<le> d)"

lemma honours_pingWithin:
  assumes "honours ping"
  shows "0 \<le> snd (pingWithin ping n t d) \<and> snd (pingWithin ping n t d) \<le> max d millisecond"
proof (cases "d \<le> 0")
  case True
  have "0 < millisecond" by (simp add: millisecond_def)
  with assms True show ?thesis by (auto simp: honours_def pingWithin_def)
next
  case False
  with assms have "0 \<le> snd (ping n t d) \<and> snd (ping n t d) \<le> d" by (simp add: honours_def)
  with False show ?thesis by (auto simp: pingWithin_def)
qed

fun result_time :: "'e connect_result \<Rightarrow> gtime" where
  "result_time (Connected n t) = t"
| "result_time (GaveUp t n e) = t"
| "result_time (Stopped t n e) = t"
| "result_time (SingleAttempt e) = 0"

definition loop_fuel :: "gtime \<Rightarrow> duration \<Rightarrow> gtime \<Rightarrow> nat" where
  "loop_fuel deadline base t = (if deadline \<le> t then 1 else 2 + nat ((deadline - t) div base))"

lemma loop_fuel_step:
  assumes "0 < base" and "t < deadline" and "t' = deadline \<or> t + base \<le> t'"
  shows "loop_fuel deadline base t' < loop_fuel deadline base t"
proof (cases "deadline \<le> t'")
  case True
  with assms show ?thesis by (simp add: loop_fuel_def)
next
  case False
  then have "deadline - t' + base \<le> deadline - t" using assms(3) by linarith
  then have "(deadline - t' + base) div base \<le> (deadline - t) div base"
    using assms(1) by (rule zdiv_mono1)
  moreover have "(deadline - t' + base) div base = (deadline - t') div base + 1"
    using assms(1) by simp
  moreover have "0 \<le> (deadline - t') div base"
    using False assms(1) by (simp add: pos_imp_zdiv_nonneg_iff)
  ultimately show ?thesis using False assms(2) by (simp add: loop_fuel_def)
qed

lemma connect_loop_ends:
  assumes "policy_ok p" and "honours ping"
  shows "cp_base p \<le> wait \<Longrightarrow> t \<le> deadline \<Longrightarrow> deadline - t \<le> max_duration \<Longrightarrow>
    loop_fuel deadline (cp_base p) t \<le> fuel \<Longrightarrow>
    \<exists>r. connect_loop p ctx ping deadline fuel attempt t wait = Some r \<and> (\<forall>x. r \<noteq> SingleAttempt x) \<and>
      result_time r \<le> deadline + millisecond"
proof (induction fuel arbitrary: attempt t wait)
  case 0
  then show ?case by (simp add: loop_fuel_def split: if_splits)
next
  case (Suc fuel)
  let ?d = "if time_sub deadline t < cp_timeout p then time_sub deadline t else cp_timeout p"
  obtain err took where w: "pingWithin ping attempt t ?d = (err, took)" by fastforce
  have left: "time_sub deadline t = deadline - t"
    using Suc.prems by (intro time_sub_exact) simp_all
  have took: "0 \<le> took" "took \<le> max ?d millisecond"
    using honours_pingWithin [OF assms(2), of attempt t ?d] by (simp_all add: w)
  then have t1: "t + took \<le> deadline + millisecond"
    using Suc.prems left by (auto simp: max_def millisecond_def split: if_splits)
  let ?t1 = "t + took"
  have left1: "time_sub deadline ?t1 = deadline - ?t1" if "?t1 < deadline"
    using that Suc.prems took by (intro time_sub_exact) simp_all
  show ?case
  proof (cases err)
    case None
    then show ?thesis using t1 by (simp add: w)
  next
    case (Some e)
    show ?thesis
    proof (cases "ended ctx ?t1 \<or> deadline \<le> ?t1")
      case True
      then show ?thesis using t1 Some by (auto simp: w Let_def time_sub_nonpos_iff)
    next
      case False
      then have lt: "\<not> ended ctx ?t1" "?t1 < deadline" by auto
      let ?s = "if deadline - ?t1 < wait then deadline - ?t1 else wait"
      have eq: "connect_loop p ctx ping deadline (Suc fuel) attempt t wait =
          (if ended ctx (?t1 + ?s) then Some (Stopped (max ?t1 (the ctx)) attempt e)
           else connect_loop p ctx ping deadline fuel (Suc attempt) (?t1 + ?s)
                  (if cp_max p < 2 * wait then cp_max p else 2 * wait))"
        using lt Some left1 by (simp add: w Let_def time_sub_nonpos_iff)
      have s: "0 \<le> ?s" "?t1 + ?s \<le> deadline" "?t1 + ?s = deadline \<or> t + cp_base p \<le> ?t1 + ?s"
        using lt took Suc.prems assms(1) by (auto simp: policy_ok_def)
      show ?thesis
      proof (cases "ended ctx (?t1 + ?s)")
        case True
        then have "max ?t1 (the ctx) \<le> deadline"
          using s lt by (auto simp: ended_def split: option.splits)
        then show ?thesis unfolding eq if_P [OF True] by (simp add: millisecond_def)
      next
        case no: False
        have "loop_fuel deadline (cp_base p) (?t1 + ?s) < loop_fuel deadline (cp_base p) t"
          using assms(1) lt took s(3) by (intro loop_fuel_step) (auto simp: policy_ok_def)
        then have "loop_fuel deadline (cp_base p) (?t1 + ?s) \<le> fuel" using Suc.prems(4) by linarith
        moreover have "cp_base p \<le> (if cp_max p < 2 * wait then cp_max p else 2 * wait)"
          using assms(1) Suc.prems(1) by (simp add: policy_ok_def)
        moreover have "deadline - (?t1 + ?s) \<le> max_duration" using Suc.prems took s(1) by linarith
        ultimately show ?thesis
          unfolding eq if_not_P [OF no] using s(2) by (intro Suc.IH)
      qed
    qed
  qed
qed

text \<open>
  C35: the startup connect always ends: for every database whose pings honour their timeout, every
  context and every non-negative window, the loop returns within the attempts the window allows,
  and no later than a millisecond after the window.
\<close>

theorem connect_returns_within_window:
  assumes "0 \<le> window" and "window \<le> max_duration" and "honours ping"
  shows "\<exists>r. connect_run (connectPolicyFrom window timeout) ctx ping started = Some r \<and>
    result_time r \<le> started + cp_window (connectPolicyFrom window timeout) + millisecond"
proof -
  let ?p = "connectPolicyFrom window timeout"
  have win: "0 < cp_window ?p" "cp_window ?p \<le> max_duration"
    using assms by (auto simp: connectPolicyFrom_def Let_def defaultConnectWindow_def duration_defs)
  then have "loop_fuel (started + cp_window ?p) (cp_base ?p) started \<le> connect_fuel ?p"
    by (simp add: loop_fuel_def connect_fuel_def)
  from connect_loop_ends [OF connectPolicyFrom_ok assms(3) order_refl _ _ this, of ctx 1] win
  show ?thesis by (auto simp: connect_run_def)
qed

theorem connect_returns_within_window_witness:
  "\<exists>r. connect_run (connectPolicyFrom 0 0) None (\<lambda>n t d. (Some ''refused'', 0)) 7 = Some r \<and>
    result_time r \<le> 7 + cp_window (connectPolicyFrom 0 0) + millisecond"
  by (rule connect_returns_within_window) (simp_all add: honours_def duration_defs)

text \<open>
  A negative window, the documented way to ask for a single attempt, never starts: the error of
  the one ping is wrapped unconditionally, and wrapping nil is still an error, so the connect fails
  even when the database answers.
\<close>

theorem single_attempt_always_fails:
  assumes "window < 0"
  shows "\<exists>x. connect_run (connectPolicyFrom window timeout) ctx ping started = Some (SingleAttempt x) \<and>
    \<not> connect_nil (SingleAttempt x)"
  using assms by (simp add: connect_run_def connectPolicyFrom_def Let_def connect_nil_def)

theorem single_attempt_always_fails_witness:
  "\<exists>x. connect_run (connectPolicyFrom (-1) 0) None (\<lambda>n t d. (None :: string option, 0)) 7 = Some (SingleAttempt x) \<and>
    \<not> connect_nil (SingleAttempt x)"
  by (rule single_attempt_always_fails) simp

end
