(* ===== verification/Store_Migrate.thy ===== *)
theory Store_Migrate
  imports Store_Matches
begin

text \<open>
  The migrations (\<^verbatim>\<open>internal/store/migrate.go\<close>): parsing the embedded files' names, the script one
  migration becomes, and the run. The digest (sha256 in hex) and the database are parameters: the
  database is the list of applied versions, and \<open>runs\<close> says which scripts it executes without
  error; a script is one transaction, so a failed one leaves nothing.
\<close>

section \<open>Files\<close>

record migration_file =
  mf_version :: int
  mf_name :: string
  mf_body :: string
  mf_checksum :: string

datatype migrate_error =
    DSNRequired | BadVersion | NoMigrations | DuplicateVersion int
  | ChecksumMismatch int | ChecksumPanics int | ScriptFailed int

definition is_name_char :: "char \<Rightarrow> bool" where
  "is_name_char c =
     (is_digit c \<or> 65 \<le> (of_char c :: nat) \<and> (of_char c :: nat) \<le> 90 \<or>
      97 \<le> (of_char c :: nat) \<and> (of_char c :: nat) \<le> 122 \<or> c = CHR ''.'' \<or> c = CHR ''_'' \<or> c = CHR ''-'')"

definition strip_suffix :: "string \<Rightarrow> string \<Rightarrow> string option" where
  "strip_suffix suffix s =
     (if length suffix \<le> length s \<and> drop (length s - length suffix) s = suffix
      then Some (take (length s - length suffix) s) else None)"

text \<open>\<^verbatim>\<open>^(\d+)_([A-Za-z0-9._-]+)\.up\.sql$\<close>: the digits cannot give back an underscore.\<close>

definition parse_migration_name :: "string \<Rightarrow> (string \<times> string) option" where
  "parse_migration_name s =
     (let ds = takeWhile is_digit s
      in case dropWhile is_digit s of
           [] \<Rightarrow> None
         | c # rest \<Rightarrow>
             if ds = [] \<or> c \<noteq> CHR ''_'' then None
             else (case strip_suffix ''.up.sql'' rest of
                     None \<Rightarrow> None
                   | Some name \<Rightarrow> if name \<noteq> [] \<and> list_all is_name_char name then Some (ds, name) else None))"

fun load_files :: "(string \<Rightarrow> string) \<Rightarrow> (string \<times> string) list \<Rightarrow> migrate_error + migration_file list" where
  "load_files digest [] = Inr []"
| "load_files digest ((fname, body) # es) =
     (case parse_migration_name fname of
        None \<Rightarrow> load_files digest es
      | Some (ds, name) \<Rightarrow>
          (case atoi ds of
             None \<Rightarrow> Inl BadVersion
           | Some v \<Rightarrow>
               (case load_files digest es of
                  Inl e \<Rightarrow> Inl e
                | Inr fs \<Rightarrow> Inr (\<lparr>mf_version = v, mf_name = name, mf_body = body, mf_checksum = digest body\<rparr> # fs))))"

fun first_duplicate :: "migration_file list \<Rightarrow> int option" where
  "first_duplicate (a # b # ms) =
     (if mf_version b = mf_version a then Some (mf_version b) else first_duplicate (b # ms))"
| "first_duplicate ms = None"

definition loadMigrations :: "(string \<Rightarrow> string) \<Rightarrow> (string \<times> string) list \<Rightarrow> migrate_error + migration_file list" where
  "loadMigrations digest entries =
     (case load_files digest entries of
        Inl e \<Rightarrow> Inl e
      | Inr fs \<Rightarrow>
          (if fs = [] then Inl NoMigrations
           else (let out = sort_key mf_version fs
                 in case first_duplicate out of Some v \<Rightarrow> Inl (DuplicateVersion v) | None \<Rightarrow> Inr out)))"

definition MigrationVersions :: "(string \<Rightarrow> string) \<Rightarrow> (string \<times> string) list \<Rightarrow> migrate_error + int list" where
  "MigrationVersions digest entries =
     (case loadMigrations digest entries of Inl e \<Rightarrow> Inl e | Inr fs \<Rightarrow> Inr (map mf_version fs))"

section \<open>The script of one migration\<close>

definition trim_prefix :: "string \<Rightarrow> string \<Rightarrow> string" where
  "trim_prefix pre s = (if take (length pre) s = pre then drop (length pre) s else s)"

definition trim_suffix :: "string \<Rightarrow> string \<Rightarrow> string" where
  "trim_suffix suf s = (case strip_suffix suf s of None \<Rightarrow> s | Some t \<Rightarrow> t)"

definition quote_sql :: "string \<Rightarrow> string" where
  "quote_sql s = concat (map (\<lambda>c. if c = CHR 0x27 then [CHR 0x27, CHR 0x27] else [c]) s)"

definition newline :: char where
  "newline = CHR 0x0A"

definition migration_body :: "string \<Rightarrow> string" where
  "migration_body body = trim_space (trim_suffix ''COMMIT;'' (trim_prefix ''BEGIN;'' (trim_space body)))"

definition wrapMigration :: "migration_file \<Rightarrow> string" where
  "wrapMigration m =
     ''BEGIN;'' @ [newline] @ migration_body (mf_body m) @ [newline] @
     ''INSERT INTO schema_migrations (version, name, checksum, applied_at) VALUES ('' @ itoa (mf_version m) @
     '', '' @ [CHR 0x27] @ quote_sql (mf_name m) @ [CHR 0x27] @ '', '' @ [CHR 0x27] @ mf_checksum m @
     [CHR 0x27] @ '', now());'' @ [newline] @ ''COMMIT;'' @ [newline]"

section \<open>The run\<close>

type_synonym applied = "(int \<times> string \<times> string) list"

text \<open>The run reads the applied versions once, before it executes anything.\<close>

fun migrate_from :: "(string \<Rightarrow> bool) \<Rightarrow> applied \<Rightarrow> migration_file list \<Rightarrow> applied \<Rightarrow> int list
    \<Rightarrow> (migrate_error + unit) \<times> int list \<times> applied" where
  "migrate_from runs seen [] db touched = (Inr (), touched, db)"
| "migrate_from runs seen (m # ms) db touched =
     (case map_of seen (mf_version m) of
        Some (name, checksum) \<Rightarrow>
          if checksum \<noteq> mf_checksum m
          then (if length checksum < 12 \<or> length (mf_checksum m) < 12
                then (Inl (ChecksumPanics (mf_version m)), touched, db)
                else (Inl (ChecksumMismatch (mf_version m)), touched, db))
          else migrate_from runs seen ms db touched
      | None \<Rightarrow>
          if runs (wrapMigration m)
          then migrate_from runs seen ms (db @ [(mf_version m, mf_name m, mf_checksum m)]) (touched @ [mf_version m])
          else (Inl (ScriptFailed (mf_version m)), touched, db))"

definition MigrateUp :: "(string \<Rightarrow> string) \<Rightarrow> (string \<times> string) list \<Rightarrow> (string \<Rightarrow> bool) \<Rightarrow> string \<Rightarrow> applied
    \<Rightarrow> (migrate_error + unit) \<times> int list \<times> applied" where
  "MigrateUp digest entries runs dsn db =
     (if dsn = [] then (Inl DSNRequired, [], db)
      else (case loadMigrations digest entries of
              Inl e \<Rightarrow> (Inl e, [], db)
            | Inr available \<Rightarrow> migrate_from runs db available db []))"

section \<open>Properties\<close>

lemma migrate_from_db:
  assumes "migrate_from runs seen ms db touched = (r, touched', db')"
  shows "\<exists>new. db' = db @ map (\<lambda>m. (mf_version m, mf_name m, mf_checksum m)) new \<and>
    touched' = touched @ map mf_version new \<and>
    (\<exists>k. new = filter (\<lambda>m. map_of seen (mf_version m) = None) (take k ms) \<and> (r = Inr () \<longrightarrow> k = length ms))"
  using assms
proof (induction ms arbitrary: db touched)
  case Nil
  then show ?case by auto
next
  case (Cons m ms)
  consider (known) c where "map_of seen (mf_version m) = Some c" "migrate_from runs seen ms db touched = (r, touched', db')"
    | (fresh) "map_of seen (mf_version m) = None" "runs (wrapMigration m)"
      "migrate_from runs seen ms (db @ [(mf_version m, mf_name m, mf_checksum m)]) (touched @ [mf_version m]) = (r, touched', db')"
    | (stop) "r \<noteq> Inr ()" "db' = db" "touched' = touched"
    using Cons.prems by (auto split: option.splits if_splits)
  then show ?case
  proof cases
    case known
    from Cons.IH [OF known(2)] obtain new k where
      "db' = db @ map (\<lambda>m. (mf_version m, mf_name m, mf_checksum m)) new" "touched' = touched @ map mf_version new"
      "new = filter (\<lambda>m. map_of seen (mf_version m) = None) (take k ms)" "r = Inr () \<longrightarrow> k = length ms" by blast
    with known(1) show ?thesis
      by (intro exI [of _ new] conjI exI [of _ "Suc k"]) simp_all
  next
    case fresh
    from Cons.IH [OF fresh(3)] obtain new k where
      "db' = (db @ [(mf_version m, mf_name m, mf_checksum m)]) @ map (\<lambda>m. (mf_version m, mf_name m, mf_checksum m)) new"
      "touched' = (touched @ [mf_version m]) @ map mf_version new"
      "new = filter (\<lambda>m. map_of seen (mf_version m) = None) (take k ms)" "r = Inr () \<longrightarrow> k = length ms" by blast
    with fresh(1) show ?thesis
      by (intro exI [of _ "m # new"] conjI exI [of _ "Suc k"]) simp_all
  next
    case stop
    then show ?thesis by (intro exI [of _ "[]"] conjI exI [of _ 0]) simp_all
  qed
qed

lemma migrate_from_settled:
  "\<forall>m \<in> set ms. \<exists>name. map_of seen (mf_version m) = Some (name, mf_checksum m) \<Longrightarrow>
     migrate_from runs seen ms db touched = (Inr (), touched, db)"
proof (induction ms)
  case (Cons m ms)
  then obtain name where "map_of seen (mf_version m) = Some (name, mf_checksum m)" by auto
  with Cons show ?case by simp
qed simp

lemma migrate_from_checked:
  "migrate_from runs seen ms db touched = (Inr (), t, db') \<Longrightarrow> m \<in> set ms \<Longrightarrow>
     map_of seen (mf_version m) = Some (name, c) \<Longrightarrow> c = mf_checksum m"
  by (induction ms arbitrary: db touched) (auto split: option.splits if_splits)

lemma first_duplicate_None: "sorted (map mf_version ms) \<Longrightarrow> first_duplicate ms = None \<Longrightarrow> distinct (map mf_version ms)"
  by (induction ms rule: first_duplicate.induct) (auto split: if_splits)

lemma loadMigrations_sorted:
  assumes "loadMigrations digest entries = Inr ms"
  shows "sorted (map mf_version ms) \<and> distinct (map mf_version ms)"
  using assms first_duplicate_None
  by (auto simp: loadMigrations_def Let_def split: sum.splits if_splits option.splits)

lemma map_of_new:
  assumes "distinct (map mf_version ms)" and "m \<in> set ms"
  shows "map_of (map (\<lambda>m. (mf_version m, mf_name m, mf_checksum m)) ms) (mf_version m) = Some (mf_name m, mf_checksum m)"
  using assms by (auto simp: comp_def intro!: map_of_is_SomeI)

text \<open>
  A completed migration run is final: it applied, in ascending order, exactly the versions the
  database did not have, left what was applied in place, and a second run of the same binary
  executes nothing.
\<close>

theorem migrate_is_idempotent:
  assumes "MigrateUp digest entries runs dsn db = (Inr (), touched, db')"
  shows "sorted touched \<and> distinct touched \<and> (\<exists>new. db' = db @ new \<and> map fst new = touched) \<and>
    set touched \<inter> fst ` set db = {} \<and>
    MigrateUp digest entries runs' dsn db' = (Inr (), [], db')"
proof -
  obtain ms where load: "loadMigrations digest entries = Inr ms" and dsn: "dsn \<noteq> []"
    and run: "migrate_from runs db ms db [] = (Inr (), touched, db')"
    using assms by (auto simp: MigrateUp_def split: if_splits sum.splits)
  let ?row = "\<lambda>m. (mf_version m, mf_name m, mf_checksum m)"
  let ?new = "filter (\<lambda>m. map_of db (mf_version m) = None) ms"
  have sd: "sorted (map mf_version ms)" "distinct (map mf_version ms)"
    using loadMigrations_sorted [OF load] by blast+
  have db': "db' = db @ map ?row ?new" and touched: "touched = map mf_version ?new"
    using migrate_from_db [OF run] by auto
  have "\<exists>name. map_of db' (mf_version m) = Some (name, mf_checksum m)" if "m \<in> set ms" for m
  proof (cases "map_of db (mf_version m)")
    case None
    have "distinct (map mf_version ?new)" using sd(2) by (rule distinct_map_filter)
    with None that map_of_new [of ?new m] show ?thesis
      by (auto simp: db' map_add_def)
  next
    case (Some c)
    then show ?thesis
      using migrate_from_checked [OF run that] by (cases c) (auto simp: db' map_add_def split: option.splits dest: map_of_SomeD)
  qed
  then have "migrate_from runs' db' ms db' [] = (Inr (), [], db')"
    by (intro migrate_from_settled) blast
  then have again: "MigrateUp digest entries runs' dsn db' = (Inr (), [], db')"
    using load dsn by (simp add: MigrateUp_def)
  have "sorted touched" "distinct touched"
    unfolding touched using sd by (simp_all add: sorted_filter distinct_map_filter)
  moreover have "set touched \<inter> fst ` set db = {}"
    unfolding touched by (auto simp: map_of_eq_None_iff)
  moreover have "map fst (map ?row ?new) = touched" unfolding touched by simp
  ultimately show ?thesis using again db' by blast
qed

definition demo_files :: "(string \<times> string) list" where
  "demo_files = [(''0002_ingest.up.sql'', ''B''), (''0001_init.up.sql'', ''A''), (''0001_init.down.sql'', ''C'')]"

definition demo_digest :: "string \<Rightarrow> string" where
  "demo_digest s = ''000000000000'' @ s"

theorem migrate_is_idempotent_witness:
  "MigrateUp demo_digest demo_files (\<lambda>s. True) ''dsn''
     [(1, ''init'', ''000000000000A''), (2, ''ingest'', ''000000000000B'')] =
   (Inr (), [], [(1, ''init'', ''000000000000A''), (2, ''ingest'', ''000000000000B'')])"
proof -
  have "MigrateUp demo_digest demo_files (\<lambda>s. True) ''dsn'' [] =
      (Inr (), [1, 2], [(1, ''init'', ''000000000000A''), (2, ''ingest'', ''000000000000B'')])"
    by code_simp
  from migrate_is_idempotent [OF this] show ?thesis by blast
qed

text \<open>
  The documentation promises that every applied checksum is verified before anything runs. The
  loop verifies as it goes: a new migration that sorts before a changed one is executed first.
\<close>

lemma checksum_verified_too_late:
  "MigrateUp demo_digest demo_files (\<lambda>s. True) ''dsn'' [(2, ''ingest'', ''000000000000X'')] =
     (Inl (ChecksumMismatch 2), [1], [(2, ''ingest'', ''000000000000X''), (1, ''init'', ''000000000000A'')])"
  by code_simp

text \<open>
  Only a BEGIN at the very start of the file is removed. A file that opens with a comment, as all
  the embedded ones do, keeps its own BEGIN inside the wrapper's.
\<close>

lemma leading_comment_keeps_begin:
  "migration_body (''-- x'' @ [newline] @ ''BEGIN;'' @ [newline] @ ''DROP TABLE t;'' @ [newline] @ ''COMMIT;'') =
     ''-- x'' @ [newline] @ ''BEGIN;'' @ [newline] @ ''DROP TABLE t;''"
  by code_simp

lemma bare_begin_is_stripped:
  "migration_body (''BEGIN;'' @ [newline] @ ''DROP TABLE t;'' @ [newline] @ ''COMMIT;'' @ [newline]) = ''DROP TABLE t;''"
  by code_simp

end
