(* ===== verification/Raw_Layout.thy ===== *)
theory Raw_Layout
  imports Contract
begin

text \<open>
  The archive's layout and rows (\<^verbatim>\<open>internal/raw/raw.go\<close> and the row mappings of
  \<^verbatim>\<open>internal/raw/writer.go\<close>), with the payload types the rows are made from
  (\<^verbatim>\<open>internal/riot/dto.go\<close>, \<^verbatim>\<open>payload.go\<close>, \<^verbatim>\<open>timeline.go\<close>: the fields the crawl reads). JSON
  encoding and sha256 are parameters. The archive root is a clean path, so joining is concatenation
  with a slash.
\<close>

section \<open>Dates\<close>

definition nanos_per_day :: int where
  "nanos_per_day = 86400 * nanos_per_second"

fun month_of_day :: "int list \<Rightarrow> int \<Rightarrow> int \<Rightarrow> int \<times> int" where
  "month_of_day [] m d = (m, d + 1)"
| "month_of_day (len # lens) m d = (if d < len then (m, d + 1) else month_of_day lens (m + 1) (d - len))"

definition leap_year :: "int \<Rightarrow> bool" where
  "leap_year y = (y mod 4 = 0 \<and> (y mod 100 \<noteq> 0 \<or> y mod 400 = 0))"

text \<open>The civil date of a day number, day 0 being 0001-01-01.\<close>

definition civil_date :: "int \<Rightarrow> int \<times> int \<times> int" where
  "civil_date n =
     (let n400 = n div 146097; r400 = n mod 146097;
          n100 = min 3 (r400 div 36524); r100 = r400 - n100 * 36524;
          n4 = r100 div 1461; r4 = r100 mod 1461;
          n1 = min 3 (r4 div 365);
          y = 400 * n400 + 100 * n100 + 4 * n4 + n1 + 1;
          feb = (if leap_year y then 29 else 28);
          (m, d) = month_of_day [31, feb, 31, 30, 31, 30, 31, 31, 30, 31, 30] 1 (r4 - n1 * 365)
      in (y, m, d))"

definition pad :: "nat \<Rightarrow> int \<Rightarrow> string" where
  "pad w n = (let s = decimal (nat n) in replicate (w - length s) (CHR ''0'') @ s)"

text \<open>The same digits computed on integers, for evaluation.\<close>

fun decimal_int :: "int \<Rightarrow> string" where
  "decimal_int n =
     (if n < 10 then [digit_char (nat n)] else decimal_int (n div 10) @ [digit_char (nat (n mod 10))])"

declare decimal_int.simps [simp del]

lemma decimal_int_nat: "decimal (nat n) = decimal_int n"
proof (induction n rule: decimal_int.induct)
  case (1 n)
  show ?case
  proof (cases "n < 10")
    case True
    then have "nat n < 10" by simp
    with True show ?thesis by (subst decimal.simps, subst decimal_int.simps) simp
  next
    case False
    then have "\<not> nat n < 10" "nat n div 10 = nat (n div 10)" "nat n mod 10 = nat (n mod 10)"
      by (simp_all add: nat_div_distrib nat_mod_distrib)
    then show ?thesis
      using False "1.IH" by (subst decimal.simps, subst decimal_int.simps) simp
  qed
qed

lemma pad_code [code]: "pad w n = (let s = decimal_int n in replicate (w - length s) (CHR ''0'') @ s)"
  by (simp add: pad_def decimal_int_nat)

text \<open>\<^verbatim>\<open>t.UTC().Format(time.DateOnly)\<close>.\<close>

definition date_only :: "gtime \<Rightarrow> string" where
  "date_only t =
     (let (y, m, d) = civil_date (t div nanos_per_day)
      in pad 4 y @ ''-'' @ pad 2 m @ ''-'' @ pad 2 d)"

definition unix_epoch :: gtime where
  "unix_epoch = seconds 62135596800"

definition unix_milli :: "gtime \<Rightarrow> int" where
  "unix_milli t = (t - unix_epoch) div 1000000"

definition from_unix_milli :: "int \<Rightarrow> gtime" where
  "from_unix_milli ms = unix_epoch + ms * 1000000"

lemma unix_milli_inverse [simp]: "unix_milli (from_unix_milli ms) = ms"
  by (simp add: unix_milli_def from_unix_milli_def)

section \<open>Partition directories\<close>

definition upper_char :: "char \<Rightarrow> char" where
  "upper_char c = (if 97 \<le> (of_char c :: nat) \<and> (of_char c :: nat) \<le> 122 then char_of ((of_char c :: nat) - 32) else c)"

definition to_upper :: "string \<Rightarrow> string" where
  "to_upper s = map upper_char s"

definition lower_char :: "char \<Rightarrow> char" where
  "lower_char c = (if 65 \<le> (of_char c :: nat) \<and> (of_char c :: nat) \<le> 90 then char_of ((of_char c :: nat) + 32) else c)"

definition join :: "string \<Rightarrow> string \<Rightarrow> string" where
  "join a b = a @ ''/'' @ b"

definition archiveRoot :: "string \<Rightarrow> string \<Rightarrow> string" where
  "archiveRoot arch api = join (join arch ''riot'') api"

definition MatchDir :: "string \<Rightarrow> string \<Rightarrow> string" where
  "MatchDir arch date = join (archiveRoot arch ''match-v5'') (''dt='' @ date)"

definition TimelineDir :: "string \<Rightarrow> string \<Rightarrow> string" where
  "TimelineDir arch date = join (archiveRoot arch ''match-v5-timeline'') (''dt='' @ date)"

definition LeagueDir :: "string \<Rightarrow> string \<Rightarrow> string \<Rightarrow> string" where
  "LeagueDir arch date region = join (join (archiveRoot arch ''league-v4'') (''dt='' @ date)) (''region='' @ to_upper region)"

definition AccountDir :: "string \<Rightarrow> string \<Rightarrow> string" where
  "AccountDir arch date = join (archiveRoot arch ''account-v1'') (''dt='' @ date)"

definition StaticDir :: "string \<Rightarrow> string \<Rightarrow> string \<Rightarrow> string" where
  "StaticDir arch date kind = join (join (archiveRoot arch ''ddragon'') (''dt='' @ date)) (''kind='' @ kind)"

definition PartitionDate :: "MatchMeta \<Rightarrow> string" where
  "PartitionDate meta = date_only (mm_FetchedAt meta)"

definition MatchPartitionURI :: "string \<Rightarrow> MatchMeta \<Rightarrow> string" where
  "MatchPartitionURI arch meta = MatchDir arch (PartitionDate meta)"

section \<open>Payloads\<close>

record MatchDTO =
  d_MatchID :: string
  d_Participants :: "string list"
  d_GameCreation :: int
  d_GameDuration :: int
  d_GameVersion :: string
  d_QueueID :: int
  d_PUUIDs :: "string list"
  d_raw :: string

record TimelineDTO =
  td_MatchID :: string
  td_raw :: string

text \<open>The retained body, or a re-encoding; \<open>encode\<close> is None when encoding fails.\<close>

definition RawPayload :: "(MatchDTO \<Rightarrow> string option) \<Rightarrow> MatchDTO \<Rightarrow> string" where
  "RawPayload encode m =
     (if d_raw m \<noteq> [] then d_raw m else (case encode m of None \<Rightarrow> [] | Some s \<Rightarrow> s))"

definition TimelineRawPayload :: "(TimelineDTO \<Rightarrow> string option) \<Rightarrow> TimelineDTO \<Rightarrow> string" where
  "TimelineRawPayload encode t =
     (if td_raw t \<noteq> [] then td_raw t else (case encode t of None \<Rightarrow> [] | Some s \<Rightarrow> s))"

section \<open>Rows\<close>

record payload_row =
  r_MatchID :: string
  r_Region :: string
  r_QueueID :: int
  r_Patch :: string
  r_GameVersion :: string
  r_GameCreationMS :: int
  r_GameDurationS :: int
  r_PayloadVersion :: string
  r_FetchedAt :: gtime
  r_Payload :: string
  r_SHA :: string

record league_row =
  l_Region :: string
  l_QueueType :: string
  l_Tier :: string
  l_Division :: string
  l_Entries :: int
  l_FetchedAt :: gtime
  l_Payload :: string
  l_SHA :: string

record static_row =
  s_Kind :: string
  s_Version :: string
  s_Locale :: string
  s_FetchedAt :: gtime
  s_Payload :: string
  s_SHA :: string

record account_row =
  a_PUUID :: string
  a_GameName :: string
  a_TagLine :: string
  a_FetchedAt :: gtime
  a_Payload :: string
  a_SHA :: string

datatype archive_row =
    RowMatch payload_row
  | RowTimeline payload_row
  | RowLeague league_row
  | RowStatic static_row
  | RowAccount account_row

definition narrowInt32 :: "int \<Rightarrow> int" where
  "narrowInt32 v = (if 2147483647 < v then 2147483647 else if v < -2147483648 then -2147483648 else v)"

definition matchRow :: "(string \<Rightarrow> string) \<Rightarrow> (MatchDTO \<Rightarrow> string option) \<Rightarrow> MatchDTO \<Rightarrow> MatchMeta \<Rightarrow> payload_row" where
  "matchRow sha encode m meta =
     (let payload = RawPayload encode m
      in \<lparr>r_MatchID = (if mm_MatchID meta = [] then d_MatchID m else mm_MatchID meta),
          r_Region = to_upper (mm_Region meta),
          r_QueueID = narrowInt32 (if mm_QueueID meta = 0 then d_QueueID m else mm_QueueID meta),
          r_Patch = mm_Patch meta,
          r_GameVersion = (if mm_GameVersion meta = [] then d_GameVersion m else mm_GameVersion meta),
          r_GameCreationMS = unix_milli (if mm_GameCreation meta = 0 then from_unix_milli (d_GameCreation m)
                                         else mm_GameCreation meta),
          r_GameDurationS = narrowInt32 (if mm_GameDurationS meta = 0 then d_GameDuration m else mm_GameDurationS meta),
          r_PayloadVersion = (if mm_PayloadVersion meta = [] then ''1'' else mm_PayloadVersion meta),
          r_FetchedAt = mm_FetchedAt meta, r_Payload = payload, r_SHA = sha payload\<rparr>)"

definition timelineRow :: "(string \<Rightarrow> string) \<Rightarrow> (TimelineDTO \<Rightarrow> string option) \<Rightarrow> TimelineDTO \<Rightarrow> MatchMeta \<Rightarrow> payload_row" where
  "timelineRow sha encode t meta =
     (let payload = TimelineRawPayload encode t
      in \<lparr>r_MatchID = (if mm_MatchID meta = [] then td_MatchID t else mm_MatchID meta),
          r_Region = to_upper (mm_Region meta),
          r_QueueID = narrowInt32 (mm_QueueID meta),
          r_Patch = mm_Patch meta,
          r_GameVersion = mm_GameVersion meta,
          r_GameCreationMS = unix_milli (mm_GameCreation meta),
          r_GameDurationS = narrowInt32 (mm_GameDurationS meta),
          r_PayloadVersion = (if mm_PayloadVersion meta = [] then ''1'' else mm_PayloadVersion meta),
          r_FetchedAt = mm_FetchedAt meta, r_Payload = payload, r_SHA = sha payload\<rparr>)"

lemma narrowInt32_range: "-2147483648 \<le> narrowInt32 v \<and> narrowInt32 v \<le> 2147483647"
  by (simp add: narrowInt32_def)

lemma narrowInt32_exact: "-2147483648 \<le> v \<Longrightarrow> v \<le> 2147483647 \<Longrightarrow> narrowInt32 v = v"
  by (simp add: narrowInt32_def)

lemma date_examples:
  "date_only unix_epoch = ''1970-01-01''" "date_only (seconds (62135596800 + 951782400)) = ''2000-02-29''"
  "date_only (seconds (62135596800 + 1735689599)) = ''2024-12-31''" "date_only (seconds (62135596800 + 1735689600)) = ''2025-01-01''"
  by code_simp+

end
