(* ===== verification/Raw_Writer.thy ===== *)
theory Raw_Writer
  imports Raw_Layout "HOL-Library.List_Lexorder" "HOL-Library.Char_ord" "HOL-Library.AList"
begin

text \<open>
  The archive writer (\<^verbatim>\<open>internal/raw/writer.go\<close>) and the partition reader
  (\<^verbatim>\<open>internal/raw/read.go\<close>). The file system is a map from directories to their entries; a file is
  a published part with its rows, a temporary part with its modification time, or a subdirectory.
  The outcomes of the file operations are the fields of an \<open>io\<close> record, so every failure the code
  handles is a branch. A row handed to the Parquet encoder is in memory until the part is
  finalized; an encoder write that fails has not taken its row. One process writes the archive.
\<close>

section \<open>Files\<close>

datatype 'a afile = Published "'a list" | TempFile gtime | SubDir

type_synonym 'a dir = "(string \<times> 'a afile) list"
type_synonym 'a fs = "string \<Rightarrow> 'a dir option"

definition partPrefix :: string where
  "partPrefix = ''part-''"

definition partSuffix :: string where
  "partSuffix = ''.parquet.zst''"

definition partTmp :: string where
  "partTmp = ''.tmp''"

definition partTmpStaleAfter :: duration where
  "partTmpStaleAfter = hours 1"

definition maxPartIndexSkips :: nat where
  "maxPartIndexSkips = 64"

definition has_prefix :: "string \<Rightarrow> string \<Rightarrow> bool" where
  "has_prefix p s = (take (length p) s = p)"

definition has_suffix :: "string \<Rightarrow> string \<Rightarrow> bool" where
  "has_suffix p s = (length p \<le> length s \<and> drop (length s - length p) s = p)"

definition part_name :: "int \<Rightarrow> string" where
  "part_name index = partPrefix @ pad 5 index @ partSuffix"

definition set_file :: "string \<Rightarrow> 'a afile \<Rightarrow> 'a dir \<Rightarrow> 'a dir" where
  "set_file name f d = AList.update name f d"

definition remove_file :: "string \<Rightarrow> 'a dir \<Rightarrow> 'a dir" where
  "remove_file name d = filter (\<lambda>(n, f). n \<noteq> name) d"

section \<open>Scanning a partition\<close>

fun part_index :: "string \<times> 'a afile \<Rightarrow> int option" where
  "part_index (name, f) =
     (if f = SubDir \<or> \<not> has_prefix partPrefix name then None
      else if has_suffix partSuffix name
      then atoi (take (length name - length partPrefix - length partSuffix) (drop (length partPrefix) name))
      else None)"

fun is_stale :: "gtime \<Rightarrow> string \<times> 'a afile \<Rightarrow> bool" where
  "is_stale cutoff (name, TempFile t) =
     (has_prefix partPrefix name \<and> \<not> has_suffix partSuffix name \<and> has_suffix (partSuffix @ partTmp) name \<and> t < cutoff)"
| "is_stale cutoff e = False"

definition highest_index :: "'a dir \<Rightarrow> int" where
  "highest_index d = foldl (\<lambda>h e. case part_index e of Some n \<Rightarrow> if n \<le> h then h else n | None \<Rightarrow> h) 0 d"

definition scanPartDir :: "'a dir \<Rightarrow> gtime \<Rightarrow> int \<times> string list" where
  "scanPartDir d now =
     (highest_index d + 1, map fst (filter (is_stale (now - partTmpStaleAfter)) d))"

section \<open>One open part\<close>

record 'a part_writer =
  pw_dir :: string
  pw_enc :: "'a list option"
  pw_index :: int
  pw_rows :: int

datatype raw_error =
    RawCtx | NoFetchTime | NoKind | RawClosed | EncodeFailed | RootRequired | NegativeRows | NegativeLevel
  | MkdirFailed | ListFailed | CreateFailed | IndicesTaken | WriteFailed | FinaliseFailed | PublishFailed
  | RawJoined "raw_error list"

record io =
  io_mkdir :: bool
  io_list :: bool
  io_create :: bool
  io_write :: bool
  io_close :: bool
  io_sync :: bool
  io_fclose :: bool
  io_rename :: bool

definition io_ok :: io where
  "io_ok = \<lparr>io_mkdir = True, io_list = True, io_create = True, io_write = True, io_close = True,
     io_sync = True, io_fclose = True, io_rename = True\<rparr>"

definition newPartWriter :: "string \<Rightarrow> 'a part_writer" where
  "newPartWriter dir = \<lparr>pw_dir = dir, pw_enc = None, pw_index = 0, pw_rows = 0\<rparr>"

definition tmp_name :: "int \<Rightarrow> string" where
  "tmp_name index = part_name index @ partTmp"

definition dir_of :: "'a fs \<Rightarrow> string \<Rightarrow> 'a dir" where
  "dir_of fs dir = (case fs dir of None \<Rightarrow> [] | Some d \<Rightarrow> d)"

fun create_part :: "io \<Rightarrow> gtime \<Rightarrow> nat \<Rightarrow> int \<Rightarrow> 'a part_writer \<Rightarrow> 'a fs
    \<Rightarrow> raw_error option \<times> 'a part_writer \<times> 'a fs" where
  "create_part io now 0 index p fs = (Some IndicesTaken, p, fs)"
| "create_part io now (Suc n) index p fs =
     (let d = dir_of fs (pw_dir p); p' = p\<lparr>pw_index := index\<rparr>
      in if map_of d (tmp_name index) \<noteq> None then create_part io now n (index + 1) p' fs
         else if \<not> io_create io then (Some CreateFailed, p', fs)
         else (None, p'\<lparr>pw_enc := Some []\<rparr>, fs(pw_dir p \<mapsto> set_file (tmp_name index) (TempFile now) d)))"

definition reap :: "string \<Rightarrow> string list \<Rightarrow> 'a fs \<Rightarrow> 'a fs" where
  "reap dir stale fs = fs(dir \<mapsto> fold remove_file stale (dir_of fs dir))"

definition open_part :: "io \<Rightarrow> gtime \<Rightarrow> 'a part_writer \<Rightarrow> 'a fs \<Rightarrow> raw_error option \<times> 'a part_writer \<times> 'a fs" where
  "open_part io now p fs =
     (if \<not> io_mkdir io then (Some MkdirFailed, p, fs)
      else (let fs1 = fs(pw_dir p \<mapsto> dir_of fs (pw_dir p))
            in if \<not> io_list io then (Some ListFailed, p, fs1)
               else (let (index, stale) = scanPartDir (dir_of fs1 (pw_dir p)) now
                     in create_part io now maxPartIndexSkips index p (reap (pw_dir p) stale fs1))))"

text \<open>On any failure the temporary file is removed, and the rows it buffered are gone.\<close>

definition finalize_part :: "io \<Rightarrow> 'a part_writer \<Rightarrow> 'a fs \<Rightarrow> raw_error option \<times> 'a part_writer \<times> 'a fs" where
  "finalize_part io p fs =
     (case pw_enc p of
        None \<Rightarrow> (None, p, fs)
      | Some buf \<Rightarrow>
          (let p' = p\<lparr>pw_enc := None\<rparr>;
               d = remove_file (tmp_name (pw_index p)) (dir_of fs (pw_dir p))
           in if \<not> (io_close io \<and> io_sync io \<and> io_fclose io)
              then (Some FinaliseFailed, p', fs(pw_dir p \<mapsto> d))
              else if \<not> io_rename io then (Some PublishFailed, p', fs(pw_dir p \<mapsto> d))
              else (None, p'\<lparr>pw_rows := 0\<rparr>, fs(pw_dir p \<mapsto> set_file (part_name (pw_index p)) (Published buf) d))))"

definition append_row :: "int \<Rightarrow> io \<Rightarrow> gtime \<Rightarrow> 'a \<Rightarrow> 'a part_writer \<Rightarrow> 'a fs
    \<Rightarrow> raw_error option \<times> 'a part_writer \<times> 'a fs" where
  "append_row rowsPerPart io now row p fs =
     (let (err, p1, fs1) = (if pw_enc p = None then open_part io now p fs else (None, p, fs))
      in case err of
           Some e \<Rightarrow> (Some e, p1, fs1)
         | None \<Rightarrow>
             if \<not> io_write io then (Some WriteFailed, p1, fs1)
             else (let p2 = p1\<lparr>pw_enc := map_option (\<lambda>b. b @ [row]) (pw_enc p1), pw_rows := pw_rows p1 + 1\<rparr>
                   in if 0 < rowsPerPart \<and> rowsPerPart \<le> pw_rows p2 then finalize_part io p2 fs1
                      else (None, p2, fs1)))"

section \<open>The writer\<close>

record writer =
  wr_root :: string
  wr_rowsPerPart :: int
  wr_match :: "(string \<times> archive_row part_writer) list"
  wr_timeline :: "(string \<times> archive_row part_writer) list"
  wr_league :: "(string \<times> archive_row part_writer) list"
  wr_static :: "(string \<times> archive_row part_writer) list"
  wr_account :: "(string \<times> archive_row part_writer) list"
  wr_closed :: bool

definition DefaultRowsPerPart :: int where
  "DefaultRowsPerPart = 20000"

definition NewWriter :: "string \<Rightarrow> int \<Rightarrow> int \<Rightarrow> raw_error + writer" where
  "NewWriter arch rows level =
     (let rows' = (if rows = 0 then DefaultRowsPerPart else rows)
      in if trim_space arch = [] then Inl RootRequired
         else if rows' < 0 then Inl NegativeRows
         else if level < 0 then Inl NegativeLevel
         else Inr \<lparr>wr_root = arch, wr_rowsPerPart = rows', wr_match = [], wr_timeline = [], wr_league = [],
                    wr_static = [], wr_account = [], wr_closed = False\<rparr>)"

text \<open>The part of a directory, created closed at its first use.\<close>

definition part_for :: "string \<Rightarrow> (string \<times> 'a part_writer) list \<Rightarrow> 'a part_writer" where
  "part_for dir parts = (case map_of parts dir of None \<Rightarrow> newPartWriter dir | Some p \<Rightarrow> p)"

definition append_to :: "int \<Rightarrow> io \<Rightarrow> gtime \<Rightarrow> string \<Rightarrow> 'a \<Rightarrow> (string \<times> 'a part_writer) list \<Rightarrow> 'a fs
    \<Rightarrow> raw_error option \<times> (string \<times> 'a part_writer) list \<times> 'a fs" where
  "append_to rowsPerPart io now dir row parts fs =
     (let (err, p, fs') = append_row rowsPerPart io now row (part_for dir parts) fs
      in (err, AList.update dir p parts, fs'))"

type_synonym archive = "writer \<times> archive_row fs"

definition WriteMatch :: "(string \<Rightarrow> string) \<Rightarrow> (MatchDTO \<Rightarrow> string option) \<Rightarrow> io \<Rightarrow> gtime \<Rightarrow> bool
    \<Rightarrow> MatchDTO \<Rightarrow> MatchMeta \<Rightarrow> archive \<Rightarrow> raw_error option \<times> archive" where
  "WriteMatch sha encode io now cancelled dto meta ar =
     (let (w, fs) = ar
      in if cancelled then (Some RawCtx, ar)
         else if mm_FetchedAt meta = 0 then (Some NoFetchTime, ar)
         else if wr_closed w then (Some RawClosed, ar)
         else (let (err, parts, fs') = append_to (wr_rowsPerPart w) io now (MatchDir (wr_root w) (PartitionDate meta))
                     (RowMatch (matchRow sha encode dto meta)) (wr_match w) fs
               in (err, w\<lparr>wr_match := parts\<rparr>, fs')))"

definition WriteTimeline :: "(string \<Rightarrow> string) \<Rightarrow> (TimelineDTO \<Rightarrow> string option) \<Rightarrow> io \<Rightarrow> gtime \<Rightarrow> bool
    \<Rightarrow> TimelineDTO \<Rightarrow> MatchMeta \<Rightarrow> archive \<Rightarrow> raw_error option \<times> archive" where
  "WriteTimeline sha encode io now cancelled dto meta ar =
     (let (w, fs) = ar
      in if cancelled then (Some RawCtx, ar)
         else if mm_FetchedAt meta = 0 then (Some NoFetchTime, ar)
         else if wr_closed w then (Some RawClosed, ar)
         else (let (err, parts, fs') = append_to (wr_rowsPerPart w) io now (TimelineDir (wr_root w) (PartitionDate meta))
                     (RowTimeline (timelineRow sha encode dto meta)) (wr_timeline w) fs
               in (err, w\<lparr>wr_timeline := parts\<rparr>, fs')))"

record LeagueMeta =
  lm_Region :: string
  lm_QueueType :: string
  lm_Tier :: string
  lm_Division :: string
  lm_FetchedAt :: gtime

text \<open>\<open>payload\<close> is the page's JSON array, or None when an entry cannot be encoded.\<close>

definition WriteLeagueEntries :: "(string \<Rightarrow> string) \<Rightarrow> io \<Rightarrow> gtime \<Rightarrow> bool \<Rightarrow> nat \<Rightarrow> string option
    \<Rightarrow> LeagueMeta \<Rightarrow> archive \<Rightarrow> raw_error option \<times> archive" where
  "WriteLeagueEntries sha io now cancelled entries payload meta ar =
     (let (w, fs) = ar
      in if cancelled then (Some RawCtx, ar)
         else if lm_FetchedAt meta = 0 then (Some NoFetchTime, ar)
         else (case payload of
                 None \<Rightarrow> (Some EncodeFailed, ar)
               | Some body \<Rightarrow>
                   if wr_closed w then (Some RawClosed, ar)
                   else (let row = \<lparr>l_Region = to_upper (lm_Region meta), l_QueueType = lm_QueueType meta,
                               l_Tier = lm_Tier meta, l_Division = lm_Division meta, l_Entries = narrowInt32 (int entries),
                               l_FetchedAt = lm_FetchedAt meta, l_Payload = body, l_SHA = sha body\<rparr>;
                             (err, parts, fs') = append_to (wr_rowsPerPart w) io now
                               (LeagueDir (wr_root w) (date_only (lm_FetchedAt meta)) (lm_Region meta))
                               (RowLeague row) (wr_league w) fs
                         in (err, w\<lparr>wr_league := parts\<rparr>, fs'))))"

definition WriteStatic :: "(string \<Rightarrow> string) \<Rightarrow> io \<Rightarrow> gtime \<Rightarrow> bool \<Rightarrow> string \<Rightarrow> string \<Rightarrow> string \<Rightarrow> string \<Rightarrow> gtime
    \<Rightarrow> archive \<Rightarrow> raw_error option \<times> archive" where
  "WriteStatic sha io now cancelled kind version locale payload t ar =
     (let (w, fs) = ar
      in if cancelled then (Some RawCtx, ar)
         else if kind = [] then (Some NoKind, ar)
         else if t = 0 then (Some NoFetchTime, ar)
         else if wr_closed w then (Some RawClosed, ar)
         else (let row = \<lparr>s_Kind = kind, s_Version = version, s_Locale = locale, s_FetchedAt = t,
                    s_Payload = payload, s_SHA = sha payload\<rparr>;
                   (err, parts, fs') = append_to (wr_rowsPerPart w) io now (StaticDir (wr_root w) (date_only t) kind)
                     (RowStatic row) (wr_static w) fs
               in (err, w\<lparr>wr_static := parts\<rparr>, fs')))"

definition WriteAccount :: "(string \<Rightarrow> string) \<Rightarrow> io \<Rightarrow> gtime \<Rightarrow> bool \<Rightarrow> string \<Rightarrow> string \<Rightarrow> string \<Rightarrow> string \<Rightarrow> gtime
    \<Rightarrow> archive \<Rightarrow> raw_error option \<times> archive" where
  "WriteAccount sha io now cancelled puuid name tag payload t ar =
     (let (w, fs) = ar
      in if cancelled then (Some RawCtx, ar)
         else if t = 0 then (Some NoFetchTime, ar)
         else if wr_closed w then (Some RawClosed, ar)
         else (let row = \<lparr>a_PUUID = puuid, a_GameName = name, a_TagLine = tag, a_FetchedAt = t,
                    a_Payload = payload, a_SHA = sha payload\<rparr>;
                   (err, parts, fs') = append_to (wr_rowsPerPart w) io now (AccountDir (wr_root w) (date_only t))
                     (RowAccount row) (wr_account w) fs
               in (err, w\<lparr>wr_account := parts\<rparr>, fs')))"

section \<open>Flush and close\<close>

fun finalize_parts :: "(string \<Rightarrow> io) \<Rightarrow> (string \<times> 'a part_writer) list \<Rightarrow> 'a fs
    \<Rightarrow> raw_error list \<times> (string \<times> 'a part_writer) list \<times> 'a fs" where
  "finalize_parts io [] fs = ([], [], fs)"
| "finalize_parts io ((dir, p) # ps) fs =
     (let (err, p', fs1) = finalize_part (io dir) p fs;
          (errs, ps', fs2) = finalize_parts io ps fs1
      in ((case err of None \<Rightarrow> errs | Some e \<Rightarrow> e # errs), (dir, p') # ps', fs2))"

definition join_errors :: "raw_error list \<Rightarrow> raw_error option" where
  "join_errors errs = (if errs = [] then None else Some (RawJoined errs))"

definition finalizeAll :: "(string \<Rightarrow> io) \<Rightarrow> archive \<Rightarrow> raw_error option \<times> archive" where
  "finalizeAll io ar =
     (let (w, fs0) = ar;
          (e1, ms, fs1) = finalize_parts io (wr_match w) fs0;
          (e2, ts, fs2) = finalize_parts io (wr_timeline w) fs1;
          (e3, ls, fs3) = finalize_parts io (wr_league w) fs2;
          (e4, ss, fs4) = finalize_parts io (wr_static w) fs3;
          (e5, as, fs5) = finalize_parts io (wr_account w) fs4
      in (join_errors (e1 @ e2 @ e3 @ e4 @ e5),
          w\<lparr>wr_match := ms, wr_timeline := ts, wr_league := ls, wr_static := ss, wr_account := as\<rparr>, fs5))"

definition Flush :: "(string \<Rightarrow> io) \<Rightarrow> bool \<Rightarrow> archive \<Rightarrow> raw_error option \<times> archive" where
  "Flush io cancelled ar = (if cancelled then (Some RawCtx, ar) else finalizeAll io ar)"

definition Close :: "(string \<Rightarrow> io) \<Rightarrow> archive \<Rightarrow> raw_error option \<times> archive" where
  "Close io ar = finalizeAll io ((fst ar)\<lparr>wr_closed := True\<rparr>, snd ar)"

section \<open>Reading\<close>

text \<open>A listing names published parts only: a temporary part does not carry the suffix.\<close>

fun is_part :: "string \<times> 'a afile \<Rightarrow> bool" where
  "is_part (name, f) = (f \<noteq> SubDir \<and> has_prefix partPrefix name \<and> has_suffix partSuffix name)"

definition PartPaths :: "string \<Rightarrow> 'a fs \<Rightarrow> string list" where
  "PartPaths dir fs =
     (case fs dir of None \<Rightarrow> [] | Some d \<Rightarrow> sort (map (\<lambda>(n, f). join dir n) (filter is_part d)))"

fun part_rows :: "string \<times> 'a afile \<Rightarrow> 'a list" where
  "part_rows (n, Published rows) = rows"
| "part_rows (n, f) = []"

definition published_rows :: "'a dir \<Rightarrow> 'a list" where
  "published_rows d = concat (map part_rows d)"

end
