(* ===== verification/Raw_Props.thy ===== *)
theory Raw_Props
  imports Raw_Writer
begin

text \<open>
  Properties of one part of the archive. Its abstract state is a log: the rows of the published
  parts in the order they were written, followed by the rows the open part buffers. The refinement
  lemmas say what an append and a finalize do to the log, on every failure the code handles.
\<close>

section \<open>Part names\<close>

lemma digits_val_zeros: "digits_val 0 (replicate k (CHR ''0'') @ s) = digits_val 0 s"
  by (induction k) (simp_all add: is_digit_def digit_val_def)

lemma pad_digits: "0 \<le> i \<Longrightarrow> decimal_val (pad w i) = Some (nat i)"
  by (simp add: decimal_val_def pad_def Let_def digits_val_zeros digits_val_decimal decimal_nonempty)

lemma pad_char: "c \<in> set (pad w i) \<Longrightarrow> is_digit c"
  by (auto simp: pad_def Let_def is_digit_def dest: decimal_digits)

lemma atoi_pad:
  assumes "0 \<le> i" and "i \<le> max_duration"
  shows "atoi (pad w i) = Some i"
proof -
  obtain c cs where c: "pad w i = c # cs"
    using decimal_nonempty by (cases "pad w i") (auto simp: pad_def Let_def)
  then have "is_digit c" using pad_char [of c w i] by simp
  then have "c \<noteq> CHR ''-''" "c \<noteq> CHR ''+''" by (auto simp: is_digit_def)
  moreover have "decimal_val (c # cs) = Some (nat i)" using pad_digits [OF assms(1), of w] c by simp
  ultimately show ?thesis
    using assms c by (simp add: atoi_def in_int64_def min_duration_def)
qed

lemma pad_inj: "0 \<le> i \<Longrightarrow> 0 \<le> j \<Longrightarrow> pad w i = pad w j \<Longrightarrow> i = j"
  using pad_digits [of i w] pad_digits [of j w] by simp

lemma part_name_inj: "0 \<le> i \<Longrightarrow> 0 \<le> j \<Longrightarrow> part_name i = part_name j \<Longrightarrow> i = j"
  by (auto simp: part_name_def dest: pad_inj)

lemma tmp_name_inj: "0 \<le> i \<Longrightarrow> 0 \<le> j \<Longrightarrow> tmp_name i = tmp_name j \<Longrightarrow> i = j"
  by (simp add: tmp_name_def part_name_inj)

lemma last_names: "last (part_name i) = CHR ''t''" "last (tmp_name i) = CHR ''p''"
  by (simp_all add: part_name_def tmp_name_def partSuffix_def partTmp_def)

lemma names_differ [simp]: "part_name i \<noteq> tmp_name j" "tmp_name j \<noteq> part_name i"
proof -
  have "last (part_name i) \<noteq> last (tmp_name j)" by (simp add: last_names)
  then show "part_name i \<noteq> tmp_name j" "tmp_name j \<noteq> part_name i" by metis+
qed

lemma part_index_part:
  assumes "0 \<le> i" and "i \<le> max_duration"
  shows "part_index (part_name i, Published rows) = Some i"
proof -
  have "has_prefix partPrefix (part_name i)"
    by (simp add: has_prefix_def part_name_def)
  moreover have "has_suffix partSuffix (part_name i)"
    by (simp add: has_suffix_def part_name_def)
  moreover have "take (length (part_name i) - length partPrefix - length partSuffix) (drop (length partPrefix) (part_name i)) = pad 5 i"
    by (simp add: part_name_def)
  ultimately show ?thesis using atoi_pad [OF assms] by simp
qed

lemma part_index_tmp: "part_index (tmp_name i, f) = None"
proof -
  have "\<not> has_suffix partSuffix (tmp_name i)"
  proof
    assume a: "has_suffix partSuffix (tmp_name i)"
    then have "last (drop (length (tmp_name i) - length partSuffix) (tmp_name i)) = last partSuffix"
      unfolding has_suffix_def by (simp only:)
    moreover have "length (tmp_name i) - length partSuffix < length (tmp_name i)"
      using a by (intro diff_less) (auto simp: has_suffix_def partSuffix_def)
    ultimately have "last (tmp_name i) = last partSuffix" by (simp only: last_drop)
    then show False by (simp add: last_names partSuffix_def)
  qed
  then show ?thesis by simp
qed

lemma fold_highest:
  "h \<le> foldl (\<lambda>h e. case part_index e of Some n \<Rightarrow> if n \<le> h then h else n | None \<Rightarrow> h) h d \<and>
   (\<forall>e \<in> set d. \<forall>n. part_index e = Some n \<longrightarrow>
      n \<le> foldl (\<lambda>h e. case part_index e of Some n \<Rightarrow> if n \<le> h then h else n | None \<Rightarrow> h) h d) \<and>
   (\<forall>N. h \<le> N \<longrightarrow> (\<forall>e \<in> set d. \<forall>n. part_index e = Some n \<longrightarrow> n \<le> N) \<longrightarrow>
      foldl (\<lambda>h e. case part_index e of Some n \<Rightarrow> if n \<le> h then h else n | None \<Rightarrow> h) h d \<le> N)"
proof (induction d arbitrary: h)
  case (Cons e d)
  let ?h = "case part_index e of Some n \<Rightarrow> if n \<le> h then h else n | None \<Rightarrow> h"
  have h: "h \<le> ?h" "\<And>n. part_index e = Some n \<Longrightarrow> n \<le> ?h" "\<And>N. h \<le> N \<Longrightarrow> \<forall>n. part_index e = Some n \<longrightarrow> n \<le> N \<Longrightarrow> ?h \<le> N"
    by (auto split: option.splits)
  have "(\<forall>n. part_index e = Some n \<longrightarrow>
      n \<le> foldl (\<lambda>h e. case part_index e of Some n \<Rightarrow> if n \<le> h then h else n | None \<Rightarrow> h) ?h d)"
    using Cons.IH [of ?h] h(2) by (meson order_trans)
  with Cons.IH [of ?h] h(1,3) show ?case
    unfolding foldl.simps list.set ball_simps by (meson order_trans)
qed simp

lemmas highest_ge = fold_highest [THEN conjunct1, folded highest_index_def]

lemma highest_bounds:
  "0 \<le> highest_index d" "e \<in> set d \<Longrightarrow> part_index e = Some n \<Longrightarrow> n \<le> highest_index d"
  "0 \<le> N \<Longrightarrow> \<forall>e \<in> set d. \<forall>n. part_index e = Some n \<longrightarrow> n \<le> N \<Longrightarrow> highest_index d \<le> N"
  using fold_highest [of 0 d] unfolding highest_index_def by blast+

section \<open>Directories the archive owns\<close>

fun entry_ok :: "int \<Rightarrow> string \<times> 'a afile \<Rightarrow> bool" where
  "entry_ok N (n, Published rows) = (\<exists>i. 1 \<le> i \<and> i \<le> N \<and> n = part_name i)"
| "entry_ok N (n, TempFile t) = (\<exists>i \<ge> 1. n = tmp_name i)"
| "entry_ok N (n, SubDir) = False"

text \<open>\<open>N\<close> bounds the indices of the published parts.\<close>

definition dir_ok :: "int \<Rightarrow> 'a dir \<Rightarrow> bool" where
  "dir_ok N d = (distinct (map fst d) \<and> (\<forall>e \<in> set d. entry_ok N e))"

definition part_ok :: "int \<Rightarrow> 'a part_writer \<Rightarrow> 'a fs \<Rightarrow> bool" where
  "part_ok N p fs =
     (dir_ok N (dir_of fs (pw_dir p)) \<and> 0 \<le> N \<and>
      (pw_enc p \<noteq> None \<longrightarrow> 1 \<le> pw_index p \<and> pw_index p \<le> N \<and>
         part_name (pw_index p) \<notin> fst ` set (dir_of fs (pw_dir p))))"

definition part_log :: "'a part_writer \<Rightarrow> 'a fs \<Rightarrow> 'a list" where
  "part_log p fs = published_rows (dir_of fs (pw_dir p)) @ (case pw_enc p of None \<Rightarrow> [] | Some b \<Rightarrow> b)"

lemma entry_ok_mono: "entry_ok N e \<Longrightarrow> N \<le> M \<Longrightarrow> entry_ok M e"
  by (cases "(N, e)" rule: entry_ok.cases) auto

lemma dir_ok_mono: "dir_ok N d \<Longrightarrow> N \<le> M \<Longrightarrow> dir_ok M d"
  by (auto simp: dir_ok_def intro: entry_ok_mono)

lemma part_index_le:
  assumes "entry_ok N e" and "N \<le> max_duration" and "part_index e = Some n"
  shows "n \<le> N"
  using assms
proof (cases "(N, e)" rule: entry_ok.cases)
  case (1 M n' rows)
  then obtain i where "1 \<le> i" "i \<le> N" "n' = part_name i" using assms(1) by auto
  with 1 assms part_index_part [of i rows] show ?thesis by simp
next
  case (2 M n' t)
  then obtain i where "n' = tmp_name i" using assms(1) by auto
  with 2 assms(3) show ?thesis by (simp add: part_index_tmp del: part_index.simps)
qed simp

lemma highest_le:
  assumes "dir_ok N d" and "0 \<le> N" and "N \<le> max_duration"
  shows "highest_index d \<le> N"
  using assms by (intro highest_bounds(3)) (auto simp: dir_ok_def dest: part_index_le)

lemma fresh_part_name:
  assumes "dir_ok N d" and "0 \<le> N" and "N \<le> max_duration" and "highest_index d < i"
  shows "part_name i \<notin> fst ` set d"
proof
  assume "part_name i \<in> fst ` set d"
  then obtain f where f: "(part_name i, f) \<in> set d" by auto
  with assms(1) have ok: "entry_ok N (part_name i, f)" by (auto simp: dir_ok_def)
  have pos: "0 \<le> i" using assms(4) highest_bounds(1) [of d] by linarith
  show False
  proof (cases f)
    case (Published rows)
    with ok obtain j where j: "1 \<le> j" "j \<le> N" "part_name i = part_name j" by auto
    then have "i = j" using part_name_inj [of i j] pos by simp
    then have "part_index (part_name i, f) = Some i"
      using Published j assms(3) part_index_part [of i rows] by simp
    with f highest_bounds(2) assms(4) show False by fastforce
  qed (use ok in auto)
qed

section \<open>Directory updates\<close>

lemma set_file_new: "n \<notin> fst ` set d \<Longrightarrow> set_file n f d = d @ [(n, f)]"
  unfolding set_file_def by (induction d) auto

lemma published_append [simp]: "published_rows (d @ e) = published_rows d @ published_rows e"
  by (simp add: published_rows_def)

lemma remove_temp_rows:
  assumes "\<forall>f. (n, f) \<in> set d \<longrightarrow> part_rows (n, f) = []"
  shows "published_rows (remove_file n d) = published_rows d"
  using assms by (induction d) (auto simp: remove_file_def published_rows_def)

lemma temp_rows: "dir_ok N d \<Longrightarrow> (tmp_name i, f) \<in> set d \<Longrightarrow> part_rows (tmp_name i, f) = []"
  by (cases f) (auto simp: dir_ok_def)

lemma remove_file_ok: "dir_ok N d \<Longrightarrow> dir_ok N (remove_file n d)"
  by (auto simp: dir_ok_def remove_file_def distinct_map_filter)

lemma remove_file_names: "fst ` set (remove_file n d) \<subseteq> fst ` set d"
  by (auto simp: remove_file_def)

lemma stale_names:
  assumes "dir_ok N d" and "n \<in> set (snd (scanPartDir d now))"
  shows "\<exists>i. n = tmp_name i"
proof -
  obtain f where f: "(n, f) \<in> set d" "is_stale (now - partTmpStaleAfter) (n, f)"
    using assms(2) by (auto simp: scanPartDir_def)
  then obtain t where "f = TempFile t" by (cases f) auto
  with f(1) assms(1) have "entry_ok N (n, TempFile t)" by (auto simp: dir_ok_def)
  then show ?thesis by auto
qed

lemma reap_rows:
  assumes "dir_ok N d" and "\<forall>n \<in> set ns. \<exists>i. n = tmp_name i"
  shows "dir_ok N (fold remove_file ns d) \<and> published_rows (fold remove_file ns d) = published_rows d \<and>
    fst ` set (fold remove_file ns d) \<subseteq> fst ` set d"
  using assms
proof (induction ns arbitrary: d)
  case (Cons n ns)
  then obtain i where n: "n = tmp_name i" by auto
  have "published_rows (remove_file n d) = published_rows d"
    unfolding n using temp_rows [OF Cons.prems(1)] by (intro remove_temp_rows) blast
  moreover have "dir_ok N (remove_file n d)" using Cons.prems(1) by (rule remove_file_ok)
  ultimately show ?case
    using Cons.IH [of "remove_file n d"] Cons.prems(2) subset_trans [OF _ remove_file_names [of n d]] by simp
qed simp

section \<open>Opening a part\<close>

lemma dir_of_upd [simp]: "dir_of (fs(x \<mapsto> d)) y = (if y = x then d else dir_of fs y)"
  by (simp add: dir_of_def)

text \<open>What an operation on \<open>p\<close> leaves alone: the other directories.\<close>

definition frames :: "'a part_writer \<Rightarrow> 'a fs \<Rightarrow> 'a part_writer \<Rightarrow> 'a fs \<Rightarrow> bool" where
  "frames p fs p' fs' = (pw_dir p' = pw_dir p \<and> (\<forall>x. x \<noteq> pw_dir p \<longrightarrow> fs' x = fs x))"

lemma frames_refl [simp]: "frames p fs p fs"
  by (simp add: frames_def)

lemma frames_trans: "frames p fs p1 fs1 \<Longrightarrow> frames p1 fs1 p2 fs2 \<Longrightarrow> frames p fs p2 fs2"
  by (auto simp: frames_def)

lemma create_part_spec:
  assumes "create_part io now n index p fs = (e, p', fs')" and "pw_enc p = None"
    and "dir_ok N (dir_of fs (pw_dir p))" and "0 \<le> N" and "N \<le> max_duration"
    and "highest_index (dir_of fs (pw_dir p)) < index" and "1 \<le> index"
  shows "frames p fs p' fs' \<and> pw_rows p' = pw_rows p \<and> part_log p' fs' = part_log p fs \<and>
    (e \<noteq> None \<longrightarrow> pw_enc p' = None \<and> fs' = fs) \<and>
    (e = None \<longrightarrow> pw_enc p' = Some [] \<and> index \<le> pw_index p' \<and>
       part_ok (max N (index + int n)) p' fs' \<and> dir_ok N (dir_of fs' (pw_dir p)) \<and> io_create io)"
  using assms
proof (induction n arbitrary: index p)
  case 0
  then show ?case by auto
next
  case (Suc n)
  let ?d = "dir_of fs (pw_dir p)"
  show ?case
  proof (cases "map_of ?d (tmp_name index) = None")
    case False
    then have "create_part io now n (index + 1) (p\<lparr>pw_index := index\<rparr>) fs = (e, p', fs')"
      using Suc.prems(1) by (simp add: Let_def)
    from Suc.IH [OF this] Suc.prems(2-7) show ?thesis
      by (auto simp: part_log_def frames_def add.assoc)
  next
    case True
    then have new: "tmp_name index \<notin> fst ` set ?d" by (simp add: map_of_eq_None_iff)
    show ?thesis
    proof (cases "io_create io")
      case False
      with True Suc.prems show ?thesis by (auto simp: Let_def part_log_def frames_def)
    next
      case ok: True
      then have r: "e = None" "p' = p\<lparr>pw_index := index, pw_enc := Some []\<rparr>"
        "fs' = fs(pw_dir p \<mapsto> ?d @ [(tmp_name index, TempFile now)])"
        using True Suc.prems(1) by (auto simp: Let_def set_file_new [OF new])
      have "part_name index \<notin> fst ` set ?d"
        using Suc.prems by (intro fresh_part_name)
      moreover have "dir_ok N (?d @ [(tmp_name index, TempFile now)])"
        using Suc.prems new by (auto simp: dir_ok_def)
      moreover have "dir_of fs' (pw_dir p) = ?d @ [(tmp_name index, TempFile now)]"
        unfolding r(3) by simp
      moreover have "dir_ok (max N (index + int (Suc n))) (?d @ [(tmp_name index, TempFile now)])"
        using calculation(2) by (rule dir_ok_mono) simp
      moreover have "frames p fs p' fs'" unfolding frames_def r(2,3) by simp
      ultimately show ?thesis
        using Suc.prems(2,4,7) ok r(1) by (simp add: r(2) part_ok_def part_log_def) (auto simp: published_rows_def image_iff max_def)
    qed
  qed
qed

definition indexSkips :: int where
  "indexSkips = 65"

lemma open_part_spec:
  assumes "open_part io now p fs = (e, p', fs')" and "pw_enc p = None" and "part_ok N p fs"
    and "N + indexSkips \<le> max_duration"
  shows "frames p fs p' fs' \<and> pw_rows p' = pw_rows p \<and> part_log p' fs' = part_log p fs \<and>
    part_ok (N + indexSkips) p' fs' \<and>
    (e \<noteq> None \<longrightarrow> pw_enc p' = None \<and> e \<noteq> Some FinaliseFailed \<and> e \<noteq> Some PublishFailed) \<and>
    (e = None \<longrightarrow> pw_enc p' = Some [])"
proof -
  let ?d = "dir_of fs (pw_dir p)"
  have ok: "dir_ok N ?d" "0 \<le> N" "N \<le> max_duration"
    using assms(3,4) by (simp_all add: part_ok_def indexSkips_def)
  note mono = dir_ok_mono [OF ok(1), of "N + indexSkips"]
  show ?thesis
  proof (cases "io_mkdir io \<and> io_list io")
    case False
    then show ?thesis
      using assms(1,2) mono ok by (auto simp: open_part_def Let_def frames_def part_log_def part_ok_def indexSkips_def split: if_splits)
  next
    case True
    let ?stale = "snd (scanPartDir ?d now)"
    let ?fs = "reap (pw_dir p) ?stale (fs(pw_dir p \<mapsto> ?d))"
    let ?d2 = "fold remove_file ?stale ?d"
    have run: "create_part io now maxPartIndexSkips (highest_index ?d + 1) p ?fs = (e, p', fs')"
      using assms(1) True by (simp add: open_part_def Let_def scanPartDir_def)
    have d2: "dir_of ?fs (pw_dir p) = ?d2" by (simp add: reap_def)
    have reaped: "dir_ok N ?d2" "published_rows ?d2 = published_rows ?d"
      using reap_rows [OF ok(1)] stale_names [OF ok(1)] by blast+
    have "highest_index ?d2 \<le> highest_index ?d"
    proof (rule highest_bounds(3) [OF highest_bounds(1)], intro ballI allI impI)
      fix x n assume x: "x \<in> set ?d2" "part_index x = Some n"
      have "set (fold remove_file ns c) \<subseteq> set c" for ns and c :: "'a dir"
        by (induction ns arbitrary: c) (force simp: remove_file_def)+
      then have "x \<in> set ?d" using x(1) by blast
      then show "n \<le> highest_index ?d" using x(2) by (rule highest_bounds(2))
    qed
    then have less: "highest_index (dir_of ?fs (pw_dir p)) < highest_index ?d + 1" by (simp add: d2)
    have le: "highest_index ?d \<le> N" using highest_le [OF ok] .
    have one: "1 \<le> highest_index ?d + 1" using highest_bounds(1) [of ?d] by linarith
    have dok: "dir_ok N (dir_of ?fs (pw_dir p))" using reaped(1) by (simp only: d2)
    have spec: "frames p ?fs p' fs' \<and> pw_rows p' = pw_rows p \<and> part_log p' fs' = part_log p ?fs \<and>
      (e \<noteq> None \<longrightarrow> pw_enc p' = None \<and> fs' = ?fs) \<and>
      (e = None \<longrightarrow> pw_enc p' = Some [] \<and> highest_index ?d + 1 \<le> pw_index p' \<and>
         part_ok (max N (highest_index ?d + 1 + int maxPartIndexSkips)) p' fs' \<and>
         dir_ok N (dir_of fs' (pw_dir p)) \<and> io_create io)"
      by (rule create_part_spec [OF run assms(2) dok ok(2,3) less one])
    have kind: "e \<noteq> Some FinaliseFailed \<and> e \<noteq> Some PublishFailed"
    proof -
      have "create_part io now k i q g = (e, q', g') \<Longrightarrow> e \<noteq> Some FinaliseFailed \<and> e \<noteq> Some PublishFailed"
        for k i and q q' :: "'a part_writer" and g g'
        by (induction k arbitrary: i q) (auto simp: Let_def split: if_splits)
      then show ?thesis using run .
    qed
    have log: "part_log p ?fs = part_log p fs" by (simp add: part_log_def d2 reaped(2))
    have fr: "frames p fs p' fs'" using spec by (auto simp: frames_def reap_def)
    have pok: "part_ok (N + indexSkips) p' fs'"
    proof (cases e)
      case None
      have mx: "max N (highest_index ?d + 1 + int maxPartIndexSkips) \<le> N + indexSkips"
        using le by (simp add: maxPartIndexSkips_def indexSkips_def)
      from None spec have "part_ok (max N (highest_index ?d + 1 + int maxPartIndexSkips)) p' fs'" by simp
      then show ?thesis using mx ok(2) unfolding part_ok_def
        by (auto intro: dir_ok_mono)
    next
      case (Some x)
      then have q: "pw_enc p' = None" "fs' = ?fs" "pw_dir p' = pw_dir p"
        using spec by (auto simp: frames_def)
      have "dir_ok (N + indexSkips) ?d2" using reaped(1) by (rule dir_ok_mono) (simp add: indexSkips_def)
      then show ?thesis using q ok(2) by (simp add: part_ok_def d2 indexSkips_def)
    qed
    show ?thesis using spec log fr pok kind by simp
  qed
qed

section \<open>Finalize and append as operations on the log\<close>

lemma finalize_part_spec:
  assumes "finalize_part io p fs = (e, p', fs')" and "part_ok N p fs"
  shows "frames p fs p' fs' \<and> part_ok N p' fs' \<and> pw_enc p' = None \<and>
    (e = None \<longrightarrow> part_log p' fs' = part_log p fs) \<and>
    (e \<noteq> None \<longrightarrow> part_log p' fs' = published_rows (dir_of fs (pw_dir p)) \<and> (e = Some FinaliseFailed \<or> e = Some PublishFailed))"
proof (cases "pw_enc p")
  case None
  with assms show ?thesis by (auto simp: finalize_part_def)
next
  case (Some buf)
  let ?d = "dir_of fs (pw_dir p)"
  let ?d1 = "remove_file (tmp_name (pw_index p)) ?d"
  have ok: "dir_ok N ?d" "0 \<le> N" "1 \<le> pw_index p" "pw_index p \<le> N" "part_name (pw_index p) \<notin> fst ` set ?d"
    using assms(2) Some by (simp_all add: part_ok_def)
  have rows: "published_rows ?d1 = published_rows ?d"
    using temp_rows [OF ok(1)] by (intro remove_temp_rows) blast
  have ok1: "dir_ok N ?d1" using ok(1) by (rule remove_file_ok)
  have new: "part_name (pw_index p) \<notin> fst ` set ?d1"
    using ok(5) remove_file_names [of "tmp_name (pw_index p)" ?d] by blast
  show ?thesis
  proof (cases "io_close io \<and> io_sync io \<and> io_fclose io \<and> io_rename io")
    case True
    then have r: "e = None" "p' = p\<lparr>pw_enc := None, pw_rows := 0\<rparr>"
      "fs' = fs(pw_dir p \<mapsto> ?d1 @ [(part_name (pw_index p), Published buf)])"
      using assms(1) Some by (auto simp: finalize_part_def Let_def set_file_new [OF new])
    have "dir_ok N (?d1 @ [(part_name (pw_index p), Published buf)])"
      using ok1 new ok(3,4) by (auto simp: dir_ok_def)
    with r ok(2) rows Some show ?thesis
      by (simp add: part_ok_def frames_def part_log_def) (simp add: published_rows_def)
  next
    case False
    then have r: "e = Some FinaliseFailed \<or> e = Some PublishFailed" "p' = p\<lparr>pw_enc := None\<rparr>"
      "fs' = fs(pw_dir p \<mapsto> ?d1)"
      using assms(1) Some by (auto simp: finalize_part_def Let_def split: if_splits)
    with ok1 ok(2) rows show ?thesis
      by (auto simp: part_ok_def frames_def part_log_def)
  qed
qed

definition loses_rows :: "raw_error option \<Rightarrow> bool" where
  "loses_rows e = (e = Some FinaliseFailed \<or> e = Some PublishFailed)"

lemma append_row_spec:
  assumes "append_row rpp io now row p fs = (e, p', fs')" and "part_ok N p fs"
    and "N + indexSkips \<le> max_duration"
  shows "frames p fs p' fs' \<and> part_ok (N + indexSkips) p' fs' \<and>
    (e = None \<longrightarrow> part_log p' fs' = part_log p fs @ [row]) \<and>
    (e \<noteq> None \<and> \<not> loses_rows e \<longrightarrow> part_log p' fs' = part_log p fs) \<and>
    (loses_rows e \<longrightarrow> part_log p' fs' = published_rows (dir_of fs (pw_dir p)))"
proof -
  obtain e1 p1 fs1 where o: "(if pw_enc p = None then open_part io now p fs else (None, p, fs)) = (e1, p1, fs1)"
    by (metis prod_cases3)
  have op: "frames p fs p1 fs1 \<and> part_log p1 fs1 = part_log p fs \<and> part_ok (N + indexSkips) p1 fs1 \<and>
      (e1 \<noteq> None \<longrightarrow> \<not> loses_rows e1) \<and> (e1 = None \<longrightarrow> pw_enc p1 \<noteq> None) \<and>
      published_rows (dir_of fs1 (pw_dir p)) = published_rows (dir_of fs (pw_dir p))"
  proof (cases "pw_enc p")
    case None
    then have "open_part io now p fs = (e1, p1, fs1)" using o by simp
    from open_part_spec [OF this None assms(2,3)] None show ?thesis
      by (auto simp: loses_rows_def part_log_def frames_def)
  next
    case (Some b)
    then show ?thesis
      using o assms(2) by (auto simp: part_ok_def indexSkips_def intro: dir_ok_mono)
  qed
  show ?thesis
  proof (cases e1)
    case (Some x)
    then have "e = Some x" "p' = p1" "fs' = fs1" using assms(1) o by (simp_all add: append_row_def)
    with op Some show ?thesis by simp
  next
    case None
    with op obtain b where b: "pw_enc p1 = Some b" by auto
    show ?thesis
    proof (cases "io_write io")
      case False
      then have "e = Some WriteFailed" "p' = p1" "fs' = fs1"
        using assms(1) o None by (simp_all add: append_row_def)
      with op show ?thesis by (simp add: loses_rows_def)
    next
      case True
      let ?p2 = "p1\<lparr>pw_enc := Some (b @ [row]), pw_rows := pw_rows p1 + 1\<rparr>"
      have p2: "part_ok (N + indexSkips) ?p2 fs1" "part_log ?p2 fs1 = part_log p fs @ [row]" "frames p fs ?p2 fs1"
        using op b by (auto simp: part_ok_def part_log_def frames_def)
      show ?thesis
      proof (cases "0 < rpp \<and> rpp \<le> pw_rows ?p2")
        case False
        then have "e = None" "p' = ?p2" "fs' = fs1"
          using assms(1) o None True b by (auto simp: append_row_def Let_def)
        with p2 show ?thesis by (simp add: loses_rows_def)
      next
        case rot: True
        then have f: "finalize_part io ?p2 fs1 = (e, p', fs')"
          using assms(1) o None True b by (auto simp: append_row_def Let_def)
        have "dir_of fs1 (pw_dir ?p2) = dir_of fs1 (pw_dir p)" using op by (simp add: frames_def)
        with finalize_part_spec [OF f p2(1)] p2 op show ?thesis
          by (auto simp: loses_rows_def intro: frames_trans)
      qed
    qed
  qed
qed

section \<open>Histories of one part\<close>

datatype 'a part_op = Append io gtime 'a | Finalize io

fun run_part :: "int \<Rightarrow> 'a part_op list \<Rightarrow> 'a part_writer \<Rightarrow> 'a fs
    \<Rightarrow> (raw_error option \<times> 'a part_op) list \<times> 'a part_writer \<times> 'a fs" where
  "run_part rpp [] p fs = ([], p, fs)"
| "run_part rpp (Append io now row # ops) p fs =
     (let (e, p1, fs1) = append_row rpp io now row p fs; (es, p2, fs2) = run_part rpp ops p1 fs1
      in ((e, Append io now row) # es, p2, fs2))"
| "run_part rpp (Finalize io # ops) p fs =
     (let (e, p1, fs1) = finalize_part io p fs; (es, p2, fs2) = run_part rpp ops p1 fs1
      in ((e, Finalize io) # es, p2, fs2))"

text \<open>The rows whose append returned nil.\<close>

fun accepted :: "(raw_error option \<times> 'a part_op) list \<Rightarrow> 'a list" where
  "accepted [] = []"
| "accepted ((None, Append io now row) # es) = row # accepted es"
| "accepted ((e, op) # es) = accepted es"

lemma accepted_error: "e \<noteq> None \<Longrightarrow> accepted ((e, op) # es) = accepted es"
  by (cases e) simp_all

lemma run_part_log:
  assumes "run_part rpp ops p fs = (es, p', fs')" and "part_ok N p fs"
    and "N + indexSkips * int (length ops) \<le> max_duration" and "\<forall>(e, op) \<in> set es. \<not> loses_rows e"
  shows "part_log p' fs' = part_log p fs @ accepted es \<and> part_ok (N + indexSkips * int (length ops)) p' fs' \<and>
    frames p fs p' fs'"
  using assms
proof (induction ops arbitrary: p fs N es)
  case Nil
  then show ?case by simp
next
  case (Cons op ops)
  have len: "N + indexSkips \<le> max_duration" "N + indexSkips + indexSkips * int (length ops) \<le> max_duration"
    "N + indexSkips * int (length (op # ops)) = N + indexSkips + indexSkips * int (length ops)"
    using Cons.prems(3) by (simp_all add: indexSkips_def algebra_simps)
  show ?case
  proof (cases op)
    case (Append io now row)
    obtain e p1 fs1 es2 where r: "append_row rpp io now row p fs = (e, p1, fs1)"
      "run_part rpp ops p1 fs1 = (es2, p', fs')" "es = (e, op) # es2"
      using Cons.prems(1) by (auto simp: Append Let_def split: prod.splits)
    have nl: "\<not> loses_rows e" "\<forall>(e, op) \<in> set es2. \<not> loses_rows e"
      using Cons.prems(4) by (auto simp: r(3))
    note spec = append_row_spec [OF r(1) Cons.prems(2) len(1)]
    have "part_log p' fs' = part_log p1 fs1 @ accepted es2 \<and>
        part_ok (N + indexSkips + indexSkips * int (length ops)) p' fs' \<and> frames p1 fs1 p' fs'"
      using spec nl(2) len(2) by (intro Cons.IH [OF r(2)]) simp_all
    then show ?thesis
      unfolding len(3) using spec nl(1) by (cases e) (auto simp: r(3) Append intro: frames_trans)
  next
    case (Finalize io)
    obtain e p1 fs1 es2 where r: "finalize_part io p fs = (e, p1, fs1)"
      "run_part rpp ops p1 fs1 = (es2, p', fs')" "es = (e, op) # es2"
      using Cons.prems(1) by (auto simp: Finalize Let_def split: prod.splits)
    have nl: "\<not> loses_rows e" "\<forall>(e, op) \<in> set es2. \<not> loses_rows e"
      using Cons.prems(4) by (auto simp: r(3))
    note spec = finalize_part_spec [OF r(1) Cons.prems(2)]
    have "e = None" using spec nl(1) by (auto simp: loses_rows_def)
    have ok1: "part_ok (N + indexSkips) p1 fs1"
      using spec by (auto simp: part_ok_def indexSkips_def intro: dir_ok_mono)
    have "part_log p' fs' = part_log p1 fs1 @ accepted es2 \<and>
        part_ok (N + indexSkips + indexSkips * int (length ops)) p' fs' \<and> frames p1 fs1 p' fs'"
      using ok1 nl(2) len(2) by (intro Cons.IH [OF r(2)])
    then show ?thesis
      unfolding len(3) using spec \<open>e = None\<close> by (auto simp: r(3) Finalize intro: frames_trans)
  qed
qed

lemma run_part_append:
  "run_part rpp (xs @ ys) p fs =
     (let (es1, p1, fs1) = run_part rpp xs p fs; (es2, p2, fs2) = run_part rpp ys p1 fs1 in (es1 @ es2, p2, fs2))"
proof (induction xs arbitrary: p fs)
  case (Cons x xs)
  then show ?case by (cases x) (simp_all add: Let_def split_beta)
qed simp

lemma accepted_append: "accepted (xs @ ys) = accepted xs @ accepted ys"
  by (induction xs rule: accepted.induct) auto

text \<open>
  C5: a part is a durable log. Over every history of appends and flushes on a partition in which no
  publication failed - whatever opens, creates and writes failed - the published parts followed by
  the open part's buffer hold exactly the rows whose append returned nil, in order, each once; and
  after a flush that returned nil they are all in published parts.
\<close>

theorem partition_is_a_log:
  assumes "run_part rpp ops (newPartWriter dir) (\<lambda>x. None) = (es, p1, fs1)"
    and "indexSkips * int (length ops) \<le> max_duration"
    and "\<forall>(e, op) \<in> set es. \<not> loses_rows e"
    and "finalize_part io p1 fs1 = (None, p', fs')"
  shows "part_log p1 fs1 = accepted es \<and> published_rows (dir_of fs' dir) = accepted es"
proof -
  have start: "part_ok 0 (newPartWriter dir) (\<lambda>x. None)" "part_log (newPartWriter dir) (\<lambda>x. None) = []"
    by (simp_all add: part_ok_def dir_ok_def newPartWriter_def dir_of_def part_log_def published_rows_def)
  have log: "part_log p1 fs1 = accepted es \<and> part_ok (0 + indexSkips * int (length ops)) p1 fs1 \<and> pw_dir p1 = dir"
    using run_part_log [OF assms(1) start(1) _ assms(3)] start(2) assms(2)
    by (simp add: frames_def newPartWriter_def)
  then have "part_log p' fs' = accepted es" "pw_enc p' = None" "pw_dir p' = dir"
    using finalize_part_spec [OF assms(4)] by (auto simp: frames_def)
  then have "published_rows (dir_of fs' dir) = accepted es" by (simp add: part_log_def)
  with log show ?thesis by blast
qed

definition demo_ops :: "nat part_op list" where
  "demo_ops = [Append io_ok 5 1, Append io_ok 6 2, Append (io_ok\<lparr>io_write := False\<rparr>) 7 3, Finalize io_ok, Append io_ok 8 4]"

theorem partition_is_a_log_witness:
  "published_rows (dir_of (snd (snd (finalize_part io_ok
      (fst (snd (run_part 10 demo_ops (newPartWriter ''d'') (\<lambda>x. None))))
      (snd (snd (run_part 10 demo_ops (newPartWriter ''d'') (\<lambda>x. None))))))) ''d'') = [1, 2, 4]"
proof -
  let ?r = "run_part 10 demo_ops (newPartWriter ''d'') (\<lambda>x. None)"
  let ?f = "finalize_part io_ok (fst (snd ?r)) (snd (snd ?r))"
  have es: "accepted (fst ?r) = [1, 2, 4]" "list_all (\<lambda>(e, op). \<not> loses_rows e) (fst ?r)" "fst ?f = None"
    by code_simp+
  have r: "?r = (fst ?r, fst (snd ?r), snd (snd ?r))" by simp
  have f: "?f = (None, fst (snd ?f), snd (snd ?f))" using es(3) by (metis prod.collapse)
  have "indexSkips * int (length demo_ops) \<le> max_duration"
    by (simp add: indexSkips_def demo_ops_def max_duration_def)
  from partition_is_a_log [OF r this _ f] es show ?thesis by (simp add: list_all_iff)
qed

text \<open>
  A published part is immutable: whatever an append or a finalize does and however it fails, the
  rows that were in published parts stay there, in place, and rows are only added behind them.
\<close>

theorem published_parts_are_immutable:
  assumes "part_ok N p fs" and "N + indexSkips \<le> max_duration"
    and "append_row rpp io now row p fs = (e, p', fs') \<or> finalize_part io p fs = (e, p', fs')"
  shows "\<exists>more. published_rows (dir_of fs' (pw_dir p)) = published_rows (dir_of fs (pw_dir p)) @ more"
  using assms(3)
proof
  assume f: "finalize_part io p fs = (e, p', fs')"
  from finalize_part_spec [OF f assms(1)] show ?thesis
    by (cases e) (auto simp: part_log_def frames_def)
next
  assume a: "append_row rpp io now row p fs = (e, p', fs')"
  obtain e1 p1 fs1 where o: "(if pw_enc p = None then open_part io now p fs else (None, p, fs)) = (e1, p1, fs1)"
    by (metis prod_cases3)
  have same: "published_rows (dir_of fs1 (pw_dir p)) = published_rows (dir_of fs (pw_dir p)) \<and> pw_dir p1 = pw_dir p \<and>
      part_ok (N + indexSkips) p1 fs1 \<and> (e1 = None \<longrightarrow> pw_enc p1 \<noteq> None)"
  proof (cases "pw_enc p")
    case None
    then have "open_part io now p fs = (e1, p1, fs1)" using o by simp
    from open_part_spec [OF this None assms(1,2)] None show ?thesis
      by (cases e1) (auto simp: part_log_def frames_def)
  next
    case (Some b)
    then show ?thesis using o assms(1) by (auto simp: part_ok_def indexSkips_def intro: dir_ok_mono)
  qed
  show ?thesis
  proof (cases "e1 = None \<and> io_write io")
    case False
    then have "fs' = fs1" using a o by (auto simp: append_row_def split: option.splits if_splits)
    with same show ?thesis by simp
  next
    case True
    with same obtain b where b: "pw_enc p1 = Some b" by auto
    let ?p2 = "p1\<lparr>pw_enc := Some (b @ [row]), pw_rows := pw_rows p1 + 1\<rparr>"
    have p2: "part_ok (N + indexSkips) ?p2 fs1" using same b by (auto simp: part_ok_def)
    have "fs' = fs1 \<or> finalize_part io ?p2 fs1 = (e, p', fs')"
      using a o True b by (auto simp: append_row_def Let_def split: if_splits)
    then show ?thesis
    proof
      assume "finalize_part io ?p2 fs1 = (e, p', fs')"
      from finalize_part_spec [OF this p2] same show ?thesis
        by (cases e) (auto simp: part_log_def frames_def)
    qed (use same in simp)
  qed
qed

theorem published_parts_are_immutable_witness:
  "\<exists>more. published_rows (dir_of (snd (snd (append_row 10 io_ok 5 (1 :: nat) (newPartWriter ''d'') (\<lambda>x. None)))) (pw_dir (newPartWriter ''d'' :: nat part_writer))) =
     published_rows (dir_of (\<lambda>x. None) (pw_dir (newPartWriter ''d'' :: nat part_writer))) @ more"
proof (rule published_parts_are_immutable [where N = 0])
  show "part_ok 0 (newPartWriter ''d'' :: nat part_writer) (\<lambda>x. None)"
    by (simp add: part_ok_def dir_ok_def newPartWriter_def dir_of_def)
  show "0 + indexSkips \<le> max_duration" by (simp add: indexSkips_def max_duration_def)
  show "append_row 10 io_ok 5 (1 :: nat) (newPartWriter ''d'') (\<lambda>x. None) =
      (fst (append_row 10 io_ok 5 (1 :: nat) (newPartWriter ''d'') (\<lambda>x. None)),
       fst (snd (append_row 10 io_ok 5 (1 :: nat) (newPartWriter ''d'') (\<lambda>x. None))),
       snd (snd (append_row 10 io_ok 5 (1 :: nat) (newPartWriter ''d'') (\<lambda>x. None)))) \<or>
    finalize_part io_ok (newPartWriter ''d'') (\<lambda>x. None) =
      (fst (append_row 10 io_ok 5 (1 :: nat) (newPartWriter ''d'') (\<lambda>x. None)),
       fst (snd (append_row 10 io_ok 5 (1 :: nat) (newPartWriter ''d'') (\<lambda>x. None))),
       snd (snd (append_row 10 io_ok 5 (1 :: nat) (newPartWriter ''d'') (\<lambda>x. None))))"
    by simp
qed

section \<open>Rotation that fails\<close>

text \<open>
  The exception the log property makes is real. When the rotation inside an append cannot be
  published, the rows appended before it - each reported as written - are dropped with the
  temporary file; the error reaches only the last row, and the flush that follows returns nil.
\<close>

theorem failed_rotation_drops_reported_rows:
  "map fst (fst (run_part 2 [Append io_ok 5 (1 :: nat), Append (io_ok\<lparr>io_rename := False\<rparr>) 6 2, Finalize io_ok]
      (newPartWriter ''d'') (\<lambda>x. None))) = [None, Some PublishFailed, None] \<and>
   published_rows (dir_of (snd (snd (run_part 2 [Append io_ok 5 (1 :: nat), Append (io_ok\<lparr>io_rename := False\<rparr>) 6 2, Finalize io_ok]
      (newPartWriter ''d'') (\<lambda>x. None)))) ''d'') = []"
  by code_simp

section \<open>Abandoned temporary parts\<close>

lemma create_part_finds_free:
  assumes "io_create io" and "k < n" and "map_of (dir_of fs (pw_dir p)) (tmp_name (index + int k)) = None"
  shows "fst (create_part io now n index p fs) = None"
  using assms(2,3)
proof (induction n arbitrary: index k p)
  case (Suc n)
  show ?case
  proof (cases "map_of (dir_of fs (pw_dir p)) (tmp_name index) = None")
    case True
    then show ?thesis using assms(1) by (simp add: Let_def)
  next
    case False
    then obtain k' where k: "k = Suc k'" using Suc.prems(2) by (cases k) auto
    then have "fst (create_part io now n (index + 1) (p\<lparr>pw_index := index\<rparr>) fs) = None"
      using Suc.prems by (intro Suc.IH [of k']) (simp_all add: algebra_simps)
    with False show ?thesis by (simp add: Let_def)
  qed
qed simp

end
