(* ===== verification/Archive_Props.thy ===== *)
theory Archive_Props
  imports Raw_Props
begin

text \<open>
  The archive's contract towards its callers: a log of rows per partition directory. A write that
  returns nil adds its row to the log of its partition and to no other; a flush that returns nil
  leaves every log as it was, with all of it in published parts. The contract is a locale, so that
  the worker's lemmas use nothing else of the writer, and the writer is its interpretation.
\<close>

section \<open>Lists of open parts\<close>

definition parts_ok :: "int \<Rightarrow> (string \<times> 'a part_writer) list \<Rightarrow> 'a fs \<Rightarrow> bool" where
  "parts_ok N parts fs =
     (distinct (map fst parts) \<and> (\<forall>d p. (d, p) \<in> set parts \<longrightarrow> pw_dir p = d \<and> part_ok N p fs))"

lemma parts_okD: "parts_ok N parts fs \<Longrightarrow> (d, p) \<in> set parts \<Longrightarrow> pw_dir p = d \<and> part_ok N p fs"
  by (simp add: parts_ok_def)

definition buffer_of :: "(string \<times> 'a part_writer) list \<Rightarrow> string \<Rightarrow> 'a list" where
  "buffer_of parts dir =
     (case map_of parts dir of None \<Rightarrow> [] | Some p \<Rightarrow> (case pw_enc p of None \<Rightarrow> [] | Some b \<Rightarrow> b))"

definition dir_log :: "(string \<times> 'a part_writer) list \<Rightarrow> 'a fs \<Rightarrow> string \<Rightarrow> 'a list" where
  "dir_log parts fs dir = published_rows (dir_of fs dir) @ buffer_of parts dir"

definition dirs_ok :: "int \<Rightarrow> 'a fs \<Rightarrow> bool" where
  "dirs_ok N fs = (\<forall>x. dir_ok N (dir_of fs x))"

lemma part_ok_mono: "part_ok N p fs \<Longrightarrow> N \<le> M \<Longrightarrow> part_ok M p fs"
  by (auto simp: part_ok_def intro: dir_ok_mono)

lemma part_ok_cong: "dir_of fs' (pw_dir p) = dir_of fs (pw_dir p) \<Longrightarrow> part_ok N p fs' = part_ok N p fs"
  by (simp add: part_ok_def)

lemma dir_of_frames: "frames p fs p' fs' \<Longrightarrow> x \<noteq> pw_dir p \<Longrightarrow> dir_of fs' x = dir_of fs x"
  by (simp add: frames_def dir_of_def)

lemma map_of_update: "map_of (AList.update k v al) x = (if x = k then Some v else map_of al x)"
  by (simp add: update_conv')

lemma keys_update: "fst ` set (AList.update k v al) = insert k (fst ` set al)"
  using dom_update [of k v al] by (simp add: update_keys dom_map_of_conv_image_fst)

lemma update_entries:
  "distinct (map fst al) \<Longrightarrow> (d, p) \<in> set (AList.update k v al) \<Longrightarrow> (d = k \<and> p = v) \<or> (d \<noteq> k \<and> (d, p) \<in> set al)"
proof -
  assume a: "distinct (map fst al)" "(d, p) \<in> set (AList.update k v al)"
  from a have "map_of (AList.update k v al) d = Some p"
    by (intro map_of_is_SomeI) (simp_all add: distinct_update)
  then show ?thesis by (auto simp: map_of_update split: if_splits dest: map_of_SomeD)
qed

lemma part_for_ok:
  assumes "parts_ok N parts fs" and "dirs_ok N fs" and "0 \<le> N"
  shows "part_ok N (part_for dir parts) fs \<and> pw_dir (part_for dir parts) = dir \<and>
    part_log (part_for dir parts) fs = dir_log parts fs dir"
proof (cases "map_of parts dir")
  case None
  then show ?thesis
    using assms by (simp add: part_for_def newPartWriter_def part_ok_def dirs_ok_def part_log_def dir_log_def buffer_of_def)
next
  case (Some p)
  then have "(dir, p) \<in> set parts" by (rule map_of_SomeD)
  with assms(1) have "pw_dir p = dir" "part_ok N p fs" using parts_okD by blast+
  with Some show ?thesis by (simp add: part_for_def part_log_def dir_log_def buffer_of_def)
qed

lemma append_to_spec:
  assumes "append_to rpp io now dir row parts fs = (e, parts', fs')"
    and "parts_ok N (A @ parts @ B) fs" and "dirs_ok N fs" and "0 \<le> N" and "N + indexSkips \<le> max_duration"
    and "dir \<notin> fst ` set A" and "dir \<notin> fst ` set B"
  shows "parts_ok (N + indexSkips) (A @ parts' @ B) fs' \<and> dirs_ok (N + indexSkips) fs' \<and>
    fst ` set parts' = insert dir (fst ` set parts) \<and>
    (\<forall>x. x \<noteq> dir \<longrightarrow> dir_log (A @ parts' @ B) fs' x = dir_log (A @ parts @ B) fs x) \<and>
    (e = None \<longrightarrow> dir_log (A @ parts' @ B) fs' dir = dir_log (A @ parts @ B) fs dir @ [row]) \<and>
    (e \<noteq> None \<and> \<not> loses_rows e \<longrightarrow> dir_log (A @ parts' @ B) fs' dir = dir_log (A @ parts @ B) fs dir)"
proof -
  let ?p = "part_for dir parts"
  obtain p' where r: "append_row rpp io now row ?p fs = (e, p', fs')" and parts': "parts' = AList.update dir p' parts"
    using assms(1) by (auto simp: append_to_def split: prod.splits)
  have ok1: "parts_ok N parts fs" using assms(2) by (auto simp: parts_ok_def)
  have p: "part_ok N ?p fs" "pw_dir ?p = dir" "part_log ?p fs = dir_log parts fs dir"
    using part_for_ok [OF ok1 assms(3,4)] by blast+
  have spec: "frames ?p fs p' fs'" "part_ok (N + indexSkips) p' fs'"
    "e = None \<Longrightarrow> part_log p' fs' = part_log ?p fs @ [row]"
    "e \<noteq> None \<Longrightarrow> \<not> loses_rows e \<Longrightarrow> part_log p' fs' = part_log ?p fs"
    using append_row_spec [OF r p(1) assms(5)] by blast+
  have dir': "pw_dir p' = dir" using spec(1) p(2) by (simp add: frames_def)
  have other: "dir_of fs' x = dir_of fs x" if "x \<noteq> dir" for x
    using dir_of_frames [OF spec(1)] that p(2) by simp
  have N: "N \<le> N + indexSkips" by (simp add: indexSkips_def)
  have dist: "distinct (map fst parts)" using ok1 by (simp add: parts_ok_def)
  have entry: "pw_dir q = d \<and> part_ok (N + indexSkips) q fs'" if "(d, q) \<in> set (A @ parts' @ B)" for d q
  proof (cases "d = dir")
    case True
    then have "(d, q) \<in> set parts'" using that assms(6,7) by force
    then have "q = p'" using True update_entries [OF dist] by (auto simp: parts')
    then show ?thesis using True dir' spec(2) by simp
  next
    case False
    have "(d, q) \<in> set (A @ parts @ B)"
      using that False update_entries [OF dist, of d q dir p'] by (auto simp: parts')
    then have q: "pw_dir q = d" "part_ok N q fs" using parts_okD [OF assms(2)] by blast+
    then have "part_ok (N + indexSkips) q fs'"
      using part_ok_cong [of fs' q fs] other False part_ok_mono [OF _ N] by auto
    with q show ?thesis by simp
  qed
  have keys: "fst ` set parts' = insert dir (fst ` set parts)" by (simp add: parts' keys_update)
  have "distinct (map fst parts')" using dist by (simp add: parts' distinct_update)
  then have "distinct (map fst (A @ parts' @ B))"
    using assms(2,6,7) keys by (auto simp: parts_ok_def)
  with entry have pok: "parts_ok (N + indexSkips) (A @ parts' @ B) fs'" by (auto simp: parts_ok_def)
  have dok: "dirs_ok (N + indexSkips) fs'"
    unfolding dirs_ok_def
  proof
    fix x
    show "dir_ok (N + indexSkips) (dir_of fs' x)"
    proof (cases "x = dir")
      case True
      then show ?thesis using spec(2) dir' by (simp add: part_ok_def)
    next
      case False
      then show ?thesis using other assms(3) N by (auto simp: dirs_ok_def intro: dir_ok_mono)
    qed
  qed
  have buf: "buffer_of (A @ parts' @ B) x = buffer_of (A @ parts @ B) x" if "x \<noteq> dir" for x
    using that by (simp add: buffer_of_def parts' map_add_def map_of_update)
  have none: "map_of A dir = None" "map_of B dir = None" using assms(6,7) by (simp_all add: map_of_eq_None_iff)
  have log1: "dir_log (A @ parts' @ B) fs' dir = part_log p' fs'"
    using none dir' by (simp add: dir_log_def buffer_of_def part_log_def parts' map_add_def map_of_update)
  have log0: "dir_log (A @ parts @ B) fs dir = part_log ?p fs"
    using none p(3) by (simp add: dir_log_def buffer_of_def map_add_def split: option.splits)
  show ?thesis
    using pok dok keys buf other spec(3,4) log0 log1 by (auto simp: dir_log_def)
qed

lemma finalize_parts_spec:
  assumes "finalize_parts io parts fs = (errs, parts', fs')" and "parts_ok N (A @ parts @ B) fs" and "dirs_ok N fs"
  shows "parts_ok N (A @ parts' @ B) fs' \<and> dirs_ok N fs' \<and> map fst parts' = map fst parts \<and>
    (\<forall>(d, p) \<in> set parts'. pw_enc p = None) \<and>
    (\<forall>x. x \<notin> fst ` set parts \<longrightarrow> dir_of fs' x = dir_of fs x) \<and>
    (errs = [] \<longrightarrow> (\<forall>x. dir_log (A @ parts' @ B) fs' x = dir_log (A @ parts @ B) fs x))"
  using assms
proof (induction parts arbitrary: A fs errs parts')
  case Nil
  then show ?case by simp
next
  case (Cons dp ps)
  obtain d p where dp: "dp = (d, p)" by (cases dp)
  obtain e p1 fs1 errs2 ps2 where f: "finalize_part (io d) p fs = (e, p1, fs1)"
    "finalize_parts io ps fs1 = (errs2, ps2, fs')" "parts' = (d, p1) # ps2"
    "errs = (case e of None \<Rightarrow> errs2 | Some x \<Rightarrow> x # errs2)"
    using Cons.prems(1) by (auto simp: dp split: prod.splits)
  have p: "pw_dir p = d" "part_ok N p fs" using parts_okD [OF Cons.prems(2), of d p] by (simp_all add: dp)
  note spec = finalize_part_spec [OF f(1) p(2)]
  have d1: "pw_dir p1 = d" using spec p(1) by (simp add: frames_def)
  have other: "dir_of fs1 x = dir_of fs x" if "x \<noteq> d" for x
    using dir_of_frames [of p fs p1 fs1 x] spec that p(1) by simp
  have dist: "distinct (map fst (A @ (d, p) # ps @ B))" using Cons.prems(2) by (simp add: parts_ok_def dp)
  have ok1: "parts_ok N ((A @ [(d, p1)]) @ ps @ B) fs1"
    unfolding parts_ok_def
  proof (intro conjI allI impI)
    show "distinct (map fst ((A @ [(d, p1)]) @ ps @ B))" using dist by simp
    fix k q assume in1: "(k, q) \<in> set ((A @ [(d, p1)]) @ ps @ B)"
    have "pw_dir q = k \<and> part_ok N q fs1"
    proof (cases "k = d")
      case True
      have dist1: "distinct (map fst ((A @ [(d, p1)]) @ ps @ B))" using dist by simp
      have "(d, p1) \<in> set ((A @ [(d, p1)]) @ ps @ B)" by simp
      with True in1 have "q = p1" using eq_key_imp_eq_value [OF dist1] by blast
      then show ?thesis using True spec d1 by simp
    next
      case False
      then have "(k, q) \<in> set (A @ (dp # ps) @ B)" using in1 by auto
      then have "pw_dir q = k" "part_ok N q fs" using parts_okD [OF Cons.prems(2)] by blast+
      then show ?thesis using part_ok_cong [of fs1 q fs] other False by simp
    qed
    then show "pw_dir q = k" "part_ok N q fs1" by blast+
  qed
  have dok1: "dirs_ok N fs1"
    using Cons.prems(3) spec d1 other unfolding dirs_ok_def part_ok_def by metis
  note IH = Cons.IH [OF f(2) ok1 dok1]
  have none: "map_of A d = None" "map_of ps d = None" "map_of B d = None"
    using dist by (auto simp: map_of_eq_None_iff)
  have log: "dir_log ((A @ [(d, p1)]) @ ps @ B) fs1 x = dir_log (A @ (dp # ps) @ B) fs x" if "e = None" for x
  proof (cases "x = d")
    case True
    have "part_log p1 fs1 = part_log p fs" using spec that by blast
    then show ?thesis
      using True none d1 p(1) by (simp add: dir_log_def buffer_of_def part_log_def dp map_add_def)
  next
    case False
    then show ?thesis using other by (simp add: dir_log_def buffer_of_def dp map_add_def split: option.splits)
  qed
  have keys: "map fst parts' = map fst (dp # ps)" using IH by (simp add: f(3) dp)
  have closed: "\<forall>(d, p) \<in> set parts'. pw_enc p = None" using IH spec by (simp add: f(3))
  have rest: "\<forall>x. x \<notin> fst ` set (dp # ps) \<longrightarrow> dir_of fs' x = dir_of fs x" using IH other by (simp add: dp)
  have logs: "dir_log (A @ parts' @ B) fs' x = dir_log (A @ (dp # ps) @ B) fs x" if "errs = []" for x
  proof -
    have "e = None" "errs2 = []" using that f(4) by (auto split: option.splits)
    then show ?thesis using IH log [of x] by (simp add: f(3))
  qed
  have "parts_ok N (A @ parts' @ B) fs'" "dirs_ok N fs'" using IH by (simp_all add: f(3))
  then show ?case using keys closed rest logs by blast
qed

section \<open>The writer\<close>

definition all_parts :: "writer \<Rightarrow> (string \<times> archive_row part_writer) list" where
  "all_parts w = wr_match w @ wr_timeline w @ wr_league w @ wr_static w @ wr_account w"

text \<open>Each map holds the directories of its own API.\<close>

definition keys_ok :: "writer \<Rightarrow> bool" where
  "keys_ok w =
     ((\<forall>d \<in> fst ` set (wr_match w). \<exists>x. d = MatchDir (wr_root w) x) \<and>
      (\<forall>d \<in> fst ` set (wr_timeline w). \<exists>x. d = TimelineDir (wr_root w) x) \<and>
      (\<forall>d \<in> fst ` set (wr_league w). \<exists>x y. d = LeagueDir (wr_root w) x y) \<and>
      (\<forall>d \<in> fst ` set (wr_static w). \<exists>x y. d = StaticDir (wr_root w) x y) \<and>
      (\<forall>d \<in> fst ` set (wr_account w). \<exists>x. d = AccountDir (wr_root w) x))"

definition archive_ok :: "int \<Rightarrow> archive \<Rightarrow> bool" where
  "archive_ok N ar =
     (parts_ok N (all_parts (fst ar)) (snd ar) \<and> dirs_ok N (snd ar) \<and> 0 \<le> N \<and> keys_ok (fst ar))"

definition arch_log :: "archive \<Rightarrow> string \<Rightarrow> archive_row list" where
  "arch_log ar dir = dir_log (all_parts (fst ar)) (snd ar) dir"

definition arch_published :: "archive \<Rightarrow> string \<Rightarrow> archive_row list" where
  "arch_published ar dir = published_rows (dir_of (snd ar) dir)"

lemma archive_ok_mono:
  assumes "archive_ok N ar" and "N \<le> M"
  shows "archive_ok M ar"
proof -
  have ok: "parts_ok N (all_parts (fst ar)) (snd ar)" "dirs_ok N (snd ar)" "0 \<le> N" "keys_ok (fst ar)"
    using assms(1) by (simp_all add: archive_ok_def)
  have "parts_ok M (all_parts (fst ar)) (snd ar)"
    using ok(1) part_ok_mono [OF _ assms(2)] unfolding parts_ok_def by blast
  moreover have "dirs_ok M (snd ar)"
    using ok(2) dir_ok_mono [OF _ assms(2)] unfolding dirs_ok_def by blast
  ultimately show ?thesis using ok assms(2) by (simp add: archive_ok_def)
qed

lemmas dir_defs = MatchDir_def TimelineDir_def LeagueDir_def StaticDir_def AccountDir_def archiveRoot_def join_def

lemma dirs_differ:
  "MatchDir r x \<noteq> TimelineDir r y" "MatchDir r x \<noteq> LeagueDir r y z" "MatchDir r x \<noteq> StaticDir r y z"
  "MatchDir r x \<noteq> AccountDir r y" "TimelineDir r x \<noteq> LeagueDir r y z" "TimelineDir r x \<noteq> StaticDir r y z"
  "TimelineDir r x \<noteq> AccountDir r y"
  by (simp_all add: dir_defs)

lemma key_elsewhere:
  "\<forall>d \<in> K. \<exists>x. d = F x \<Longrightarrow> (\<And>x. D \<noteq> F x) \<Longrightarrow> D \<notin> K"
  "\<forall>d \<in> K. \<exists>x y. d = G x y \<Longrightarrow> (\<And>x y. D \<noteq> G x y) \<Longrightarrow> D \<notin> K"
  by blast+

lemma keys_okD:
  assumes "keys_ok w"
  shows "\<forall>d \<in> fst ` set (wr_match w). \<exists>x. d = MatchDir (wr_root w) x"
    "\<forall>d \<in> fst ` set (wr_timeline w). \<exists>x. d = TimelineDir (wr_root w) x"
    "\<forall>d \<in> fst ` set (wr_league w). \<exists>x y. d = LeagueDir (wr_root w) x y"
    "\<forall>d \<in> fst ` set (wr_static w). \<exists>x y. d = StaticDir (wr_root w) x y"
    "\<forall>d \<in> fst ` set (wr_account w). \<exists>x. d = AccountDir (wr_root w) x"
  using assms unfolding keys_ok_def by - (elim conjE, assumption)+

lemma match_dir_elsewhere:
  assumes "keys_ok w"
  shows "MatchDir (wr_root w) x \<notin> fst ` set (wr_timeline w @ wr_league w @ wr_static w @ wr_account w)"
proof -
  note k = keys_okD(2-5) [OF assms]
  let ?d = "MatchDir (wr_root w) x"
  have "?d \<notin> fst ` set (wr_timeline w)" "?d \<notin> fst ` set (wr_league w)"
    "?d \<notin> fst ` set (wr_static w)" "?d \<notin> fst ` set (wr_account w)"
    by (rule key_elsewhere(1) [OF k(1)] key_elsewhere(2) [OF k(2)] key_elsewhere(2) [OF k(3)]
        key_elsewhere(1) [OF k(4)], rule dirs_differ)+
  then show ?thesis by (simp only: set_append image_Un Un_iff simp_thms)
qed

lemma timeline_dir_elsewhere:
  assumes "keys_ok w"
  shows "TimelineDir (wr_root w) x \<notin> fst ` set (wr_match w) \<and>
    TimelineDir (wr_root w) x \<notin> fst ` set (wr_league w @ wr_static w @ wr_account w)"
proof -
  note k = keys_okD(1,3,4,5) [OF assms]
  let ?d = "TimelineDir (wr_root w) x"
  have "?d \<notin> fst ` set (wr_match w)" "?d \<notin> fst ` set (wr_league w)"
    "?d \<notin> fst ` set (wr_static w)" "?d \<notin> fst ` set (wr_account w)"
    by (rule key_elsewhere(1) [OF k(1)] key_elsewhere(2) [OF k(2)] key_elsewhere(2) [OF k(3)]
        key_elsewhere(1) [OF k(4)], rule dirs_differ dirs_differ [symmetric])+
  then show ?thesis by (simp only: set_append image_Un Un_iff simp_thms)
qed

lemma WriteMatch_spec:
  assumes "WriteMatch sha encode io now cancelled dto meta ar = (e, ar')" and "archive_ok N ar"
    and "N + indexSkips \<le> max_duration" and "\<not> loses_rows e"
  shows "archive_ok (N + indexSkips) ar' \<and> wr_root (fst ar') = wr_root (fst ar) \<and>
    (\<forall>x. set (arch_log ar x) \<subseteq> set (arch_log ar' x)) \<and>
    (e = None \<longrightarrow> (\<exists>x. RowMatch (matchRow sha encode dto meta) \<in> set (arch_log ar' x)))"
proof -
  obtain w fs where ar: "ar = (w, fs)" by (cases ar)
  let ?dir = "MatchDir (wr_root w) (PartitionDate meta)"
  let ?B = "wr_timeline w @ wr_league w @ wr_static w @ wr_account w"
  have N: "N \<le> N + indexSkips" by (simp add: indexSkips_def)
  show ?thesis
  proof (cases "cancelled \<or> mm_FetchedAt meta = 0 \<or> wr_closed w")
    case True
    then have "ar' = ar" "e \<noteq> None" using assms(1) by (auto simp: WriteMatch_def ar split: if_splits)
    moreover have "archive_ok (N + indexSkips) ar"
      using assms(2) N by (rule archive_ok_mono)
    ultimately show ?thesis by auto
  next
    case False
    then obtain parts fs' where a: "append_to (wr_rowsPerPart w) io now ?dir (RowMatch (matchRow sha encode dto meta)) (wr_match w) fs = (e, parts, fs')"
      and ar': "ar' = (w\<lparr>wr_match := parts\<rparr>, fs')"
      using assms(1) by (auto simp: WriteMatch_def ar split: prod.splits)
    have ok: "parts_ok N ([] @ wr_match w @ ?B) fs" "dirs_ok N fs" "0 \<le> N" "keys_ok w"
      using assms(2) by (simp_all add: archive_ok_def ar all_parts_def)
    have out: "?dir \<notin> fst ` set ?B"
      using ok(4) by (rule match_dir_elsewhere)
    note spec = append_to_spec [OF a ok(1-3) assms(3) _ out, simplified]
    have logs: "arch_log ar x = dir_log (wr_match w @ ?B) fs x" "arch_log ar' x = dir_log (parts @ ?B) fs' x" for x
      by (simp_all add: arch_log_def ar ar' all_parts_def)
    have "keys_ok (w\<lparr>wr_match := parts\<rparr>)" using ok(4) spec by (auto simp: keys_ok_def)
    then have "archive_ok (N + indexSkips) ar'"
      using spec ok(3) N by (simp add: archive_ok_def ar' all_parts_def)
    moreover have "set (arch_log ar x) \<subseteq> set (arch_log ar' x)" for x
    proof (cases "x = ?dir")
      case True
      then show ?thesis using spec assms(4) by (cases e) (simp_all add: logs subset_insertI)
    next
      case False
      then show ?thesis using spec by (simp add: logs)
    qed
    moreover have "e = None \<longrightarrow> RowMatch (matchRow sha encode dto meta) \<in> set (arch_log ar' ?dir)"
      using spec by (simp add: logs)
    ultimately show ?thesis by (auto simp: ar ar')
  qed
qed

lemma WriteTimeline_spec:
  assumes "WriteTimeline sha encode io now cancelled dto meta ar = (e, ar')" and "archive_ok N ar"
    and "N + indexSkips \<le> max_duration" and "\<not> loses_rows e"
  shows "archive_ok (N + indexSkips) ar' \<and> wr_root (fst ar') = wr_root (fst ar) \<and>
    (\<forall>x. set (arch_log ar x) \<subseteq> set (arch_log ar' x)) \<and>
    (e = None \<longrightarrow> (\<exists>x. RowTimeline (timelineRow sha encode dto meta) \<in> set (arch_log ar' x)))"
proof -
  obtain w fs where ar: "ar = (w, fs)" by (cases ar)
  let ?dir = "TimelineDir (wr_root w) (PartitionDate meta)"
  let ?B = "wr_league w @ wr_static w @ wr_account w"
  have N: "N \<le> N + indexSkips" by (simp add: indexSkips_def)
  show ?thesis
  proof (cases "cancelled \<or> mm_FetchedAt meta = 0 \<or> wr_closed w")
    case True
    then have "ar' = ar" "e \<noteq> None" using assms(1) by (auto simp: WriteTimeline_def ar split: if_splits)
    moreover have "archive_ok (N + indexSkips) ar"
      using assms(2) N by (rule archive_ok_mono)
    ultimately show ?thesis by auto
  next
    case False
    then obtain parts fs' where a: "append_to (wr_rowsPerPart w) io now ?dir (RowTimeline (timelineRow sha encode dto meta)) (wr_timeline w) fs = (e, parts, fs')"
      and ar': "ar' = (w\<lparr>wr_timeline := parts\<rparr>, fs')"
      using assms(1) by (auto simp: WriteTimeline_def ar split: prod.splits)
    have ok: "parts_ok N (wr_match w @ wr_timeline w @ ?B) fs" "dirs_ok N fs" "0 \<le> N" "keys_ok w"
      using assms(2) by (simp_all add: archive_ok_def ar all_parts_def)
    have out: "?dir \<notin> fst ` set ?B" "?dir \<notin> fst ` set (wr_match w)"
      using timeline_dir_elsewhere [OF ok(4)] by blast+
    note spec = append_to_spec [OF a ok(1-3) assms(3) out(2,1)]
    have logs: "arch_log ar x = dir_log (wr_match w @ wr_timeline w @ ?B) fs x"
      "arch_log ar' x = dir_log (wr_match w @ parts @ ?B) fs' x" for x
      by (simp_all add: arch_log_def ar ar' all_parts_def)
    have "keys_ok (w\<lparr>wr_timeline := parts\<rparr>)" using ok(4) spec by (auto simp: keys_ok_def)
    then have "archive_ok (N + indexSkips) ar'"
      using spec ok(3) N by (simp add: archive_ok_def ar' all_parts_def)
    moreover have "set (arch_log ar x) \<subseteq> set (arch_log ar' x)" for x
    proof (cases "x = ?dir")
      case True
      then show ?thesis using spec assms(4) by (cases e) (simp_all add: logs subset_insertI)
    next
      case False
      then show ?thesis using spec by (simp add: logs)
    qed
    moreover have "e = None \<longrightarrow> RowTimeline (timelineRow sha encode dto meta) \<in> set (arch_log ar' ?dir)"
      using spec by (simp add: logs)
    ultimately show ?thesis by (auto simp: ar ar')
  qed
qed

lemma Flush_spec:
  assumes "Flush io False ar = (e, ar')" and "archive_ok N ar"
  shows "archive_ok N ar' \<and> wr_root (fst ar') = wr_root (fst ar) \<and>
    (e = None \<longrightarrow> (\<forall>x. arch_log ar' x = arch_log ar x \<and> arch_published ar' x = arch_log ar x))"
proof -
  obtain w fs where ar: "ar = (w, fs)" by (cases ar)
  let ?m = "wr_match w" and ?t = "wr_timeline w" and ?l = "wr_league w" and ?s = "wr_static w" and ?a = "wr_account w"
  obtain e1 m f1 where r1: "finalize_parts io ?m fs = (e1, m, f1)" by (metis prod_cases3)
  obtain e2 t f2 where r2: "finalize_parts io ?t f1 = (e2, t, f2)" by (metis prod_cases3)
  obtain e3 l f3 where r3: "finalize_parts io ?l f2 = (e3, l, f3)" by (metis prod_cases3)
  obtain e4 s f4 where r4: "finalize_parts io ?s f3 = (e4, s, f4)" by (metis prod_cases3)
  obtain e5 a f5 where r5: "finalize_parts io ?a f4 = (e5, a, f5)" by (metis prod_cases3)
  have ar': "ar' = (w\<lparr>wr_match := m, wr_timeline := t, wr_league := l, wr_static := s, wr_account := a\<rparr>, f5)"
    and e: "e = join_errors (e1 @ e2 @ e3 @ e4 @ e5)"
    using assms(1) by (simp_all add: Flush_def finalizeAll_def ar r1 r2 r3 r4 r5)
  have ok0: "parts_ok N ([] @ ?m @ (?t @ ?l @ ?s @ ?a)) fs" "dirs_ok N fs" "0 \<le> N" "keys_ok w"
    using assms(2) by (simp_all add: archive_ok_def ar all_parts_def)
  note s1 = finalize_parts_spec [OF r1 ok0(1,2)]
  have p1: "parts_ok N (m @ ?t @ (?l @ ?s @ ?a)) f1" "dirs_ok N f1" using s1 by simp_all
  note s2 = finalize_parts_spec [OF r2 p1]
  have p2: "parts_ok N ((m @ t) @ ?l @ (?s @ ?a)) f2" "dirs_ok N f2" using s2 by simp_all
  note s3 = finalize_parts_spec [OF r3 p2]
  have p3: "parts_ok N ((m @ t @ l) @ ?s @ ?a) f3" "dirs_ok N f3" using s3 by simp_all
  note s4 = finalize_parts_spec [OF r4 p3]
  have p4: "parts_ok N ((m @ t @ l @ s) @ ?a @ []) f4" "dirs_ok N f4" using s4 by simp_all
  note s5 = finalize_parts_spec [OF r5 p4]
  have keys: "fst ` set m = fst ` set ?m" "fst ` set t = fst ` set ?t" "fst ` set l = fst ` set ?l"
    "fst ` set s = fst ` set ?s" "fst ` set a = fst ` set ?a"
    using s1 s2 s3 s4 s5 by (metis list.set_map)+
  have "keys_ok (fst ar')" using ok0(4) keys by (simp add: keys_ok_def ar')
  then have ok: "archive_ok N ar'" using s5 ok0(3) by (simp add: archive_ok_def ar' all_parts_def)
  have closed: "pw_enc p = None" if "(d, p) \<in> set (all_parts (fst ar'))" for d p
    using that s1 s2 s3 s4 s5 by (auto simp: all_parts_def ar')
  have buf: "buffer_of (all_parts (fst ar')) x = []" for x
    using closed by (auto simp: buffer_of_def split: option.splits dest!: map_of_SomeD)
  have "arch_log ar' x = arch_log ar x \<and> arch_published ar' x = arch_log ar x" if "e = None" for x
  proof -
    have "e1 = []" "e2 = []" "e3 = []" "e4 = []" "e5 = []"
      using that by (auto simp: e join_errors_def split: if_splits)
    then have "dir_log (m @ t @ l @ s @ a) f5 x = dir_log (?m @ ?t @ ?l @ ?s @ ?a) fs x"
      using s1 s2 s3 s4 s5 by simp
    then have "arch_log ar' x = arch_log ar x" by (simp add: arch_log_def ar ar' all_parts_def)
    moreover have "arch_published ar' x = arch_log ar' x"
      by (simp add: arch_published_def arch_log_def dir_log_def buf)
    ultimately show ?thesis by simp
  qed
  then show ?thesis using ok by (simp add: ar' ar)
qed

text \<open>Publication cannot fail when its file operations do not.\<close>

definition publishes :: "io \<Rightarrow> bool" where
  "publishes io = (io_close io \<and> io_sync io \<and> io_fclose io \<and> io_rename io)"

lemma finalize_publishes: "publishes io \<Longrightarrow> fst (finalize_part io p fs) = None"
  by (auto simp: finalize_part_def publishes_def Let_def split: option.splits)

lemma create_part_kind: "\<not> loses_rows (fst (create_part io now k i p fs))"
  by (induction k arbitrary: i p) (auto simp: Let_def loses_rows_def split: if_splits)

lemma append_publishes:
  assumes "publishes io"
  shows "\<not> loses_rows (fst (append_row rpp io now row p fs))"
proof -
  have o: "\<not> loses_rows (fst (open_part io now p fs))"
    by (simp add: open_part_def Let_def create_part_kind split_beta) (simp add: loses_rows_def)
  obtain e1 p1 fs1 where r: "(if pw_enc p = None then open_part io now p fs else (None, p, fs)) = (e1, p1, fs1)"
    by (metis prod_cases3)
  have "\<not> loses_rows e1" using o r by (cases "pw_enc p") (simp_all add: loses_rows_def)
  then show ?thesis
    by (cases e1) (simp_all add: append_row_def r Let_def finalize_publishes [OF assms] loses_rows_def)
qed

lemma append_to_publishes: "publishes io \<Longrightarrow> \<not> loses_rows (fst (append_to rpp io now dir row parts fs))"
  by (simp add: append_to_def split_beta append_publishes)

lemma WriteMatch_publishes: "publishes io \<Longrightarrow> \<not> loses_rows (fst (WriteMatch sha encode io now c dto meta ar))"
  by (simp add: WriteMatch_def split_beta append_to_publishes) (simp add: loses_rows_def)

lemma WriteTimeline_publishes: "publishes io \<Longrightarrow> \<not> loses_rows (fst (WriteTimeline sha encode io now c dto meta ar))"
  by (simp add: WriteTimeline_def split_beta append_to_publishes) (simp add: loses_rows_def)

lemma finalize_parts_publishes:
  "(\<And>d. publishes (io d)) \<Longrightarrow> fst (finalize_parts io parts fs) = []"
proof (induction parts arbitrary: fs)
  case (Cons dp ps)
  show ?case
    by (cases dp) (simp add: split_beta finalize_publishes [OF Cons.prems] Cons.IH [OF Cons.prems])
qed simp

lemma Flush_publishes: "(\<And>d. publishes (io d)) \<Longrightarrow> fst (Flush io False ar) = None"
  by (simp add: Flush_def finalizeAll_def join_errors_def split_beta finalize_parts_publishes)

section \<open>The contract\<close>

text \<open>
  What a caller may rely on: \<open>ok n s\<close> says that the store \<open>s\<close> is sound and has room for \<open>n\<close> more
  writes; \<open>sound x\<close> that the write \<open>x\<close> is not one whose publication may fail. A row held is a row
  written and not lost, a row safe is one a reader sees.
\<close>

locale archive_contract =
  fixes ok :: "nat \<Rightarrow> 's \<Rightarrow> bool"
    and put :: "'x \<Rightarrow> 's \<Rightarrow> 'e option \<times> 's"
    and row :: "'x \<Rightarrow> 'r"
    and sound :: "'x \<Rightarrow> bool"
    and flush :: "'f \<Rightarrow> 's \<Rightarrow> 'e option \<times> 's"
    and held :: "'s \<Rightarrow> 'r set"
    and safe :: "'s \<Rightarrow> 'r set"
  assumes put_law: "ok (Suc n) s \<Longrightarrow> sound x \<Longrightarrow> put x s = (e, s') \<Longrightarrow>
      ok n s' \<and> held s \<subseteq> held s' \<and> (e = None \<longrightarrow> row x \<in> held s')"
    and flush_law: "ok n s \<Longrightarrow> flush f s = (e, s') \<Longrightarrow> ok n s' \<and> (e = None \<longrightarrow> held s' = held s \<and> safe s' = held s)"
    and room_law: "ok n s \<Longrightarrow> m \<le> n \<Longrightarrow> ok m s"
begin

fun puts :: "'x list \<Rightarrow> 's \<Rightarrow> 'x list \<times> 's" where
  "puts [] s = ([], s)"
| "puts (x # xs) s =
     (let (e, s1) = put x s; (kept, s2) = puts xs s1 in (if e = None then x # kept else kept, s2))"

lemma put_row: "ok (Suc n) s \<Longrightarrow> sound x \<Longrightarrow> put x s = (None, s') \<Longrightarrow> row x \<in> held s'"
  using put_law by blast

lemma puts_held:
  "ok (length xs + n) s \<Longrightarrow> \<forall>x \<in> set xs. sound x \<Longrightarrow> puts xs s = (kept, s') \<Longrightarrow>
     ok n s' \<and> held s \<subseteq> held s' \<and> row ` set kept \<subseteq> held s'"
proof (induction xs arbitrary: s kept s')
  case (Cons x xs)
  obtain e s1 where p: "put x s = (e, s1)" by (metis surj_pair)
  obtain kept' s2 where r: "puts xs s1 = (kept', s2)" by (metis surj_pair)
  have law: "ok (length xs + n) s1" "held s \<subseteq> held s1" "e = None \<Longrightarrow> row x \<in> held s1"
    using put_law [OF _ _ p, of "length xs + n"] Cons.prems(1,2) by simp_all
  have eqs: "kept = (if e = None then x # kept' else kept')" "s' = s2"
    using Cons.prems(3) by (simp_all add: p r)
  have "ok n s2 \<and> held s1 \<subseteq> held s2 \<and> row ` set kept' \<subseteq> held s2"
    using Cons.IH [OF law(1) _ r] Cons.prems(2) by simp
  then show ?case using law eqs by auto
qed simp

text \<open>Every write that returned nil is in a published part once a flush has returned nil.\<close>

lemma flushed_puts_are_safe:
  assumes "ok (length xs + n) s" and "\<forall>x \<in> set xs. sound x" and "puts xs s = (kept, s1)" and "flush f s1 = (None, s2)"
  shows "held s \<union> row ` set kept \<subseteq> safe s2"
  using puts_held [OF assms(1-3)] flush_law [OF _ assms(4)] by auto

end

text \<open>The writer provides it: the writes of the crawl, a flush on a live context.\<close>

datatype archive_put =
    PutMatch "string \<Rightarrow> string" "MatchDTO \<Rightarrow> string option" io gtime bool MatchDTO MatchMeta
  | PutTimeline "string \<Rightarrow> string" "TimelineDTO \<Rightarrow> string option" io gtime bool TimelineDTO MatchMeta

fun archive_write :: "archive_put \<Rightarrow> archive \<Rightarrow> raw_error option \<times> archive" where
  "archive_write (PutMatch sha encode io now c dto meta) ar = WriteMatch sha encode io now c dto meta ar"
| "archive_write (PutTimeline sha encode io now c dto meta) ar = WriteTimeline sha encode io now c dto meta ar"

fun put_row_of :: "archive_put \<Rightarrow> archive_row" where
  "put_row_of (PutMatch sha encode io now c dto meta) = RowMatch (matchRow sha encode dto meta)"
| "put_row_of (PutTimeline sha encode io now c dto meta) = RowTimeline (timelineRow sha encode dto meta)"

fun put_publishes :: "archive_put \<Rightarrow> bool" where
  "put_publishes (PutMatch sha encode io now c dto meta) = publishes io"
| "put_publishes (PutTimeline sha encode io now c dto meta) = publishes io"

definition held_rows :: "archive \<Rightarrow> archive_row set" where
  "held_rows ar = {r. \<exists>x. r \<in> set (arch_log ar x)}"

definition safe_rows :: "archive \<Rightarrow> archive_row set" where
  "safe_rows ar = {r. \<exists>x. r \<in> set (arch_published ar x)}"

definition archive_room :: "nat \<Rightarrow> archive \<Rightarrow> bool" where
  "archive_room n ar = (\<exists>N. archive_ok N ar \<and> N + int n * indexSkips \<le> max_duration)"

lemma indexSkips_nonneg: "0 \<le> indexSkips"
  by (simp add: indexSkips_def)

lemma archive_room_mono: "archive_room n ar \<Longrightarrow> m \<le> n \<Longrightarrow> archive_room m ar"
proof -
  assume "archive_room n ar" and le: "m \<le> n"
  then obtain N where N: "archive_ok N ar" "N + int n * indexSkips \<le> max_duration" by (auto simp: archive_room_def)
  have "int m * indexSkips \<le> int n * indexSkips"
    using le indexSkips_nonneg by (simp add: mult_right_mono)
  then have "N + int m * indexSkips \<le> max_duration" using N(2) by linarith
  with N(1) show ?thesis by (auto simp: archive_room_def)
qed

lemma archive_write_spec:
  assumes "archive_write x ar = (e, ar')" and "archive_ok N ar" and "N + indexSkips \<le> max_duration" and "\<not> loses_rows e"
  shows "archive_ok (N + indexSkips) ar' \<and> held_rows ar \<subseteq> held_rows ar' \<and> (e = None \<longrightarrow> put_row_of x \<in> held_rows ar')"
proof (cases x)
  case (PutMatch sha encode io now c dto meta)
  then have "WriteMatch sha encode io now c dto meta ar = (e, ar')" using assms(1) by simp
  from WriteMatch_spec [OF this assms(2-4)] show ?thesis by (auto simp: PutMatch held_rows_def)
next
  case (PutTimeline sha encode io now c dto meta)
  then have "WriteTimeline sha encode io now c dto meta ar = (e, ar')" using assms(1) by simp
  from WriteTimeline_spec [OF this assms(2-4)] show ?thesis by (auto simp: PutTimeline held_rows_def)
qed

lemma archive_write_publishes: "put_publishes x \<Longrightarrow> \<not> loses_rows (fst (archive_write x ar))"
  by (cases x) (simp_all add: WriteMatch_publishes WriteTimeline_publishes)

interpretation archive: archive_contract archive_room archive_write put_row_of put_publishes "\<lambda>f. Flush f False" held_rows safe_rows
proof
  fix n s x e s'
  assume a: "archive_room (Suc n) s" "put_publishes x" "archive_write x s = (e, s')"
  obtain N where N: "archive_ok N s" "N + int (Suc n) * indexSkips \<le> max_duration"
    using a(1) by (auto simp: archive_room_def)
  have split: "int (Suc n) * indexSkips = indexSkips + int n * indexSkips" by (simp add: algebra_simps)
  have nn: "0 \<le> int n * indexSkips" using indexSkips_nonneg by simp
  have lim: "N + indexSkips \<le> max_duration" using N(2) split nn by linarith
  have room: "N + indexSkips + int n * indexSkips \<le> max_duration" using N(2) split by linarith
  have "\<not> loses_rows e" using archive_write_publishes [OF a(2), of s] a(3) by simp
  note spec = archive_write_spec [OF a(3) N(1) lim this]
  then have "archive_room n s'" using room by (auto simp: archive_room_def)
  then show "archive_room n s' \<and> held_rows s \<subseteq> held_rows s' \<and> (e = None \<longrightarrow> put_row_of x \<in> held_rows s')"
    using spec by simp
next
  fix n s f e s'
  assume a: "archive_room n s" "Flush f False s = (e, s')"
  obtain N where N: "archive_ok N s" "N + int n * indexSkips \<le> max_duration"
    using a(1) by (auto simp: archive_room_def)
  note spec = Flush_spec [OF a(2) N(1)]
  then have "archive_room n s'" using N(2) by (auto simp: archive_room_def)
  then show "archive_room n s' \<and> (e = None \<longrightarrow> held_rows s' = held_rows s \<and> safe_rows s' = held_rows s)"
    using spec by (auto simp: held_rows_def safe_rows_def)
qed (rule archive_room_mono)

end
