(* ===== verification/Crawl_Meta.thy ===== *)
theory Crawl_Meta
  imports Raw_Writer Riot_Errors
begin

text \<open>
  What the crawl derives from a payload (\<^verbatim>\<open>internal/crawl/crawl.go\<close>, \<^verbatim>\<open>timeline.go\<close>): metadata,
  control-plane records, the patch, the participants, and the classification of a client error
  (\<^verbatim>\<open>classify\<close> and \<^verbatim>\<open>shortCause\<close> of \<^verbatim>\<open>worker.go\<close>). The text of an error is a parameter.
\<close>

definition DefaultRegion :: string where
  "DefaultRegion = ''EUW''"

definition PrioritySeed :: int where
  "PrioritySeed = 0"

definition PriorityParticipant :: int where
  "PriorityParticipant = 200"

definition PriorityBackfill :: int where
  "PriorityBackfill = 300"

definition PriorityTimeline :: int where
  "PriorityTimeline = 250"

section \<open>Metadata\<close>

text \<open>\<^verbatim>\<open>strings.SplitN(s, ".", 3)\<close> and its first two parts.\<close>

definition PatchFromGameVersion :: "string \<Rightarrow> string" where
  "PatchFromGameVersion v =
     (case split_on (CHR ''.'') (trim_space v) of
        major # minor # rest \<Rightarrow> major @ ''.'' @ minor
      | parts \<Rightarrow> [])"

definition MatchMetaFromDTO :: "MatchDTO \<Rightarrow> string \<Rightarrow> string \<Rightarrow> gtime \<Rightarrow> MatchMeta" where
  "MatchMetaFromDTO dto matchID region fetchedAt =
     \<lparr>mm_MatchID = matchID, mm_Region = region, mm_QueueID = d_QueueID dto,
      mm_Patch = PatchFromGameVersion (d_GameVersion dto), mm_GameVersion = d_GameVersion dto,
      mm_GameCreation = from_unix_milli (d_GameCreation dto), mm_GameDurationS = d_GameDuration dto,
      mm_PayloadVersion = ''1'', mm_FetchedAt = fetchedAt\<rparr>"

definition MatchRecordFromMeta :: "MatchMeta \<Rightarrow> string \<Rightarrow> MatchRecord" where
  "MatchRecordFromMeta meta uri =
     \<lparr>mr_MatchID = mm_MatchID meta, mr_Region = mm_Region meta, mr_QueueID = mm_QueueID meta,
      mr_Patch = mm_Patch meta, mr_GameVersion = mm_GameVersion meta, mr_GameCreation = mm_GameCreation meta,
      mr_GameDurationS = mm_GameDurationS meta, mr_PayloadVersion = mm_PayloadVersion meta, mr_RawURI = uri,
      mr_Status = Some MatchFetched, mr_FetchedAt = mm_FetchedAt meta, mr_ParsedAt = 0, mr_Err = []\<rparr>"

definition TimelineMetaFromRecord :: "MatchRecord \<Rightarrow> string \<Rightarrow> gtime \<Rightarrow> MatchMeta" where
  "TimelineMetaFromRecord rec region fetchedAt =
     \<lparr>mm_MatchID = mr_MatchID rec, mm_Region = (if region = [] then mr_Region rec else region),
      mm_QueueID = mr_QueueID rec, mm_Patch = mr_Patch rec, mm_GameVersion = mr_GameVersion rec,
      mm_GameCreation = mr_GameCreation rec, mm_GameDurationS = mr_GameDurationS rec,
      mm_PayloadVersion = ''1'', mm_FetchedAt = fetchedAt\<rparr>"

definition ParticipantPUUIDs :: "MatchDTO \<Rightarrow> string list" where
  "ParticipantPUUIDs dto =
     dedupe_by id (filter (\<lambda>p. trim_space p \<noteq> []) (d_Participants dto @ d_PUUIDs dto))"

section \<open>Errors\<close>

datatype failureClass =
    FailureTransient | FailureRateLimited | FailureKeyRefused | FailureGone | FailureBadRequest | FailureCancelled

definition classify :: "go_error \<Rightarrow> failureClass" where
  "classify err =
     (if as_limited err \<noteq> None then FailureRateLimited
      else if is_ctx_error err then FailureCancelled
      else (case as_status err of
              None \<Rightarrow> FailureTransient
            | Some (m, status, b) \<Rightarrow>
                if status = 404 \<or> status = 410 then FailureGone
                else if status = 400 \<or> status = 422 then FailureBadRequest
                else if status = 401 \<or> status = 403 then FailureKeyRefused
                else if status = 429 then FailureRateLimited
                else FailureTransient))"

definition shortCause :: "(go_error \<Rightarrow> string) \<Rightarrow> go_error \<Rightarrow> string" where
  "shortCause show_err err = (let msg = show_err err in if 200 < length msg then take 200 msg else msg)"

section \<open>Lemmas\<close>

lemma participants_distinct: "distinct (ParticipantPUUIDs dto)"
  using dedupe_by_distinct [of id] by (simp add: ParticipantPUUIDs_def)

lemma participants_named: "p \<in> set (ParticipantPUUIDs dto) \<Longrightarrow> trim_space p \<noteq> []"
  using dedupe_by_subset [of id] by (fastforce simp: ParticipantPUUIDs_def)

lemma shortCause_bounded: "length (shortCause show_err err) \<le> 200"
  by (simp add: shortCause_def Let_def)

lemma patch_examples:
  "PatchFromGameVersion ''14.23.1.1234'' = ''14.23''" "PatchFromGameVersion ''14'' = []"
  "PatchFromGameVersion '' 15.1 '' = ''15.1''"
  by code_simp+

end
