(* ===== verification/Crawl_Worker.thy ===== *)
theory Crawl_Worker
  imports Crawl_Meta Store_Matches Store_Frontier Riot_Clock Riot_Key
begin

text \<open>
  The crawl worker (\<^verbatim>\<open>internal/crawl/worker.go\<close> and \<^verbatim>\<open>timeline.go\<close>): claiming a batch, fetching,
  archiving, recording and closing its rows, walking the frontier, pausing, idling and stopping.
  The state threads the control plane's tables, the archive and the loop's own fields. The
  environment is a record of what the outside does at the n-th interaction: whether a statement
  succeeds, which rows others hold, what the client answers and how long it takes, how a file
  operation ends, the next random number. The run's context is the instant it is cancelled, if it
  is; a statement on a cancelled context fails, a detached one does not. Logs and metrics are left
  out.
\<close>

section \<open>Options, environment, state\<close>

record worker_opts =
  wo_region :: string
  wo_store_region :: string
  wo_kind :: QueueKind
  wo_queue :: int
  wo_JobBatch :: int
  wo_FrontierBatch :: int
  wo_HistoryCount :: int
  wo_MaxAttempts :: int
  wo_JobTimeout :: duration
  wo_ClaimGrace :: duration
  wo_RetryBase :: duration
  wo_RetryMax :: duration
  wo_PollInterval :: duration
  wo_ReportInterval :: duration
  wo_cooldown :: duration
  wo_expiry :: key_expiry
  wo_known :: bool
  wo_releaser :: bool
  wo_recoverer :: bool
  wo_pacer :: bool
  wo_keys :: bool
  wo_provenance :: bool

record env =
  e_cancel :: "gtime option"
  e_db :: "nat \<Rightarrow> bool"
  e_locked :: "nat \<Rightarrow> int set"
  e_flocked :: "nat \<Rightarrow> string set"
  e_match :: "nat \<Rightarrow> string \<Rightarrow> (go_error + MatchDTO) \<times> duration"
  e_timeline :: "nat \<Rightarrow> string \<Rightarrow> (go_error + TimelineDTO) \<times> duration"
  e_ids :: "nat \<Rightarrow> string \<Rightarrow> (go_error + string list) \<times> duration"
  e_io :: "nat \<Rightarrow> io"
  e_fio :: "nat \<Rightarrow> string \<Rightarrow> io"
  e_rand :: "nat \<Rightarrow> int"
  e_blocked :: "nat \<Rightarrow> duration \<times> bool"
  e_key :: "nat \<Rightarrow> bool"
  e_sha :: "string \<Rightarrow> string"
  e_encode :: "MatchDTO \<Rightarrow> string option"
  e_tencode :: "TimelineDTO \<Rightarrow> string option"
  e_show :: "go_error \<Rightarrow> string"
  e_rshow :: "raw_error \<Rightarrow> string"

record world =
  w_now :: gtime
  w_tick :: nat
  w_queue :: queue
  w_front :: frontier
  w_matches :: matches
  w_arch :: archive
  w_retained :: int
  w_warnedEmpty :: bool
  w_pausedFor :: duration
  w_lastReport :: gtime

datatype worker_error =
    NeedsProvenance
  | ClaimFailed | CompleteFailed int | UpsertFailed string | RetryFailed int | ReleaseFailed int | DeadLetterFailed int
  | FlushFailed raw_error
  | FrontierClaimFailed | FrontierDeadFailed | HistoryFailed go_error | EnqueueFailed | FrontierFetchedFailed
  | RecoverFailed
  | ExpiredKey expiry_error "raw_error option"

definition DefaultJobBatch :: int where
  "DefaultJobBatch = 20"

definition DefaultMaxAttempts :: int where
  "DefaultMaxAttempts = 8"

definition DefaultJobTimeout :: duration where
  "DefaultJobTimeout = seconds 10 + seconds 60 + seconds 20"

definition DefaultClaimGrace :: duration where
  "DefaultClaimGrace = minutes 15"

definition maxRateLimitPause :: duration where
  "maxRateLimitPause = minutes 1"

definition claimRecoveryLimit :: int where
  "claimRecoveryLimit = 1000"

definition NewWorker :: "worker_opts \<Rightarrow> worker_error + worker_opts" where
  "NewWorker opt =
     (let opt' = opt\<lparr>wo_region := to_upper (or_default (wo_region opt) DefaultRegion),
                 wo_queue := default_if_nonpos (wo_queue opt) 420,
                 wo_JobBatch := default_if_nonpos (wo_JobBatch opt) DefaultJobBatch,
                 wo_FrontierBatch := default_if_nonpos (wo_FrontierBatch opt) 20,
                 wo_HistoryCount := default_if_nonpos (wo_HistoryCount opt) 20,
                 wo_MaxAttempts := default_if_nonpos (wo_MaxAttempts opt) DefaultMaxAttempts,
                 wo_JobTimeout := default_if_nonpos (wo_JobTimeout opt) DefaultJobTimeout,
                 wo_ClaimGrace := default_if_nonpos (wo_ClaimGrace opt) DefaultClaimGrace,
                 wo_RetryBase := default_if_nonpos (wo_RetryBase opt) (seconds 15),
                 wo_RetryMax := default_if_nonpos (wo_RetryMax opt) (minutes 30),
                 wo_PollInterval := default_if_nonpos (wo_PollInterval opt) (seconds 15),
                 wo_ReportInterval := default_if_nonpos (wo_ReportInterval opt) (seconds 60)\<rparr>
      in if wo_kind opt = KindTimeline \<and> \<not> wo_provenance opt then Inl NeedsProvenance else Inr opt')"

section \<open>Interactions\<close>

definition run_ctx :: "env \<Rightarrow> ctx" where
  "run_ctx E = map_option (\<lambda>t. (t, Canceled)) (e_cancel E)"

definition stopped :: "env \<Rightarrow> world \<Rightarrow> bool" where
  "stopped E w = (ctx_err (run_ctx E) (w_now w) \<noteq> None)"

definition bump :: "world \<Rightarrow> world" where
  "bump w = w\<lparr>w_tick := w_tick w + 1\<rparr>"

text \<open>A statement: \<open>det\<close> says whether its context outlives the stop.\<close>

definition db_ok :: "env \<Rightarrow> bool \<Rightarrow> world \<Rightarrow> bool" where
  "db_ok E det w = (e_db E (w_tick w) \<and> (det \<or> \<not> stopped E w))"

text \<open>The outcomes of the next statements of a call that works in chunks.\<close>

definition db_list :: "env \<Rightarrow> nat \<Rightarrow> world \<Rightarrow> bool list" where
  "db_list E n w = map (\<lambda>k. e_db E (w_tick w + k) \<and> \<not> stopped E w) [0..<n]"

definition bump_by :: "nat \<Rightarrow> world \<Rightarrow> world" where
  "bump_by n w = w\<lparr>w_tick := w_tick w + n\<rparr>"

text \<open>\<^verbatim>\<open>rng.Int63n(n)\<close>, for a positive \<open>n\<close>.\<close>

definition draw :: "env \<Rightarrow> int \<Rightarrow> world \<Rightarrow> int" where
  "draw E n w = e_rand E (w_tick w) mod n"

section \<open>Delays\<close>

fun double_delay :: "nat \<Rightarrow> duration \<Rightarrow> duration \<Rightarrow> duration" where
  "double_delay 0 limit delay = delay"
| "double_delay (Suc n) limit delay = (if delay < limit then double_delay n limit (2 * delay) else delay)"

definition failureBackoff :: "worker_opts \<Rightarrow> int \<Rightarrow> duration" where
  "failureBackoff opt consecutive =
     (let d = double_delay (nat (consecutive - 1)) (wo_RetryMax opt) (wo_RetryBase opt)
      in if wo_RetryMax opt < d then wo_RetryMax opt else d)"

definition retryDelay :: "env \<Rightarrow> worker_opts \<Rightarrow> int \<Rightarrow> world \<Rightarrow> duration \<times> world" where
  "retryDelay E opt attempts w =
     (let half = failureBackoff opt attempts div 2
      in (half + draw E (half + 1) w, bump w))"

definition idleWait :: "env \<Rightarrow> worker_opts \<Rightarrow> world \<Rightarrow> duration \<times> world" where
  "idleWait E opt w =
     (let half = wo_PollInterval opt div 2 in (half + draw E (half + 1) w, bump w))"

definition rateLimitDelay :: "env \<Rightarrow> worker_opts \<Rightarrow> duration \<Rightarrow> world \<Rightarrow> duration \<times> world" where
  "rateLimitDelay E opt start w =
     (if \<not> wo_pacer opt then (start, w)
      else (let (wait, blocked) = e_blocked E (w_tick w); w1 = bump w
            in if \<not> blocked \<or> wait \<le> 0 then (start, w1)
               else if start \<le> 0 then (wait, w1)
               else (wait + draw E start w1, bump w1)))"

section \<open>Handing rows back\<close>

definition retryDetached :: "env \<Rightarrow> QueueItem \<Rightarrow> string \<Rightarrow> world \<Rightarrow> world" where
  "retryDetached E item cause w =
     (if db_ok E True w
      then (bump w)\<lparr>w_queue := RetryJob (qi_ID item) (w_now w) cause (w_queue w)\<rparr>
      else bump w)"

definition requeueAfter :: "env \<Rightarrow> bool \<Rightarrow> QueueItem \<Rightarrow> string \<Rightarrow> duration \<Rightarrow> world \<Rightarrow> worker_error option \<times> world" where
  "requeueAfter E det item cause delay w =
     (if \<not> det \<and> stopped E w then (None, retryDetached E item cause w)
      else if db_ok E det w
      then (None, (bump w)\<lparr>w_queue := RetryJob (qi_ID item) (w_now w + delay) cause (w_queue w)\<rparr>)
      else (Some (RetryFailed (qi_ID item)), bump w))"

definition requeue :: "env \<Rightarrow> worker_opts \<Rightarrow> bool \<Rightarrow> QueueItem \<Rightarrow> string \<Rightarrow> world \<Rightarrow> worker_error option \<times> world" where
  "requeue E opt det item cause w =
     (let (delay, w1) = retryDelay E opt (qi_Attempts item) w in requeueAfter E det item cause delay w1)"

definition release :: "env \<Rightarrow> worker_opts \<Rightarrow> bool \<Rightarrow> QueueItem \<Rightarrow> string \<Rightarrow> world \<Rightarrow> worker_error option \<times> world" where
  "release E opt det item cause w =
     (let (delay, w1) = retryDelay E opt (qi_Attempts item) w
      in if \<not> wo_releaser opt then requeue E opt det item cause w1
         else if db_ok E det w1
         then (None, (bump w1)\<lparr>w_queue := ReleaseJob (qi_ID item) (w_now w + delay) cause (w_queue w1)\<rparr>)
         else (Some (ReleaseFailed (qi_ID item)), bump w1))"

definition deadLetter :: "env \<Rightarrow> QueueItem \<Rightarrow> string \<Rightarrow> world \<Rightarrow> worker_error option \<times> world" where
  "deadLetter E item cause w =
     (if db_ok E False w
      then (None, (bump w)\<lparr>w_queue := DeadLetterJob (qi_ID item) cause (w_now w) (w_queue w)\<rparr>)
      else (Some (DeadLetterFailed (qi_ID item)), bump w))"

text \<open>Both of its contexts reach the store: the run's while it is live, a detached one after.\<close>

definition completeDetached :: "env \<Rightarrow> int \<Rightarrow> world \<Rightarrow> worker_error option \<times> world" where
  "completeDetached E i w =
     (if db_ok E (stopped E w) w then (None, (bump w)\<lparr>w_queue := CompleteJob i (w_queue w)\<rparr>)
      else (Some (CompleteFailed i), bump w))"

fun releaseUnstarted :: "env \<Rightarrow> worker_opts \<Rightarrow> QueueItem list \<Rightarrow> world \<Rightarrow> world" where
  "releaseUnstarted E opt [] w = w"
| "releaseUnstarted E opt (item # rows) w = releaseUnstarted E opt rows (snd (release E opt True item [] w))"

section \<open>Failures\<close>

definition handleFetchFailure :: "env \<Rightarrow> worker_opts \<Rightarrow> QueueItem \<Rightarrow> go_error \<Rightarrow> world \<Rightarrow> worker_error option \<times> world" where
  "handleFetchFailure E opt item err w =
     (let class = classify err; cause = shortCause (e_show E) err
      in if errors_Is err ErrCircuitOpen then release E opt False item cause w
         else if class = FailureGone \<or> class = FailureBadRequest then deadLetter E item cause w
         else if class = FailureKeyRefused then release E opt False item cause w
         else if stopped E w then (None, retryDetached E item cause w)
         else if wo_MaxAttempts opt \<le> qi_Attempts item then deadLetter E item cause w
         else (let (base, w1) = retryDelay E opt (qi_Attempts item) w;
                   (delay, w2) = rateLimitDelay E opt base w1
               in requeueAfter E False item cause delay w2))"

definition handleArchiveFailure :: "env \<Rightarrow> worker_opts \<Rightarrow> QueueItem \<Rightarrow> string \<Rightarrow> world \<Rightarrow> worker_error option \<times> world" where
  "handleArchiveFailure E opt item cause w =
     (if wo_MaxAttempts opt \<le> qi_Attempts item then deadLetter E item cause w
      else requeue E opt False item cause w)"

fun abandon_each :: "env \<Rightarrow> worker_opts \<Rightarrow> QueueItem list \<Rightarrow> string \<Rightarrow> world \<Rightarrow> world" where
  "abandon_each E opt [] cause w = w"
| "abandon_each E opt (item # items) cause w =
     abandon_each E opt items cause (snd (handleArchiveFailure E opt item cause w))"

definition raw_cause :: "env \<Rightarrow> raw_error \<Rightarrow> string" where
  "raw_cause E e = (let msg = e_rshow E e in if 200 < length msg then take 200 msg else msg)"

definition abandonRetained :: "env \<Rightarrow> worker_opts \<Rightarrow> QueueItem list \<Rightarrow> raw_error \<Rightarrow> world \<Rightarrow> worker_error \<times> world" where
  "abandonRetained E opt retained cause w =
     (if retained = [] \<or> stopped E w then (FlushFailed cause, w)
      else (FlushFailed cause, abandon_each E opt retained (''archive flush: '' @ raw_cause E cause) w))"

section \<open>One job\<close>

definition alreadyArchived :: "env \<Rightarrow> worker_opts \<Rightarrow> QueueItem \<Rightarrow> world \<Rightarrow> bool \<times> world" where
  "alreadyArchived E opt item w =
     (if \<not> wo_known opt then (False, w)
      else (db_ok E False w \<and> MatchExists (qi_MatchID item) (w_matches w), bump w))"

text \<open>Widening is best effort: a failed upsert is logged and forgotten.\<close>

definition participant_entry :: "worker_opts \<Rightarrow> MatchMeta \<Rightarrow> string \<Rightarrow> FrontierEntry" where
  "participant_entry opt meta puuid =
     \<lparr>fe_PUUID = puuid, fe_Region = wo_region opt, fe_SeedTier = [], fe_SeedDivision = [],
      fe_LastSeenAt = mm_FetchedAt meta, fe_LastFetchedAt = 0, fe_ConsecutiveEmpty = 0,
      fe_Priority = PriorityParticipant, fe_Dead = False\<rparr>"

definition widen :: "env \<Rightarrow> worker_opts \<Rightarrow> MatchDTO \<Rightarrow> MatchMeta \<Rightarrow> world \<Rightarrow> world" where
  "widen E opt dto meta w =
     (let entries = map (participant_entry opt meta) (ParticipantPUUIDs dto)
      in if entries = [] then w
         else (bump w)\<lparr>w_front := fst (UpsertFrontier (wo_store_region opt) (w_now w) [db_ok E False w] entries (w_front w))\<rparr>)"

definition fetch_match :: "env \<Rightarrow> string \<Rightarrow> world \<Rightarrow> (go_error + MatchDTO) \<times> world" where
  "fetch_match E i w =
     (let (r, took) = e_match E (w_tick w) i in (r, (bump w)\<lparr>w_now := w_now w + max 0 took\<rparr>))"

definition fetch_timeline :: "env \<Rightarrow> string \<Rightarrow> world \<Rightarrow> (go_error + TimelineDTO) \<times> world" where
  "fetch_timeline E i w =
     (let (r, took) = e_timeline E (w_tick w) i in (r, (bump w)\<lparr>w_now := w_now w + max 0 took\<rparr>))"

definition write_match :: "env \<Rightarrow> MatchDTO \<Rightarrow> MatchMeta \<Rightarrow> world \<Rightarrow> raw_error option \<times> world" where
  "write_match E dto meta w =
     (let (e, ar) = WriteMatch (e_sha E) (e_encode E) (e_io E (w_tick w)) (w_now w) (stopped E w) dto meta (w_arch w)
      in (e, (bump w)\<lparr>w_arch := ar\<rparr>))"

definition write_timeline :: "env \<Rightarrow> TimelineDTO \<Rightarrow> MatchMeta \<Rightarrow> world \<Rightarrow> raw_error option \<times> world" where
  "write_timeline E dto meta w =
     (let (e, ar) = WriteTimeline (e_sha E) (e_tencode E) (e_io E (w_tick w)) (w_now w) (stopped E w) dto meta (w_arch w)
      in (e, (bump w)\<lparr>w_arch := ar\<rparr>))"

definition upsert_match :: "env \<Rightarrow> worker_opts \<Rightarrow> MatchRecord \<Rightarrow> world \<Rightarrow> bool \<times> world" where
  "upsert_match E opt rec w =
     (if \<not> db_ok E False w then (False, bump w)
      else (case UpsertMatch (wo_store_region opt) rec (w_matches w) of
              (Inl e, ms) \<Rightarrow> (False, bump w)
            | (Inr ins, ms) \<Rightarrow> (True, (bump w)\<lparr>w_matches := ms\<rparr>)))"

text \<open>\<open>processTimelineJob\<close>: the flag says that the row holds a payload to be flushed.\<close>

definition processTimelineJob :: "env \<Rightarrow> worker_opts \<Rightarrow> QueueItem \<Rightarrow> world \<Rightarrow> bool \<times> worker_error option \<times> world" where
  "processTimelineJob E opt item w =
     (if \<not> db_ok E False w
      then (let w1 = bump w; cause = shortCause (e_show E) (OtherError ''database'')
            in if stopped E w then (False, None, retryDetached E item cause w1)
               else (let (delay, w2) = retryDelay E opt (qi_Attempts item) w1
                     in (False, requeueAfter E False item cause delay w2)))
      else (let w1 = bump w
            in case MatchProvenance (qi_MatchID item) (w_matches w) of
                 Inl e \<Rightarrow> (False, deadLetter E item ''no-summary'' w1)
               | Inr rec \<Rightarrow>
                   (case fetch_timeline E (qi_MatchID item) w1 of
                      (Inl err, w2) \<Rightarrow> (False, handleFetchFailure E opt item err w2)
                    | (Inr dto, w2) \<Rightarrow>
                        (let meta = TimelineMetaFromRecord rec (wo_region opt) (w_now w2)
                         in case write_timeline E dto meta w2 of
                              (Some e, w3) \<Rightarrow> (False, handleArchiveFailure E opt item ''archive'' w3)
                            | (None, w3) \<Rightarrow> (True, None, w3)))))"

definition processMatchJob :: "env \<Rightarrow> worker_opts \<Rightarrow> QueueItem \<Rightarrow> world \<Rightarrow> bool \<times> worker_error option \<times> world" where
  "processMatchJob E opt item w =
     (let (known, w1) = alreadyArchived E opt item w
      in if known then (False, completeDetached E (qi_ID item) w1)
         else (case fetch_match E (qi_MatchID item) w1 of
                 (Inl err, w2) \<Rightarrow> (False, handleFetchFailure E opt item err w2)
               | (Inr dto, w2) \<Rightarrow>
                   (let meta = MatchMetaFromDTO dto (qi_MatchID item) (wo_region opt) (w_now w2)
                    in case write_match E dto meta w2 of
                         (Some e, w3) \<Rightarrow> (False, handleArchiveFailure E opt item ''archive'' w3)
                       | (None, w3) \<Rightarrow>
                           (let rec = MatchRecordFromMeta meta (MatchPartitionURI (wr_root (fst (w_arch w3))) meta);
                                (ok, w4) = upsert_match E opt rec w3
                            in if \<not> ok then (False, Some (UpsertFailed (qi_MatchID item)), w4)
                               else (True, None, widen E opt dto meta w4)))))"

definition processJob :: "env \<Rightarrow> worker_opts \<Rightarrow> QueueItem \<Rightarrow> world \<Rightarrow> bool \<times> worker_error option \<times> world" where
  "processJob E opt item w =
     (if qi_Kind item = KindTimeline then processTimelineJob E opt item w else processMatchJob E opt item w)"

section \<open>One batch\<close>

text \<open>The loop over the claimed rows: how many were processed, which are retained, the error that ends it.\<close>

fun drain_rows :: "env \<Rightarrow> worker_opts \<Rightarrow> QueueItem list \<Rightarrow> int \<Rightarrow> QueueItem list \<Rightarrow> world
    \<Rightarrow> int \<times> QueueItem list \<times> worker_error option \<times> world" where
  "drain_rows E opt [] n retained w = (n, retained, None, w)"
| "drain_rows E opt (item # rows) n retained w =
     (if stopped E w then (n, retained, None, releaseUnstarted E opt (item # rows) w)
      else (case processJob E opt item w of
              (held, Some e, w1) \<Rightarrow> (n, retained, Some e, w1)
            | (held, None, w1) \<Rightarrow>
                if held then drain_rows E opt rows (n + 1) (retained @ [item]) (w1\<lparr>w_retained := w_retained w1 + 1\<rparr>)
                else drain_rows E opt rows (n + 1) retained w1))"

text \<open>The flush outlives the stop: on a stopped run its context is detached.\<close>

definition flush_archive :: "env \<Rightarrow> world \<Rightarrow> raw_error option \<times> world" where
  "flush_archive E w =
     (let (e, ar) = Flush (e_fio E (w_tick w)) False (w_arch w) in (e, (bump w)\<lparr>w_arch := ar\<rparr>))"

fun complete_all :: "env \<Rightarrow> QueueItem list \<Rightarrow> world \<Rightarrow> worker_error option \<times> world" where
  "complete_all E [] w = (None, w)"
| "complete_all E (item # items) w =
     (case completeDetached E (qi_ID item) w of
        (Some e, w1) \<Rightarrow> (Some e, w1)
      | (None, w1) \<Rightarrow> complete_all E items w1)"

definition claim_batch :: "env \<Rightarrow> worker_opts \<Rightarrow> world \<Rightarrow> QueueItem list option \<times> world" where
  "claim_batch E opt w =
     (if \<not> db_ok E False w then (None, bump w)
      else (let (items, q) = ClaimJobsOfKind (wo_kind opt) (wo_JobBatch opt) (w_now w) (e_locked E (w_tick w)) (w_queue w)
            in (Some items, (bump w)\<lparr>w_queue := q\<rparr>)))"

definition drainQueue :: "env \<Rightarrow> worker_opts \<Rightarrow> world \<Rightarrow> int \<times> worker_error option \<times> world" where
  "drainQueue E opt w =
     (case claim_batch E opt w of
        (None, w1) \<Rightarrow> (0, Some ClaimFailed, w1)
      | (Some items, w1) \<Rightarrow>
          if items = [] then (0, None, w1)
          else (case drain_rows E opt items 0 [] w1 of
                  (n, retained, Some e, w2) \<Rightarrow> (n, Some e, w2)
                | (n, retained, None, w2) \<Rightarrow>
                    (case flush_archive E w2 of
                       (Some cause, w3) \<Rightarrow>
                         (let (e, w4) = abandonRetained E opt retained cause w3 in (n, Some e, w4))
                     | (None, w3) \<Rightarrow>
                         (let (e, w4) = complete_all E retained w3 in (n, e, w4)))))"

end
