(* ===== verification/Crawl_Loop.thy ===== *)
theory Crawl_Loop
  imports Crawl_Worker
begin

text \<open>
  The rest of the worker (\<^verbatim>\<open>internal/crawl/worker.go\<close>): the frontier walk, one step, the recovery
  of abandoned claims, the pauses, the shutdown, and the loop of \<^verbatim>\<open>Run\<close>, with one unit of fuel per
  pass.
\<close>

section \<open>The frontier walk\<close>

definition fetch_ids :: "env \<Rightarrow> string \<Rightarrow> world \<Rightarrow> (go_error + string list) \<times> world" where
  "fetch_ids E puuid w =
     (let (r, took) = e_ids E (w_tick w) puuid in (r, (bump w)\<lparr>w_now := w_now w + max 0 took\<rparr>))"

definition enqueue_ids :: "env \<Rightarrow> int \<Rightarrow> string list \<Rightarrow> world \<Rightarrow> bool \<times> world" where
  "enqueue_ids E prio ids w =
     (let items = map (\<lambda>i. new_item i KindMatch prio) ids
      in if items = [] then (True, w)
         else (let chunks = Suc (length items div enqueueBatch);
                   (q, n, ok) = EnqueueMatches (w_now w) (db_list E chunks w) items (w_queue w)
               in (ok, (bump_by chunks w)\<lparr>w_queue := q\<rparr>)))"

fun walk_entries :: "env \<Rightarrow> FrontierEntry list \<Rightarrow> int \<Rightarrow> world \<Rightarrow> int \<times> worker_error option \<times> world" where
  "walk_entries E [] touched w = (touched, None, w)"
| "walk_entries E (e # es) touched w =
     (if stopped E w then (touched, None, w)
      else (case fetch_ids E (fe_PUUID e) w of
              (Inl err, w1) \<Rightarrow>
                if classify err = FailureGone
                then (if db_ok E False w1
                      then walk_entries E es touched
                             ((bump w1)\<lparr>w_front := MarkFrontierDead (fe_PUUID e) (shortCause (e_show E) err) (w_front w1)\<rparr>)
                      else (touched, Some FrontierDeadFailed, bump w1))
                else (touched, Some (HistoryFailed err), w1)
            | (Inr ids, w1) \<Rightarrow>
                (let (ok, w2) = enqueue_ids E (fe_Priority e) ids w1
                 in if \<not> ok then (touched, Some EnqueueFailed, w2)
                    else if \<not> db_ok E False w2 then (touched, Some FrontierFetchedFailed, bump w2)
                    else walk_entries E es (touched + 1)
                           ((bump w2)\<lparr>w_front := MarkFrontierFetched (fe_PUUID e) (w_now w2) (ids = []) (w_front w2)\<rparr>))))"

definition walkFrontier :: "env \<Rightarrow> worker_opts \<Rightarrow> world \<Rightarrow> int \<times> worker_error option \<times> world" where
  "walkFrontier E opt w =
     (if \<not> db_ok E False w then (0, Some FrontierClaimFailed, bump w)
      else (let (entries, fr) = ClaimFrontier (wo_cooldown opt) (wo_FrontierBatch opt) (w_now w)
                                  (e_flocked E (w_tick w)) (w_front w)
            in walk_entries E entries 0 ((bump w)\<lparr>w_front := fr\<rparr>)))"

section \<open>One step\<close>

definition Step :: "env \<Rightarrow> worker_opts \<Rightarrow> world \<Rightarrow> int \<times> worker_error option \<times> world" where
  "Step E opt w =
     (case drainQueue E opt w of
        (n, Some e, w1) \<Rightarrow> (n, Some e, w1)
      | (n, None, w1) \<Rightarrow>
          if 0 < n then (n, None, w1)
          else if wo_kind opt \<noteq> KindMatch then (0, None, w1)
          else walkFrontier E opt w1)"

definition recoverClaims :: "env \<Rightarrow> worker_opts \<Rightarrow> world \<Rightarrow> worker_error option \<times> world" where
  "recoverClaims E opt w =
     (if stopped E w \<or> \<not> wo_recoverer opt then (None, w)
      else if \<not> db_ok E False w then (Some RecoverFailed, bump w)
      else (None, (bump w)\<lparr>w_queue :=
              snd (ResetStuckClaims (w_now w - wo_ClaimGrace opt) claimRecoveryLimit (w_now w) (w_queue w))\<rparr>))"

section \<open>Pauses\<close>

definition clock_Sleep :: "env \<Rightarrow> duration \<Rightarrow> world \<Rightarrow> bool \<times> world" where
  "clock_Sleep E d w =
     (let (now, err) = clock_sleep (run_ctx E) (w_now w) d in (err = None, w\<lparr>w_now := now\<rparr>))"

text \<open>The metrics and log lines of a report are left out; what it resets is not.\<close>

definition report :: "worker_opts \<Rightarrow> bool \<Rightarrow> world \<Rightarrow> world" where
  "report opt force w =
     (if \<not> force \<and> time_sub (w_now w) (w_lastReport w) < wo_ReportInterval opt then w
      else w\<lparr>w_pausedFor := 0, w_lastReport := w_now w\<rparr>)"

definition keyless :: "env \<Rightarrow> worker_opts \<Rightarrow> world \<Rightarrow> bool \<times> world" where
  "keyless E opt w =
     (if \<not> wo_keys opt then (False, w)
      else if e_key E (w_tick w) then (False, (bump w)\<lparr>w_warnedEmpty := False\<rparr>)
      else (True, (bump w)\<lparr>w_warnedEmpty := True\<rparr>))"

datatype pause_result = NotPaused | Paused | PauseCut

definition pause :: "env \<Rightarrow> worker_opts \<Rightarrow> world \<Rightarrow> pause_result \<times> world" where
  "pause E opt w =
     (if \<not> wo_pacer opt then (NotPaused, w)
      else (let (wait, blocked) = e_blocked E (w_tick w); w1 = bump w
            in if \<not> blocked \<or> wait \<le> 0 then (NotPaused, w1)
               else (let d = (if maxRateLimitPause < wait then maxRateLimitPause else wait);
                         (ok, w2) = clock_Sleep E d (w1\<lparr>w_pausedFor := d\<rparr>)
                     in if ok then (Paused, w2) else (PauseCut, w2\<lparr>w_pausedFor := 0\<rparr>))))"

definition shutdown :: "env \<Rightarrow> worker_opts \<Rightarrow> world \<Rightarrow> raw_error option \<times> world" where
  "shutdown E opt w = flush_archive E (report opt True w)"

section \<open>The loop\<close>

datatype pass_result = Continue int | Finished "worker_error option"

definition finish :: "raw_error option \<Rightarrow> pass_result" where
  "finish e = Finished (map_option FlushFailed e)"

definition stop_run :: "env \<Rightarrow> worker_opts \<Rightarrow> world \<Rightarrow> pass_result \<times> world" where
  "stop_run E opt w = (let (e, w1) = shutdown E opt w in (finish e, w1))"

definition run_pass :: "env \<Rightarrow> worker_opts \<Rightarrow> int \<Rightarrow> world \<Rightarrow> pass_result \<times> world" where
  "run_pass E opt fails w =
     (if stopped E w then stop_run E opt w
      else case Check (wo_expiry opt) (w_now w) of
        Some x \<Rightarrow> (let (e, w1) = shutdown E opt w in (Finished (Some (ExpiredKey x e)), w1))
      | None \<Rightarrow>
          (let (idle, w1) = keyless E opt w
           in if idle
              then (let (ok, w2) = clock_Sleep E (wo_PollInterval opt) w1
                    in if ok then (Continue fails, w2) else stop_run E opt w2)
              else (case pause E opt w1 of
                      (PauseCut, w2) \<Rightarrow> stop_run E opt w2
                    | (Paused, w2) \<Rightarrow> (Continue fails, report opt False w2)
                    | (NotPaused, w2) \<Rightarrow>
                        (case Step E opt w2 of
                           (n, Some e, w3) \<Rightarrow>
                             if stopped E w3 then stop_run E opt w3
                             else (let (ok, w4) = clock_Sleep E (failureBackoff opt (fails + 1)) w3
                                   in if ok then (Continue (fails + 1), w4) else stop_run E opt w4)
                         | (n, None, w3) \<Rightarrow>
                             (let w4 = report opt False w3
                              in if n = 0
                                 then (let (d, w5) = idleWait E opt w4; (ok, w6) = clock_Sleep E d w5
                                       in if ok then (Continue 0, w6) else stop_run E opt w6)
                                 else (Continue 0, w4))))))"

fun run_loop :: "env \<Rightarrow> worker_opts \<Rightarrow> nat \<Rightarrow> int \<Rightarrow> world \<Rightarrow> worker_error option option \<times> world" where
  "run_loop E opt 0 fails w = (None, w)"
| "run_loop E opt (Suc n) fails w =
     (case run_pass E opt fails w of
        (Finished e, w1) \<Rightarrow> (Some e, w1)
      | (Continue f, w1) \<Rightarrow> run_loop E opt n f w1)"

text \<open>A claim recovery that fails is logged and the loop starts anyway.\<close>

definition Run :: "env \<Rightarrow> worker_opts \<Rightarrow> nat \<Rightarrow> world \<Rightarrow> worker_error option option \<times> world" where
  "Run E opt fuel w = run_loop E opt fuel 0 (snd (recoverClaims E opt w))"

end
