(* ===== verification/Worker_Props.thy ===== *)
theory Worker_Props
  imports Crawl_Loop Archive_Props Queue_Props Matches_Props
begin

text \<open>
  The correctness of the worker. What a handler may do to the rest of the state is one relation,
  \<open>hands_back\<close>; what the archive promises comes from the contract of \<open>Archive_Props\<close>. The main
  invariant says that the control plane never runs ahead of the archive: a match that is recorded,
  and a row that is done, have their payload in the archive's log, and in a published part once a
  flush has returned.
\<close>

section \<open>Views of the state\<close>

definition idents :: "queue \<Rightarrow> (int \<times> string \<times> QueueKind) list" where
  "idents q = map (\<lambda>j. (j_id j, job_key j)) (q_rows q)"

definition done_keys :: "queue \<Rightarrow> (string \<times> QueueKind) set" where
  "done_keys q = {k. \<exists>j \<in> set (q_rows q). j_status j = JobDone \<and> k = job_key j}"

definition claimed_ids :: "queue \<Rightarrow> int set" where
  "claimed_ids q = {i. \<exists>j \<in> set (q_rows q). j_status j = JobClaimed \<and> i = j_id j}"

fun row_key :: "archive_row \<Rightarrow> (string \<times> QueueKind) option" where
  "row_key (RowMatch r) = Some (r_MatchID r, KindMatch)"
| "row_key (RowTimeline r) = Some (r_MatchID r, KindTimeline)"
| "row_key (RowLeague r) = None"
| "row_key (RowStatic r) = None"
| "row_key (RowAccount r) = None"

definition held_keys :: "archive \<Rightarrow> (string \<times> QueueKind) set" where
  "held_keys ar = {k. \<exists>r \<in> held_rows ar. row_key r = Some k}"

definition safe_keys :: "archive \<Rightarrow> (string \<times> QueueKind) set" where
  "safe_keys ar = {k. \<exists>r \<in> safe_rows ar. row_key r = Some k}"

definition recorded_keys :: "matches \<Rightarrow> (string \<times> QueueKind) set" where
  "recorded_keys ms = (\<lambda>r. (m_id r, KindMatch)) ` set ms"

context row_transition
begin

lemma update_idents: "idents (update_rows P f q) = idents q"
  by (simp add: idents_def update_rows_def comp_def keeps_id keeps_key if_distrib)

end

context claim_exit
begin

lemma guarded_idents: "idents (guarded f i q) = idents q"
  by (simp add: guarded_def update_idents)

lemma guarded_claims: "claimed_ids (guarded f i q) = claimed_ids q - {i}"
  using leaves_claim by (auto simp: claimed_ids_def guarded_def update_rows_def keeps_id)

lemma guarded_done:
  "done_keys (guarded f i q) \<subseteq> done_keys q \<union> {job_key j |j. j \<in> set (q_rows q) \<and> j_id j = i \<and> j_status (f j) = JobDone}"
  by (auto simp: done_keys_def guarded_def update_rows_def keeps_key)

end

lemma retry_done: "done_keys (RetryJob i nb c q) \<subseteq> done_keys q"
  using retry.guarded_done [of nb c i q] by (auto simp: RetryJob_def retry_job_def)

lemma release_done: "done_keys (ReleaseJob i nb c q) \<subseteq> done_keys q"
  using release.guarded_done [of nb c i q] by (auto simp: ReleaseJob_def release_job_def)

lemma dead_done: "done_keys (DeadLetterJob i c now q) \<subseteq> done_keys q"
  using dead.guarded_done [of now c i q] by (auto simp: DeadLetterJob_def dead_letter_job_def)

lemmas exit_views =
  retry.guarded_idents [folded RetryJob_def] retry.guarded_claims [folded RetryJob_def]
  release.guarded_idents [folded ReleaseJob_def] release.guarded_claims [folded ReleaseJob_def]
  dead.guarded_idents [folded DeadLetterJob_def] dead.guarded_claims [folded DeadLetterJob_def]
  complete.guarded_idents [folded CompleteJob_def] complete.guarded_claims [folded CompleteJob_def]
  retry_done release_done dead_done

lemma done_complete:
  assumes "\<forall>x \<in> set (idents q). fst x = i \<longrightarrow> snd x = k"
  shows "done_keys (CompleteJob i q) \<subseteq> insert k (done_keys q)"
  using complete.guarded_done [of i q] assms by (auto simp: CompleteJob_def idents_def)

section \<open>Handlers\<close>

definition all_db :: "env \<Rightarrow> bool" where
  "all_db E = (\<forall>n. e_db E n)"

definition calm :: "world \<Rightarrow> world \<Rightarrow> bool" where
  "calm w w' =
     (idents (w_queue w') = idents (w_queue w) \<and> done_keys (w_queue w') \<subseteq> done_keys (w_queue w) \<and>
      claimed_ids (w_queue w') \<subseteq> claimed_ids (w_queue w) \<and> (queue_inv (w_queue w) \<longrightarrow> queue_inv (w_queue w')) \<and>
      w_matches w' = w_matches w \<and> w_arch w' = w_arch w)"

text \<open>A handler only moves its row; if no statement fails and it reports none, the row is unclaimed.\<close>

definition hands_back :: "env \<Rightarrow> QueueItem \<Rightarrow> worker_error option \<Rightarrow> world \<Rightarrow> world \<Rightarrow> bool" where
  "hands_back E item e w w' =
     (calm w w' \<and> (all_db E \<and> e = None \<longrightarrow> qi_ID item \<notin> claimed_ids (w_queue w')))"

lemma calm_refl [simp]: "calm w w"
  by (simp add: calm_def)

lemma calm_trans: "calm w w' \<Longrightarrow> calm w' w'' \<Longrightarrow> calm w w''"
  by (auto simp: calm_def)

lemma hands_back_after: "calm w w' \<Longrightarrow> hands_back E item e w' w'' \<Longrightarrow> hands_back E item e w w''"
  using calm_trans by (auto simp: hands_back_def)

lemma bump_fields [simp]:
  "w_now (bump w) = w_now w" "w_tick (bump w) = w_tick w + 1" "w_queue (bump w) = w_queue w"
  "w_matches (bump w) = w_matches w" "w_arch (bump w) = w_arch w" "w_front (bump w) = w_front w"
  "w_retained (bump w) = w_retained w"
  by (simp_all add: bump_def)

lemma stopped_now: "w_now w' = w_now w \<Longrightarrow> stopped E w' = stopped E w"
  by (simp add: stopped_def)

lemma stopped_bump [simp]: "stopped E (bump w) = stopped E w"
  by (rule stopped_now) simp

lemma calm_bump [simp]: "calm w (bump w)"
  by (simp add: calm_def)

lemma calm_exits:
  "calm w ((bump w)\<lparr>w_queue := RetryJob i nb c (w_queue w)\<rparr>)"
  "calm w ((bump w)\<lparr>w_queue := ReleaseJob i nb c (w_queue w)\<rparr>)"
  "calm w ((bump w)\<lparr>w_queue := DeadLetterJob i c now (w_queue w)\<rparr>)"
  using exit_views by (auto simp: calm_def intro: inv_rules)

lemma exits_unclaim:
  "i \<notin> claimed_ids (RetryJob i nb c q)" "i \<notin> claimed_ids (ReleaseJob i nb c q)"
  "i \<notin> claimed_ids (DeadLetterJob i c now q)" "i \<notin> claimed_ids (CompleteJob i q)"
  by (simp_all add: exit_views)

lemma retryDelay_world [simp]: "snd (retryDelay E opt a w) = bump w"
  by (simp add: retryDelay_def Let_def)

lemma retryDelay_split: "retryDelay E opt a w = (fst (retryDelay E opt a w), bump w)"
  by (simp add: prod_eq_iff)

lemma rateLimitDelay_calm: "calm w (snd (rateLimitDelay E opt d w))"
  by (simp add: rateLimitDelay_def Let_def split_beta calm_def)

lemma rateLimitDelay_now: "w_now (snd (rateLimitDelay E opt d w)) = w_now w"
  by (simp add: rateLimitDelay_def Let_def split_beta)

lemma retryDetached_back: "hands_back E item None w (retryDetached E item c w)"
  by (simp add: retryDetached_def hands_back_def calm_exits exits_unclaim db_ok_def all_db_def)

lemma requeueAfter_back: "hands_back E item (fst (requeueAfter E det item c d w)) w (snd (requeueAfter E det item c d w))"
  using retryDetached_back [of E item w c]
  by (simp add: requeueAfter_def) (simp add: hands_back_def calm_exits exits_unclaim)

lemma requeue_back: "hands_back E item (fst (requeue E opt det item c w)) w (snd (requeue E opt det item c w))"
  by (simp add: requeue_def split_beta hands_back_after [OF calm_bump requeueAfter_back])

lemma release_back: "hands_back E item (fst (release E opt det item c w)) w (snd (release E opt det item c w))"
proof -
  have "hands_back E item None w ((bump (bump w))\<lparr>w_queue := ReleaseJob (qi_ID item) nb c (w_queue (bump w))\<rparr>)" for nb
    by (rule hands_back_after [OF calm_bump]) (simp only: hands_back_def calm_exits, simp add: exits_unclaim)
  moreover have "hands_back E item (Some x) w (bump (bump w))" for x
    by (rule hands_back_after [OF calm_bump]) (simp add: hands_back_def)
  ultimately show ?thesis
    by (simp add: release_def split_beta hands_back_after [OF calm_bump requeue_back])
qed

lemma deadLetter_back: "hands_back E item (fst (deadLetter E item c w)) w (snd (deadLetter E item c w))"
  by (simp add: deadLetter_def hands_back_def calm_exits exits_unclaim)

lemma handleFetchFailure_back:
  "hands_back E item (fst (handleFetchFailure E opt item err w)) w (snd (handleFetchFailure E opt item err w))"
proof -
  have "calm w (snd (rateLimitDelay E opt d (bump w)))" for d
    using calm_trans [OF calm_bump rateLimitDelay_calm] .
  note after = hands_back_after [OF this requeueAfter_back]
  show ?thesis
    by (simp add: handleFetchFailure_def Let_def split_beta release_back deadLetter_back retryDetached_back after)
qed

lemma handleArchiveFailure_back:
  "hands_back E item (fst (handleArchiveFailure E opt item c w)) w (snd (handleArchiveFailure E opt item c w))"
  by (simp add: handleArchiveFailure_def deadLetter_back requeue_back)

lemma releaseUnstarted_calm: "calm w (releaseUnstarted E opt items w)"
proof (induction items arbitrary: w)
  case (Cons item items)
  have "calm w (snd (release E opt True item [] w))"
    using release_back [of E item opt True "[]" w] by (simp add: hands_back_def)
  from calm_trans [OF this Cons.IH] show ?case by simp
qed simp

lemma abandon_each_calm: "calm w (abandon_each E opt items c w)"
proof (induction items arbitrary: w)
  case (Cons item items)
  have "calm w (snd (handleArchiveFailure E opt item c w))"
    using handleArchiveFailure_back [of E item opt c w] by (simp add: hands_back_def)
  from calm_trans [OF this Cons.IH] show ?case by simp
qed simp

section \<open>The control plane does not run ahead of the archive\<close>

definition covered :: "world \<Rightarrow> bool" where
  "covered w = (done_keys (w_queue w) \<union> recorded_keys (w_matches w) \<subseteq> held_keys (w_arch w))"

definition sound :: "nat \<Rightarrow> world \<Rightarrow> bool" where
  "sound n w = (queue_inv (w_queue w) \<and> archive_room n (w_arch w) \<and> covered w)"

text \<open>Publishing a part, its close, sync and rename, does not fail. Everything else may.\<close>

definition parts_publish :: "env \<Rightarrow> bool" where
  "parts_publish E = ((\<forall>n. publishes (e_io E n)) \<and> (\<forall>n d. publishes (e_fio E n d)))"

definition advances :: "nat \<Rightarrow> world \<Rightarrow> world \<Rightarrow> bool" where
  "advances n w w' =
     (sound n w' \<and> idents (w_queue w') = idents (w_queue w) \<and> held_keys (w_arch w) \<subseteq> held_keys (w_arch w'))"

lemma advances_trans: "advances n w w' \<Longrightarrow> advances m w' w'' \<Longrightarrow> advances m w w''"
  by (auto simp: advances_def)

lemma sound_mono: "sound n w \<Longrightarrow> m \<le> n \<Longrightarrow> sound m w"
  using archive.room_law [of n "w_arch w" m] by (simp add: sound_def)

lemma calm_advances: "sound n w \<Longrightarrow> calm w w' \<Longrightarrow> advances n w w'"
  by (auto simp: calm_def advances_def sound_def covered_def)

lemma back_advances: "sound n w \<Longrightarrow> hands_back E item e w w' \<Longrightarrow> advances n w w'"
  by (simp add: hands_back_def calm_advances)

definition item_row :: "queue \<Rightarrow> QueueItem \<Rightarrow> bool" where
  "item_row q item =
     (qi_MatchID item \<noteq> [] \<and> (\<forall>x \<in> set (idents q). fst x = qi_ID item \<longrightarrow> snd x = item_key item))"

lemma item_row_cong: "idents q' = idents q \<Longrightarrow> item_row q' = item_row q"
  by (simp add: item_row_def fun_eq_iff)

lemma write_advances:
  assumes "sound (Suc n) w" and "put_publishes x" and "archive_write x (w_arch w) = (e, ar)"
  shows "advances n w ((bump w)\<lparr>w_arch := ar\<rparr>)"
    and "e = None \<Longrightarrow> row_key (put_row_of x) = Some k \<Longrightarrow> k \<in> held_keys ar"
proof -
  have "archive_room (Suc n) (w_arch w)" using assms(1) by (simp add: sound_def)
  note law = archive.put_law [OF this assms(2,3)]
  then have sub: "held_keys (w_arch w) \<subseteq> held_keys ar" by (auto simp: held_keys_def)
  with law assms(1) show "advances n w ((bump w)\<lparr>w_arch := ar\<rparr>)"
    by (auto simp: advances_def sound_def covered_def)
  show "k \<in> held_keys ar" if "e = None" "row_key (put_row_of x) = Some k"
    using law that by (auto simp: held_keys_def)
qed

lemma write_match_spec:
  assumes "write_match E dto meta w = (e, w')" and "sound (Suc n) w" and "parts_publish E"
  shows "advances n w w'"
    and "e = None \<Longrightarrow> mm_MatchID meta \<noteq> [] \<Longrightarrow> (mm_MatchID meta, KindMatch) \<in> held_keys (w_arch w')"
    and "w_matches w' = w_matches w" and "w_queue w' = w_queue w"
proof -
  let ?x = "PutMatch (e_sha E) (e_encode E) (e_io E (w_tick w)) (w_now w) (stopped E w) dto meta"
  obtain ar where wr: "archive_write ?x (w_arch w) = (e, ar)" and w': "w' = (bump w)\<lparr>w_arch := ar\<rparr>"
    using assms(1) by (auto simp: write_match_def split: prod.splits)
  have "put_publishes ?x" using assms(3) by (simp add: parts_publish_def)
  note spec = write_advances [OF assms(2) this wr]
  show "advances n w w'" using spec(1) by (simp add: w')
  show "(mm_MatchID meta, KindMatch) \<in> held_keys (w_arch w')" if "e = None" "mm_MatchID meta \<noteq> []"
    using spec(2) that by (simp add: w' matchRow_def Let_def)
qed (use assms(1) in \<open>auto simp: write_match_def split: prod.splits\<close>)

lemma write_timeline_spec:
  assumes "write_timeline E dto meta w = (e, w')" and "sound (Suc n) w" and "parts_publish E"
  shows "advances n w w'"
    and "e = None \<Longrightarrow> mm_MatchID meta \<noteq> [] \<Longrightarrow> (mm_MatchID meta, KindTimeline) \<in> held_keys (w_arch w')"
proof -
  let ?x = "PutTimeline (e_sha E) (e_tencode E) (e_io E (w_tick w)) (w_now w) (stopped E w) dto meta"
  obtain ar where wr: "archive_write ?x (w_arch w) = (e, ar)" and w': "w' = (bump w)\<lparr>w_arch := ar\<rparr>"
    using assms(1) by (auto simp: write_timeline_def split: prod.splits)
  have "put_publishes ?x" using assms(3) by (simp add: parts_publish_def)
  note spec = write_advances [OF assms(2) this wr]
  show "advances n w w'" using spec(1) by (simp add: w')
  show "(mm_MatchID meta, KindTimeline) \<in> held_keys (w_arch w')" if "e = None" "mm_MatchID meta \<noteq> []"
    using spec(2) that by (simp add: w' timelineRow_def Let_def)
qed

lemma upsert_spec:
  assumes "upsert_match E opt rec w = (ok, w')" and "sound n w" and "(mr_MatchID rec, KindMatch) \<in> held_keys (w_arch w) \<or> mr_MatchID rec = []"
  shows "advances n w w'" and "ok \<Longrightarrow> mr_MatchID rec \<noteq> []" and "w_arch w' = w_arch w" and "w_queue w' = w_queue w"
proof -
  have rows: "recorded_keys (snd (UpsertMatch region rec ms)) \<subseteq> insert (mr_MatchID rec, KindMatch) (recorded_keys ms)"
    "mr_MatchID rec = [] \<Longrightarrow> UpsertMatch region rec ms = (Inl EmptyMatchID, ms)" for region ms
    by (auto simp: UpsertMatch_def Let_def recorded_keys_def match_row_of_def split: sum.splits)
  show "ok \<Longrightarrow> mr_MatchID rec \<noteq> []"
    using assms(1) rows(2) by (auto simp: upsert_match_def split: if_splits)
  show same: "w_arch w' = w_arch w" "w_queue w' = w_queue w"
    using assms(1) by (auto simp: upsert_match_def split: if_splits sum.splits prod.splits)
  have "w_matches w' = w_matches w \<or> (mr_MatchID rec \<noteq> [] \<and>
      w_matches w' = snd (UpsertMatch (wo_store_region opt) rec (w_matches w)))"
    using assms(1) rows(2) by (auto simp: upsert_match_def split: if_splits sum.splits prod.splits)
  then have "recorded_keys (w_matches w') \<subseteq> held_keys (w_arch w)"
    using assms(2,3) rows(1) [of "wo_store_region opt" "w_matches w"] by (auto simp: sound_def covered_def)
  then show "advances n w w'"
    using assms(2) same by (auto simp: advances_def sound_def covered_def)
qed

lemma widen_calm: "calm w (widen E opt dto meta w)"
  by (simp add: widen_def Let_def calm_def)

lemma fetch_calm:
  "fetch_match E i w = (r, w') \<Longrightarrow> calm w w'" "fetch_timeline E i w = (r', w') \<Longrightarrow> calm w w'"
  by (auto simp: fetch_match_def fetch_timeline_def calm_def split: prod.splits)

lemma alreadyArchived_calm:
  "alreadyArchived E opt item w = (known, w') \<Longrightarrow> calm w w' \<and> (known \<longrightarrow> MatchExists (qi_MatchID item) (w_matches w))"
  by (auto simp: alreadyArchived_def calm_def split: if_splits)

lemma complete_advances:
  assumes "sound n w" and "item_row (w_queue w) item" and "item_key item \<in> held_keys (w_arch w)"
  shows "advances n w (snd (completeDetached E (qi_ID item) w))"
proof -
  have "done_keys (CompleteJob (qi_ID item) (w_queue w)) \<subseteq> insert (item_key item) (done_keys (w_queue w))"
    using assms(2) by (intro done_complete) (simp add: item_row_def)
  then show ?thesis
    using assms exit_views by (auto simp: completeDetached_def advances_def sound_def covered_def intro: inv_rules)
qed

section \<open>Jobs\<close>

text \<open>
  What processing a row guarantees: the archive and the queue stay sound; a retained row's payload
  is in the log; a row that is not retained is no longer claimed unless something was reported.
\<close>

definition job_done_right :: "env \<Rightarrow> nat \<Rightarrow> QueueItem \<Rightarrow> bool \<Rightarrow> worker_error option \<Rightarrow> world \<Rightarrow> world \<Rightarrow> bool" where
  "job_done_right E n item kept e w w' =
     (advances n w w' \<and> (kept \<longrightarrow> e = None \<and> item_key item \<in> held_keys (w_arch w')))"

lemma back_done_right: "sound n w \<Longrightarrow> hands_back E item e w w' \<Longrightarrow> job_done_right E n item False e w w'"
  by (simp add: job_done_right_def back_advances)

lemma done_right_after: "advances m w w' \<Longrightarrow> job_done_right E n item kept e w' w'' \<Longrightarrow> job_done_right E n item kept e w w''"
  using advances_trans by (auto simp: job_done_right_def)

lemma back_pair: "hands_back E item (fst p) w (snd p) \<Longrightarrow> p = (e, w') \<Longrightarrow> hands_back E item e w w'"
  by simp

lemma processTimelineJob_spec:
  assumes "processTimelineJob E opt item w = (kept, e, w')" and "sound (Suc n) w" and "parts_publish E"
    and "item_row (w_queue w) item" and "qi_Kind item = KindTimeline"
  shows "job_done_right E n item kept e w w'"
proof -
  let ?c = "shortCause (e_show E) (OtherError ''database'')"
  let ?d = "fst (retryDelay E opt (qi_Attempts item) (bump w))"
  have weak: "sound n w" using assms(2) sound_mono by fastforce
  have bumped: "hands_back E item e w1 w2 \<Longrightarrow> calm w w1 \<Longrightarrow> job_done_right E n item False e w w2" for e w1 w2
    using back_done_right [OF weak hands_back_after] by blast
  consider "\<not> db_ok E False w" | err where "db_ok E False w" "MatchProvenance (qi_MatchID item) (w_matches w) = Inl err"
    | rec where "db_ok E False w" "MatchProvenance (qi_MatchID item) (w_matches w) = Inr rec"
    by (metis old.sum.exhaust)
  then show ?thesis
  proof cases
    case 1
    show ?thesis
    proof (cases "stopped E w")
      case True
      then have "kept = False" "e = None" "w' = retryDetached E item ?c (bump w)"
        using assms(1) 1 by (simp_all add: processTimelineJob_def Let_def)
      then show ?thesis using bumped [OF retryDetached_back calm_bump] by simp
    next
      case False
      then have "kept = False" "(e, w') = requeueAfter E False item ?c ?d (bump (bump w))"
        using assms(1) 1 by (simp_all add: processTimelineJob_def Let_def split_beta)
      then show ?thesis
        using bumped [OF back_pair [OF requeueAfter_back] calm_trans [OF calm_bump calm_bump]] by metis
    qed
  next
    case (2 err)
    then show ?thesis
      using assms(1) bumped [OF back_pair [OF deadLetter_back] calm_bump] by (auto simp: processTimelineJob_def)
  next
    case (3 rec)
    obtain r w2 where f: "fetch_timeline E (qi_MatchID item) (bump w) = (r, w2)" by (metis surj_pair)
    have c2: "calm w w2" using calm_trans [OF calm_bump fetch_calm(2) [OF f]] .
    show ?thesis
    proof (cases r)
      case (Inl err)
      then show ?thesis
        using assms(1) 3 f bumped [OF back_pair [OF handleFetchFailure_back] c2] by (auto simp: processTimelineJob_def)
    next
      case (Inr dto)
      let ?meta = "TimelineMetaFromRecord rec (wo_region opt) (w_now w2)"
      have id: "mm_MatchID ?meta = qi_MatchID item" "qi_MatchID item \<noteq> []"
        using 3(2) assms(4) by (auto simp: TimelineMetaFromRecord_def MatchProvenance_def find_match_def find_Some_iff item_row_def
            split: option.splits)
      have s2: "sound (Suc n) w2" "advances n w w2"
        using calm_advances [OF assms(2) c2] calm_advances [OF weak c2] by (simp_all add: advances_def)
      obtain e3 w3 where wr: "write_timeline E dto ?meta w2 = (e3, w3)" by (metis surj_pair)
      note spec = write_timeline_spec [OF wr s2(1) assms(3)]
      have a3: "advances n w w3" using advances_trans [OF s2(2) spec(1)] .
      then have s3: "sound n w3" by (simp add: advances_def)
      show ?thesis
      proof (cases e3)
        case None
        then have "kept" "e = None" "w' = w3"
          using assms(1) 3 f Inr wr by (simp_all add: processTimelineJob_def Let_def)
        then show ?thesis
          using a3 spec(2) None id assms(5) by (simp add: job_done_right_def item_key_def)
      next
        case (Some x)
        then have "kept = False" "handleArchiveFailure E opt item ''archive'' w3 = (e, w')"
          using assms(1) 3 f Inr wr by (simp_all add: processTimelineJob_def Let_def)
        then show ?thesis
          using done_right_after [OF a3 back_done_right [OF s3 back_pair [OF handleArchiveFailure_back]]] by simp
      qed
    qed
  qed
qed

lemma processMatchJob_spec:
  assumes "processMatchJob E opt item w = (kept, e, w')" and "sound (Suc n) w" and "parts_publish E"
    and "item_row (w_queue w) item" and "qi_Kind item = KindMatch"
  shows "job_done_right E n item kept e w w'"
proof -
  have weak: "sound n w" using assms(2) sound_mono by fastforce
  obtain known w1 where k: "alreadyArchived E opt item w = (known, w1)" by (metis surj_pair)
  have c1: "calm w w1" and known: "known \<Longrightarrow> MatchExists (qi_MatchID item) (w_matches w)"
    using alreadyArchived_calm [OF k] by simp_all
  have s1: "sound n w1" "advances n w w1"
    using calm_advances [OF weak c1] by (simp_all add: advances_def)
  show ?thesis
  proof (cases known)
    case True
    obtain r where r: "r \<in> set (w_matches w)" "m_id r = qi_MatchID item"
      using known [OF True] by (auto simp: MatchExists_def find_match_None)
    have "(m_id r, KindMatch) \<in> recorded_keys (w_matches w)"
      unfolding recorded_keys_def by (rule image_eqI [OF refl r(1)])
    then have "item_key item \<in> held_keys (w_arch w)"
      using weak r(2) assms(5) by (auto simp: sound_def covered_def item_key_def)
    moreover have "item_row (w_queue w1) item"
      using item_row_cong [of "w_queue w1" "w_queue w"] c1 assms(4) by (simp add: calm_def)
    ultimately have "advances n w1 (snd (completeDetached E (qi_ID item) w1))"
      using c1 by (intro complete_advances [OF s1(1)]) (simp_all add: calm_def)
    moreover have "kept = False" "completeDetached E (qi_ID item) w1 = (e, w')"
      using assms(1) True k by (simp_all add: processMatchJob_def)
    ultimately show ?thesis
      using advances_trans [OF s1(2)] by (simp add: job_done_right_def)
  next
    case False
    obtain r w2 where f: "fetch_match E (qi_MatchID item) w1 = (r, w2)" by (metis surj_pair)
    have c2: "calm w w2" using calm_trans [OF c1 fetch_calm(1) [OF f]] .
    have s2: "sound (Suc n) w2" "advances n w w2"
      using calm_advances [OF assms(2) c2] calm_advances [OF weak c2] by (simp_all add: advances_def)
    show ?thesis
    proof (cases r)
      case (Inl err)
      then have "kept = False" "handleFetchFailure E opt item err w2 = (e, w')"
        using assms(1) False k f by (simp_all add: processMatchJob_def)
      then show ?thesis
        using done_right_after [OF s2(2) back_done_right [OF _ back_pair [OF handleFetchFailure_back]]] s2(2)
        by (simp add: advances_def)
    next
      case (Inr dto)
      let ?meta = "MatchMetaFromDTO dto (qi_MatchID item) (wo_region opt) (w_now w2)"
      have id: "mm_MatchID ?meta = qi_MatchID item" "qi_MatchID item \<noteq> []"
        using assms(4) by (simp_all add: MatchMetaFromDTO_def item_row_def)
      obtain e3 w3 where wr: "write_match E dto ?meta w2 = (e3, w3)" by (metis surj_pair)
      note spec = write_match_spec [OF wr s2(1) assms(3)]
      have a3: "advances n w w3" using advances_trans [OF s2(2) spec(1)] .
      then have s3: "sound n w3" by (simp add: advances_def)
      show ?thesis
      proof (cases e3)
        case (Some x)
        then have "kept = False" "handleArchiveFailure E opt item ''archive'' w3 = (e, w')"
          using assms(1) False k f Inr wr by (simp_all add: processMatchJob_def Let_def)
        then show ?thesis
          using done_right_after [OF a3 back_done_right [OF s3 back_pair [OF handleArchiveFailure_back]]] by simp
      next
        case None
        let ?rec = "MatchRecordFromMeta ?meta (MatchPartitionURI (wr_root (fst (w_arch w3))) ?meta)"
        have held: "(mr_MatchID ?rec, KindMatch) \<in> held_keys (w_arch w3)"
          using spec(2) None id by (simp add: MatchRecordFromMeta_def)
        obtain ok w4 where u: "upsert_match E opt ?rec w3 = (ok, w4)" by (metis surj_pair)
        note us = upsert_spec [OF u s3 disjI1 [OF held]]
        have a4: "advances n w w4" using advances_trans [OF a3 us(1)] .
        show ?thesis
        proof (cases ok)
          case False': False
          then have "kept = False" "w' = w4"
            using assms(1) False k f Inr wr None u by (simp_all add: processMatchJob_def Let_def)
          then show ?thesis using a4 by (simp add: job_done_right_def)
        next
          case True
          then have res: "kept" "e = None" "w' = widen E opt dto ?meta w4"
            using assms(1) False k f Inr wr None u by (simp_all add: processMatchJob_def Let_def)
          have "sound n w4" using a4 by (simp add: advances_def)
          from calm_advances [OF this widen_calm] have "advances n w4 w'" unfolding res(3) .
          moreover have "item_key item \<in> held_keys (w_arch w4)"
            using held us(3) id(1) assms(5) by (simp add: MatchRecordFromMeta_def item_key_def)
          ultimately show ?thesis
            using advances_trans [OF a4] res by (auto simp: job_done_right_def advances_def)
        qed
      qed
    qed
  qed
qed

lemma processJob_spec:
  assumes "processJob E opt item w = (kept, e, w')" and "sound (Suc n) w" and "parts_publish E" and "item_row (w_queue w) item"
  shows "job_done_right E n item kept e w w'"
  using assms processTimelineJob_spec processMatchJob_spec [of E opt item w]
  by (cases "qi_Kind item") (simp_all add: processJob_def)

section \<open>Batches\<close>

lemma drain_rows_spec:
  assumes "drain_rows E opt items k kept w = (n, kept', e, w')" and "sound (length items + m) w" and "parts_publish E"
    and "list_all (item_row (w_queue w)) (kept @ items)" and "item_key ` set kept \<subseteq> held_keys (w_arch w)"
  shows "advances m w w' \<and> list_all (item_row (w_queue w')) kept' \<and> item_key ` set kept' \<subseteq> held_keys (w_arch w') \<and>
    (e = None \<and> n = k \<longrightarrow> items = [] \<or> stopped E w) \<and> k \<le> n"
  using assms
proof (induction items arbitrary: k kept w)
  case Nil
  then show ?case by (simp add: calm_advances)
next
  case (Cons item items)
  have weak: "sound m w" using Cons.prems(2) sound_mono by fastforce
  show ?case
  proof (cases "stopped E w")
    case True
    have "advances m w (releaseUnstarted E opt (item # items) w)"
      by (rule calm_advances [OF weak releaseUnstarted_calm])
    then show ?thesis
      using Cons.prems True by (auto simp: advances_def list_all_iff item_row_def)
  next
    case False
    obtain h e1 w1 where p: "processJob E opt item w = (h, e1, w1)" by (metis prod_cases3)
    have "job_done_right E (length items + m) item h e1 w w1"
      using Cons.prems by (intro processJob_spec [OF p _ assms(3)]) simp_all
    then have a1: "advances (length items + m) w w1" and h: "h \<Longrightarrow> e1 = None \<and> item_key item \<in> held_keys (w_arch w1)"
      by (simp_all add: job_done_right_def)
    have s1: "sound (length items + m) w1" and ids: "idents (w_queue w1) = idents (w_queue w)"
      and more: "held_keys (w_arch w) \<subseteq> held_keys (w_arch w1)" using a1 by (simp_all add: advances_def)
    have rows: "list_all (item_row (w_queue w1)) (kept @ items)" "item_row (w_queue w1) item"
      using Cons.prems(4) item_row_cong [OF ids] by simp_all
    have a1': "advances m w w1" using a1 sound_mono [OF s1] by (simp add: advances_def)
    show ?thesis
    proof (cases e1)
      case (Some x)
      then show ?thesis
        using Cons.prems(1,5) False p a1' rows more by (auto simp: list_all_iff)
    next
      case None
      let ?kept = "if h then kept @ [item] else kept"
      let ?w = "if h then w1\<lparr>w_retained := w_retained w1 + 1\<rparr> else w1"
      have d: "drain_rows E opt items (k + 1) ?kept ?w = (n, kept', e, w')"
        using Cons.prems(1) False p None by (simp split: if_splits)
      have same: "w_arch ?w = w_arch w1" "w_queue ?w = w_queue w1" "w_matches ?w = w_matches w1" by simp_all
      then have s: "sound (length items + m) ?w" using s1 by (simp add: sound_def covered_def)
      have l: "list_all (item_row (w_queue ?w)) (?kept @ items)" using rows same by simp
      have h': "item_key ` set ?kept \<subseteq> held_keys (w_arch ?w)"
        using Cons.prems(5) h more same by auto
      have res: "advances m ?w w'" "list_all (item_row (w_queue w')) kept'"
          "item_key ` set kept' \<subseteq> held_keys (w_arch w')" "k + 1 \<le> n"
        using Cons.IH [OF d s assms(3) l h'] by simp_all
      have "advances m w ?w" using a1' same by (simp add: advances_def sound_def covered_def)
      from advances_trans [OF this res(1)] have "advances m w w'" .
      moreover have "n \<noteq> k" "k \<le> n" using res(4) by linarith+
      ultimately show ?thesis using res(2,3) by blast
    qed
  qed
qed

lemma flush_spec:
  assumes "flush_archive E w = (e, w')" and "sound n w" and "parts_publish E"
  shows "advances n w w'" and "e = None" and "held_keys (w_arch w') = safe_keys (w_arch w')" and "w_queue w' = w_queue w"
proof -
  obtain ar where f: "Flush (e_fio E (w_tick w)) False (w_arch w) = (e, ar)" and w': "w' = (bump w)\<lparr>w_arch := ar\<rparr>"
    using assms(1) by (auto simp: flush_archive_def split: prod.splits)
  have "\<And>d. publishes (e_fio E (w_tick w) d)" using assms(3) by (simp add: parts_publish_def)
  from Flush_publishes [where io = "e_fio E (w_tick w)" and ar = "w_arch w", OF this] f show e: "e = None" by simp
  have "archive_room n (w_arch w)" using assms(2) by (simp add: sound_def)
  from archive.flush_law [OF this f] e
  have law: "archive_room n ar" "held_rows ar = held_rows (w_arch w)" "safe_rows ar = held_rows (w_arch w)" by simp_all
  then show "held_keys (w_arch w') = safe_keys (w_arch w')" by (simp add: w' held_keys_def safe_keys_def)
  show "advances n w w'"
    using law assms(2) by (simp add: w' advances_def sound_def covered_def held_keys_def)
qed (use assms(1) in \<open>auto simp: flush_archive_def split: prod.splits\<close>)

lemma complete_all_spec:
  assumes "complete_all E items w = (e, w')" and "sound n w" and "list_all (item_row (w_queue w)) items"
    and "item_key ` set items \<subseteq> held_keys (w_arch w)"
  shows "advances n w w' \<and> w_arch w' = w_arch w"
  using assms
proof (induction items arbitrary: w)
  case Nil
  then show ?case by (simp add: calm_advances)
next
  case (Cons item items)
  obtain e1 w1 where c: "completeDetached E (qi_ID item) w = (e1, w1)" by (metis surj_pair)
  have a1: "advances n w w1"
    using complete_advances [OF Cons.prems(2), of item E] Cons.prems(3,4) c by simp
  have arch: "w_arch w1 = w_arch w" using c by (auto simp: completeDetached_def split: if_splits)
  show ?case
  proof (cases e1)
    case (Some x)
    then show ?thesis using Cons.prems(1) c a1 arch by simp
  next
    case None
    have "advances n w1 w' \<and> w_arch w' = w_arch w1"
      using Cons.prems a1 arch c None by (intro Cons.IH) (auto simp: advances_def list_all_iff item_row_def)
    then show ?thesis using advances_trans [OF a1] arch by simp
  qed
qed

lemma claim_idents: "idents (snd (ClaimJobsOfKind k n now l q)) = idents q"
  by (simp add: Claim_rows claim.update_idents)

lemma claim_done: "done_keys (snd (ClaimJobsOfKind k n now l q)) \<subseteq> done_keys q"
  by (auto simp: Claim_rows done_keys_def update_rows_def claim_job_def job_key_def split: if_splits)

lemma claimed_items:
  "set (fst (ClaimJobsOfKind k n now l q)) =
     (\<lambda>j. item_of (claim_job now j)) ` set (claim_pick k (nat (clampLimit n)) now l q)"
  by (auto simp: ClaimJobsOfKind_def Let_def claim_pick_def image_image)

lemma claimed_count: "length (fst (ClaimJobsOfKind k n now l q)) \<le> 1000"
  using clampLimit_bounds [of n] by (auto simp: ClaimJobsOfKind_def Let_def claim_pick_def)

lemma claimed_item_row:
  assumes "queue_inv q" and "item \<in> set (fst (ClaimJobsOfKind k n now l q))"
  shows "item_row q item"
proof -
  obtain j where j: "j \<in> set (claim_pick k (nat (clampLimit n)) now l q)" "item = item_of (claim_job now j)"
    using assms(2) by (auto simp: claimed_items)
  then have in_q: "j \<in> set (q_rows q)" using claim_pick_set by blast
  have key: "item_key item = job_key j" "qi_ID item = j_id j" "qi_MatchID item = j_match j"
    by (simp_all add: j(2) item_key_def job_key_def item_of_def claim_job_def)
  have "j_match j \<noteq> []" using queue_invD(4) [OF assms(1) in_q] by (simp add: row_ok_def)
  then show ?thesis
    using same_id [OF assms(1) _ in_q] by (auto simp: item_row_def idents_def key)
qed

lemma claim_batch_spec:
  assumes "claim_batch E opt w = (r, w')" and "sound n w"
  shows "advances n w w'" and "r = Some items \<Longrightarrow> list_all (item_row (w_queue w')) items \<and> length items \<le> 1000"
proof -
  show "advances n w w'"
    using assms claim_done claim_idents
    by (auto simp: claim_batch_def advances_def sound_def covered_def split: if_splits prod.splits intro: inv_rules) 
      (metis Claim_inv snd_conv, metis claim_done snd_conv subsetD, metis claim_idents snd_conv)
  show "r = Some items \<Longrightarrow> list_all (item_row (w_queue w')) items \<and> length items \<le> 1000"
    using assms claimed_item_row claimed_count
    by (auto simp: claim_batch_def list_all_iff sound_def split: if_splits prod.splits)
      (metis claim_idents claimed_item_row fst_conv item_row_cong snd_conv, metis claimed_count fst_conv)
qed

lemma drain_spec:
  assumes "drainQueue E opt w = (n, e, w')" and "sound (1000 + m) w" and "parts_publish E"
  shows "advances m w w' \<and> (0 < n \<and> e = None \<longrightarrow> done_keys (w_queue w') \<subseteq> safe_keys (w_arch w'))"
proof -
  have weak: "sound m w" using assms(2) sound_mono by fastforce
  obtain r w1 where c: "claim_batch E opt w = (r, w1)" by (metis surj_pair)
  note claim = claim_batch_spec [OF c assms(2)]
  have a1: "advances m w w1" using claim_batch_spec(1) [OF c weak] .
  show ?thesis
  proof (cases r)
    case None
    then show ?thesis using assms(1) c a1 by (simp add: drainQueue_def)
  next
    case (Some items)
    show ?thesis
    proof (cases "items = []")
      case True
      then show ?thesis using assms(1) c a1 Some by (simp add: drainQueue_def)
    next
      case False
      have rows: "list_all (item_row (w_queue w1)) ([] @ items)" "length items \<le> 1000" using claim(2) [OF Some] by simp_all
      have s1: "sound (length items + m) w1"
        using claim(1) rows(2) sound_mono [of "1000 + m" w1 "length items + m"] by (simp add: advances_def)
      obtain k kept e2 w2 where d: "drain_rows E opt items 0 [] w1 = (k, kept, e2, w2)" by (metis prod_cases4)
      have d': "advances m w1 w2" "list_all (item_row (w_queue w2)) kept" "item_key ` set kept \<subseteq> held_keys (w_arch w2)"
        using drain_rows_spec [OF d s1 assms(3) rows(1)] by simp_all
      have a2: "advances m w w2" using advances_trans [OF a1 d'(1)] .
      then have s2: "sound m w2" by (simp add: advances_def)
      show ?thesis
      proof (cases e2)
        case (Some x)
        then show ?thesis using assms(1) c a2 \<open>r = Some items\<close> False d by (auto simp: drainQueue_def)
      next
        case None
        obtain fe w3 where f: "flush_archive E w2 = (fe, w3)" by (metis surj_pair)
        note fs = flush_spec [OF f s2 assms(3)]
        obtain e4 w4 where ca: "complete_all E kept w3 = (e4, w4)" by (metis surj_pair)
        have res: "e = e4" "w' = w4"
          using assms(1) c \<open>r = Some items\<close> False d None f fs(2) ca by (simp_all add: drainQueue_def)
        have "advances m w3 w4 \<and> w_arch w4 = w_arch w3"
          using fs d' by (intro complete_all_spec [OF ca]) (auto simp: advances_def)
        moreover have "advances m w w3" using advances_trans [OF a2 fs(1)] .
        ultimately have a4: "advances m w w4" and arch: "w_arch w4 = w_arch w3" using advances_trans by blast+
        then have "done_keys (w_queue w4) \<subseteq> safe_keys (w_arch w4)"
          using fs(3) by (auto simp: advances_def sound_def covered_def)
        with a4 show ?thesis by (simp add: res)
      qed
    qed
  qed
qed

section \<open>Steps and runs\<close>

definition quiet :: "world \<Rightarrow> world \<Rightarrow> bool" where
  "quiet w w' =
     (done_keys (w_queue w') \<subseteq> done_keys (w_queue w) \<and> (queue_inv (w_queue w) \<longrightarrow> queue_inv (w_queue w')) \<and>
      w_matches w' = w_matches w \<and> w_arch w' = w_arch w)"

lemma quiet_refl [simp]: "quiet w w"
  by (simp add: quiet_def)

lemma quiet_trans: "quiet w w' \<Longrightarrow> quiet w' w'' \<Longrightarrow> quiet w w''"
  by (auto simp: quiet_def)

lemma quiet_sound: "quiet w w' \<Longrightarrow> sound n w \<Longrightarrow> sound n w'"
  by (auto simp: quiet_def sound_def covered_def)

lemma quiet_fields: "w_queue w' = w_queue w \<Longrightarrow> w_matches w' = w_matches w \<Longrightarrow> w_arch w' = w_arch w \<Longrightarrow> quiet w w'"
  by (simp add: quiet_def)

lemma enqueue_one_done: "done_keys (fst (enqueue_one now i q)) \<subseteq> done_keys q"
  by (auto simp: done_keys_def enqueue_one_rows revive_job_def new_job_def split: if_splits)

lemma enqueue_rows_done: "done_keys (fst (enqueue_rows now is q)) \<subseteq> done_keys q"
proof (induction "is" arbitrary: q)
  case (Cons i "is")
  show ?case using Cons.IH [of "fst (enqueue_one now i q)"] enqueue_one_done [of now i q]
    unfolding enqueue_rows_Cons by blast
qed simp

lemma EnqueueMatches_done: "done_keys (fst (EnqueueMatches now ok items q)) \<subseteq> done_keys q"
proof -
  let ?b = "dedupeQueueItems items"
  obtain m where "fst (enqueue_chunks now ok (length ?b) ?b q 0) = fst (enqueue_rows now (take m ?b) q)"
    using enqueue_chunks_prefix [of now ok "length ?b" ?b q 0] by blast
  then show ?thesis using enqueue_rows_done by (simp add: EnqueueMatches_def Let_def)
qed

lemma enqueue_ids_quiet: "quiet w (snd (enqueue_ids E prio ids w))"
proof -
  let ?items = "map (\<lambda>i. new_item i KindMatch prio) ids"
  let ?ok = "db_list E (Suc (length ?items div enqueueBatch)) w"
  obtain q n ok where e: "EnqueueMatches (w_now w) ?ok ?items (w_queue w) = (q, n, ok)" by (metis prod_cases3)
  have "\<forall>i \<in> set ?items. 0 \<le> qi_Attempts i" by (simp add: new_item_def)
  then have "queue_inv (w_queue w) \<longrightarrow> queue_inv q" "done_keys q \<subseteq> done_keys (w_queue w)"
    using EnqueueMatches_inv [of "w_queue w" ?items "w_now w" ?ok]
      EnqueueMatches_done [of "w_now w" ?ok ?items "w_queue w"] unfolding e by simp_all
  then show ?thesis using e by (simp add: enqueue_ids_def quiet_def Let_def bump_by_def)
qed

lemma fetch_ids_quiet: "fetch_ids E p w = (r, w') \<Longrightarrow> quiet w w'"
  by (auto simp: fetch_ids_def split: prod.splits intro: quiet_fields)

lemma walk_quiet: "quiet w (snd (snd (walk_entries E es t w)))"
proof (induction es arbitrary: t w)
  case (Cons e es)
  obtain r w1 where f: "fetch_ids E (fe_PUUID e) w = (r, w1)" by (metis surj_pair)
  have q1: "quiet w w1" using fetch_ids_quiet [OF f] .
  have up: "quiet w (snd (snd (walk_entries E es t' w')))" if "quiet w w'" for t' w'
    using quiet_trans [OF that Cons.IH] .
  show ?case
  proof (cases r)
    case (Inl err)
    have "quiet w ((bump w1)\<lparr>w_front := fr\<rparr>)" "quiet w (bump w1)" for fr
      using q1 by (simp_all add: quiet_def)
    then show ?thesis using q1 up by (simp add: f Inl)
  next
    case (Inr ids)
    obtain ok w2 where en: "enqueue_ids E (fe_Priority e) ids w1 = (ok, w2)" by (metis surj_pair)
    have "quiet w w2" using quiet_trans [OF q1 enqueue_ids_quiet] en by (metis snd_conv)
    then have "quiet w w2" "quiet w ((bump w2)\<lparr>w_front := fr\<rparr>)" "quiet w (bump w2)" for fr
      by (simp_all add: quiet_def)
    then show ?thesis using up by (simp add: f Inr en)
  qed
qed simp

lemma walkFrontier_quiet: "quiet w (snd (snd (walkFrontier E opt w)))"
proof -
  have "quiet w ((bump w)\<lparr>w_front := fr\<rparr>)" "quiet w (bump w)" for fr by (simp_all add: quiet_def)
  then show ?thesis using quiet_trans [OF _ walk_quiet] by (simp add: walkFrontier_def split_beta)
qed

lemma Step_spec:
  assumes "Step E opt w = (n, e, w')" and "sound (1000 + m) w" and "parts_publish E"
  shows "sound m w'"
proof -
  obtain k e1 w1 where d: "drainQueue E opt w = (k, e1, w1)" by (metis prod_cases3)
  have s1: "sound m w1" using drain_spec [OF d assms(2,3)] by (simp add: advances_def)
  have "w' = w1 \<or> w' = snd (snd (walkFrontier E opt w1))"
    using assms(1) d by (auto simp: Step_def split: option.splits if_splits)
  then show ?thesis using s1 quiet_sound [OF walkFrontier_quiet s1] by auto
qed

lemma recoverClaims_quiet: "quiet w (snd (recoverClaims E opt w))"
proof -
  have "done_keys (snd (ResetStuckClaims t n now q)) \<subseteq> done_keys q" for t n now q
    by (auto simp: ResetStuckClaims_rows done_keys_def update_rows_def reset_job_def split: if_splits)
  then show ?thesis by (simp add: recoverClaims_def quiet_def Reset_inv)
qed

lemma loop_steps_quiet:
  "quiet w (snd (clock_Sleep E d w))" "quiet w (report opt force w)" "quiet w (snd (keyless E opt w))"
  "quiet w (snd (pause E opt w))" "quiet w (snd (idleWait E opt w))"
  by (simp_all add: quiet_def clock_Sleep_def report_def keyless_def pause_def idleWait_def Let_def split_beta)

definition durable :: "world \<Rightarrow> bool" where
  "durable w = (done_keys (w_queue w) \<union> recorded_keys (w_matches w) \<subseteq> safe_keys (w_arch w))"

lemma stop_durable:
  assumes "shutdown E opt w = (e, w')" and "sound n w" and "parts_publish E"
  shows "sound n w' \<and> durable w'"
proof -
  have "flush_archive E (report opt True w) = (e, w')" using assms(1) by (simp add: shutdown_def)
  from flush_spec [OF this quiet_sound [OF loop_steps_quiet(2) assms(2)] assms(3)]
  show ?thesis by (auto simp: advances_def sound_def covered_def durable_def)
qed

lemma stop_run_durable:
  "stop_run E opt w = (r, w') \<Longrightarrow> sound n w \<Longrightarrow> parts_publish E \<Longrightarrow> sound n w' \<and> durable w'"
  using stop_durable [of E opt w] by (auto simp: stop_run_def split: prod.splits)

lemma stop_run_finishes: "\<exists>e. fst (stop_run E opt w) = Finished e"
  by (simp add: stop_run_def finish_def split_beta)

lemma run_pass_spec:
  assumes "run_pass E opt fails w = (r, w')" and "sound (1000 + m) w" and "parts_publish E"
  shows "sound m w' \<and> (\<forall>e. r = Finished e \<longrightarrow> durable w')"
proof -
  let ?good = "\<lambda>p. sound m (snd p) \<and> (\<forall>e. fst p = Finished e \<longrightarrow> durable (snd p))"
  have stop: "?good (stop_run E opt x)" if "sound m x" for x
    using stop_run_durable [OF _ that assms(3)] by (metis surj_pair fst_conv snd_conv)
  have weak: "sound m w" using assms(2) sound_mono by fastforce
  obtain ex wx where sh: "shutdown E opt w = (ex, wx)" by (metis surj_pair)
  obtain idle w1 where k: "keyless E opt w = (idle, w1)" by (metis surj_pair)
  have q1: "quiet w w1" using loop_steps_quiet(3) k by (metis snd_conv)
  obtain ok2 w2 where sl: "clock_Sleep E (wo_PollInterval opt) w1 = (ok2, w2)" by (metis surj_pair)
  have q2: "quiet w w2" using quiet_trans [OF q1] loop_steps_quiet(1) sl by (metis snd_conv)
  obtain pr w3 where pa: "pause E opt w1 = (pr, w3)" by (metis surj_pair)
  have q3: "quiet w w3" using quiet_trans [OF q1] loop_steps_quiet(4) pa by (metis snd_conv)
  have s3: "sound m (report opt False w3)" using quiet_sound [OF quiet_trans [OF q3 loop_steps_quiet(2)] weak] .
  obtain n e w4 where st: "Step E opt w3 = (n, e, w4)" by (metis prod_cases3)
  have s4: "sound m w4" using Step_spec [OF st quiet_sound [OF q3 assms(2)] assms(3)] .
  have slept: "sound m (snd (clock_Sleep E d w4))" for d using quiet_sound [OF loop_steps_quiet(1) s4] .
  have s5: "sound m (report opt False w4)" using quiet_sound [OF loop_steps_quiet(2) s4] .
  have idled: "sound m (snd (clock_Sleep E d (snd (idleWait E opt (report opt False w4)))))" for d
    using quiet_sound [OF quiet_trans [OF loop_steps_quiet(5) loop_steps_quiet(1)] s5] .
  have "?good (run_pass E opt fails w)"
    using stop [OF weak] stop [OF quiet_sound [OF q2 weak]] stop [OF quiet_sound [OF q3 weak]] stop [OF s4]
      stop [OF slept] stop [OF idled] stop_durable [OF sh weak assms(3)] quiet_sound [OF q2 weak] s3 s4 s5 slept idled
    by (simp add: run_pass_def sh k sl pa st split_beta Let_def split: option.splits pause_result.splits)
  then show ?thesis by (simp add: assms(1))
qed

lemma run_loop_spec:
  assumes "run_loop E opt fuel fails w = (r, w')" and "sound (1000 * fuel + m) w" and "parts_publish E"
  shows "sound m w' \<and> (r \<noteq> None \<longrightarrow> durable w')"
  using assms
proof (induction fuel arbitrary: fails w)
  case (Suc fuel)
  obtain pr w1 where p: "run_pass E opt fails w = (pr, w1)" by (metis surj_pair)
  have "sound (1000 + (1000 * fuel + m)) w" using Suc.prems(2) by (simp add: algebra_simps)
  note spec = run_pass_spec [OF p this assms(3)]
  show ?case
  proof (cases pr)
    case (Continue f)
    then show ?thesis using Suc.IH [of f w1] Suc.prems(1) p spec assms(3) by simp
  next
    case (Finished e)
    then show ?thesis using Suc.prems(1) p spec sound_mono [of "1000 * fuel + m" w1 m] by auto
  qed
qed simp

end
