(* ===== verification/Worker_Theorems.thy ===== *)
theory Worker_Theorems
  imports Worker_Props
begin

text \<open>
  The theorems about the worker: what a run that has returned leaves behind, what a batch leaves
  claimed, what a failed job costs its row, how delays grow, how a stop ends the loop; and the case
  in which a payload is lost. Concrete runs of the model on a small environment are their
  witnesses.
\<close>

section \<open>A fresh archive\<close>

lemma fresh_archive_room:
  assumes "NewWriter arch rows level = Inr w" and "int n * indexSkips \<le> max_duration"
  shows "archive_room n (w, \<lambda>_. None)"
proof -
  have w: "wr_match w = []" "wr_timeline w = []" "wr_league w = []" "wr_static w = []" "wr_account w = []"
    using assms(1) by (auto simp: NewWriter_def Let_def split: if_splits)
  have "archive_ok 0 (w, \<lambda>_. None)"
    by (simp add: archive_ok_def all_parts_def keys_ok_def w parts_ok_def dirs_ok_def dir_of_def dir_ok_def)
  then show ?thesis using assms(2) by (auto simp: archive_room_def)
qed

section \<open>A small environment\<close>

definition demo_opts :: worker_opts where
  "demo_opts = \<lparr>wo_region = ''EUW'', wo_store_region = ''EUW'', wo_kind = KindMatch, wo_queue = 420, wo_JobBatch = 20,
     wo_FrontierBatch = 20, wo_HistoryCount = 20, wo_MaxAttempts = 8, wo_JobTimeout = seconds 90,
     wo_ClaimGrace = minutes 15, wo_RetryBase = seconds 15, wo_RetryMax = minutes 30, wo_PollInterval = seconds 15,
     wo_ReportInterval = seconds 60, wo_cooldown = 0, wo_expiry = NewKeyExpiry 0, wo_known = True, wo_releaser = True,
     wo_recoverer = True, wo_pacer = False, wo_keys = False, wo_provenance = False\<rparr>"

definition demo_dto :: MatchDTO where
  "demo_dto = \<lparr>d_MatchID = ''EUW1_1'', d_Participants = [], d_GameCreation = 1735689600000, d_GameDuration = 1800,
     d_GameVersion = ''15.1.1'', d_QueueID = 420, d_PUUIDs = [], d_raw = ''{}''\<rparr>"

definition demo_start :: gtime where
  "demo_start = seconds (62135596800 + 1735689600)"

text \<open>Every statement succeeds, the client answers after a second, the stop comes after three.\<close>

definition demo_env :: env where
  "demo_env = \<lparr>e_cancel = Some (demo_start + seconds 3), e_db = \<lambda>n. True, e_locked = \<lambda>n. {}, e_flocked = \<lambda>n. {},
     e_match = \<lambda>n i. (Inr demo_dto, seconds 1), e_timeline = \<lambda>n i. (Inl ErrClosed, 0),
     e_ids = \<lambda>n i. (Inr [], seconds 1), e_io = \<lambda>n. io_ok, e_fio = \<lambda>n d. io_ok, e_rand = \<lambda>n. 0,
     e_blocked = \<lambda>n. (0, False), e_key = \<lambda>n. True, e_sha = \<lambda>s. s, e_encode = \<lambda>m. None, e_tencode = \<lambda>t. None,
     e_show = \<lambda>e. ''error'', e_rshow = \<lambda>e. ''archive''\<rparr>"

definition demo_writer :: writer where
  "demo_writer = (case NewWriter ''data'' 0 0 of Inr w \<Rightarrow> w)"

definition one_row :: queue where
  "one_row = run_queue [OpEnqueue 10 [] [new_item ''EUW1_1'' KindMatch 9]] empty_queue"

lemma one_row_inv: "queue_inv one_row"
  unfolding one_row_def by (intro run_queue_inv empty_queue_inv) (simp add: new_item_def)

definition demo_world :: world where
  "demo_world = \<lparr>w_now = demo_start, w_tick = 0, w_queue = one_row, w_front = [], w_matches = [],
     w_arch = (demo_writer, \<lambda>_. None), w_retained = 0, w_warnedEmpty = False, w_pausedFor = 0, w_lastReport = demo_start\<rparr>"

lemma demo_sound: "n \<le> 10000 \<Longrightarrow> sound n demo_world"
proof -
  assume n: "n \<le> 10000"
  have "NewWriter ''data'' 0 0 = Inr demo_writer" by code_simp
  moreover have "int n * indexSkips \<le> max_duration" using n by (simp add: indexSkips_def max_duration_def)
  ultimately have "archive_room n (demo_writer, \<lambda>_. None)" by (rule fresh_archive_room)
  moreover have "\<forall>j \<in> set (q_rows one_row). j_status j \<noteq> JobDone" by code_simp
  then have "done_keys one_row = {}" by (auto simp: done_keys_def)
  ultimately show ?thesis
    using one_row_inv by (simp add: sound_def covered_def demo_world_def recorded_keys_def)
qed

lemma demo_publishes: "parts_publish demo_env"
  by (simp add: parts_publish_def demo_env_def publishes_def io_ok_def)

section \<open>Nothing is lost\<close>

lemma done_keysI:
  assumes "map (\<lambda>j. (j_status j, job_key j)) (q_rows q) = views" and "i < length views" and "views ! i = (JobDone, k)"
  shows "k \<in> done_keys q"
proof -
  have "i < length (q_rows q)" "(j_status (q_rows q ! i), job_key (q_rows q ! i)) = (JobDone, k)"
    using assms by auto
  then show ?thesis by (auto simp: done_keys_def intro!: bexI [OF _ nth_mem])
qed

text \<open>
  C1: a run that starts from a sound state loses no payload. When \<^verbatim>\<open>Run\<close> returns, for whatever reason,
  every row closed as done and every match recorded has its payload in a published part of the archive:
  statements, requests and writes may fail, the stop may come at any point, only the publication of a part
  (close, sync, rename) must succeed. Sound means: the queue's constraints hold, every row already done and
  every match already recorded has its payload in the archive, and the part indices leave room for the
  run's writes. Both conditions are needed: \<open>failed_flush_loses_a_payload\<close> is the state a failed flush leaves,
  from which a later run closes a row without a payload.
\<close>

theorem run_keeps_every_payload:
  assumes "Run E opt fuel w = (Some e, w')" and "sound (1000 * fuel) w" and "parts_publish E"
  shows "done_keys (w_queue w') \<union> recorded_keys (w_matches w') \<subseteq> safe_keys (w_arch w')"
proof -
  have "run_loop E opt fuel 0 (snd (recoverClaims E opt w)) = (Some e, w')" using assms(1) by (simp add: Run_def)
  moreover have "sound (1000 * fuel + 0) (snd (recoverClaims E opt w))"
    using quiet_sound [OF recoverClaims_quiet assms(2)] by simp
  ultimately have "durable w'" using run_loop_spec [OF _ _ assms(3)] by blast
  then show ?thesis by (simp add: durable_def)
qed

theorem run_keeps_every_payload_witness:
  "(''EUW1_1'', KindMatch) \<in> safe_keys (w_arch (snd (Run demo_env demo_opts 2 demo_world)))"
proof -
  let ?w = "snd (Run demo_env demo_opts 2 demo_world)"
  have run: "(case Run demo_env demo_opts 2 demo_world of (r, w) \<Rightarrow> (r, map (\<lambda>j. (j_status j, job_key j)) (q_rows (w_queue w)))) =
      (Some None, [(JobDone, ''EUW1_1'', KindMatch)])"
    by code_simp
  have "sound (1000 * 2) demo_world" by (rule demo_sound) simp
  moreover have "Run demo_env demo_opts 2 demo_world = (Some None, ?w)" using run by (simp add: split_beta prod_eq_iff)
  ultimately have kept: "done_keys (w_queue ?w) \<union> recorded_keys (w_matches ?w) \<subseteq> safe_keys (w_arch ?w)"
    using run_keeps_every_payload [OF _ _ demo_publishes] by blast
  have "map (\<lambda>j. (j_status j, job_key j)) (q_rows (w_queue ?w)) = [(JobDone, ''EUW1_1'', KindMatch)]"
    using run by (simp add: split_beta)
  from done_keysI [OF this, of 0] have "(''EUW1_1'', KindMatch) \<in> done_keys (w_queue ?w)" by simp
  with kept show ?thesis by blast
qed

text \<open>
  A batch that ends without an error closes no row before its payload is durable: after a drain
  that worked on at least one row and reported nothing, every done row's payload is in a published
  part, and the control plane still does not run ahead of the archive.
\<close>

theorem drained_rows_are_durable:
  assumes "drainQueue E opt w = (n, None, w')" and "0 < n" and "sound (1000 + m) w" and "parts_publish E"
  shows "sound m w' \<and> done_keys (w_queue w') \<subseteq> safe_keys (w_arch w')"
  using drain_spec [OF assms(1,3,4)] assms(2) by (simp add: advances_def)

theorem drained_rows_are_durable_witness:
  "done_keys (w_queue (snd (snd (drainQueue demo_env demo_opts demo_world))))
     \<subseteq> safe_keys (w_arch (snd (snd (drainQueue demo_env demo_opts demo_world))))"
proof -
  let ?r = "drainQueue demo_env demo_opts demo_world"
  have "fst ?r = 1" by code_simp
  moreover have "fst (snd ?r) = None" by code_simp
  ultimately have "?r = (1, None, snd (snd ?r))" by (simp add: prod_eq_iff)
  moreover have "(0 :: int) < 1" by simp
  moreover have "sound (1000 + 0) demo_world" by (rule demo_sound) simp
  ultimately show ?thesis by (rule conjunct2 [OF drained_rows_are_durable [OF _ _ _ demo_publishes]])
qed

section \<open>The payload a failed flush loses\<close>

text \<open>No part can be published: the disk is full, say. Everything else may succeed.\<close>

definition never_publishes :: "env \<Rightarrow> bool" where
  "never_publishes E = ((\<forall>n. \<not> publishes (e_io E n)) \<and> (\<forall>n d. \<not> publishes (e_fio E n d)))"

definition published_in :: "archive_row fs \<Rightarrow> archive_row set" where
  "published_in fs = {r. \<exists>x. r \<in> set (published_rows (dir_of fs x))}"

lemma safe_rows_published: "safe_rows ar = published_in (snd ar)"
  by (simp add: safe_rows_def arch_published_def published_in_def)

lemma rows_removed: "set (published_rows (remove_file n d)) \<subseteq> set (published_rows d)"
  by (auto simp: published_rows_def remove_file_def)

lemma rows_reaped: "set (published_rows (fold remove_file ns d)) \<subseteq> set (published_rows d)"
proof (induction ns arbitrary: d)
  case (Cons n ns)
  show ?case using Cons [of "remove_file n d"] rows_removed [of n d] by auto
qed simp

lemma rows_temp: "set (published_rows (set_file n (TempFile t) d)) \<subseteq> set (published_rows d)"
  unfolding set_file_def by (induction d) (auto simp: published_rows_def split: if_splits)

lemma published_update:
  "set (published_rows d) \<subseteq> set (published_rows (dir_of fs x)) \<Longrightarrow> published_in (fs(x \<mapsto> d)) \<subseteq> published_in fs"
  by (auto simp: published_in_def dir_of_def split: if_splits)

lemma create_part_rows: "published_in (snd (snd (create_part io now n i p fs))) \<subseteq> published_in fs"
  by (induction n arbitrary: i p) (auto simp: Let_def dest!: subsetD [OF published_update [OF rows_temp]])

lemma open_part_rows: "published_in (snd (snd (open_part io now p fs))) \<subseteq> published_in fs"
proof -
  have same: "published_in (fs(x \<mapsto> dir_of fs x)) \<subseteq> published_in fs" for x by (rule published_update) simp
  have reaped: "published_in (reap x ns gs) \<subseteq> published_in gs" for x ns gs
    unfolding reap_def by (rule published_update [OF rows_reaped])
  show ?thesis
    using same reaped create_part_rows unfolding open_part_def by (simp add: Let_def split_beta) (meson subset_trans)
qed

lemma finalize_part_rows:
  "\<not> publishes io \<Longrightarrow> finalize_part io p fs = (e, p', fs') \<Longrightarrow> published_in fs' \<subseteq> published_in fs \<and> pw_enc p' = None"
  using published_update [OF rows_removed]
  by (fastforce simp: finalize_part_def Let_def publishes_def split: option.splits if_splits)

lemma append_row_rows:
  assumes "\<not> publishes io"
  shows "published_in (snd (snd (append_row rpp io now row p fs))) \<subseteq> published_in fs"
proof -
  obtain e1 p1 fs1 where r: "(if pw_enc p = None then open_part io now p fs else (None, p, fs)) = (e1, p1, fs1)"
    by (metis prod_cases3)
  have opened: "published_in fs1 \<subseteq> published_in fs"
    using open_part_rows [of io now p fs] r by (auto split: if_splits)
  have final: "published_in (snd (snd (finalize_part io q fs1))) \<subseteq> published_in fs1" for q
    using finalize_part_rows [OF assms, of q fs1] by (metis prod.collapse)
  show ?thesis
    using opened final by (cases e1) (auto simp: append_row_def r Let_def)
qed

lemma write_match_rows:
  assumes "never_publishes E" and "write_match E dto meta w = (e, w')"
  shows "safe_rows (w_arch w') \<subseteq> safe_rows (w_arch w)" and "w_matches w' = w_matches w"
proof -
  have "\<not> publishes (e_io E (w_tick w))" using assms(1) by (simp add: never_publishes_def)
  note rows = append_row_rows [OF this]
  show "safe_rows (w_arch w') \<subseteq> safe_rows (w_arch w)"
    using assms(2) rows unfolding safe_rows_published
    by (auto simp: write_match_def WriteMatch_def append_to_def Let_def split_beta split: if_splits dest!: subsetD [OF rows])
  show "w_matches w' = w_matches w" using assms(2) by (auto simp: write_match_def split: prod.splits)
qed

lemma finalize_parts_rows:
  "(\<And>d. \<not> publishes (io d)) \<Longrightarrow> finalize_parts io parts fs = (errs, parts', fs') \<Longrightarrow>
     published_in fs' \<subseteq> published_in fs \<and> (\<forall>x \<in> set parts'. pw_enc (snd x) = None)"
proof (induction parts arbitrary: fs errs parts')
  case (Cons dp ps)
  obtain d p where dp: "dp = (d, p)" by (cases dp)
  obtain e p1 fs1 errs2 ps2 where f: "finalize_part (io d) p fs = (e, p1, fs1)"
    "finalize_parts io ps fs1 = (errs2, ps2, fs')" "parts' = (d, p1) # ps2"
    using Cons.prems(2) by (auto simp: dp split: prod.splits)
  show ?case using finalize_part_rows [OF Cons.prems(1) f(1)] Cons.IH [OF Cons.prems(1) f(2)] f(3) by auto
qed simp

lemma failed_flush_keeps_nothing:
  assumes "never_publishes E" and "flush_archive E w = (e, w')"
  shows "held_rows (w_arch w') \<subseteq> safe_rows (w_arch w)" and "w_matches w' = w_matches w"
proof -
  let ?io = "e_fio E (w_tick w)"
  obtain r fs where ar: "w_arch w = (r, fs)" by force
  obtain e1 m f1 where r1: "finalize_parts ?io (wr_match r) fs = (e1, m, f1)" by (metis prod_cases3)
  obtain e2 t f2 where r2: "finalize_parts ?io (wr_timeline r) f1 = (e2, t, f2)" by (metis prod_cases3)
  obtain e3 l f3 where r3: "finalize_parts ?io (wr_league r) f2 = (e3, l, f3)" by (metis prod_cases3)
  obtain e4 s f4 where r4: "finalize_parts ?io (wr_static r) f3 = (e4, s, f4)" by (metis prod_cases3)
  obtain e5 a f5 where r5: "finalize_parts ?io (wr_account r) f4 = (e5, a, f5)" by (metis prod_cases3)
  have io: "\<And>d. \<not> publishes (?io d)" using assms(1) by (simp add: never_publishes_def)
  note rows = finalize_parts_rows [OF io r1] finalize_parts_rows [OF io r2] finalize_parts_rows [OF io r3]
    finalize_parts_rows [OF io r4] finalize_parts_rows [OF io r5]
  have w': "w_arch w' = (r\<lparr>wr_match := m, wr_timeline := t, wr_league := l, wr_static := s, wr_account := a\<rparr>, f5)"
    using assms(2) by (auto simp: flush_archive_def Flush_def finalizeAll_def ar r1 r2 r3 r4 r5 split: prod.splits)
  have "buffer_of (all_parts (fst (w_arch w'))) x = []" for x
    using rows by (auto simp: buffer_of_def all_parts_def w' split: option.splits dest!: map_of_SomeD)
  then have "held_rows (w_arch w') = published_in f5"
    by (simp add: held_rows_def arch_log_def dir_log_def published_in_def) (simp add: w')
  also have "\<dots> \<subseteq> published_in fs" using rows by (meson subset_trans)
  finally show "held_rows (w_arch w') \<subseteq> safe_rows (w_arch w)" by (simp add: safe_rows_published ar)
  show "w_matches w' = w_matches w" using assms(2) by (auto simp: flush_archive_def split: prod.splits)
qed

lemma upserted_is_recorded:
  assumes "UpsertMatch region rec ms = (Inr ins, ms')"
  shows "MatchExists (mr_MatchID rec) ms'"
  using assms
  by (auto simp: UpsertMatch_def Let_def MatchExists_def match_row_of_def find_match_None split: if_splits sum.splits option.splits)

lemma kept_job_is_recorded:
  assumes "never_publishes E" and "processMatchJob E opt item w = (True, None, w1)"
  shows "safe_rows (w_arch w1) \<subseteq> safe_rows (w_arch w)" and "MatchExists (qi_MatchID item) (w_matches w1)"
proof -
  obtain known v1 where k: "alreadyArchived E opt item w = (known, v1)" by force
  obtain r v2 where f: "fetch_match E (qi_MatchID item) v1 = (r, v2)" by force
  have "\<not> known" using assms(2) by (auto simp: processMatchJob_def k)
  then obtain dto where r: "r = Inr dto" using assms(2) by (auto simp: processMatchJob_def k f split: sum.splits)
  let ?meta = "MatchMetaFromDTO dto (qi_MatchID item) (wo_region opt) (w_now v2)"
  obtain e v3 where wr: "write_match E dto ?meta v2 = (e, v3)" by force
  let ?rec = "MatchRecordFromMeta ?meta (MatchPartitionURI (wr_root (fst (w_arch v3))) ?meta)"
  obtain ok v4 where up: "upsert_match E opt ?rec v3 = (ok, v4)" by force
  have e: "e = None" and ok: "ok" and w1: "w1 = widen E opt dto ?meta v4"
    using assms(2) \<open>\<not> known\<close> by (auto simp: processMatchJob_def k f r wr up Let_def split: option.splits if_splits)
  have arch: "w_arch v2 = w_arch w" "w_arch v4 = w_arch v3" "w_arch w1 = w_arch v4" "w_matches w1 = w_matches v4"
    using k f up
    by (auto simp: alreadyArchived_def fetch_match_def upsert_match_def w1 widen_def Let_def split: if_splits prod.splits sum.splits)
  show "safe_rows (w_arch w1) \<subseteq> safe_rows (w_arch w)" using write_match_rows(1) [OF assms(1) wr] arch by simp
  obtain ins where "UpsertMatch (wo_store_region opt) ?rec (w_matches v3) = (Inr ins, w_matches v4)"
    using up ok by (auto simp: upsert_match_def split: if_splits sum.splits prod.splits)
  from upserted_is_recorded [OF this] show "MatchExists (qi_MatchID item) (w_matches w1)"
    by (simp add: arch MatchRecordFromMeta_def MatchMetaFromDTO_def)
qed

lemma recorded_iff: "MatchExists i ms \<longleftrightarrow> (i, KindMatch) \<in> recorded_keys ms"
  by (auto simp: MatchExists_def find_match_None recorded_keys_def)

lemma known_match_is_completed:
  assumes "MatchExists (qi_MatchID item) (w_matches u)" and "wo_known opt" and "all_db E" and "\<not> stopped E u"
    and "j \<in> set (q_rows (w_queue u))" and "j_status j = JobClaimed" and "j_id j = qi_ID item"
  shows "\<exists>u'. processMatchJob E opt item u = (False, None, u') \<and> job_key j \<in> done_keys (w_queue u') \<and>
    w_arch u' = w_arch u \<and> w_matches u' = w_matches u \<and> w_now u' = w_now u"
proof (intro exI conjI)
  let ?u' = "(bump (bump u))\<lparr>w_queue := CompleteJob (qi_ID item) (w_queue u)\<rparr>"
  show "processMatchJob E opt item u = (False, None, ?u')"
    using assms(1-4) by (simp add: processMatchJob_def alreadyArchived_def completeDetached_def db_ok_def all_db_def)
  have "complete_job j \<in> set (q_rows (CompleteJob (qi_ID item) (w_queue u)))"
    using complete.guarded_hit [OF assms(5,6)] assms(7) by (simp add: CompleteJob_def)
  moreover have "j_status (complete_job j) = JobDone" "job_key j = job_key (complete_job j)"
    by (simp_all add: complete_job_def job_key_def)
  ultimately show "job_key j \<in> done_keys (w_queue ?u')" by (auto simp: done_keys_def)
qed simp_all

text \<open>
  C4: a flush that fails loses the payloads it held for good. The match is recorded when its row is
  processed, before the flush; a flush that can publish no part drops the buffers, and from then on the
  archive does not hold the payload anywhere. Whichever worker processes the row again finds the match recorded,
  takes its payload for archived, sends no request and completes the row: the row is done and the match
  recorded although nothing was archived. \<open>u\<close> is any state that second worker may find, with the
  archive as the flush left it and at least the matches recorded by then; the worker asks its store for known
  matches, as the code's does, is not stopped, and its statements reach the database.
\<close>

theorem failed_flush_loses_a_payload:
  assumes "never_publishes E" and new: "(qi_MatchID item, KindMatch) \<notin> safe_keys (w_arch w)"
    and first: "processMatchJob E opt item w = (True, None, w1)" and flush: "flush_archive E w1 = (Some cause, w2)"
    and later: "w_arch u = w_arch w2" "set (w_matches w2) \<subseteq> set (w_matches u)"
    and row: "j \<in> set (q_rows (w_queue u))" "j_status j = JobClaimed" "j_id j = qi_ID item'"
      "job_key j = (qi_MatchID item, KindMatch)" "qi_MatchID item' = qi_MatchID item"
    and second: "wo_known opt'" "all_db E'" "\<not> stopped E' u"
  shows "\<exists>u'. processMatchJob E' opt' item' u = (False, None, u') \<and> w_now u' = w_now u \<and>
    (qi_MatchID item, KindMatch) \<in> done_keys (w_queue u') \<inter> recorded_keys (w_matches u') \<and>
    (qi_MatchID item, KindMatch) \<notin> held_keys (w_arch u')"
proof -
  note kept = kept_job_is_recorded [OF assms(1) first] and lost = failed_flush_keeps_nothing [OF assms(1) flush]
  have "held_rows (w_arch u) \<subseteq> safe_rows (w_arch w)" using kept(1) lost(1) later(1) by simp
  then have gone: "(qi_MatchID item, KindMatch) \<notin> held_keys (w_arch u)"
    using new by (auto simp: held_keys_def safe_keys_def)
  have known: "MatchExists (qi_MatchID item') (w_matches u)"
    using kept(2) lost(2) later(2) row(5) by (auto simp: recorded_iff recorded_keys_def)
  from known_match_is_completed [OF known second row(1-3)] gone known row(4,5)
  show ?thesis by (auto simp: recorded_iff)
qed

definition full_disk :: env where
  "full_disk = demo_env\<lparr>e_cancel := None, e_io := \<lambda>n. io_ok\<lparr>io_rename := False\<rparr>, e_fio := \<lambda>n d. io_ok\<lparr>io_rename := False\<rparr>\<rparr>"

definition claimed_world :: world where
  "claimed_world = demo_world\<lparr>w_queue := snd (ClaimJobsOfKind KindMatch 20 demo_start {} one_row)\<rparr>"

definition claimed_row_one :: job where
  "claimed_row_one = q_rows (w_queue claimed_world) ! 0"

definition processed_world :: world where
  "processed_world = snd (snd (processMatchJob full_disk demo_opts (item_of claimed_row_one) claimed_world))"

definition flushed_world :: world where
  "flushed_world = snd (flush_archive full_disk processed_world)"

theorem failed_flush_loses_a_payload_witness:
  "\<exists>u'. processMatchJob demo_env demo_opts (item_of claimed_row_one) (flushed_world\<lparr>w_queue := w_queue claimed_world, w_now := demo_start\<rparr>) =
      (False, None, u') \<and> (''EUW1_1'', KindMatch) \<notin> held_keys (w_arch u')"
proof -
  let ?item = "item_of claimed_row_one"
  let ?u = "flushed_world\<lparr>w_queue := w_queue claimed_world, w_now := demo_start\<rparr>"
  have disk: "never_publishes full_disk"
    by (simp add: never_publishes_def full_disk_def publishes_def)
  have id: "qi_MatchID ?item = ''EUW1_1''" by code_simp
  have new: "(qi_MatchID ?item, KindMatch) \<notin> safe_keys (w_arch claimed_world)"
    by (simp add: safe_keys_def safe_rows_def arch_published_def dir_of_def published_rows_def claimed_world_def demo_world_def)
  have "fst (processMatchJob full_disk demo_opts ?item claimed_world) = True" by code_simp
  moreover have "fst (snd (processMatchJob full_disk demo_opts ?item claimed_world)) = None" by code_simp
  ultimately have first: "processMatchJob full_disk demo_opts ?item claimed_world = (True, None, processed_world)"
    by (simp add: processed_world_def prod_eq_iff)
  have "fst (flush_archive full_disk processed_world) \<noteq> None" by code_simp
  then obtain cause where flush: "flush_archive full_disk processed_world = (Some cause, flushed_world)"
    unfolding flushed_world_def by (metis not_None_eq prod.collapse)
  have "0 < length (q_rows (w_queue claimed_world))" by code_simp
  then have row: "claimed_row_one \<in> set (q_rows (w_queue ?u))" by (simp add: claimed_row_one_def)
  have status: "j_status claimed_row_one = JobClaimed" by code_simp
  have key: "job_key claimed_row_one = (qi_MatchID ?item, KindMatch)" by code_simp
  have "\<not> stopped demo_env (demo_world\<lparr>w_now := demo_start\<rparr>)" by code_simp
  then have live: "\<not> stopped demo_env ?u" by (simp add: stopped_def)
  have opts: "wo_known demo_opts" "all_db demo_env" by (simp_all add: demo_opts_def all_db_def demo_env_def)
  have "j_id claimed_row_one = qi_ID ?item" by (simp add: item_of_def)
  from failed_flush_loses_a_payload [OF disk new first flush _ _ row status this key _ opts live]
  show ?thesis unfolding id by auto
qed

section \<open>No claim is left behind\<close>

definition settles :: "env \<Rightarrow> QueueItem \<Rightarrow> bool \<Rightarrow> worker_error option \<Rightarrow> world \<Rightarrow> world \<Rightarrow> bool" where
  "settles E item kept e w w' =
     (claimed_ids (w_queue w') \<subseteq> claimed_ids (w_queue w) \<and>
      (all_db E \<and> e = None \<and> \<not> kept \<longrightarrow> qi_ID item \<notin> claimed_ids (w_queue w')))"

lemma settles_back: "hands_back E item e w1 w' \<Longrightarrow> w_queue w1 = w_queue w \<Longrightarrow> settles E item kept e w w'"
  by (simp add: hands_back_def settles_def calm_def)

lemma settles_same: "w_queue w' = w_queue w \<Longrightarrow> kept \<or> e \<noteq> None \<Longrightarrow> settles E item kept e w w'"
  by (auto simp: settles_def)

lemma queue_untouched [simp]:
  "w_queue (snd (alreadyArchived E opt item w)) = w_queue w" "w_queue (snd (fetch_match E i w)) = w_queue w"
  "w_queue (snd (fetch_timeline E i w)) = w_queue w" "w_queue (snd (write_match E dto meta w)) = w_queue w"
  "w_queue (snd (write_timeline E tdto meta w)) = w_queue w" "w_queue (snd (upsert_match E opt rec w)) = w_queue w"
  "w_queue (widen E opt dto meta w) = w_queue w" "w_queue (snd (flush_archive E w)) = w_queue w"
  by (simp_all add: alreadyArchived_def fetch_match_def fetch_timeline_def write_match_def write_timeline_def
      upsert_match_def widen_def flush_archive_def Let_def split_beta split: sum.splits)

lemma complete_settles:
  "settles E item False (fst (completeDetached E (qi_ID item) w)) w (snd (completeDetached E (qi_ID item) w))"
  by (simp add: completeDetached_def settles_def exit_views)

lemmas settled_by = settles_back [OF back_pair [OF handleFetchFailure_back]]
  settles_back [OF back_pair [OF handleArchiveFailure_back]] settles_back [OF back_pair [OF deadLetter_back]]
  settles_back [OF back_pair [OF requeueAfter_back]] settles_back [OF retryDetached_back]

lemma processMatchJob_settles:
  assumes "processMatchJob E opt item w = (kept, e, w')"
  shows "settles E item kept e w w'"
proof -
  obtain known w1 where k: "alreadyArchived E opt item w = (known, w1)" by (metis surj_pair)
  obtain r w2 where f: "fetch_match E (qi_MatchID item) w1 = (r, w2)" by (metis surj_pair)
  have q: "w_queue w1 = w_queue w" "w_queue w2 = w_queue w"
    using queue_untouched(1) [of E opt item w] queue_untouched(2) [of E "qi_MatchID item" w1] by (simp_all add: k f)
  consider known | err where "\<not> known" "r = Inl err" | dto where "\<not> known" "r = Inr dto" by (cases r) blast+
  then show ?thesis
  proof cases
    case 1
    then have "kept = False" "e = fst (completeDetached E (qi_ID item) w1)" "w' = snd (completeDetached E (qi_ID item) w1)"
      using assms k by (auto simp: processMatchJob_def)
    then show ?thesis using complete_settles [of E item w1] by (simp add: settles_def q(1))
  next
    case (2 err)
    then show ?thesis using assms k f settled_by(1) [OF _ q(2)] by (auto simp: processMatchJob_def)
  next
    case (3 dto)
    note False = 3(1) and r = 3(2)
    obtain e3 w3 where wr: "write_match E dto (MatchMetaFromDTO dto (qi_MatchID item) (wo_region opt) (w_now w2)) w2 = (e3, w3)"
      by (metis surj_pair)
    have q3: "w_queue w3 = w_queue w" using queue_untouched(4) wr q(2) by (metis snd_conv)
    show ?thesis
    proof (cases e3)
      case (Some x)
      then show ?thesis
        using assms False k f r wr settled_by(2) [OF _ q3] by (auto simp: processMatchJob_def Let_def)
    next
      case None
      then show ?thesis
        using assms False k f r wr q3 by (auto simp: processMatchJob_def Let_def split_beta split: if_splits intro: settles_same)
    qed
  qed
qed

lemma processTimelineJob_settles:
  assumes "processTimelineJob E opt item w = (kept, e, w')"
  shows "settles E item kept e w w'"
proof -
  let ?i = "qi_MatchID item"
  obtain r w2 where f: "fetch_timeline E ?i (bump w) = (r, w2)" by (metis surj_pair)
  have q: "w_queue w2 = w_queue w" using queue_untouched(3) [of E ?i "bump w"] by (simp add: f)
  consider "\<not> db_ok E False w" | err where "db_ok E False w" "MatchProvenance ?i (w_matches w) = Inl err"
    | rec where "db_ok E False w" "MatchProvenance ?i (w_matches w) = Inr rec"
    by (metis old.sum.exhaust)
  then show ?thesis
  proof cases
    case 1
    then show ?thesis
      using assms settled_by(4,5) by (auto simp: processTimelineJob_def Let_def split_beta split: if_splits intro: settles_back [OF requeueAfter_back] settles_back [OF retryDetached_back])
  next
    case (2 err)
    then show ?thesis using assms settled_by(3) [of E item _ "bump w"] by (auto simp: processTimelineJob_def)
  next
    case (3 rec)
    show ?thesis
    proof (cases r)
      case (Inl err)
      then show ?thesis using assms 3 f settled_by(1) [OF _ q] by (auto simp: processTimelineJob_def)
    next
      case (Inr dto)
      obtain e3 w3 where wr: "write_timeline E dto (TimelineMetaFromRecord rec (wo_region opt) (w_now w2)) w2 = (e3, w3)"
        by (metis surj_pair)
      have q3: "w_queue w3 = w_queue w" using queue_untouched(5) wr q by (metis snd_conv)
      show ?thesis
      proof (cases e3)
        case None
        then show ?thesis using assms 3 f Inr wr settles_same [OF q3] by (auto simp: processTimelineJob_def Let_def)
      next
        case (Some x)
        then show ?thesis
          using assms 3 f Inr wr settled_by(2) [OF _ q3] by (auto simp: processTimelineJob_def Let_def)
      qed
    qed
  qed
qed

lemma processJob_settles: "processJob E opt item w = (kept, e, w') \<Longrightarrow> settles E item kept e w w'"
  using processMatchJob_settles processTimelineJob_settles by (simp add: processJob_def split: if_splits)

lemma release_reliable: "all_db E \<Longrightarrow> fst (release E opt True item c w) = None"
  by (simp add: release_def requeue_def requeueAfter_def db_ok_def all_db_def split_beta Let_def)

lemma releaseUnstarted_claims:
  "all_db E \<Longrightarrow> claimed_ids (w_queue (releaseUnstarted E opt items w)) \<subseteq> claimed_ids (w_queue w) - qi_ID ` set items"
proof (induction items arbitrary: w)
  case (Cons item items)
  let ?w = "snd (release E opt True item [] w)"
  have "claimed_ids (w_queue ?w) \<subseteq> claimed_ids (w_queue w) - {qi_ID item}"
    using release_back [of E item opt True "[]" w] release_reliable [OF Cons.prems, of opt item "[]" w] Cons.prems
    by (auto simp: hands_back_def calm_def)
  with Cons.IH [OF Cons.prems, of ?w] show ?case by auto
qed simp

lemma drain_rows_claims:
  assumes "drain_rows E opt items k kept w = (n, kept', None, w')" and "all_db E"
  shows "claimed_ids (w_queue w') - qi_ID ` set kept' \<subseteq> claimed_ids (w_queue w) - qi_ID ` set (kept @ items)"
  using assms
proof (induction items arbitrary: k kept w)
  case (Cons item items)
  show ?case
  proof (cases "stopped E w")
    case True
    then show ?thesis
      using Cons.prems(1) releaseUnstarted_claims [OF assms(2), of opt "item # items" w] by auto
  next
    case False
    obtain h e1 w1 where p: "processJob E opt item w = (h, e1, w1)" by (metis prod_cases3)
    have e1: "e1 = None" using Cons.prems(1) False p by (cases e1) simp_all
    have set1: "claimed_ids (w_queue w1) \<subseteq> claimed_ids (w_queue w)" "\<not> h \<Longrightarrow> qi_ID item \<notin> claimed_ids (w_queue w1)"
      using processJob_settles [OF p] e1 assms(2) by (simp_all add: settles_def)
    show ?thesis
    proof (cases h)
      case True
      then have "drain_rows E opt items (k + 1) (kept @ [item]) (w1\<lparr>w_retained := w_retained w1 + 1\<rparr>) = (n, kept', None, w')"
        using Cons.prems(1) False p e1 by simp
      from Cons.IH [OF this assms(2)] set1(1) show ?thesis by auto
    next
      case False': False
      then have "drain_rows E opt items (k + 1) kept w1 = (n, kept', None, w')"
        using Cons.prems(1) False p e1 by simp
      from Cons.IH [OF this assms(2)] set1(1) set1(2) [OF False'] show ?thesis by auto
    qed
  qed
qed simp

lemma complete_all_claims:
  assumes "complete_all E items w = (e, w')" and "all_db E"
  shows "e = None \<and> claimed_ids (w_queue w') = claimed_ids (w_queue w) - qi_ID ` set items"
  using assms
proof (induction items arbitrary: w)
  case (Cons item items)
  let ?w = "(bump w)\<lparr>w_queue := CompleteJob (qi_ID item) (w_queue w)\<rparr>"
  have "completeDetached E (qi_ID item) w = (None, ?w)"
    using assms(2) by (simp add: completeDetached_def db_ok_def all_db_def)
  then have "complete_all E items ?w = (e, w')" using Cons.prems(1) by simp
  from Cons.IH [OF this assms(2)] show ?case by (auto simp: exit_views)
qed simp

lemma claim_claims:
  "claimed_ids (snd (ClaimJobsOfKind k n now l q)) \<subseteq> claimed_ids q \<union> qi_ID ` set (fst (ClaimJobsOfKind k n now l q))"
proof
  fix i assume "i \<in> claimed_ids (snd (ClaimJobsOfKind k n now l q))"
  then have "i \<in> claimed_ids q \<or> i \<in> j_id ` set (claim_pick k (nat (clampLimit n)) now l q)"
    by (auto simp: Claim_rows claimed_ids_def update_rows_def claim_job_def split: if_splits)
  moreover have "qi_ID ` set (fst (ClaimJobsOfKind k n now l q)) = j_id ` set (claim_pick k (nat (clampLimit n)) now l q)"
    unfolding claimed_items by (simp add: image_image item_of_def claim_job_def)
  ultimately show "i \<in> claimed_ids q \<union> qi_ID ` set (fst (ClaimJobsOfKind k n now l q))" by auto
qed

text \<open>
  C15: a batch that ends without an error leaves none of its rows claimed, whatever happened to them:
  fetched, failed, refused, given up, or handed back unstarted because the stop came in the middle.
  (The statements reach the database; the requests, the writes and the flush may fail.)
\<close>

theorem clean_batch_leaves_no_claim:
  assumes "drainQueue E opt w = (n, None, w')" and "all_db E"
  shows "claimed_ids (w_queue w') \<subseteq> claimed_ids (w_queue w)"
proof -
  obtain r w1 where c: "claim_batch E opt w = (r, w1)" by (metis surj_pair)
  then obtain items where r: "r = Some items" using assms(1) by (cases r) (simp_all add: drainQueue_def)
  have c1: "claimed_ids (w_queue w1) \<subseteq> claimed_ids (w_queue w) \<union> qi_ID ` set items"
    using c r claim_claims [of "wo_kind opt" "wo_JobBatch opt" "w_now w" "e_locked E (w_tick w)" "w_queue w"]
    by (auto simp: claim_batch_def split: if_splits prod.splits)
  show ?thesis
  proof (cases "items = []")
    case True
    then show ?thesis using assms(1) c c1 r by (simp add: drainQueue_def)
  next
    case False
    obtain k kept e2 w2 where d: "drain_rows E opt items 0 [] w1 = (k, kept, e2, w2)" by (metis prod_cases4)
    have e2: "e2 = None" using assms(1) c r False d by (cases e2) (simp_all add: drainQueue_def)
    have c2: "claimed_ids (w_queue w2) - qi_ID ` set kept \<subseteq> claimed_ids (w_queue w1) - qi_ID ` set items"
      using drain_rows_claims [OF d [unfolded e2] assms(2)] by simp
    obtain fe w3 where f: "flush_archive E w2 = (fe, w3)" by (metis surj_pair)
    have q3: "w_queue w3 = w_queue w2" using queue_untouched(8) [of E w2] by (simp add: f)
    obtain e4 w4 where ca: "complete_all E kept w3 = (e4, w4)" by (metis surj_pair)
    have "fe = None" using assms(1) c r False d e2 f by (cases fe) (simp_all add: drainQueue_def split_beta)
    then have "w' = w4" using assms(1) c r False d e2 f ca by (simp add: drainQueue_def)
    then show ?thesis using complete_all_claims [OF ca assms(2)] c1 c2 q3 by auto
  qed
qed

theorem clean_batch_leaves_no_claim_witness:
  "claimed_ids (w_queue (snd (snd (drainQueue demo_env demo_opts demo_world)))) \<subseteq> claimed_ids (w_queue demo_world)"
proof -
  have "fst (snd (drainQueue demo_env demo_opts demo_world)) = None" by code_simp
  then have "drainQueue demo_env demo_opts demo_world =
      (fst (drainQueue demo_env demo_opts demo_world), None, snd (snd (drainQueue demo_env demo_opts demo_world)))"
    by (simp add: prod_eq_iff)
  moreover have "all_db demo_env" by (simp add: all_db_def demo_env_def)
  ultimately show ?thesis by (rule clean_batch_leaves_no_claim)
qed

section \<open>What a failure costs a row\<close>

text \<open>
  The outcome the policy prescribes for a claimed row whose request failed: \<open>Some\<close> status, attempts
  and the earliest next try.
\<close>

definition failure_outcome :: "worker_opts \<Rightarrow> go_error \<Rightarrow> QueueItem \<Rightarrow> JobStatus \<times> int" where
  "failure_outcome opt err item =
     (if errors_Is err ErrCircuitOpen then (JobRetry, qi_Attempts item - 1)
      else if classify err \<in> {FailureGone, FailureBadRequest} then (JobDead, qi_Attempts item)
      else if classify err = FailureKeyRefused then (JobRetry, qi_Attempts item - 1)
      else if wo_MaxAttempts opt \<le> qi_Attempts item then (JobDead, qi_Attempts item)
      else (JobRetry, qi_Attempts item))"

lemma guarded_outcome:
  assumes "queue_inv q" and "j \<in> set (q_rows q)" and "j_status j = JobClaimed"
  shows "retry_job nb c j \<in> set (q_rows (RetryJob (j_id j) nb c q))"
    and "release_job nb c j \<in> set (q_rows (ReleaseJob (j_id j) nb c q))"
    and "dead_letter_job now c j \<in> set (q_rows (DeadLetterJob (j_id j) c now q))"
  using retry.guarded_hit [OF assms(2,3)] release.guarded_hit [OF assms(2,3)] dead.guarded_hit [OF assms(2,3)]
  by (simp_all add: RetryJob_def ReleaseJob_def DeadLetterJob_def)

lemma rateLimitDelay_queue: "w_queue (snd (rateLimitDelay E opt d w)) = w_queue w"
  using rateLimitDelay_calm [of w E opt d] by (simp add: rateLimitDelay_def Let_def split_beta)

lemma requeueAfter_outcome:
  assumes "queue_inv (w_queue w)" and "j \<in> set (q_rows (w_queue w))" and "j_status j = JobClaimed"
    and "qi_ID item = j_id j" and "all_db E" and "\<not> stopped E w"
  shows "fst (requeueAfter E det item c d w) = None \<and>
    retry_job (w_now w + d) c j \<in> set (q_rows (w_queue (snd (requeueAfter E det item c d w))))"
  using guarded_outcome(1) [OF assms(1-3)] assms(4-6) by (simp add: requeueAfter_def db_ok_def all_db_def)

lemma release_outcome:
  assumes "queue_inv (w_queue w)" and "j \<in> set (q_rows (w_queue w))" and "j_status j = JobClaimed"
    and "qi_ID item = j_id j" and "all_db E" and "\<not> stopped E w" and "wo_releaser opt"
  shows "fst (release E opt det item c w) = None \<and>
    (\<exists>nb. release_job nb c j \<in> set (q_rows (w_queue (snd (release E opt det item c w)))))"
  using guarded_outcome(2) [OF assms(1-3)] assms(4-7)
  by (auto simp: release_def db_ok_def all_db_def split_beta)

lemma deadLetter_outcome:
  assumes "queue_inv (w_queue w)" and "j \<in> set (q_rows (w_queue w))" and "j_status j = JobClaimed"
    and "qi_ID item = j_id j" and "all_db E" and "\<not> stopped E w"
  shows "fst (deadLetter E item c w) = None \<and>
    dead_letter_job (w_now w) c j \<in> set (q_rows (w_queue (snd (deadLetter E item c w))))"
  using guarded_outcome(3) [OF assms(1-3)] assms(4-6) by (simp add: deadLetter_def db_ok_def all_db_def)

text \<open>
  C16: a failed request costs its row what the failure says of it: an open circuit and a refused key
  give the attempt of the claim back, so an outage or an expired key retires no row; a missing match
  and a request refused as malformed (400, 422) retire it at once; anything else keeps the attempt, and
  retires the row once its attempts are spent. This is of a claimed row of a queue whose constraints hold, while
  the worker is not stopped, its statements reach the database and its store can release a claim.
\<close>

theorem failure_policy:
  assumes "queue_inv (w_queue w)" and "j \<in> set (q_rows (w_queue w))" and "j_status j = JobClaimed" and "0 < j_attempts j"
    and "all_db E" and "\<not> stopped E w" and "wo_releaser opt"
  shows "fst (handleFetchFailure E opt (item_of j) err w) = None \<and>
    (\<exists>j' \<in> set (q_rows (w_queue (snd (handleFetchFailure E opt (item_of j) err w)))).
       j_id j' = j_id j \<and> (j_status j', j_attempts j') = failure_outcome opt err (item_of j))"
proof -
  let ?c = "shortCause (e_show E) err"
  let ?r = "rateLimitDelay E opt (fst (retryDelay E opt (j_attempts j) w)) (bump w)"
  have item: "qi_ID (item_of j) = j_id j" "qi_Attempts (item_of j) = j_attempts j" by (simp_all add: item_of_def)
  note dead = deadLetter_outcome [OF assms(1-3) item(1) assms(5,6), of ?c]
  note rel = release_outcome [OF assms(1-3) item(1) assms(5-7), of False ?c]
  have "fst (requeueAfter E False (item_of j) ?c (fst ?r) (snd ?r)) = None \<and>
      retry_job (w_now (snd ?r) + fst ?r) ?c j \<in> set (q_rows (w_queue (snd (requeueAfter E False (item_of j) ?c (fst ?r) (snd ?r)))))"
    by (rule requeueAfter_outcome)
      (use assms in \<open>simp_all add: rateLimitDelay_queue item stopped_now [OF rateLimitDelay_now]\<close>)
  note again = this
  let ?h = "handleFetchFailure E opt (item_of j) err w"
  have goal: ?thesis
    if "?h = p" "fst p = None" "j' \<in> set (q_rows (w_queue (snd p)))" "j_id j' = j_id j"
      "(j_status j', j_attempts j') = failure_outcome opt err (item_of j)" for p j'
    using that by auto
  have dead_case: ?thesis
    if "?h = deadLetter E (item_of j) ?c w" "failure_outcome opt err (item_of j) = (JobDead, j_attempts j)"
    by (rule goal [OF that(1) conjunct1 [OF dead] conjunct2 [OF dead]]) (simp_all add: dead_letter_job_def that(2))
  obtain nb where nb: "release_job nb ?c j \<in> set (q_rows (w_queue (snd (release E opt False (item_of j) ?c w))))"
    using rel by blast
  have release_case: ?thesis
    if "?h = release E opt False (item_of j) ?c w" "failure_outcome opt err (item_of j) = (JobRetry, j_attempts j - 1)"
    by (rule goal [OF that(1) conjunct1 [OF rel] nb]) (use assms(4) in \<open>simp_all add: release_job_def that(2)\<close>)
  have retry_case: ?thesis
    if "?h = requeueAfter E False (item_of j) ?c (fst ?r) (snd ?r)" "failure_outcome opt err (item_of j) = (JobRetry, j_attempts j)"
    by (rule goal [OF that(1) conjunct1 [OF again] conjunct2 [OF again]]) (simp_all add: retry_job_def that(2))
  have split: "?h = (if errors_Is err ErrCircuitOpen then release E opt False (item_of j) ?c w
      else if classify err = FailureGone \<or> classify err = FailureBadRequest then deadLetter E (item_of j) ?c w
      else if classify err = FailureKeyRefused then release E opt False (item_of j) ?c w
      else if wo_MaxAttempts opt \<le> j_attempts j then deadLetter E (item_of j) ?c w
      else requeueAfter E False (item_of j) ?c (fst ?r) (snd ?r))"
    using assms(6) by (simp add: handleFetchFailure_def Let_def split_beta item)
  consider "errors_Is err ErrCircuitOpen" | "\<not> errors_Is err ErrCircuitOpen" "classify err = FailureGone \<or> classify err = FailureBadRequest"
    | "\<not> errors_Is err ErrCircuitOpen" "classify err = FailureKeyRefused"
    | "\<not> errors_Is err ErrCircuitOpen" "classify err \<notin> {FailureGone, FailureBadRequest, FailureKeyRefused}" "wo_MaxAttempts opt \<le> j_attempts j"
    | "\<not> errors_Is err ErrCircuitOpen" "classify err \<notin> {FailureGone, FailureBadRequest, FailureKeyRefused}" "\<not> wo_MaxAttempts opt \<le> j_attempts j"
    by fastforce
  then show ?thesis
  proof cases
    case 1
    show ?thesis by (rule release_case, unfold split) (simp_all add: 1 failure_outcome_def item)
  next
    case 2
    show ?thesis by (rule dead_case, unfold split) (use 2 in \<open>auto simp: failure_outcome_def item\<close>)
  next
    case 3
    show ?thesis by (rule release_case, unfold split) (simp_all add: 3 failure_outcome_def item)
  next
    case 4
    show ?thesis by (rule dead_case, unfold split) (use 4 in \<open>simp_all add: failure_outcome_def item\<close>)
  next
    case 5
    show ?thesis by (rule retry_case, unfold split) (use 5 in \<open>simp_all add: failure_outcome_def item\<close>)
  qed
qed

theorem failure_policy_witness:
  "fst (handleFetchFailure demo_env demo_opts (item_of claimed_row_one) (StatusError ''match'' 403 []) claimed_world) = None \<and>
    (\<exists>j' \<in> set (q_rows (w_queue (snd (handleFetchFailure demo_env demo_opts (item_of claimed_row_one)
        (StatusError ''match'' 403 []) claimed_world)))).
       j_id j' = j_id claimed_row_one \<and>
       (j_status j', j_attempts j') = failure_outcome demo_opts (StatusError ''match'' 403 []) (item_of claimed_row_one)) \<and>
    failure_outcome demo_opts (StatusError ''match'' 403 []) (item_of claimed_row_one) = (JobRetry, 0)"
proof -
  have "queue_inv (w_queue claimed_world)"
    by (simp add: claimed_world_def Claim_inv one_row_inv)
  moreover have "0 < length (q_rows (w_queue claimed_world))" by code_simp
  then have "claimed_row_one \<in> set (q_rows (w_queue claimed_world))"
    unfolding claimed_row_one_def by (rule nth_mem)
  moreover have "j_status claimed_row_one = JobClaimed" by code_simp
  moreover have "0 < j_attempts claimed_row_one" by code_simp
  moreover have "all_db demo_env" by (simp add: all_db_def demo_env_def)
  moreover have "\<not> stopped demo_env claimed_world" by code_simp
  moreover have "wo_releaser demo_opts" by (simp add: demo_opts_def)
  ultimately have "fst (handleFetchFailure demo_env demo_opts (item_of claimed_row_one) (StatusError ''match'' 403 []) claimed_world) = None \<and>
    (\<exists>j' \<in> set (q_rows (w_queue (snd (handleFetchFailure demo_env demo_opts (item_of claimed_row_one)
        (StatusError ''match'' 403 []) claimed_world)))).
       j_id j' = j_id claimed_row_one \<and>
       (j_status j', j_attempts j') = failure_outcome demo_opts (StatusError ''match'' 403 []) (item_of claimed_row_one))"
    by (rule failure_policy)
  moreover have "failure_outcome demo_opts (StatusError ''match'' 403 []) (item_of claimed_row_one) = (JobRetry, 0)"
    by code_simp
  ultimately show ?thesis by (intro conjI) (elim conjE, assumption)+
qed

section \<open>Delays and the stop\<close>

lemma double_delay_capped:
  "0 < b \<Longrightarrow> min m (double_delay n m b) = min m (b * 2 ^ n)"
proof (induction n arbitrary: b)
  case (Suc n)
  show ?case
  proof (cases "b < m")
    case True
    then show ?thesis using Suc.IH [of "2 * b"] Suc.prems by (simp add: algebra_simps)
  next
    case False
    have "(1 :: int) \<le> 2 ^ Suc n" by (rule one_le_power) simp
    then have "b * 1 \<le> b * 2 ^ Suc n" using Suc.prems by (intro mult_left_mono) simp_all
    then show ?thesis using False by simp
  qed
qed simp

lemma failureBackoff_capped:
  "0 < wo_RetryBase opt \<Longrightarrow> failureBackoff opt k = min (wo_RetryMax opt) (wo_RetryBase opt * 2 ^ nat (k - 1))"
  using double_delay_capped [of "wo_RetryBase opt" "wo_RetryMax opt" "nat (k - 1)"]
  by (simp add: failureBackoff_def Let_def min_def split: if_splits)

text \<open>
  The delay before a row is tried again is drawn from the upper half of a capped doubling: never
  below half of the base doubled once per attempt after the first, never above it, and never above
  the ceiling.
\<close>

theorem retries_back_off:
  assumes "0 < wo_RetryBase opt" and "0 < wo_RetryMax opt"
  shows "let b = min (wo_RetryMax opt) (wo_RetryBase opt * 2 ^ nat (attempts - 1)); d = fst (retryDelay E opt attempts w)
    in b div 2 \<le> d \<and> d \<le> b \<and> 0 < b"
proof -
  let ?b = "min (wo_RetryMax opt) (wo_RetryBase opt * 2 ^ nat (attempts - 1))"
  have b: "0 < ?b" using assms by simp
  then have half: "0 < ?b div 2 + 1" by linarith
  have "0 \<le> draw E (?b div 2 + 1) w" "draw E (?b div 2 + 1) w < ?b div 2 + 1"
    unfolding draw_def by (rule pos_mod_sign [OF half], rule pos_mod_bound [OF half])
  moreover have "fst (retryDelay E opt attempts w) = ?b div 2 + draw E (?b div 2 + 1) w"
    using failureBackoff_capped [OF assms(1)] by (simp add: retryDelay_def Let_def)
  ultimately show ?thesis using b unfolding Let_def by (intro conjI) linarith+
qed

theorem retries_back_off_witness:
  "let b = min (wo_RetryMax demo_opts) (wo_RetryBase demo_opts * 2 ^ nat (4 - 1));
       d = fst (retryDelay demo_env demo_opts 4 demo_world)
   in b div 2 \<le> d \<and> d \<le> b \<and> 0 < b"
  by (rule retries_back_off) (simp_all add: demo_opts_def seconds_def minutes_def nanos_per_second_def)

text \<open>
  C17: a worker whose context is done starts nothing: its run returns in one pass, it has touched
  neither the queue nor the control plane, and it has flushed the archive; what the flush reported
  is what the run returns.
\<close>

theorem stop_ends_the_run:
  assumes "stopped E w"
  shows "\<exists>e w'. Run E opt (Suc fuel) w = (Some (map_option FlushFailed e), w') \<and>
    Flush (e_fio E (w_tick w)) False (w_arch w) = (e, w_arch w') \<and>
    w_queue w' = w_queue w \<and> w_front w' = w_front w \<and> w_matches w' = w_matches w"
proof -
  obtain e ar where f: "Flush (e_fio E (w_tick w)) False (w_arch w) = (e, ar)" by (metis surj_pair)
  let ?w = "(bump (report opt True w))\<lparr>w_arch := ar\<rparr>"
  have "w_tick (report opt True w) = w_tick w" "w_arch (report opt True w) = w_arch w" by (simp_all add: report_def)
  then have "shutdown E opt w = (e, ?w)" by (simp add: shutdown_def flush_archive_def f)
  then have "Run E opt (Suc fuel) w = (Some (map_option FlushFailed e), ?w)"
    using assms by (simp add: Run_def recoverClaims_def run_pass_def stop_run_def finish_def)
  moreover have "w_queue ?w = w_queue w" "w_front ?w = w_front w" "w_matches ?w = w_matches w" "w_arch ?w = ar"
    by (simp_all add: report_def)
  ultimately show ?thesis using f by metis
qed

theorem stop_ends_the_run_witness:
  "\<exists>e w'. Run demo_env demo_opts (Suc 0) (demo_world\<lparr>w_now := demo_start + seconds 9\<rparr>) = (Some (map_option FlushFailed e), w') \<and>
    Flush (e_fio demo_env (w_tick (demo_world\<lparr>w_now := demo_start + seconds 9\<rparr>))) False
      (w_arch (demo_world\<lparr>w_now := demo_start + seconds 9\<rparr>)) = (e, w_arch w') \<and>
    w_queue w' = w_queue (demo_world\<lparr>w_now := demo_start + seconds 9\<rparr>) \<and>
    w_front w' = w_front (demo_world\<lparr>w_now := demo_start + seconds 9\<rparr>) \<and>
    w_matches w' = w_matches (demo_world\<lparr>w_now := demo_start + seconds 9\<rparr>)"
  by (rule stop_ends_the_run) code_simp

end
