(* ===== verification/Crawl_Commands.thy ===== *)
theory Crawl_Commands
  imports Crawl_Loop
begin

text \<open>
  The operator commands of the crawl: \<^verbatim>\<open>internal/crawl/backfill.go\<close>, \<^verbatim>\<open>seed.go\<close>, \<^verbatim>\<open>maintain.go\<close> and
  \<^verbatim>\<open>timeline_backfill.go\<close> with \<^verbatim>\<open>enqueueTimelines\<close> of \<^verbatim>\<open>timeline.go\<close>. They work on the same state as
  the worker, in the same environment; what a history or a ladder page answers is a further
  parameter.
\<close>

section \<open>Backfill\<close>

definition DefaultBackfillLimit :: int where
  "DefaultBackfillLimit = 200"

definition maxBackfillFailures :: nat where
  "maxBackfillFailures = 20"

record backfill_opts =
  bf_MatchIDs :: "string list"
  bf_PUUID :: string
  bf_Limit :: int
  bf_HistoryCount :: int
  bf_Force :: bool
  bf_known :: bool
  bf_worker :: worker_opts

record backfill_result =
  bf_Candidates :: int
  bf_Fetched :: int
  bf_Inserted :: int
  bf_Known :: int
  bf_Failed :: int
  bf_Failures :: "string list"

datatype backfill_error =
    BfNoSource | BfHistory go_error | BfCtx | BfExists string | BfFetch go_error | BfArchive raw_error
  | BfUpsert string | BfFlush raw_error | BfFailedKeys int int string

definition no_result :: backfill_result where
  "no_result = \<lparr>bf_Candidates = 0, bf_Fetched = 0, bf_Inserted = 0, bf_Known = 0, bf_Failed = 0, bf_Failures = []\<rparr>"

definition dedupeStrings :: "string list \<Rightarrow> int \<Rightarrow> string list" where
  "dedupeStrings xs limit =
     (let ys = dedupe_by id (filter (\<lambda>s. s \<noteq> []) xs) in if 0 < limit then take (nat limit) ys else ys)"

text \<open>The history query: the instant of the request, the offset and the count asked for.\<close>

type_synonym history = "nat \<Rightarrow> int \<Rightarrow> int \<Rightarrow> (go_error + string list) \<times> duration"

fun add_ids :: "int \<Rightarrow> string list \<Rightarrow> string list \<Rightarrow> string list" where
  "add_ids limit keys [] = keys"
| "add_ids limit keys (i # is) =
     (if i \<in> set keys then add_ids limit keys is
      else if limit \<le> int (length (keys @ [i])) then keys @ [i]
      else add_ids limit (keys @ [i]) is)"

text \<open>The paging loop ends when the limit is reached or a page is empty; it has fuel.\<close>

fun keys_loop :: "history \<Rightarrow> int \<Rightarrow> int \<Rightarrow> nat \<Rightarrow> string list \<Rightarrow> int \<Rightarrow> world
    \<Rightarrow> (backfill_error + string list) option \<times> world" where
  "keys_loop hist limit count 0 keys start w = (None, w)"
| "keys_loop hist limit count (Suc n) keys start w =
     (if int (length keys) < limit
      then (let remaining = limit - int (length keys);
                want = (if remaining < count then remaining else count);
                (r, took) = hist (w_tick w) start want;
                w1 = (bump w)\<lparr>w_now := w_now w + max 0 took\<rparr>
            in case r of
                 Inl e \<Rightarrow> (Some (Inl (BfHistory e)), w1)
               | Inr ids \<Rightarrow>
                   if ids = [] then (Some (Inr keys), w1)
                   else keys_loop hist limit count n (add_ids limit keys ids) (start + int (length ids)) w1)
      else (Some (Inr keys), w))"

definition backfillKeys :: "history \<Rightarrow> nat \<Rightarrow> backfill_opts \<Rightarrow> world \<Rightarrow> (backfill_error + string list) option \<times> world" where
  "backfillKeys hist fuel opt w =
     (if bf_MatchIDs opt \<noteq> [] then (Some (Inr (dedupeStrings (bf_MatchIDs opt) (bf_Limit opt))), w)
      else if bf_PUUID opt = [] then (Some (Inl BfNoSource), w)
      else keys_loop hist (bf_Limit opt) (bf_HistoryCount opt) fuel [] 0 w)"

definition backfillOne :: "env \<Rightarrow> backfill_opts \<Rightarrow> string \<Rightarrow> world \<Rightarrow> (backfill_error + bool) \<times> world" where
  "backfillOne E opt i w =
     (case fetch_match E i w of
        (Inl e, w1) \<Rightarrow> (Inl (BfFetch e), w1)
      | (Inr dto, w1) \<Rightarrow>
          (let meta = MatchMetaFromDTO dto i (wo_region (bf_worker opt)) (w_now w1)
           in case write_match E dto meta w1 of
                (Some e, w2) \<Rightarrow> (Inl (BfArchive e), w2)
              | (None, w2) \<Rightarrow>
                  (let rec = MatchRecordFromMeta meta (MatchPartitionURI (wr_root (fst (w_arch w2))) meta);
                       fresh = (find_match i (w_matches w2) = None);
                       (ok, w3) = upsert_match E (bf_worker opt) rec w2
                   in if ok then (Inr fresh, w3) else (Inl (BfUpsert i), w3))))"

text \<open>What one key adds to the summary; \<open>show\<close> is the text of an error.\<close>

definition add_failure :: "(backfill_error \<Rightarrow> string) \<Rightarrow> string \<Rightarrow> backfill_error \<Rightarrow> backfill_result \<Rightarrow> backfill_result" where
  "add_failure show_err i e res =
     res\<lparr>bf_Failed := bf_Failed res + 1,
         bf_Failures := (if length (bf_Failures res) < maxBackfillFailures
                         then bf_Failures res @ [i @ '': '' @ show_err e] else bf_Failures res)\<rparr>"

fun backfill_loop :: "(backfill_error \<Rightarrow> string) \<Rightarrow> env \<Rightarrow> backfill_opts \<Rightarrow> string list \<Rightarrow> backfill_result \<Rightarrow> world
    \<Rightarrow> backfill_error option \<times> backfill_result \<times> world" where
  "backfill_loop show_err E opt [] res w = (None, res, w)"
| "backfill_loop show_err E opt (i # is) res w =
     (if stopped E w then (Some BfCtx, res, w)
      else (let ask = \<not> bf_Force opt \<and> bf_known opt; w1 = (if ask then bump w else w)
            in if ask \<and> \<not> db_ok E False w then (Some (BfExists i), res, w1)
               else if ask \<and> MatchExists i (w_matches w)
               then backfill_loop show_err E opt is (res\<lparr>bf_Known := bf_Known res + 1\<rparr>) w1
               else (case backfillOne E opt i w1 of
                       (Inl e, w2) \<Rightarrow> backfill_loop show_err E opt is (add_failure show_err i e res) w2
                     | (Inr inserted, w2) \<Rightarrow>
                         backfill_loop show_err E opt is
                           (res\<lparr>bf_Fetched := bf_Fetched res + 1,
                                bf_Inserted := bf_Inserted res + (if inserted then 1 else 0)\<rparr>) w2)))"

text \<open>Unlike the worker's, this flush runs on the command's own context.\<close>

definition flush_live :: "env \<Rightarrow> world \<Rightarrow> raw_error option \<times> world" where
  "flush_live E w =
     (let (e, ar) = Flush (e_fio E (w_tick w)) (stopped E w) (w_arch w) in (e, (bump w)\<lparr>w_arch := ar\<rparr>))"

definition normalize_backfill :: "backfill_opts \<Rightarrow> backfill_opts" where
  "normalize_backfill opt =
     opt\<lparr>bf_Limit := default_if_nonpos (bf_Limit opt) DefaultBackfillLimit,
         bf_HistoryCount := default_if_nonpos (bf_HistoryCount opt) 20\<rparr>"

definition Backfill :: "(backfill_error \<Rightarrow> string) \<Rightarrow> history \<Rightarrow> nat \<Rightarrow> env \<Rightarrow> backfill_opts \<Rightarrow> world
    \<Rightarrow> (backfill_error option \<times> backfill_result) option \<times> world" where
  "Backfill show_err hist fuel E opt0 w =
     (let opt = normalize_backfill opt0
      in case backfillKeys hist fuel opt w of
           (None, w1) \<Rightarrow> (None, w1)
         | (Some (Inl e), w1) \<Rightarrow> (Some (Some e, no_result), w1)
         | (Some (Inr keys), w1) \<Rightarrow>
             (let res0 = no_result\<lparr>bf_Candidates := int (length keys)\<rparr>
              in if keys = [] then (Some (None, res0), w1)
                 else (case backfill_loop show_err E opt keys res0 w1 of
                         (Some e, res, w2) \<Rightarrow> (Some (Some e, res), w2)
                       | (None, res, w2) \<Rightarrow>
                           (case flush_live E w2 of
                              (Some e, w3) \<Rightarrow> (Some (Some (BfFlush e), res), w3)
                            | (None, w3) \<Rightarrow>
                                (Some (if 0 < bf_Failed res
                                       then Some (BfFailedKeys (bf_Failed res) (bf_Candidates res) (hd (bf_Failures res)))
                                       else None, res), w3)))))"

section \<open>Seeding\<close>

record league_entry =
  le_PUUID :: string
  le_Tier :: string
  le_Rank :: string

record seed_opts =
  so_Queue :: string
  so_Tier :: string
  so_Division :: string
  so_MaxPages :: int
  so_region :: string
  so_store_region :: string
  so_archives :: bool

record seed_result =
  sres_RunID :: int
  sres_Pages :: int
  sres_Entries :: int
  sres_Added :: int

datatype seed_error =
    SeedStart store_error | SeedStartDB | SeedFetch go_error | SeedCtx | SeedArchive raw_error | SeedFlush raw_error
  | SeedUpsert | SeedFinish | SeedJoined seed_error seed_error

text \<open>The state of a pass: the worker's, and the audit table of seed runs with its sequence.\<close>

type_synonym seed_state = "world \<times> (SeedRun list \<times> int)"

definition ApexTier :: "string \<Rightarrow> bool" where
  "ApexTier tier =
     (to_upper (trim_space tier) \<in> {''CHALLENGER'', ''GRANDMASTER'', ''MASTER''})"

definition normalize_seed :: "seed_opts \<Rightarrow> seed_opts" where
  "normalize_seed opt =
     (let tier = or_default (to_upper (trim_space (so_Tier opt))) ''GOLD'';
          division = to_upper (trim_space (so_Division opt))
      in opt\<lparr>so_Queue := or_default (trim_space (so_Queue opt)) ''RANKED_SOLO_5x5'', so_Tier := tier,
             so_Division := (if \<not> ApexTier tier \<and> division = [] then ''I'' else division),
             so_MaxPages := default_if_nonpos (so_MaxPages opt) 10,
             so_region := to_upper (or_default (so_region opt) DefaultRegion)\<rparr>)"

definition seed_entry :: "seed_opts \<Rightarrow> string \<Rightarrow> gtime \<Rightarrow> league_entry \<Rightarrow> FrontierEntry" where
  "seed_entry opt division now e =
     \<lparr>fe_PUUID = trim_space (le_PUUID e), fe_Region = so_region opt,
      fe_SeedTier = to_upper (or_default (le_Tier e) (so_Tier opt)),
      fe_SeedDivision = to_upper (or_default (le_Rank e) division),
      fe_LastSeenAt = now, fe_LastFetchedAt = 0, fe_ConsecutiveEmpty = 0, fe_Priority = PrioritySeed, fe_Dead = False\<rparr>"

definition frontierEntries :: "seed_opts \<Rightarrow> string \<Rightarrow> gtime \<Rightarrow> league_entry list \<Rightarrow> FrontierEntry list" where
  "frontierEntries opt division now entries =
     dedupe_by fe_PUUID (filter (\<lambda>e. fe_PUUID e \<noteq> []) (map (seed_entry opt division now) entries))"

text \<open>\<open>encode\<close> gives the JSON array of a page's retained bytes.\<close>

definition archiveLeaguePage :: "(league_entry list \<Rightarrow> string option) \<Rightarrow> env \<Rightarrow> seed_opts \<Rightarrow> league_entry list \<Rightarrow> world
    \<Rightarrow> seed_error option \<times> world" where
  "archiveLeaguePage encode E opt entries w =
     (if \<not> so_archives opt then (None, w)
      else (let meta = \<lparr>lm_Region = so_region opt, lm_QueueType = so_Queue opt, lm_Tier = so_Tier opt,
                        lm_Division = so_Division opt, lm_FetchedAt = w_now w\<rparr>;
                (e, ar) = WriteLeagueEntries (e_sha E) (e_io E (w_tick w)) (w_now w) (stopped E w) (length entries)
                            (encode entries) meta (w_arch w);
                w1 = (bump w)\<lparr>w_arch := ar\<rparr>
            in case e of
                 Some x \<Rightarrow> (Some (SeedArchive x), w1)
               | None \<Rightarrow> (case flush_live E w1 of
                            (Some x, w2) \<Rightarrow> (Some (SeedFlush x), w2)
                          | (None, w2) \<Rightarrow> (None, w2))))"

text \<open>The count, if the call succeeded.\<close>

definition seed_upsert :: "env \<Rightarrow> seed_opts \<Rightarrow> FrontierEntry list \<Rightarrow> world \<Rightarrow> int option \<times> world" where
  "seed_upsert E opt entries w =
     (let chunks = Suc (length entries div frontierBatch);
          (fr, n, ok) = UpsertFrontier (so_store_region opt) (w_now w) (db_list E chunks w) entries (w_front w)
      in (if ok then Some n else None, (bump_by chunks w)\<lparr>w_front := fr\<rparr>))"

definition seed_page :: "(league_entry list \<Rightarrow> string option) \<Rightarrow> env \<Rightarrow> seed_opts \<Rightarrow> string \<Rightarrow> league_entry list \<Rightarrow> world
    \<Rightarrow> (seed_error + int) \<times> world" where
  "seed_page encode E opt division entries w =
     (case archiveLeaguePage encode E opt entries w of
        (Some e, w1) \<Rightarrow> (Inl e, w1)
      | (None, w1) \<Rightarrow>
          (case seed_upsert E opt (frontierEntries opt division (w_now w1) entries) w1 of
             (None, w2) \<Rightarrow> (Inl SeedUpsert, w2)
           | (Some n, w2) \<Rightarrow> (Inr n, w2)))"

type_synonym ladder = "nat \<Rightarrow> int \<Rightarrow> (go_error + league_entry list) \<times> duration"

definition fetch_page :: "ladder \<Rightarrow> int \<Rightarrow> world \<Rightarrow> (go_error + league_entry list) \<times> world" where
  "fetch_page ladder page w =
     (let (r, took) = ladder (w_tick w) page in (r, (bump w)\<lparr>w_now := w_now w + max 0 took\<rparr>))"

definition seedApex :: "(league_entry list \<Rightarrow> string option) \<Rightarrow> ladder \<Rightarrow> env \<Rightarrow> seed_opts \<Rightarrow> seed_result \<Rightarrow> world
    \<Rightarrow> seed_error option \<times> seed_result \<times> world" where
  "seedApex encode ladder E opt res w =
     (case fetch_page ladder 0 w of
        (Inl e, w1) \<Rightarrow> (Some (SeedFetch e), res, w1)
      | (Inr entries, w1) \<Rightarrow>
          (let res1 = res\<lparr>sres_Pages := 1, sres_Entries := int (length entries)\<rparr>
           in case seed_page encode E opt (so_Division opt) entries w1 of
                (Inl e, w2) \<Rightarrow> (Some e, res1, w2)
              | (Inr n, w2) \<Rightarrow> (None, res1\<lparr>sres_Added := sres_Added res1 + n\<rparr>, w2)))"

text \<open>The pages 1, 2, ...: \<open>n\<close> pages are left.\<close>

fun seedDivision :: "(league_entry list \<Rightarrow> string option) \<Rightarrow> ladder \<Rightarrow> env \<Rightarrow> seed_opts \<Rightarrow> nat \<Rightarrow> int \<Rightarrow> seed_result
    \<Rightarrow> world \<Rightarrow> seed_error option \<times> seed_result \<times> world" where
  "seedDivision encode ladder E opt 0 page res w = (None, res, w)"
| "seedDivision encode ladder E opt (Suc n) page res w =
     (if stopped E w then (Some SeedCtx, res, w)
      else (case fetch_page ladder page w of
              (Inl e, w1) \<Rightarrow> (Some (SeedFetch e), res, w1)
            | (Inr entries, w1) \<Rightarrow>
                (let res1 = res\<lparr>sres_Pages := sres_Pages res + 1\<rparr>
                 in if entries = [] then (None, res1, w1)
                    else (let res2 = res1\<lparr>sres_Entries := sres_Entries res1 + int (length entries)\<rparr>
                          in case seed_page encode E opt (so_Division opt) entries w1 of
                               (Inl e, w2) \<Rightarrow> (Some e, res2, w2)
                             | (Inr added, w2) \<Rightarrow>
                                 (let res3 = res2\<lparr>sres_Added := sres_Added res2 + added\<rparr>
                                  in if added = 0 then (None, res3, w2)
                                     else seedDivision encode ladder E opt n (page + 1) res3 w2)))))"

text \<open>Closing the run on a context that outlives the stop.\<close>

definition finishSeedRun :: "env \<Rightarrow> int \<Rightarrow> int \<Rightarrow> seed_state \<Rightarrow> seed_error option \<times> seed_state" where
  "finishSeedRun E run entries st =
     (let (w, tab) = st
      in if \<not> db_ok E True w then (Some SeedFinish, (bump w, tab))
         else (case FinishSeedRun run (w_now w) entries tab of
                 (Inl e, tab') \<Rightarrow> (Some SeedFinish, (bump w, tab'))
               | (Inr u, tab') \<Rightarrow> (None, (bump w, tab'))))"

definition seed_run_row :: "seed_opts \<Rightarrow> gtime \<Rightarrow> SeedRun" where
  "seed_run_row opt now =
     \<lparr>sr_ID = 0, sr_Tier = so_Tier opt, sr_Division = so_Division opt, sr_Queue = so_Queue opt,
      sr_Region = so_region opt, sr_StartedAt = now, sr_FinishedAt = None, sr_EntriesFound = 0\<rparr>"

definition DiscoverSeeds :: "(league_entry list \<Rightarrow> string option) \<Rightarrow> ladder \<Rightarrow> env \<Rightarrow> seed_opts \<Rightarrow> seed_state
    \<Rightarrow> seed_error option \<times> seed_result \<times> seed_state" where
  "DiscoverSeeds encode ladder E opt0 st =
     (let opt = normalize_seed opt0; (w, tab) = st;
          res = \<lparr>sres_RunID = 0, sres_Pages = 0, sres_Entries = 0, sres_Added = 0\<rparr>
      in if \<not> db_ok E False w then (Some SeedStartDB, res, (bump w, tab))
         else (case StartSeedRun (so_store_region opt) (w_now w) (seed_run_row opt (w_now w)) tab of
                 (Inl e, tab') \<Rightarrow> (Some (SeedStart e), res, (w, tab'))
               | (Inr run, tab') \<Rightarrow>
                   (let res1 = res\<lparr>sres_RunID := run\<rparr>;
                        (err, res2, w2) =
                          (if ApexTier (so_Tier opt) then seedApex encode ladder E opt res1 (bump w)
                           else seedDivision encode ladder E opt (nat (so_MaxPages opt)) 1 res1 (bump w));
                        (ferr, st3) = finishSeedRun E run (sres_Entries res2) (w2, tab')
                    in case ferr of
                         None \<Rightarrow> (err, res2, st3)
                       | Some f \<Rightarrow> (case err of None \<Rightarrow> (Some f, res2, st3) | Some e \<Rightarrow> (Some (SeedJoined e f), res2, st3)))))"

section \<open>Maintenance\<close>

record maintain_opts =
  mo_ClaimGrace :: duration
  mo_FrontierRetention :: duration
  mo_MaxConsecutiveEmpty :: int
  mo_Limit :: int
  mo_ReplayDeadLetters :: bool
  mo_DryRun :: bool
  mo_supported :: bool

record maintain_result =
  mr_Pruned :: int
  mr_ReclaimedClaims :: int
  mr_Reprioritised :: int
  mr_ReplayedDeadLetters :: int
  mr_FrontierSize :: int
  mr_DeadFrontierSize :: int
  mr_QueueDepths :: "JobStatus \<Rightarrow> int"
  mr_QueueOldest :: "gtime option"
  mr_Newest :: "gtime option"

datatype maintain_error = Unsupported | ResetFailed | PruneFailed | RecomputeFailed | ReplayFailed | InspectFailed nat

definition normalize_maintain :: "maintain_opts \<Rightarrow> maintain_opts" where
  "normalize_maintain opt =
     opt\<lparr>mo_ClaimGrace := default_if_nonpos (mo_ClaimGrace opt) DefaultClaimGrace,
         mo_FrontierRetention := default_if_nonpos (mo_FrontierRetention opt) (hours (30 * 24)),
         mo_MaxConsecutiveEmpty := default_if_nonpos (mo_MaxConsecutiveEmpty opt) 5,
         mo_Limit := default_if_nonpos (mo_Limit opt) 1000\<rparr>"

text \<open>The five reads of a report, in order; the first that fails ends it.\<close>

fun reads_ok :: "env \<Rightarrow> nat \<Rightarrow> world \<Rightarrow> nat option \<times> world" where
  "reads_ok E 0 w = (None, w)"
| "reads_ok E (Suc n) w = (if db_ok E False w then reads_ok E n (bump w) else (Some (Suc n), bump w))"

definition inspection :: "world \<Rightarrow> maintain_result \<Rightarrow> maintain_result" where
  "inspection w res =
     res\<lparr>mr_QueueDepths := QueueDepths (w_queue w), mr_QueueOldest := QueueOldest (w_queue w),
         mr_FrontierSize := FrontierSize (w_front w), mr_DeadFrontierSize := DeadFrontierSize (w_front w),
         mr_Newest := NewestFetchedAt (w_matches w)\<rparr>"

definition reportInspection :: "env \<Rightarrow> maintain_result \<Rightarrow> world \<Rightarrow> maintain_error option \<times> maintain_result \<times> world" where
  "reportInspection E res w =
     (case reads_ok E 5 w of
        (Some k, w1) \<Rightarrow> (Some (InspectFailed k), res, w1)
      | (None, w1) \<Rightarrow> (None, inspection w1 res, w1))"

definition maintain_replay :: "env \<Rightarrow> maintain_opts \<Rightarrow> gtime \<Rightarrow> maintain_result \<Rightarrow> world
    \<Rightarrow> maintain_error option \<times> maintain_result \<times> world" where
  "maintain_replay E opt now res w =
     (if \<not> mo_ReplayDeadLetters opt then reportInspection E res w
      else if \<not> db_ok E False w then (Some ReplayFailed, res, bump w)
      else (let (n, q) = ReplayDeadLettered (mo_Limit opt) (w_now w) (w_queue w)
            in reportInspection E (res\<lparr>mr_ReplayedDeadLetters := n\<rparr>) ((bump w)\<lparr>w_queue := q\<rparr>)))"

definition maintain_changes :: "env \<Rightarrow> maintain_opts \<Rightarrow> gtime \<Rightarrow> maintain_result \<Rightarrow> world
    \<Rightarrow> maintain_error option \<times> maintain_result \<times> world" where
  "maintain_changes E opt now res w =
     (if \<not> mo_supported opt then (Some Unsupported, res, w)
      else if \<not> db_ok E False w then (Some ResetFailed, res, bump w)
      else (let (n1, q1) = ResetStuckClaims (now - mo_ClaimGrace opt) (mo_Limit opt) (w_now w) (w_queue w);
                w1 = (bump w)\<lparr>w_queue := q1\<rparr>; res1 = res\<lparr>mr_ReclaimedClaims := n1\<rparr>
            in if \<not> db_ok E False w1 then (Some PruneFailed, res1, bump w1)
               else (let (n2, f2) = PruneFrontier (now - mo_FrontierRetention opt) (mo_MaxConsecutiveEmpty opt) (w_front w1);
                         w2 = (bump w1)\<lparr>w_front := f2\<rparr>; res2 = res1\<lparr>mr_Pruned := n2\<rparr>
                     in if \<not> db_ok E False w2 then (Some RecomputeFailed, res2, bump w2)
                        else (let (n3, f3) = RecomputeFrontierPriority (w_front w2);
                                  w3 = (bump w2)\<lparr>w_front := f3\<rparr>; res3 = res2\<lparr>mr_Reprioritised := n3\<rparr>
                              in maintain_replay E opt now res3 w3))))"

definition no_maintenance :: maintain_result where
  "no_maintenance = \<lparr>mr_Pruned = 0, mr_ReclaimedClaims = 0, mr_Reprioritised = 0, mr_ReplayedDeadLetters = 0,
     mr_FrontierSize = 0, mr_DeadFrontierSize = 0, mr_QueueDepths = (\<lambda>s. 0), mr_QueueOldest = None, mr_Newest = None\<rparr>"

definition Maintain :: "env \<Rightarrow> maintain_opts \<Rightarrow> world \<Rightarrow> maintain_error option \<times> maintain_result \<times> world" where
  "Maintain E opt0 w =
     (let opt = normalize_maintain opt0
      in if mo_DryRun opt then reportInspection E no_maintenance w
         else maintain_changes E opt (w_now w) no_maintenance w)"

section \<open>Timeline backfill\<close>

record timeline_backfill_opts =
  tb_Since :: gtime
  tb_Queue :: int
  tb_MinDurationS :: int
  tb_IncludeShort :: bool
  tb_Limit :: int
  tb_DryRun :: bool
  tb_region :: string
  tb_store_region :: string

record timeline_backfill_result =
  tb_Eligible :: int
  tb_Ready :: int
  tb_ShortExcluded :: int
  tb_AlreadyQueued :: int
  tb_AlreadyDone :: int
  tb_WouldEnqueue :: int
  tb_Enqueued :: int

definition timeline_query :: "timeline_backfill_opts \<Rightarrow> gtime \<Rightarrow> TimelineQuery" where
  "timeline_query opt now =
     \<lparr>tq_Region = to_upper (or_default (tb_region opt) DefaultRegion),
      tq_QueueID = (if tb_Queue opt = 0 then 420 else tb_Queue opt),
      tq_Since = (if tb_Since opt = 0 then now - hours (330 * 24) else tb_Since opt),
      tq_MinDurationS = (if tb_MinDurationS opt = 0 then 600 else tb_MinDurationS opt),
      tq_Limit = (if tb_DryRun opt then 0 else tb_Limit opt), tq_IncludeShort = tb_IncludeShort opt\<rparr>"

definition enqueueTimelines :: "env \<Rightarrow> TimelineCandidate list \<Rightarrow> int \<Rightarrow> world \<Rightarrow> int option \<times> world" where
  "enqueueTimelines E candidates priority w =
     (if candidates = [] then (Some 0, w)
      else (let items = map (\<lambda>c. new_item (tc_MatchID c) KindTimeline priority) candidates;
                chunks = Suc (length items div enqueueBatch);
                (q, n, ok) = EnqueueMatches (w_now w) (db_list E chunks w) items (w_queue w)
            in (if ok then Some n else None, (bump_by chunks w)\<lparr>w_queue := q\<rparr>)))"

definition BackfillTimelines :: "(string \<Rightarrow> string) \<Rightarrow> env \<Rightarrow> timeline_backfill_opts \<Rightarrow> world
    \<Rightarrow> bool \<times> timeline_backfill_result \<times> world" where
  "BackfillTimelines md5 E opt w =
     (if \<not> db_ok E False w
      then (False, \<lparr>tb_Eligible = 0, tb_Ready = 0, tb_ShortExcluded = 0, tb_AlreadyQueued = 0, tb_AlreadyDone = 0,
                    tb_WouldEnqueue = 0, tb_Enqueued = 0\<rparr>, bump w)
      else (let stats = TimelineCandidates md5 (tb_store_region opt) (timeline_query opt (w_now w)) (w_queue w) (w_matches w);
                res = \<lparr>tb_Eligible = tcs_Eligible stats, tb_Ready = tcs_Ready stats,
                       tb_ShortExcluded = tcs_ShortExcluded stats, tb_AlreadyQueued = tcs_AlreadyQueued stats,
                       tb_AlreadyDone = tcs_AlreadyDone stats,
                       tb_WouldEnqueue = (if 0 < tb_Limit opt \<and> tb_Limit opt < tcs_Ready stats then tb_Limit opt
                                          else tcs_Ready stats),
                       tb_Enqueued = 0\<rparr>;
                w1 = bump w
            in if tb_DryRun opt \<or> tb_Limit opt \<le> 0 \<or> tcs_Matches stats = [] then (True, res, w1)
               else (case enqueueTimelines E (tcs_Matches stats) PriorityTimeline w1 of
                       (None, w2) \<Rightarrow> (False, res, w2)
                     | (Some n, w2) \<Rightarrow> (True, res\<lparr>tb_Enqueued := n\<rparr>, w2))))"

end
