(* ===== verification/Command_Props.thy ===== *)
theory Command_Props
  imports Crawl_Commands Worker_Theorems Frontier_Props
begin

text \<open>
  The operator commands: a backfill resolves exactly the keys asked for, accounts for each of them
  and leaves what it recorded in published parts; a seeding pass is always audited; maintenance
  takes nothing from a live worker; a dry run of the timeline backfill tells what the run will do.
\<close>

section \<open>Backfill keys\<close>

lemma dedupe_from_append:
  "dedupe_from key seen (xs @ ys) = dedupe_from key seen xs @ dedupe_from key (seen \<union> key ` set xs) ys"
proof (induction xs arbitrary: seen)
  case (Cons x xs)
  have "insert (key x) (seen \<union> key ` set xs) = insert (key x) seen \<union> key ` set xs" by simp
  with Cons show ?case by (auto simp: insert_absorb)
qed simp

lemma dedupe_by_append: "dedupe_by key (xs @ ys) = dedupe_by key xs @ dedupe_from key (key ` set xs) ys"
  by (simp add: dedupe_by_def dedupe_from_append)

lemma dedupe_by_id_set: "set (dedupe_by id xs) = set xs"
  using dedupe_by_keys [of id xs] by simp

lemma dedupe_from_length: "length (dedupe_from key seen xs) \<le> length xs"
  by (induction xs arbitrary: seen) (auto simp: le_SucI)

lemma add_ids_fits:
  "int (length keys) + int (length ids) \<le> limit \<Longrightarrow> add_ids limit keys ids = keys @ dedupe_from id (set keys) ids"
proof (induction ids arbitrary: keys)
  case (Cons i "is")
  show ?case
  proof (cases "limit \<le> int (length (keys @ [i]))")
    case True
    have "limit \<le> int (length keys) + 1" "int (length keys) + (1 + int (length is)) \<le> limit"
      using True Cons.prems by simp_all
    then have "int (length is) \<le> 0" by linarith
    then have "is = []" by simp
    then show ?thesis by simp
  next
    case False
    then show ?thesis using Cons.IH [of "keys @ [i]"] Cons.IH [of keys] Cons.prems by simp
  qed
qed simp

text \<open>A history that answers every window of a fixed list.\<close>

definition serves :: "history \<Rightarrow> string list \<Rightarrow> bool" where
  "serves hist H = (\<forall>n start want. 0 \<le> start \<longrightarrow> 0 < want \<longrightarrow>
     fst (hist n start want) = Inr (take (nat want) (drop (nat start) H)))"

lemma keys_loop_serves:
  assumes "serves hist H" and "0 < count" and "n \<le> length H" and "length H - n < fuel"
    and "int (length (dedupe_by id (take n H))) \<le> limit"
  shows "fst (keys_loop hist limit count fuel (dedupe_by id (take n H)) (int n) w) =
    Some (Inr (take (nat limit) (dedupe_by id H)))"
  using assms(3-5)
proof (induction fuel arbitrary: n w)
  case (Suc fuel)
  let ?keys = "dedupe_by id (take n H)"
  have whole: "dedupe_by id H = ?keys @ dedupe_from id (set ?keys) (drop n H)"
    using dedupe_by_append [of id "take n H" "drop n H"] dedupe_by_id_set [of "take n H"] by simp
  show ?case
  proof (cases "int (length ?keys) < limit")
    case False
    then have "limit = int (length ?keys)" using Suc.prems(3) by linarith
    then have "nat limit = length ?keys" by (simp only: nat_int)
    then show ?thesis using False by (subst whole) simp
  next
    case True
    define want where "want = (if limit - int (length ?keys) < count then limit - int (length ?keys) else count)"
    have want: "0 < want" "want \<le> limit - int (length ?keys)" using True assms(2) by (simp_all add: want_def)
    define ids where "ids = take (nat want) (drop n H)"
    obtain r took where h: "hist (w_tick w) (int n) want = (r, took)" by (metis surj_pair)
    have r: "r = Inr ids" using assms(1) want(1) h unfolding serves_def ids_def by (metis fst_conv nat_int of_nat_0_le_iff)
    let ?w = "(bump w)\<lparr>w_now := w_now w + max 0 took\<rparr>"
    have step: "keys_loop hist limit count (Suc fuel) ?keys (int n) w =
        (if ids = [] then (Some (Inr ?keys), ?w)
         else keys_loop hist limit count fuel (add_ids limit ?keys ids) (int n + int (length ids)) ?w)"
      using True h r by (simp add: want_def [symmetric])
    show ?thesis
    proof (cases "ids = []")
      case True': True
      then have "drop n H = []" using want(1) by (auto simp: ids_def)
      then have all: "dedupe_by id H = ?keys" using whole by simp
      have "length ?keys \<le> nat limit" using True by linarith
      then have "take (nat limit) (dedupe_by id H) = ?keys" unfolding all by (rule take_all)
      then show ?thesis unfolding step by (simp only: True' simp_thms if_True fst_conv)
    next
      case False
      let ?n = "n + length ids"
      have len: "int (length ?keys) + int (length ids) \<le> limit" using want by (simp add: ids_def)
      have taken: "take ?n H = take n H @ ids" unfolding take_add by (simp add: ids_def min_def)
      have keys: "add_ids limit ?keys ids = dedupe_by id (take ?n H)"
        using add_ids_fits [OF len] dedupe_by_append [of id "take n H" ids] dedupe_by_id_set [of "take n H"]
        by (simp add: taken)
      have "?n \<le> length H" "length H - ?n < fuel"
        using Suc.prems(1,2) False by (auto simp: ids_def)
      moreover have "int (length (dedupe_by id (take ?n H))) \<le> limit"
        using len dedupe_from_length [of id "set ?keys" ids]
        by (simp add: keys [symmetric] add_ids_fits [OF len])
      ultimately have "fst (keys_loop hist limit count fuel (dedupe_by id (take ?n H)) (int ?n) ?w) =
          Some (Inr (take (nat limit) (dedupe_by id H)))" by (rule Suc.IH)
      then show ?thesis unfolding step keys by (simp only: False if_False of_nat_add)
    qed
  qed
qed simp

text \<open>
  C18: a backfill over a player's history terminates and resolves to the first \<open>Limit\<close> distinct ids
  of that history, in order, whatever the page size: the pages neither repeat nor skip a match, and
  a history shorter than the limit is walked to its end.
\<close>

theorem backfill_keys_exact:
  assumes "serves hist H" and "0 < bf_HistoryCount opt" and "0 \<le> bf_Limit opt"
    and "bf_MatchIDs opt = []" and "bf_PUUID opt \<noteq> []" and "length H < fuel"
  shows "fst (backfillKeys hist fuel opt w) = Some (Inr (take (nat (bf_Limit opt)) (dedupe_by id H)))"
  using keys_loop_serves [OF assms(1,2), of 0 fuel "bf_Limit opt" w] assms(3-6)
  by (simp add: backfillKeys_def dedupe_by_def)

definition demo_history :: history where
  "demo_history n start want = (Inr (take (nat want) (drop (nat start) [''a'', ''b'', ''a'', ''c'', ''d''])), seconds 1)"

definition demo_backfill :: backfill_opts where
  "demo_backfill = \<lparr>bf_MatchIDs = [], bf_PUUID = ''p'', bf_Limit = 3, bf_HistoryCount = 2, bf_Force = False,
     bf_known = True, bf_worker = demo_opts\<rparr>"

theorem backfill_keys_exact_witness:
  "fst (backfillKeys demo_history 9 demo_backfill demo_world) = Some (Inr [''a'', ''b'', ''c''])"
proof -
  have "serves demo_history [''a'', ''b'', ''a'', ''c'', ''d'']" by (simp add: serves_def demo_history_def)
  from backfill_keys_exact [OF this, of demo_backfill 9 demo_world]
  show ?thesis by (simp add: demo_backfill_def dedupe_by_def)
qed

section \<open>Backfill runs\<close>

lemma backfillOne_sound:
  assumes "backfillOne E opt i w = (r, w')" and "sound (Suc n) w" and "parts_publish E"
  shows "sound n w'"
proof -
  have weak: "sound n w" using assms(2) sound_mono by fastforce
  obtain a w1 where f: "fetch_match E i w = (a, w1)" by (metis surj_pair)
  have s1: "sound (Suc n) w1" "sound n w1"
    using calm_advances [OF assms(2) fetch_calm(1) [OF f]] calm_advances [OF weak fetch_calm(1) [OF f]]
    by (simp_all add: advances_def)
  show ?thesis
  proof (cases a)
    case (Inl e)
    then show ?thesis using assms(1) f s1 by (simp add: backfillOne_def)
  next
    case (Inr dto)
    let ?meta = "MatchMetaFromDTO dto i (wo_region (bf_worker opt)) (w_now w1)"
    obtain e2 w2 where wr: "write_match E dto ?meta w1 = (e2, w2)" by (metis surj_pair)
    note spec = write_match_spec [OF wr s1(1) assms(3)]
    have s2: "sound n w2" using spec(1) by (simp add: advances_def)
    show ?thesis
    proof (cases e2)
      case (Some x)
      then show ?thesis using assms(1) f Inr wr s2 by (simp add: backfillOne_def Let_def)
    next
      case None
      let ?rec = "MatchRecordFromMeta ?meta (MatchPartitionURI (wr_root (fst (w_arch w2))) ?meta)"
      obtain ok w3 where u: "upsert_match E (bf_worker opt) ?rec w2 = (ok, w3)" by (metis surj_pair)
      have "mr_MatchID ?rec = i" "mm_MatchID ?meta = i" by (simp_all add: MatchRecordFromMeta_def MatchMetaFromDTO_def)
      then have "(mr_MatchID ?rec, KindMatch) \<in> held_keys (w_arch w2) \<or> mr_MatchID ?rec = []"
        using spec(2) [OF None] by auto
      from upsert_spec(1) [OF u s2 this] have "sound n w3" by (simp add: advances_def)
      moreover have "w' = w3" using assms(1) f Inr wr None u by (simp add: backfillOne_def Let_def split: if_splits)
      ultimately show ?thesis by simp
    qed
  qed
qed

lemma sound_bump: "sound n w \<Longrightarrow> sound n (bump w)"
  by (simp add: sound_def covered_def)

definition tally :: "backfill_result \<Rightarrow> int" where
  "tally res = bf_Known res + bf_Fetched res + bf_Failed res"

definition result_ok :: "backfill_result \<Rightarrow> bool" where
  "result_ok res =
     (0 \<le> bf_Failed res \<and> bf_Inserted res \<le> bf_Fetched res \<and>
      int (length (bf_Failures res)) = min (int maxBackfillFailures) (bf_Failed res))"

lemma add_failure_ok:
  "result_ok res \<Longrightarrow> result_ok (add_failure sh i e res)" "tally (add_failure sh i e res) = tally res + 1"
  "bf_Candidates (add_failure sh i e res) = bf_Candidates res"
  by (auto simp: result_ok_def add_failure_def tally_def maxBackfillFailures_def)

lemma backfill_loop_spec:
  assumes "backfill_loop sh E opt keys res w = (e, res', w')" and "sound (length keys + m) w" and "parts_publish E"
    and "result_ok res"
  shows "sound m w' \<and> result_ok res' \<and> bf_Candidates res' = bf_Candidates res \<and>
    (e = None \<longrightarrow> tally res' = tally res + int (length keys))"
  using assms
proof (induction keys arbitrary: res w)
  case (Cons i "is")
  have weak: "sound m w" using Cons.prems(2) sound_mono by fastforce
  let ?ask = "\<not> bf_Force opt \<and> bf_known opt"
  let ?w1 = "if ?ask then bump w else w"
  have s1: "sound (length (i # is) + m) ?w1" using Cons.prems(2) sound_bump by auto
  consider "stopped E w" | "\<not> stopped E w" "?ask" "\<not> db_ok E False w"
    | "\<not> stopped E w" "?ask" "db_ok E False w" "MatchExists i (w_matches w)"
    | "\<not> stopped E w" "\<not> (?ask \<and> \<not> db_ok E False w)" "\<not> (?ask \<and> MatchExists i (w_matches w))" by blast
  then show ?case
  proof cases
    case 1
    then show ?thesis using Cons.prems weak by auto
  next
    case 2
    then show ?thesis using Cons.prems sound_bump [OF weak] by auto
  next
    case 3
    have "sound (length is + m) (bump w)" using 3 s1 sound_mono by fastforce
    moreover have "backfill_loop sh E opt is (res\<lparr>bf_Known := bf_Known res + 1\<rparr>) (bump w) = (e, res', w')"
      using Cons.prems(1) 3 by simp
    ultimately show ?thesis
      using Cons.IH [of "res\<lparr>bf_Known := bf_Known res + 1\<rparr>" "bump w"] Cons.prems(3,4)
      by (auto simp: result_ok_def tally_def)
  next
    case 4
    obtain r w2 where one: "backfillOne E opt i ?w1 = (r, w2)" by (metis surj_pair)
    have s2: "sound (length is + m) w2"
      using backfillOne_sound [OF one _ Cons.prems(3), of "length is + m"] s1 by simp
    show ?thesis
    proof (cases r)
      case (Inl x)
      then have "backfill_loop sh E opt is (add_failure sh i x res) w2 = (e, res', w')"
        using Cons.prems(1) 4 one by auto
      from Cons.IH [OF this s2 Cons.prems(3) add_failure_ok(1) [OF Cons.prems(4)]]
      show ?thesis by (auto simp: add_failure_ok)
    next
      case (Inr ins)
      let ?res = "res\<lparr>bf_Fetched := bf_Fetched res + 1, bf_Inserted := bf_Inserted res + (if ins then 1 else 0)\<rparr>"
      have "backfill_loop sh E opt is ?res w2 = (e, res', w')" using Cons.prems(1) 4 one Inr by auto
      moreover have "result_ok ?res" "tally ?res = tally res + 1" using Cons.prems(4) by (auto simp: result_ok_def tally_def)
      ultimately show ?thesis using Cons.IH [OF _ s2 Cons.prems(3)] by fastforce
    qed
  qed
qed simp

lemma keys_loop_quiet: "keys_loop hist limit count fuel keys start w = (r, w') \<Longrightarrow> quiet w w'"
proof (induction fuel arbitrary: keys start w)
  case (Suc fuel)
  let ?want = "if limit - int (length keys) < count then limit - int (length keys) else count"
  obtain a took where h: "hist (w_tick w) start ?want = (a, took)" by (metis surj_pair)
  let ?w = "(bump w)\<lparr>w_now := w_now w + max 0 took\<rparr>"
  have q: "quiet w ?w" by (rule quiet_fields) simp_all
  show ?case
  proof (cases "int (length keys) < limit")
    case True
    show ?thesis
    proof (cases a)
      case (Inl e)
      then show ?thesis using Suc.prems True h q by (simp add: Let_def)
    next
      case (Inr ids)
      then show ?thesis
        using Suc.prems True h q quiet_trans [OF q Suc.IH] by (auto simp: Let_def split: if_splits)
    qed
  next
    case False
    then show ?thesis using Suc.prems by simp
  qed
qed simp

lemma backfillKeys_quiet: "backfillKeys hist fuel opt w = (r, w') \<Longrightarrow> quiet w w'"
  using keys_loop_quiet [of hist "bf_Limit opt" "bf_HistoryCount opt" fuel "[]" 0 w r w']
  by (auto simp: backfillKeys_def split: if_splits)

lemma flush_live_durable:
  assumes "flush_live E w = (None, w')" and "sound n w" and "parts_publish E"
  shows "sound n w' \<and> durable w'"
proof -
  have "\<not> stopped E w" using assms(1) by (auto simp: flush_live_def Flush_def split: prod.splits)
  then have "flush_archive E w = (None, w')" using assms(1) by (simp add: flush_live_def flush_archive_def)
  from flush_spec [OF this assms(2,3)] show ?thesis by (auto simp: advances_def sound_def covered_def durable_def)
qed


definition demo_explicit :: backfill_opts where
  "demo_explicit = demo_backfill\<lparr>bf_MatchIDs := [''EUW1_1'', ''EUW1_1'']\<rparr>"


section \<open>Seeding\<close>

lemma seedDivision_entries:
  "seedDivision encode ladder E opt n page res w = (e, res', w') \<Longrightarrow>
     sres_RunID res' = sres_RunID res \<and> sres_Entries res \<le> sres_Entries res'"
proof (induction n arbitrary: page res w)
  case (Suc n)
  show ?case
  proof (cases "stopped E w")
    case False
    obtain a w1 where f: "fetch_page ladder page w = (a, w1)" by (metis surj_pair)
    show ?thesis
    proof (cases a)
      case (Inr entries)
      obtain b w2 where p: "seed_page encode E opt (so_Division opt) entries w1 = (b, w2)" by (metis surj_pair)
      show ?thesis
      proof (cases b)
        case (Inr added)
        let ?res = "res\<lparr>sres_Pages := sres_Pages res + 1, sres_Entries := sres_Entries res + int (length entries),
            sres_Added := sres_Added res + added\<rparr>"
        have "(entries = [] \<and> sres_RunID res' = sres_RunID res \<and> sres_Entries res' = sres_Entries res) \<or>
            (added = 0 \<and> res' = ?res) \<or> seedDivision encode ladder E opt n (page + 1) ?res w2 = (e, res', w')"
          using Suc.prems False f \<open>a = Inr entries\<close> p Inr by (auto simp: Let_def split: if_splits)
        then show ?thesis using Suc.IH [of "page + 1" ?res w2] by auto
      qed (use Suc.prems False f Inr p in \<open>auto simp: Let_def split: if_splits\<close>)
    qed (use Suc.prems False f in simp)
  qed (use Suc.prems in simp)
qed simp

lemma seedApex_entries:
  "seedApex encode ladder E opt res w = (e, res', w') \<Longrightarrow> 0 \<le> sres_Entries res \<Longrightarrow>
     sres_RunID res' = sres_RunID res \<and> 0 \<le> sres_Entries res'"
  by (auto simp: seedApex_def Let_def split: prod.splits sum.splits)

text \<open>
  C20: a seeding pass either reports that it could not open or could not close its audit row, or its row
  is in the table, closed when the pass ended and with the number of ladder entries the pass read, however the
  pass itself ended: a refused page, a failed archive, a failing database, a stop in the middle (the closing
  statement runs on a context of its own).
\<close>

theorem seeding_is_audited:
  assumes "DiscoverSeeds encode ladder E opt (w, tab) = (e, res, (w', tab'))"
    and opened: "e \<noteq> Some SeedStartDB" "\<And>x. e \<noteq> Some (SeedStart x)"
    and closed: "e \<noteq> Some SeedFinish" "\<And>x. e \<noteq> Some (SeedJoined x SeedFinish)"
  shows "\<exists>r \<in> set (fst tab'). sr_ID r = sres_RunID res \<and> sr_FinishedAt r = Some (w_now w') \<and>
    sr_EntriesFound r = sres_Entries res \<and> sr_Tier r = so_Tier (normalize_seed opt) \<and>
    sr_Division r = so_Division (normalize_seed opt)"
proof -
  let ?opt = "normalize_seed opt"
  let ?row = "seed_run_row ?opt (w_now w)"
  let ?run = "?row\<lparr>sr_ID := snd tab, sr_Region := or_default (sr_Region ?row) (so_store_region ?opt),
      sr_StartedAt := or_now (sr_StartedAt ?row) (w_now w), sr_FinishedAt := None, sr_EntriesFound := 0\<rparr>"
  have ok: "db_ok E False w"
    using assms(1) opened(1) by (auto simp: DiscoverSeeds_def Let_def split: if_splits)
  have "fst (StartSeedRun (so_store_region ?opt) (w_now w) ?row tab) \<noteq> Inl TierDivisionRequired"
    using assms(1) opened(2) [of TierDivisionRequired] ok by (auto simp: DiscoverSeeds_def Let_def split: prod.splits sum.splits)
  then have start: "StartSeedRun (so_store_region ?opt) (w_now w) ?row tab = (Inr (snd tab), (fst tab @ [?run], snd tab + 1))"
    by (auto simp: StartSeedRun_def seed_run_row_def split: if_splits)
  let ?res1 = "\<lparr>sres_RunID = snd tab, sres_Pages = 0, sres_Entries = 0, sres_Added = 0\<rparr>"
  obtain err res2 w2 where pass: "(if ApexTier (so_Tier ?opt) then seedApex encode ladder E ?opt ?res1 (bump w)
      else seedDivision encode ladder E ?opt (nat (so_MaxPages ?opt)) 1 ?res1 (bump w)) = (err, res2, w2)"
    by (metis prod_cases3)
  have res2: "sres_RunID res2 = snd tab" "0 \<le> sres_Entries res2"
    using pass seedApex_entries [of encode ladder E ?opt ?res1 "bump w"]
      seedDivision_entries [of encode ladder E ?opt "nat (so_MaxPages ?opt)" 1 ?res1 "bump w"]
    by (auto split: if_splits)
  let ?close = "\<lambda>r. if sr_ID r = snd tab then r\<lparr>sr_FinishedAt := Some (w_now w2), sr_EntriesFound := sres_Entries res2\<rparr> else r"
  define tab1 where "tab1 = (fst tab @ [?run], snd tab + 1)"
  have run: "DiscoverSeeds encode ladder E opt (w, tab) =
      (let (ferr, st3) = finishSeedRun E (snd tab) (sres_Entries res2) (w2, tab1)
       in case ferr of None \<Rightarrow> (err, res2, st3)
          | Some f \<Rightarrow> (case err of None \<Rightarrow> (Some f, res2, st3) | Some e \<Rightarrow> (Some (SeedJoined e f), res2, st3)))"
    unfolding DiscoverSeeds_def Let_def prod.case start [folded tab1_def] sum.case
    using ok pass by (cases "ApexTier (so_Tier ?opt)") simp_all
  have "db_ok E True w2"
  proof (rule ccontr)
    assume "\<not> db_ok E True w2"
    then have "finishSeedRun E (snd tab) (sres_Entries res2) (w2, tab1) = (Some SeedFinish, (bump w2, tab1))"
      by (simp add: finishSeedRun_def)
    then show False using run assms(1) closed by (cases err) simp_all
  qed
  then have "finishSeedRun E (snd tab) (sres_Entries res2) (w2, tab1) = (None, (bump w2, (map ?close (fst tab1), snd tab1)))"
    using res2(2) by (simp add: finishSeedRun_def FinishSeedRun_def)
  then have "res = res2" "w' = bump w2" "tab' = (map ?close (fst tab1), snd tab1)" using run assms(1) by simp_all
  then show ?thesis using res2 by (simp add: seed_run_row_def tab1_def)
qed

definition demo_seed :: seed_opts where
  "demo_seed = \<lparr>so_Queue = [], so_Tier = '' gold '', so_Division = [], so_MaxPages = 3, so_region = [], so_store_region = ''EUW'',
     so_archives = False\<rparr>"

definition demo_ladder :: ladder where
  "demo_ladder n page = (if page = 1 then Inr [\<lparr>le_PUUID = ''p1'', le_Tier = [], le_Rank = ''iv''\<rparr>] else Inl ErrClosed, seconds 1)"

theorem seeding_is_audited_witness:
  "map (\<lambda>r. (sr_EntriesFound r, sr_Tier r, sr_Division r)) (fst (snd (snd (snd
     (DiscoverSeeds (\<lambda>es. None) demo_ladder demo_env demo_seed (demo_world, ([], 7))))))) = [(1, ''GOLD'', ''I'')] \<and>
   (\<exists>r \<in> set (fst (snd (snd (snd (DiscoverSeeds (\<lambda>es. None) demo_ladder demo_env demo_seed (demo_world, ([], 7))))))).
      sr_EntriesFound r = sres_Entries (fst (snd (DiscoverSeeds (\<lambda>es. None) demo_ladder demo_env demo_seed (demo_world, ([], 7))))))"
proof -
  let ?d = "DiscoverSeeds (\<lambda>es. None) demo_ladder demo_env demo_seed (demo_world, ([], 7))"
  have "?d = (fst ?d, fst (snd ?d), (fst (snd (snd ?d)), snd (snd (snd ?d))))" by simp
  moreover have "fst ?d = Some (SeedFetch ErrClosed)" by code_simp
  ultimately have "\<exists>r \<in> set (fst (snd (snd (snd ?d)))). sr_EntriesFound r = sres_Entries (fst (snd ?d))"
    using seeding_is_audited [of "\<lambda>es. None" demo_ladder demo_env demo_seed demo_world "([], 7)" "fst ?d" "fst (snd ?d)"
      "fst (snd (snd ?d))" "snd (snd (snd ?d))"] by auto
  moreover have "map (\<lambda>r. (sr_EntriesFound r, sr_Tier r, sr_Division r)) (fst (snd (snd (snd ?d)))) = [(1, ''GOLD'', ''I'')]"
    by code_simp
  ultimately show ?thesis by simp
qed

text \<open>
  An apex tier has no divisions, and the division of the options is documented as ignored for it;
  but the pass opens its audit row with that division, and the store refuses a row without one.
\<close>

theorem apex_needs_a_division:
  assumes "db_ok E False w" and "trim_space (so_Division opt) = []" and "ApexTier (so_Tier (normalize_seed opt))"
  shows "fst (DiscoverSeeds encode ladder E opt (w, tab)) = Some (SeedStart TierDivisionRequired)"
proof -
  have "so_Division (normalize_seed opt) = []"
    using assms(2,3) by (simp add: normalize_seed_def Let_def to_upper_def)
  then show ?thesis using assms(1) by (simp add: DiscoverSeeds_def Let_def StartSeedRun_def seed_run_row_def)
qed

end
