(* ===== verification/Maintain_Props.thy ===== *)
theory Maintain_Props
  imports Command_Props
begin

text \<open>
  Maintenance and the timeline backfill: what a pass may touch, and what a dry run promises.
\<close>

section \<open>Maintenance\<close>

lemma reads_quiet: "reads_ok E n w = (r, w') \<Longrightarrow> quiet w w' \<and> w_queue w' = w_queue w \<and> w_front w' = w_front w"
proof (induction n arbitrary: w)
  case (Suc n)
  have "quiet w (bump w)" by (rule quiet_fields) simp_all
  then show ?case
    using Suc.prems Suc.IH [of "bump w"] quiet_trans by (cases "db_ok E False w") auto
qed simp

lemma reportInspection_quiet:
  "reportInspection E res w = (e, res', w') \<Longrightarrow> quiet w w' \<and> w_queue w' = w_queue w \<and> w_front w' = w_front w"
  using reads_quiet [of E 5 w] by (auto simp: reportInspection_def split: prod.splits option.splits)

text \<open>What a pass may do to the queue: rows a live worker claimed stay as they are.\<close>

definition spares_live :: "gtime \<Rightarrow> queue \<Rightarrow> queue \<Rightarrow> bool" where
  "spares_live t q q' =
     (\<forall>j \<in> set (q_rows q). j_status j = JobClaimed \<and> (\<forall>c. j_claimedAt j = Some c \<longrightarrow> t \<le> c) \<longrightarrow> j \<in> set (q_rows q'))"

lemma spares_refl [simp]: "spares_live t q q"
  by (simp add: spares_live_def)

lemma spares_trans: "spares_live t q q' \<Longrightarrow> spares_live t q' q'' \<Longrightarrow> spares_live t q q''"
  by (auto simp: spares_live_def)

lemma reset_spares:
  assumes "queue_inv q"
  shows "spares_live t q (snd (ResetStuckClaims t n now q))"
  unfolding spares_live_def
proof (intro ballI impI)
  fix j assume j: "j \<in> set (q_rows q)" "j_status j = JobClaimed \<and> (\<forall>c. j_claimedAt j = Some c \<longrightarrow> t \<le> c)"
  let ?p = "stuck_pick t (nat (clampLimit n)) q"
  have sub: "set ?p \<subseteq> set (q_rows q)" using stuck_pick_set [of t "nat (clampLimit n)" q] by blast
  have "j \<notin> set ?p" using stuck_pick_set [of t "nat (clampLimit n)" q] j(2) by force
  then show "j \<in> set (q_rows (snd (ResetStuckClaims t n now q)))"
    using picked_keeps [OF assms j(1) sub] by (simp add: ResetStuckClaims_rows)
qed

lemma replay_spares:
  assumes "queue_inv q"
  shows "spares_live t q (snd (ReplayDeadLettered n now q))"
  unfolding spares_live_def
proof (intro ballI impI)
  fix j assume j: "j \<in> set (q_rows q)" "j_status j = JobClaimed \<and> (\<forall>c. j_claimedAt j = Some c \<longrightarrow> t \<le> c)"
  let ?p = "letter_pick (nat (clampLimit n)) q"
  have sub: "set ?p \<subseteq> set (q_rows q)" using letter_pick_set [of "nat (clampLimit n)" q] by blast
  have "j \<notin> set ?p" using letter_pick_set [of "nat (clampLimit n)" q] j(2) by force
  then show "j \<in> set (q_rows (snd (ReplayDeadLettered n now q)))"
    using picked_keeps [OF assms j(1) sub] by (simp add: ReplayDeadLettered_rows)
qed

lemma rewrites_done:
  "done_keys (snd (ResetStuckClaims t n now q)) \<subseteq> done_keys q" "done_keys (snd (ReplayDeadLettered n now q)) \<subseteq> done_keys q"
  by (auto simp: ResetStuckClaims_rows ReplayDeadLettered_rows done_keys_def update_rows_def reset_job_def replay_job_def
      split: if_splits)

text \<open>A maintenance step: quiet, sparing, and within the invariants.\<close>

definition tidy :: "gtime \<Rightarrow> world \<Rightarrow> world \<Rightarrow> bool" where
  "tidy t w w' = (quiet w w' \<and> (queue_inv (w_queue w) \<longrightarrow> spares_live t (w_queue w) (w_queue w')) \<and>
     (frontier_inv (w_front w) \<longrightarrow> frontier_inv (w_front w')))"

lemma tidy_trans: "tidy t w w' \<Longrightarrow> tidy t w' w'' \<Longrightarrow> tidy t w w''"
  using quiet_trans spares_trans by (fastforce simp: tidy_def quiet_def)

lemma tidy_same: "w_queue w' = w_queue w \<Longrightarrow> w_front w' = w_front w \<Longrightarrow> w_matches w' = w_matches w \<Longrightarrow> w_arch w' = w_arch w \<Longrightarrow> tidy t w w'"
  by (simp add: tidy_def quiet_fields)

lemma tidy_steps:
  "tidy t w ((bump w)\<lparr>w_queue := snd (ResetStuckClaims t n now (w_queue w))\<rparr>)"
  "tidy t w ((bump w)\<lparr>w_queue := snd (ReplayDeadLettered n now (w_queue w))\<rparr>)"
  "tidy t w ((bump w)\<lparr>w_front := snd (PruneFrontier t' k (w_front w))\<rparr>)"
  "tidy t w ((bump w)\<lparr>w_front := snd (RecomputeFrontierPriority (w_front w))\<rparr>)"
  by (simp_all add: tidy_def quiet_def rewrites_done reset_spares replay_spares inv_rules)

lemma inspected_tidy: "tidy t w w1 \<Longrightarrow> reportInspection E res w1 = (e, res', w') \<Longrightarrow> tidy t w w'"
  using reportInspection_quiet tidy_trans [OF _ tidy_same] by (metis quiet_def)

lemma maintain_replay_tidy:
  assumes "maintain_replay E opt now res w = (e, res', w')"
  shows "tidy t w w'"
proof -
  have "tidy t w (bump w)" by (rule tidy_same) simp_all
  moreover have "tidy t w w" by (rule tidy_same) simp_all
  ultimately show ?thesis
    using assms inspected_tidy [OF tidy_steps(2)] inspected_tidy
    by (auto simp: maintain_replay_def split_beta split: if_splits)
qed

lemma maintain_changes_tidy:
  assumes "maintain_changes E opt now res w = (e, res', w')"
  shows "tidy (now - mo_ClaimGrace opt) w w'"
proof -
  let ?t = "now - mo_ClaimGrace opt"
  define w1 where "w1 = (bump w)\<lparr>w_queue := snd (ResetStuckClaims ?t (mo_Limit opt) (w_now w) (w_queue w))\<rparr>"
  define w2 where "w2 = (bump w1)\<lparr>w_front := snd (PruneFrontier (now - mo_FrontierRetention opt) (mo_MaxConsecutiveEmpty opt) (w_front w1))\<rparr>"
  define w3 where "w3 = (bump w2)\<lparr>w_front := snd (RecomputeFrontierPriority (w_front w2))\<rparr>"
  have bumps: "tidy ?t x (bump x)" for x by (rule tidy_same) simp_all
  have t1: "tidy ?t w w1" unfolding w1_def by (rule tidy_steps)
  have t2: "tidy ?t w w2" using tidy_trans [OF t1 tidy_steps(3)] by (simp only: w2_def)
  have t3: "tidy ?t w w3" using tidy_trans [OF t2 tidy_steps(4)] by (simp only: w3_def)
  have "w' = w \<or> w' = bump w \<or> w' = bump w1 \<or> w' = bump w2 \<or> (\<exists>res3. maintain_replay E opt now res3 w3 = (e, res', w'))"
    using assms by (auto simp: maintain_changes_def Let_def split_beta w1_def [symmetric] w2_def [symmetric] w3_def [symmetric]
        split: if_splits)
  then show ?thesis
    using bumps t1 t2 t3 tidy_trans maintain_replay_tidy tidy_same by metis
qed

text \<open>
  C26: a maintenance pass, complete or cut short by a failure, closes no row, touches neither the
  matches nor the archive, keeps the constraints of both tables, and leaves alone every row that was
  claimed within the grace; a dry run changes neither the queue nor the frontier.
\<close>

theorem maintenance_is_safe:
  assumes "Maintain E opt w = (e, res, w')"
  shows "done_keys (w_queue w') \<subseteq> done_keys (w_queue w) \<and> w_matches w' = w_matches w \<and> w_arch w' = w_arch w \<and>
    (queue_inv (w_queue w) \<longrightarrow> queue_inv (w_queue w')) \<and> (frontier_inv (w_front w) \<longrightarrow> frontier_inv (w_front w')) \<and>
    (queue_inv (w_queue w) \<longrightarrow>
      spares_live (w_now w - mo_ClaimGrace (normalize_maintain opt)) (w_queue w) (w_queue w')) \<and>
    (mo_DryRun opt \<longrightarrow> w_queue w' = w_queue w \<and> w_front w' = w_front w)"
proof -
  have dry: "mo_DryRun (normalize_maintain opt) = mo_DryRun opt" by (simp add: normalize_maintain_def)
  show ?thesis
  proof (cases "mo_DryRun opt")
    case True
    then have "reportInspection E no_maintenance w = (e, res, w')" using assms dry by (simp add: Maintain_def)
    from reportInspection_quiet [OF this] show ?thesis by (auto simp: quiet_def)
  next
    case False
    then have "maintain_changes E (normalize_maintain opt) (w_now w) no_maintenance w = (e, res, w')"
      using assms dry by (simp add: Maintain_def)
    from maintain_changes_tidy [OF this] False show ?thesis by (simp add: tidy_def quiet_def)
  qed
qed

definition demo_maintain :: maintain_opts where
  "demo_maintain = \<lparr>mo_ClaimGrace = 0, mo_FrontierRetention = 0, mo_MaxConsecutiveEmpty = 0, mo_Limit = 0,
     mo_ReplayDeadLetters = True, mo_DryRun = False, mo_supported = True\<rparr>"

theorem maintenance_is_safe_witness:
  "queue_inv (w_queue (snd (snd (Maintain demo_env demo_maintain claimed_world)))) \<and>
   claimed_row_one \<in> set (q_rows (w_queue (snd (snd (Maintain demo_env demo_maintain claimed_world)))))"
proof -
  have inv: "queue_inv (w_queue claimed_world)" by (simp add: claimed_world_def Claim_inv one_row_inv)
  note spec = maintenance_is_safe [OF surjective_pairing [THEN trans, OF arg_cong2 [where f = Pair, OF refl surjective_pairing]],
      of demo_env demo_maintain claimed_world]
  have "0 < length (q_rows (w_queue claimed_world))" by code_simp
  then have "claimed_row_one \<in> set (q_rows (w_queue claimed_world))" unfolding claimed_row_one_def by (rule nth_mem)
  moreover have "j_status claimed_row_one = JobClaimed" by code_simp
  moreover have "j_claimedAt claimed_row_one = Some (w_now claimed_world)" by code_simp
  moreover have "0 \<le> mo_ClaimGrace (normalize_maintain demo_maintain)" by code_simp
  ultimately show ?thesis using spec inv unfolding spares_live_def by simp
qed

end
