(* ===== verification/Timeline_Props.thy ===== *)
theory Timeline_Props
  imports Maintain_Props
begin

text \<open>
  The timeline backfill (\<^verbatim>\<open>timeline_backfill.go\<close>): what an enqueue of new work adds, and that the
  number a dry run announces is the number the run enqueues.
\<close>

section \<open>Enqueuing new work\<close>

lemma enqueue_chunks_reliable:
  "list_all (\<lambda>b. b) ok \<Longrightarrow> enqueue_chunks now ok n batch q added = enqueue_chunks now [] n batch q added"
proof (induction n arbitrary: ok batch q added)
  case (Suc n)
  have tl: "list_all (\<lambda>b. b) (tl ok)" and hd: "ok = [] \<or> hd ok" using Suc.prems by (cases ok, simp_all)+
  show ?case
  proof (cases "batch = []")
    case False
    show ?thesis
      unfolding enqueue_chunks_step [OF False hd] enqueue_chunks_step [OF False disjI1 [OF refl]] list.sel
      by (rule Suc.IH [OF tl])
  qed simp
qed simp

lemma dedupe_items_fresh:
  "distinct (map item_key (out @ is)) \<Longrightarrow> list_all (\<lambda>i. qi_MatchID i \<noteq> []) is \<Longrightarrow> dedupe_items out is = out @ is"
proof (induction "is" arbitrary: out)
  case (Cons i "is")
  then show ?case by (auto simp: image_iff)
qed simp

lemma dedupeQueueItems_id:
  "distinct (map item_key is) \<Longrightarrow> list_all (\<lambda>i. qi_MatchID i \<noteq> []) is \<Longrightarrow> dedupeQueueItems is = is"
  using dedupe_items_fresh [of "[]" "is"] by (simp add: dedupeQueueItems_def)

lemma enqueue_rows_fresh:
  "distinct (map item_key is) \<Longrightarrow> item_key ` set is \<inter> job_key ` set (q_rows q) = {} \<Longrightarrow>
     snd (enqueue_rows now is q) = int (length is)"
proof (induction "is" arbitrary: q)
  case (Cons i "is")
  let ?q = "fst (enqueue_one now i q)"
  have "job_key ` set (q_rows ?q) = insert (item_key i) (job_key ` set (q_rows q))"
    using Cons.prems(2) by (auto simp: enqueue_one_rows)
  then have "item_key ` set is \<inter> job_key ` set (q_rows ?q) = {}"
    using Cons.prems by auto
  then have "snd (enqueue_rows now is ?q) = int (length is)" using Cons.IH Cons.prems(1) by simp
  moreover have "snd (enqueue_one now i q) = 1" using Cons.prems(2) by (simp add: enqueue_one_count)
  ultimately show ?case unfolding enqueue_rows_Cons by simp
qed simp

lemma EnqueueMatches_fresh:
  assumes "list_all (\<lambda>b. b) ok" and "distinct (map item_key items)" and "list_all (\<lambda>i. qi_MatchID i \<noteq> []) items"
    and "item_key ` set items \<inter> job_key ` set (q_rows q) = {}"
  shows "\<exists>q'. EnqueueMatches now ok items q = (q', int (length items), True)"
  using dedupeQueueItems_id [OF assms(2,3)] enqueue_rows_fresh [OF assms(2,4), of now]
  by (simp add: EnqueueMatches_def Let_def enqueue_chunks_reliable [OF assms(1)] enqueue_chunks_all)

section \<open>The candidates\<close>

lemma candidates_shape:
  assumes "matches_inv ms"
  shows "distinct (map tc_MatchID (tcs_Matches (TimelineCandidates md5 region tq q ms)))"
    and "c \<in> set (tcs_Matches (TimelineCandidates md5 region tq q ms)) \<Longrightarrow>
      tc_MatchID c \<noteq> [] \<and> (tc_MatchID c, KindTimeline) \<notin> job_key ` set (q_rows q)"
proof -
  let ?sel = "selectable region tq q ms" and ?n = "clampCandidates (tq_Limit tq)"
  let ?sorted = "sort_key (\<lambda>r. md5 (m_id r)) (sort_key m_id ?sel)"
  have picked: "tcs_Matches (TimelineCandidates md5 region tq q ms) = map candidate_of (take ?n ?sorted)"
    by (simp add: TimelineCandidates_def Let_def)
  have ids: "map tc_MatchID (map candidate_of rs) = map m_id rs" for rs by (simp add: candidate_of_def)
  have "distinct (map m_id ?sel)"
    using assms by (simp add: matches_inv_def selectable_def distinct_map_filter)
  then have "distinct (map m_id ?sorted)" by (simp add: distinct_map)
  then show "distinct (map tc_MatchID (tcs_Matches (TimelineCandidates md5 region tq q ms)))"
    unfolding picked ids by (simp add: take_map [symmetric] distinct_take)
  assume "c \<in> set (tcs_Matches (TimelineCandidates md5 region tq q ms))"
  then obtain r where r: "r \<in> set ?sel" "c = candidate_of r"
    unfolding picked using set_take_subset [of ?n ?sorted] by auto
  then have "r \<in> set ms" "timeline_job q (m_id r) = None" by (simp_all add: selectable_def)
  then show "tc_MatchID c \<noteq> [] \<and> (tc_MatchID c, KindTimeline) \<notin> job_key ` set (q_rows q)"
    using assms r(2) by (auto simp: matches_inv_def candidate_of_def timeline_job_def find_None_iff)
qed

lemma candidates_count:
  "int (length (tcs_Matches (TimelineCandidates md5 region tq q ms))) =
     min (int (clampCandidates (tq_Limit tq))) (tcs_Ready (TimelineCandidates md5 region tq q ms))"
proof -
  have "int (length (selectable region tq q ms)) = tcs_Ready (TimelineCandidates md5 region tq q ms)"
    by (simp add: TimelineCandidates_def Let_def count_rows_def selectable_filter)
  then show ?thesis by (simp add: TimelineCandidates_def Let_def min_def)
qed

lemma ready_unlimited:
  "tcs_Ready (TimelineCandidates md5 region (tq\<lparr>tq_Limit := k\<rparr>) q ms) = tcs_Ready (TimelineCandidates md5 region tq q ms)"
proof -
  have "eligible region (tq\<lparr>tq_Limit := k\<rparr>) = eligible region tq" "is_short (tq\<lparr>tq_Limit := k\<rparr>) = is_short tq"
    by (simp_all add: fun_eq_iff eligible_def is_short_def duration_floor_def)
  then show ?thesis by (simp add: TimelineCandidates_def Let_def)
qed

section \<open>Dry runs\<close>

text \<open>
  A dry run of the timeline backfill touches nothing, and the number of fetches it announces is
  the number the same run enqueues, for every limit the store honours.
\<close>

theorem dry_run_predicts:
  assumes "matches_inv (w_matches w)" and "all_db E" and "\<not> stopped E w"
    and "0 < tb_Limit opt" and "tb_Limit opt \<le> maxCandidateLimit"
    and "BackfillTimelines md5 E (opt\<lparr>tb_DryRun := True\<rparr>) w = (okd, dry, wd)"
    and "BackfillTimelines md5 E (opt\<lparr>tb_DryRun := False\<rparr>) w = (okr, res, wr)"
  shows "okd \<and> okr \<and> tb_Enqueued res = tb_WouldEnqueue dry \<and> w_queue wd = w_queue w"
proof -
  let ?tqd = "timeline_query (opt\<lparr>tb_DryRun := True\<rparr>) (w_now w)"
  let ?tqr = "timeline_query (opt\<lparr>tb_DryRun := False\<rparr>) (w_now w)"
  let ?rep = "\<lambda>tq. TimelineCandidates md5 (tb_store_region opt) tq (w_queue w) (w_matches w)"
  have "?tqd = ?tqr\<lparr>tq_Limit := 0\<rparr>" by (simp add: timeline_query_def)
  then have ready: "tcs_Ready (?rep ?tqd) = tcs_Ready (?rep ?tqr)" using ready_unlimited by metis
  have db: "db_ok E False w" using assms(2,3) by (simp add: all_db_def db_ok_def)
  have dry: "okd" "tb_WouldEnqueue dry = min (tb_Limit opt) (tcs_Ready (?rep ?tqr))" "w_queue wd = w_queue w"
    using assms(4,6) db ready by (auto simp: BackfillTimelines_def Let_def)
  have "int (clampCandidates (tq_Limit ?tqr)) = tb_Limit opt"
    using assms(4,5) by (simp add: clampCandidates_def timeline_query_def)
  then have count: "int (length (tcs_Matches (?rep ?tqr))) = min (tb_Limit opt) (tcs_Ready (?rep ?tqr))"
    using candidates_count [of md5 "tb_store_region opt" ?tqr "w_queue w" "w_matches w"] by simp
  show ?thesis
  proof (cases "tcs_Matches (?rep ?tqr) = []")
    case True
    then have "okr" "tb_Enqueued res = 0" using assms(7) db by (auto simp: BackfillTimelines_def Let_def)
    then show ?thesis using dry count True by simp
  next
    case False
    let ?items = "map (\<lambda>c. new_item (tc_MatchID c) KindTimeline PriorityTimeline) (tcs_Matches (?rep ?tqr))"
    have shape: "distinct (map tc_MatchID (tcs_Matches (?rep ?tqr)))"
      "\<And>c. c \<in> set (tcs_Matches (?rep ?tqr)) \<Longrightarrow> tc_MatchID c \<noteq> [] \<and> (tc_MatchID c, KindTimeline) \<notin> job_key ` set (q_rows (w_queue w))"
      using candidates_shape [OF assms(1)] by blast+
    have key: "item_key (new_item i KindTimeline p) = (i, KindTimeline)" for i p by (simp add: item_key_def new_item_def)
    have "list_all (\<lambda>b. b) (db_list E n (bump w))" for n
      using assms(2,3) by (simp add: db_list_def all_db_def list_all_iff)
    moreover have "map item_key ?items = map (\<lambda>i. (i, KindTimeline)) (map tc_MatchID (tcs_Matches (?rep ?tqr)))"
      by (simp add: key)
    then have "distinct (map item_key ?items)" using shape(1) by (simp only: distinct_map) (auto simp: inj_on_def)
    moreover have "list_all (\<lambda>i. qi_MatchID i \<noteq> []) ?items" using shape(2) by (auto simp: list_all_iff new_item_def)
    moreover have "item_key ` set ?items \<inter> job_key ` set (q_rows (w_queue w)) = {}" 
      using shape(2) by (auto simp: key) (metis image_eqI)
    ultimately obtain q' where "EnqueueMatches (w_now w) (db_list E (Suc (length ?items div enqueueBatch)) (bump w)) ?items (w_queue w) =
        (q', int (length ?items), True)"
      using EnqueueMatches_fresh by blast
    then have "okr" "tb_Enqueued res = int (length ?items)"
      using assms(4,7) db False by (auto simp: BackfillTimelines_def enqueueTimelines_def Let_def)
    then show ?thesis using dry count by simp
  qed
qed

definition demo_timelines :: timeline_backfill_opts where
  "demo_timelines = \<lparr>tb_Since = 1, tb_Queue = 0, tb_MinDurationS = 0, tb_IncludeShort = False, tb_Limit = 5, tb_DryRun = False,
     tb_region = [], tb_store_region = ''EUW''\<rparr>"

definition recorded_world :: world where
  "recorded_world = demo_world\<lparr>w_matches := snd (UpsertMatch ''EUW''
     (MatchRecordFromMeta (MatchMetaFromDTO demo_dto ''EUW1_1'' ''EUW'' demo_start) ''raw'') [])\<rparr>"

theorem dry_run_predicts_witness:
  "tb_Enqueued (fst (snd (BackfillTimelines (\<lambda>s. s) demo_env (demo_timelines\<lparr>tb_DryRun := False\<rparr>) recorded_world))) = 1 \<and>
   tb_WouldEnqueue (fst (snd (BackfillTimelines (\<lambda>s. s) demo_env (demo_timelines\<lparr>tb_DryRun := True\<rparr>) recorded_world))) = 1"
proof -
  let ?d = "BackfillTimelines (\<lambda>s. s) demo_env (demo_timelines\<lparr>tb_DryRun := True\<rparr>) recorded_world"
  let ?r = "BackfillTimelines (\<lambda>s. s) demo_env (demo_timelines\<lparr>tb_DryRun := False\<rparr>) recorded_world"
  have "matches_inv []" by (simp add: matches_inv_def)
  then have "matches_inv (w_matches recorded_world)" by (simp add: recorded_world_def UpsertMatch_inv)
  moreover have "all_db demo_env" by (simp add: all_db_def demo_env_def)
  moreover have "\<not> stopped demo_env recorded_world" by code_simp
  moreover have "0 < tb_Limit demo_timelines" "tb_Limit demo_timelines \<le> maxCandidateLimit"
    by (simp_all add: demo_timelines_def maxCandidateLimit_def)
  moreover have "?d = (fst ?d, fst (snd ?d), snd (snd ?d))" "?r = (fst ?r, fst (snd ?r), snd (snd ?r))" by simp_all
  ultimately have "tb_Enqueued (fst (snd ?r)) = tb_WouldEnqueue (fst (snd ?d))" using dry_run_predicts by blast
  moreover have "tb_WouldEnqueue (fst (snd ?d)) = 1" by code_simp
  ultimately show ?thesis by simp
qed

text \<open>
  A limit of zero means that nothing may be enqueued, and nothing is; but the number announced is
  that of all the ready matches.
\<close>

lemma zero_limit_announces_all:
  "tb_WouldEnqueue (fst (snd (BackfillTimelines (\<lambda>s. s) demo_env (demo_timelines\<lparr>tb_Limit := 0\<rparr>) recorded_world))) = 1 \<and>
   tb_Enqueued (fst (snd (BackfillTimelines (\<lambda>s. s) demo_env (demo_timelines\<lparr>tb_Limit := 0\<rparr>) recorded_world))) = 0"
  by (rule conjI; code_simp)

end
