(* ===== verification/Agg_Model.thy ===== *)
theory Agg_Model
  imports Raw_Layout "HOL-Library.List_Lexorder" "HOL-Library.Char_ord" "HOL-Library.Product_Lexorder"
begin

text \<open>
  The published model (\<^verbatim>\<open>internal/aggmodel/model.go\<close>, \<^verbatim>\<open>paths.go\<close>) and the helpers of the build that
  read its strings (\<^verbatim>\<open>internal/aggregate/dates.go\<close>, \<^verbatim>\<open>region.go\<close>). Roles, grades, brackets and
  sources are Go strings with a closed vocabulary, so they are strings here, and what a document
  read from disk holds may lie outside the vocabulary. A \<^verbatim>\<open>float64\<close> rate is a rational number.
\<close>

section \<open>Vocabularies\<close>

definition SchemaVersion :: int where
  "SchemaVersion = 1"

type_synonym Role = string

definition RoleTop :: Role where "RoleTop = ''TOP''"
definition RoleJungle :: Role where "RoleJungle = ''JUNGLE''"
definition RoleMid :: Role where "RoleMid = ''MID''"
definition RoleBottom :: Role where "RoleBottom = ''BOTTOM''"
definition RoleSupport :: Role where "RoleSupport = ''SUPPORT''"

definition Roles :: "Role list" where
  "Roles = [RoleTop, RoleJungle, RoleMid, RoleBottom, RoleSupport]"

definition roleSlugs :: "(Role \<times> string) list" where
  "roleSlugs =
     [(RoleTop, ''top''), (RoleJungle, ''jungle''), (RoleMid, ''mid''), (RoleBottom, ''bottom''), (RoleSupport, ''support'')]"

lemmas role_defs = RoleTop_def RoleJungle_def RoleMid_def RoleBottom_def RoleSupport_def Roles_def roleSlugs_def

definition Slug :: "Role \<Rightarrow> string" where
  "Slug r = (case map_of roleSlugs r of None \<Rightarrow> [] | Some s \<Rightarrow> s)"

definition role_valid :: "Role \<Rightarrow> bool" where
  "role_valid r = (map_of roleSlugs r \<noteq> None)"

text \<open>The range over the map: at most one slug fits, so its order does not matter.\<close>

definition RoleFromSlug :: "string \<Rightarrow> Role option" where
  "RoleFromSlug slug = map_option fst (find (\<lambda>(role, s). s = slug) roleSlugs)"

definition RoleFromRiotPosition :: "string \<Rightarrow> Role option" where
  "RoleFromRiotPosition position =
     (if position = ''TOP'' then Some RoleTop
      else if position = ''JUNGLE'' then Some RoleJungle
      else if position \<in> {''MIDDLE'', ''MID''} then Some RoleMid
      else if position \<in> {''BOTTOM'', ''ADC''} then Some RoleBottom
      else if position \<in> {''UTILITY'', ''SUPPORT''} then Some RoleSupport
      else None)"

type_synonym Tier = string

definition Tiers :: "Tier list" where
  "Tiers = [''S+'', ''S'', ''A'', ''B'', ''C'', ''D'']"

definition tier_valid :: "Tier \<Rightarrow> bool" where
  "tier_valid t = (t \<in> set Tiers)"

definition BracketAll :: string where "BracketAll = ''all''"
definition SourceRiotMatchV5 :: string where "SourceRiotMatchV5 = ''riot-match-v5''"
definition SourceDemo :: string where "SourceDemo = ''demo''"

definition source_valid :: "string \<Rightarrow> bool" where
  "source_valid s = (s = SourceRiotMatchV5 \<or> s = SourceDemo)"

section \<open>Documents\<close>

record Window =
  win_From :: string
  win_To :: string

record Envelope =
  env_Schema :: int
  env_Source :: string
  env_Patch :: string
  env_Region :: string
  env_Queue :: int
  env_Bracket :: string
  env_GeneratedAt :: gtime
  env_SourceWindow :: Window
  env_MinCellN :: int
  env_SuppressedCells :: int

record Cell =
  ce_ChampionID :: int
  ce_Role :: Role
  ce_N :: int
  ce_Wins :: int
  ce_WinRate :: rat
  ce_PickRate :: rat
  ce_BanRate :: rat
  ce_Tier :: Tier
  ce_CI95HalfWidth :: rat

record TierList =
  tl_Envelope :: Envelope
  tl_Cells :: "Cell list"

record Build =
  bu_Kind :: string
  bu_Key :: "int list"
  bu_Label :: string
  bu_N :: int
  bu_Wins :: int
  bu_WinRate :: rat

record ChampionRole =
  cr_Role :: Role
  cr_Stats :: Cell
  cr_Items :: "Build list"
  cr_Runes :: "Build list"
  cr_Spells :: "Build list"

record Champion =
  ch_Envelope :: Envelope
  ch_ChampionID :: int
  ch_ChampionSlug :: string
  ch_Roles :: "ChampionRole list"

record MatchupCell =
  mc_ChampionID :: int
  mc_OpponentID :: int
  mc_N :: int
  mc_Wins :: int
  mc_WinRate :: rat
  mc_CI95HalfWidth :: rat

record Matchups =
  mu_Envelope :: Envelope
  mu_Role :: Role
  mu_Champions :: "int list"
  mu_Cells :: "MatchupCell list"

record Partition =
  pa_Patch :: string
  pa_Region :: string
  pa_Queue :: int
  pa_Bracket :: string
  pa_GeneratedAt :: gtime
  pa_SourceWindow :: Window
  pa_MinCellN :: int
  pa_SuppressedCells :: int
  pa_CellsPublished :: int
  pa_BuildRunID :: int
  pa_GitSHA :: string
  pa_Champions :: "int list"
  pa_MatchupRoles :: "Role list"

record Manifest =
  ma_Schema :: int
  ma_Source :: string
  ma_GeneratedAt :: gtime
  ma_Latest :: Partition
  ma_Partitions :: "Partition list"

definition zero_partition :: Partition where
  "zero_partition = \<lparr>pa_Patch = [], pa_Region = [], pa_Queue = 0, pa_Bracket = [], pa_GeneratedAt = 0,
     pa_SourceWindow = \<lparr>win_From = [], win_To = []\<rparr>, pa_MinCellN = 0, pa_SuppressedCells = 0, pa_CellsPublished = 0,
     pa_BuildRunID = 0, pa_GitSHA = [], pa_Champions = [], pa_MatchupRoles = []\<rparr>"

section \<open>Paths\<close>

text \<open>\<^verbatim>\<open>%d\<close>.\<close>

definition show_int :: "int \<Rightarrow> string" where
  "show_int n = (if n < 0 then CHR ''-'' # decimal_int (- n) else decimal_int n)"

record Seg =
  seg_Patch :: string
  seg_Region :: string
  seg_Queue :: int
  seg_Bracket :: string

definition Seg_Dir :: "Seg \<Rightarrow> string" where
  "Seg_Dir s = ''v1/p/'' @ seg_Patch s @ ''/'' @ seg_Region s @ ''/'' @ show_int (seg_Queue s) @ ''/'' @ seg_Bracket s"

definition TierListPath :: "Seg \<Rightarrow> string" where
  "TierListPath s = Seg_Dir s @ ''/tierlist.json''"

definition ChampionPath :: "Seg \<Rightarrow> int \<Rightarrow> string" where
  "ChampionPath s champion = Seg_Dir s @ ''/champions/'' @ show_int champion @ ''.json''"

definition MatchupsPath :: "Seg \<Rightarrow> Role \<Rightarrow> string" where
  "MatchupsPath s role = Seg_Dir s @ ''/matchups/'' @ Slug role @ ''.json''"

definition ManifestPath :: string where
  "ManifestPath = ''v1/manifest.json''"

definition is_patch :: "string \<Rightarrow> bool" where
  "is_patch s =
     (case cut_on (CHR ''.'') s of
        None \<Rightarrow> False
      | Some (a, b) \<Rightarrow> a \<noteq> [] \<and> list_all is_digit a \<and> b \<noteq> [] \<and> list_all is_digit b)"

definition Seg_Validate :: "Seg \<Rightarrow> bool" where
  "Seg_Validate s =
     (is_patch (seg_Patch s) \<and> trim_space (seg_Region s) \<noteq> [] \<and> 0 < seg_Queue s \<and> trim_space (seg_Bracket s) \<noteq> [])"

definition is_lower :: "char \<Rightarrow> bool" where
  "is_lower c = (97 \<le> (of_char c :: nat) \<and> (of_char c :: nat) \<le> 122)"

definition ChampionSlug :: "string \<Rightarrow> string" where
  "ChampionSlug key = filter (\<lambda>c. is_lower c \<or> is_digit c) (map lower_char key)"

definition agg_PatchFromGameVersion :: "string \<Rightarrow> string \<times> bool" where
  "agg_PatchFromGameVersion v =
     (case split_on (CHR ''.'') v of
        major # minor # rest \<Rightarrow>
          (if atoi major = None \<or> atoi minor = None then ([], False)
           else (let patch = major @ ''.'' @ minor in (patch, is_patch patch)))
      | parts \<Rightarrow> ([], False))"

section \<open>Patches\<close>

text \<open>\<^verbatim>\<open>fmt.Sscanf\<close> with \<^verbatim>\<open>%d\<close>: white space short of a newline, a sign, digits; the rest stays.\<close>

definition scan_space :: "string \<Rightarrow> string" where
  "scan_space s = dropWhile (\<lambda>c. is_space c \<and> of_char c \<noteq> (10 :: nat)) s"

definition scan_int :: "string \<Rightarrow> (int \<times> string) option" where
  "scan_int s0 =
     (let s = scan_space s0;
          (sgn, t) = (case s of c # cs \<Rightarrow> if c = CHR ''-'' then (-1, cs) else if c = CHR ''+'' then (1, cs) else (1, s)
                      | [] \<Rightarrow> (1, []));
          ds = takeWhile is_digit t
      in case decimal_val ds of
           None \<Rightarrow> None
         | Some n \<Rightarrow> if in_int64 (sgn * int n) then Some (sgn * int n, dropWhile is_digit t) else None)"

definition splitPatch :: "string \<Rightarrow> (int \<times> int) option" where
  "splitPatch patch =
     (case scan_int patch of
        Some (major, c # rest) \<Rightarrow>
          (if c = CHR ''.'' then (case scan_int rest of Some (minor, r) \<Rightarrow> Some (major, minor) | None \<Rightarrow> None) else None)
      | x \<Rightarrow> None)"

definition comparePatch :: "string \<Rightarrow> string \<Rightarrow> int" where
  "comparePatch a b =
     (case (splitPatch a, splitPatch b) of
        (Some (amaj, amin), Some (bmaj, bmin)) \<Rightarrow>
          (if amaj \<noteq> bmaj then (if amaj < bmaj then -1 else 1)
           else if amin \<noteq> bmin then (if amin < bmin then -1 else 1)
           else 0)
      | x \<Rightarrow> 0)"

fun newest_from :: "string \<Rightarrow> string list \<Rightarrow> string" where
  "newest_from newest [] = newest"
| "newest_from newest (p # ps) = newest_from (if newest = [] \<or> 0 < comparePatch p newest then p else newest) ps"

definition newestPatch :: "string list \<Rightarrow> string" where
  "newestPatch patches = newest_from [] patches"

section \<open>Dates\<close>

definition month_lengths :: "int \<Rightarrow> int list" where
  "month_lengths y = [31, if leap_year y then 29 else 28, 31, 30, 31, 30, 31, 31, 30, 31, 30, 31]"

text \<open>The day number of a civil date, day 0 being 0001-01-01.\<close>

definition day_number :: "int \<Rightarrow> int \<Rightarrow> int \<Rightarrow> int" where
  "day_number y m d =
     365 * (y - 1) + (y - 1) div 4 - (y - 1) div 100 + (y - 1) div 400
       + sum_list (take (nat (m - 1)) (month_lengths y)) + d - 1"

text \<open>The digits of a fixed-width field of \<^verbatim>\<open>time.Parse\<close>.\<close>

definition field :: "nat \<Rightarrow> string \<Rightarrow> int option" where
  "field w s = (if length s = w then map_option int (decimal_val s) else None)"

definition format_date :: "int \<Rightarrow> string" where
  "format_date n = (let (y, m, d) = civil_date n in pad 4 y @ ''-'' @ pad 2 m @ ''-'' @ pad 2 d)"

definition parseDate :: "string \<Rightarrow> int option" where
  "parseDate date =
     (case split_on (CHR ''-'') date of
        [ys, ms, ds] \<Rightarrow>
          (case (field 4 ys, field 2 ms, field 2 ds) of
             (Some y, Some m, Some d) \<Rightarrow>
               (if 1 \<le> m \<and> m \<le> 12 \<and> 1 \<le> d \<and> d \<le> month_lengths y ! nat (m - 1)
                   \<and> format_date (day_number y m d) = date
                then Some (day_number y m d) else None)
           | x \<Rightarrow> None)
      | parts \<Rightarrow> None)"

definition windowForEnd :: "string \<Rightarrow> int \<Rightarrow> Window option" where
  "windowForEnd end days =
     (case parseDate end of
        None \<Rightarrow> None
      | Some to \<Rightarrow>
          (if days < 1 \<or> 400 < days then None
           else Some \<lparr>win_From = format_date (to - (days - 1)), win_To = format_date to\<rparr>))"

section \<open>Regions\<close>

definition regionPlatforms :: "(string \<times> string) list" where
  "regionPlatforms =
     [(''EUW'', ''EUW1''), (''EUNE'', ''EUN1''), (''NA'', ''NA1''), (''BR'', ''BR1''), (''JP'', ''JP1''), (''LAN'', ''LA1''),
      (''LAS'', ''LA2''), (''OC'', ''OC1''), (''TR'', ''TR1''), (''RU'', ''RU''), (''KR'', ''KR'')]"

definition PlatformForRegion :: "string \<Rightarrow> string \<Rightarrow> string" where
  "PlatformForRegion region platform =
     (let p = to_upper (trim_space platform); r = to_upper (trim_space region)
      in if p \<noteq> [] then p else (case map_of regionPlatforms r of Some m \<Rightarrow> m | None \<Rightarrow> r))"

definition platformFilter :: "string \<Rightarrow> string \<Rightarrow> string list" where
  "platformFilter region platform =
     dedupe_by id (filter (\<lambda>v. v \<noteq> []) [to_upper (trim_space region), PlatformForRegion (to_upper (trim_space region)) platform])"

end
