(* ===== verification/Agg_Publish.thy ===== *)
theory Agg_Publish
  imports Agg_Model
begin

text \<open>
  Publishing (\<^verbatim>\<open>internal/aggregate/publish.go\<close>). A file tree is the list of its paths, directories
  included, relative to its root; the aggregate root holds the live tree, the staging tree and the
  trash, whose slots are numbered. Each file operation has an outcome supplied from outside; the
  operations that undo a step have outcomes of their own. Next to the trees the state keeps every
  live tree there was, newest first: what a reader may have seen, and what a crash may leave.
\<close>

section \<open>Trees\<close>

type_synonym path = "string list"

datatype 'a node = NDir | NFile 'a

type_synonym 'a tree = "(path \<times> 'a node) list"

definition slash_path :: "string \<Rightarrow> path" where
  "slash_path s = split_on (CHR ''/'') s"

definition below :: "path \<Rightarrow> path \<Rightarrow> bool" where
  "below p q = (take (length p) q = p)"

definition file_at :: "'a tree \<Rightarrow> path \<Rightarrow> 'a option" where
  "file_at t q = (case map_of t q of Some (NFile a) \<Rightarrow> Some a | x \<Rightarrow> None)"

definition is_dir :: "'a tree \<Rightarrow> path \<Rightarrow> bool" where
  "is_dir t q = (case map_of t q of Some NDir \<Rightarrow> True | x \<Rightarrow> False)"

definition is_file :: "'a tree \<Rightarrow> path \<Rightarrow> bool" where
  "is_file t q = (case map_of t q of Some (NFile a) \<Rightarrow> True | x \<Rightarrow> False)"

definition subtree :: "path \<Rightarrow> 'a tree \<Rightarrow> 'a tree" where
  "subtree p t = map (\<lambda>(q, n). (drop (length p) q, n)) (filter (\<lambda>(q, n). below p q) t)"

definition without :: "path \<Rightarrow> 'a tree \<Rightarrow> 'a tree" where
  "without p t = filter (\<lambda>(q, n). \<not> below p q) t"

definition graft :: "path \<Rightarrow> 'a tree \<Rightarrow> 'a tree \<Rightarrow> 'a tree" where
  "graft p s t = map (\<lambda>(q, n). (p @ q, n)) s @ without p t"

definition parent :: "path \<Rightarrow> path" where
  "parent p = butlast p"

definition blocked :: "path \<Rightarrow> 'a tree \<Rightarrow> bool" where
  "blocked p t = list_ex (\<lambda>k. is_file t (take k p)) [1..<Suc (length p)]"

definition mkdirs :: "path \<Rightarrow> 'a tree \<Rightarrow> 'a tree" where
  "mkdirs p t = t @ map (\<lambda>q. (q, NDir)) (filter (\<lambda>q. map_of t q = None) (map (\<lambda>k. take k p) [1..<Suc (length p)]))"

section \<open>State and outcomes\<close>

record 'a fs =
  fs_live :: "'a tree"
  fs_stage :: "'a tree"
  fs_trash :: "(nat \<times> 'a tree) list"
  fs_tick :: nat
  fs_seen :: "'a tree list"

record outcomes =
  oc_io :: "nat \<Rightarrow> bool"
  oc_undo :: "nat \<Rightarrow> bool"

definition step_ok :: "outcomes \<Rightarrow> 'a fs \<Rightarrow> bool" where
  "step_ok E s = oc_io E (fs_tick s)"

definition undo_ok :: "outcomes \<Rightarrow> 'a fs \<Rightarrow> bool" where
  "undo_ok E s = oc_undo E (fs_tick s)"

definition tick :: "'a fs \<Rightarrow> 'a fs" where
  "tick s = s\<lparr>fs_tick := fs_tick s + 1\<rparr>"

definition set_live :: "'a tree \<Rightarrow> 'a fs \<Rightarrow> 'a fs" where
  "set_live t s = s\<lparr>fs_live := t, fs_seen := t # fs_seen s\<rparr>"

record pub_result =
  pu_Replaced :: "path list"
  pu_ReplacedExisting :: bool

datatype pub_error =
    NothingToPublish | AbsFailed | MissingStaged path | RootFailed | TrashFailed | ParentFailed path | StatFailed path
  | WrongKind path | ClearFailed path | DisplaceFailed path | MoveFailed path | ManifestFailed

section \<open>Steps\<close>

text \<open>\<^verbatim>\<open>displace\<close> and \<^verbatim>\<open>displaceFile\<close>: whether something was moved to the trash slot.\<close>

definition displace :: "outcomes \<Rightarrow> bool \<Rightarrow> path \<Rightarrow> nat \<Rightarrow> 'a fs \<Rightarrow> (pub_error + bool) \<times> 'a fs" where
  "displace E want_dir p slot s =
     (if \<not> step_ok E s then (Inl (StatFailed p), tick s)
      else (case map_of (fs_live s) p of
              None \<Rightarrow> (Inr False, tick s)
            | Some n \<Rightarrow>
                if (n = NDir) \<noteq> want_dir then (Inl (WrongKind p), tick s)
                else if \<not> step_ok E (tick s) then (Inl (ClearFailed p), tick (tick s))
                else if \<not> step_ok E (tick (tick s)) then (Inl (DisplaceFailed p), tick (tick (tick s)))
                else (Inr True,
                      (set_live (without p (fs_live s)) (tick (tick (tick s))))
                        \<lparr>fs_trash := (slot, subtree p (fs_live s)) # filter (\<lambda>(k, t). k \<noteq> slot) (fs_trash s)\<rparr>)))"

definition make_parent :: "outcomes \<Rightarrow> path \<Rightarrow> 'a fs \<Rightarrow> bool \<times> 'a fs" where
  "make_parent E p s =
     (if step_ok E s \<and> \<not> blocked (parent p) (fs_live s)
      then (True, set_live (mkdirs (parent p) (fs_live s)) (tick s)) else (False, tick s))"

definition restore :: "path \<Rightarrow> 'a tree \<Rightarrow> 'a fs \<Rightarrow> 'a fs" where
  "restore p t s = set_live (graft p t (fs_live s)) s"

text \<open>Putting a displaced entry back after a failed move.\<close>

definition put_back :: "outcomes \<Rightarrow> path \<Rightarrow> nat \<Rightarrow> 'a fs \<Rightarrow> 'a fs" where
  "put_back E p slot s =
     (case map_of (fs_trash s) slot of
        Some t \<Rightarrow> if undo_ok E s then restore p t (tick s) else tick s
      | None \<Rightarrow> tick s)"

text \<open>The body of \<^verbatim>\<open>rollback\<close>'s loop: remove what was published, restore what it displaced.\<close>

definition undo_one :: "outcomes \<Rightarrow> path \<Rightarrow> nat \<Rightarrow> 'a fs \<Rightarrow> 'a fs" where
  "undo_one E p slot s =
     (let s1 = (if undo_ok E s then set_live (without p (fs_live s)) (tick s) else tick s)
      in case map_of (fs_trash s1) slot of
           None \<Rightarrow> tick s1
         | Some t \<Rightarrow>
             if undo_ok E (tick s1) \<and> \<not> is_dir (fs_live s1) p then restore p t (tick (tick s1)) else tick (tick s1))"

text \<open>The published paths in order, newest last; the \<open>k\<close>-th was swapped in over slot \<open>k\<close>.\<close>

fun undo_from :: "outcomes \<Rightarrow> path list \<Rightarrow> nat \<Rightarrow> 'a fs \<Rightarrow> 'a fs" where
  "undo_from E paths 0 s = s"
| "undo_from E paths (Suc k) s =
     undo_from E paths k (if paths ! k = slash_path ManifestPath then s else undo_one E (paths ! k) k s)"

definition rollback :: "outcomes \<Rightarrow> pub_result \<Rightarrow> 'a fs \<Rightarrow> 'a fs" where
  "rollback E r s = undo_from E (pu_Replaced r) (length (pu_Replaced r)) s"

definition place :: "outcomes \<Rightarrow> nat \<Rightarrow> path \<times> bool \<Rightarrow> pub_result \<Rightarrow> 'a fs
    \<Rightarrow> pub_error option \<times> pub_result \<times> 'a fs" where
  "place E slot item r s =
     (let (p, want_dir) = item
      in case make_parent E p s of
           (False, s1) \<Rightarrow> (Some (ParentFailed p), r, rollback E r s1)
         | (True, s1) \<Rightarrow>
             (case displace E want_dir p slot s1 of
                (Inl e, s2) \<Rightarrow> (Some e, r, rollback E r s2)
              | (Inr moved, s2) \<Rightarrow>
                  (let r1 = r\<lparr>pu_ReplacedExisting := pu_ReplacedExisting r \<or> moved\<rparr>
                   in if \<not> (step_ok E s2 \<and> map_of (fs_stage s2) p \<noteq> None)
                      then (Some (MoveFailed p), r1, if moved then put_back E p slot (tick s2) else tick s2)
                      else (None, r1\<lparr>pu_Replaced := pu_Replaced r @ [p]\<rparr>,
                            (set_live (graft p (subtree p (fs_stage s2)) (fs_live s2)) (tick s2))
                              \<lparr>fs_stage := without p (fs_stage s2)\<rparr>))))"

fun place_all :: "outcomes \<Rightarrow> nat \<Rightarrow> (path \<times> bool) list \<Rightarrow> pub_result \<Rightarrow> 'a fs
    \<Rightarrow> pub_error option \<times> pub_result \<times> 'a fs" where
  "place_all E slot [] r s = (None, r, s)"
| "place_all E slot (item # items) r s =
     (case place E slot item r s of
        (Some e, r1, s1) \<Rightarrow> (Some e, r1, s1)
      | (None, r1, s1) \<Rightarrow> place_all E (Suc slot) items r1 s1)"

text \<open>The checks of the staging tree: the first entry that is missing or of the wrong kind.\<close>

fun check_staged :: "outcomes \<Rightarrow> (path \<times> bool) list \<Rightarrow> 'a fs \<Rightarrow> pub_error option \<times> 'a fs" where
  "check_staged E [] s = (None, s)"
| "check_staged E ((p, want_dir) # items) s =
     (if step_ok E s \<and> (if want_dir then is_dir (fs_stage s) p else is_file (fs_stage s) p)
      then check_staged E items (tick s) else (Some (MissingStaged p), tick s))"

definition swap_manifest :: "outcomes \<Rightarrow> path \<Rightarrow> pub_result \<Rightarrow> 'a fs \<Rightarrow> pub_error option \<times> pub_result \<times> 'a fs" where
  "swap_manifest E manifest r s =
     (if step_ok E s \<and> \<not> is_dir (fs_live s) manifest \<and> (parent manifest = [] \<or> is_dir (fs_live s) (parent manifest))
      then (None, r\<lparr>pu_Replaced := pu_Replaced r @ [manifest]\<rparr>,
            (set_live (graft manifest (subtree manifest (fs_stage s)) (fs_live s)) (tick s))
              \<lparr>fs_stage := without manifest (fs_stage s)\<rparr>)
      else (Some ManifestFailed, r, rollback E r (tick s)))"

definition no_publish :: pub_result where
  "no_publish = \<lparr>pu_Replaced = [], pu_ReplacedExisting = False\<rparr>"

text \<open>The deferred removal of the trash.\<close>

definition empty_trash :: "outcomes \<Rightarrow> pub_error option \<times> pub_result \<times> 'a fs \<Rightarrow> pub_error option \<times> pub_result \<times> 'a fs" where
  "empty_trash E out =
     (let (e, r, s) = out in (e, r, if step_ok E s then (tick s)\<lparr>fs_trash := []\<rparr> else tick s))"

definition Publish :: "outcomes \<Rightarrow> path list \<Rightarrow> path list \<Rightarrow> path \<Rightarrow> 'a fs \<Rightarrow> pub_error option \<times> pub_result \<times> 'a fs" where
  "Publish E dirs files manifest s =
     (let items = map (\<lambda>p. (p, True)) dirs @ map (\<lambda>p. (p, False)) files
      in if dirs = [] then (Some NothingToPublish, no_publish, s)
         else if \<not> step_ok E s then (Some AbsFailed, no_publish, tick s)
         else (case check_staged E (map (\<lambda>p. (p, True)) dirs @ (manifest, False) # map (\<lambda>p. (p, False)) files) (tick s) of
                 (Some e, s1) \<Rightarrow> (Some e, no_publish, s1)
               | (None, s1) \<Rightarrow>
                   if \<not> step_ok E s1 then (Some RootFailed, no_publish, tick s1)
                   else if \<not> step_ok E (tick s1) then (Some TrashFailed, no_publish, tick (tick s1))
                   else empty_trash E
                          (case place_all E 0 items no_publish ((tick (tick s1))\<lparr>fs_trash := []\<rparr>) of
                             (Some e, r, s2) \<Rightarrow> (Some e, r, s2)
                           | (None, r, s2) \<Rightarrow> swap_manifest E manifest r s2)))"

end
