(* ===== verification/Publish_Props.thy ===== *)
theory Publish_Props
  imports Agg_Publish
begin

text \<open>
  Publishing is all or nothing, except for one path: a failed rename of a staged entry undoes only
  its own displacement. The manifest is the last thing to change.
\<close>

section \<open>Trees\<close>

lemma below_self [simp]: "below p p"
  by (simp add: below_def)

lemma below_append [simp]: "below p (p @ q)"
  by (simp add: below_def)

lemma below_split: "below p q \<Longrightarrow> q = p @ drop (length p) q"
  by (metis below_def append_take_drop_id)

lemma below_iff: "below p q \<longleftrightarrow> (\<exists>r. q = p @ r)"
  using below_split by auto

lemma below_trans: "below p q \<Longrightarrow> below q r \<Longrightarrow> below p r"
  by (auto simp: below_iff)

lemma map_of_without: "map_of (without p t) q = (if below p q then None else map_of t q)"
  by (induction t) (auto simp: without_def)

lemma map_of_subtree: "map_of (subtree p t) q = map_of t (p @ q)"
proof (induction t)
  case (Cons e t)
  obtain a n where e: "e = (a, n)" by force
  show ?case
  proof (cases "below p a")
    case True
    then obtain r where "a = p @ r" by (auto simp: below_iff)
    then show ?thesis using Cons by (simp add: e subtree_def)
  next
    case False
    then have "a \<noteq> p @ q" by auto
    then show ?thesis using Cons False by (simp add: e subtree_def)
  qed
qed (simp add: subtree_def)

lemma map_of_prefixed: "map_of (map (\<lambda>(q, n). (p @ q, n)) s) q = (if below p q then map_of s (drop (length p) q) else None)"
  by (induction s) (auto simp: below_iff)

lemma map_of_graft: "map_of (graft p s t) q = (if below p q then map_of s (drop (length p) q) else map_of t q)"
  by (simp add: graft_def map_add_def map_of_prefixed map_of_without split: option.splits)

lemma map_of_mkdirs:
  "map_of (mkdirs p t) q =
     (case map_of t q of Some n \<Rightarrow> Some n
      | None \<Rightarrow> if q \<noteq> [] \<and> below q p then Some NDir else None)"
proof -
  have dirs: "map_of (map (\<lambda>q. (q, NDir)) qs) q = (if q \<in> set qs then Some NDir else None)" for qs :: "path list"
    by (induction qs) auto
  have prefixes: "q \<in> (\<lambda>k. take k p) ` {1..<Suc (length p)} \<longleftrightarrow> q \<noteq> [] \<and> below q p"
  proof
    assume *: "q \<noteq> [] \<and> below q p"
    then obtain r where p: "p = q @ r" by (auto simp: below_iff)
    have "q = take (length q) p" "length q \<in> {1..<Suc (length p)}"
      using * by (simp_all add: p Suc_leI)
    then show "q \<in> (\<lambda>k. take k p) ` {1..<Suc (length p)}" by blast
  next
    assume "q \<in> (\<lambda>k. take k p) ` {1..<Suc (length p)}"
    then obtain k where k: "1 \<le> k" "k \<le> length p" "q = take k p" by auto
    then have "length q = k" by simp
    moreover have "take k p = q" using k by simp
    ultimately show "q \<noteq> [] \<and> below q p" using k(1) by (auto simp: below_def)
  qed
  show ?thesis
    unfolding mkdirs_def map_of_append map_add_def dirs set_filter set_map set_upt
    using prefixes by (cases "map_of t q") auto
qed

lemma file_at_without: "file_at (without p t) q = (if below p q then None else file_at t q)"
  by (simp add: file_at_def map_of_without)

lemma file_at_subtree: "file_at (subtree p t) q = file_at t (p @ q)"
  by (simp add: file_at_def map_of_subtree)

lemma file_at_graft: "file_at (graft p s t) q = (if below p q then file_at s (drop (length p) q) else file_at t q)"
  by (simp add: file_at_def map_of_graft)

lemma file_at_mkdirs: "file_at (mkdirs p t) q = file_at t q"
  by (simp add: file_at_def map_of_mkdirs split: option.splits node.splits)

lemmas file_at_simps = file_at_without file_at_subtree file_at_graft file_at_mkdirs

section \<open>What has been placed\<close>

definition apart :: "path list \<Rightarrow> bool" where
  "apart ps = (distinct ps \<and> [] \<notin> set ps \<and> (\<forall>p \<in> set ps. \<forall>q \<in> set ps. below p q \<longrightarrow> p = q))"

definition tree_ok :: "'a tree \<Rightarrow> bool" where
  "tree_ok t = (\<forall>p x. p \<noteq> [] \<longrightarrow> map_of t p = None \<longrightarrow> map_of t (p @ x) = None)"

definition overlay :: "path list \<Rightarrow> 'a tree \<Rightarrow> 'a tree \<Rightarrow> path \<Rightarrow> 'a option" where
  "overlay ps stage live q = (if list_ex (\<lambda>p. below p q) ps then file_at stage q else file_at live q)"

definition slot_ok :: "'a tree \<Rightarrow> (nat \<times> 'a tree) list \<Rightarrow> path \<Rightarrow> nat \<Rightarrow> bool" where
  "slot_ok live trash p k =
     (case map_of trash k of
        None \<Rightarrow> map_of live p = None
      | Some t \<Rightarrow> \<forall>x. file_at t x = file_at live (p @ x))"

definition undoable :: "'a tree \<Rightarrow> 'a tree \<Rightarrow> path list \<Rightarrow> 'a fs \<Rightarrow> bool" where
  "undoable live stage ps s =
     ((\<forall>q. file_at (fs_live s) q = overlay ps stage live q)
      \<and> (\<forall>k < length ps. slot_ok live (fs_trash s) (ps ! k) k))"

definition untouched :: "'a tree \<Rightarrow> path list \<Rightarrow> 'a fs \<Rightarrow> bool" where
  "untouched live ps s =
     (\<forall>q. q \<noteq> [] \<longrightarrow> list_all (\<lambda>d. \<not> below d q \<and> \<not> below q d) ps \<longrightarrow> map_of (fs_live s) q = map_of live q)"

definition placed :: "'a tree \<Rightarrow> 'a tree \<Rightarrow> path list \<Rightarrow> 'a fs \<Rightarrow> bool" where
  "placed live stage ps s =
     (undoable live stage ps s \<and> untouched live ps s
      \<and> (\<forall>k \<ge> length ps. map_of (fs_trash s) k = None)
      \<and> (\<forall>q. list_all (\<lambda>d. \<not> below d q) ps \<longrightarrow> map_of (fs_stage s) q = map_of stage q))"

lemma below_linear: "below p r \<Longrightarrow> below q r \<Longrightarrow> below p q \<or> below q p"
  by (auto simp: below_iff append_eq_append_conv2)

lemma apart_unique: "apart ps \<Longrightarrow> p \<in> set ps \<Longrightarrow> q \<in> set ps \<Longrightarrow> below p r \<Longrightarrow> below q r \<Longrightarrow> p = q"
  using below_linear by (fastforce simp: apart_def)

lemma overlay_Nil [simp]: "overlay [] stage live = file_at live"
  by (simp add: overlay_def fun_eq_iff)

lemma overlay_snoc: "overlay (ps @ [p]) stage live q = (if below p q then file_at stage q else overlay ps stage live q)"
  by (auto simp: overlay_def)

lemma overlay_other:
  assumes "apart ps" and "p \<in> set ps" and "set qs \<subseteq> set ps - {p}" and "below p r"
  shows "overlay qs stage live r = file_at live r"
proof -
  have "\<not> list_ex (\<lambda>q. below q r) qs"
    using assms apart_unique [OF assms(1,2)] by (auto simp: list_ex_iff)
  then show ?thesis by (simp add: overlay_def)
qed

section \<open>Undoing\<close>

lemma tick_simps [simp]:
  "fs_live (tick s) = fs_live s" "fs_stage (tick s) = fs_stage s" "fs_trash (tick s) = fs_trash s" "fs_seen (tick s) = fs_seen s"
  by (simp_all add: tick_def)

lemma set_live_simps [simp]:
  "fs_live (set_live t s) = t" "fs_stage (set_live t s) = fs_stage s" "fs_trash (set_live t s) = fs_trash s"
  "fs_seen (set_live t s) = t # fs_seen s"
  by (simp_all add: set_live_def)

lemma undo_one_restores:
  assumes "\<And>n. oc_undo E n" and "tree_ok live" and "p \<noteq> []" and "slot_ok live (fs_trash s) p k"
  shows "file_at (fs_live (undo_one E p k s)) q = (if below p q then file_at live q else file_at (fs_live s) q)"
    and "fs_trash (undo_one E p k s) = fs_trash s"
proof -
  let ?s1 = "set_live (without p (fs_live s)) (tick s)"
  have nodir: "\<not> is_dir (fs_live ?s1) p" by (simp add: is_dir_def map_of_without)
  have gone: "file_at live q = None" if "map_of (fs_trash s) k = None" "below p q"
  proof -
    from that(1) assms(4) have "map_of live p = None" by (simp add: slot_ok_def)
    moreover obtain x where "q = p @ x" using \<open>below p q\<close> below_iff by blast
    ultimately show ?thesis using assms(2,3) by (simp add: tree_ok_def file_at_def)
  qed
  have kept: "file_at t (drop (length p) q) = file_at live q" if "map_of (fs_trash s) k = Some t" "below p q" for t
    using that assms(4) below_split [of p q] by (simp add: slot_ok_def)
  show "file_at (fs_live (undo_one E p k s)) q = (if below p q then file_at live q else file_at (fs_live s) q)"
    using nodir gone kept
    by (cases "map_of (fs_trash s) k") (simp_all add: undo_one_def undo_ok_def assms(1) restore_def file_at_simps)
  show "fs_trash (undo_one E p k s) = fs_trash s"
    unfolding undo_one_def undo_ok_def Let_def by (simp add: assms(1) restore_def split: option.splits)
qed

lemma undo_from_restores:
  assumes undo: "\<And>n. oc_undo E n" and "tree_ok live" and "apart ps" and "slash_path ManifestPath \<notin> set ps"
  shows "n \<le> length ps \<Longrightarrow> (\<And>q. file_at (fs_live s) q = overlay (take n ps) stage live q) \<Longrightarrow>
    (\<And>k. k < n \<Longrightarrow> slot_ok live (fs_trash s) (ps ! k) k) \<Longrightarrow> file_at (fs_live (undo_from E ps n s)) q = file_at live q"
proof (induction n arbitrary: s)
  case (Suc n)
  let ?p = "ps ! n"
  have n: "n < length ps" using Suc.prems(1) by simp
  then have p: "?p \<in> set ps" by simp
  then have named: "?p \<noteq> []" "?p \<noteq> slash_path ManifestPath"
    using assms(3,4) by (metis apart_def, metis)
  note undo_one = undo_one_restores [OF undo assms(2) named(1) Suc.prems(3) [OF lessI]]
  have "?p \<notin> set (take n ps)" using assms(3) n by (auto simp: apart_def in_set_conv_nth distinct_conv_nth)
  then have others: "set (take n ps) \<subseteq> set ps - {?p}" using set_take_subset [of n ps] by auto
  have "file_at (fs_live (undo_one E ?p n s)) q = overlay (take n ps) stage live q" for q
  proof (cases "below ?p q")
    case True
    then show ?thesis using overlay_other [OF assms(3) p others True, of stage live] by (simp add: undo_one(1))
  next
    case False
    then show ?thesis using n by (simp add: undo_one(1) Suc.prems(2) take_Suc_conv_app_nth overlay_snoc)
  qed
  moreover have "slot_ok live (fs_trash (undo_one E ?p n s)) (ps ! k) k" if "k < n" for k
    using Suc.prems(3) that by (simp add: undo_one(2))
  ultimately have "file_at (fs_live (undo_from E ps n (undo_one E ?p n s))) q = file_at live q"
    using Suc.IH Suc.prems(1) by simp
  then show ?case using named(2) by simp
qed simp

lemma rollback_restores:
  assumes "\<And>n. oc_undo E n" and "tree_ok live" and "apart ps" and "slash_path ManifestPath \<notin> set ps"
    and "undoable live stage ps s" and "pu_Replaced r = ps"
  shows "file_at (fs_live (rollback E r s)) q = file_at live q"
proof -
  have "file_at (fs_live (undo_from E ps (length ps) s)) q = file_at live q"
    by (rule undo_from_restores [OF assms(1-4), where stage = stage]) (use assms(5) in \<open>simp_all add: undoable_def\<close>)
  then show ?thesis by (simp add: rollback_def assms(6))
qed

section \<open>Placing\<close>

lemma apart_snocD:
  assumes "apart (ps @ [p])"
  shows "apart ps" and "p \<noteq> []" and "list_all (\<lambda>d. \<not> below d p \<and> \<not> below p d) ps"
  using assms by (auto simp: apart_def list_all_iff)

lemma overlay_apart: "apart (ps @ [p]) \<Longrightarrow> overlay ps stage live (p @ x) = file_at live (p @ x)"
  using overlay_other [of "ps @ [p]" p ps "p @ x" stage live] by (auto simp: apart_def)

lemma make_parent_placed:
  assumes "placed live stage ps s" and "apart (ps @ [p])" and "make_parent E p s = (ok, s1)"
  shows "undoable live stage ps s1" and "map_of (fs_live s1) p = map_of live p" and "untouched live (ps @ [p]) s1"
    and "fs_trash s1 = fs_trash s" and "fs_stage s1 = fs_stage s"
proof -
  note p = apart_snocD [OF assms(2)]
  have short: "\<not> below p (parent p)"
    using p(2) by (metis below_iff length_butlast length_append parent_def diff_less length_greater_0_conv
      not_add_less1 zero_less_one)
  have up: "below q (parent p) \<Longrightarrow> below q p" for q
    using p(2) below_trans [of q "parent p" p] by (metis append_butlast_last_id below_append parent_def)
  have s1: "s1 = tick s \<or> s1 = set_live (mkdirs (parent p) (fs_live s)) (tick s)"
    using assms(3) by (auto simp: make_parent_def split: if_splits)
  then show "undoable live stage ps s1"
    using assms(1) by (auto simp: placed_def undoable_def file_at_mkdirs)
  have same: "map_of (fs_live s1) q = map_of (fs_live s) q" if "\<not> below q (parent p) \<or> q = []" for q
    using s1 that by (auto simp: map_of_mkdirs split: option.splits)
  have "map_of (fs_live s) p = map_of live p"
    using assms(1) p by (simp add: placed_def untouched_def)
  then show "map_of (fs_live s1) p = map_of live p" using same short by simp
  show "untouched live (ps @ [p]) s1"
  proof (unfold untouched_def, intro allI impI)
    fix q assume q: "q \<noteq> []" "list_all (\<lambda>d. \<not> below d q \<and> \<not> below q d) (ps @ [p])"
    then have "\<not> below q (parent p)" using up by auto
    then show "map_of (fs_live s1) q = map_of live q"
      using same assms(1) q by (simp add: placed_def untouched_def)
  qed
  show "fs_trash s1 = fs_trash s" "fs_stage s1 = fs_stage s" using s1 by auto
qed

lemma displace_cases:
  assumes "displace E d p slot s = (res, s2)"
  obtains (failed) e where "res = Inl e" and "fs_live s2 = fs_live s" and "fs_trash s2 = fs_trash s" and "fs_stage s2 = fs_stage s"
    and "\<And>q. e \<noteq> MoveFailed q"
  | (absent) "res = Inr False" and "map_of (fs_live s) p = None" and "fs_live s2 = fs_live s"
    and "fs_trash s2 = fs_trash s" and "fs_stage s2 = fs_stage s"
  | (moved) "res = Inr True" and "fs_live s2 = without p (fs_live s)" and "fs_stage s2 = fs_stage s"
    and "fs_trash s2 = (slot, subtree p (fs_live s)) # filter (\<lambda>(k, t). k \<noteq> slot) (fs_trash s)"
  using assms by (auto simp: displace_def split: if_splits option.splits)

lemma map_of_filter_key: "k \<noteq> slot \<Longrightarrow> map_of (filter (\<lambda>(k, t). k \<noteq> slot) ts) k = map_of ts k"
  by (induction ts) auto

lemma put_back_overlay:
  assumes "\<And>n. oc_undo E n" and "apart (ps @ [p])" and "undoable live stage ps s1"
    and "fs_live s = without p (fs_live s1)" and "map_of (fs_trash s) slot = Some (subtree p (fs_live s1))"
  shows "file_at (fs_live (put_back E p slot s)) q = overlay ps stage live q"
proof -
  have live: "file_at (fs_live s1) r = overlay ps stage live r" for r
    using assms(3) by (simp add: undoable_def)
  show ?thesis
    using below_split [of p q]
    by (simp add: put_back_def undo_ok_def assms(1,4,5) restore_def file_at_simps live split: option.splits)
qed

lemma swapped_in:
  assumes "apart (ps @ [p])"
    and live: "\<And>q. \<not> below p q \<Longrightarrow> file_at (fs_live s) q = overlay ps stage live q"
    and unt: "untouched live (ps @ [p]) s"
    and slots: "\<And>k. k < length (ps @ [p]) \<Longrightarrow> slot_ok live (fs_trash s) ((ps @ [p]) ! k) k"
    and free: "\<And>k. length (ps @ [p]) \<le> k \<Longrightarrow> map_of (fs_trash s) k = None"
    and stage: "\<And>q. list_all (\<lambda>d. \<not> below d q) ps \<Longrightarrow> map_of (fs_stage s) q = map_of stage q"
  shows "placed live stage (ps @ [p])
    ((set_live (graft p (subtree p (fs_stage s)) (fs_live s)) (tick s))\<lparr>fs_stage := without p (fs_stage s)\<rparr>)"
proof -
  have "file_at (graft p (subtree p (fs_stage s)) (fs_live s)) q = overlay (ps @ [p]) stage live q" for q
  proof (cases "below p q")
    case True
    have "list_all (\<lambda>d. \<not> below d q) ps"
      using apart_unique [OF assms(1) _ _ True] assms(1) by (auto simp: list_all_iff apart_def)
    then have "file_at (fs_stage s) q = file_at stage q" using stage by (simp add: file_at_def)
    then show ?thesis using True below_split [OF True] by (simp add: file_at_simps overlay_snoc)
  qed (simp add: file_at_simps overlay_snoc live)
  then show ?thesis
    using unt slots free stage
    by (simp add: placed_def undoable_def untouched_def map_of_graft map_of_without)
qed

text \<open>One entry: placed, or everything as it was before the run, or - a failed move - before the entry.\<close>

lemma place_cases:
  assumes undo: "\<And>n. oc_undo E n" and ok: "tree_ok live" and ap: "apart (ps @ [p])" and m: "slash_path ManifestPath \<notin> set ps"
    and pl: "placed live stage ps s" and r: "pu_Replaced r = ps"
    and run: "place E (length ps) (p, d) r s = (e, r1, s1)"
  obtains (placed) "e = None" and "placed live stage (ps @ [p]) s1" and "pu_Replaced r1 = ps @ [p]"
  | (undone) x where "e = Some x" and "\<And>q. x \<noteq> MoveFailed q" and "file_at (fs_live s1) = file_at live"
  | (stuck) "e = Some (MoveFailed p)" and "file_at (fs_live s1) = overlay ps stage live" and "pu_Replaced r1 = ps"
proof -
  obtain okp s2 where mp: "make_parent E p s = (okp, s2)" by force
  note parent = make_parent_placed [OF pl ap mp]
  have rolled: "file_at (fs_live (rollback E r t)) = file_at live" if "undoable live stage ps t" for t
    using rollback_restores [OF undo ok apart_snocD(1) [OF ap] m that r] by (simp add: fun_eq_iff)
  show thesis
  proof (cases okp)
    case False
    then have "e = Some (ParentFailed p)" "s1 = rollback E r s2" using run mp by (auto simp: place_def)
    then show thesis using undone rolled parent(1) by simp
  next
    case True
    obtain res s3 where dp: "displace E d p (length ps) s2 = (res, s3)" by force
    have run': "(case res of Inl e \<Rightarrow> (Some e, r, rollback E r s3)
        | Inr moved \<Rightarrow>
            (let r1 = r\<lparr>pu_ReplacedExisting := pu_ReplacedExisting r \<or> moved\<rparr>
             in if \<not> (step_ok E s3 \<and> map_of (fs_stage s3) p \<noteq> None)
                then (Some (MoveFailed p), r1, if moved then put_back E p (length ps) (tick s3) else tick s3)
                else (None, r1\<lparr>pu_Replaced := pu_Replaced r @ [p]\<rparr>,
                      (set_live (graft p (subtree p (fs_stage s3)) (fs_live s3)) (tick s3))
                        \<lparr>fs_stage := without p (fs_stage s3)\<rparr>))) = (e, r1, s1)"
      using run mp dp True by (simp add: place_def)
    have live2: "file_at (fs_live s2) q = overlay ps stage live q" for q
      using parent(1) by (simp add: undoable_def)
    have trash2: "map_of (fs_trash s2) k = None" if "length ps \<le> k" for k
      using pl parent(4) that by (simp add: placed_def)
    have stage2: "map_of (fs_stage s2) q = map_of stage q" if "list_all (\<lambda>d. \<not> below d q) ps" for q
      using pl parent(5) that by (simp add: placed_def)
    have slots: "slot_ok live (fs_trash s2) (ps ! k) k" if "k < length ps" for k
      using parent(1) that by (simp add: undoable_def)
    show thesis
    proof (cases rule: displace_cases [OF dp, case_names failed absent moved])
      case (failed x)
      then have "e = Some x" "s1 = rollback E r s3" using run' by auto
      moreover have "undoable live stage ps s3" using failed parent(1) by (simp add: undoable_def)
      ultimately show thesis using undone rolled failed(5) by simp
    next
      case absent
      have slots3: "slot_ok live (fs_trash s3) ((ps @ [p]) ! k) k" if "k < length (ps @ [p])" for k
        using slots trash2 [of k] parent(2) absent that by (cases "k = length ps") (simp_all add: slot_ok_def nth_append)
      show thesis
      proof (cases "step_ok E s3 \<and> map_of (fs_stage s3) p \<noteq> None")
        case True
        then have "e = None" "pu_Replaced r1 = ps @ [p]"
            "s1 = (set_live (graft p (subtree p (fs_stage s3)) (fs_live s3)) (tick s3))\<lparr>fs_stage := without p (fs_stage s3)\<rparr>"
          using run' absent(1) r by (auto simp: Let_def)
        moreover have "placed live stage (ps @ [p])
            ((set_live (graft p (subtree p (fs_stage s3)) (fs_live s3)) (tick s3))\<lparr>fs_stage := without p (fs_stage s3)\<rparr>)"
          by (rule swapped_in [OF ap])
            (use absent parent(3) slots3 trash2 stage2 live2 in \<open>simp_all add: untouched_def\<close>)
        ultimately show thesis using placed by simp
      next
        case False
        then have "e = Some (MoveFailed p)" "pu_Replaced r1 = ps" "s1 = tick s3"
          using run' absent(1) r by (auto simp: Let_def)
        then show thesis using stuck absent(3) live2 by (simp add: fun_eq_iff)
      qed
    next
      case moved
      have saved: "map_of (fs_trash s3) k = (if k = length ps then Some (subtree p (fs_live s2)) else map_of (fs_trash s2) k)" for k
        by (simp add: moved(4) map_of_filter_key)
      have free3: "map_of (fs_trash s3) k = None" if "length (ps @ [p]) \<le> k" for k
        using that trash2 [of k] by (simp add: saved)
      have slots3: "slot_ok live (fs_trash s3) ((ps @ [p]) ! k) k" if "k < length (ps @ [p])" for k
      proof (cases "k = length ps")
        case True
        then show ?thesis by (simp add: slot_ok_def saved file_at_subtree live2 overlay_apart [OF ap])
      next
        case False
        then show ?thesis using slots [of k] that by (simp add: slot_ok_def saved nth_append)
      qed
      show thesis
      proof (cases "step_ok E s3 \<and> map_of (fs_stage s3) p \<noteq> None")
        case True
        then have "e = None" "pu_Replaced r1 = ps @ [p]"
            "s1 = (set_live (graft p (subtree p (fs_stage s3)) (fs_live s3)) (tick s3))\<lparr>fs_stage := without p (fs_stage s3)\<rparr>"
          using run' moved(1) r by (auto simp: Let_def)
        moreover have "placed live stage (ps @ [p])
            ((set_live (graft p (subtree p (fs_stage s3)) (fs_live s3)) (tick s3))\<lparr>fs_stage := without p (fs_stage s3)\<rparr>)"
          by (rule swapped_in [OF ap])
            (use moved(2,3) parent(3) slots3 free3 stage2 live2 in \<open>simp_all add: untouched_def file_at_without map_of_without\<close>)
        ultimately show thesis using placed by simp
      next
        case False
        then have "e = Some (MoveFailed p)" "pu_Replaced r1 = ps" "s1 = put_back E p (length ps) (tick s3)"
          using run' moved(1) r by (auto simp: Let_def)
        moreover have "file_at (fs_live (put_back E p (length ps) (tick s3))) q = overlay ps stage live q" for q
          by (rule put_back_overlay [OF undo ap parent(1)]) (simp_all add: moved(2) saved)
        ultimately show thesis using stuck by (simp add: fun_eq_iff)
      qed
    qed
  qed
qed

lemma place_all_cases:
  assumes undo: "\<And>n. oc_undo E n" and ok: "tree_ok live"
  shows "placed live stage ps s \<Longrightarrow> pu_Replaced r = ps \<Longrightarrow> apart (ps @ map fst items) \<Longrightarrow>
      slash_path ManifestPath \<notin> set (ps @ map fst items) \<Longrightarrow> place_all E (length ps) items r s = (e, r1, s1) \<Longrightarrow>
    (e = None \<and> placed live stage (ps @ map fst items) s1 \<and> pu_Replaced r1 = ps @ map fst items)
    \<or> (\<exists>x. e = Some x \<and> (\<forall>q. x \<noteq> MoveFailed q) \<and> file_at (fs_live s1) = file_at live)
    \<or> (\<exists>q n. e = Some (MoveFailed q) \<and> file_at (fs_live s1) = overlay (pu_Replaced r1) stage live
          \<and> n < length items \<and> pu_Replaced r1 = ps @ take n (map fst items))"
proof (induction items arbitrary: ps r s)
  case (Cons item items)
  obtain p d where item: "item = (p, d)" by force
  obtain e2 r2 s2 where one: "place E (length ps) (p, d) r s = (e2, r2, s2)" by (cases "place E (length ps) (p, d) r s") auto
  have ap: "apart (ps @ [p])" and m: "slash_path ManifestPath \<notin> set ps"
    using Cons.prems(3,4) by (auto simp: item apart_def)
  show ?case
  proof (cases rule: place_cases [OF undo ok ap m Cons.prems(1,2) one, case_names placed undone stuck])
    case placed
    have "place_all E (length (ps @ [p])) items r2 s2 = (e, r1, s1)"
      using Cons.prems(5) one placed(1) by (simp add: item)
    from Cons.IH [OF placed(2,3) _ _ this] Cons.prems(3,4) show ?thesis
      by (auto simp: item intro: exI [of _ "Suc _"])
  next
    case (undone x)
    then show ?thesis using Cons.prems(5) one by (auto simp: item)
  next
    case stuck
    then show ?thesis using Cons.prems(5) one by (auto simp: item intro: exI [of _ "0 :: nat"])
  qed
qed simp

section \<open>The run\<close>

lemma check_staged_frame:
  "check_staged E items s = (e, s1) \<Longrightarrow>
    fs_live s1 = fs_live s \<and> fs_stage s1 = fs_stage s \<and> fs_seen s1 = fs_seen s \<and> (\<forall>x q. e = Some x \<longrightarrow> x \<noteq> MoveFailed q)"
  by (induction items arbitrary: s) (auto split: if_splits)

definition work :: "outcomes \<Rightarrow> path list \<Rightarrow> path list \<Rightarrow> path \<Rightarrow> 'a fs \<Rightarrow> pub_error option \<times> pub_result \<times> 'a fs" where
  "work E dirs files m s =
     (case place_all E 0 (map (\<lambda>p. (p, True)) dirs @ map (\<lambda>p. (p, False)) files) no_publish s of
        (Some e, r, s2) \<Rightarrow> (Some e, r, s2) | (None, r, s2) \<Rightarrow> swap_manifest E m r s2)"

text \<open>A run stops before it touches anything, or it does its work from a state with the same trees.\<close>

lemma Publish_cases:
  assumes "Publish E dirs files m s = (e, r, s')"
  obtains (refused) x where "e = Some x" and "r = no_publish" and "\<And>q. x \<noteq> MoveFailed q" and "fs_live s' = fs_live s"
    and "fs_seen s' = fs_seen s"
  | (worked) s0 s1 where "fs_live s0 = fs_live s" and "fs_stage s0 = fs_stage s" and "fs_trash s0 = []" and "fs_seen s0 = fs_seen s"
    and "work E dirs files m s0 = (e, r, s1)" and "fs_live s' = fs_live s1" and "fs_seen s' = fs_seen s1"
proof -
  obtain ec sc where chk: "check_staged E (map (\<lambda>p. (p, True)) dirs @ (m, False) # map (\<lambda>p. (p, False)) files) (tick s) = (ec, sc)"
    by force
  note frame = check_staged_frame [OF chk]
  let ?s0 = "(tick (tick sc))\<lparr>fs_trash := []\<rparr>"
  consider (early) x where "e = Some x" "r = no_publish" "\<And>q. x \<noteq> MoveFailed q" "fs_live s' = fs_live s" "fs_seen s' = fs_seen s"
    | (late) "empty_trash E (work E dirs files m ?s0) = (e, r, s')"
    using assms frame by (auto simp: Publish_def work_def chk Let_def split: if_splits option.splits)
  then show thesis
  proof cases
    case early
    then show thesis by (rule refused)
  next
    case late
    obtain e1 r1 s1 where w: "work E dirs files m ?s0 = (e1, r1, s1)" by (cases "work E dirs files m ?s0") auto
    show thesis
      by (rule worked [of ?s0 s1]) (use late w frame in \<open>auto simp: empty_trash_def split: if_splits\<close>)
  qed
qed

lemma swap_manifest_cases:
  assumes "swap_manifest E m r s = (e, r1, s1)"
  obtains (swapped) "e = None" and "s1 = (set_live (graft m (subtree m (fs_stage s)) (fs_live s)) (tick s))\<lparr>fs_stage := without m (fs_stage s)\<rparr>"
  | (failed) "e = Some ManifestFailed" and "r1 = r" and "s1 = rollback E r (tick s)"
  using assms by (auto simp: swap_manifest_def split: if_splits)

lemma work_result:
  assumes undo: "\<And>n. oc_undo E n" and ok: "tree_ok live" and ap: "apart (dirs @ files @ [m])"
    and m: "slash_path ManifestPath \<notin> set (dirs @ files)"
    and s: "fs_live s = live" "fs_stage s = stage" "fs_trash s = []"
    and run: "work E dirs files m s = (e, r, s1)"
  shows "(e = None \<and> file_at (fs_live s1) = overlay (dirs @ files @ [m]) stage live)
    \<or> (\<exists>x. e = Some x \<and> (\<forall>q. x \<noteq> MoveFailed q) \<and> file_at (fs_live s1) = file_at live)
    \<or> (\<exists>q n. e = Some (MoveFailed q) \<and> file_at (fs_live s1) = overlay (pu_Replaced r) stage live
          \<and> n < length (dirs @ files) \<and> pu_Replaced r = take n (dirs @ files))"
proof -
  let ?items = "map (\<lambda>p. (p, True)) dirs @ map (\<lambda>p. (p, False)) files"
  have paths: "map fst ?items = dirs @ files" by (simp add: comp_def)
  have items_len: "length ?items = length (dirs @ files)" by simp
  have init: "placed live stage [] s"
    using s by (simp add: placed_def undoable_def untouched_def)
  obtain e2 r2 s2 where pa: "place_all E 0 ?items no_publish s = (e2, r2, s2)"
    by (cases "place_all E 0 ?items no_publish s") auto
  have ap': "apart ([] @ map fst ?items)" and m': "slash_path ManifestPath \<notin> set ([] @ map fst ?items)"
    using ap m unfolding paths by (auto simp: apart_def)
  have none_yet: "pu_Replaced no_publish = []" by (simp add: no_publish_def)
  have pa': "place_all E (length ([] :: path list)) ?items no_publish s = (e2, r2, s2)" using pa by simp
  have cases: "(e2 = None \<and> placed live stage (dirs @ files) s2 \<and> pu_Replaced r2 = dirs @ files)
    \<or> (\<exists>x. e2 = Some x \<and> (\<forall>q. x \<noteq> MoveFailed q) \<and> file_at (fs_live s2) = file_at live)
    \<or> (\<exists>q n. e2 = Some (MoveFailed q) \<and> file_at (fs_live s2) = overlay (pu_Replaced r2) stage live
          \<and> n < length (dirs @ files) \<and> pu_Replaced r2 = take n (dirs @ files))"
    using place_all_cases [OF undo ok init none_yet ap' m' pa']
    unfolding paths items_len by simp
  show ?thesis
  proof (cases e2)
    case (Some x)
    then have "e = Some x" "r = r2" "s1 = s2" using run pa by (auto simp: work_def)
    then show ?thesis using cases Some by auto
  next
    case None
    then have pl: "placed live stage (dirs @ files) s2" and rep: "pu_Replaced r2 = dirs @ files" using cases by auto
    have swap: "swap_manifest E m r2 s2 = (e, r, s1)" using run pa None by (simp add: work_def)
    show ?thesis
    proof (cases rule: swap_manifest_cases [OF swap, case_names swapped failed])
      case swapped
      have "list_all (\<lambda>d. \<not> below d q) (dirs @ files)" if "below m q" for q
        unfolding list_all_iff
      proof
        fix d assume d: "d \<in> set (dirs @ files)"
        show "\<not> below d q"
        proof
          assume "below d q"
          then have "m = d" using apart_unique [OF ap _ _ that, of d] d by auto
          then show False using d ap by (auto simp: apart_def)
        qed
      qed
      then have "file_at (fs_stage s2) q = file_at stage q" if "below m q" for q
        using pl that by (simp add: placed_def file_at_def)
      then have "file_at (graft m (subtree m (fs_stage s2)) (fs_live s2)) q = overlay ((dirs @ files) @ [m]) stage live q" for q
        using pl below_split [of m q] by (auto simp: file_at_simps overlay_snoc [of "dirs @ files" m, unfolded append_assoc] placed_def undoable_def)
      then show ?thesis using swapped by (simp add: fun_eq_iff)
    next
      case failed
      have ap0: "apart (dirs @ files)" using ap apart_snocD(1) [of "dirs @ files" m] by simp
      have "undoable live stage (dirs @ files) (tick s2)" using pl by (simp add: placed_def undoable_def)
      from rollback_restores [OF undo ok ap0 m this rep] have "file_at (fs_live s1) = file_at live"
        using failed by (simp add: fun_eq_iff)
      then show ?thesis using failed by auto
    qed
  qed
qed

text \<open>
  C29: publishing a staged tree is all or nothing. When it succeeds, every file below a published
  directory, every loose file and the manifest are the staged ones and no other file has changed;
  when it fails - at a check, a displacement, a parent directory or the manifest - every file of the
  live tree is the one that was there before. A failed move is covered when the run publishes a
  single directory, which is what a tier-list build does.
\<close>

theorem publish_is_atomic:
  assumes "\<And>n. oc_undo E n" and "tree_ok (fs_live s)" and "apart (dirs @ files @ [m])"
    and "slash_path ManifestPath \<notin> set (dirs @ files)" and "Publish E dirs files m s = (e, r, s')"
  shows "(case e of
            None \<Rightarrow> file_at (fs_live s') = overlay (dirs @ files @ [m]) (fs_stage s) (fs_live s)
          | Some (MoveFailed q) \<Rightarrow> length (dirs @ files) = 1 \<longrightarrow> file_at (fs_live s') = file_at (fs_live s)
          | Some x \<Rightarrow> file_at (fs_live s') = file_at (fs_live s))"
proof (cases rule: Publish_cases [OF assms(5), case_names refused worked])
  case (refused x)
  then show ?thesis by (auto split: pub_error.splits)
next
  case (worked s0 s1)
  show ?thesis
    using work_result [OF assms(1-4) worked(1,2,3,5)] worked(6) by (auto split: pub_error.splits)
qed

text \<open>
  The one failure that is not undone: when the rename of a staged entry fails, the entry's own
  displacement is reverted, but the entries published before it stay, without the manifest. The
  published dataset has six directories and two files, so a failure can leave it mixed.
\<close>

theorem failed_move_keeps_earlier:
  assumes "\<And>n. oc_undo E n" and "tree_ok (fs_live s)" and "apart (dirs @ files @ [m])"
    and "slash_path ManifestPath \<notin> set (dirs @ files)" and "Publish E dirs files m s = (Some (MoveFailed q), r, s')"
  shows "file_at (fs_live s') = overlay (pu_Replaced r) (fs_stage s) (fs_live s)
    \<and> (\<exists>n < length (dirs @ files). pu_Replaced r = take n (dirs @ files))"
proof (cases rule: Publish_cases [OF assms(5), case_names refused worked])
  case (refused x)
  from refused(3) [of q] refused(1) show ?thesis by simp
next
  case (worked s0 s1)
  show ?thesis
    using work_result [OF assms(1-4) worked(1,2,3,5)] worked(6) by auto
qed

section \<open>What a reader sees\<close>

definition calm :: "path \<Rightarrow> 'a option \<Rightarrow> 'a fs \<Rightarrow> bool" where
  "calm m v s = (file_at (fs_live s) m = v \<and> (\<forall>t \<in> set (fs_seen s). file_at t m = v))"

lemma calm_tick [simp]: "calm m v (tick s) = calm m v s"
  by (simp add: calm_def)

lemma calm_restore: "calm m v s \<Longrightarrow> \<not> below p m \<Longrightarrow> calm m v (restore p t s)"
  by (simp add: calm_def restore_def file_at_graft)

lemma calm_without: "calm m v s \<Longrightarrow> \<not> below p m \<Longrightarrow> calm m v (set_live (without p (fs_live s)) (tick s))"
  by (simp add: calm_def file_at_without)

lemma calm_put_back: "calm m v s \<Longrightarrow> \<not> below p m \<Longrightarrow> calm m v (put_back E p k s)"
  by (simp add: put_back_def calm_restore split: option.splits)

lemma calm_undo_one: "calm m v s \<Longrightarrow> \<not> below p m \<Longrightarrow> calm m v (undo_one E p k s)"
  unfolding undo_one_def Let_def by (simp add: calm_restore calm_without split: option.splits)

lemma calm_undo_from:
  "calm m v s \<Longrightarrow> n \<le> length ps \<Longrightarrow> list_all (\<lambda>p. \<not> below p m) ps \<Longrightarrow> calm m v (undo_from E ps n s)"
proof (induction n arbitrary: s)
  case (Suc n)
  then have "\<not> below (ps ! n) m" by (simp add: list_all_length)
  from calm_undo_one [OF Suc.prems(1) this] have "calm m v (undo_one E (ps ! n) n s)" .
  then show ?case using Suc by simp
qed simp

lemma calm_rollback: "calm m v s \<Longrightarrow> list_all (\<lambda>p. \<not> below p m) (pu_Replaced r) \<Longrightarrow> calm m v (rollback E r s)"
  by (simp add: rollback_def calm_undo_from)

lemma calm_make_parent: "calm m v s \<Longrightarrow> calm m v (snd (make_parent E p s))"
  by (simp add: make_parent_def calm_def file_at_mkdirs)

lemma calm_displace: "calm m v s \<Longrightarrow> \<not> below p m \<Longrightarrow> calm m v (snd (displace E d p k s))"
  by (simp add: displace_def calm_def file_at_without split: option.splits)

lemma calm_place:
  assumes "calm m v s" and "\<not> below p m" and "list_all (\<lambda>p. \<not> below p m) (pu_Replaced r)"
    and "place E k (p, d) r s = (e, r1, s1)"
  shows "calm m v s1" and "list_all (\<lambda>p. \<not> below p m) (pu_Replaced r1)"
proof -
  obtain okp s2 where mp: "make_parent E p s = (okp, s2)" by force
  then have c2: "calm m v s2" using calm_make_parent [OF assms(1), of E p] by simp
  obtain res s3 where dp: "displace E d p k s2 = (res, s3)" by force
  then have c3: "calm m v s3" using calm_displace [OF c2 assms(2), of E d k] by simp
  have swap: "calm m v ((set_live (graft p t (fs_live s3)) (tick s3))\<lparr>fs_stage := u\<rparr>)" for t u
    using c3 assms(2) by (simp add: calm_def file_at_graft)
  have "calm m v s1 \<and> list_all (\<lambda>p. \<not> below p m) (pu_Replaced r1)"
    using assms(2-4) c2 c3
    by (auto simp: place_def mp dp Let_def swap calm_rollback calm_put_back split: if_splits bool.splits sum.splits)
  then show "calm m v s1" "list_all (\<lambda>p. \<not> below p m) (pu_Replaced r1)" by simp_all
qed

lemma calm_place_all:
  "calm m v s \<Longrightarrow> list_all (\<lambda>p. \<not> below p m) (map fst items) \<Longrightarrow> list_all (\<lambda>p. \<not> below p m) (pu_Replaced r) \<Longrightarrow>
    place_all E k items r s = (e, r1, s1) \<Longrightarrow> calm m v s1 \<and> list_all (\<lambda>p. \<not> below p m) (pu_Replaced r1)"
proof (induction items arbitrary: k r s)
  case (Cons item items)
  obtain p d where item: "item = (p, d)" by force
  obtain e2 r2 s2 where one: "place E k (p, d) r s = (e2, r2, s2)" by (cases "place E k (p, d) r s") auto
  have "calm m v s2" "list_all (\<lambda>p. \<not> below p m) (pu_Replaced r2)"
    using calm_place [OF Cons.prems(1) _ Cons.prems(3) one] Cons.prems(2) by (simp_all add: item)
  then show ?case using Cons.IH Cons.prems(2,4) one by (cases e2) (auto simp: item)
qed simp

lemma work_seen:
  assumes "fs_seen s = []" and "apart (dirs @ files @ [m])" and "work E dirs files m s = (e, r, s1)" and "t \<in> set (fs_seen s1)"
  shows "file_at t m = file_at (fs_live s) m \<or> e = None \<and> t = fs_live s1"
proof -
  let ?items = "map (\<lambda>p. (p, True)) dirs @ map (\<lambda>p. (p, False)) files"
  have clear: "list_all (\<lambda>p. \<not> below p m) (map fst ?items)"
    using assms(2) by (auto simp: apart_def list_all_iff comp_def)
  obtain e2 r2 s2 where pa: "place_all E 0 ?items no_publish s = (e2, r2, s2)"
    by (cases "place_all E 0 ?items no_publish s") auto
  have "calm m (file_at (fs_live s) m) s" using assms(1) by (simp add: calm_def)
  then have c2: "calm m (file_at (fs_live s) m) s2" and r2: "list_all (\<lambda>p. \<not> below p m) (pu_Replaced r2)"
    using calm_place_all [OF _ clear _ pa] by (simp_all add: no_publish_def)
  show ?thesis
  proof (cases e2)
    case (Some x)
    then have "s1 = s2" using assms(3) pa by (auto simp: work_def)
    then show ?thesis using c2 assms(4) by (simp add: calm_def)
  next
    case None
    then have swap: "swap_manifest E m r2 s2 = (e, r, s1)" using assms(3) pa by (simp add: work_def)
    show ?thesis
    proof (cases rule: swap_manifest_cases [OF swap, case_names swapped failed])
      case swapped
      then show ?thesis using c2 assms(4) by (auto simp: calm_def)
    next
      case failed
      then have "calm m (file_at (fs_live s) m) s1" using c2 r2 by (simp add: calm_rollback)
      then show ?thesis using assms(4) by (simp add: calm_def)
    qed
  qed
qed

text \<open>
  The manifest is the last thing to change. At every moment of a run - and so after a crash at
  any point - the live manifest is the old one, or the run has succeeded and everything the manifest
  describes is in place.
\<close>

theorem manifest_is_last:
  assumes "\<And>n. oc_undo E n" and "tree_ok (fs_live s)" and "apart (dirs @ files @ [m])"
    and "slash_path ManifestPath \<notin> set (dirs @ files)" and "fs_seen s = []"
    and "Publish E dirs files m s = (e, r, s')" and "t \<in> set (fs_seen s')"
  shows "file_at t m = file_at (fs_live s) m
    \<or> e = None \<and> file_at t = overlay (dirs @ files @ [m]) (fs_stage s) (fs_live s)"
proof (cases rule: Publish_cases [OF assms(6), case_names refused worked])
  case (refused x)
  then show ?thesis using assms(5,7) by simp
next
  case (worked s0 s1)
  have "fs_seen s0 = []" "t \<in> set (fs_seen s1)" using worked(4,7) assms(5,7) by simp_all
  from work_seen [OF this(1) assms(3) worked(5) this(2)]
  show ?thesis
    using work_result [OF assms(1-4) worked(1,2,3,5)] worked(1) by auto
qed

section \<open>Examples\<close>

definition all_fine :: outcomes where
  "all_fine = \<lparr>oc_io = (\<lambda>n. True), oc_undo = (\<lambda>n. True)\<rparr>"

definition demo_fs :: "nat fs" where
  "demo_fs = \<lparr>fs_live = [([''v1''], NDir), ([''v1'', ''a''], NDir), ([''v1'', ''a'', ''x''], NFile 1), ([''v1'', ''m''], NFile 2)],
     fs_stage = [([''v1''], NDir), ([''v1'', ''a''], NDir), ([''v1'', ''a'', ''x''], NFile 11), ([''v1'', ''b''], NDir),
                 ([''v1'', ''b'', ''y''], NFile 13), ([''v1'', ''m''], NFile 12)],
     fs_trash = [], fs_tick = 0, fs_seen = []\<rparr>"

lemma demo_tree_ok: "tree_ok (fs_live demo_fs)"
  unfolding tree_ok_def demo_fs_def by (auto simp: append_eq_Cons_conv split: if_splits)

theorem publish_is_atomic_witness:
  "file_at (fs_live (snd (snd (Publish all_fine [[''v1'', ''a'']] [] [''v1'', ''m''] demo_fs)))) [''v1'', ''a'', ''x''] = Some 11"
proof -
  let ?run = "Publish all_fine [[''v1'', ''a'']] [] [''v1'', ''m''] demo_fs"
  have "\<And>n. oc_undo all_fine n" by (simp add: all_fine_def)
  moreover have "apart ([[''v1'', ''a'']] @ [] @ [[''v1'', ''m'']])" by (simp add: apart_def below_def)
  moreover have "slash_path ManifestPath \<notin> set ([[''v1'', ''a'']] @ [])" by code_simp
  moreover have "?run = (fst ?run, fst (snd ?run), snd (snd ?run))" by simp
  ultimately have "case fst ?run of
      None \<Rightarrow> file_at (fs_live (snd (snd ?run))) = overlay ([[''v1'', ''a'']] @ [] @ [[''v1'', ''m'']]) (fs_stage demo_fs) (fs_live demo_fs)
    | Some (MoveFailed q) \<Rightarrow> length ([[''v1'', ''a'']] @ ([] :: path list)) = 1 \<longrightarrow> file_at (fs_live (snd (snd ?run))) = file_at (fs_live demo_fs)
    | Some x \<Rightarrow> file_at (fs_live (snd (snd ?run))) = file_at (fs_live demo_fs)"
    by (rule publish_is_atomic [OF _ demo_tree_ok])
  moreover have "fst ?run = None" by code_simp
  moreover have "overlay ([[''v1'', ''a'']] @ [] @ [[''v1'', ''m'']]) (fs_stage demo_fs) (fs_live demo_fs) [''v1'', ''a'', ''x''] = Some 11"
    by code_simp
  ultimately show ?thesis by simp
qed

text \<open>The second directory cannot be moved: the first stays published, under the old manifest.\<close>

definition second_move_fails :: outcomes where
  "second_move_fails = \<lparr>oc_io = (\<lambda>n. n \<noteq> 13), oc_undo = (\<lambda>n. True)\<rparr>"

definition mixed_run :: "pub_error option \<times> pub_result \<times> nat fs" where
  "mixed_run = Publish second_move_fails [[''v1'', ''a''], [''v1'', ''b'']] [] [''v1'', ''m''] demo_fs"

theorem failed_move_keeps_earlier_witness:
  "fst mixed_run = Some (MoveFailed [''v1'', ''b'']) \<and> file_at (fs_live (snd (snd mixed_run))) [''v1'', ''a'', ''x''] = Some 11"
proof -
  have e: "fst mixed_run = Some (MoveFailed [''v1'', ''b''])" by code_simp
  then have "Publish second_move_fails [[''v1'', ''a''], [''v1'', ''b'']] [] [''v1'', ''m''] demo_fs =
      (Some (MoveFailed [''v1'', ''b'']), fst (snd mixed_run), snd (snd mixed_run))"
    by (metis mixed_run_def prod.collapse)
  moreover have "\<And>n. oc_undo second_move_fails n" by (simp add: second_move_fails_def)
  moreover have "apart ([[''v1'', ''a''], [''v1'', ''b'']] @ [] @ [[''v1'', ''m'']])" by (simp add: apart_def below_def)
  moreover have "slash_path ManifestPath \<notin> set ([[''v1'', ''a''], [''v1'', ''b'']] @ [])" by code_simp
  ultimately have "file_at (fs_live (snd (snd mixed_run))) = overlay (pu_Replaced (fst (snd mixed_run))) (fs_stage demo_fs) (fs_live demo_fs)"
    using failed_move_keeps_earlier [OF _ demo_tree_ok] by blast
  moreover have "overlay (pu_Replaced (fst (snd mixed_run))) (fs_stage demo_fs) (fs_live demo_fs) [''v1'', ''a'', ''x''] = Some 11"
    by code_simp
  ultimately show ?thesis using e by simp
qed

theorem manifest_is_last_witness:
  "file_at (hd (fs_seen (snd (snd mixed_run)))) [''v1'', ''m''] = Some 2"
proof -
  let ?t = "hd (fs_seen (snd (snd mixed_run)))"
  have e: "fst mixed_run = Some (MoveFailed [''v1'', ''b''])" by code_simp
  then have run: "Publish second_move_fails [[''v1'', ''a''], [''v1'', ''b'']] [] [''v1'', ''m''] demo_fs =
      (Some (MoveFailed [''v1'', ''b'']), fst (snd mixed_run), snd (snd mixed_run))"
    by (metis mixed_run_def prod.collapse)
  have "fs_seen (snd (snd mixed_run)) \<noteq> []" by code_simp
  then have t: "?t \<in> set (fs_seen (snd (snd mixed_run)))" by simp
  have "\<And>n. oc_undo second_move_fails n" by (simp add: second_move_fails_def)
  moreover have "apart ([[''v1'', ''a''], [''v1'', ''b'']] @ [] @ [[''v1'', ''m'']])" by (simp add: apart_def below_def)
  moreover have "slash_path ManifestPath \<notin> set ([[''v1'', ''a''], [''v1'', ''b'']] @ [])" by code_simp
  moreover have "fs_seen demo_fs = []" by (simp add: demo_fs_def)
  ultimately have "file_at ?t [''v1'', ''m''] = file_at (fs_live demo_fs) [''v1'', ''m'']"
    using manifest_is_last [OF _ demo_tree_ok _ _ _ run t] by blast
  moreover have "file_at (fs_live demo_fs) [''v1'', ''m''] = Some 2" by code_simp
  ultimately show ?thesis by simp
qed

text \<open>
  Between the two renames of an entry there is no entry: a reader, or a crash, at that moment finds
  the old manifest and neither version of what it names.
\<close>

lemma replacement_leaves_a_gap:
  "list_ex (\<lambda>t. file_at t [''v1'', ''m''] = Some 2 \<and> file_at t [''v1'', ''a'', ''x''] = None)
     (fs_seen (snd (snd (Publish all_fine [[''v1'', ''a'']] [] [''v1'', ''m''] demo_fs))))"
  by code_simp

end
