(* ===== verification/Agg_Cells.thy ===== *)
theory Agg_Cells
  imports Agg_Model
begin

text \<open>
  The cell policy (\<^verbatim>\<open>internal/aggregate/cells.go\<close>, \<^verbatim>\<open>tier.go\<close>) and the documents made from it
  (\<^verbatim>\<open>artifacts.go\<close>). Rates are exact quotients before they are rounded to four decimals; the
  confidence half width \<^verbatim>\<open>0.98/sqrt(n)\<close> is rounded exactly, by an integer square root. A Go map
  over champions and roles is a function of its keys.
\<close>

section \<open>Arithmetic\<close>

text \<open>\<^verbatim>\<open>math.Round(value*10000) / 10000\<close>, half away from zero.\<close>

definition round_half_away :: "rat \<Rightarrow> int" where
  "round_half_away x = (if 0 \<le> x then \<lfloor>x + 1 / 2\<rfloor> else - \<lfloor>- x + 1 / 2\<rfloor>)"

definition round4 :: "rat \<Rightarrow> rat" where
  "round4 x = of_int (round_half_away (x * 10000)) / 10000"

text \<open>The integer square root, digit by digit.\<close>

fun isqrt :: "int \<Rightarrow> int" where
  "isqrt n =
     (if n \<le> 0 then 0
      else (let r = 2 * isqrt (n div 4) in if (r + 1) * (r + 1) \<le> n then r + 1 else r))"

declare isqrt.simps [simp del]

text \<open>\<^verbatim>\<open>round4(ConfidenceHalfWidthFactor / math.Sqrt(float64(n)))\<close>, in units of 1/10000.\<close>

definition half_width_units :: "int \<Rightarrow> int" where
  "half_width_units n = (isqrt (384160000 div n) + 1) div 2"

definition half_width :: "int \<Rightarrow> rat" where
  "half_width n = of_int (half_width_units n) / 10000"

section \<open>Grades\<close>

definition tierBands :: "(Tier \<times> rat option) list" where
  "tierBands = [(''S+'', Some 2), (''S'', Some (12 / 10)), (''A'', Some (6 / 10)), (''B'', Some (- (6 / 10))),
     (''C'', Some (- (15 / 10))), (''D'', None)]"

text \<open>The lower bound of the last band is minus infinity.\<close>

fun first_band :: "(Tier \<times> rat option) list \<Rightarrow> rat \<Rightarrow> Tier" where
  "first_band [] diff = ''D''"
| "first_band ((t, None) # bands) diff = t"
| "first_band ((t, Some b) # bands) diff = (if b \<le> diff then t else first_band bands diff)"

definition tierForRate :: "rat \<Rightarrow> rat \<Rightarrow> Tier" where
  "tierForRate baseline rate = first_band tierBands ((rate - baseline) * 100)"

section \<open>Tallies\<close>

record CellCount =
  cc_ChampionID :: int
  cc_Role :: string
  cc_N :: int
  cc_Wins :: int

record BuildCount =
  bc_ChampionID :: int
  bc_Role :: string
  bc_Key :: "int list"
  bc_N :: int
  bc_Wins :: int

record BanCount =
  ban_ChampionID :: int
  ban_Bans :: int

record MatchupCount =
  muc_Role :: string
  muc_ChampionID :: int
  muc_OpponentID :: int
  muc_N :: int
  muc_Wins :: int

record CellInput =
  ci_Counts :: "CellCount list"
  ci_Bans :: "BanCount list"
  ci_Matches :: int
  ci_MinCellN :: int

record CellOutput =
  co_Cells :: "Cell list"
  co_ChampionsAscending :: "int list"
  co_Total :: int
  co_Suppressed :: int
  co_SumN :: int
  co_SumNPublished :: int
  co_BaselineWinRate :: rat

datatype cells_error = BadMinCellN | BadMatches | BadTally CellCount | BadWins CellCount | NoRows | BadRole CellCount

section \<open>Cells\<close>

definition bans_of :: "BanCount list \<Rightarrow> int \<Rightarrow> int" where
  "bans_of bans champion = sum_list (map ban_Bans (filter (\<lambda>b. ban_ChampionID b = champion) bans))"

text \<open>The first loop: the totals, or the first tally that cannot form a cell.\<close>

fun totals :: "CellCount list \<Rightarrow> int \<Rightarrow> int \<Rightarrow> cells_error + int \<times> int" where
  "totals [] wins n = Inr (wins, n)"
| "totals (c # cs) wins n =
     (if cc_N c \<le> 0 then Inl (BadTally c)
      else if cc_Wins c < 0 \<or> cc_N c < cc_Wins c then Inl (BadWins c)
      else totals cs (wins + cc_Wins c) (n + cc_N c))"

definition cell_of :: "CellInput \<Rightarrow> rat \<Rightarrow> CellCount \<Rightarrow> Role \<Rightarrow> Cell" where
  "cell_of inp baseline c role =
     (let rawRate = of_int (cc_Wins c) / of_int (cc_N c)
      in \<lparr>ce_ChampionID = cc_ChampionID c, ce_Role = role, ce_N = cc_N c, ce_Wins = cc_Wins c,
          ce_WinRate = round4 rawRate,
          ce_PickRate = round4 (of_int (cc_N c) / of_int (2 * ci_Matches inp)),
          ce_BanRate = round4 (of_int (bans_of (ci_Bans inp) (cc_ChampionID c)) / of_int (ci_Matches inp)),
          ce_Tier = tierForRate baseline rawRate, ce_CI95HalfWidth = half_width (cc_N c)\<rparr>)"

text \<open>The second loop: the cells, the published rows and the number suppressed.\<close>

fun publish_cells :: "CellInput \<Rightarrow> rat \<Rightarrow> CellCount list \<Rightarrow> Cell list \<Rightarrow> int \<Rightarrow> int
    \<Rightarrow> cells_error + Cell list \<times> int \<times> int" where
  "publish_cells inp baseline [] cells rows suppressed = Inr (cells, rows, suppressed)"
| "publish_cells inp baseline (c # cs) cells rows suppressed =
     (case RoleFromRiotPosition (cc_Role c) of
        None \<Rightarrow> Inl (BadRole c)
      | Some role \<Rightarrow>
          if cc_N c < ci_MinCellN inp then publish_cells inp baseline cs cells rows (suppressed + 1)
          else publish_cells inp baseline cs (cells @ [cell_of inp baseline c role]) (rows + cc_N c) suppressed)"

definition role_rank :: "Role list \<Rightarrow> Role \<Rightarrow> nat" where
  "role_rank roles r = length (takeWhile (\<lambda>x. x \<noteq> r) roles)"

text \<open>A stable sort whose comparison is the lexicographic order of this key.\<close>

definition cell_key :: "Cell \<Rightarrow> nat \<times> rat \<times> int" where
  "cell_key c = (role_rank Roles (ce_Role c), - ce_WinRate c, ce_ChampionID c)"

definition sortCells :: "Cell list \<Rightarrow> Cell list" where
  "sortCells cells = sort_key cell_key cells"

definition sortedKeys :: "int list \<Rightarrow> int list" where
  "sortedKeys ids = sort (remdups ids)"

definition ComputeCells :: "CellInput \<Rightarrow> cells_error + CellOutput" where
  "ComputeCells inp =
     (if ci_MinCellN inp < 1 then Inl BadMinCellN
      else if ci_Matches inp \<le> 0 then Inl BadMatches
      else (case totals (ci_Counts inp) 0 0 of
              Inl e \<Rightarrow> Inl e
            | Inr (wins, n) \<Rightarrow>
                if n = 0 then Inl NoRows
                else (let baseline = of_int wins / of_int n
                      in case publish_cells inp baseline (ci_Counts inp) [] 0 0 of
                           Inl e \<Rightarrow> Inl e
                         | Inr (cells, rows, suppressed) \<Rightarrow>
                             Inr \<lparr>co_Cells = sortCells cells,
                                  co_ChampionsAscending = sortedKeys (map cc_ChampionID (ci_Counts inp)),
                                  co_Total = int (length (ci_Counts inp)), co_Suppressed = suppressed, co_SumN = n,
                                  co_SumNPublished = rows, co_BaselineWinRate = baseline\<rparr>)))"

section \<open>Matchups and builds\<close>

definition matchup_cell :: "MatchupCount \<Rightarrow> MatchupCell" where
  "matchup_cell c =
     \<lparr>mc_ChampionID = muc_ChampionID c, mc_OpponentID = muc_OpponentID c, mc_N = muc_N c, mc_Wins = muc_Wins c,
      mc_WinRate = round4 (of_int (muc_Wins c) / of_int (muc_N c)), mc_CI95HalfWidth = half_width (muc_N c)\<rparr>"

definition computeMatchupCells :: "MatchupCount list \<Rightarrow> Role \<Rightarrow> MatchupCell list" where
  "computeMatchupCells counts role =
     sort_key (\<lambda>c. (mc_ChampionID c, mc_OpponentID c))
       (map matchup_cell (filter (\<lambda>c. 0 < muc_N c \<and> RoleFromRiotPosition (muc_Role c) = Some role) counts))"

definition MaxBuildsPerRole :: nat where
  "MaxBuildsPerRole = 10"

fun buildLabel :: "int list \<Rightarrow> string" where
  "buildLabel [] = []"
| "buildLabel [v] = show_int v"
| "buildLabel (v # vs) = show_int v @ ''-'' @ buildLabel vs"

fun compareIntSlices :: "int list \<Rightarrow> int list \<Rightarrow> int" where
  "compareIntSlices [] [] = 0"
| "compareIntSlices [] (b # bs) = -1"
| "compareIntSlices (a # as) [] = 1"
| "compareIntSlices (a # as) (b # bs) = (if a < b then -1 else if b < a then 1 else compareIntSlices as bs)"

definition build_of :: "string \<Rightarrow> BuildCount \<Rightarrow> Build" where
  "build_of kind c =
     \<lparr>bu_Kind = kind, bu_Key = bc_Key c, bu_Label = buildLabel (bc_Key c), bu_N = bc_N c, bu_Wins = bc_Wins c,
      bu_WinRate = round4 (of_int (bc_Wins c) / of_int (bc_N c))\<rparr>"

text \<open>The comparison of the stable sort, more games first; \<open>compareIntSlices\<close> is the lexicographic order of keys.\<close>

definition computeBuilds :: "string \<Rightarrow> BuildCount list \<Rightarrow> int \<Rightarrow> Role \<Rightarrow> Build list" where
  "computeBuilds kind counts champion role =
     take MaxBuildsPerRole
       (sort_key (\<lambda>b. (- bu_N b, bu_Key b))
          (map (build_of kind)
             (filter (\<lambda>c. 0 < bc_N c \<and> RoleFromRiotPosition (bc_Role c) = Some role \<and> bc_ChampionID c = champion) counts)))"

lemma compareIntSlices_less: "compareIntSlices a b < 0 \<longleftrightarrow> a < b"
  by (induction a b rule: compareIntSlices.induct) auto

section \<open>Documents\<close>

record artifactInput =
  ai_Envelope :: Envelope
  ai_Cells :: CellOutput
  ai_Items :: "int \<Rightarrow> Role \<Rightarrow> Build list"
  ai_Runes :: "int \<Rightarrow> Role \<Rightarrow> Build list"
  ai_Spells :: "int \<Rightarrow> Role \<Rightarrow> Build list"
  ai_Matchups :: "Role \<Rightarrow> MatchupCell list"
  ai_ChampionSlugs :: "int \<Rightarrow> string"

definition buildTierList :: "artifactInput \<Rightarrow> TierList" where
  "buildTierList inp = \<lparr>tl_Envelope = ai_Envelope inp, tl_Cells = co_Cells (ai_Cells inp)\<rparr>"

definition cellForRole :: "Cell list \<Rightarrow> Role \<Rightarrow> Cell option" where
  "cellForRole cells role = find (\<lambda>c. ce_Role c = role) cells"

definition champion_roles :: "artifactInput \<Rightarrow> int \<Rightarrow> ChampionRole list" where
  "champion_roles inp champion =
     (let published = filter (\<lambda>c. ce_ChampionID c = champion) (co_Cells (ai_Cells inp))
      in concat (map (\<lambda>role. case cellForRole published role of
                                None \<Rightarrow> []
                              | Some c \<Rightarrow> [\<lparr>cr_Role = role, cr_Stats = c, cr_Items = ai_Items inp champion role,
                                           cr_Runes = ai_Runes inp champion role, cr_Spells = ai_Spells inp champion role\<rparr>])
                     Roles))"

definition buildChampion :: "artifactInput \<Rightarrow> int \<Rightarrow> Champion" where
  "buildChampion inp champion =
     \<lparr>ch_Envelope = ai_Envelope inp, ch_ChampionID = champion, ch_ChampionSlug = ai_ChampionSlugs inp champion,
      ch_Roles = champion_roles inp champion\<rparr>"

definition buildChampions :: "artifactInput \<Rightarrow> (int \<times> Champion) list" where
  "buildChampions inp = map (\<lambda>id. (id, buildChampion inp id)) (co_ChampionsAscending (ai_Cells inp))"

definition buildMatchups :: "artifactInput \<Rightarrow> Role \<Rightarrow> int \<Rightarrow> Matchups" where
  "buildMatchups inp role minCellN =
     (let pairs = filter (\<lambda>c. mc_ChampionID c \<noteq> 0 \<and> mc_OpponentID c \<noteq> 0) (ai_Matchups inp role)
      in \<lparr>mu_Envelope = ai_Envelope inp, mu_Role = role,
          mu_Champions = sortedKeys (concat (map (\<lambda>c. [mc_ChampionID c, mc_OpponentID c]) pairs)),
          mu_Cells = filter (\<lambda>c. minCellN \<le> mc_N c) pairs\<rparr>)"

end
