(* ===== verification/Cells_Props.thy ===== *)
theory Cells_Props
  imports Agg_Cells
begin

text \<open>
  The cell policy: the rounding of rates and of the confidence half width, the monotonicity of the
  grades, and what \<^verbatim>\<open>ComputeCells\<close> guarantees of every cell it publishes.
\<close>

section \<open>Rounding\<close>

lemma round_half_away_nonneg: "0 \<le> x \<Longrightarrow> round_half_away x = \<lfloor>x + 1 / 2\<rfloor>"
  by (simp add: round_half_away_def)

lemma round4_nonneg: "0 \<le> x \<Longrightarrow> 0 \<le> round4 x"
  by (simp add: round4_def round_half_away_nonneg)

lemma round4_mono: "0 \<le> x \<Longrightarrow> x \<le> y \<Longrightarrow> round4 x \<le> round4 y"
  by (simp add: round4_def round_half_away_nonneg floor_mono divide_right_mono)

lemma round4_1: "round4 1 = 1"
  by (simp add: round4_def round_half_away_def floor_eq_iff)

lemma round4_le_1: "0 \<le> x \<Longrightarrow> x \<le> 1 \<Longrightarrow> round4 x \<le> 1"
  using round4_mono [of x 1] by (simp add: round4_1)

lemma round4_close: "\<bar>round4 x - x\<bar> \<le> 1 / 20000"
proof -
  have near: "\<bar>of_int \<lfloor>y + 1 / 2\<rfloor> - y\<bar> \<le> 1 / 2" for y :: rat by linarith
  have "\<bar>of_int (round_half_away (x * 10000)) - x * 10000\<bar> \<le> 1 / 2"
    using near [of "x * 10000"] near [of "- (x * 10000)"]
    by (cases "0 \<le> x") (simp_all add: round_half_away_def abs_minus_commute add.commute)
  then have "\<bar>of_int (round_half_away (x * 10000)) / 10000 - x\<bar> \<le> 1 / 20000" by linarith
  then show ?thesis by (simp add: round4_def)
qed

lemma rate_bounds: "0 \<le> wins \<Longrightarrow> wins \<le> n \<Longrightarrow> 0 < n \<Longrightarrow> 0 \<le> (of_int wins / of_int n :: rat) \<and> (of_int wins / of_int n :: rat) \<le> 1"
  by simp

section \<open>The confidence half width\<close>

lemma isqrt_spec: "0 \<le> n \<Longrightarrow> 0 \<le> isqrt n \<and> isqrt n * isqrt n \<le> n \<and> n < (isqrt n + 1) * (isqrt n + 1)"
proof (induction n rule: isqrt.induct)
  case (1 n)
  show ?case
  proof (cases "n \<le> 0")
    case True
    then show ?thesis using "1.prems" by (simp add: isqrt.simps)
  next
    case False
    let ?q = "isqrt (n div 4)"
    have ih: "0 \<le> ?q" "?q * ?q \<le> n div 4" "n div 4 < (?q + 1) * (?q + 1)" using 1 False by auto
    have "4 * (?q * ?q) \<le> n" "n < 4 * ((?q + 1) * (?q + 1))" using ih(2,3) by linarith+
    moreover have "isqrt n = (if (2 * ?q + 1) * (2 * ?q + 1) \<le> n then 2 * ?q + 1 else 2 * ?q)"
      using False by (simp add: isqrt.simps [of n] Let_def)
    ultimately show ?thesis using ih(1) by (auto simp: algebra_simps)
  qed
qed

text \<open>
  The published half width is 0.98 over the square root of the sample size, to within half a
  unit of its fourth decimal: the exact integer rounding of the model and the contract's formula agree.
\<close>

theorem half_width_is_the_formula:
  assumes "0 < n"
  shows "\<bar>real_of_rat (half_width n) - 98 / 100 / sqrt (real_of_int n)\<bar> \<le> 1 / 20000"
proof -
  let ?N = "384160000 :: int"
  let ?k = "isqrt (?N div n)"
  let ?m = "half_width_units n"
  let ?s = "sqrt (real_of_int n)"
  have spec: "0 \<le> ?k" "?k * ?k \<le> ?N div n" "?N div n < (?k + 1) * (?k + 1)"
    using isqrt_spec [of "?N div n"] assms by (simp_all add: pos_imp_zdiv_nonneg_iff)
  have s: "0 < ?s" "?s * ?s = real_of_int n" using assms by simp_all
  have sq: "(a * ?s) * (a * ?s) = a * a * real_of_int n" for a
  proof -
    have "(a * ?s) * (a * ?s) = a * a * (?s * ?s)" by (simp only: mult.assoc mult.left_commute)
    then show ?thesis by (simp only: s(2))
  qed
  have dm: "?N div n * n + ?N mod n = ?N" "0 \<le> ?N mod n" "?N mod n < n" using assms by simp_all
  have "?k * ?k * n \<le> ?N div n * n" using spec(2) assms by (intro mult_right_mono) simp_all
  then have "?k * ?k * n \<le> ?N" using dm by linarith
  then have "real_of_int (?k * ?k * n) \<le> real_of_int ?N" by (simp only: of_int_le_iff)
  then have "(real_of_int ?k * ?s) * (real_of_int ?k * ?s) \<le> 19600 * 19600"
    unfolding sq by simp
  then have "(real_of_int ?k * ?s)\<^sup>2 \<le> 19600\<^sup>2" unfolding power2_eq_square .
  then have low: "real_of_int ?k * ?s \<le> 19600" by (rule power2_le_imp_le) simp
  have "?N < (?k + 1) * (?k + 1) * n"
  proof -
    have "(?N div n + 1) * n = ?N div n * n + n" by (simp only: distrib_right mult_1)
    then have "?N < (?N div n + 1) * n" using dm by linarith
    also have "\<dots> \<le> (?k + 1) * (?k + 1) * n" using spec(3) assms by (intro mult_right_mono) simp_all
    finally show ?thesis .
  qed
  then have "real_of_int ?N < real_of_int ((?k + 1) * (?k + 1) * n)" by (simp only: of_int_less_iff)
  then have "19600 * 19600 < (real_of_int (?k + 1) * ?s) * (real_of_int (?k + 1) * ?s)"
    unfolding sq by simp
  then have "19600\<^sup>2 < (real_of_int (?k + 1) * ?s)\<^sup>2" unfolding power2_eq_square .
  moreover have "0 \<le> real_of_int (?k + 1) * ?s" using spec(1) s(1) by simp
  ultimately have high: "19600 < real_of_int (?k + 1) * ?s" by (rule power2_less_imp_less)
  have m: "2 * ?m - 1 \<le> ?k" "?k + 1 \<le> 2 * ?m + 1" by (simp_all add: half_width_units_def)
  have "real_of_int (2 * ?m - 1) * ?s \<le> 19600" "19600 < real_of_int (2 * ?m + 1) * ?s"
    using m s(1) low high by (smt (verit) mult_right_mono of_int_le_iff)+
  then have "(real_of_int ?m - 1 / 2) * ?s \<le> 9800" "9800 < (real_of_int ?m + 1 / 2) * ?s" by (simp_all add: algebra_simps)
  then have "real_of_int ?m - 1 / 2 \<le> 9800 / ?s" "9800 / ?s < real_of_int ?m + 1 / 2"
    using s(1) by (simp_all add: pos_le_divide_eq pos_divide_less_eq)
  moreover have "real_of_rat (half_width n) = real_of_int ?m / 10000" by (simp add: half_width_def of_rat_divide)
  moreover have "98 / 100 / ?s = 9800 / ?s / 10000" by simp
  ultimately show ?thesis by linarith
qed

theorem half_width_is_the_formula_witness:
  "\<bar>real_of_rat (half_width 100) - 98 / 100 / sqrt 100\<bar> \<le> 1 / 20000"
  using half_width_is_the_formula [of 100] by simp

section \<open>Grades\<close>

definition grade_index :: "Tier \<Rightarrow> nat" where
  "grade_index t = length (takeWhile (\<lambda>x. x \<noteq> t) Tiers)"

lemma tierForRate_bands:
  "tierForRate baseline rate =
     (let d = (rate - baseline) * 100
      in if 2 \<le> d then ''S+'' else if 12 / 10 \<le> d then ''S'' else if 6 / 10 \<le> d then ''A''
         else if - (6 / 10) \<le> d then ''B'' else if - (15 / 10) \<le> d then ''C'' else ''D'')"
  by (simp add: tierForRate_def tierBands_def Let_def)

lemma grade_indices:
  "grade_index ''S+'' = 0" "grade_index ''S'' = 1" "grade_index ''A'' = 2" "grade_index ''B'' = 3"
  "grade_index ''C'' = 4" "grade_index ''D'' = 5"
  by (simp_all add: grade_index_def Tiers_def)

lemma tierForRate_valid: "tier_valid (tierForRate baseline rate)"
  by (simp add: tierForRate_bands tier_valid_def Tiers_def Let_def)

lemma tierForRate_mono: "a \<le> b \<Longrightarrow> grade_index (tierForRate baseline b) \<le> grade_index (tierForRate baseline a)"
  by (simp add: tierForRate_bands grade_indices Let_def)

section \<open>Cells\<close>

definition tally_ok :: "CellCount \<Rightarrow> bool" where
  "tally_ok c = (0 < cc_N c \<and> 0 \<le> cc_Wins c \<and> cc_Wins c \<le> cc_N c)"

lemma totals_result:
  "totals cs w n = Inr (w', n') \<longleftrightarrow>
     list_all tally_ok cs \<and> w' = w + sum_list (map cc_Wins cs) \<and> n' = n + sum_list (map cc_N cs)"
  by (induction cs arbitrary: w n) (auto simp: tally_ok_def)

lemma publish_cells_result:
  "publish_cells inp b cs cells rows supp = Inr (cells', rows', supp') \<Longrightarrow>
     (\<forall>c \<in> set cs. RoleFromRiotPosition (cc_Role c) \<noteq> None)
     \<and> cells' = cells @ map (\<lambda>c. cell_of inp b c (the (RoleFromRiotPosition (cc_Role c)))) (filter (\<lambda>c. ci_MinCellN inp \<le> cc_N c) cs)
     \<and> rows' = rows + sum_list (map cc_N (filter (\<lambda>c. ci_MinCellN inp \<le> cc_N c) cs))
     \<and> supp' = supp + int (length (filter (\<lambda>c. cc_N c < ci_MinCellN inp) cs))"
proof (induction cs arbitrary: cells rows supp)
  case (Cons c cs)
  obtain role where role: "RoleFromRiotPosition (cc_Role c) = Some role" using Cons.prems by (auto split: option.splits)
  show ?case
  proof (cases "cc_N c < ci_MinCellN inp")
    case True
    then have "publish_cells inp b cs cells rows (supp + 1) = Inr (cells', rows', supp')" using Cons.prems role by simp
    from Cons.IH [OF this] show ?thesis using True role by simp
  next
    case False
    then have "publish_cells inp b cs (cells @ [cell_of inp b c role]) (rows + cc_N c) supp = Inr (cells', rows', supp')"
      using Cons.prems role by simp
    from Cons.IH [OF this] show ?thesis using False role by simp
  qed
qed simp

lemma sum_tallies_pos: "list_all tally_ok cs \<Longrightarrow> 0 \<le> sum_list (map cc_N cs) \<and> (sum_list (map cc_N cs) = 0 \<longrightarrow> cs = [])"
  by (induction cs) (auto simp: tally_ok_def)

lemma ComputeCells_result:
  assumes "ComputeCells inp = Inr out"
  shows "1 \<le> ci_MinCellN inp" and "0 < ci_Matches inp" and "ci_Counts inp \<noteq> []" and "list_all tally_ok (ci_Counts inp)"
    and "\<forall>c \<in> set (ci_Counts inp). RoleFromRiotPosition (cc_Role c) \<noteq> None"
    and "co_Cells out = sortCells (map (\<lambda>c. cell_of inp (co_BaselineWinRate out) c (the (RoleFromRiotPosition (cc_Role c))))
      (filter (\<lambda>c. ci_MinCellN inp \<le> cc_N c) (ci_Counts inp)))"
    and "co_Total out = int (length (ci_Counts inp))"
    and "co_Suppressed out = int (length (filter (\<lambda>c. cc_N c < ci_MinCellN inp) (ci_Counts inp)))"
    and "co_SumN out = sum_list (map cc_N (ci_Counts inp))"
    and "co_SumNPublished out = sum_list (map cc_N (filter (\<lambda>c. ci_MinCellN inp \<le> cc_N c) (ci_Counts inp)))"
    and "co_ChampionsAscending out = sortedKeys (map cc_ChampionID (ci_Counts inp))"
    and "co_BaselineWinRate out = of_int (sum_list (map cc_Wins (ci_Counts inp))) / of_int (sum_list (map cc_N (ci_Counts inp)))"
proof -
  obtain wins n where min: "\<not> ci_MinCellN inp < 1" "\<not> ci_Matches inp \<le> 0" and tot: "totals (ci_Counts inp) 0 0 = Inr (wins, n)" "n \<noteq> 0"
    using assms by (auto simp: ComputeCells_def split: if_splits sum.splits prod.splits)
  obtain cells rows supp where pub: "publish_cells inp (of_int wins / of_int n) (ci_Counts inp) [] 0 0 = Inr (cells, rows, supp)"
    using assms min tot by (auto simp: ComputeCells_def Let_def split: sum.splits prod.splits)
  have out: "out = \<lparr>co_Cells = sortCells cells, co_ChampionsAscending = sortedKeys (map cc_ChampionID (ci_Counts inp)),
      co_Total = int (length (ci_Counts inp)), co_Suppressed = supp, co_SumN = n, co_SumNPublished = rows,
      co_BaselineWinRate = of_int wins / of_int n\<rparr>"
    using assms min tot pub by (simp add: ComputeCells_def Let_def)
  have t: "list_all tally_ok (ci_Counts inp)" "wins = sum_list (map cc_Wins (ci_Counts inp))" "n = sum_list (map cc_N (ci_Counts inp))"
    using tot(1) by (simp_all add: totals_result)
  note p = publish_cells_result [OF pub]
  show "1 \<le> ci_MinCellN inp" "0 < ci_Matches inp" using min by simp_all
  show "ci_Counts inp \<noteq> []" using tot(2) t(3) by auto
  show "list_all tally_ok (ci_Counts inp)" by (rule t(1))
  show "\<forall>c \<in> set (ci_Counts inp). RoleFromRiotPosition (cc_Role c) \<noteq> None" using p by simp
  show "co_Cells out = sortCells (map (\<lambda>c. cell_of inp (co_BaselineWinRate out) c (the (RoleFromRiotPosition (cc_Role c))))
      (filter (\<lambda>c. ci_MinCellN inp \<le> cc_N c) (ci_Counts inp)))" using p by (simp add: out)
  show "co_Total out = int (length (ci_Counts inp))" "co_SumN out = sum_list (map cc_N (ci_Counts inp))"
    "co_ChampionsAscending out = sortedKeys (map cc_ChampionID (ci_Counts inp))" by (simp_all add: out t(3))
  show "co_Suppressed out = int (length (filter (\<lambda>c. cc_N c < ci_MinCellN inp) (ci_Counts inp)))"
    "co_SumNPublished out = sum_list (map cc_N (filter (\<lambda>c. ci_MinCellN inp \<le> cc_N c) (ci_Counts inp)))" using p by (simp_all add: out)
  show "co_BaselineWinRate out = of_int (sum_list (map cc_Wins (ci_Counts inp))) / of_int (sum_list (map cc_N (ci_Counts inp)))"
    by (simp add: out t)
qed

lemma role_of_position: "RoleFromRiotPosition p = Some r \<Longrightarrow> role_valid r \<and> r \<in> set Roles"
  by (auto simp: RoleFromRiotPosition_def role_valid_def role_defs split: if_splits)

lemma half_width_units_bounds: "0 < n \<Longrightarrow> 0 \<le> half_width_units n \<and> half_width_units n \<le> 9800"
proof -
  assume n: "0 < n"
  let ?k = "isqrt (384160000 div n)"
  have k: "0 \<le> ?k" "?k * ?k \<le> 384160000 div n"
    using isqrt_spec [of "384160000 div n"] n by (simp_all add: pos_imp_zdiv_nonneg_iff)
  have "384160000 div n \<le> 384160000 div 1" using n by (intro zdiv_mono2) simp_all
  then have "?k * ?k \<le> 19600 * 19600" using k(2) by simp
  then have "?k\<^sup>2 \<le> 19600\<^sup>2" unfolding power2_eq_square .
  then have "?k \<le> 19600" by (rule power2_le_imp_le) simp
  then show ?thesis using k(1) by (simp add: half_width_units_def)
qed

lemma half_width_bounds: "0 < n \<Longrightarrow> 0 \<le> half_width n \<and> half_width n \<le> 98 / 100"
proof -
  assume "0 < n"
  from half_width_units_bounds [OF this] have "0 \<le> half_width_units n" "half_width_units n \<le> 9800" by simp_all
  then have "(0 :: rat) \<le> of_int (half_width_units n)" "of_int (half_width_units n) \<le> (of_int 9800 :: rat)"
    by (simp_all only: of_int_0_le_iff of_int_le_iff)
  then show ?thesis by (simp add: half_width_def)
qed

lemma set_sortCells [simp]: "set (sortCells cells) = set cells"
  by (simp add: sortCells_def)

lemma length_sortCells [simp]: "length (sortCells cells) = length cells"
  by (simp add: sortCells_def)

lemma published_cell:
  assumes "ComputeCells inp = Inr out" and "c \<in> set (co_Cells out)"
  obtains t role where "t \<in> set (ci_Counts inp)" and "ci_MinCellN inp \<le> cc_N t" and "tally_ok t"
    and "RoleFromRiotPosition (cc_Role t) = Some role" and "c = cell_of inp (co_BaselineWinRate out) t role"
proof -
  note r = ComputeCells_result [OF assms(1)]
  from assms(2) obtain t where t: "t \<in> set (ci_Counts inp)" "ci_MinCellN inp \<le> cc_N t"
    and c: "c = cell_of inp (co_BaselineWinRate out) t (the (RoleFromRiotPosition (cc_Role t)))"
    by (auto simp: r(6))
  moreover from r(5) t(1) obtain role where "RoleFromRiotPosition (cc_Role t) = Some role" by blast
  moreover have "tally_ok t" using r(4) t(1) by (simp add: list_all_iff)
  ultimately show thesis using that by simp
qed

lemma unit_quotient: "0 \<le> a \<Longrightarrow> a \<le> b \<Longrightarrow> 0 < b \<Longrightarrow>
  0 \<le> round4 (of_int a / of_int b) \<and> round4 (of_int a / of_int b) \<le> 1"
  using rate_bounds [of a b] round4_nonneg round4_le_1 by blast

lemma filtered_sum: "[f x. x \<leftarrow> xs, P x] = map f (filter P xs)"
  by (induction xs) simp_all

text \<open>A published rate is a whole number of ten-thousandths, the one nearest to the quotient.\<close>

definition rounds_to :: "rat \<Rightarrow> rat \<Rightarrow> bool" where
  "rounds_to x published = ((\<exists>k :: int. published = of_int k / 10000) \<and> \<bar>published - x\<bar> \<le> 1 / 20000)"

lemma round4_rounds: "rounds_to x (round4 x)"
  unfolding rounds_to_def using round4_close [of x] by (auto simp: round4_def)

lemma half_width_in_units: "\<exists>k :: int. half_width n = of_int k / 10000"
  unfolding half_width_def by blast


text \<open>
  C31: nothing is lost in the computation: every tally is published or counted as suppressed, the
  sample sizes of both kinds add up to the rows of the window, the published cells are sorted by
  role, descending rate and champion, and the champion list holds every champion of the window once,
  ascending, also those without a published cell.
\<close>

theorem cells_are_accounted:
  assumes "ComputeCells inp = Inr out"
  shows "int (length (co_Cells out)) + co_Suppressed out = co_Total out
    \<and> co_SumNPublished out + sum_list (map cc_N (filter (\<lambda>c. cc_N c < ci_MinCellN inp) (ci_Counts inp))) = co_SumN out
    \<and> co_SumN out = sum_list (map cc_N (ci_Counts inp))
    \<and> sorted (map cell_key (co_Cells out))
    \<and> sorted (co_ChampionsAscending out) \<and> distinct (co_ChampionsAscending out)
    \<and> set (co_ChampionsAscending out) = cc_ChampionID ` set (ci_Counts inp)"
proof -
  note r = ComputeCells_result [OF assms]
  have len: "length (filter (\<lambda>c. m \<le> cc_N c) cs) + length (filter (\<lambda>c. cc_N c < m) cs) = length cs" for m cs
    by (induction cs) auto
  have sums: "sum_list (map cc_N (filter (\<lambda>c. m \<le> cc_N c) cs)) + sum_list (map cc_N (filter (\<lambda>c. cc_N c < m) cs)) =
      sum_list (map cc_N cs)" for m cs
    by (induction cs) auto
  have "int (length (co_Cells out)) + co_Suppressed out = co_Total out"
    using len [of "ci_MinCellN inp" "ci_Counts inp"] by (simp add: r(6-8))
  moreover have "sorted (map cell_key (co_Cells out))" by (simp add: r(6) sortCells_def)
  ultimately show ?thesis
    using sums [of "ci_MinCellN inp" "ci_Counts inp"] by (simp add: r(9-11) sortedKeys_def)
qed

definition demo_cells :: CellInput where
  "demo_cells = \<lparr>ci_Counts = [\<lparr>cc_ChampionID = 7, cc_Role = ''MIDDLE'', cc_N = 200, cc_Wins = 110\<rparr>,
       \<lparr>cc_ChampionID = 3, cc_Role = ''TOP'', cc_N = 150, cc_Wins = 70\<rparr>, \<lparr>cc_ChampionID = 9, cc_Role = ''TOP'', cc_N = 5, cc_Wins = 5\<rparr>],
     ci_Bans = [], ci_Matches = 400, ci_MinCellN = 100\<rparr>"

definition demo_output :: CellOutput where
  "demo_output = (case ComputeCells demo_cells of Inr out \<Rightarrow> out | Inl e \<Rightarrow>
     \<lparr>co_Cells = [], co_ChampionsAscending = [], co_Total = 0, co_Suppressed = 0, co_SumN = 0, co_SumNPublished = 0, co_BaselineWinRate = 0\<rparr>)"

lemma demo_cells_computed: "ComputeCells demo_cells = Inr demo_output"
proof -
  have "(case ComputeCells demo_cells of Inr out \<Rightarrow> True | Inl e \<Rightarrow> False)" by code_simp
  then show ?thesis by (simp add: demo_output_def split: sum.splits)
qed


theorem cells_are_accounted_witness: "int (length (co_Cells demo_output)) + 1 = 3"
proof -
  have "int (length (co_Cells demo_output)) + co_Suppressed demo_output = co_Total demo_output"
    using cells_are_accounted [OF demo_cells_computed] by simp
  moreover have "co_Suppressed demo_output = 1" by code_simp
  moreover have "co_Total demo_output = 3" by code_simp
  ultimately show ?thesis by simp
qed

end
