(* ===== verification/Agg_Manifest.thy ===== *)
theory Agg_Manifest
  imports Agg_Publish Agg_Cells
begin

text \<open>
  The manifest (\<^verbatim>\<open>internal/aggregate/manifest.go\<close>): reading the published tree back into partitions and
  merging a build into them. The files of the tree hold documents; what does not decode as the
  document expected is \<open>Damaged\<close>. \<open>rd\<close> says which paths the system lets the process read, \<open>ord\<close> in
  which order the runtime ranges over a map.
\<close>

section \<open>Documents on disk\<close>

datatype doc =
    DocManifest Manifest | DocTierList TierList | DocChampion Champion | DocMatchups Matchups
  | DocSlugs "(int \<times> string) list" | Damaged

type_synonym docs = "doc tree"

datatype 'a reading = NoFile | Unreadable | Readable 'a

definition read_file :: "(path \<Rightarrow> bool) \<Rightarrow> docs \<Rightarrow> path \<Rightarrow> doc reading" where
  "read_file rd t p =
     (case map_of t p of
        None \<Rightarrow> NoFile
      | Some NDir \<Rightarrow> Unreadable
      | Some (NFile d) \<Rightarrow> if rd p then Readable d else Unreadable)"

definition read_tierlist :: "(path \<Rightarrow> bool) \<Rightarrow> docs \<Rightarrow> path \<Rightarrow> TierList reading" where
  "read_tierlist rd t p =
     (case read_file rd t p of NoFile \<Rightarrow> NoFile | Readable (DocTierList d) \<Rightarrow> Readable d | x \<Rightarrow> Unreadable)"

definition readManifestFile :: "(path \<Rightarrow> bool) \<Rightarrow> docs \<Rightarrow> path \<Rightarrow> Manifest reading" where
  "readManifestFile rd t p =
     (case read_file rd t p of
        NoFile \<Rightarrow> NoFile
      | Readable (DocManifest m) \<Rightarrow> if ma_Schema m = SchemaVersion then Readable m else Unreadable
      | x \<Rightarrow> Unreadable)"

text \<open>\<^verbatim>\<open>os.ReadDir\<close>: the entries below a directory, \<open>None\<close> when it is absent.\<close>

definition entries :: "docs \<Rightarrow> path \<Rightarrow> (string \<times> bool) list" where
  "entries t p = map (\<lambda>(q, n). (last q, n = NDir)) (filter (\<lambda>(q, n). q \<noteq> [] \<and> butlast q = p) t)"

definition readDirNames :: "(path \<Rightarrow> bool) \<Rightarrow> docs \<Rightarrow> path \<Rightarrow> string list option" where
  "readDirNames rd t p =
     (case map_of t p of
        None \<Rightarrow> Some []
      | Some (NFile d) \<Rightarrow> None
      | Some NDir \<Rightarrow> if rd p then Some (sort (map fst (filter snd (entries t p)))) else None)"

definition trim_suffix :: "string \<Rightarrow> string \<Rightarrow> string option" where
  "trim_suffix suf s =
     (if length suf \<le> length s \<and> drop (length s - length suf) s = suf then Some (take (length s - length suf) s) else None)"

definition json_names :: "docs \<Rightarrow> path \<Rightarrow> string list" where
  "json_names t p = List.map_filter (trim_suffix ''.json'') (map fst (filter (\<lambda>(n, d). \<not> d) (entries t p)))"

definition list_files :: "(path \<Rightarrow> bool) \<Rightarrow> docs \<Rightarrow> path \<Rightarrow> string list option" where
  "list_files rd t p =
     (case map_of t p of
        None \<Rightarrow> Some []
      | Some (NFile d) \<Rightarrow> None
      | Some NDir \<Rightarrow> if rd p then Some (json_names t p) else None)"

definition readNumericFileNames :: "(path \<Rightarrow> bool) \<Rightarrow> docs \<Rightarrow> path \<Rightarrow> int list option" where
  "readNumericFileNames rd t p = map_option (\<lambda>names. sort (List.map_filter atoi names)) (list_files rd t p)"

definition readMatchupRoles :: "(path \<Rightarrow> bool) \<Rightarrow> docs \<Rightarrow> path \<Rightarrow> Role list option" where
  "readMatchupRoles rd t p =
     map_option (\<lambda>names. filter (\<lambda>role. Some role \<in> set (map RoleFromSlug names)) Roles) (list_files rd t p)"

section \<open>Scanning the tree\<close>

datatype manifest_error =
    BadSource string | MixedSource string string | ManifestUnreadable | ListFailed path | PartitionUnreadable path

record discovered =
  di_partition :: Partition
  di_source :: string

text \<open>The nested loops stop at the first error.\<close>

fun gather :: "('a \<Rightarrow> 'e + 'b list) \<Rightarrow> 'a list \<Rightarrow> 'e + 'b list" where
  "gather f [] = Inr []"
| "gather f (x # xs) =
     (case f x of
        Inl e \<Rightarrow> Inl e
      | Inr ys \<Rightarrow> (case gather f xs of Inl e \<Rightarrow> Inl e | Inr zs \<Rightarrow> Inr (ys @ zs)))"

definition listing :: "(path \<Rightarrow> bool) \<Rightarrow> docs \<Rightarrow> path \<Rightarrow> (string \<Rightarrow> manifest_error + 'b list) \<Rightarrow> manifest_error + 'b list" where
  "listing rd t p f = (case readDirNames rd t p of None \<Rightarrow> Inl (ListFailed p) | Some names \<Rightarrow> gather f names)"

definition partition_of :: "Seg \<Rightarrow> TierList \<Rightarrow> int list \<Rightarrow> Role list \<Rightarrow> Partition" where
  "partition_of seg doc champions roles =
     \<lparr>pa_Patch = seg_Patch seg, pa_Region = seg_Region seg, pa_Queue = seg_Queue seg, pa_Bracket = seg_Bracket seg,
      pa_GeneratedAt = env_GeneratedAt (tl_Envelope doc), pa_SourceWindow = env_SourceWindow (tl_Envelope doc),
      pa_MinCellN = env_MinCellN (tl_Envelope doc), pa_SuppressedCells = env_SuppressedCells (tl_Envelope doc),
      pa_CellsPublished = int (length (tl_Cells doc)), pa_BuildRunID = 0, pa_GitSHA = [],
      pa_Champions = champions, pa_MatchupRoles = roles\<rparr>"

definition readPartition :: "(path \<Rightarrow> bool) \<Rightarrow> docs \<Rightarrow> Seg \<Rightarrow> manifest_error + discovered list" where
  "readPartition rd t seg =
     (let dir = slash_path (Seg_Dir seg)
      in case read_tierlist rd t (slash_path (TierListPath seg)) of
           NoFile \<Rightarrow> Inr []
         | Unreadable \<Rightarrow> Inl (PartitionUnreadable dir)
         | Readable doc \<Rightarrow>
             (case (readNumericFileNames rd t (dir @ [''champions'']), readMatchupRoles rd t (dir @ [''matchups''])) of
                (Some champions, Some roles) \<Rightarrow>
                  Inr [\<lparr>di_partition = partition_of seg doc champions roles, di_source = env_Source (tl_Envelope doc)\<rparr>]
              | x \<Rightarrow> Inl (PartitionUnreadable dir)))"

definition scan_bracket :: "(path \<Rightarrow> bool) \<Rightarrow> docs \<Rightarrow> string \<Rightarrow> string \<Rightarrow> string \<Rightarrow> string \<Rightarrow> manifest_error + discovered list" where
  "scan_bracket rd t patch region queue bracket =
     (case atoi queue of
        None \<Rightarrow> Inr []
      | Some q \<Rightarrow>
          (let seg = \<lparr>seg_Patch = patch, seg_Region = region, seg_Queue = q, seg_Bracket = bracket\<rparr>
           in if Seg_Validate seg then readPartition rd t seg else Inr []))"

definition scanPartitions :: "(path \<Rightarrow> bool) \<Rightarrow> docs \<Rightarrow> manifest_error + discovered list" where
  "scanPartitions rd t =
     (let root = [''v1'', ''p'']
      in listing rd t root (\<lambda>patch. listing rd t (root @ [patch]) (\<lambda>region. listing rd t (root @ [patch, region])
           (\<lambda>queue. listing rd t (root @ [patch, region, queue]) (scan_bracket rd t patch region queue)))))"

section \<open>Merging\<close>

definition partitionKey :: "Partition \<Rightarrow> string" where
  "partitionKey p = pa_Patch p @ ''/'' @ pa_Region p @ ''/'' @ show_int (pa_Queue p) @ ''/'' @ pa_Bracket p"

definition mergeSource :: "string \<Rightarrow> string \<Rightarrow> bool" where
  "mergeSource published seen = (seen = [] \<or> seen = published)"

text \<open>The map from keys to partitions.\<close>

definition put :: "Partition \<Rightarrow> (string \<times> Partition) list \<Rightarrow> (string \<times> Partition) list" where
  "put p known = (partitionKey p, p) # filter (\<lambda>(k, q). k \<noteq> partitionKey p) known"

fun put_found :: "string \<Rightarrow> discovered list \<Rightarrow> (string \<times> Partition) list \<Rightarrow> manifest_error + (string \<times> Partition) list" where
  "put_found source [] known = Inr known"
| "put_found source (d # ds) known =
     (if \<not> mergeSource source (di_source d) then Inl (MixedSource source (di_source d))
      else put_found source ds
             (if map_of known (partitionKey (di_partition d)) = None then put (di_partition d) known else known))"

text \<open>
  \<^verbatim>\<open>sort.SliceStable\<close>: up to twenty elements it inserts each element from the right, past those
  it is less than.
\<close>

fun insert_right :: "('a \<Rightarrow> 'a \<Rightarrow> bool) \<Rightarrow> 'a \<Rightarrow> 'a list \<Rightarrow> 'a list" where
  "insert_right lt x [] = [x]"
| "insert_right lt x (y # ys) = (if lt x y then y # insert_right lt x ys else x # y # ys)"

definition sort_stable :: "('a \<Rightarrow> 'a \<Rightarrow> bool) \<Rightarrow> 'a list \<Rightarrow> 'a list" where
  "sort_stable lt xs = rev (fold (insert_right lt) xs [])"

definition partition_less :: "Partition \<Rightarrow> Partition \<Rightarrow> bool" where
  "partition_less a b =
     (let c = comparePatch (pa_Patch a) (pa_Patch b)
      in if c \<noteq> 0 then 0 < c
         else if pa_Region a \<noteq> pa_Region b then pa_Region a < pa_Region b
         else if pa_Queue a \<noteq> pa_Queue b then pa_Queue a < pa_Queue b
         else pa_Bracket a < pa_Bracket b)"

definition sortPartitions :: "Partition list \<Rightarrow> Partition list" where
  "sortPartitions ps = sort_stable partition_less ps"

fun best_of :: "Partition \<Rightarrow> Partition list \<Rightarrow> Partition" where
  "best_of best [] = best"
| "best_of best (p # ps) = best_of (if 0 < comparePatch (pa_Patch p) (pa_Patch best) then p else best) ps"

definition latestOf :: "Partition list \<Rightarrow> Partition \<Rightarrow> Partition" where
  "latestOf partitions built =
     (case partitions of
        [] \<Rightarrow> built
      | p # ps \<Rightarrow>
          (let best = best_of p ps
           in if pa_Patch built \<noteq> [] \<and> 0 \<le> comparePatch (pa_Patch built) (pa_Patch best) then built else best))"

definition manifest_of :: "(Partition list \<Rightarrow> Partition list) \<Rightarrow> Partition \<Rightarrow> string \<Rightarrow> gtime \<Rightarrow> (string \<times> Partition) list \<Rightarrow> Manifest" where
  "manifest_of ord built source now known =
     (let ps = sortPartitions (ord (map snd known))
      in \<lparr>ma_Schema = SchemaVersion, ma_Source = source, ma_GeneratedAt = now, ma_Latest = latestOf ps built, ma_Partitions = ps\<rparr>)"

definition UpdateManifest :: "(Partition list \<Rightarrow> Partition list) \<Rightarrow> (path \<Rightarrow> bool) \<Rightarrow> docs \<Rightarrow> Partition \<Rightarrow> string \<Rightarrow> gtime
    \<Rightarrow> manifest_error + Manifest" where
  "UpdateManifest ord rd t built source now =
     (if \<not> source_valid source then Inl (BadSource source)
      else (case readManifestFile rd t (slash_path ManifestPath) of
              Unreadable \<Rightarrow> Inl ManifestUnreadable
            | existing \<Rightarrow>
                (let (seen, listed) = (case existing of Readable m \<Rightarrow> (ma_Source m, ma_Partitions m) | x \<Rightarrow> ([], []))
                 in if \<not> mergeSource source seen then Inl (MixedSource source seen)
                    else (case scanPartitions rd t of
                            Inl e \<Rightarrow> Inl e
                          | Inr found \<Rightarrow>
                              (case put_found source found (fold put listed []) of
                                 Inl e \<Rightarrow> Inl e
                               | Inr known \<Rightarrow>
                                   Inr (manifest_of ord built source now
                                          (if pa_Patch built = [] then known else put built known)))))))"

text \<open>\<^verbatim>\<open>ReadManifest\<close>, for the guards: an absent manifest is an error of its own.\<close>

definition refuseDemoTree :: "(path \<Rightarrow> bool) \<Rightarrow> docs \<Rightarrow> bool" where
  "refuseDemoTree rd t =
     (case readManifestFile rd t (slash_path ManifestPath) of
        NoFile \<Rightarrow> False
      | Unreadable \<Rightarrow> True
      | Readable m \<Rightarrow> ma_Source m = SourceDemo)"

section \<open>Champion slugs\<close>

text \<open>\<^verbatim>\<open>loadChampionSlugs\<close> of \<^verbatim>\<open>assemble.go\<close>: the directory that sorts last.\<close>

definition loadChampionSlugs :: "(path \<Rightarrow> bool) \<Rightarrow> docs \<Rightarrow> int \<Rightarrow> string" where
  "loadChampionSlugs rd t champion =
     (case readDirNames rd t [''v1'', ''static''] of
        None \<Rightarrow> []
      | Some versions \<Rightarrow>
          (if versions = [] then []
           else (case read_file rd t [''v1'', ''static'', last versions, ''champions.json''] of
                   Readable (DocSlugs slugs) \<Rightarrow> (case map_of (rev slugs) champion of Some s \<Rightarrow> s | None \<Rightarrow> [])
                 | x \<Rightarrow> [])))"

end
