(* ===== verification/Manifest_Props.thy ===== *)
theory Manifest_Props
  imports Agg_Manifest "HOL-Library.Multiset"
begin

text \<open>
  Merging a build into the manifest: nothing published is forgotten, the result does not depend on
  the order in which the runtime ranges over its map, and \<open>latest\<close> names a newest patch.
\<close>

section \<open>Patches\<close>

definition canonical_patch :: "string \<Rightarrow> bool" where
  "canonical_patch s =
     (\<exists>a b. s = decimal a @ ''.'' @ decimal b \<and> int a \<le> max_duration \<and> int b \<le> max_duration)"

lemma scan_decimal:
  assumes "int a \<le> max_duration" and "rest = [] \<or> \<not> is_digit (hd rest)"
  shows "scan_int (decimal a @ rest) = Some (int a, rest)"
proof -
  have digits: "takeWhile is_digit (decimal a @ rest) = decimal a" "dropWhile is_digit (decimal a @ rest) = rest"
    using assms(2) decimal_digits [of _ a] by (cases rest; simp add: takeWhile_append dropWhile_append)+
  obtain c cs where d: "decimal a = c # cs" using decimal_nonempty by (cases "decimal a") auto
  have c: "is_digit c" using decimal_digits [of c a] d by simp
  then have space: "scan_space (decimal a @ rest) = decimal a @ rest"
    using digit_not_space by (simp add: d scan_space_def)
  have sgn: "c \<noteq> CHR ''-''" "c \<noteq> CHR ''+''" using c by (auto simp: is_digit_def)
  have val: "decimal_val (decimal a) = Some a"
    using digits_val_decimal [of a] by (simp add: decimal_val_def decimal_nonempty)
  have "in_int64 (int a)" using assms(1) by (simp add: in_int64_def min_duration_def)
  then show ?thesis
    using space digits sgn val by (simp add: scan_int_def d)
qed

lemma splitPatch_canonical:
  assumes "int a \<le> max_duration" and "int b \<le> max_duration"
  shows "splitPatch (decimal a @ CHR ''.'' # decimal b) = Some (int a, int b)"
proof -
  have "scan_int (decimal a @ CHR ''.'' # decimal b) = Some (int a, CHR ''.'' # decimal b)"
    using scan_decimal [OF assms(1), of "CHR ''.'' # decimal b"] by (simp add: is_digit_def)
  moreover have "scan_int (decimal b) = Some (int b, [])" using scan_decimal [OF assms(2), of "[]"] by simp
  ultimately show ?thesis by (simp add: splitPatch_def)
qed

definition patch_key :: "string \<Rightarrow> int \<times> int" where
  "patch_key p = (case splitPatch p of Some k \<Rightarrow> k | None \<Rightarrow> (0, 0))"

lemma canonical_splits: "canonical_patch p \<Longrightarrow> splitPatch p = Some (patch_key p)"
  by (auto simp: canonical_patch_def patch_key_def splitPatch_canonical)

lemma canonical_patch_eq: "canonical_patch p \<Longrightarrow> canonical_patch q \<Longrightarrow> patch_key p = patch_key q \<Longrightarrow> p = q"
  by (auto simp: canonical_patch_def patch_key_def splitPatch_canonical)

lemma comparePatch_key:
  "splitPatch p = Some (patch_key p) \<Longrightarrow> splitPatch q = Some (patch_key q) \<Longrightarrow>
     comparePatch p q = (if patch_key p < patch_key q then -1 else if patch_key q < patch_key p then 1 else 0)"
  by (cases "patch_key p"; cases "patch_key q") (auto simp: comparePatch_def less_prod_def')

section \<open>Sorting\<close>

lemma mset_insert_right: "mset (insert_right lt x xs) = add_mset x (mset xs)"
  by (induction xs) auto

lemma mset_fold_insert: "mset (fold (insert_right lt) xs ys) = mset xs + mset ys"
  by (induction xs arbitrary: ys) (auto simp: mset_insert_right)

lemma mset_sort_stable [simp]: "mset (sort_stable lt xs) = mset xs"
  by (simp add: sort_stable_def mset_fold_insert)

lemma set_sort_stable [simp]: "set (sort_stable lt xs) = set xs"
  by (metis mset_sort_stable set_mset_mset)

lemma distinct_sort_stable: "distinct (map f (sort_stable lt xs)) = distinct (map f xs)"
  by (metis mset_sort_stable mset_map mset_eq_imp_distinct_iff)

lemma insert_right_sorted:
  assumes "\<And>a b. a \<in> insert x (set xs) \<Longrightarrow> b \<in> insert x (set xs) \<Longrightarrow> lt a b \<longleftrightarrow> key a < key (b :: 'a) " and "sorted (map key (rev xs))"
  shows "sorted (map (key :: 'a \<Rightarrow> 'k :: linorder) (rev (insert_right lt x xs)))"
  using assms
proof (induction xs)
  case (Cons y ys)
  have set: "set (insert_right lt x ys) = insert x (set ys)" by (metis mset_insert_right set_mset_add_mset_insert set_mset_mset)
  show ?case
  proof (cases "lt x y")
    case True
    then have "key x < key y" using Cons.prems(1) by simp
    moreover have "sorted (map key (rev (insert_right lt x ys)))" using Cons by (auto simp: sorted_append)
    ultimately show ?thesis using True Cons.prems(2) by (auto simp: sorted_append set)
  next
    case False
    then have "\<not> key x < key y" using Cons.prems(1) by simp
    then show ?thesis using False Cons.prems(2) by (fastforce simp: sorted_append)
  qed
qed simp

lemma fold_insert_sorted:
  assumes "\<And>a b. a \<in> set xs \<union> set ys \<Longrightarrow> b \<in> set xs \<union> set ys \<Longrightarrow> lt a b \<longleftrightarrow> key a < key (b :: 'a)" and "sorted (map key (rev ys))"
  shows "sorted (map (key :: 'a \<Rightarrow> 'k :: linorder) (rev (fold (insert_right lt) xs ys)))"
  using assms
proof (induction xs arbitrary: ys)
  case (Cons x xs)
  have set: "set (insert_right lt x ys) = insert x (set ys)" by (metis mset_insert_right set_mset_add_mset_insert set_mset_mset)
  have "sorted (map key (rev (insert_right lt x ys)))"
    by (rule insert_right_sorted) (use Cons.prems in auto)
  then show ?case using Cons.IH [of "insert_right lt x ys"] Cons.prems(1) by (simp add: set)
qed simp

text \<open>When keys tell elements apart, the sorted list is a function of the multiset.\<close>

lemma sort_stable_unique:
  assumes "\<And>a b. a \<in> set xs \<Longrightarrow> b \<in> set xs \<Longrightarrow> lt a b \<longleftrightarrow> (key :: 'a \<Rightarrow> 'k :: linorder) a < key b"
    and "inj_on key (set xs)" and "mset xs = mset ys"
  shows "sort_stable lt xs = sort_stable lt ys"
proof -
  have set: "set ys = set xs" using assms(3) by (metis set_mset_mset)
  have "sorted (map key (sort_stable lt xs))" unfolding sort_stable_def
    by (rule fold_insert_sorted) (use assms(1) in auto)
  moreover have "sorted (map key (sort_stable lt ys))" unfolding sort_stable_def
    by (rule fold_insert_sorted) (use assms(1) set in auto)
  moreover have "mset (map key (sort_stable lt xs)) = mset (map key (sort_stable lt ys))"
    by (simp only: mset_map mset_sort_stable assms(3))
  ultimately have "map key (sort_stable lt xs) = map key (sort_stable lt ys)"
    by (metis properties_for_sort)
  moreover have "inj_on key (set (sort_stable lt xs) \<union> set (sort_stable lt ys))" using assms(2) set by simp
  ultimately show ?thesis by (rule map_inj_on)
qed

section \<open>The map of partitions\<close>

definition keyed :: "(string \<times> Partition) list \<Rightarrow> bool" where
  "keyed known = (distinct (map fst known) \<and> (\<forall>(k, p) \<in> set known. k = partitionKey p))"

lemma keyed_Nil [simp]: "keyed []"
  by (simp add: keyed_def)

lemma keyed_put: "keyed known \<Longrightarrow> keyed (put p known)"
  by (auto simp: keyed_def put_def distinct_map inj_on_def)

lemma map_of_filter_neq: "map_of (filter (\<lambda>(k', q). k' \<noteq> k) known) k' = (if k' = k then None else map_of known k')"
  by (induction known) auto

lemma map_of_put: "map_of (put p known) k = (if k = partitionKey p then Some p else map_of known k)"
  by (simp add: put_def map_of_filter_neq)

lemma set_put: "snd ` set (put p known) \<subseteq> insert p (snd ` set known)"
  by (auto simp: put_def)

lemma keyed_fold_put: "keyed known \<Longrightarrow> keyed (fold put ps known)"
  by (induction ps arbitrary: known) (simp_all add: keyed_put)

lemma map_of_fold_put_other: "k \<notin> partitionKey ` set ps \<Longrightarrow> map_of (fold put ps known) k = map_of known k"
  by (induction ps arbitrary: known) (simp_all add: map_of_put)

lemma map_of_fold_put: "distinct (map partitionKey ps) \<Longrightarrow> p \<in> set ps \<Longrightarrow> map_of (fold put ps known) (partitionKey p) = Some p"
proof (induction ps arbitrary: known)
  case (Cons q ps)
  show ?case
  proof (cases "p = q")
    case True
    then have "partitionKey p \<notin> partitionKey ` set ps" using Cons.prems(1) by simp
    then show ?thesis using True by (simp add: map_of_fold_put_other map_of_put)
  next
    case False
    then show ?thesis using Cons by simp
  qed
qed simp

lemma set_fold_put: "snd ` set (fold put ps known) \<subseteq> set ps \<union> snd ` set known"
proof (induction ps arbitrary: known)
  case (Cons p ps)
  have "snd ` set (fold put ps (put p known)) \<subseteq> set ps \<union> snd ` set (put p known)" by (rule Cons.IH)
  then show ?case using set_put [of p known] by auto
qed simp

lemma put_found_result:
  "put_found source ds known = Inr known' \<Longrightarrow> keyed known \<Longrightarrow>
     keyed known' \<and> (\<forall>k p. map_of known k = Some p \<longrightarrow> map_of known' k = Some p)
     \<and> (\<forall>d \<in> set ds. map_of known' (partitionKey (di_partition d)) \<noteq> None \<and> (di_source d = [] \<or> di_source d = source))
     \<and> snd ` set known' \<subseteq> snd ` set known \<union> di_partition ` set ds"
proof (induction ds arbitrary: known)
  case (Cons d ds)
  let ?k = "partitionKey (di_partition d)"
  let ?next = "if map_of known ?k = None then put (di_partition d) known else known"
  have src: "mergeSource source (di_source d)" and rest: "put_found source ds ?next = Inr known'"
    using Cons.prems(1) by (auto split: if_splits)
  have next_keyed: "keyed ?next" using Cons.prems(2) by (simp add: keyed_put)
  have keeps: "map_of ?next k = Some p" if "map_of known k = Some p" for k p
    using that by (auto simp: map_of_put)
  have there: "map_of ?next ?k \<noteq> None" by (simp add: map_of_put)
  have vals: "snd ` set ?next \<subseteq> insert (di_partition d) (snd ` set known)" using set_put by auto
  obtain p where p: "map_of ?next ?k = Some p" using there by auto
  note ih = Cons.IH [OF rest next_keyed]
  have "map_of known' k = Some p" if "map_of known k = Some p" for k p using ih keeps [OF that] by metis
  moreover have "map_of known' ?k = Some p" using ih p by metis
  moreover have "snd ` set known' \<subseteq> snd ` set known \<union> di_partition ` set (d # ds)" using ih vals by (simp add: subset_iff) blast
  ultimately show ?case using ih src by (simp add: mergeSource_def)
qed simp

section \<open>The merged manifest\<close>

definition listed_in :: "(path \<Rightarrow> bool) \<Rightarrow> docs \<Rightarrow> Partition list" where
  "listed_in rd t = (case readManifestFile rd t (slash_path ManifestPath) of Readable m \<Rightarrow> ma_Partitions m | x \<Rightarrow> [])"

lemma UpdateManifest_result:
  assumes "UpdateManifest ord rd t built source now = Inr m"
  obtains found known where "scanPartitions rd t = Inr found" and "put_found source found (fold put (listed_in rd t) []) = Inr known"
    and "m = manifest_of ord built source now (if pa_Patch built = [] then known else put built known)"
    and "source_valid source" and "readManifestFile rd t (slash_path ManifestPath) \<noteq> Unreadable"
  using assms by (auto simp: UpdateManifest_def listed_in_def Let_def split: if_splits reading.splits sum.splits)

lemma merged_partitions:
  assumes "\<And>ps. mset (ord ps) = mset ps"
  shows "mset (ma_Partitions (manifest_of ord built source now known)) = mset (map snd known)"
  using assms by (simp add: manifest_of_def sortPartitions_def Let_def)

lemma merged_set:
  assumes "\<And>ps. mset (ord ps) = mset ps" and "keyed known"
  shows "p \<in> set (ma_Partitions (manifest_of ord built source now known)) \<longleftrightarrow> map_of known (partitionKey p) = Some p"
    and "distinct (map partitionKey (ma_Partitions (manifest_of ord built source now known)))"
proof -
  let ?ps = "ma_Partitions (manifest_of ord built source now known)"
  have ms: "mset ?ps = mset (map snd known)" using merged_partitions [OF assms(1)] .
  then have "set ?ps = snd ` set known" by (metis set_mset_mset list.set_map)
  moreover have "p \<in> snd ` set known \<longleftrightarrow> (partitionKey p, p) \<in> set known"
    using assms(2) by (force simp: keyed_def)
  ultimately show "p \<in> set ?ps \<longleftrightarrow> map_of known (partitionKey p) = Some p"
    using assms(2) by (simp add: keyed_def)
  have "map partitionKey (map snd known) = map fst known" using assms(2) by (auto simp: keyed_def)
  then have "distinct (map partitionKey (map snd known))" using assms(2) by (simp only: keyed_def)
  then show "distinct (map partitionKey ?ps)"
    using ms by (metis mset_map mset_eq_imp_distinct_iff)
qed

text \<open>
  C33: a merge forgets nothing: the manifest lists every partition once, the one just built as it was
  built, every entry of the old manifest it does not replace exactly as it stood - with the build
  run and revision no artifact carries - and every partition found in the tree; it lists nothing
  else, and all of it comes from one source.
\<close>

theorem manifest_merge_is_complete:
  assumes ord: "\<And>ps. mset (ord ps) = mset ps" and up: "UpdateManifest ord rd t built source now = Inr m"
    and listed: "distinct (map partitionKey (listed_in rd t))" and found: "scanPartitions rd t = Inr found"
  shows "distinct (map partitionKey (ma_Partitions m)) \<and> ma_Source m = source
    \<and> (pa_Patch built \<noteq> [] \<longrightarrow> built \<in> set (ma_Partitions m))
    \<and> (\<forall>p \<in> set (listed_in rd t). pa_Patch built = [] \<or> partitionKey p \<noteq> partitionKey built \<longrightarrow> p \<in> set (ma_Partitions m))
    \<and> (\<forall>d \<in> set found. partitionKey (di_partition d) \<in> partitionKey ` set (ma_Partitions m) \<and> di_source d \<in> {[], source})
    \<and> set (ma_Partitions m) \<subseteq> insert built (set (listed_in rd t) \<union> di_partition ` set found)"
proof -
  obtain known where known: "put_found source found (fold put (listed_in rd t) []) = Inr known"
    and m: "m = manifest_of ord built source now (if pa_Patch built = [] then known else put built known)"
    using UpdateManifest_result [OF up] found by auto
  let ?known = "if pa_Patch built = [] then known else put built known"
  note res = put_found_result [OF known keyed_fold_put [OF keyed_Nil]]
  then have k1: "keyed known" and k2: "keyed ?known" by (simp_all add: keyed_put)
  note mem = merged_set [OF ord k2, where built = built and source = source and now = now]
  have lookup: "map_of ?known k = (if pa_Patch built \<noteq> [] \<and> k = partitionKey built then Some built else map_of known k)" for k
    by (simp add: map_of_put)
  have vals: "snd ` set known \<subseteq> set (listed_in rd t) \<union> di_partition ` set found"
    using res set_fold_put [of "listed_in rd t" "[]"] by (simp del: set_map) blast
  have "p \<in> set (ma_Partitions m)"
    if "p \<in> set (listed_in rd t)" "pa_Patch built = [] \<or> partitionKey p \<noteq> partitionKey built" for p
    using res map_of_fold_put [OF listed that(1), of "[]"] that(2) by (simp add: m mem(1) lookup) blast
  moreover have "partitionKey (di_partition d) \<in> partitionKey ` set (ma_Partitions m)" if "d \<in> set found" for d
  proof -
    let ?k = "partitionKey (di_partition d)"
    have "map_of ?known ?k \<noteq> None" using res that by (simp add: lookup)
    then obtain q where q: "map_of ?known ?k = Some q" by blast
    then have "partitionKey q = ?k" using k2 by (auto simp: keyed_def dest!: map_of_SomeD)
    then show ?thesis using q mem(1) [of q] m by (metis imageI)
  qed
  moreover have "set (ma_Partitions m) \<subseteq> insert built (set (listed_in rd t) \<union> di_partition ` set found)"
  proof
    fix p assume "p \<in> set (ma_Partitions m)"
    then have "map_of ?known (partitionKey p) = Some p" using mem(1) m by simp
    then have "p = built \<or> map_of known (partitionKey p) = Some p" by (auto simp: lookup split: if_splits)
    then have "p = built \<or> p \<in> snd ` set known" by (force dest: map_of_SomeD)
    then show "p \<in> insert built (set (listed_in rd t) \<union> di_partition ` set found)"
      using vals by blast
  qed
  moreover have "built \<in> set (ma_Partitions m)" if "pa_Patch built \<noteq> []"
    using that mem(1) [of built] by (simp add: m map_of_put)
  moreover have "ma_Source m = source" by (simp add: m manifest_of_def Let_def)
  moreover have "distinct (map partitionKey (ma_Partitions m))" using mem(2) m by simp
  ultimately show ?thesis using res by auto
qed

section \<open>Order\<close>

definition partition_key :: "Partition \<Rightarrow> int \<times> int \<times> string \<times> int \<times> string" where
  "partition_key p =
     (- fst (patch_key (pa_Patch p)), - snd (patch_key (pa_Patch p)), pa_Region p, pa_Queue p, pa_Bracket p)"

lemma partition_less_key:
  assumes "splitPatch (pa_Patch p) = Some (patch_key (pa_Patch p))" and "splitPatch (pa_Patch q) = Some (patch_key (pa_Patch q))"
  shows "partition_less p q \<longleftrightarrow> partition_key p < partition_key q"
proof -
  note c = comparePatch_key [OF assms]
  show ?thesis
    by (cases "patch_key (pa_Patch p)"; cases "patch_key (pa_Patch q)")
      (auto simp: partition_less_def partition_key_def Let_def c less_prod_def')
qed

lemma partition_key_inj:
  assumes "canonical_patch (pa_Patch p)" and "canonical_patch (pa_Patch q)" and "partition_key p = partition_key q"
  shows "partitionKey p = partitionKey q"
proof -
  have "patch_key (pa_Patch p) = patch_key (pa_Patch q)"
    using assms(3) by (simp add: partition_key_def prod_eq_iff)
  then have "pa_Patch p = pa_Patch q" using canonical_patch_eq assms(1,2) by blast
  then show ?thesis using assms(3) by (simp add: partition_key_def partitionKey_def)
qed

lemma manifest_of_order:
  assumes "\<And>ps. mset (ord1 ps) = mset ps" and "\<And>ps. mset (ord2 ps) = mset ps" and k: "keyed known"
    and can: "\<forall>p \<in> snd ` set known. canonical_patch (pa_Patch p)"
  shows "manifest_of ord1 built source now known = manifest_of ord2 built source now known"
proof -
  let ?xs = "ord1 (map snd known)"
  have set: "set ?xs = snd ` set known" by (metis assms(1) set_mset_mset list.set_map)
  have can': "canonical_patch (pa_Patch p)" if "p \<in> set ?xs" for p using that can unfolding set by blast
  have "sortPartitions ?xs = sortPartitions (ord2 (map snd known))" unfolding sortPartitions_def
  proof (rule sort_stable_unique [where key = partition_key])
    show "partition_less a b \<longleftrightarrow> partition_key a < partition_key b" if "a \<in> set ?xs" "b \<in> set ?xs" for a b
      by (rule partition_less_key [OF canonical_splits [OF can' [OF that(1)]] canonical_splits [OF can' [OF that(2)]]])
    show "inj_on partition_key (set ?xs)"
    proof (rule inj_onI)
      fix a b assume ab: "a \<in> set ?xs" "b \<in> set ?xs" "partition_key a = partition_key b"
      then have same: "partitionKey a = partitionKey b" using partition_key_inj can' by blast
      have "(partitionKey a, a) \<in> set known" "(partitionKey b, b) \<in> set known"
        using ab(1,2) k unfolding set by (auto simp: keyed_def)
      then show "a = b" using same k by (simp add: keyed_def) (meson eq_key_imp_eq_value)
    qed
    show "mset ?xs = mset (ord2 (map snd known))" by (simp add: assms(1,2))
  qed
  then show ?thesis by (simp add: manifest_of_def)
qed

text \<open>
  The manifest is a function of what is published. Go ranges over the map of partitions in an
  arbitrary order; with patches written without leading zeros, whatever that order is the manifest
  is the same, entries and \<open>latest\<close> included, so a rebuild of an unchanged tree writes it unchanged.
\<close>

theorem manifest_is_deterministic:
  assumes "\<And>ps. mset (ord1 ps) = mset ps" and "\<And>ps. mset (ord2 ps) = mset ps"
    and "\<forall>p \<in> set (listed_in rd t). canonical_patch (pa_Patch p)"
    and "\<And>found d. scanPartitions rd t = Inr found \<Longrightarrow> d \<in> set found \<Longrightarrow> canonical_patch (pa_Patch (di_partition d))"
    and "pa_Patch built = [] \<or> canonical_patch (pa_Patch built)"
  shows "UpdateManifest ord1 rd t built source now = UpdateManifest ord2 rd t built source now"
proof (cases "UpdateManifest ord1 rd t built source now")
  case (Inl e)
  then show ?thesis
    by (auto simp: UpdateManifest_def Let_def split: if_splits reading.splits sum.splits)
next
  case (Inr m)
  then obtain found known where f: "scanPartitions rd t = Inr found"
    and known: "put_found source found (fold put (listed_in rd t) []) = Inr known"
    by (rule UpdateManifest_result)
  let ?known = "if pa_Patch built = [] then known else put built known"
  note res = put_found_result [OF known keyed_fold_put [OF keyed_Nil]]
  have vals: "snd ` set known \<subseteq> set (listed_in rd t) \<union> di_partition ` set found"
    using res set_fold_put [of "listed_in rd t" "[]"] by (simp del: set_map) blast
  have k: "keyed ?known" using res by (simp add: keyed_put)
  have "snd ` set ?known \<subseteq> set (listed_in rd t) \<union> di_partition ` set found \<union> (if pa_Patch built = [] then {} else {built})"
  proof (cases "pa_Patch built = []")
    case False
    then show ?thesis using vals set_put [of built known] by (simp del: set_map) blast
  qed (use vals in simp)
  then have "\<forall>p \<in> snd ` set ?known. canonical_patch (pa_Patch p)"
    using assms(3) assms(4) [OF f] assms(5) by (fastforce split: if_splits)
  from manifest_of_order [OF assms(1,2) k this]
  have "manifest_of ord1 built source now ?known = manifest_of ord2 built source now ?known" .
  then show ?thesis
    using f known by (auto simp: UpdateManifest_def listed_in_def Let_def split: reading.splits)
qed

section \<open>The latest partition\<close>

lemma best_of_newest:
  assumes "\<forall>p \<in> insert b (set ps). splitPatch (pa_Patch p) = Some (patch_key (pa_Patch p))"
  shows "best_of b ps \<in> insert b (set ps) \<and> (\<forall>p \<in> insert b (set ps). patch_key (pa_Patch p) \<le> patch_key (pa_Patch (best_of b ps)))"
  using assms
proof (induction ps arbitrary: b)
  case (Cons p ps)
  let ?b = "if 0 < comparePatch (pa_Patch p) (pa_Patch b) then p else b"
  have ih: "best_of ?b ps \<in> insert ?b (set ps) \<and> (\<forall>q \<in> insert ?b (set ps). patch_key (pa_Patch q) \<le> patch_key (pa_Patch (best_of ?b ps)))"
    using Cons by simp
  have "comparePatch (pa_Patch p) (pa_Patch b) =
      (if patch_key (pa_Patch p) < patch_key (pa_Patch b) then -1 else if patch_key (pa_Patch b) < patch_key (pa_Patch p) then 1 else 0)"
    using Cons.prems by (intro comparePatch_key) simp_all
  then have "patch_key (pa_Patch p) \<le> patch_key (pa_Patch ?b)" "patch_key (pa_Patch b) \<le> patch_key (pa_Patch ?b)" by auto
  with ih show ?case by (auto intro: order_trans)
qed simp


lemma latestOf_newest:
  assumes "\<forall>p \<in> insert built (set ps). canonical_patch (pa_Patch p)" and "ps \<noteq> []" and "built \<in> set ps"
  shows "latestOf ps built \<in> set ps \<and> (\<forall>p \<in> set ps. patch_key (pa_Patch p) \<le> patch_key (pa_Patch (latestOf ps built)))
    \<and> ((\<forall>p \<in> set ps. patch_key (pa_Patch p) \<le> patch_key (pa_Patch built)) \<longrightarrow> latestOf ps built = built)"
proof -
  obtain q qs where ps: "ps = q # qs" using assms(2) by (cases ps) auto
  let ?best = "best_of q qs"
  have best: "?best \<in> set ps \<and> (\<forall>p \<in> set ps. patch_key (pa_Patch p) \<le> patch_key (pa_Patch ?best))"
    using best_of_newest [of q qs] assms(1) canonical_splits by (simp add: ps)
  have "comparePatch (pa_Patch built) (pa_Patch ?best) =
      (if patch_key (pa_Patch built) < patch_key (pa_Patch ?best) then -1 else if patch_key (pa_Patch ?best) < patch_key (pa_Patch built) then 1 else 0)"
    using assms(1) best by (intro comparePatch_key canonical_splits) simp_all
  moreover have "pa_Patch built \<noteq> []" using assms(1) by (auto simp: canonical_patch_def)
  ultimately have latest: "latestOf ps built = (if patch_key (pa_Patch built) < patch_key (pa_Patch ?best) then ?best else built)"
    by (simp add: latestOf_def ps Let_def)
  show ?thesis
  proof (cases "patch_key (pa_Patch built) < patch_key (pa_Patch ?best)")
    case True
    then show ?thesis using best latest by (auto simp: not_less)
  next
    case False
    then show ?thesis using best latest assms(3) by (auto intro: order_trans)
  qed
qed

text \<open>
  After a build \<open>latest\<close> names a partition of the manifest with the highest patch, compared as
  numbers; when the partition just built has that patch, \<open>latest\<close> is the partition just built,
  whatever else is published for the same patch.
\<close>

theorem latest_is_newest:
  assumes ord: "\<And>ps. mset (ord ps) = mset ps" and up: "UpdateManifest ord rd t built source now = Inr m"
    and listed: "distinct (map partitionKey (listed_in rd t))" "\<forall>p \<in> set (listed_in rd t). canonical_patch (pa_Patch p)"
    and found: "scanPartitions rd t = Inr found" "\<forall>d \<in> set found. canonical_patch (pa_Patch (di_partition d))"
    and built: "canonical_patch (pa_Patch built)"
  shows "ma_Latest m \<in> set (ma_Partitions m)
    \<and> (\<forall>p \<in> set (ma_Partitions m). patch_key (pa_Patch p) \<le> patch_key (pa_Patch (ma_Latest m)))
    \<and> ((\<forall>p \<in> set (ma_Partitions m). patch_key (pa_Patch p) \<le> patch_key (pa_Patch built)) \<longrightarrow> ma_Latest m = built)"
proof -
  obtain known where known: "put_found source found (fold put (listed_in rd t) []) = Inr known"
    and m: "m = manifest_of ord built source now (if pa_Patch built = [] then known else put built known)"
    using UpdateManifest_result [OF up] found by auto
  have latest: "ma_Latest m = latestOf (ma_Partitions m) built" by (simp add: m manifest_of_def Let_def)
  have ne: "pa_Patch built \<noteq> []" using built by (auto simp: canonical_patch_def)
  note res = put_found_result [OF known keyed_fold_put [OF keyed_Nil]]
  have k: "keyed (put built known)" using res by (simp add: keyed_put)
  note mem = merged_set [OF ord k, where built = built and source = source and now = now]
  have there: "built \<in> set (ma_Partitions m)" using ne mem(1) [of built] by (simp add: m map_of_put)
  have vals: "snd ` set known \<subseteq> set (listed_in rd t) \<union> di_partition ` set found"
    using res set_fold_put [of "listed_in rd t" "[]"] by (simp del: set_map) blast
  have old: "canonical_patch (pa_Patch p)" if "p \<in> set (listed_in rd t) \<union> di_partition ` set found" for p
    using that listed(2) found(2) by auto
  have can: "canonical_patch (pa_Patch p)" if "p \<in> snd ` set (put built known)" for p
  proof -
    have "p = built \<or> p \<in> snd ` set known" using that set_put [of built known] by blast
    then show ?thesis using built old vals by blast
  qed
  have "canonical_patch (pa_Patch p)" if "p \<in> set (ma_Partitions m)" for p
  proof -
    have "map_of (put built known) (partitionKey p) = Some p" using that mem(1) [of p] ne by (simp add: m)
    then have "(partitionKey p, p) \<in> set (put built known)" by (rule map_of_SomeD)
    then show ?thesis by (intro can) force
  qed
  then have "\<forall>p \<in> insert built (set (ma_Partitions m)). canonical_patch (pa_Patch p)" using built by simp
  moreover have "ma_Partitions m \<noteq> []" using there by auto
  ultimately show ?thesis unfolding latest using there by (rule latestOf_newest)
qed

section \<open>A tree\<close>

definition demo_tree_partition :: "string \<Rightarrow> string \<Rightarrow> Partition" where
  "demo_tree_partition patch region =
     zero_partition\<lparr>pa_Patch := patch, pa_Region := region, pa_Queue := 420, pa_Bracket := ''all''\<rparr>"

text \<open>The manifest lists 16.9; the tree also holds 16.10 of another region, written before a crash.\<close>

definition demo_docs :: docs where
  "demo_docs =
     (let seg = \<lparr>seg_Patch = ''16.10'', seg_Region = ''NA'', seg_Queue = 420, seg_Bracket = ''all''\<rparr>;
          env = \<lparr>env_Schema = 1, env_Source = SourceRiotMatchV5, env_Patch = ''16.10'', env_Region = ''NA'', env_Queue = 420,
                 env_Bracket = ''all'', env_GeneratedAt = 0, env_SourceWindow = \<lparr>win_From = [], win_To = []\<rparr>,
                 env_MinCellN = 1, env_SuppressedCells = 0\<rparr>;
          m = \<lparr>ma_Schema = SchemaVersion, ma_Source = SourceRiotMatchV5, ma_GeneratedAt = 0,
               ma_Latest = demo_tree_partition ''16.9'' ''EUW'', ma_Partitions = [demo_tree_partition ''16.9'' ''EUW'']\<rparr>
      in mkdirs (slash_path (Seg_Dir seg))
           [(slash_path ManifestPath, NFile (DocManifest m)),
            (slash_path (TierListPath seg), NFile (DocTierList \<lparr>tl_Envelope = env, tl_Cells = []\<rparr>))])"

definition demo_merge :: "manifest_error + Manifest" where
  "demo_merge = UpdateManifest rev (\<lambda>p. True) demo_docs (demo_tree_partition ''16.10'' ''EUW'') SourceRiotMatchV5 7"

definition demo_found :: "discovered list" where
  "demo_found = (case scanPartitions (\<lambda>p. True) demo_docs of Inr ds \<Rightarrow> ds | Inl e \<Rightarrow> [])"

definition merged_demo :: Manifest where
  "merged_demo = (case demo_merge of Inr m \<Rightarrow> m
     | Inl e \<Rightarrow> \<lparr>ma_Schema = 0, ma_Source = [], ma_GeneratedAt = 0, ma_Latest = zero_partition, ma_Partitions = []\<rparr>)"

lemma demo_merge_runs:
  "UpdateManifest rev (\<lambda>p. True) demo_docs (demo_tree_partition ''16.10'' ''EUW'') SourceRiotMatchV5 7 = Inr merged_demo"
proof -
  have "(case demo_merge of Inr m \<Rightarrow> True | Inl e \<Rightarrow> False)" by code_simp
  then show ?thesis by (simp add: merged_demo_def demo_merge_def split: sum.splits)
qed

lemma demo_scan: "scanPartitions (\<lambda>p. True) demo_docs = Inr demo_found"
proof -
  have "(case scanPartitions (\<lambda>p. True) demo_docs of Inr ds \<Rightarrow> True | Inl e \<Rightarrow> False)" by code_simp
  then show ?thesis by (simp add: demo_found_def split: sum.splits)
qed

lemma demo_listed: "listed_in (\<lambda>p. True) demo_docs = [demo_tree_partition ''16.9'' ''EUW'']"
  by code_simp

lemma demo_found_patches: "map (\<lambda>d. pa_Patch (di_partition d)) demo_found = [''16.10'']"
  by code_simp

lemma canonical_demo: "canonical_patch ''16.9''" "canonical_patch ''16.10''"
proof -
  have d: "decimal 16 = ''16''" "decimal 9 = ''9''" "decimal 10 = ''10''" by code_simp+
  have "canonical_patch (decimal 16 @ ''.'' @ decimal b)" if "b \<le> 10" for b
    unfolding canonical_patch_def using that by (intro exI [of _ "16 :: nat"] exI [of _ b]) (simp add: max_duration_def)
  from this [of 9] this [of 10] show "canonical_patch ''16.9''" "canonical_patch ''16.10''" by (simp_all add: d)
qed

lemma demo_found_canonical: "\<forall>d \<in> set demo_found. canonical_patch (pa_Patch (di_partition d))"
proof
  fix d assume "d \<in> set demo_found"
  then have "pa_Patch (di_partition d) \<in> set (map (\<lambda>d. pa_Patch (di_partition d)) demo_found)" by simp
  then show "canonical_patch (pa_Patch (di_partition d))" using canonical_demo unfolding demo_found_patches by simp
qed

theorem manifest_merge_is_complete_witness:
  "set (map pa_Patch (ma_Partitions merged_demo)) = {''16.9'', ''16.10''} \<and> demo_tree_partition ''16.9'' ''EUW'' \<in> set (ma_Partitions merged_demo)"
proof -
  have "demo_tree_partition ''16.9'' ''EUW'' \<in> set (ma_Partitions merged_demo)"
  proof -
    have "partitionKey (demo_tree_partition ''16.9'' ''EUW'') \<noteq> partitionKey (demo_tree_partition ''16.10'' ''EUW'')" by code_simp
    then show ?thesis
      using manifest_merge_is_complete [OF mset_rev demo_merge_runs _ demo_scan] by (simp add: demo_listed)
  qed
  moreover have "map pa_Patch (ma_Partitions merged_demo) = [''16.10'', ''16.10'', ''16.9'']" by code_simp
  then have "set (map pa_Patch (ma_Partitions merged_demo)) = {''16.9'', ''16.10''}" by (simp only: list.set) blast
  ultimately show ?thesis by simp
qed

theorem manifest_is_deterministic_witness:
  "UpdateManifest id (\<lambda>p. True) demo_docs (demo_tree_partition ''16.10'' ''EUW'') SourceRiotMatchV5 7 = Inr merged_demo"
proof -
  have "UpdateManifest id (\<lambda>p. True) demo_docs (demo_tree_partition ''16.10'' ''EUW'') SourceRiotMatchV5 7
      = UpdateManifest rev (\<lambda>p. True) demo_docs (demo_tree_partition ''16.10'' ''EUW'') SourceRiotMatchV5 7"
    by (rule manifest_is_deterministic)
      (use demo_scan demo_found_canonical canonical_demo in \<open>auto simp: demo_listed demo_tree_partition_def\<close>)
  then show ?thesis by (simp add: demo_merge_runs)
qed

theorem latest_is_newest_witness: "ma_Latest merged_demo \<in> set (ma_Partitions merged_demo) \<and> pa_Region (ma_Latest merged_demo) = ''EUW''"
proof -
  have "ma_Latest merged_demo \<in> set (ma_Partitions merged_demo)"
    using latest_is_newest [OF mset_rev demo_merge_runs _ _ demo_scan demo_found_canonical] canonical_demo
    by (simp add: demo_listed demo_tree_partition_def)
  moreover have "pa_Region (ma_Latest merged_demo) = ''EUW''" by code_simp
  ultimately show ?thesis by simp
qed

end
