(* ===== verification/Date_Props.thy ===== *)
theory Date_Props
  imports Agg_Model
begin

text \<open>
  Civil dates: the conversion of a day number to a date and back, the parser of dates, and the
  window of days a build covers.
\<close>

section \<open>Day numbers\<close>

text \<open>The digits of a day number in cycles of 400, 100, 4 years and single years.\<close>

lemma civil_digits:
  assumes "n400 = n div 146097" and "r400 = n mod 146097" and "n100 = min 3 (r400 div 36524)" and "r100 = r400 - n100 * 36524"
    and "n4 = r100 div 1461" and "r4 = r100 mod 1461" and "n1 = min 3 (r4 div 365)" and "r = r4 - n1 * 365"
    and "y = 400 * n400 + 100 * n100 + 4 * n4 + n1 + (1 :: int)"
  shows "365 * (y - 1) + (y - 1) div 4 - (y - 1) div 100 + (y - 1) div 400 = n - r" (is ?days)
    and "0 \<le> r" and "r < (if leap_year y then 366 else 365)"
    and "0 \<le> n \<Longrightarrow> n < 3652059 \<Longrightarrow> 1 \<le> y \<and> y \<le> 9999" (is "_ \<Longrightarrow> _ \<Longrightarrow> ?years")
proof -
  have b400: "0 \<le> r400" "r400 < 146097" "n = 146097 * n400 + r400" using assms(1,2) by simp_all
  have b100: "0 \<le> n100" "n100 \<le> 3" "0 \<le> r100" "r100 \<le> 36524" "n100 < 3 \<Longrightarrow> r100 < 36524"
    using assms(3,4) b400 by (auto simp: min_def split: if_splits)
  have b4: "0 \<le> n4" "n4 \<le> 24" "0 \<le> r4" "r4 < 1461" "r100 = 1461 * n4 + r4" using assms(5,6) b100 by auto
  have b1: "0 \<le> n1" "n1 \<le> 3" "0 \<le> r" "r \<le> 365" "n1 < 3 \<Longrightarrow> r < 365"
    using assms(7,8) b4 by (auto simp: min_def split: if_splits)
  have "(y - 1) div 4 = 100 * n400 + 25 * n100 + n4"
    by (rule int_div_pos_eq [where r = n1]) (use b1(1,2) b4(1,2) b100(1,2) in \<open>simp_all add: assms(9)\<close>)
  moreover have "(y - 1) div 100 = 4 * n400 + n100"
    by (rule int_div_pos_eq [where r = "4 * n4 + n1"]) (use b1(1,2) b4(1,2) b100(1,2) in \<open>simp_all add: assms(9)\<close>)
  moreover have "(y - 1) div 400 = n400"
    by (rule int_div_pos_eq [where r = "100 * n100 + 4 * n4 + n1"]) (use b1(1,2) b4(1,2) b100(1,2) in \<open>simp_all add: assms(9)\<close>)
  ultimately show ?days using b400(3) b4(5) assms(4,8) by (simp add: assms(9))
  show "0 \<le> r" by (rule b1(3))
  show "r < (if leap_year y then 366 else 365)"
  proof (cases "r = 365")
    case True
    then have "\<not> n1 < 3" using b1(5) by auto
    then have n1: "n1 = 3" using b1(2) by linarith
    then have r4: "r4 = 1460" using True b4(4) assms(8) by linarith
    have n4: "n100 = 3" if "n4 = 24"
    proof (rule ccontr)
      assume "n100 \<noteq> 3"
      then have "r100 < 36524" using b100(2,5) by linarith
      then show False using that b4(5) r4 by linarith
    qed
    have y: "y = 100 * (4 * n400 + n100) + 4 * (n4 + 1)" "y = 4 * (100 * n400 + 25 * n100 + n4 + 1)"
      using n1 assms(9) by simp_all
    have "leap_year y"
    proof (cases "n4 = 24")
      case True
      then have "y = 400 * (n400 + 1)" using n4 y(1) by simp
      then show ?thesis by (simp add: leap_year_def)
    next
      case False
      then have "4 * (n4 + 1) mod 100 = 4 * (n4 + 1)" using b4(1,2) by simp
      then have "y mod 100 = 4 * (n4 + 1)" unfolding y(1) by (simp only: mod_mult_self4)
      then have "y mod 100 \<noteq> 0" using b4(1) by simp
      then show ?thesis using y(2) by (simp add: leap_year_def)
    qed
    then show ?thesis using True by simp
  next
    case False
    then show ?thesis using b1 by simp
  qed
  show ?years if "0 \<le> n" "n < 3652059"
  proof (cases "n400 \<le> 23")
    case True
    moreover have "0 \<le> n400" using that(1) assms(1) by (simp add: pos_imp_zdiv_nonneg_iff)
    ultimately show ?thesis using b100 b4 b1 by (simp add: assms(9))
  next
    case False
    then have "n400 = 24" "r400 < 145731" using that b400 by linarith+
    moreover have "r4 \<le> 1094 \<or> n4 \<le> 23 \<or> n100 \<le> 2" using calculation b4(5) assms(4) by linarith
    moreover have "n1 \<le> 2" if "r4 \<le> 1094" using that assms(7) by auto
    ultimately show ?thesis using b100 b4 b1 by (auto simp: assms(9))
  qed
qed

lemma month_of_day_inverse:
  assumes "0 \<le> r" and "r < (if leap_year y then 366 else 365)"
    and "month_of_day [31, if leap_year y then 29 else 28, 31, 30, 31, 30, 31, 31, 30, 31, 30] 1 r = (m, d)"
  shows "1 \<le> m \<and> m \<le> 12 \<and> 1 \<le> d \<and> d \<le> month_lengths y ! nat (m - 1)
    \<and> sum_list (take (nat (m - 1)) (month_lengths y)) + d - 1 = r"
  using assms by (cases "leap_year y") (auto simp: month_lengths_def split: if_splits)

lemma civil_date_inverse:
  assumes "civil_date n = (y, m, d)"
  shows "day_number y m d = n" and "1 \<le> m \<and> m \<le> 12 \<and> 1 \<le> d \<and> d \<le> month_lengths y ! nat (m - 1)"
    and "0 \<le> n \<Longrightarrow> n < 3652059 \<Longrightarrow> 1 \<le> y \<and> y \<le> 9999"
proof -
  define n400 r400 where "n400 = n div 146097" and "r400 = n mod 146097"
  define n100 where "n100 = min 3 (r400 div 36524)"
  define r100 where "r100 = r400 - n100 * 36524"
  define n4 r4 where "n4 = r100 div 1461" and "r4 = r100 mod 1461"
  define n1 where "n1 = min 3 (r4 div 365)"
  define r where "r = r4 - n1 * 365"
  note defs = n400_def r400_def n100_def r100_def n4_def r4_def n1_def r_def
  define z where "z = 400 * n400 + 100 * n100 + 4 * n4 + n1 + 1"
  let ?months = "[31, if leap_year z then 29 else 28, 31, 30, 31, 30, 31, 31, 30, 31, 30]"
  have "civil_date n = (let (m, d) = month_of_day ?months 1 r in (z, m, d))"
    by (simp only: civil_date_def Let_def defs z_def)
  then have y: "y = z" and md: "month_of_day ?months 1 r = (m, d)"
    using assms by (cases "month_of_day ?months 1 r"; simp)+
  note digits = civil_digits [OF defs z_def]
  note month = month_of_day_inverse [OF digits(2,3) md]
  show "day_number y m d = n" using digits(1) month by (simp add: day_number_def y)
  show "1 \<le> m \<and> m \<le> 12 \<and> 1 \<le> d \<and> d \<le> month_lengths y ! nat (m - 1)" using month by (simp add: y)
  show "1 \<le> y \<and> y \<le> 9999" if "0 \<le> n" "n < 3652059" using digits(4) [OF that] by (simp add: y)
qed


section \<open>Fixed-width fields\<close>

lemma length_decimal: "n < 10 ^ Suc k \<Longrightarrow> length (decimal n) \<le> Suc k"
proof (induction k arbitrary: n)
  case 0
  then show ?case by (subst decimal.simps) simp
next
  case (Suc k)
  show ?case
  proof (cases "n < 10")
    case True
    then show ?thesis by (subst decimal.simps) simp
  next
    case False
    have "n div 10 < 10 ^ Suc k" using Suc.prems by (simp add: less_mult_imp_div_less mult.commute)
    from Suc.IH [OF this] show ?thesis using False by (subst decimal.simps) simp
  qed
qed

lemma digits_val_field_zeros: "digits_val 0 (replicate j (CHR ''0'') @ s) = digits_val 0 s"
  by (induction j) (simp_all add: is_digit_def digit_val_def)

lemma field_pad: "0 \<le> n \<Longrightarrow> n < 10 ^ Suc k \<Longrightarrow> field (Suc k) (pad (Suc k) n) = Some n"
proof -
  assume n: "0 \<le> n" "n < 10 ^ Suc k"
  then have "nat n < 10 ^ Suc k" by (simp add: nat_less_iff)
  then have "length (decimal (nat n)) \<le> Suc k" by (rule length_decimal)
  then show ?thesis using n(1)
    by (simp add: field_def pad_def Let_def decimal_val_def decimal_nonempty digits_val_field_zeros digits_val_decimal)
qed

lemma pad_chars: "c \<in> set (pad w n) \<Longrightarrow> is_digit c"
  using decimal_digits by (auto simp: pad_def Let_def is_digit_def)

lemma dash_not_in_pad: "CHR ''-'' \<notin> set (pad w n)"
  using pad_chars [of "CHR ''-''" w n] by (auto simp: is_digit_def)

lemma split_date: "split_on (CHR ''-'') (pad 4 y @ ''-'' @ pad 2 m @ ''-'' @ pad 2 d) = [pad 4 y, pad 2 m, pad 2 d]"
  by (simp add: split_on_append_sep split_on_no_sep dash_not_in_pad)

lemma parse_format_date: "0 \<le> n \<Longrightarrow> n < 3652059 \<Longrightarrow> parseDate (format_date n) = Some n"
proof -
  assume assms: "0 \<le> n" "n < 3652059"
  obtain y m d where c: "civil_date n = (y, m, d)" by (cases "civil_date n")
  note inv = civil_date_inverse [OF c]
  have y: "1 \<le> y" "y \<le> 9999" using inv(3) [OF assms] by simp_all
  have "month_lengths y ! nat (m - 1) \<in> set (month_lengths y)"
  proof (rule nth_mem)
    have "nat (m - 1) < 12" using inv(2) by linarith
    then show "nat (m - 1) < length (month_lengths y)" by (simp add: month_lengths_def)
  qed
  then have d: "d \<le> 31" using inv(2) by (auto simp: month_lengths_def split: if_splits)
  have fields: "field 4 (pad 4 y) = Some y" "field 2 (pad 2 m) = Some m" "field 2 (pad 2 d) = Some d"
    using field_pad [of y 3] field_pad [of m 1] field_pad [of d 1] y d inv(2) by (simp_all add: eval_nat_numeral)
  have written: "format_date n = pad 4 y @ ''-'' @ pad 2 m @ ''-'' @ pad 2 d" by (simp add: format_date_def c)
  show ?thesis
    unfolding parseDate_def written split_date using fields inv(1,2) written by simp
qed

lemma parseDate_format: "parseDate s = Some n \<Longrightarrow> format_date n = s"
  by (auto simp: parseDate_def split: list.splits option.splits if_splits)

text \<open>
  C36: dates survive the trip through text: every day of the years 1 to 9999 is parsed back from its
  \<^verbatim>\<open>YYYY-MM-DD\<close> form, and the parser accepts no other spelling of it.
\<close>

theorem dates_roundtrip:
  assumes "0 \<le> n" and "n < 3652059"
  shows "parseDate (format_date n) = Some n \<and> (\<forall>s. parseDate s = Some n \<longrightarrow> s = format_date n)"
  using parse_format_date [OF assms] parseDate_format by blast

lemma windowForEnd_result:
  "windowForEnd end days = Some w \<longleftrightarrow>
     (\<exists>to. parseDate end = Some to \<and> 1 \<le> days \<and> days \<le> 400 \<and> w = \<lparr>win_From = format_date (to - (days - 1)), win_To = end\<rparr>)"
  by (auto simp: windowForEnd_def not_less parseDate_format split: option.splits if_splits)

text \<open>
  The window of a build is inclusive: it ends on the day asked for and, written out and read
  back, spans exactly the number of days asked for, from one to four hundred.
\<close>

theorem window_spans_its_days:
  assumes "windowForEnd end days = Some w" and "parseDate end = Some to" and "days \<le> to" and "to < 3652059"
  shows "win_To w = end \<and> parseDate (win_To w) = Some to \<and> parseDate (win_From w) = Some (to - days + 1) \<and> 1 \<le> days \<and> days \<le> 400"
proof -
  have w: "w = \<lparr>win_From = format_date (to - (days - 1)), win_To = end\<rparr>" "1 \<le> days" "days \<le> 400"
    using assms(1,2) by (auto simp: windowForEnd_result)
  have "0 \<le> to - (days - 1)" "to - (days - 1) < 3652059" using w(2) assms(3,4) by linarith+
  from parse_format_date [OF this] show ?thesis using w assms(2) by (simp add: algebra_simps)
qed

theorem dates_roundtrip_witness: "format_date 739852 = ''2026-08-25'' \<and> parseDate ''2026-08-25'' = Some 739852"
proof -
  have f: "format_date 739852 = ''2026-08-25''" by code_simp
  have "parseDate (format_date 739852) = Some 739852" using dates_roundtrip [of 739852] by simp
  then show ?thesis unfolding f by simp
qed

theorem window_spans_its_days_witness:
  "windowForEnd ''2026-03-07'' 14 = Some \<lparr>win_From = ''2026-02-22'', win_To = ''2026-03-07''\<rparr> \<and> parseDate ''2026-02-22'' = Some 739668"
proof -
  have w: "windowForEnd ''2026-03-07'' 14 = Some \<lparr>win_From = ''2026-02-22'', win_To = ''2026-03-07''\<rparr>" by code_simp
  moreover have "parseDate ''2026-03-07'' = Some 739681" by code_simp
  ultimately show ?thesis using window_spans_its_days [OF w, of 739681] by simp
qed

end
