(* ===== verification/Agg_Verify.thy ===== *)
theory Agg_Verify
  imports Agg_Manifest
begin

text \<open>
  The verifier of a published tree (\<^verbatim>\<open>internal/aggregate/verify.go\<close>). A problem is the text of its
  message without the place and the values; problems are collected in the order they are found.
  \<open>schema\<close> says whether a document passes the JSON schema; what does not decode does not pass.
\<close>

type_synonym problem = string

definition problem_if :: "bool \<Rightarrow> problem \<Rightarrow> problem list" where
  "problem_if b p = (if b then [p] else [])"

section \<open>Rates\<close>

text \<open>The quotient of a division by zero is a NaN or an infinity, which is close to nothing.\<close>

definition expected_rate :: "int \<Rightarrow> int \<Rightarrow> rat option" where
  "expected_rate wins n = (if n = 0 then None else Some (round4 (of_int wins / of_int n)))"

definition expected_half_width :: "int \<Rightarrow> rat option" where
  "expected_half_width n = (if n \<le> 0 then None else Some (half_width n))"

definition closeEnough :: "rat \<Rightarrow> rat option \<Rightarrow> bool" where
  "closeEnough got want = (case want of None \<Rightarrow> False | Some w \<Rightarrow> \<bar>got - w\<bar> \<le> 1 / 1000000000)"

definition tierRankOf :: "Tier \<Rightarrow> int" where
  "tierRankOf t = (if t \<in> set Tiers then int (length (takeWhile (\<lambda>x. x \<noteq> t) Tiers)) else -1)"

definition tierBandKnown :: "Tier \<Rightarrow> bool" where
  "tierBandKnown t = (0 \<le> tierRankOf t)"

definition roleRankOf :: "Role \<Rightarrow> nat" where
  "roleRankOf r = role_rank Roles r"

section \<open>Cells\<close>

definition checkCell :: "int \<Rightarrow> Cell \<Rightarrow> problem list" where
  "checkCell minCellN c =
     problem_if (ce_ChampionID c \<le> 0) ''champion_id''
     @ problem_if (\<not> role_valid (ce_Role c)) ''role is not canonical''
     @ problem_if (ce_N c < minCellN) ''n is below min_cell_n''
     @ problem_if (ce_Wins c < 0 \<or> ce_N c < ce_Wins c) ''wins''
     @ problem_if (ce_WinRate c < 0 \<or> 1 < ce_WinRate c) ''win_rate is outside [0,1]''
     @ problem_if (\<not> closeEnough (ce_WinRate c) (expected_rate (ce_Wins c) (ce_N c))) ''win_rate is not wins/n''
     @ problem_if (\<not> closeEnough (ce_CI95HalfWidth c) (expected_half_width (ce_N c))) ''ci95_half_width''
     @ problem_if (ce_PickRate c < 0 \<or> 1 < ce_PickRate c) ''pick_rate is outside [0,1]''
     @ problem_if (ce_BanRate c < 0 \<or> 1 < ce_BanRate c) ''ban_rate is outside [0,1]''
     @ problem_if (\<not> tierBandKnown (ce_Tier c)) ''tier''"

text \<open>The loop's state: the keys seen, the previous cell of a canonical role, the previous grade.\<close>

fun cell_order :: "(nat \<times> int) set \<Rightarrow> Cell option \<Rightarrow> int \<Rightarrow> Cell list \<Rightarrow> problem list" where
  "cell_order seen prev prank [] = []"
| "cell_order seen prev prank (c # cs) =
     (if \<not> role_valid (ce_Role c) then cell_order seen prev prank cs
      else (let key = (roleRankOf (ce_Role c), ce_ChampionID c);
                same = (case prev of None \<Rightarrow> False | Some p \<Rightarrow> ce_Role p = ce_Role c);
                rank = tierRankOf (ce_Tier c)
            in problem_if (key \<in> seen) ''champion appears twice in role''
               @ problem_if (same \<and> ce_WinRate (the prev) < ce_WinRate c) ''out of descending win-rate order''
               @ problem_if (same \<and> ce_WinRate c = ce_WinRate (the prev) \<and> ce_ChampionID c < ce_ChampionID (the prev))
                   ''out of champion-id order''
               @ problem_if (0 \<le> rank \<and> same \<and> rank < prank) ''graded after a better grade''
               @ cell_order (insert key seen) (Some c) (if 0 \<le> rank then rank else prank) cs))"

definition checkCellOrder :: "Cell list \<Rightarrow> problem list" where
  "checkCellOrder cells = cell_order {} None (-1) cells"

section \<open>Documents\<close>

definition same_seg :: "Envelope \<Rightarrow> Partition \<Rightarrow> bool" where
  "same_seg e p =
     (env_Patch e = pa_Patch p \<and> env_Region e = pa_Region p \<and> env_Queue e = pa_Queue p \<and> env_Bracket e = pa_Bracket p)"

definition window_problems :: "Window \<Rightarrow> problem list" where
  "window_problems w =
     (let from = parseDate (win_From w); to = parseDate (win_To w)
      in problem_if (from = None) ''source_window.from''
         @ problem_if (to = None) ''source_window.to''
         @ (case (from, to) of
              (Some f, Some t) \<Rightarrow> problem_if (t < f) ''source_window ends before it starts''
            | x \<Rightarrow> []))"

definition checkEnvelope :: "Envelope \<Rightarrow> Partition \<Rightarrow> string \<Rightarrow> problem list" where
  "checkEnvelope e p source =
     problem_if (env_Schema e \<noteq> SchemaVersion) ''schema''
     @ problem_if (\<not> source_valid (env_Source e)) ''source is not a source''
     @ problem_if (env_Source e \<noteq> source) ''source is not the manifest's''
     @ problem_if (\<not> same_seg e p) ''envelope segment''
     @ problem_if (env_MinCellN e \<noteq> pa_MinCellN p) ''min_cell_n''
     @ problem_if (env_SuppressedCells e \<noteq> pa_SuppressedCells p) ''suppressed_cells''
     @ problem_if (env_SourceWindow e \<noteq> pa_SourceWindow p) ''source_window''
     @ problem_if (env_GeneratedAt e \<noteq> pa_GeneratedAt p) ''generated_at''
     @ (if env_Patch e \<noteq> [] then window_problems (env_SourceWindow e) else [])"

text \<open>\<^verbatim>\<open>readSchemaValidated\<close>: the document, or the problem that stands for it.\<close>

definition read_valid :: "(path \<Rightarrow> bool) \<Rightarrow> (doc \<Rightarrow> bool) \<Rightarrow> docs \<Rightarrow> path \<Rightarrow> problem + doc" where
  "read_valid rd schema t p =
     (case read_file rd t p of
        NoFile \<Rightarrow> Inl ''file is missing''
      | Unreadable \<Rightarrow> Inl ''file cannot be read''
      | Readable d \<Rightarrow> if schema d \<and> d \<noteq> Damaged then Inr d else Inl ''schema violation'')"

definition checkBuild :: "string \<Rightarrow> int \<Rightarrow> int \<Rightarrow> Build \<Rightarrow> problem list" where
  "checkBuild kind keyLength cellN b =
     problem_if (bu_Kind b \<noteq> kind) ''kind''
     @ problem_if (int (length (bu_Key b)) \<noteq> keyLength) ''key length''
     @ problem_if (bu_Label b = []) ''label is empty''
     @ problem_if (bu_N b \<le> 0 \<or> cellN < bu_N b) ''n is not a subset of the cell's games''
     @ problem_if (bu_Wins b < 0 \<or> bu_N b < bu_Wins b) ''wins''
     @ problem_if (0 < bu_N b \<and> \<not> closeEnough (bu_WinRate b) (expected_rate (bu_Wins b) (bu_N b))) ''win_rate is not wins/n''"

definition checkBuilds :: "string \<Rightarrow> int \<Rightarrow> int \<Rightarrow> Build list \<Rightarrow> problem list" where
  "checkBuilds kind keyLength cellN bs = concat (map (checkBuild kind keyLength cellN) bs)"

definition champion_role_problems :: "int \<Rightarrow> int \<Rightarrow> ChampionRole \<Rightarrow> problem list" where
  "champion_role_problems champion minCellN r =
     problem_if (ce_ChampionID (cr_Stats r) \<noteq> champion) ''stats.champion_id''
     @ problem_if (ce_Role (cr_Stats r) \<noteq> cr_Role r) ''stats.role''
     @ checkCell minCellN (cr_Stats r)
     @ checkBuilds ''items'' 7 (ce_N (cr_Stats r)) (cr_Items r)
     @ checkBuilds ''runes'' 6 (ce_N (cr_Stats r)) (cr_Runes r)
     @ checkBuilds ''spells'' 2 (ce_N (cr_Stats r)) (cr_Spells r)
     @ problem_if (MaxBuildsPerRole < length (cr_Items r) \<or> MaxBuildsPerRole < length (cr_Runes r)
         \<or> MaxBuildsPerRole < length (cr_Spells r)) ''too many builds of one kind''"

fun champion_roles_problems :: "int \<Rightarrow> int \<Rightarrow> Role set \<Rightarrow> ChampionRole list \<Rightarrow> problem list" where
  "champion_roles_problems champion minCellN seen [] = []"
| "champion_roles_problems champion minCellN seen (r # rs) =
     (if \<not> role_valid (cr_Role r) then ''role is not canonical'' # champion_roles_problems champion minCellN seen rs
      else problem_if (cr_Role r \<in> seen) ''role appears twice''
           @ champion_role_problems champion minCellN r
           @ champion_roles_problems champion minCellN (insert (cr_Role r) seen) rs)"

definition seg_of :: "Partition \<Rightarrow> Seg" where
  "seg_of p = \<lparr>seg_Patch = pa_Patch p, seg_Region = pa_Region p, seg_Queue = pa_Queue p, seg_Bracket = pa_Bracket p\<rparr>"

definition checkChampion :: "(path \<Rightarrow> bool) \<Rightarrow> (doc \<Rightarrow> bool) \<Rightarrow> docs \<Rightarrow> Partition \<Rightarrow> string \<Rightarrow> int \<Rightarrow> problem list" where
  "checkChampion rd schema t p source champion =
     (case read_valid rd schema t (slash_path (ChampionPath (seg_of p) champion)) of
        Inl e \<Rightarrow> [e]
      | Inr (DocChampion d) \<Rightarrow>
          checkEnvelope (ch_Envelope d) p source
          @ problem_if (ch_ChampionID d \<noteq> champion) ''champion_id is not the file's''
          @ champion_roles_problems champion (pa_MinCellN p) {} (ch_Roles d)
      | Inr d \<Rightarrow> [''schema violation''])"

definition checkChampions :: "(path \<Rightarrow> bool) \<Rightarrow> (doc \<Rightarrow> bool) \<Rightarrow> docs \<Rightarrow> Partition \<Rightarrow> string \<Rightarrow> problem list" where
  "checkChampions rd schema t p source =
     (case readNumericFileNames rd t (slash_path (Seg_Dir (seg_of p)) @ [''champions'']) of
        None \<Rightarrow> [''champions cannot be listed''] @ concat (map (checkChampion rd schema t p source) (pa_Champions p))
      | Some onDisk \<Rightarrow>
          concat (map (checkChampion rd schema t p source) (pa_Champions p))
          @ concat (map (\<lambda>id. problem_if (id \<notin> set (pa_Champions p)) ''file is not listed in the manifest'') onDisk))"

text \<open>The axis is read up to the first id that is not above the one before it.\<close>

fun axis_of :: "int option \<Rightarrow> int list \<Rightarrow> int list \<times> problem list" where
  "axis_of prev [] = ([], [])"
| "axis_of prev (c # cs) =
     (if prev \<noteq> None \<and> c \<le> the prev then ([], [''the champion axis is not ascending''])
      else (let (ids, ps) = axis_of (Some c) cs in (c # ids, ps)))"

definition pair_problems :: "int list \<Rightarrow> int \<Rightarrow> MatchupCell option \<Rightarrow> MatchupCell \<Rightarrow> problem list" where
  "pair_problems axis minCellN prev c =
     (if mc_ChampionID c \<le> 0 \<or> mc_OpponentID c \<le> 0 then [''champion ids must be positive'']
      else problem_if (mc_OpponentID c \<le> mc_ChampionID c) ''only the lower-id direction is published''
           @ (case prev of
                None \<Rightarrow> []
              | Some q \<Rightarrow>
                  problem_if (mc_ChampionID c < mc_ChampionID q
                    \<or> mc_ChampionID c = mc_ChampionID q \<and> mc_OpponentID c < mc_OpponentID q) ''pairs are not in ascending order'')
           @ problem_if (mc_N c < minCellN) ''n is below min_cell_n''
           @ (if mc_Wins c < 0 \<or> mc_N c < mc_Wins c \<or> mc_N c \<le> 0 then [''wins'']
              else problem_if (\<not> closeEnough (mc_WinRate c) (expected_rate (mc_Wins c) (mc_N c))) ''win_rate is not wins/n''
                   @ problem_if (\<not> closeEnough (mc_CI95HalfWidth c) (expected_half_width (mc_N c))) ''ci95_half_width''
                   @ problem_if (mc_ChampionID c \<notin> set axis \<or> mc_OpponentID c \<notin> set axis) ''the champion axis''))"

fun pairs_problems :: "int list \<Rightarrow> int \<Rightarrow> MatchupCell option \<Rightarrow> MatchupCell list \<Rightarrow> problem list" where
  "pairs_problems axis minCellN prev [] = []"
| "pairs_problems axis minCellN prev (c # cs) = pair_problems axis minCellN prev c @ pairs_problems axis minCellN (Some c) cs"

definition checkMatchup :: "(path \<Rightarrow> bool) \<Rightarrow> (doc \<Rightarrow> bool) \<Rightarrow> docs \<Rightarrow> Partition \<Rightarrow> string \<Rightarrow> Role \<Rightarrow> problem list" where
  "checkMatchup rd schema t p source role =
     (if \<not> role_valid role then [''unknown matchup role'']
      else (case read_valid rd schema t (slash_path (MatchupsPath (seg_of p) role)) of
              Inl e \<Rightarrow> [e]
            | Inr (DocMatchups d) \<Rightarrow>
                (let (axis, problems) = axis_of None (mu_Champions d)
                 in checkEnvelope (mu_Envelope d) p source
                    @ problem_if (mu_Role d \<noteq> role) ''role is not the file's''
                    @ problems @ pairs_problems axis (pa_MinCellN p) None (mu_Cells d))
            | Inr d \<Rightarrow> [''schema violation'']))"

text \<open>The listing that looks for orphans is one of directories.\<close>

definition checkMatchups :: "(path \<Rightarrow> bool) \<Rightarrow> (doc \<Rightarrow> bool) \<Rightarrow> docs \<Rightarrow> Partition \<Rightarrow> string \<Rightarrow> problem list" where
  "checkMatchups rd schema t p source =
     (let listed = map (\<lambda>r. Slug r @ ''.json'') (filter role_valid (pa_MatchupRoles p))
      in case readDirNames rd t (slash_path (Seg_Dir (seg_of p)) @ [''matchups'']) of
           None \<Rightarrow> [''matchups cannot be listed''] @ concat (map (checkMatchup rd schema t p source) (pa_MatchupRoles p))
         | Some onDisk \<Rightarrow>
             concat (map (checkMatchup rd schema t p source) (pa_MatchupRoles p))
             @ concat (map (\<lambda>n. problem_if (trim_suffix ''.json'' n \<noteq> None \<and> n \<notin> set listed) ''file is not listed in the manifest'') onDisk))"

section \<open>Partitions and the tree\<close>

definition check_partition :: "(path \<Rightarrow> bool) \<Rightarrow> (doc \<Rightarrow> bool) \<Rightarrow> docs \<Rightarrow> string \<Rightarrow> Partition \<Rightarrow> problem list" where
  "check_partition rd schema t source p =
     (if \<not> Seg_Validate (seg_of p) then [''partition'']
      else if \<not> is_dir t (slash_path (Seg_Dir (seg_of p))) then [''partition directory is missing'']
      else problem_if (pa_CellsPublished p \<le> 0) ''cells_published''
           @ problem_if (pa_MinCellN p < 1) ''min_cell_n''
           @ (case read_valid rd schema t (slash_path (TierListPath (seg_of p))) of
                Inl e \<Rightarrow> [e]
              | Inr (DocTierList d) \<Rightarrow>
                  (let published = length (filter (\<lambda>c. checkCell (pa_MinCellN p) c = []) (tl_Cells d))
                   in checkEnvelope (tl_Envelope d) p source
                      @ concat (map (checkCell (pa_MinCellN p)) (tl_Cells d))
                      @ problem_if (int published \<noteq> pa_CellsPublished p) ''cells_published is not the tier list's''
                      @ checkCellOrder (tl_Cells d)
                      @ checkChampions rd schema t p source
                      @ checkMatchups rd schema t p source)
              | Inr d \<Rightarrow> [''schema violation'']))"

fun duplicatePartitions :: "string set \<Rightarrow> Partition list \<Rightarrow> problem list" where
  "duplicatePartitions seen [] = []"
| "duplicatePartitions seen (p # ps) =
     (let key = Seg_Dir (seg_of p)
      in if key \<in> seen then ''partition is listed more than once'' # duplicatePartitions seen ps
         else duplicatePartitions (insert key seen) ps)"

definition check_latest :: "Manifest \<Rightarrow> problem list" where
  "check_latest m =
     (case ma_Partitions m of
        [] \<Rightarrow> [''no partitions'']
      | p # ps \<Rightarrow>
          (let name = newestPatch (map pa_Patch (p # ps));
               newest = (case find (\<lambda>q. pa_Patch q = name) (p # ps) of Some q \<Rightarrow> q | None \<Rightarrow> p)
           in problem_if (seg_of (ma_Latest m) \<noteq> seg_of newest) ''latest is not the newest partition''))"

definition selectPartitions :: "Seg \<Rightarrow> Partition list \<Rightarrow> Partition list" where
  "selectPartitions seg ps =
     filter (\<lambda>p. (seg_Patch seg = [] \<or> pa_Patch p = seg_Patch seg) \<and> (seg_Region seg = [] \<or> pa_Region p = seg_Region seg)
       \<and> (seg_Queue seg = 0 \<or> pa_Queue p = seg_Queue seg) \<and> (seg_Bracket seg = [] \<or> pa_Bracket p = seg_Bracket seg)) ps"

text \<open>\<^verbatim>\<open>Verify\<close>: no manifest that decodes is an error, otherwise the problems, of which there must be none.\<close>

definition Verify :: "(path \<Rightarrow> bool) \<Rightarrow> (doc \<Rightarrow> bool) \<Rightarrow> docs \<Rightarrow> Seg \<Rightarrow> string \<Rightarrow> problem list option" where
  "Verify rd schema t seg source =
     (case read_file rd t (slash_path ManifestPath) of
        Readable (DocManifest m) \<Rightarrow>
          Some (problem_if (\<not> schema (DocManifest m)) ''schema violation''
                @ problem_if (ma_Schema m \<noteq> SchemaVersion) ''manifest schema''
                @ problem_if (\<not> source_valid (ma_Source m)) ''manifest source''
                @ problem_if (source \<noteq> [] \<and> ma_Source m \<noteq> source) ''manifest source is not the expected one''
                @ duplicatePartitions {} (ma_Partitions m)
                @ check_latest m
                @ problem_if (selectPartitions seg (ma_Partitions m) = []) ''no partition matches''
                @ concat (map (check_partition rd schema t (ma_Source m)) (selectPartitions seg (ma_Partitions m))))
      | x \<Rightarrow> None)"

end
