(* ===== verification/Verify_Props.thy ===== *)
theory Verify_Props
  imports Agg_Verify Cells_Props "HOL-Library.Multiset"
begin

text \<open>
  What the build computes, the verifier accepts: the cells and their order, the documents of a
  champion and of a role. Where the two parts of the program disagree, a lemma shows the input.
\<close>

section \<open>Cells\<close>

lemma problem_if_Nil [simp]: "problem_if b p = [] \<longleftrightarrow> \<not> b"
  by (simp add: problem_if_def)

lemma problem_if_simps [simp]: "problem_if False p = []" "problem_if True p = [p]"
  by (simp_all add: problem_if_def)

lemma closeEnough_self [simp]: "closeEnough w (Some w)"
  by (simp add: closeEnough_def)

lemma closeEnough_rate: "0 < n \<Longrightarrow> closeEnough (round4 (of_int wins / of_int n)) (expected_rate wins n)"
  by (simp add: expected_rate_def)

lemma closeEnough_half_width: "0 < n \<Longrightarrow> closeEnough (half_width n) (expected_half_width n)"
  by (simp add: expected_half_width_def)

lemma tierRankOf_index: "tier_valid t \<Longrightarrow> tierRankOf t = int (grade_index t)"
  by (simp add: tierRankOf_def grade_index_def tier_valid_def)

lemma tierForRate_known [simp]: "0 \<le> tierRankOf (tierForRate b r)"
  by (simp add: tierRankOf_index tierForRate_valid)

text \<open>What the statements that count promise of the tallies.\<close>

definition tallies_proper :: "CellInput \<Rightarrow> bool" where
  "tallies_proper inp =
     ((\<forall>c \<in> set (ci_Counts inp). 0 < cc_ChampionID c \<and> cc_N c \<le> 2 * ci_Matches inp
         \<and> 0 \<le> bans_of (ci_Bans inp) (cc_ChampionID c) \<and> bans_of (ci_Bans inp) (cc_ChampionID c) \<le> ci_Matches inp)
      \<and> distinct (map (\<lambda>c. (RoleFromRiotPosition (cc_Role c), cc_ChampionID c)) (ci_Counts inp)))"

lemma share_bounds: "0 \<le> a \<Longrightarrow> a \<le> b \<Longrightarrow> 0 < b \<Longrightarrow> 0 \<le> round4 (of_int a / of_int b) \<and> round4 (of_int a / of_int b) \<le> 1"
  using rate_bounds [of a b] by (simp add: round4_nonneg round4_le_1)

lemma checkCell_computed:
  assumes "ComputeCells inp = Inr out" and "tallies_proper inp" and "c \<in> set (co_Cells out)"
  shows "checkCell (ci_MinCellN inp) c = []"
proof -
  obtain t role where t: "t \<in> set (ci_Counts inp)" "ci_MinCellN inp \<le> cc_N t" "tally_ok t"
    and role: "RoleFromRiotPosition (cc_Role t) = Some role" and c: "c = cell_of inp (co_BaselineWinRate out) t role"
    using published_cell [OF assms(1,3)] .
  have m: "0 < ci_Matches inp" using ComputeCells_result [OF assms(1)] by simp
  have n: "0 < cc_N t" "0 \<le> cc_Wins t" "cc_Wins t \<le> cc_N t" using t(3) by (simp_all add: tally_ok_def)
  have p: "0 < cc_ChampionID t" "cc_N t \<le> 2 * ci_Matches inp"
    "0 \<le> bans_of (ci_Bans inp) (cc_ChampionID t)" "bans_of (ci_Bans inp) (cc_ChampionID t) \<le> ci_Matches inp"
    using assms(2) t(1) by (auto simp: tallies_proper_def)
  note win = share_bounds [OF n(2,3,1)] and pick = share_bounds [of "cc_N t" "2 * ci_Matches inp"]
    and ban = share_bounds [OF p(3,4) m]
  have "0 \<le> ce_PickRate c" "ce_PickRate c \<le> 1" using pick n(1) p(2) m by (simp_all add: c cell_of_def Let_def)
  moreover have "0 \<le> ce_BanRate c" "ce_BanRate c \<le> 1" using ban by (simp_all add: c cell_of_def Let_def)
  moreover have "0 \<le> ce_WinRate c" "ce_WinRate c \<le> 1" using win by (simp_all add: c cell_of_def Let_def)
  moreover have "closeEnough (ce_WinRate c) (expected_rate (ce_Wins c) (ce_N c))"
    using closeEnough_rate [OF n(1), of "cc_Wins t"] by (simp add: c cell_of_def Let_def)
  moreover have "closeEnough (ce_CI95HalfWidth c) (expected_half_width (ce_N c))"
    using closeEnough_half_width [OF n(1)] by (simp add: c cell_of_def Let_def)
  moreover have "tierBandKnown (ce_Tier c)" by (simp add: c cell_of_def Let_def tierBandKnown_def)
  moreover have "0 < ce_ChampionID c" "role_valid (ce_Role c)" "ci_MinCellN inp \<le> ce_N c" "0 \<le> ce_Wins c" "ce_Wins c \<le> ce_N c"
    using p(1) n t(2) role_of_position [OF role] by (simp_all add: c cell_of_def Let_def)
  ultimately show ?thesis by (simp add: checkCell_def)
qed

section \<open>The order of cells\<close>

lemma cell_key_le:
  "cell_key p \<le> cell_key c \<Longrightarrow> ce_Role p = ce_Role c \<Longrightarrow>
     ce_WinRate c \<le> ce_WinRate p \<and> (ce_WinRate c = ce_WinRate p \<longrightarrow> ce_ChampionID p \<le> ce_ChampionID c)"
  by (auto simp: cell_key_def less_eq_prod_def less_prod_def)

text \<open>\<open>G\<close>: cells of a role are never graded better than a cell before them.\<close>

lemma cell_order_sorted:
  assumes "\<And>c. c \<in> set_option prev \<union> set cs \<Longrightarrow> role_valid (ce_Role c) \<and> 0 \<le> tierRankOf (ce_Tier c)"
    and "sorted (map cell_key (List.map_filter id [prev] @ cs))"
    and "distinct (map (\<lambda>c. (roleRankOf (ce_Role c), ce_ChampionID c)) cs)"
    and "seen \<inter> (\<lambda>c. (roleRankOf (ce_Role c), ce_ChampionID c)) ` set cs = {}"
    and "\<And>p. prev = Some p \<Longrightarrow> prank = tierRankOf (ce_Tier p)"
    and "\<And>a b. G \<Longrightarrow> a \<in> set_option prev \<union> set cs \<Longrightarrow> b \<in> set_option prev \<union> set cs \<Longrightarrow> ce_Role a = ce_Role b \<Longrightarrow>
           cell_key a \<le> cell_key b \<Longrightarrow> tierRankOf (ce_Tier a) \<le> tierRankOf (ce_Tier b)"
  shows "set (cell_order seen prev prank cs) \<subseteq> (if G then {} else {''graded after a better grade''})"
  using assms
proof (induction cs arbitrary: seen prev prank)
  case (Cons c cs)
  let ?key = "(roleRankOf (ce_Role c), ce_ChampionID c)"
  let ?same = "case prev of None \<Rightarrow> False | Some p \<Rightarrow> ce_Role p = ce_Role c"
  have c: "role_valid (ce_Role c)" "0 \<le> tierRankOf (ce_Tier c)" using Cons.prems(1) [of c] by simp_all
  have step: "ce_WinRate c \<le> ce_WinRate (the prev) \<and> (ce_WinRate c = ce_WinRate (the prev) \<longrightarrow> ce_ChampionID (the prev) \<le> ce_ChampionID c)
      \<and> (G \<longrightarrow> prank \<le> tierRankOf (ce_Tier c))" if same: ?same
  proof -
    obtain p where p: "prev = Some p" "ce_Role p = ce_Role c" using same by (cases prev) auto
    then have le: "cell_key p \<le> cell_key c" using Cons.prems(2) by (simp add: map_filter_def)
    show ?thesis using cell_key_le [OF le p(2)] Cons.prems(5) [OF p(1)] Cons.prems(6) [of p c] p le by simp
  qed
  have rest: "set (cell_order (insert ?key seen) (Some c) (tierRankOf (ce_Tier c)) cs) \<subseteq> (if G then {} else {''graded after a better grade''})"
  proof (rule Cons.IH)
    show "role_valid (ce_Role d) \<and> 0 \<le> tierRankOf (ce_Tier d)" if "d \<in> set_option (Some c) \<union> set cs" for d
      using Cons.prems(1) [of d] that by auto
    show "sorted (map cell_key (List.map_filter id [Some c] @ cs))"
      using Cons.prems(2) by (cases prev) (simp_all add: map_filter_def)
    show "distinct (map (\<lambda>c. (roleRankOf (ce_Role c), ce_ChampionID c)) cs)" using Cons.prems(3) by simp
    show "insert ?key seen \<inter> (\<lambda>c. (roleRankOf (ce_Role c), ce_ChampionID c)) ` set cs = {}"
      using Cons.prems(3,4) by auto
    show "tierRankOf (ce_Tier a) \<le> tierRankOf (ce_Tier b)"
      if "G" "a \<in> set_option (Some c) \<union> set cs" "b \<in> set_option (Some c) \<union> set cs" "ce_Role a = ce_Role b" "cell_key a \<le> cell_key b" for a b
      using Cons.prems(6) [OF that(1) _ _ that(4,5)] that(2,3) by auto
  qed simp
  have "?key \<notin> seen" using Cons.prems(4) by simp
  then show ?case using rest c step by (cases ?same) (auto simp: Let_def problem_if_def not_less)
qed simp


text \<open>Two cells of a role whose rates are equal once rounded carry the same grade.\<close>

definition ties_agree :: "Cell list \<Rightarrow> bool" where
  "ties_agree cells =
     (\<forall>a \<in> set cells. \<forall>b \<in> set cells. ce_Role a = ce_Role b \<longrightarrow> ce_WinRate a = ce_WinRate b \<longrightarrow> ce_Tier a = ce_Tier b)"

lemma computed_keys_distinct:
  assumes "ComputeCells inp = Inr out" and "tallies_proper inp"
  shows "distinct (map (\<lambda>c. (roleRankOf (ce_Role c), ce_ChampionID c)) (co_Cells out))"
proof -
  let ?cs = "filter (\<lambda>c. ci_MinCellN inp \<le> cc_N c) (ci_Counts inp)"
  let ?cell = "\<lambda>c. cell_of inp (co_BaselineWinRate out) c (the (RoleFromRiotPosition (cc_Role c)))"
  let ?k = "\<lambda>c. (roleRankOf (ce_Role c), ce_ChampionID c)"
  note r = ComputeCells_result [OF assms(1)]
  have rank_inj: "a = b" if rr: "roleRankOf a = roleRankOf b" "role_valid a" "role_valid b" for a b
    using rr by (auto simp: roleRankOf_def role_rank_def role_valid_def role_defs split: if_splits)
  have "inj_on (\<lambda>c. (RoleFromRiotPosition (cc_Role c), cc_ChampionID c)) (set ?cs)" "distinct ?cs"
    using assms(2) by (auto simp: tallies_proper_def distinct_map inj_on_def)
  moreover have "RoleFromRiotPosition (cc_Role a) = RoleFromRiotPosition (cc_Role b)"
    if ab: "a \<in> set ?cs" "b \<in> set ?cs" "?k (?cell a) = ?k (?cell b)" for a b
  proof -
    obtain ra rb where "RoleFromRiotPosition (cc_Role a) = Some ra" "RoleFromRiotPosition (cc_Role b) = Some rb"
      using ab(1,2) r(5) by (simp only: set_filter mem_Collect_eq) blast
    then show ?thesis using rank_inj [of ra rb] ab(3) role_of_position by (simp add: cell_of_def Let_def)
  qed
  ultimately have "inj_on (?k \<circ> ?cell) (set ?cs)"
    by (auto simp: inj_on_def cell_of_def Let_def)
  then have "distinct (map (?k \<circ> ?cell) ?cs)" using \<open>distinct ?cs\<close> by (simp only: distinct_map)
  moreover have "mset (map ?k (co_Cells out)) = mset (map ?k (map ?cell ?cs))"
    by (simp only: r(6) sortCells_def mset_map mset_sort)
  then have "distinct (map ?k (co_Cells out)) = distinct (map ?k (map ?cell ?cs))" by (rule mset_eq_imp_distinct_iff)
  ultimately show ?thesis by simp
qed

lemma computed_grades_ordered:
  assumes "ComputeCells inp = Inr out" and "ties_agree (co_Cells out)" and "a \<in> set (co_Cells out)" and "b \<in> set (co_Cells out)"
    and "ce_Role a = ce_Role b" and "cell_key a \<le> cell_key b"
  shows "tierRankOf (ce_Tier a) \<le> tierRankOf (ce_Tier b)"
proof (cases "ce_WinRate a = ce_WinRate b")
  case True
  then have "ce_Tier a = ce_Tier b" using assms(2-5) unfolding ties_agree_def by blast
  then show ?thesis by simp
next
  case False
  let ?rate = "\<lambda>t. of_int (cc_Wins t) / of_int (cc_N t) :: rat"
  obtain t role where t: "tally_ok t" "a = cell_of inp (co_BaselineWinRate out) t role" using published_cell [OF assms(1,3)] .
  obtain u role' where u: "tally_ok u" "b = cell_of inp (co_BaselineWinRate out) u role'" using published_cell [OF assms(1,4)] .
  have "ce_WinRate b < ce_WinRate a" using cell_key_le [OF assms(6,5)] False by simp
  then have lt: "round4 (?rate u) < round4 (?rate t)" by (simp add: t u cell_of_def Let_def)
  have "0 \<le> ?rate t" using t(1) by (simp add: tally_ok_def)
  then have "?rate u \<le> ?rate t" using round4_mono [of "?rate t" "?rate u"] lt by linarith
  then show ?thesis using tierForRate_mono
    by (simp add: t u cell_of_def Let_def tierRankOf_index tierForRate_valid)
qed

lemma computed_cells_ordered:
  assumes "ComputeCells inp = Inr out" and "tallies_proper inp"
  shows "set (checkCellOrder (co_Cells out)) \<subseteq> (if ties_agree (co_Cells out) then {} else {''graded after a better grade''})"
  unfolding checkCellOrder_def
proof (rule cell_order_sorted)
  show "role_valid (ce_Role c) \<and> 0 \<le> tierRankOf (ce_Tier c)" if "c \<in> set_option None \<union> set (co_Cells out)" for c
    using checkCell_computed [OF assms, of c] that by (simp add: checkCell_def tierBandKnown_def)
  show "sorted (map cell_key (List.map_filter id [None] @ co_Cells out))"
    using ComputeCells_result(6) [OF assms(1)] by (simp add: map_filter_def sortCells_def)
  show "distinct (map (\<lambda>c. (roleRankOf (ce_Role c), ce_ChampionID c)) (co_Cells out))"
    by (rule computed_keys_distinct [OF assms])
  show "tierRankOf (ce_Tier a) \<le> tierRankOf (ce_Tier b)"
    if "ties_agree (co_Cells out)" "a \<in> set_option None \<union> set (co_Cells out)" "b \<in> set_option None \<union> set (co_Cells out)"
      "ce_Role a = ce_Role b" "cell_key a \<le> cell_key b" for a b
    using computed_grades_ordered [OF assms(1) that(1) _ _ that(4,5)] that(2,3) by simp
qed simp_all

text \<open>
  The verifier accepts what the cell policy computes: no published cell breaks a rule, the cells
  are in order without a duplicate, and the only complaint there can be is about grades. That one
  needs two cells of a role whose rates are rounded to the same value and whose grades differ.
\<close>

theorem verifier_accepts_cells:
  assumes "ComputeCells inp = Inr out" and "tallies_proper inp"
  shows "(\<forall>c \<in> set (co_Cells out). checkCell (ci_MinCellN inp) c = [])
    \<and> set (checkCellOrder (co_Cells out)) \<subseteq> {''graded after a better grade''}
    \<and> (ties_agree (co_Cells out) \<longrightarrow> checkCellOrder (co_Cells out) = [])"
  using checkCell_computed [OF assms] computed_cells_ordered [OF assms] by (auto split: if_splits)

theorem verifier_accepts_cells_witness:
  "checkCellOrder (co_Cells demo_output) = [] \<and> concat (map (checkCell 100) (co_Cells demo_output)) = []"
proof -
  have "tallies_proper demo_cells" by code_simp
  moreover have "ties_agree (co_Cells demo_output)" by code_simp
  moreover have "ci_MinCellN demo_cells = 100" by (simp add: demo_cells_def)
  ultimately show ?thesis using verifier_accepts_cells [OF demo_cells_computed] by simp
qed

text \<open>
  Such a tie: 50.599 and 50.600 per cent are both published as 0.506, one is graded B and the other
  A, and the champion with the lower id comes first. The verifier refuses what the build computed.
\<close>

definition tied_cells :: CellInput where
  "tied_cells = \<lparr>ci_Counts = [\<lparr>cc_ChampionID = 1, cc_Role = ''TOP'', cc_N = 100000, cc_Wins = 50599\<rparr>,
       \<lparr>cc_ChampionID = 2, cc_Role = ''TOP'', cc_N = 100000, cc_Wins = 50600\<rparr>,
       \<lparr>cc_ChampionID = 3, cc_Role = ''TOP'', cc_N = 200000, cc_Wins = 98801\<rparr>],
     ci_Bans = [], ci_Matches = 200000, ci_MinCellN = 100\<rparr>"

lemma equal_rates_break_the_grade_order:
  "tallies_proper tied_cells \<and>
     (case ComputeCells tied_cells of Inl e \<Rightarrow> False | Inr out \<Rightarrow> checkCellOrder (co_Cells out) = [''graded after a better grade''])"
proof -
  have "tallies_proper tied_cells" by code_simp
  moreover have "case ComputeCells tied_cells of Inl e \<Rightarrow> False | Inr out \<Rightarrow> checkCellOrder (co_Cells out) = [''graded after a better grade'']"
    by code_simp
  ultimately show ?thesis ..
qed


section \<open>Builds\<close>

text \<open>
  The tallies of builds: keys of the kind's length, wins within the games, and no more games than
  the champion's cell of that role has.
\<close>

definition builds_proper :: "nat \<Rightarrow> CellInput \<Rightarrow> BuildCount list \<Rightarrow> bool" where
  "builds_proper len inp counts =
     (0 < len \<and> (\<forall>c \<in> set counts. 0 < bc_N c \<longrightarrow> length (bc_Key c) = len \<and> 0 \<le> bc_Wins c \<and> bc_Wins c \<le> bc_N c
        \<and> (\<forall>t \<in> set (ci_Counts inp). cc_ChampionID t = bc_ChampionID c
              \<and> RoleFromRiotPosition (cc_Role t) = RoleFromRiotPosition (bc_Role c) \<longrightarrow> bc_N c \<le> cc_N t)))"

lemma decimal_int_nonempty: "decimal_int n \<noteq> []"
  using decimal_nonempty [of "nat n"] by (simp add: decimal_int_nat)

lemma show_int_nonempty: "show_int n \<noteq> []"
  by (simp add: show_int_def decimal_int_nonempty)

lemma buildLabel_nonempty: "key \<noteq> [] \<Longrightarrow> buildLabel key \<noteq> []"
  by (cases key rule: buildLabel.cases) (simp_all add: show_int_nonempty)

lemma concat_map_Nil: "(\<And>x. x \<in> set xs \<Longrightarrow> f x = []) \<Longrightarrow> concat (map f xs) = []"
  by simp

lemma checkBuilds_computed:
  assumes "builds_proper len inp counts" and "t \<in> set (ci_Counts inp)" and "RoleFromRiotPosition (cc_Role t) = Some role"
  shows "checkBuilds kind (int len) (cc_N t) (computeBuilds kind counts (cc_ChampionID t) role) = []"
  unfolding checkBuilds_def
proof (rule concat_map_Nil)
  fix b assume "b \<in> set (computeBuilds kind counts (cc_ChampionID t) role)"
  then obtain c where b: "b = build_of kind c" and c: "c \<in> set counts" "0 < bc_N c"
    "RoleFromRiotPosition (bc_Role c) = Some role" "bc_ChampionID c = cc_ChampionID t"
    by (auto simp: computeBuilds_def dest!: in_set_takeD)
  have "length (bc_Key c) = len" "0 \<le> bc_Wins c" "bc_Wins c \<le> bc_N c" "bc_N c \<le> cc_N t" "0 < len"
    using assms c by (auto simp: builds_proper_def)
  then show "checkBuild kind (int len) (cc_N t) b = []"
    using c(2) buildLabel_nonempty [of "bc_Key c"] closeEnough_rate [OF c(2), of "bc_Wins c"]
    by (auto simp: checkBuild_def b build_of_def)
qed

lemma computeBuilds_length: "length (computeBuilds kind counts champion role) \<le> MaxBuildsPerRole"
  by (simp add: computeBuilds_def)

section \<open>Champion documents\<close>

lemma roles_listed:
  assumes "distinct roles" and "list_all role_valid roles" and "seen \<inter> set roles = {}"
    and "\<And>role r. role \<in> set roles \<Longrightarrow> g role = Some r \<Longrightarrow> cr_Role r = role \<and> champion_role_problems champion m r = []"
  shows "champion_roles_problems champion m seen (concat (map (\<lambda>role. case g role of None \<Rightarrow> [] | Some r \<Rightarrow> [r]) roles)) = []"
  using assms
proof (induction roles arbitrary: seen)
  case (Cons role roles)
  show ?case
  proof (cases "g role")
    case None
    have "champion_roles_problems champion m seen (concat (map (\<lambda>role. case g role of None \<Rightarrow> [] | Some r \<Rightarrow> [r]) roles)) = []"
      using Cons.prems by (intro Cons.IH) auto
    then show ?thesis by (simp add: None)
  next
    case (Some r)
    then have r: "cr_Role r = role" "champion_role_problems champion m r = []" using Cons.prems(4) [of role r] by simp_all
    have "champion_roles_problems champion m (insert role seen) (concat (map (\<lambda>role. case g role of None \<Rightarrow> [] | Some r \<Rightarrow> [r]) roles)) = []"
      using Cons.prems by (intro Cons.IH) auto
    then show ?thesis using Cons.prems(2,3) r by (simp add: Some)
  qed
qed simp

text \<open>The documents' input, as \<^verbatim>\<open>assemble\<close> makes it from the tallies.\<close>

definition computed_input :: "CellInput \<Rightarrow> CellOutput \<Rightarrow> BuildCount list \<Rightarrow> BuildCount list \<Rightarrow> BuildCount list
    \<Rightarrow> artifactInput \<Rightarrow> bool" where
  "computed_input inp out items runes spells ai =
     (ComputeCells inp = Inr out \<and> tallies_proper inp \<and> ai_Cells ai = out
      \<and> builds_proper 7 inp items \<and> ai_Items ai = computeBuilds ''items'' items
      \<and> builds_proper 6 inp runes \<and> ai_Runes ai = computeBuilds ''runes'' runes
      \<and> builds_proper 2 inp spells \<and> ai_Spells ai = computeBuilds ''spells'' spells)"

lemma found_in: "find P xs = Some x \<Longrightarrow> x \<in> set xs \<and> P x"
  by (auto simp: find_Some_iff)

lemma champion_document_accepted:
  assumes "computed_input inp out items runes spells ai"
  shows "champion_roles_problems champion (ci_MinCellN inp) {} (champion_roles ai champion) = []"
proof -
  let ?cells = "filter (\<lambda>c. ce_ChampionID c = champion) (co_Cells out)"
  let ?g = "\<lambda>role. map_option (\<lambda>c. \<lparr>cr_Role = role, cr_Stats = c, cr_Items = ai_Items ai champion role,
      cr_Runes = ai_Runes ai champion role, cr_Spells = ai_Spells ai champion role\<rparr>) (cellForRole ?cells role)"
  note a = assms [unfolded computed_input_def]
  have "champion_roles ai champion = concat (map (\<lambda>role. case ?g role of None \<Rightarrow> [] | Some r \<Rightarrow> [r]) Roles)"
    using a by (auto simp: champion_roles_def Let_def intro!: arg_cong [where f = concat] split: option.splits)
  moreover have "cr_Role r = role \<and> champion_role_problems champion (ci_MinCellN inp) r = []"
    if "role \<in> set Roles" "?g role = Some r" for role r
  proof -
    obtain c where c: "cellForRole ?cells role = Some c" and r: "r = \<lparr>cr_Role = role, cr_Stats = c, cr_Items = ai_Items ai champion role,
      cr_Runes = ai_Runes ai champion role, cr_Spells = ai_Spells ai champion role\<rparr>"
      using \<open>?g role = Some r\<close> by auto
    have cs: "c \<in> set (co_Cells out)" "ce_ChampionID c = champion" "ce_Role c = role"
      using found_in [of "\<lambda>c. ce_Role c = role" ?cells c] c by (simp_all add: cellForRole_def)
    have cc: "ComputeCells inp = Inr out" using a by simp
    obtain t role' where t: "t \<in> set (ci_Counts inp)" "RoleFromRiotPosition (cc_Role t) = Some role'"
      and cell: "c = cell_of inp (co_BaselineWinRate out) t role'"
      using published_cell [OF cc cs(1)] .
    have t': "cc_ChampionID t = champion" "role' = role" "ce_N c = cc_N t" using cs(2,3) by (simp_all add: cell cell_of_def Let_def)
    note builds = checkBuilds_computed [OF _ t, unfolded t']
    have "checkBuilds ''items'' 7 (ce_N c) (cr_Items r) = []" "checkBuilds ''runes'' 6 (ce_N c) (cr_Runes r) = []"
      "checkBuilds ''spells'' 2 (ce_N c) (cr_Spells r) = []"
      using a builds [of 7] builds [of 6] builds [of 2] t' by (simp_all add: r)
    moreover have "length (cr_Items r) \<le> MaxBuildsPerRole" "length (cr_Runes r) \<le> MaxBuildsPerRole" "length (cr_Spells r) \<le> MaxBuildsPerRole"
      using a computeBuilds_length by (simp_all add: r)
    moreover have "checkCell (ci_MinCellN inp) c = []" using checkCell_computed [of inp out c] a cs(1) by simp
    ultimately show ?thesis using cs(2,3) by (simp add: champion_role_problems_def r)
  qed
  moreover have "distinct Roles" "list_all role_valid Roles" by code_simp+
  ultimately show ?thesis using roles_listed [of Roles "{}" ?g champion "ci_MinCellN inp"] by simp
qed


section \<open>Matchup documents\<close>

definition matchups_proper :: "MatchupCount list \<Rightarrow> bool" where
  "matchups_proper counts =
     (\<forall>c \<in> set counts. 0 < muc_N c \<longrightarrow>
        0 < muc_ChampionID c \<and> muc_ChampionID c < muc_OpponentID c \<and> 0 \<le> muc_Wins c \<and> muc_Wins c \<le> muc_N c)"

lemma axis_of_ascending: "sorted_wrt (<) (List.map_filter id [prev] @ ids) \<Longrightarrow> axis_of prev ids = (ids, [])"
proof (induction ids arbitrary: prev)
  case (Cons c cs)
  have "axis_of (Some c) cs = (cs, [])" using Cons.prems by (intro Cons.IH) (auto simp: sorted_wrt_append map_filter_def)
  then show ?case using Cons.prems by (cases prev) (auto simp: map_filter_def)
qed simp

lemma sortedKeys_ascending: "sorted_wrt (<) (sortedKeys ids)"
  by (simp add: sortedKeys_def strict_sorted_iff)

lemma axis_accepted: "axis_of None (sortedKeys ids) = (sortedKeys ids, [])"
  by (rule axis_of_ascending) (simp add: sortedKeys_ascending map_filter_def)

lemma pairs_accepted:
  assumes "\<And>c. c \<in> set cs \<Longrightarrow> 0 < mc_ChampionID c \<and> mc_ChampionID c < mc_OpponentID c \<and> m \<le> mc_N c
      \<and> 0 \<le> mc_Wins c \<and> mc_Wins c \<le> mc_N c \<and> 0 < mc_N c \<and> closeEnough (mc_WinRate c) (expected_rate (mc_Wins c) (mc_N c))
      \<and> closeEnough (mc_CI95HalfWidth c) (expected_half_width (mc_N c)) \<and> mc_ChampionID c \<in> set axis \<and> mc_OpponentID c \<in> set axis"
    and "sorted (map (\<lambda>c. (mc_ChampionID c, mc_OpponentID c)) cs)"
    and "\<And>q c. prev = Some q \<Longrightarrow> c \<in> set cs \<Longrightarrow> (mc_ChampionID q, mc_OpponentID q) \<le> (mc_ChampionID c, mc_OpponentID c)"
  shows "pairs_problems axis m prev cs = []"
  using assms
proof (induction cs arbitrary: prev)
  case (Cons c cs)
  have "pair_problems axis m prev c = []"
    using Cons.prems(1) [of c] Cons.prems(3) [of _ c] by (auto simp: pair_problems_def split: option.splits)
  moreover have "pairs_problems axis m (Some c) cs = []"
    using Cons.prems by (intro Cons.IH) (auto simp del: less_eq_prod_simp)
  ultimately show ?case by simp
qed simp

lemma matchup_pairs_accepted:
  assumes "matchups_proper counts" and "ai_Matchups ai = computeMatchupCells counts"
  shows "axis_of None (mu_Champions (buildMatchups ai role m)) = (mu_Champions (buildMatchups ai role m), [])"
    and "pairs_problems (mu_Champions (buildMatchups ai role m)) m None (mu_Cells (buildMatchups ai role m)) = []"
proof -
  let ?d = "buildMatchups ai role m"
  let ?pairs = "filter (\<lambda>c. mc_ChampionID c \<noteq> 0 \<and> mc_OpponentID c \<noteq> 0) (computeMatchupCells counts role)"
  have axis: "mu_Champions ?d = sortedKeys (concat (map (\<lambda>c. [mc_ChampionID c, mc_OpponentID c]) ?pairs))"
    and cells: "mu_Cells ?d = filter (\<lambda>c. m \<le> mc_N c) ?pairs"
    by (simp_all add: buildMatchups_def Let_def assms(2))
  show "axis_of None (mu_Champions ?d) = (mu_Champions ?d, [])" unfolding axis by (rule axis_accepted)
  show "pairs_problems (mu_Champions ?d) m None (mu_Cells ?d) = []"
  proof (rule pairs_accepted)
    fix c assume c: "c \<in> set (mu_Cells ?d)"
    then obtain t where t: "t \<in> set counts" "0 < muc_N t" "c = matchup_cell t"
      by (auto simp: cells computeMatchupCells_def)
    have "0 < muc_ChampionID t" "muc_ChampionID t < muc_OpponentID t" "0 \<le> muc_Wins t" "muc_Wins t \<le> muc_N t"
      using assms(1) t(1,2) by (auto simp: matchups_proper_def)
    moreover have "c \<in> set ?pairs" "m \<le> mc_N c" using c by (simp_all add: cells)
    then have "mc_ChampionID c \<in> set (mu_Champions ?d)" "mc_OpponentID c \<in> set (mu_Champions ?d)"
      by (auto simp: axis sortedKeys_def)
    ultimately show "0 < mc_ChampionID c \<and> mc_ChampionID c < mc_OpponentID c \<and> m \<le> mc_N c
      \<and> 0 \<le> mc_Wins c \<and> mc_Wins c \<le> mc_N c \<and> 0 < mc_N c \<and> closeEnough (mc_WinRate c) (expected_rate (mc_Wins c) (mc_N c))
      \<and> closeEnough (mc_CI95HalfWidth c) (expected_half_width (mc_N c))
      \<and> mc_ChampionID c \<in> set (mu_Champions ?d) \<and> mc_OpponentID c \<in> set (mu_Champions ?d)"
      using t(2) \<open>m \<le> mc_N c\<close> closeEnough_rate [OF t(2), of "muc_Wins t"] closeEnough_half_width [OF t(2)]
      by (simp add: t(3) matchup_cell_def)
  next
    show "sorted (map (\<lambda>c. (mc_ChampionID c, mc_OpponentID c)) (mu_Cells ?d))"
      by (simp add: cells computeMatchupCells_def sorted_filter)
  qed simp
qed

section \<open>Two parts that disagree\<close>

text \<open>
  \<^verbatim>\<open>latestOf\<close> lets the partition just built win a tie between regions, the verifier expects the one
  that sorts first: building the second region of a patch publishes a manifest it refuses.
\<close>

lemma tied_regions_fail_verification:
  "(case UpdateManifest id (\<lambda>p. True) [(slash_path ManifestPath, NFile (DocManifest \<lparr>ma_Schema = SchemaVersion,
        ma_Source = SourceRiotMatchV5, ma_GeneratedAt = 0, ma_Latest = zero_partition\<lparr>pa_Patch := ''16.9'', pa_Region := ''EUW''\<rparr>,
        ma_Partitions = [zero_partition\<lparr>pa_Patch := ''16.9'', pa_Region := ''EUW''\<rparr>]\<rparr>))]
        (zero_partition\<lparr>pa_Patch := ''16.9'', pa_Region := ''NA''\<rparr>) SourceRiotMatchV5 7 of
      Inl e \<Rightarrow> False
    | Inr m \<Rightarrow> pa_Region (ma_Latest m) = ''NA'' \<and> check_latest m = [''latest is not the newest partition''])"
  by code_simp

text \<open>
  A file of a role the manifest does not list is not found: the verifier lists the directories of
  \<^verbatim>\<open>matchups\<close>, and the artifacts are files.
\<close>

lemma orphaned_matchup_is_not_seen:
  assumes "pa_MatchupRoles p = []"
    and "t = [(slash_path (Seg_Dir (seg_of p)) @ [''matchups''], NDir), (slash_path (Seg_Dir (seg_of p)) @ [''matchups'', ''top.json''], NFile d)]"
  shows "checkMatchups (\<lambda>q. True) schema t p source = []"
  using assms by (simp add: checkMatchups_def readDirNames_def entries_def)

end
