(* ===== verification/Agg_Gate.thy ===== *)
theory Agg_Gate
  imports Agg_Cells
begin

text \<open>
  The fail-closed gates (\<^verbatim>\<open>internal/aggregate/gate.go\<close>), the provenance check (\<^verbatim>\<open>provenance.go\<close>), the
  choice of the patch (\<^verbatim>\<open>extract.go\<close>) and the classification of a failure (\<^verbatim>\<open>audit.go\<close>). A build error
  is the list of the sentinels it wraps, in the order \<^verbatim>\<open>errors.Join\<close> keeps them, with \<open>OtherErr\<close> for
  an error that wraps none; the empty list is \<^verbatim>\<open>nil\<close>.
\<close>

section \<open>Errors\<close>

datatype build_err =
    ErrMalformedArchive | ErrEmptyWindow | ErrReconciliation | ErrSuppressionMajority | ErrRejectedRows
  | ErrNoPublishedCells | ErrArchiveEmpty | ErrUnrecordedProvenance | OtherErr string

type_synonym err = "build_err list"

definition knownFailures :: "(build_err \<times> string) list" where
  "knownFailures =
     [(ErrArchiveEmpty, ''archive_empty''), (ErrMalformedArchive, ''malformed_archive''), (ErrEmptyWindow, ''empty_window''),
      (ErrUnrecordedProvenance, ''unrecorded_provenance''), (ErrRejectedRows, ''rejected_rows''),
      (ErrReconciliation, ''reconciliation''), (ErrSuppressionMajority, ''suppression_majority''),
      (ErrNoPublishedCells, ''no_published_cells'')]"

definition FailureReason :: "err \<Rightarrow> string" where
  "FailureReason e =
     (if e = [] then ''none''
      else (case find (\<lambda>(sentinel, reason). sentinel \<in> set e) knownFailures of
              Some (sentinel, reason) \<Rightarrow> reason
            | None \<Rightarrow> ''other''))"

definition quarantineErrors :: "build_err list" where
  "quarantineErrors =
     [ErrMalformedArchive, ErrEmptyWindow, ErrRejectedRows, ErrReconciliation, ErrSuppressionMajority, ErrNoPublishedCells,
      ErrArchiveEmpty]"

definition auditStatusFor :: "err \<Rightarrow> string" where
  "auditStatusFor e =
     (if e = [] then ''ok'' else if list_ex (\<lambda>s. s \<in> set e) quarantineErrors then ''quarantined'' else ''failed'')"

section \<open>Gates\<close>

record GateConfig =
  gc_MinCellN :: int
  gc_MinConfidentShare :: rat
  gc_ReconcileTolerance :: int
  gc_MaxRejectedRows :: int
  gc_MaxRejectedRate :: rat
  gc_RequireProvenance :: bool

definition DefaultGateConfig :: "int \<Rightarrow> GateConfig" where
  "DefaultGateConfig n = \<lparr>gc_MinCellN = n, gc_MinConfidentShare = 1 / 2, gc_ReconcileTolerance = 0,
     gc_MaxRejectedRows = 0, gc_MaxRejectedRate = 0, gc_RequireProvenance = False\<rparr>"

definition AllowedRejectedRows :: "GateConfig \<Rightarrow> int \<Rightarrow> int" where
  "AllowedRejectedRows cfg participantRows =
     (if participantRows \<le> 0 \<or> gc_MaxRejectedRate cfg \<le> 0 then gc_MaxRejectedRows cfg
      else (let ceil_rows = \<lceil>gc_MaxRejectedRate cfg * of_int participantRows\<rceil>
            in if gc_MaxRejectedRows cfg < ceil_rows then ceil_rows else gc_MaxRejectedRows cfg))"

record GateCounts =
  gt_ArchiveRows :: int
  gt_MalformedRows :: int
  gt_MatchesUsed :: int
  gt_ParticipantRows :: int
  gt_RejectedRows :: int
  gt_CellsTotal :: int
  gt_CellsPublished :: int
  gt_CellsSuppressed :: int
  gt_SumN :: int
  gt_ClassifiedRows :: int
  gt_SumNPublished :: int

definition CheckArchive :: "GateCounts \<Rightarrow> err" where
  "CheckArchive c =
     (if gt_ArchiveRows c = 0 then [ErrEmptyWindow] else []) @ (if 0 < gt_MalformedRows c then [ErrMalformedArchive] else [])"

definition CheckInput :: "GateConfig \<Rightarrow> GateCounts \<Rightarrow> err" where
  "CheckInput cfg c =
     CheckArchive c
     @ (if gt_MatchesUsed c = 0 \<or> gt_ClassifiedRows c = 0 then [ErrEmptyWindow] else [])
     @ (if AllowedRejectedRows cfg (gt_ParticipantRows c) < gt_RejectedRows c then [ErrRejectedRows] else [])"

definition CheckOutput :: "GateConfig \<Rightarrow> GateCounts \<Rightarrow> err" where
  "CheckOutput cfg c =
     (if gc_ReconcileTolerance cfg < \<bar>gt_SumN c - gt_ClassifiedRows c\<bar> then [ErrReconciliation] else [])
     @ (if 0 < gt_CellsTotal c \<and> gt_CellsPublished c = 0 then [ErrNoPublishedCells]
        else if 0 < gt_CellsTotal c then
          (let share = of_int (gt_CellsPublished c) / of_int (gt_CellsTotal c)
           in if share < gc_MinConfidentShare cfg then [ErrSuppressionMajority] else [])
        else [])"

definition CheckGates :: "GateConfig \<Rightarrow> GateCounts \<Rightarrow> err" where
  "CheckGates cfg c = CheckInput cfg c @ CheckOutput cfg c"

section \<open>Provenance\<close>

definition UnknownGitSHA :: string where
  "UnknownGitSHA = ''unknown''"

definition is_hex :: "char \<Rightarrow> bool" where
  "is_hex c = (is_digit c \<or> 97 \<le> (of_char c :: nat) \<and> (of_char c :: nat) \<le> 102)"

definition IsRevision :: "string \<Rightarrow> bool" where
  "IsRevision sha =
     (let s = map lower_char (trim_space sha) in 7 \<le> length s \<and> length s \<le> 40 \<and> list_all is_hex s)"

definition ProvenanceProblem :: "string \<Rightarrow> int \<Rightarrow> string list" where
  "ProvenanceProblem gitSHA buildRunID =
     (if IsRevision gitSHA then [] else [''git_sha is not a revision''])
     @ (if buildRunID \<le> 0 then [''build_run_id names no build_runs row''] else [])"

definition checkProvenance :: "GateConfig \<Rightarrow> string \<Rightarrow> int \<Rightarrow> err" where
  "checkProvenance cfg gitSHA buildRunID =
     (if \<not> gc_RequireProvenance cfg \<or> ProvenanceProblem gitSHA buildRunID = [] then [] else [ErrUnrecordedProvenance])"

section \<open>The patch of a build\<close>

record patchRow =
  pr_Patch :: string
  pr_Matches :: int
  pr_ParticipantRows :: int

text \<open>
  The loop over the rows stops at the first patch that does not parse. The patches are then taken
  out of a map, in the order \<open>ord\<close> the runtime ranges over it.
\<close>

definition choosePatch :: "(string list \<Rightarrow> string list) \<Rightarrow> patchRow list \<Rightarrow> string \<Rightarrow> err + patchRow" where
  "choosePatch ord rows pinned =
     (if list_ex (\<lambda>r. splitPatch (pr_Patch r) = None) rows then Inl [ErrMalformedArchive]
      else if rows = [] then Inl [ErrEmptyWindow]
      else if pinned \<noteq> [] \<and> pinned \<notin> set (map pr_Patch rows) then Inl [ErrEmptyWindow]
      else (let chosen = (if pinned = [] then newestPatch (ord (remdups (map pr_Patch rows))) else pinned)
            in case find (\<lambda>r. pr_Patch r = chosen) rows of
                 Some r \<Rightarrow> Inr r
               | None \<Rightarrow> Inl [ErrEmptyWindow]))"

definition row_agrees :: "patchRow list \<Rightarrow> patchRow \<Rightarrow> bool" where
  "row_agrees envelope r =
     (case find (\<lambda>e. pr_Patch e = pr_Patch r) (rev envelope) of
        None \<Rightarrow> False
      | Some e \<Rightarrow> pr_Matches e = pr_Matches r \<and> pr_ParticipantRows e = pr_ParticipantRows r)"

definition checkPatchEvidence :: "patchRow list \<Rightarrow> patchRow list \<Rightarrow> bool" where
  "checkPatchEvidence envelope features =
     (list_all (row_agrees envelope) features \<and> length features = length envelope)"

end
