(* ===== verification/Agg_Build.thy ===== *)
theory Agg_Build
  imports Agg_Gate Agg_Manifest Store_Matches
begin

text \<open>
  One build of the tier list (\<^verbatim>\<open>internal/aggregate/build.go\<close>, \<^verbatim>\<open>extract.go\<close>, \<^verbatim>\<open>assemble.go\<close>, the
  store's side of \<^verbatim>\<open>audit.go\<close>): plan the archive, choose the patch, open the audit row, read the
  tallies, pass the gates, assemble the documents in the staging tree, publish, close the row.
  DuckDB is not part of the sources: what its statements leave in the files the build reads back is
  a parameter. File operations and statements of the store share the outcomes of \<open>Agg_Publish\<close>.
\<close>

section \<open>The engine's answers\<close>

record windowStatsRow =
  ws_MatchesUsed :: int
  ws_ParticipantRows :: int
  ws_RejectedRows :: int

record tallies =
  ta_window :: "windowStatsRow list"
  ta_cells :: "CellCount list"
  ta_bans :: "BanCount list"
  ta_items :: "BuildCount list"
  ta_runes :: "BuildCount list"
  ta_spells :: "BuildCount list"
  ta_matchups :: "MatchupCount list"

text \<open>
  The dates of the archive's parts (\<open>None\<close>: the archive cannot be read), whether the parts can be
  staged, and what each phase of statements answers (\<open>None\<close>: it fails or its file cannot be read).
\<close>

record engine =
  en_parts :: "string list option"
  en_staged :: bool
  en_opens :: bool
  en_envelope :: bool
  en_envelope_patches :: "patchRow list option"
  en_extract :: "((int \<times> int) list \<times> patchRow list) option"
  en_reduce :: "string \<Rightarrow> tallies option"

section \<open>Options and state\<close>

record build_opts =
  bo_roots :: bool
  bo_Region :: string
  bo_Queue :: int
  bo_Bracket :: string
  bo_Patch :: string
  bo_WindowEnd :: string
  bo_WindowDays :: int
  bo_MinCellN :: int
  bo_Gates :: GateConfig
  bo_GitSHA :: string
  bo_auditor :: bool
  bo_store_region :: string

definition DefaultWindowDays :: int where
  "DefaultWindowDays = 14"

definition normalize_build :: "build_opts \<Rightarrow> build_opts" where
  "normalize_build opt =
     opt\<lparr>bo_WindowDays := (if bo_WindowDays opt = 0 then DefaultWindowDays else bo_WindowDays opt),
         bo_Gates := (if gc_MinCellN (bo_Gates opt) = 0 then DefaultGateConfig (bo_MinCellN opt) else bo_Gates opt),
         bo_Bracket := (if bo_Bracket opt = [] then BracketAll else bo_Bracket opt)\<rparr>"

record bstate =
  bs_seg :: Seg
  bs_window :: Window
  bs_archive :: "int \<times> int"
  bs_stats :: windowStatsRow
  bs_counts :: GateCounts
  bs_cells :: CellOutput
  bs_envelope :: "patchRow list option"
  bs_tallies :: tallies
  bs_run :: int
  bs_partition :: Partition

record bworld =
  bw_fs :: "doc fs"
  bw_runs :: "BuildRow list \<times> int"
  bw_now :: gtime

definition zero_counts :: GateCounts where
  "zero_counts = \<lparr>gt_ArchiveRows = 0, gt_MalformedRows = 0, gt_MatchesUsed = 0, gt_ParticipantRows = 0, gt_RejectedRows = 0,
     gt_CellsTotal = 0, gt_CellsPublished = 0, gt_CellsSuppressed = 0, gt_SumN = 0, gt_ClassifiedRows = 0, gt_SumNPublished = 0\<rparr>"

definition zero_cells :: CellOutput where
  "zero_cells = \<lparr>co_Cells = [], co_ChampionsAscending = [], co_Total = 0, co_Suppressed = 0, co_SumN = 0,
     co_SumNPublished = 0, co_BaselineWinRate = 0\<rparr>"

definition zero_tallies :: tallies where
  "zero_tallies = \<lparr>ta_window = [], ta_cells = [], ta_bans = [], ta_items = [], ta_runes = [], ta_spells = [], ta_matchups = []\<rparr>"

definition seg_of_opts :: "build_opts \<Rightarrow> Seg" where
  "seg_of_opts opt =
     \<lparr>seg_Patch = bo_Patch opt, seg_Region = bo_Region opt, seg_Queue = bo_Queue opt, seg_Bracket = bo_Bracket opt\<rparr>"

definition new_bstate :: "build_opts \<Rightarrow> Window \<Rightarrow> bstate" where
  "new_bstate opt window =
     \<lparr>bs_seg = seg_of_opts opt, bs_window = window, bs_archive = (0, 0),
      bs_stats = \<lparr>ws_MatchesUsed = 0, ws_ParticipantRows = 0, ws_RejectedRows = 0\<rparr>,
      bs_counts = zero_counts, bs_cells = zero_cells, bs_envelope = None, bs_tallies = zero_tallies, bs_run = 0,
      bs_partition = zero_partition\<rparr>"

section \<open>Planning\<close>

definition max_date :: "string list \<Rightarrow> string" where
  "max_date dates = fold (\<lambda>d e. if e < d then d else e) dates []"

definition planArchive :: "engine \<Rightarrow> build_opts \<Rightarrow> err + Window" where
  "planArchive eng opt =
     (case en_parts eng of
        None \<Rightarrow> Inl [OtherErr ''read raw archive'']
      | Some dates \<Rightarrow>
          (if dates = [] then Inl [ErrArchiveEmpty]
           else (case windowForEnd (if bo_WindowEnd opt = [] then max_date dates else bo_WindowEnd opt) (bo_WindowDays opt) of
                   None \<Rightarrow> Inl [OtherErr ''window'']
                 | Some window \<Rightarrow>
                     if filter (\<lambda>d. \<not> d < win_From window) dates = [] then Inl [ErrArchiveEmpty] else Inr window)))"

section \<open>Choosing the patch, opening the row\<close>

definition resolvePatch :: "(string list \<Rightarrow> string list) \<Rightarrow> engine \<Rightarrow> build_opts \<Rightarrow> bstate \<Rightarrow> bstate" where
  "resolvePatch ord eng opt b =
     (case en_envelope_patches eng of
        None \<Rightarrow> b
      | Some rows \<Rightarrow>
          (case choosePatch ord rows (bo_Patch opt) of
             Inl e \<Rightarrow> b
           | Inr r \<Rightarrow> b\<lparr>bs_envelope := Some rows, bs_seg := (bs_seg b)\<lparr>seg_Patch := pr_Patch r\<rparr>\<rparr>))"

definition build_run_row :: "build_opts \<Rightarrow> string \<Rightarrow> gtime \<Rightarrow> BuildRow" where
  "build_run_row opt patch now =
     \<lparr>br_ID = 0, br_Patch = patch, br_Region = bo_Region opt, br_Queue = bo_Queue opt, br_Bracket = bo_Bracket opt,
      br_StartedAt = now, br_GitSHA = bo_GitSHA opt, br_FinishedAt = None, br_Status = BuildRunning, br_Total = 0,
      br_Published = 0, br_Suppressed = 0, br_URI = None, br_Err = None\<rparr>"

definition tick_world :: "bworld \<Rightarrow> bworld" where
  "tick_world w = w\<lparr>bw_fs := tick (bw_fs w)\<rparr>"

definition openAudit :: "outcomes \<Rightarrow> build_opts \<Rightarrow> bstate \<Rightarrow> bworld \<Rightarrow> bstate \<times> bworld" where
  "openAudit E opt b w =
     (if \<not> bo_auditor opt then (b, w)
      else if \<not> step_ok E (bw_fs w) then (b, tick_world w)
      else (case StartBuildRun (bo_store_region opt) (bw_now w) (build_run_row opt (seg_Patch (bs_seg b)) (bw_now w)) (bw_runs w) of
              (Inl e, tab) \<Rightarrow> (b, (tick_world w)\<lparr>bw_runs := tab\<rparr>)
            | (Inr i, tab) \<Rightarrow> (b\<lparr>bs_run := i\<rparr>, (tick_world w)\<lparr>bw_runs := tab\<rparr>)))"

definition err_text :: "err \<Rightarrow> string" where
  "err_text e = (if e = [] then [] else FailureReason e)"

definition finishAudit :: "outcomes \<Rightarrow> err \<Rightarrow> bstate \<Rightarrow> bworld \<Rightarrow> bworld" where
  "finishAudit E e b w =
     (if bs_run b = 0 then w
      else if \<not> step_ok E (bw_fs w) then tick_world w
      else (let res = \<lparr>bres_Status = auditStatusFor e, bres_FinishedAt = bw_now w, bres_Total = gt_CellsTotal (bs_counts b),
                       bres_Published = gt_CellsPublished (bs_counts b), bres_Suppressed = gt_CellsSuppressed (bs_counts b),
                       bres_URI = ''/agg/'' @ Seg_Dir (bs_seg b), bres_Err = err_text e\<rparr>
            in (tick_world w)\<lparr>bw_runs := snd (FinishBuildRun (bs_run b) res (bw_runs w))\<rparr>))"

section \<open>Reading the tallies, passing the gates\<close>

definition extract_phase :: "(string list \<Rightarrow> string list) \<Rightarrow> engine \<Rightarrow> build_opts \<Rightarrow> bstate \<Rightarrow> err \<times> bstate" where
  "extract_phase ord eng opt b =
     (case en_extract eng of
        None \<Rightarrow> ([OtherErr ''extract''], b)
      | Some (stats, rows) \<Rightarrow>
          (case stats of
             [(archiveRows, malformed)] \<Rightarrow>
               (let b1 = b\<lparr>bs_archive := (archiveRows, malformed)\<rparr>;
                    gate = CheckArchive (zero_counts\<lparr>gt_ArchiveRows := archiveRows, gt_MalformedRows := malformed\<rparr>)
                in if gate \<noteq> [] then (gate, b1)
                   else (case choosePatch ord rows (bo_Patch opt) of
                           Inl e \<Rightarrow> (e, b1)
                         | Inr r \<Rightarrow>
                             (if (case bs_envelope b1 of None \<Rightarrow> False | Some env \<Rightarrow> \<not> checkPatchEvidence env rows)
                              then ([OtherErr ''patch evidence''], b1)
                              else ([], b1\<lparr>bs_seg := (bs_seg b1)\<lparr>seg_Patch := pr_Patch r\<rparr>\<rparr>))))
           | x \<Rightarrow> ([OtherErr ''archive statistics''], b)))"

definition reduce :: "engine \<Rightarrow> bstate \<Rightarrow> err \<times> bstate" where
  "reduce eng b =
     (case en_reduce eng (seg_Patch (bs_seg b)) of
        None \<Rightarrow> ([OtherErr ''reduce''], b)
      | Some ta \<Rightarrow>
          (case ta_window ta of
             [st] \<Rightarrow> ([], b\<lparr>bs_stats := st, bs_tallies := ta\<rparr>)
           | x \<Rightarrow> ([OtherErr ''window statistics''], b)))"

definition input_counts :: "bstate \<Rightarrow> GateCounts" where
  "input_counts b =
     zero_counts\<lparr>gt_ArchiveRows := fst (bs_archive b), gt_MalformedRows := snd (bs_archive b),
       gt_MatchesUsed := ws_MatchesUsed (bs_stats b), gt_ParticipantRows := ws_ParticipantRows (bs_stats b),
       gt_RejectedRows := ws_RejectedRows (bs_stats b),
       gt_ClassifiedRows := ws_ParticipantRows (bs_stats b) - ws_RejectedRows (bs_stats b)\<rparr>"

definition checkInputGates :: "build_opts \<Rightarrow> bstate \<Rightarrow> err \<times> bstate" where
  "checkInputGates opt b =
     (let b1 = b\<lparr>bs_counts := input_counts b\<rparr> in (CheckInput (bo_Gates opt) (bs_counts b1), b1))"

definition computeCells :: "build_opts \<Rightarrow> bstate \<Rightarrow> err \<times> bstate" where
  "computeCells opt b =
     (case ComputeCells \<lparr>ci_Counts = ta_cells (bs_tallies b), ci_Bans = ta_bans (bs_tallies b),
                         ci_Matches = ws_MatchesUsed (bs_stats b), ci_MinCellN = bo_MinCellN opt\<rparr> of
        Inl e \<Rightarrow> ([OtherErr ''compute cells''], b)
      | Inr cells \<Rightarrow> ([], b\<lparr>bs_cells := cells\<rparr>))"

definition output_counts :: "bstate \<Rightarrow> GateCounts" where
  "output_counts b =
     (bs_counts b)\<lparr>gt_CellsTotal := co_Total (bs_cells b), gt_CellsPublished := int (length (co_Cells (bs_cells b))),
       gt_CellsSuppressed := co_Suppressed (bs_cells b), gt_SumN := co_SumN (bs_cells b),
       gt_SumNPublished := co_SumNPublished (bs_cells b),
       gt_ClassifiedRows := ws_ParticipantRows (bs_stats b) - ws_RejectedRows (bs_stats b)\<rparr>"

definition checkOutputGates :: "build_opts \<Rightarrow> bstate \<Rightarrow> err \<times> bstate" where
  "checkOutputGates opt b =
     (let b1 = b\<lparr>bs_counts := output_counts b\<rparr> in (CheckOutput (bo_Gates opt) (bs_counts b1), b1))"

section \<open>Assembling\<close>

definition envelope_of :: "build_opts \<Rightarrow> bstate \<Rightarrow> gtime \<Rightarrow> Envelope" where
  "envelope_of opt b now =
     \<lparr>env_Schema = SchemaVersion, env_Source = SourceRiotMatchV5, env_Patch = seg_Patch (bs_seg b),
      env_Region = seg_Region (bs_seg b), env_Queue = seg_Queue (bs_seg b), env_Bracket = seg_Bracket (bs_seg b),
      env_GeneratedAt = now, env_SourceWindow = bs_window b, env_MinCellN = bo_MinCellN opt,
      env_SuppressedCells = co_Suppressed (bs_cells b)\<rparr>"

definition artifact_input :: "(int \<Rightarrow> string) \<Rightarrow> build_opts \<Rightarrow> bstate \<Rightarrow> gtime \<Rightarrow> artifactInput" where
  "artifact_input slugs opt b now =
     \<lparr>ai_Envelope = envelope_of opt b now, ai_Cells = bs_cells b,
      ai_Items = computeBuilds ''items'' (ta_items (bs_tallies b)), ai_Runes = computeBuilds ''runes'' (ta_runes (bs_tallies b)),
      ai_Spells = computeBuilds ''spells'' (ta_spells (bs_tallies b)),
      ai_Matchups = computeMatchupCells (ta_matchups (bs_tallies b)), ai_ChampionSlugs = slugs\<rparr>"

definition new_partition :: "build_opts \<Rightarrow> bstate \<Rightarrow> gtime \<Rightarrow> Partition" where
  "new_partition opt b now =
     \<lparr>pa_Patch = seg_Patch (bs_seg b), pa_Region = seg_Region (bs_seg b), pa_Queue = seg_Queue (bs_seg b),
      pa_Bracket = seg_Bracket (bs_seg b), pa_GeneratedAt = now, pa_SourceWindow = bs_window b, pa_MinCellN = bo_MinCellN opt,
      pa_SuppressedCells = co_Suppressed (bs_cells b), pa_CellsPublished = int (length (co_Cells (bs_cells b))),
      pa_BuildRunID = bs_run b, pa_GitSHA = bo_GitSHA opt, pa_Champions = co_ChampionsAscending (bs_cells b),
      pa_MatchupRoles = Roles\<rparr>"

text \<open>\<^verbatim>\<open>writeDoc\<close> into the staging tree.\<close>

definition put_doc :: "path \<Rightarrow> doc \<Rightarrow> docs \<Rightarrow> docs" where
  "put_doc p d t = (p, NFile d) # filter (\<lambda>(q, n). q \<noteq> p) (mkdirs (parent p) t)"

fun write_docs :: "outcomes \<Rightarrow> (string \<times> doc) list \<Rightarrow> bworld \<Rightarrow> bool \<times> bworld" where
  "write_docs E [] w = (True, w)"
| "write_docs E ((rel, d) # ds) w =
     (let s = bw_fs w
      in if step_ok E s \<and> \<not> blocked (parent (slash_path rel)) (fs_stage s) \<and> \<not> is_dir (fs_stage s) (slash_path rel)
         then write_docs E ds (w\<lparr>bw_fs := (tick s)\<lparr>fs_stage := put_doc (slash_path rel) d (fs_stage s)\<rparr>\<rparr>)
         else (False, tick_world w))"

definition partition_docs :: "artifactInput \<Rightarrow> Seg \<Rightarrow> int \<Rightarrow> (string \<times> doc) list" where
  "partition_docs inp seg minCellN =
     (TierListPath seg, DocTierList (buildTierList inp))
     # map (\<lambda>(id, c). (ChampionPath seg id, DocChampion c)) (buildChampions inp)
     @ map (\<lambda>role. (MatchupsPath seg role, DocMatchups (buildMatchups inp role minCellN))) Roles"

definition assemble :: "(Partition list \<Rightarrow> Partition list) \<Rightarrow> (path \<Rightarrow> bool) \<Rightarrow> outcomes \<Rightarrow> build_opts \<Rightarrow> bstate \<Rightarrow> bworld
    \<Rightarrow> err \<times> bstate \<times> bworld" where
  "assemble ordp rd E opt b w =
     (let inp = artifact_input (loadChampionSlugs rd (fs_live (bw_fs w))) opt b (bw_now w);
          part = new_partition opt b (bw_now w)
      in case write_docs E (partition_docs inp (bs_seg b) (bo_MinCellN opt)) w of
           (False, w1) \<Rightarrow> ([OtherErr ''write''], b, w1)
         | (True, w1) \<Rightarrow>
             (let b1 = b\<lparr>bs_partition := part\<rparr>
              in case UpdateManifest ordp rd (fs_live (bw_fs w1)) part SourceRiotMatchV5 (bw_now w) of
                   Inl e \<Rightarrow> ([OtherErr ''manifest''], b1, w1)
                 | Inr m \<Rightarrow>
                     (case write_docs E [(ManifestPath, DocManifest m)] w1 of
                        (False, w2) \<Rightarrow> ([OtherErr ''write''], b1, w2)
                      | (True, w2) \<Rightarrow> ([], b1, w2))))"

definition publishLive :: "outcomes \<Rightarrow> bstate \<Rightarrow> bworld \<Rightarrow> err \<times> bworld" where
  "publishLive E b w =
     (case Publish E [slash_path (Seg_Dir (bs_seg b))] [] (slash_path ManifestPath) (bw_fs w) of
        (None, r, s) \<Rightarrow> ([], w\<lparr>bw_fs := s\<rparr>)
      | (Some e, r, s) \<Rightarrow> ([OtherErr ''publish''], w\<lparr>bw_fs := s\<rparr>))"

section \<open>The run\<close>

text \<open>The phases that only compute, each stopping the run at its first error.\<close>

fun phases :: "(bstate \<Rightarrow> err \<times> bstate) list \<Rightarrow> bstate \<Rightarrow> err \<times> bstate" where
  "phases [] b = ([], b)"
| "phases (f # fs) b = (let (e, b1) = f b in if e \<noteq> [] then (e, b1) else phases fs b1)"

definition compute :: "(string list \<Rightarrow> string list) \<Rightarrow> engine \<Rightarrow> build_opts \<Rightarrow> bstate \<Rightarrow> err \<times> bstate" where
  "compute ord eng opt b =
     phases [extract_phase ord eng opt, reduce eng, checkInputGates opt, computeCells opt, checkOutputGates opt] b"

definition run_phases :: "(string list \<Rightarrow> string list) \<Rightarrow> (Partition list \<Rightarrow> Partition list) \<Rightarrow> (path \<Rightarrow> bool) \<Rightarrow> outcomes
    \<Rightarrow> engine \<Rightarrow> build_opts \<Rightarrow> bstate \<Rightarrow> bworld \<Rightarrow> err \<times> bstate \<times> bworld" where
  "run_phases ord ordp rd E eng opt b w =
     (if \<not> en_envelope eng then ([OtherErr ''envelope''], b, w)
      else (let (b1, w1) = openAudit E opt (resolvePatch ord eng opt b) w;
                prov = checkProvenance (bo_Gates opt) (bo_GitSHA opt) (bs_run b1)
            in if prov \<noteq> [] then (prov, b1, w1)
               else (case compute ord eng opt b1 of
                       (x # xs, b2) \<Rightarrow> (x # xs, b2, w1)
                     | ([], b2) \<Rightarrow>
                         (case assemble ordp rd E opt b2 w1 of
                            (x # xs, b3, w2) \<Rightarrow> (x # xs, b3, w2)
                          | ([], b3, w2) \<Rightarrow> (let (e, w3) = publishLive E b3 w2 in (e, b3, w3))))))"

text \<open>The deferred \<^verbatim>\<open>finishAudit\<close> closes the row on every path.\<close>

definition run_build :: "(string list \<Rightarrow> string list) \<Rightarrow> (Partition list \<Rightarrow> Partition list) \<Rightarrow> (path \<Rightarrow> bool) \<Rightarrow> outcomes
    \<Rightarrow> engine \<Rightarrow> build_opts \<Rightarrow> bstate \<Rightarrow> bworld \<Rightarrow> err \<times> bstate \<times> bworld" where
  "run_build ord ordp rd E eng opt b w =
     (if \<not> en_opens eng then ([OtherErr ''engine''], b, w)
      else (let (e, b1, w1) = run_phases ord ordp rd E eng opt b w in (e, b1, finishAudit E e b1 w1)))"

definition BuildAgg :: "(string list \<Rightarrow> string list) \<Rightarrow> (Partition list \<Rightarrow> Partition list) \<Rightarrow> (path \<Rightarrow> bool) \<Rightarrow> outcomes
    \<Rightarrow> engine \<Rightarrow> build_opts \<Rightarrow> bworld \<Rightarrow> err \<times> bstate \<times> bworld" where
  "BuildAgg ord ordp rd E eng opt0 w =
     (let opt = normalize_build opt0; b0 = new_bstate opt \<lparr>win_From = [], win_To = []\<rparr>
      in if bo_MinCellN opt \<le> 0 then ([OtherErr ''min_cell_n''], b0, w)
         else if \<not> bo_roots opt then ([OtherErr ''roots''], b0, w)
         else if refuseDemoTree rd (fs_live (bw_fs w)) then ([OtherErr ''demo tree''], b0, w)
         else if bo_WindowEnd opt \<noteq> [] \<and> parseDate (bo_WindowEnd opt) = None then ([OtherErr ''window end''], b0, w)
         else if \<not> step_ok E (bw_fs w) then ([OtherErr ''create root''], b0, tick_world w)
         else if \<not> step_ok E (tick (bw_fs w)) then ([OtherErr ''create staging''], b0, tick_world (tick_world w))
         else (let w1 = tick_world (tick_world w)
               in case planArchive eng opt of
                    Inl e \<Rightarrow> (e, b0, w1)
                  | Inr window \<Rightarrow>
                      (if \<not> en_staged eng then ([OtherErr ''stage parts''], b0, w1)
                       else (let (e, b, w2) = run_build ord ordp rd E eng opt (new_bstate opt window)
                                                (w1\<lparr>bw_fs := (bw_fs w1)\<lparr>fs_stage := []\<rparr>\<rparr>)
                             in (e, b, w2\<lparr>bw_fs := (bw_fs w2)\<lparr>fs_stage := []\<rparr>\<rparr>)))))"

end
