(* ===== verification/Assemble_Props.thy ===== *)
theory Assemble_Props
  imports Agg_Build Verify_Props Publish_Props Date_Props
begin

text \<open>
  The staging tree: what writing a list of documents leaves in it, and where the documents of a
  partition go; then what a successful publish of one directory makes of the live tree.
\<close>

section \<open>Paths\<close>

lemma split_on_append: "split_on sep (a @ sep # b) = split_on sep a @ split_on sep b"
proof (induction a)
  case (Cons c a)
  then show ?case using split_on_nonempty [of sep a] by (cases "split_on sep a") auto
qed simp

lemma slash_path_append: "slash_path (a @ CHR ''/'' # b) = slash_path a @ slash_path b"
  by (simp add: slash_path_def split_on_append)

lemma slash_path_name: "CHR ''/'' \<notin> set a \<Longrightarrow> slash_path a = [a]"
  by (simp add: slash_path_def split_on_no_sep)

lemma show_int_pos: "0 < n \<Longrightarrow> show_int n = decimal (nat n)"
  by (simp add: show_int_def decimal_int_nat)

lemma slash_not_digit: "CHR ''/'' \<notin> set (decimal n)"
  using decimal_digits [of "CHR ''/''" n] by (auto simp: is_digit_def)

definition seg_dir :: "Seg \<Rightarrow> path" where
  "seg_dir seg = slash_path (Seg_Dir seg)"

definition champion_file :: "int \<Rightarrow> string" where
  "champion_file c = show_int c @ ''.json''"

definition role_file :: "Role \<Rightarrow> string" where
  "role_file role = Slug role @ ''.json''"

lemma TierListPath_below: "slash_path (TierListPath seg) = seg_dir seg @ [''tierlist.json'']"
  using slash_path_append [of "Seg_Dir seg" "''tierlist.json''"] slash_path_name [of "''tierlist.json''"]
  by (simp add: TierListPath_def seg_dir_def)

lemma ChampionPath_below: "0 < c \<Longrightarrow> slash_path (ChampionPath seg c) = seg_dir seg @ [''champions'', champion_file c]"
proof -
  assume "0 < c"
  then have "slash_path (champion_file c) = [champion_file c]"
    using slash_not_digit by (intro slash_path_name) (simp add: champion_file_def show_int_pos)
  then show ?thesis
    using slash_path_append [of "Seg_Dir seg" "''champions/'' @ champion_file c"]
      slash_path_append [of "''champions''" "champion_file c"] slash_path_name [of "''champions''"]
    by (simp add: ChampionPath_def seg_dir_def champion_file_def)
qed

lemma role_file_no_slash: "role \<in> set Roles \<Longrightarrow> CHR ''/'' \<notin> set (role_file role)"
proof -
  have "list_all (\<lambda>role. CHR ''/'' \<notin> set (role_file role)) Roles" by code_simp
  then show "role \<in> set Roles \<Longrightarrow> CHR ''/'' \<notin> set (role_file role)" by (simp add: list_all_iff)
qed

lemma MatchupsPath_below: "role \<in> set Roles \<Longrightarrow> slash_path (MatchupsPath seg role) = seg_dir seg @ [''matchups'', role_file role]"
  using slash_path_append [of "Seg_Dir seg" "''matchups/'' @ role_file role"]
    slash_path_append [of "''matchups''" "role_file role"] slash_path_name [of "''matchups''"] slash_path_name [OF role_file_no_slash]
  by (simp add: MatchupsPath_def seg_dir_def role_file_def)

lemma seg_dir_start: "seg_dir seg = [''v1'', ''p''] @ slash_path (seg_Patch seg @ ''/'' @ seg_Region seg @ ''/'' @ show_int (seg_Queue seg) @ ''/'' @ seg_Bracket seg)"
  using slash_path_append [of "''v1/p''" "seg_Patch seg @ ''/'' @ seg_Region seg @ ''/'' @ show_int (seg_Queue seg) @ ''/'' @ seg_Bracket seg"]
  by (simp add: seg_dir_def Seg_Dir_def slash_path_def)

lemma ManifestPath_split: "slash_path ManifestPath = [''v1'', ''manifest.json'']"
  by code_simp

lemma manifest_apart: "\<not> below (slash_path ManifestPath) (seg_dir seg @ x)" "\<not> below (seg_dir seg @ x) (slash_path ManifestPath)"
  by (simp_all add: ManifestPath_split seg_dir_start below_def)

lemma file_names_inj: "0 < a \<Longrightarrow> 0 < b \<Longrightarrow> champion_file a = champion_file b \<longleftrightarrow> a = b"
proof -
  assume ab: "0 < a" "0 < b"
  have "decimal (nat a) = decimal (nat b) \<Longrightarrow> nat a = nat b" using digits_val_decimal by (metis option.inject)
  then show ?thesis using ab by (auto simp: champion_file_def show_int_pos)
qed

lemma role_file_inj: "inj_on role_file (set Roles)" "distinct Roles"
proof -
  show "distinct Roles" by code_simp
  have "distinct (map role_file Roles)" by code_simp
  then show "inj_on role_file (set Roles)" by (simp add: distinct_map)
qed


section \<open>Writing documents\<close>

definition doc_paths :: "(string \<times> doc) list \<Rightarrow> path list" where
  "doc_paths docs = map (\<lambda>(rel, d). slash_path rel) docs"

text \<open>What the staging tree holds after the documents were written into an empty one.\<close>

definition holds :: "(string \<times> doc) list \<Rightarrow> docs \<Rightarrow> bool" where
  "holds ds t =
     ((\<forall>(rel, d) \<in> set ds. map_of t (slash_path rel) = Some (NFile d) \<and> is_dir t (parent (slash_path rel)))
      \<and> (\<forall>(q, n) \<in> set t. case n of NFile d \<Rightarrow> \<exists>rel. (rel, d) \<in> set ds \<and> q = slash_path rel
           | NDir \<Rightarrow> \<exists>(rel, d) \<in> set ds. below q (parent (slash_path rel))))"

lemma set_mkdirs: "(q, n) \<in> set (mkdirs p t) \<Longrightarrow> (q, n) \<in> set t \<or> n = NDir \<and> below q p"
  by (auto simp: mkdirs_def below_def)

lemma map_of_put_doc: "map_of (put_doc p d t) q = (if q = p then Some (NFile d) else map_of (mkdirs (parent p) t) q)"
proof -
  have "map_of (filter (\<lambda>(q, n). q \<noteq> p) t) q = (if q = p then None else map_of t q)" for t :: "docs" and q
    by (induction t) auto
  then show ?thesis by (simp add: put_doc_def)
qed

lemma parent_not_self: "p \<noteq> [] \<Longrightarrow> parent p \<noteq> p"
  by (metis parent_def butlast_snoc append_butlast_last_id not_Cons_self2 append_self_conv)

lemma unblocked_parent:
  assumes "\<not> blocked p t" and "p \<noteq> []"
  shows "map_of (mkdirs p t) p = Some NDir"
proof -
  have "\<not> is_file t (take (length p) p)"
  proof -
    have "length p \<in> set [1..<Suc (length p)]" using assms(2) by (simp add: Suc_leI)
    then show ?thesis using assms(1) unfolding blocked_def list_ex_iff by blast
  qed
  then have "map_of t p = None \<or> map_of t p = Some NDir"
    by (cases "map_of t p") (auto simp: is_file_def split: node.splits)
  then show ?thesis using assms(2) by (auto simp: map_of_mkdirs)
qed

lemma put_doc_holds:
  assumes "holds ds t" and "\<not> blocked (parent (slash_path rel)) t" and "parent (slash_path rel) \<noteq> []"
    and "slash_path rel \<notin> set (doc_paths ds)" and "\<forall>(r, d') \<in> set ds. parent (slash_path r) \<noteq> slash_path rel"
  shows "holds (ds @ [(rel, d)]) (put_doc (slash_path rel) d t)"
proof -
  let ?p = "slash_path rel"
  let ?t = "put_doc ?p d t"
  have self: "map_of ?t ?p = Some (NFile d)" by (simp add: map_of_put_doc)
  have "?p \<noteq> []" using assms(3) by (auto simp: parent_def)
  then have ne: "parent ?p \<noteq> ?p" by (rule parent_not_self)
  have dir: "is_dir ?t (parent ?p)"
    using unblocked_parent [OF assms(2,3)] ne by (simp add: is_dir_def map_of_put_doc)
  have old: "map_of ?t (slash_path r) = Some (NFile d') \<and> is_dir ?t (parent (slash_path r))" if "(r, d') \<in> set ds" for r d'
  proof -
    have "map_of t (slash_path r) = Some (NFile d')" "is_dir t (parent (slash_path r))"
      using assms(1) that by (auto simp: holds_def)
    moreover have "slash_path r \<noteq> ?p" "parent (slash_path r) \<noteq> ?p" using assms(4,5) that by (force simp: doc_paths_def)+
    ultimately show ?thesis by (auto simp: map_of_put_doc map_of_mkdirs is_dir_def split: option.splits node.splits)
  qed
  have all: "case n of NFile x \<Rightarrow> \<exists>r. (r, x) \<in> set (ds @ [(rel, d)]) \<and> q = slash_path r
      | NDir \<Rightarrow> \<exists>(r, x) \<in> set (ds @ [(rel, d)]). below q (parent (slash_path r))" if "(q, n) \<in> set ?t" for q n
  proof -
    have "q = ?p \<and> n = NFile d \<or> (q, n) \<in> set (mkdirs (parent ?p) t)" using that by (auto simp: put_doc_def)
    then consider "q = ?p" "n = NFile d" | "(q, n) \<in> set t" | "n = NDir" "below q (parent ?p)" using set_mkdirs by blast
    then show ?thesis
    proof cases
      case 2
      then have "case n of NFile x \<Rightarrow> \<exists>r. (r, x) \<in> set ds \<and> q = slash_path r
          | NDir \<Rightarrow> \<exists>(r, x) \<in> set ds. below q (parent (slash_path r))" using assms(1) by (auto simp: holds_def)
      then show ?thesis by (auto split: node.splits)
    qed auto
  qed
  have "\<forall>(r, x) \<in> set (ds @ [(rel, d)]). map_of ?t (slash_path r) = Some (NFile x) \<and> is_dir ?t (parent (slash_path r))"
    using self dir old by auto
  moreover have "\<forall>(q, n) \<in> set ?t. case n of NFile x \<Rightarrow> \<exists>r. (r, x) \<in> set (ds @ [(rel, d)]) \<and> q = slash_path r
      | NDir \<Rightarrow> \<exists>(r, x) \<in> set (ds @ [(rel, d)]). below q (parent (slash_path r))" using all by blast
  ultimately show ?thesis unfolding holds_def by blast
qed

text \<open>No document's path is that of another or a directory one needs.\<close>

definition tidy :: "(string \<times> doc) list \<Rightarrow> bool" where
  "tidy ds = (distinct (doc_paths ds)
     \<and> (\<forall>p \<in> set (doc_paths ds). parent p \<noteq> [] \<and> parent p \<notin> set (doc_paths ds)))"

lemma write_docs_holds:
  assumes "write_docs E ds w = (True, w1)" and "holds es (fs_stage (bw_fs w))" and "tidy (es @ ds)"
  shows "holds (es @ ds) (fs_stage (bw_fs w1)) \<and> fs_live (bw_fs w1) = fs_live (bw_fs w) \<and> bw_runs w1 = bw_runs w
    \<and> bw_now w1 = bw_now w \<and> fs_seen (bw_fs w1) = fs_seen (bw_fs w)"
  using assms
proof (induction ds arbitrary: es w)
  case (Cons e ds)
  obtain rel d where e: "e = (rel, d)" by force
  let ?s = "bw_fs w"
  let ?w = "w\<lparr>bw_fs := (tick ?s)\<lparr>fs_stage := put_doc (slash_path rel) d (fs_stage ?s)\<rparr>\<rparr>"
  have rest: "write_docs E ds ?w = (True, w1)" and free: "\<not> blocked (parent (slash_path rel)) (fs_stage ?s)"
    using Cons.prems(1) by (auto simp: e Let_def split: if_splits)
  have "holds (es @ [(rel, d)]) (put_doc (slash_path rel) d (fs_stage ?s))"
    using Cons.prems(2,3) free by (intro put_doc_holds) (auto simp: tidy_def doc_paths_def e)
  then have "holds (es @ [e]) (fs_stage (bw_fs ?w))" by (simp add: e)
  from Cons.IH [OF rest this] Cons.prems(3) show ?case by simp
qed simp

lemma write_docs_fails:
  "write_docs E ds w = (ok, w1) \<Longrightarrow>
     fs_live (bw_fs w1) = fs_live (bw_fs w) \<and> bw_runs w1 = bw_runs w \<and> bw_now w1 = bw_now w \<and> fs_seen (bw_fs w1) = fs_seen (bw_fs w)"
  by (induction ds arbitrary: w) (fastforce simp: Let_def tick_world_def split: if_splits prod.splits)+

lemma holds_Nil: "holds [] []"
  by (simp add: holds_def)


section \<open>The published tree\<close>

lemma place_stage:
  assumes "place E slot (p, d) r s = (None, r1, s1)"
  obtains L where "fs_live s1 = graft p (subtree p (fs_stage s)) L" and "fs_stage s1 = without p (fs_stage s)"
    and "pu_Replaced r1 = pu_Replaced r @ [p]"
proof -
  obtain a where mp: "make_parent E p s = (True, a)"
    using assms by (auto simp: place_def split: prod.splits bool.splits)
  obtain moved b where dp: "displace E d p slot a = (Inr moved, b)"
    using assms mp by (auto simp: place_def split: prod.splits sum.splits)
  have "fs_stage a = fs_stage s" using mp by (auto simp: make_parent_def split: if_splits)
  moreover have "fs_stage b = fs_stage a" using dp by (cases rule: displace_cases) simp_all
  ultimately show thesis
    using assms mp dp that by (auto simp: place_def Let_def split: if_splits)
qed

lemma published_single:
  assumes "Publish E [p] [] m s = (None, r, s')"
  obtains L where "fs_live s' = graft m (subtree m (without p (fs_stage s))) (graft p (subtree p (fs_stage s)) L)"
proof (cases rule: Publish_cases [OF assms, case_names refused worked])
  case (refused x)
  then show ?thesis by simp
next
  case (worked s0 s1)
  obtain r2 s2 where pl: "place E 0 (p, True) no_publish s0 = (None, r2, s2)"
    using worked(5) by (auto simp: work_def split: prod.splits option.splits)
  have sw: "swap_manifest E m r2 s2 = (None, r, s1)" using worked(5) pl by (simp add: work_def)
  obtain L where L: "fs_live s2 = graft p (subtree p (fs_stage s0)) L" "fs_stage s2 = without p (fs_stage s0)"
    using place_stage [OF pl] .
  have "fs_live s1 = graft m (subtree m (fs_stage s2)) (fs_live s2)"
    by (cases rule: swap_manifest_cases [OF sw, case_names swapped failed]) simp_all
  then show ?thesis using L worked(2,6) by (intro that [of L]) simp
qed

text \<open>The published directory and the manifest as they were staged.\<close>

definition served :: "path \<Rightarrow> path \<Rightarrow> docs \<Rightarrow> docs \<Rightarrow> bool" where
  "served p m stage live =
     (map_of live m = map_of stage m
      \<and> (\<forall>x. map_of live (p @ x) = map_of stage (p @ x) \<and> (\<forall>n. (p @ x, n) \<in> set live \<longrightarrow> (p @ x, n) \<in> set stage)))"

lemma set_graft: "(q, n) \<in> set (graft p s t) \<longleftrightarrow> (\<exists>x. q = p @ x \<and> (x, n) \<in> set s) \<or> ((q, n) \<in> set t \<and> \<not> below p q)"
  by (auto simp: graft_def without_def)

lemma set_subtree: "(x, n) \<in> set (subtree p t) \<longleftrightarrow> (p @ x, n) \<in> set t"
proof
  assume "(x, n) \<in> set (subtree p t)"
  then obtain q where "(q, n) \<in> set t" "below p q" "x = drop (length p) q" by (auto simp: subtree_def)
  then show "(p @ x, n) \<in> set t" using below_split by metis
next
  assume "(p @ x, n) \<in> set t"
  then show "(x, n) \<in> set (subtree p t)" by (force simp: subtree_def)
qed

lemma published_is_served:
  assumes "Publish E [p] [] m s = (None, r, s')" and "\<And>x. \<not> below m (p @ x)" and "\<not> below p m"
  shows "served p m (fs_stage s) (fs_live s')"
proof -
  obtain L where L: "fs_live s' = graft m (subtree m (without p (fs_stage s))) (graft p (subtree p (fs_stage s)) L)"
    using published_single [OF assms(1)] .
  have "map_of (fs_live s') m = map_of (fs_stage s) m"
    using assms(3) by (simp add: L map_of_graft map_of_subtree map_of_without)
  moreover have "map_of (fs_live s') (p @ x) = map_of (fs_stage s) (p @ x)" for x
    using assms(2) [of x] by (simp add: L map_of_graft map_of_subtree)
  moreover have "(p @ x, n) \<in> set (fs_stage s)" if pub: "(p @ x, n) \<in> set (fs_live s')" for x n
  proof -
    have "(p @ x, n) \<in> set (graft p (subtree p (fs_stage s)) L)"
      using pub assms(2) [of x] by (auto simp: L set_graft [of _ _ m] below_iff)
    then show ?thesis by (auto simp: set_graft set_subtree)
  qed
  ultimately show ?thesis by (simp add: served_def)
qed


section \<open>The documents of a partition\<close>

lemma doc_paths_partition:
  assumes "\<forall>c \<in> set (co_ChampionsAscending (ai_Cells inp)). 0 < c"
  shows "doc_paths (partition_docs inp seg m) = (seg_dir seg @ [''tierlist.json''])
    # map (\<lambda>c. seg_dir seg @ [''champions'', champion_file c]) (co_ChampionsAscending (ai_Cells inp))
    @ map (\<lambda>role. seg_dir seg @ [''matchups'', role_file role]) Roles"
  using assms
  by (simp add: doc_paths_def partition_docs_def buildChampions_def TierListPath_below ChampionPath_below MatchupsPath_below)

lemma seg_dir_long: "2 \<le> length (seg_dir seg)" "seg_dir seg \<noteq> []" "hd (seg_dir seg) = ''v1''"
  by (simp_all add: seg_dir_start)

lemma partition_docs_tidy:
  assumes pos: "\<forall>c \<in> set (co_ChampionsAscending (ai_Cells inp)). 0 < c" and dist: "distinct (co_ChampionsAscending (ai_Cells inp))"
  shows "tidy (partition_docs inp seg m @ [(ManifestPath, d)])"
proof -
  let ?D = "seg_dir seg" and ?ids = "co_ChampionsAscending (ai_Cells inp)"
  let ?ch = "\<lambda>c. ?D @ [''champions'', champion_file c]" and ?ro = "\<lambda>role. ?D @ [''matchups'', role_file role]"
  have paths: "doc_paths (partition_docs inp seg m @ [(ManifestPath, d)])
      = (?D @ [''tierlist.json'']) # map ?ch ?ids @ map ?ro Roles @ [slash_path ManifestPath]"
    using doc_paths_partition [OF pos, of seg m] by (simp add: doc_paths_def)
  have man: "slash_path ManifestPath \<noteq> ?D @ x" for x using manifest_apart(1) [of seg x] by auto
  have "inj_on ?ch (set ?ids)" using file_names_inj pos by (auto simp: inj_on_def)
  then have "distinct (map ?ch ?ids)" using dist by (simp add: distinct_map)
  moreover have "distinct (map ?ro Roles)" using role_file_inj by (auto simp: distinct_map inj_on_def)
  ultimately have "distinct (doc_paths (partition_docs inp seg m @ [(ManifestPath, d)]))"
    using man man [symmetric] by (auto simp: paths)
  moreover have "parent p \<in> {?D, ?D @ [''champions''], ?D @ [''matchups''], [''v1'']}"
    if "p \<in> set (doc_paths (partition_docs inp seg m @ [(ManifestPath, d)]))" for p
    using that by (auto simp: paths parent_def butlast_append ManifestPath_split)
  moreover have "q \<noteq> [] \<and> q \<notin> set (doc_paths (partition_docs inp seg m @ [(ManifestPath, d)]))"
    if "q \<in> {?D, ?D @ [''champions''], ?D @ [''matchups''], [''v1'']}" for q
    using that seg_dir_long [of seg] man [of "[]"] man [of "[''champions'']"] man [of "[''matchups'']"]
    by (auto simp: paths ManifestPath_split Cons_eq_append_conv)
  ultimately show ?thesis unfolding tidy_def by blast
qed

section \<open>Verifying a partition\<close>

lemma trim_suffix_append: "trim_suffix suf (a @ suf) = Some a"
  by (simp add: trim_suffix_def)

lemma atoi_show_int: "0 < c \<Longrightarrow> c \<le> max_duration \<Longrightarrow> atoi (show_int c) = Some c"
  using atoi_decimal [of "nat c"] by (simp add: show_int_pos)

lemma served_doc:
  assumes "holds ds stage" and "served (seg_dir seg) m stage live" and "(rel, d) \<in> set ds" and "slash_path rel = seg_dir seg @ x"
  shows "map_of live (seg_dir seg @ x) = Some (NFile d)"
  using assms by (auto simp: holds_def served_def)

text \<open>What the directory of a partition holds once it is published: documents and nothing else.\<close>

lemma served_entries:
  assumes "holds (partition_docs inp seg minN @ [(ManifestPath, md)]) stage" and "served (seg_dir seg) m stage live"
    and "\<forall>c \<in> set (co_ChampionsAscending (ai_Cells inp)). 0 < c" and "(seg_dir seg @ [x, y], n) \<in> set live"
  shows "(\<exists>d. n = NFile d) \<and> (x = ''champions'' \<longrightarrow> y \<in> champion_file ` set (co_ChampionsAscending (ai_Cells inp)))"
proof -
  let ?ds = "partition_docs inp seg minN @ [(ManifestPath, md)]"
  have "(seg_dir seg @ [x, y], n) \<in> set stage" using assms(2,4) by (auto simp: served_def)
  then have n: "case n of NFile d \<Rightarrow> \<exists>rel. (rel, d) \<in> set ?ds \<and> seg_dir seg @ [x, y] = slash_path rel
      | NDir \<Rightarrow> \<exists>(rel, d) \<in> set ?ds. below (seg_dir seg @ [x, y]) (parent (slash_path rel))"
    using assms(1) by (auto simp: holds_def)
  have paths: "slash_path rel \<in> insert (slash_path ManifestPath) (set (doc_paths (partition_docs inp seg minN)))"
    if "(rel, d) \<in> set ?ds" for rel d using that by (force simp: doc_paths_def)
  note dp = doc_paths_partition [OF assms(3), of seg minN]
  have man: "slash_path ManifestPath \<noteq> seg_dir seg @ z" for z using manifest_apart(1) [of seg z] by auto
  show ?thesis
  proof (cases n)
    case NDir
    then obtain rel d where rel: "(rel, d) \<in> set ?ds" "below (seg_dir seg @ [x, y]) (parent (slash_path rel))" using n by auto
    have "length (slash_path rel) \<le> length (seg_dir seg) + 2" "slash_path rel \<noteq> []"
      using paths [OF rel(1)] seg_dir_long [of seg] by (auto simp: dp ManifestPath_split)
    then have "length (parent (slash_path rel)) < length (seg_dir seg @ [x, y])" by (simp add: parent_def)
    moreover have "length (seg_dir seg @ [x, y]) \<le> length (parent (slash_path rel))" using rel(2) by (auto simp: below_iff)
    ultimately show ?thesis by simp
  next
    case (NFile d)
    then obtain rel where "(rel, d) \<in> set ?ds" "seg_dir seg @ [x, y] = slash_path rel" using n by auto
    then have "seg_dir seg @ [x, y] \<in> set (doc_paths (partition_docs inp seg minN))" using paths man [of "[x, y]"] by (metis insertE)
    then show ?thesis using NFile by (auto simp: dp)
  qed
qed


text \<open>A partition's documents and its entry of the manifest, made from the same tallies.\<close>

definition partition_made :: "CellInput \<Rightarrow> CellOutput \<Rightarrow> artifactInput \<Rightarrow> string \<Rightarrow> Partition \<Rightarrow> bool" where
  "partition_made inp out ai source part =
     ((\<exists>items runes spells. computed_input inp out items runes spells ai)
      \<and> (\<exists>counts. matchups_proper counts \<and> ai_Matchups ai = computeMatchupCells counts)
      \<and> (\<forall>c \<in> set (co_ChampionsAscending out). c \<le> max_duration)
      \<and> checkEnvelope (ai_Envelope ai) part source = []
      \<and> pa_MinCellN part = ci_MinCellN inp \<and> pa_Champions part = co_ChampionsAscending out \<and> pa_MatchupRoles part = Roles
      \<and> pa_CellsPublished part = int (length (co_Cells out)) \<and> Seg_Validate (seg_of part) \<and> co_Cells out \<noteq> [])"

lemma partition_made_champions:
  assumes "partition_made inp out ai source part"
  shows "\<forall>c \<in> set (co_ChampionsAscending (ai_Cells ai)). 0 < c \<and> c \<le> max_duration" and "distinct (co_ChampionsAscending (ai_Cells ai))"
    and "ai_Cells ai = out" and "ComputeCells inp = Inr out" and "tallies_proper inp"
proof -
  have a: "ComputeCells inp = Inr out" "tallies_proper inp" "ai_Cells ai = out" "\<forall>c \<in> set (co_ChampionsAscending out). c \<le> max_duration"
    using assms by (auto simp: partition_made_def computed_input_def)
  then show "ComputeCells inp = Inr out" "tallies_proper inp" "ai_Cells ai = out" by simp_all
  have "co_ChampionsAscending out = sortedKeys (map cc_ChampionID (ci_Counts inp))" using ComputeCells_result(11) [OF a(1)] .
  then show "\<forall>c \<in> set (co_ChampionsAscending (ai_Cells ai)). 0 < c \<and> c \<le> max_duration" "distinct (co_ChampionsAscending (ai_Cells ai))"
    using a by (auto simp: tallies_proper_def sortedKeys_def)
qed

text \<open>Its documents, staged and published.\<close>

definition published_as :: "CellInput \<Rightarrow> CellOutput \<Rightarrow> artifactInput \<Rightarrow> string \<Rightarrow> Partition \<Rightarrow> docs \<Rightarrow> bool" where
  "published_as inp out ai source part live =
     (partition_made inp out ai source part
      \<and> (\<exists>stage md. holds (partition_docs ai (seg_of part) (pa_MinCellN part) @ [(ManifestPath, md)]) stage
           \<and> served (seg_dir (seg_of part)) (slash_path ManifestPath) stage live))"

lemma published_doc:
  assumes "published_as inp out ai source part live" and "(rel, d) \<in> set (partition_docs ai (seg_of part) (pa_MinCellN part))"
    and "slash_path rel = seg_dir (seg_of part) @ x" and "schema d" and "d \<noteq> Damaged"
  shows "read_valid (\<lambda>q. True) schema live (seg_dir (seg_of part) @ x) = Inr d"
proof -
  have "map_of live (seg_dir (seg_of part) @ x) = Some (NFile d)"
    using assms(1-3) by (auto simp: published_as_def intro: served_doc)
  then show ?thesis using assms(4,5) by (simp add: read_valid_def read_file_def)
qed

lemma published_entry:
  assumes "published_as inp out ai source part live" and "(seg_dir (seg_of part) @ [x, y], n) \<in> set live"
  shows "(\<exists>d. n = NFile d) \<and> (x = ''champions'' \<longrightarrow> y \<in> champion_file ` set (pa_Champions part))"
proof -
  have made: "partition_made inp out ai source part" using assms(1) by (simp add: published_as_def)
  have "pa_Champions part = co_ChampionsAscending (ai_Cells ai)"
    using made partition_made_champions(3) [OF made] by (simp add: partition_made_def)
  then show ?thesis
    using assms served_entries partition_made_champions(1) [OF made] by (fastforce simp: published_as_def)
qed

lemma entries_child: "(y, b) \<in> set (entries t p) \<longleftrightarrow> (\<exists>n. (p @ [y], n) \<in> set t \<and> b = (n = NDir))"
proof
  assume "(y, b) \<in> set (entries t p)"
  then obtain q n where "(q, n) \<in> set t" "q \<noteq> []" "butlast q = p" "y = last q" "b = (n = NDir)" by (auto simp: entries_def)
  then show "\<exists>n. (p @ [y], n) \<in> set t \<and> b = (n = NDir)" by (metis append_butlast_last_id)
next
  assume "\<exists>n. (p @ [y], n) \<in> set t \<and> b = (n = NDir)"
  then show "(y, b) \<in> set (entries t p)" by (force simp: entries_def)
qed

lemma published_dir:
  assumes "published_as inp out ai source part live" and "x = ''champions'' \<or> x = ''matchups''"
  shows "\<not> is_file live (seg_dir (seg_of part) @ [x])"
proof
  assume isf: "is_file live (seg_dir (seg_of part) @ [x])"
  obtain stage md where held: "holds (partition_docs ai (seg_of part) (pa_MinCellN part) @ [(ManifestPath, md)]) stage"
    and served: "served (seg_dir (seg_of part)) (slash_path ManifestPath) stage live"
    and made: "partition_made inp out ai source part" using assms(1) by (auto simp: published_as_def)
  obtain d where "map_of live (seg_dir (seg_of part) @ [x]) = Some (NFile d)"
    using isf by (auto simp: is_file_def split: option.splits node.splits)
  then have "(seg_dir (seg_of part) @ [x], NFile d) \<in> set stage" using served by (auto simp: served_def dest: map_of_SomeD)
  then obtain rel where rel: "(rel, d) \<in> set (partition_docs ai (seg_of part) (pa_MinCellN part) @ [(ManifestPath, md)])"
    "seg_dir (seg_of part) @ [x] = slash_path rel" using held by (fastforce simp: holds_def)
  then have "seg_dir (seg_of part) @ [x] \<in> insert (slash_path ManifestPath) (set (doc_paths (partition_docs ai (seg_of part) (pa_MinCellN part))))"
    by (force simp: doc_paths_def)
  then show False
    using manifest_apart(1) [of "seg_of part" "[x]"] assms(2) partition_made_champions(1) [OF made]
    by (auto simp: doc_paths_partition)
qed

lemma champions_accepted:
  assumes pub: "published_as inp out ai source part live"
    and schema: "\<And>rel d. (rel, d) \<in> set (partition_docs ai (seg_of part) (pa_MinCellN part)) \<Longrightarrow> schema d"
  shows "checkChampions (\<lambda>q. True) schema live part source = []"
proof -
  let ?D = "seg_dir (seg_of part)"
  have made: "partition_made inp out ai source part" using pub by (simp add: published_as_def)
  note champs = partition_made_champions [OF made]
  have ids: "pa_Champions part = co_ChampionsAscending (ai_Cells ai)" "pa_MinCellN part = ci_MinCellN inp"
    using made champs(3) by (simp_all add: partition_made_def)
  have doc: "checkChampion (\<lambda>q. True) schema live part source c = []" if c: "c \<in> set (pa_Champions part)" for c
  proof -
    have pos: "0 < c" using c champs(1) ids by simp
    let ?doc = "DocChampion (buildChampion ai c)"
    have "(ChampionPath (seg_of part) c, ?doc) \<in> set (partition_docs ai (seg_of part) (pa_MinCellN part))"
      using c ids by (auto simp: partition_docs_def buildChampions_def)
    from published_doc [where schema = schema, OF pub this ChampionPath_below [OF pos] schema [OF this]]
    have "read_valid (\<lambda>q. True) schema live (slash_path (ChampionPath (seg_of part) c)) = Inr ?doc"
      using ChampionPath_below [OF pos] by simp
    moreover have "checkEnvelope (ch_Envelope (buildChampion ai c)) part source = []"
      using made by (simp add: partition_made_def buildChampion_def)
    moreover have "champion_roles_problems c (pa_MinCellN part) {} (ch_Roles (buildChampion ai c)) = []"
      using made champion_document_accepted ids(2) by (auto simp: partition_made_def buildChampion_def)
    ultimately show ?thesis by (simp add: checkChampion_def buildChampion_def)
  qed
  have listed: "c \<in> set (pa_Champions part)"
    if names: "list_files (\<lambda>q. True) live (?D @ [''champions'']) = Some names" and c: "c \<in> set (List.map_filter atoi names)" for c names
  proof -
    obtain name where name: "name \<in> set names" "atoi name = Some c" using c by (auto simp: map_filter_def)
    then have "name \<in> set (json_names live (?D @ [''champions'']))"
      using names by (auto simp: list_files_def split: option.splits node.splits)
    then obtain y where y: "trim_suffix ''.json'' y = Some name" "(y, False) \<in> set (entries live (?D @ [''champions'']))"
      by (auto simp: json_names_def map_filter_def)
    then obtain n where "(?D @ [''champions'', y], n) \<in> set live" by (auto simp: entries_child)
    then obtain k where k: "k \<in> set (pa_Champions part)" "y = champion_file k" using published_entry [OF pub] by blast
    have "name = show_int k" using y(1) k(2) trim_suffix_append [of "''.json''" "show_int k"] by (simp add: champion_file_def)
    then show ?thesis using k(1) name(2) champs(1) atoi_show_int [of k] ids(1) by simp
  qed
  have "list_files (\<lambda>q. True) live (?D @ [''champions'']) \<noteq> None"
    using published_dir [OF pub, of "''champions''"] by (auto simp: list_files_def is_file_def split: option.splits node.splits)
  then obtain names where names: "list_files (\<lambda>q. True) live (?D @ [''champions'']) = Some names" by blast
  show ?thesis
    using doc listed [OF names] by (simp add: checkChampions_def readNumericFileNames_def names seg_dir_def [symmetric])
qed


lemma matchups_accepted:
  assumes pub: "published_as inp out ai source part live"
    and schema: "\<And>rel d. (rel, d) \<in> set (partition_docs ai (seg_of part) (pa_MinCellN part)) \<Longrightarrow> schema d"
  shows "checkMatchups (\<lambda>q. True) schema live part source = []"
proof -
  let ?D = "seg_dir (seg_of part)"
  have made: "partition_made inp out ai source part" using pub by (simp add: published_as_def)
  have roles: "pa_MatchupRoles part = Roles" using made by (simp add: partition_made_def)
  obtain counts where counts: "matchups_proper counts" "ai_Matchups ai = computeMatchupCells counts"
    using made by (auto simp: partition_made_def)
  have valid: "role_valid role" if "role \<in> set Roles" for role using that by (auto simp: role_valid_def role_defs)
  have doc: "checkMatchup (\<lambda>q. True) schema live part source role = []" if role: "role \<in> set Roles" for role
  proof -
    let ?m = "buildMatchups ai role (pa_MinCellN part)"
    have "(MatchupsPath (seg_of part) role, DocMatchups ?m) \<in> set (partition_docs ai (seg_of part) (pa_MinCellN part))"
      using role by (auto simp: partition_docs_def)
    from published_doc [where schema = schema, OF pub this MatchupsPath_below [OF role] schema [OF this]]
    have "read_valid (\<lambda>q. True) schema live (slash_path (MatchupsPath (seg_of part) role)) = Inr (DocMatchups ?m)"
      using MatchupsPath_below [OF role] by simp
    moreover have "checkEnvelope (mu_Envelope ?m) part source = []" "mu_Role ?m = role"
      using made by (simp_all add: partition_made_def buildMatchups_def Let_def)
    ultimately show ?thesis
      using matchup_pairs_accepted [OF counts, of role "pa_MinCellN part"] valid [OF role] by (simp add: checkMatchup_def)
  qed
  have none: "filter snd (entries live (?D @ [''matchups''])) = []"
  proof -
    have "\<not> b" if "(y, b) \<in> set (entries live (?D @ [''matchups'']))" for y b
      using that published_entry [OF pub, of "''matchups''" y] by (auto simp: entries_child)
    then show ?thesis unfolding filter_empty_conv by fastforce
  qed
  have "readDirNames (\<lambda>q. True) live (?D @ [''matchups'']) = Some []"
    using published_dir [OF pub, of "''matchups''"] none
    by (auto simp: readDirNames_def is_file_def split: option.splits node.splits)
  then show ?thesis using doc roles by (simp add: checkMatchups_def seg_dir_def [symmetric])
qed

lemma partition_accepted:
  assumes pub: "published_as inp out ai source part live"
    and schema: "\<And>rel d. (rel, d) \<in> set (partition_docs ai (seg_of part) (pa_MinCellN part)) \<Longrightarrow> schema d"
    and ties: "ties_agree (co_Cells out)"
  shows "check_partition (\<lambda>q. True) schema live source part = []"
proof -
  let ?D = "seg_dir (seg_of part)" and ?d = "buildTierList ai"
  have made: "partition_made inp out ai source part" using pub by (simp add: published_as_def)
  note champs = partition_made_champions [OF made]
  have p: "pa_MinCellN part = ci_MinCellN inp" "pa_CellsPublished part = int (length (co_Cells out))" "co_Cells out \<noteq> []"
    "Seg_Validate (seg_of part)" using made by (simp_all add: partition_made_def)
  have cells: "tl_Cells ?d = co_Cells out" by (simp add: buildTierList_def champs(3))
  note ok = checkCell_computed [OF champs(4,5)]
  have order: "checkCellOrder (co_Cells out) = []" using computed_cells_ordered [OF champs(4,5)] ties by simp
  have tier: "(TierListPath (seg_of part), DocTierList ?d) \<in> set (partition_docs ai (seg_of part) (pa_MinCellN part))"
    by (simp add: partition_docs_def)
  from published_doc [where schema = schema, OF pub tier TierListPath_below schema [OF tier]]
  have doc: "read_valid (\<lambda>q. True) schema live (slash_path (TierListPath (seg_of part))) = Inr (DocTierList ?d)"
    using TierListPath_below by simp
  obtain stage md where held: "holds (partition_docs ai (seg_of part) (pa_MinCellN part) @ [(ManifestPath, md)]) stage"
    and served: "served ?D (slash_path ManifestPath) stage live" using pub by (auto simp: published_as_def)
  have "is_dir stage (parent (slash_path (TierListPath (seg_of part))))" using held tier by (auto simp: holds_def)
  then have dir: "is_dir live ?D"
    using served [unfolded served_def, THEN conjunct2, THEN spec [of _ "[]"]]
    by (simp add: TierListPath_below parent_def is_dir_def)
  have "filter (\<lambda>c. checkCell (ci_MinCellN inp) c = []) (co_Cells out) = co_Cells out" using ok by (simp add: filter_id_conv)
  moreover have "concat (map (checkCell (ci_MinCellN inp)) (co_Cells out)) = []" using ok by simp
  moreover have "1 \<le> ci_MinCellN inp" using ComputeCells_result(1) [OF champs(4)] .
  moreover have "checkEnvelope (tl_Envelope ?d) part source = []" using made by (simp add: partition_made_def buildTierList_def)
  ultimately show ?thesis
    using doc dir p order champions_accepted [of inp out ai source part live schema] matchups_accepted [of inp out ai source part live schema] pub schema
    by (simp add: check_partition_def Let_def cells seg_dir_def [symmetric])
qed

end
