(* ===== verification/Build_Props.thy ===== *)
theory Build_Props
  imports Assemble_Props Manifest_Props
begin

text \<open>
  A build from end to end: it fails closed, its audit row is closed with the outcome, and what it
  publishes is what the verifier accepts.
\<close>

section \<open>The phases\<close>

lemma choosePatch_error: "choosePatch ord rows pinned = Inl e \<Longrightarrow> e \<noteq> []"
  by (auto simp: choosePatch_def Let_def split: if_splits option.splits)

lemma extract_phase_ok:
  assumes "extract_phase ord eng opt b = ([], b1)"
  shows "\<exists>a patch. b1 = b\<lparr>bs_archive := a, bs_seg := (bs_seg b)\<lparr>seg_Patch := patch\<rparr>\<rparr>"
proof -
  obtain ar mal rows where x: "en_extract eng = Some ([(ar, mal)], rows)"
    using assms by (auto simp: extract_phase_def split: option.splits prod.splits list.splits)
  obtain r where r: "choosePatch ord rows (bo_Patch opt) = Inr r"
    using assms choosePatch_error by (cases "choosePatch ord rows (bo_Patch opt)") (auto simp: extract_phase_def x Let_def split: if_splits)
  have "b1 = b\<lparr>bs_archive := (ar, mal), bs_seg := (bs_seg b)\<lparr>seg_Patch := pr_Patch r\<rparr>\<rparr>"
    using assms by (auto simp: extract_phase_def x r Let_def split: if_splits option.splits)
  then show ?thesis by blast
qed

lemma reduce_ok:
  assumes "reduce eng b = ([], b1)"
  obtains ta st where "en_reduce eng (seg_Patch (bs_seg b)) = Some ta" and "ta_window ta = [st]"
    and "b1 = b\<lparr>bs_stats := st, bs_tallies := ta\<rparr>"
  using assms by (auto simp: reduce_def split: option.splits list.splits)

lemma computeCells_ok:
  assumes "computeCells opt b = ([], b1)"
  obtains cells where "ComputeCells \<lparr>ci_Counts = ta_cells (bs_tallies b), ci_Bans = ta_bans (bs_tallies b),
       ci_Matches = ws_MatchesUsed (bs_stats b), ci_MinCellN = bo_MinCellN opt\<rparr> = Inr cells" and "b1 = b\<lparr>bs_cells := cells\<rparr>"
  using assms by (auto simp: computeCells_def split: sum.splits)

text \<open>The input of the cell policy, as the state holds it.\<close>

definition cell_input :: "build_opts \<Rightarrow> bstate \<Rightarrow> CellInput" where
  "cell_input opt b = \<lparr>ci_Counts = ta_cells (bs_tallies b), ci_Bans = ta_bans (bs_tallies b),
     ci_Matches = ws_MatchesUsed (bs_stats b), ci_MinCellN = bo_MinCellN opt\<rparr>"

definition computed_state :: "engine \<Rightarrow> build_opts \<Rightarrow> bstate \<Rightarrow> bool" where
  "computed_state eng opt b =
     (en_reduce eng (seg_Patch (bs_seg b)) = Some (bs_tallies b) \<and> ta_window (bs_tallies b) = [bs_stats b]
      \<and> ComputeCells (cell_input opt b) = Inr (bs_cells b)
      \<and> CheckInput (bo_Gates opt) (input_counts b) = [] \<and> CheckOutput (bo_Gates opt) (bs_counts b) = []
      \<and> bs_counts b = output_counts (b\<lparr>bs_counts := input_counts b\<rparr>))"

lemma compute_ok:
  assumes "compute ord eng opt b = ([], b')"
  shows "computed_state eng opt b' \<and> bs_window b' = bs_window b \<and> bs_run b' = bs_run b
    \<and> (\<exists>patch. bs_seg b' = (bs_seg b)\<lparr>seg_Patch := patch\<rparr>)"
proof -
  obtain b1 where b1: "extract_phase ord eng opt b = ([], b1)"
    using assms by (cases "extract_phase ord eng opt b") (auto simp: compute_def split: if_splits)
  obtain b2 where b2: "reduce eng b1 = ([], b2)"
    using assms b1 by (cases "reduce eng b1") (auto simp: compute_def split: if_splits)
  obtain b3 where b3: "checkInputGates opt b2 = ([], b3)"
    using assms b1 b2 by (cases "checkInputGates opt b2") (auto simp: compute_def split: if_splits)
  obtain b4 where b4: "computeCells opt b3 = ([], b4)"
    using assms b1 b2 b3 by (cases "computeCells opt b3") (auto simp: compute_def split: if_splits)
  have b5: "checkOutputGates opt b4 = ([], b')"
    using assms b1 b2 b3 b4 by (cases "checkOutputGates opt b4") (auto simp: compute_def split: if_splits)
  obtain a patch where e1: "b1 = b\<lparr>bs_archive := a, bs_seg := (bs_seg b)\<lparr>seg_Patch := patch\<rparr>\<rparr>" using extract_phase_ok [OF b1] by blast
  obtain ta st where e2: "en_reduce eng (seg_Patch (bs_seg b1)) = Some ta" "ta_window ta = [st]"
    "b2 = b1\<lparr>bs_stats := st, bs_tallies := ta\<rparr>" using reduce_ok [OF b2] .
  have e3: "b3 = b2\<lparr>bs_counts := input_counts b2\<rparr>" "CheckInput (bo_Gates opt) (input_counts b2) = []"
    using b3 by (auto simp: checkInputGates_def Let_def)
  obtain cells where e4: "ComputeCells (cell_input opt b3) = Inr cells" "b4 = b3\<lparr>bs_cells := cells\<rparr>"
    using computeCells_ok [OF b4] by (auto simp: cell_input_def)
  have e5: "b' = b4\<lparr>bs_counts := output_counts b4\<rparr>" "CheckOutput (bo_Gates opt) (output_counts b4) = []"
    using b5 by (auto simp: checkOutputGates_def Let_def)
  show ?thesis
    using e2(1,2) e3(2) e4(1) e5(2)
    by (auto simp: e1 e2(3) e3(1) e4(2) e5(1) computed_state_def cell_input_def input_counts_def output_counts_def)
qed

lemma assemble_ok:
  assumes "assemble ordp rd E opt b w = ([], b', w')"
  obtains m where "b' = b\<lparr>bs_partition := new_partition opt b (bw_now w)\<rparr>"
    and "UpdateManifest ordp rd (fs_live (bw_fs w)) (new_partition opt b (bw_now w)) SourceRiotMatchV5 (bw_now w) = Inr m"
    and "write_docs E (partition_docs (artifact_input (loadChampionSlugs rd (fs_live (bw_fs w))) opt b (bw_now w)) (bs_seg b) (bo_MinCellN opt)
           @ [(ManifestPath, DocManifest m)]) w = (True, w')"
proof -
  let ?docs = "partition_docs (artifact_input (loadChampionSlugs rd (fs_live (bw_fs w))) opt b (bw_now w)) (bs_seg b) (bo_MinCellN opt)"
  have append: "write_docs E (ds @ es) v = (True, v'')" if "write_docs E ds v = (True, v')" "write_docs E es v' = (True, v'')" for ds es v v' v''
    using that by (induction ds arbitrary: v) (auto simp: Let_def split: if_splits)
  obtain w1 where w1: "write_docs E ?docs w = (True, w1)"
    using assms by (auto simp: assemble_def Let_def split: prod.splits bool.splits)
  have live: "fs_live (bw_fs w1) = fs_live (bw_fs w)" using write_docs_fails [OF w1] by simp
  obtain m where m: "UpdateManifest ordp rd (fs_live (bw_fs w)) (new_partition opt b (bw_now w)) SourceRiotMatchV5 (bw_now w) = Inr m"
    and rest: "write_docs E [(ManifestPath, DocManifest m)] w1 = (True, w')" and b': "b' = b\<lparr>bs_partition := new_partition opt b (bw_now w)\<rparr>"
    using assms w1 live by (auto simp: assemble_def Let_def split: prod.splits bool.splits sum.splits simp del: write_docs.simps)
  show thesis using that [OF b' m append [OF w1 rest]] .
qed


section \<open>A run\<close>

lemma tick_world_simps [simp]:
  "fs_live (bw_fs (tick_world w)) = fs_live (bw_fs w)" "fs_stage (bw_fs (tick_world w)) = fs_stage (bw_fs w)"
  "bw_now (tick_world w) = bw_now w" "bw_runs (tick_world w) = bw_runs w"
  by (simp_all add: tick_world_def)

lemma openAudit_frame:
  "openAudit E opt b w = (b1, w1) \<Longrightarrow>
     fs_live (bw_fs w1) = fs_live (bw_fs w) \<and> fs_stage (bw_fs w1) = fs_stage (bw_fs w) \<and> bw_now w1 = bw_now w
     \<and> (\<exists>i. b1 = b\<lparr>bs_run := i\<rparr>)"
  by (auto simp: openAudit_def split: if_splits prod.splits sum.splits intro: exI [of _ "bs_run b"])

lemma finishAudit_frame:
  "fs_live (bw_fs (finishAudit E e b w)) = fs_live (bw_fs w)"
  by (simp add: finishAudit_def Let_def)

lemma resolvePatch_frame:
  "bs_window (resolvePatch ord eng opt b) = bs_window b \<and> (\<exists>patch. bs_seg (resolvePatch ord eng opt b) = (bs_seg b)\<lparr>seg_Patch := patch\<rparr>)"
  by (auto simp: resolvePatch_def split: option.splits sum.splits intro: exI [of _ "seg_Patch (bs_seg b)"])

lemma run_phases_ok:
  assumes "run_phases ord ordp rd E eng opt b w = ([], b', w')"
  obtains b2 w1 w2 where "computed_state eng opt b2" and "bs_window b2 = bs_window b" and "\<exists>patch. bs_seg b2 = (bs_seg b)\<lparr>seg_Patch := patch\<rparr>"
    and "assemble ordp rd E opt b2 w1 = ([], b', w2)" and "publishLive E b' w2 = ([], w')"
    and "fs_live (bw_fs w1) = fs_live (bw_fs w)" and "fs_stage (bw_fs w1) = fs_stage (bw_fs w)" and "bw_now w1 = bw_now w"
    and "checkProvenance (bo_Gates opt) (bo_GitSHA opt) (bs_run b2) = []"
proof -
  obtain b1 w1 where open1: "openAudit E opt (resolvePatch ord eng opt b) w = (b1, w1)" by force
  have prov: "checkProvenance (bo_Gates opt) (bo_GitSHA opt) (bs_run b1) = []"
    using assms open1 by (auto simp: run_phases_def Let_def split: if_splits)
  obtain b2 where b2: "compute ord eng opt b1 = ([], b2)"
    using assms open1 prov by (cases "compute ord eng opt b1") (auto simp: run_phases_def Let_def split: if_splits list.splits)
  obtain b3 w2 where asm: "assemble ordp rd E opt b2 w1 = ([], b3, w2)"
    using assms open1 prov b2
    by (cases "assemble ordp rd E opt b2 w1") (auto simp: run_phases_def Let_def split: if_splits list.splits prod.splits)
  have pub: "publishLive E b3 w2 = ([], w')" "b3 = b'"
    using assms open1 prov b2 asm by (auto simp: run_phases_def Let_def split: if_splits prod.splits)
  note frame = openAudit_frame [OF open1] and comp = compute_ok [OF b2]
  show thesis
  proof (rule that)
    show "computed_state eng opt b2" using comp by simp
    show "bs_window b2 = bs_window b" using comp frame resolvePatch_frame [of ord eng opt b] by auto
    show "\<exists>patch. bs_seg b2 = (bs_seg b)\<lparr>seg_Patch := patch\<rparr>" using comp frame resolvePatch_frame [of ord eng opt b] by auto
    show "assemble ordp rd E opt b2 w1 = ([], b', w2)" "publishLive E b' w2 = ([], w')" using asm pub by simp_all
    show "checkProvenance (bo_Gates opt) (bo_GitSHA opt) (bs_run b2) = []" using prov comp by simp
  qed (use frame in simp_all)
qed

lemma Build_ok:
  assumes "BuildAgg ord ordp rd E eng opt0 w = ([], b, w')"
  obtains window b2 w1 w2 w3 where "0 < bo_MinCellN opt0" and "planArchive eng (normalize_build opt0) = Inr window"
    and "computed_state eng (normalize_build opt0) b2" and "bs_window b2 = window"
    and "\<exists>patch. bs_seg b2 = (seg_of_opts (normalize_build opt0))\<lparr>seg_Patch := patch\<rparr>"
    and "assemble ordp rd E (normalize_build opt0) b2 w1 = ([], b, w2)" and "publishLive E b w2 = ([], w3)"
    and "fs_live (bw_fs w1) = fs_live (bw_fs w)" and "fs_stage (bw_fs w1) = []" and "bw_now w1 = bw_now w"
    and "fs_live (bw_fs w') = fs_live (bw_fs w3)"
proof -
  let ?opt = "normalize_build opt0"
  let ?w1 = "tick_world (tick_world w)"
  let ?w2 = "?w1\<lparr>bw_fs := (bw_fs ?w1)\<lparr>fs_stage := []\<rparr>\<rparr>"
  have min: "bo_MinCellN ?opt = bo_MinCellN opt0" by (simp add: normalize_build_def)
  obtain window where plan: "planArchive eng ?opt = Inr window" and pos: "0 < bo_MinCellN opt0"
    using assms by (auto simp: BuildAgg_def Let_def min planArchive_def split: if_splits sum.splits option.splits)
  obtain wr where run: "run_build ord ordp rd E eng ?opt (new_bstate ?opt window) ?w2 = ([], b, wr)"
    and w': "w' = wr\<lparr>bw_fs := (bw_fs wr)\<lparr>fs_stage := []\<rparr>\<rparr>"
    using assms plan by (auto simp: BuildAgg_def Let_def split: if_splits prod.splits)
  obtain w3 where ph: "run_phases ord ordp rd E eng ?opt (new_bstate ?opt window) ?w2 = ([], b, w3)"
    and wr: "wr = finishAudit E [] b w3"
    using run by (auto simp: run_build_def split: if_splits prod.splits)
  show thesis
  proof (rule run_phases_ok [OF ph])
    fix b2 w1 w2
    assume a: "computed_state eng ?opt b2" "bs_window b2 = bs_window (new_bstate ?opt window)"
      "\<exists>patch. bs_seg b2 = (bs_seg (new_bstate ?opt window))\<lparr>seg_Patch := patch\<rparr>"
      "assemble ordp rd E ?opt b2 w1 = ([], b, w2)" "publishLive E b w2 = ([], w3)"
      "fs_live (bw_fs w1) = fs_live (bw_fs ?w2)" "fs_stage (bw_fs w1) = fs_stage (bw_fs ?w2)" "bw_now w1 = bw_now ?w2"
    show thesis
      by (rule that [of window b2 w1 w2 w3]) (use a plan pos w' wr finishAudit_frame in \<open>simp_all add: new_bstate_def\<close>)
  qed
qed


section \<open>Failing closed\<close>

lemma publishLive_atomic:
  assumes "\<And>n. oc_undo E n" and "tree_ok (fs_live (bw_fs w))" and "publishLive E b w = (e, w')"
    and "file_at (fs_live (bw_fs w')) q \<noteq> file_at (fs_live (bw_fs w)) q"
  shows "e = [] \<and> (below (seg_dir (bs_seg b)) q \<or> below (slash_path ManifestPath) q)"
proof -
  let ?p = "seg_dir (bs_seg b)" and ?m = "slash_path ManifestPath" and ?s = "bw_fs w"
  have ap: "apart ([?p] @ [] @ [?m])" "?m \<notin> set ([?p] @ [])"
    using manifest_apart [of "bs_seg b" "[]"] seg_dir_long(2) [of "bs_seg b"] by (auto simp: apart_def ManifestPath_split)
  obtain pe r s where pub: "Publish E [?p] [] ?m ?s = (pe, r, s)" by (cases "Publish E [?p] [] ?m ?s")
  have e: "e = [] \<longleftrightarrow> pe = None" and live: "fs_live (bw_fs w') = fs_live s"
    using assms(3) pub by (auto simp: publishLive_def seg_dir_def split: option.splits)
  show ?thesis
  proof (cases rule: Publish_cases [OF pub, case_names refused worked])
    case (refused x)
    then show ?thesis using assms(4) live by simp
  next
    case (worked s0 s1)
    consider "pe = None" "file_at (fs_live s1) = overlay ([?p] @ [] @ [?m]) (fs_stage ?s) (fs_live ?s)"
      | "file_at (fs_live s1) = file_at (fs_live ?s)"
      using work_result [OF assms(1,2) ap worked(1,2,3,5)] by (auto simp: overlay_def)
    then show ?thesis
    proof cases
      case 1
      then show ?thesis using assms(4) live worked(6) e by (auto simp: overlay_def split: if_splits)
    next
      case 2
      then show ?thesis using assms(4) live worked(6) by simp
    qed
  qed
qed

lemma assemble_frame: "assemble ordp rd E opt b w = (e, b', w') \<Longrightarrow> fs_live (bw_fs w') = fs_live (bw_fs w)"
  by (auto simp: assemble_def Let_def simp del: write_docs.simps dest!: write_docs_fails split: prod.splits bool.splits sum.splits)

lemma run_phases_live:
  assumes "run_phases ord ordp rd E eng opt b w = (e, b', w')"
  shows "fs_live (bw_fs w') = fs_live (bw_fs w) \<or> (\<exists>w2. fs_live (bw_fs w2) = fs_live (bw_fs w) \<and> publishLive E b' w2 = (e, w'))"
proof (cases "en_envelope eng")
  case False
  then show ?thesis using assms by (simp add: run_phases_def)
next
  case True
  obtain b1 w1 where open1: "openAudit E opt (resolvePatch ord eng opt b) w = (b1, w1)" by force
  have live1: "fs_live (bw_fs w1) = fs_live (bw_fs w)" using openAudit_frame [OF open1] by simp
  obtain ce b2 where c: "compute ord eng opt b1 = (ce, b2)" by force
  obtain ae b3 w2 where a: "assemble ordp rd E opt b2 w1 = (ae, b3, w2)" by (cases "assemble ordp rd E opt b2 w1")
  have live2: "fs_live (bw_fs w2) = fs_live (bw_fs w)" using assemble_frame [OF a] live1 by simp
  obtain pe w3 where p: "publishLive E b3 w2 = (pe, w3)" by force
  show ?thesis
    using assms True open1 c a p live1 live2
    by (cases ce; cases ae) (auto simp: run_phases_def Let_def split: if_splits)
qed

text \<open>
  C7: a build fails closed. Whatever the archive, the engine's answers and the outcomes of the file
  operations are, as long as undoing a swap succeeds: a build that reports an error leaves every
  published file as it was, and one that succeeds changes nothing but the directory of its own
  partition and the manifest.
\<close>

theorem build_fails_closed:
  assumes "\<And>n. oc_undo E n" and "tree_ok (fs_live (bw_fs w))" and "BuildAgg ord ordp rd E eng opt w = (e, b, w')"
    and "file_at (fs_live (bw_fs w')) q \<noteq> file_at (fs_live (bw_fs w)) q"
  shows "e = [] \<and> (below (seg_dir (bs_seg b)) q \<or> below (slash_path ManifestPath) q)"
proof -
  let ?opt = "normalize_build opt" and ?w1 = "tick_world (tick_world w)"
  let ?w2 = "?w1\<lparr>bw_fs := (bw_fs ?w1)\<lparr>fs_stage := []\<rparr>\<rparr>"
  obtain window wr where run: "run_build ord ordp rd E eng ?opt (new_bstate ?opt window) ?w2 = (e, b, wr)"
    and w': "w' = wr\<lparr>bw_fs := (bw_fs wr)\<lparr>fs_stage := []\<rparr>\<rparr>"
    using assms(3,4) by (auto simp: BuildAgg_def Let_def split: if_splits sum.splits prod.splits)
  obtain w3 where ph: "run_phases ord ordp rd E eng ?opt (new_bstate ?opt window) ?w2 = (e, b, w3)"
    and live: "fs_live (bw_fs w') = fs_live (bw_fs w3)"
    using run assms(4) finishAudit_frame by (auto simp: w' run_build_def split: if_splits prod.splits)
  obtain w2 where w2: "fs_live (bw_fs w2) = fs_live (bw_fs w)" "publishLive E b w2 = (e, w3)"
    using run_phases_live [OF ph] live assms(4) by auto
  show ?thesis
    by (rule publishLive_atomic [OF assms(1) _ w2(2)]) (use w2(1) live assms(2,4) in simp_all)
qed


section \<open>What is published verifies\<close>

text \<open>What the counting statements promise of their answers.\<close>

definition tallies_sound :: "int \<Rightarrow> tallies \<Rightarrow> bool" where
  "tallies_sound m ta =
     (\<forall>st. ta_window ta = [st] \<longrightarrow>
        (let inp = \<lparr>ci_Counts = ta_cells ta, ci_Bans = ta_bans ta, ci_Matches = ws_MatchesUsed st, ci_MinCellN = m\<rparr>
         in tallies_proper inp \<and> builds_proper 7 inp (ta_items ta) \<and> builds_proper 6 inp (ta_runes ta)
            \<and> builds_proper 2 inp (ta_spells ta) \<and> matchups_proper (ta_matchups ta)
            \<and> (\<forall>c \<in> set (ta_cells ta). cc_ChampionID c \<le> max_duration)))"

lemma envelope_accepted:
  assumes "window_problems (bs_window b) = []"
  shows "checkEnvelope (envelope_of opt b now) (new_partition opt b now) SourceRiotMatchV5 = []"
  using assms by (simp add: checkEnvelope_def envelope_of_def new_partition_def same_seg_def source_valid_def)

lemma window_accepted:
  assumes "planArchive eng opt = Inr window" and "\<And>to. parseDate (win_To window) = Some to \<Longrightarrow> 400 \<le> to \<and> to < 3652059"
  shows "window_problems window = []"
proof -
  obtain last_day where w: "windowForEnd last_day (bo_WindowDays opt) = Some window"
    using assms(1) by (auto simp: planArchive_def split: option.splits if_splits)
  then obtain to where to: "parseDate last_day = Some to" "1 \<le> bo_WindowDays opt" "bo_WindowDays opt \<le> 400"
    "window = \<lparr>win_From = format_date (to - (bo_WindowDays opt - 1)), win_To = last_day\<rparr>" by (auto simp: windowForEnd_result)
  then have "400 \<le> to" "to < 3652059" using assms(2) by auto
  then have "0 \<le> to - (bo_WindowDays opt - 1)" "to - (bo_WindowDays opt - 1) < 3652059" using to(2,3) by linarith+
  then have "parseDate (win_From window) = Some (to - (bo_WindowDays opt - 1))"
    using parse_format_date by (simp add: to(4))
  moreover have "parseDate (win_To window) = Some to" using to(1,4) by simp
  ultimately show ?thesis using to(2) by (simp add: window_problems_def Let_def)
qed

lemma published_cells_exist:
  assumes "computed_state eng opt b"
  shows "co_Cells (bs_cells b) \<noteq> []"
proof
  assume none: "co_Cells (bs_cells b) = []"
  have c: "ComputeCells (cell_input opt b) = Inr (bs_cells b)" and gate: "CheckOutput (bo_Gates opt) (bs_counts b) = []"
    and counts: "bs_counts b = output_counts (b\<lparr>bs_counts := input_counts b\<rparr>)"
    using assms unfolding computed_state_def by blast+
  have "0 < co_Total (bs_cells b)" using ComputeCells_result(3,7) [OF c] by simp
  then have "0 < gt_CellsTotal (bs_counts b)" "gt_CellsPublished (bs_counts b) = 0"
    using none by (simp_all add: counts output_counts_def)
  then show False using gate by (simp add: CheckOutput_def)
qed

lemma build_makes_its_partition:
  assumes "computed_state eng opt b" and "tallies_sound (bo_MinCellN opt) (bs_tallies b)" and "window_problems (bs_window b) = []"
    and "Seg_Validate (bs_seg b)"
  shows "partition_made (cell_input opt b) (bs_cells b) (artifact_input slugs opt b now) SourceRiotMatchV5 (new_partition opt b now)"
proof -
  have c: "ComputeCells (cell_input opt b) = Inr (bs_cells b)" and st: "ta_window (bs_tallies b) = [bs_stats b]"
    using assms(1) by (simp_all add: computed_state_def)
  have sound: "tallies_proper (cell_input opt b)" "builds_proper 7 (cell_input opt b) (ta_items (bs_tallies b))"
    "builds_proper 6 (cell_input opt b) (ta_runes (bs_tallies b))" "builds_proper 2 (cell_input opt b) (ta_spells (bs_tallies b))"
    "matchups_proper (ta_matchups (bs_tallies b))" "\<forall>c \<in> set (ta_cells (bs_tallies b)). cc_ChampionID c \<le> max_duration"
    using assms(2) st by (simp_all add: tallies_sound_def Let_def cell_input_def)
  have "computed_input (cell_input opt b) (bs_cells b) (ta_items (bs_tallies b)) (ta_runes (bs_tallies b)) (ta_spells (bs_tallies b))
      (artifact_input slugs opt b now)"
    using c sound by (simp add: computed_input_def artifact_input_def)
  moreover have "\<forall>c \<in> set (co_ChampionsAscending (bs_cells b)). c \<le> max_duration"
    using ComputeCells_result(11) [OF c] sound(6) by (auto simp: sortedKeys_def cell_input_def)
  moreover have "seg_of (new_partition opt b now) = bs_seg b" by (simp add: seg_of_def new_partition_def)
  moreover have "ai_Matchups (artifact_input slugs opt b now) = computeMatchupCells (ta_matchups (bs_tallies b))"
    by (simp add: artifact_input_def)
  ultimately show ?thesis
    using sound(5) envelope_accepted [OF assms(3)] assms(4) published_cells_exist [OF assms(1)]
    unfolding partition_made_def
    by (auto simp: new_partition_def artifact_input_def cell_input_def)
qed


lemma duplicatePartitions_Nil:
  assumes "distinct (map (\<lambda>p. Seg_Dir (seg_of p)) ps)" and "seen \<inter> (\<lambda>p. Seg_Dir (seg_of p)) ` set ps = {}"
  shows "duplicatePartitions seen ps = []"
  using assms by (induction ps arbitrary: seen) (auto simp: Let_def)

lemma Seg_Dir_key: "Seg_Dir (seg_of p) = ''v1/p/'' @ partitionKey p"
  by (simp add: Seg_Dir_def seg_of_def partitionKey_def)

lemma merged_manifest:
  assumes "\<And>ps. mset (ord ps) = mset ps" and "UpdateManifest ord rd t built source now = Inr m" and "pa_Patch built \<noteq> []"
  shows "distinct (map partitionKey (ma_Partitions m))" and "built \<in> set (ma_Partitions m)" and "ma_Source m = source"
    and "ma_Schema m = SchemaVersion"
proof -
  obtain found known where known: "put_found source found (fold put (listed_in rd t) []) = Inr known"
    and m: "m = manifest_of ord built source now (if pa_Patch built = [] then known else put built known)"
    using UpdateManifest_result [OF assms(2)] by metis
  have k: "keyed (put built known)"
    using put_found_result [OF known keyed_fold_put [OF keyed_Nil]] by (simp add: keyed_put)
  note mem = merged_set [OF assms(1) k, where built = built and source = source and now = now]
  show "distinct (map partitionKey (ma_Partitions m))" using mem(2) assms(3) by (simp add: m)
  show "built \<in> set (ma_Partitions m)" using mem(1) [of built] assms(3) by (simp add: m map_of_put)
  show "ma_Source m = source" "ma_Schema m = SchemaVersion" by (simp_all add: m manifest_of_def Let_def)
qed

lemma select_one:
  assumes "distinct (map partitionKey ps)" and "p \<in> set ps" and "Seg_Validate (seg_of p)"
  shows "set (selectPartitions (seg_of p) ps) = {p}"
proof -
  have "pa_Patch p \<noteq> []" "pa_Region p \<noteq> []" "pa_Queue p \<noteq> 0" "pa_Bracket p \<noteq> []"
    using assms(3) by (auto simp: Seg_Validate_def seg_of_def is_patch_def trim_space_def trim_left_def)
  then have "set (selectPartitions (seg_of p) ps) = {q \<in> set ps. seg_of q = seg_of p}"
    by (auto simp: selectPartitions_def seg_of_def)
  also have "\<dots> = {p}"
    using assms(1,2) by (auto simp: seg_of_def partitionKey_def distinct_map inj_on_def)
  finally show ?thesis .
qed

section \<open>The audit row\<close>

definition run_state :: "int \<Rightarrow> bstate \<Rightarrow> bool" where
  "run_state i b =
     (bs_run b = i \<and> gt_CellsPublished (bs_counts b) + gt_CellsSuppressed (bs_counts b) \<le> gt_CellsTotal (bs_counts b)
      \<and> int (length (co_Cells (bs_cells b))) + co_Suppressed (bs_cells b) = co_Total (bs_cells b))"

lemma phases_keep:
  assumes "phases fs b = (e, b')" and "P b" and "\<And>f b e b'. f \<in> set fs \<Longrightarrow> P b \<Longrightarrow> f b = (e, b') \<Longrightarrow> P b'"
  shows "P b'"
  using assms
proof (induction fs arbitrary: b)
  case (Cons f fs)
  obtain e1 b1 where f: "f b = (e1, b1)" by force
  have "P b1" using Cons.prems(3) [of f b e1 b1] Cons.prems(2) f by simp
  then show ?case using Cons.IH [of b1] Cons.prems(1,3) f by (auto split: if_splits)
qed simp

lemma cells_fit: "ComputeCells inp = Inr out \<Longrightarrow> int (length (co_Cells out)) + co_Suppressed out = co_Total out"
proof -
  assume c: "ComputeCells inp = Inr out"
  have "length (filter (\<lambda>c. ci_MinCellN inp \<le> cc_N c) cs) + length (filter (\<lambda>c. cc_N c < ci_MinCellN inp) cs) = length cs" for cs
    by (induction cs) auto
  then show ?thesis using ComputeCells_result(6-8) [OF c] by (simp flip: of_nat_add)
qed

lemma extract_phase_frame: "extract_phase ord eng opt b = (e, b') \<Longrightarrow> bs_run b' = bs_run b \<and> bs_counts b' = bs_counts b \<and> bs_cells b' = bs_cells b"
  by (auto simp: extract_phase_def Let_def split: option.splits prod.splits list.splits sum.splits if_splits)

lemma compute_keeps:
  assumes "compute ord eng opt b = (e, b')" and "run_state i b"
  shows "run_state i b'"
  using assms unfolding compute_def
proof (rule phases_keep)
  fix f b e b'
  assume f: "f \<in> set [extract_phase ord eng opt, reduce eng, checkInputGates opt, computeCells opt, checkOutputGates opt]"
    and P: "run_state i b" and run: "f b = (e, b')"
  from f consider "f = extract_phase ord eng opt" | "f = reduce eng" | "f = checkInputGates opt" | "f = computeCells opt"
    | "f = checkOutputGates opt" by auto
  then show "run_state i b'"
  proof cases
    case 1
    then show ?thesis using extract_phase_frame [of ord eng opt b e b'] run P by (simp add: run_state_def)
  next
    case 2
    then show ?thesis using run P by (auto simp: reduce_def run_state_def split: option.splits list.splits)
  next
    case 3
    then show ?thesis using run P by (auto simp: checkInputGates_def input_counts_def zero_counts_def run_state_def Let_def)
  next
    case 4
    then show ?thesis using run P cells_fit by (auto simp: computeCells_def run_state_def split: sum.splits)
  next
    case 5
    then show ?thesis using run P by (auto simp: checkOutputGates_def output_counts_def run_state_def Let_def)
  qed
qed

lemma assemble_keeps: "assemble ordp rd E opt b w = (e, b', w') \<Longrightarrow> run_state i b \<Longrightarrow> run_state i b' \<and> bw_runs w' = bw_runs w"
  by (auto simp: assemble_def Let_def run_state_def simp del: write_docs.simps dest!: write_docs_fails
      split: prod.splits bool.splits sum.splits)

lemma publishLive_frame: "publishLive E b w = (e, w') \<Longrightarrow> bw_runs w' = bw_runs w"
  by (auto simp: publishLive_def split: prod.splits option.splits)

lemma run_phases_keep:
  assumes "run_phases ord ordp rd E eng opt b w = (e, b', w')" and "run_state 0 b" and "bs_run b' \<noteq> 0"
  shows "run_state (bs_run b') b' \<and> bs_run b' = snd (bw_runs w)
    \<and> (\<exists>r. bw_runs w' = (fst (bw_runs w) @ [r], snd (bw_runs w) + 1) \<and> br_ID r = bs_run b')"
proof -
  have env: "en_envelope eng"
  proof (rule ccontr)
    assume "\<not> en_envelope eng"
    then have "b' = b" using assms(1) by (simp add: run_phases_def)
    then show False using assms(2,3) by (simp add: run_state_def)
  qed
  have b0: "run_state 0 (resolvePatch ord eng opt b)"
    using assms(2) by (auto simp: resolvePatch_def run_state_def split: option.splits sum.splits)
  obtain b1 w1 where open1: "openAudit E opt (resolvePatch ord eng opt b) w = (b1, w1)" by force
  obtain ce b2 where c: "compute ord eng opt b1 = (ce, b2)" by force
  obtain ae b3 w2 where a: "assemble ordp rd E opt b2 w1 = (ae, b3, w2)" by (cases "assemble ordp rd E opt b2 w1")
  obtain pe w3 where p: "publishLive E b3 w2 = (pe, w3)" by force
  have b1: "run_state (bs_run b1) b1"
    using b0 open1 by (auto simp: openAudit_def run_state_def split: if_splits prod.splits sum.splits)
  have b2: "run_state (bs_run b1) b2" by (rule compute_keeps [OF c b1])
  have b3: "run_state (bs_run b1) b3" "bw_runs w2 = bw_runs w1" using assemble_keeps [OF a b2] by simp_all
  have w3: "bw_runs w3 = bw_runs w1" using publishLive_frame [OF p] b3(2) by simp
  have res: "run_state (bs_run b1) b' \<and> bw_runs w' = bw_runs w1"
    using assms(1) env open1 c a p b1 b2 b3 w3
    by (cases ce; cases ae) (auto simp: run_phases_def Let_def split: if_splits)
  then have same: "bs_run b' = bs_run b1" by (simp add: run_state_def)
  have "bs_run b1 = snd (bw_runs w) \<and> (\<exists>r. bw_runs w1 = (fst (bw_runs w) @ [r], snd (bw_runs w) + 1) \<and> br_ID r = bs_run b1)"
    using open1 b0 assms(3) same by (auto simp: openAudit_def StartBuildRun_def run_state_def split: if_splits prod.splits sum.splits)
  then show ?thesis using res same by metis
qed

lemma buildRunStatus_audit:
  "buildRunStatus (auditStatusFor e) = Inr (if e = [] then BuildSucceeded else BuildFailed)"
  by (simp add: auditStatusFor_def buildRunStatus_def)

lemma finishAudit_closes:
  assumes "run_state (bs_run b) b" and "bs_run b \<noteq> 0" and "oc_io E (fs_tick (bw_fs w))" and "r \<in> set (fst (bw_runs w))" and "br_ID r = bs_run b"
  shows "\<exists>r \<in> set (fst (bw_runs (finishAudit E e b w))). br_ID r = bs_run b \<and> br_FinishedAt r = Some (bw_now w)
    \<and> br_Status r = (if e = [] then BuildSucceeded else BuildFailed) \<and> br_Published r = gt_CellsPublished (bs_counts b)"
proof -
  let ?close = "\<lambda>r. if br_ID r = bs_run b then r\<lparr>br_FinishedAt := Some (bw_now w),
      br_Status := (if e = [] then BuildSucceeded else BuildFailed), br_Total := gt_CellsTotal (bs_counts b),
      br_Published := gt_CellsPublished (bs_counts b), br_Suppressed := gt_CellsSuppressed (bs_counts b),
      br_URI := nullText (''/agg/'' @ Seg_Dir (bs_seg b)), br_Err := nullText (err_text e)\<rparr> else r"
  have "fst (bw_runs (finishAudit E e b w)) = map ?close (fst (bw_runs w))"
    using assms(1-3) by (simp add: finishAudit_def FinishBuildRun_def buildRunStatus_audit run_state_def step_ok_def Let_def)
  moreover have "?close r \<in> set (map ?close (fst (bw_runs w)))" unfolding list.set_map using assms(4) by (rule imageI)
  ultimately show ?thesis using assms(5) by (intro bexI [of _ "?close r"]) simp_all
qed

text \<open>
  C30: a build that opened an audit row closes it, whatever else fails: a phase, a file operation, the
  publication. The one condition is that the closing statement itself, the last step of the run, reaches the
  store. The row is then the one the build opened, closed as succeeded exactly when the build reports
  success and as failed otherwise, with the number of cells the build counted.
\<close>

theorem build_run_is_closed:
  assumes "BuildAgg ord ordp rd E eng opt w = (e, b, w')" and "bs_run b \<noteq> 0"
    and "oc_io E (fs_tick (bw_fs w') - 1)"
  shows "\<exists>r \<in> set (fst (bw_runs w')). br_ID r = bs_run b \<and> br_ID r = snd (bw_runs w) \<and> br_FinishedAt r \<noteq> None
    \<and> (br_Status r = BuildSucceeded \<longleftrightarrow> e = []) \<and> (br_Status r = BuildFailed \<longleftrightarrow> e \<noteq> [])
    \<and> br_Published r = gt_CellsPublished (bs_counts b)"
proof -
  let ?opt = "normalize_build opt" and ?w1 = "tick_world (tick_world w)"
  let ?w2 = "?w1\<lparr>bw_fs := (bw_fs ?w1)\<lparr>fs_stage := []\<rparr>\<rparr>"
  have fresh: "run_state 0 (new_bstate ?opt window)" for window
    by (simp add: run_state_def new_bstate_def zero_counts_def zero_cells_def)
  obtain window wr where run: "run_build ord ordp rd E eng ?opt (new_bstate ?opt window) ?w2 = (e, b, wr)"
    and w': "w' = wr\<lparr>bw_fs := (bw_fs wr)\<lparr>fs_stage := []\<rparr>\<rparr>"
    using assms(1,2) by (auto simp: BuildAgg_def Let_def new_bstate_def split: if_splits sum.splits prod.splits)
  obtain w3 where ph: "run_phases ord ordp rd E eng ?opt (new_bstate ?opt window) ?w2 = (e, b, w3)"
    and wr: "wr = finishAudit E e b w3"
    using run assms(2) by (auto simp: run_build_def new_bstate_def split: if_splits prod.splits)
  note keep = run_phases_keep [OF ph fresh assms(2)]
  then obtain r where r: "bw_runs w3 = (fst (bw_runs ?w2) @ [r], snd (bw_runs ?w2) + 1)" "br_ID r = bs_run b" by blast
  have last: "fs_tick (bw_fs w') = Suc (fs_tick (bw_fs w3))"
    using assms(2) by (simp add: w' wr finishAudit_def Let_def tick_world_def tick_def)
  have "r \<in> set (fst (bw_runs w3))" by (simp add: r(1))
  from finishAudit_closes [OF _ assms(2) _ this r(2), of E e] keep last assms(3)
  obtain r' where "r' \<in> set (fst (bw_runs wr))" "br_ID r' = bs_run b" "br_FinishedAt r' = Some (bw_now w3)"
    "br_Status r' = (if e = [] then BuildSucceeded else BuildFailed)" "br_Published r' = gt_CellsPublished (bs_counts b)"
    by (auto simp: wr)
  then show ?thesis using keep by (intro bexI [of _ r']) (simp_all add: w')
qed

section \<open>A build\<close>

definition demo_tallies :: tallies where
  "demo_tallies =
     \<lparr>ta_window = [\<lparr>ws_MatchesUsed = 200, ws_ParticipantRows = 351, ws_RejectedRows = 0\<rparr>],
      ta_cells = [\<lparr>cc_ChampionID = 7, cc_Role = ''MIDDLE'', cc_N = 200, cc_Wins = 110\<rparr>,
                  \<lparr>cc_ChampionID = 3, cc_Role = ''MIDDLE'', cc_N = 151, cc_Wins = 70\<rparr>],
      ta_bans = [\<lparr>ban_ChampionID = 7, ban_Bans = 20\<rparr>],
      ta_items = [\<lparr>bc_ChampionID = 7, bc_Role = ''MIDDLE'', bc_Key = [1, 2, 3, 4, 5, 6, 0], bc_N = 40, bc_Wins = 25\<rparr>],
      ta_runes = [], ta_spells = [\<lparr>bc_ChampionID = 3, bc_Role = ''MIDDLE'', bc_Key = [4, 14], bc_N = 90, bc_Wins = 44\<rparr>],
      ta_matchups = [\<lparr>muc_Role = ''MIDDLE'', muc_ChampionID = 3, muc_OpponentID = 7, muc_N = 120, muc_Wins = 55\<rparr>]\<rparr>"

definition demo_engine :: engine where
  "demo_engine = \<lparr>en_parts = Some [''2026-03-07'', ''2026-03-01''], en_staged = True, en_opens = True, en_envelope = True,
     en_envelope_patches = None,
     en_extract = Some ([(210, 0)], [\<lparr>pr_Patch = ''16.9'', pr_Matches = 200, pr_ParticipantRows = 351\<rparr>]),
     en_reduce = (\<lambda>patch. Some demo_tallies)\<rparr>"

definition demo_opts :: build_opts where
  "demo_opts = \<lparr>bo_roots = True, bo_Region = ''EUW'', bo_Queue = 420, bo_Bracket = [], bo_Patch = [], bo_WindowEnd = [],
     bo_WindowDays = 0, bo_MinCellN = 100, bo_Gates = DefaultGateConfig 100, bo_GitSHA = [], bo_auditor = False, bo_store_region = ''EUW''\<rparr>"

definition demo_world :: bworld where
  "demo_world = \<lparr>bw_fs = \<lparr>fs_live = [], fs_stage = [], fs_trash = [], fs_tick = 0, fs_seen = []\<rparr>, bw_runs = ([], 1), bw_now = 5\<rparr>"

definition demo_build :: "err \<times> bstate \<times> bworld" where
  "demo_build = BuildAgg id id (\<lambda>q. True) all_fine demo_engine demo_opts demo_world"

definition demo_state :: bstate where
  "demo_state = fst (snd demo_build)"

definition demo_published :: bworld where
  "demo_published = snd (snd demo_build)"

lemma demo_build_runs: "BuildAgg id id (\<lambda>q. True) all_fine demo_engine demo_opts demo_world = ([], demo_state, demo_published)"
proof -
  have "fst demo_build = []" by code_simp
  then show ?thesis by (simp add: demo_state_def demo_published_def demo_build_def prod_eq_iff)
qed

lemma demo_tallies_sound: "tallies_sound 100 demo_tallies"
proof -
  have "let inp = \<lparr>ci_Counts = ta_cells demo_tallies, ci_Bans = ta_bans demo_tallies, ci_Matches = 200, ci_MinCellN = 100\<rparr>
         in tallies_proper inp \<and> builds_proper 7 inp (ta_items demo_tallies) \<and> builds_proper 6 inp (ta_runes demo_tallies)
            \<and> builds_proper 2 inp (ta_spells demo_tallies) \<and> matchups_proper (ta_matchups demo_tallies)
            \<and> (\<forall>c \<in> set (ta_cells demo_tallies). cc_ChampionID c \<le> max_duration)" by code_simp
  then show ?thesis by (simp add: tallies_sound_def) (simp add: demo_tallies_def)
qed

theorem build_fails_closed_witness: "fst demo_build = [] \<and> file_at (fs_live (bw_fs demo_published)) (slash_path ManifestPath) \<noteq> None"
proof -
  have changed: "file_at (fs_live (bw_fs demo_published)) (slash_path ManifestPath) \<noteq> None" by code_simp
  have "file_at (fs_live (bw_fs demo_world)) (slash_path ManifestPath) = None" "fs_live (bw_fs demo_world) = []"
    by (simp_all add: demo_world_def file_at_def)
  then have "([] :: err) = [] \<and> (below (seg_dir (bs_seg demo_state)) (slash_path ManifestPath) \<or> below (slash_path ManifestPath) (slash_path ManifestPath))"
    using changed by (intro build_fails_closed [OF _ _ demo_build_runs]) (simp_all add: all_fine_def tree_ok_def)
  then show ?thesis using changed demo_build_runs by (simp add: demo_build_def)
qed


definition audited_build :: "err \<times> bstate \<times> bworld" where
  "audited_build = BuildAgg id id (\<lambda>q. True) all_fine (demo_engine\<lparr>en_reduce := (\<lambda>patch. None)\<rparr>)
     (demo_opts\<lparr>bo_auditor := True, bo_Patch := ''16.9''\<rparr>) demo_world"

theorem build_run_is_closed_witness:
  "fst audited_build \<noteq> [] \<and> (\<exists>r \<in> set (fst (bw_runs (snd (snd audited_build)))). br_ID r = 1 \<and> br_Status r = BuildFailed)"
proof -
  have e: "fst audited_build \<noteq> []" "bs_run (fst (snd audited_build)) = 1" by code_simp+
  have "BuildAgg id id (\<lambda>q. True) all_fine (demo_engine\<lparr>en_reduce := (\<lambda>patch. None)\<rparr>)
     (demo_opts\<lparr>bo_auditor := True, bo_Patch := ''16.9''\<rparr>) demo_world
     = (fst audited_build, fst (snd audited_build), snd (snd audited_build))" by (simp add: audited_build_def)
  from build_run_is_closed [OF this] e show ?thesis by (auto simp: all_fine_def)
qed

end
