(* ===== verification/Json_Schema.thy ===== *)
theory Json_Schema
  imports Agg_Model Raw_Writer "HOL-Library.AList"
begin

text \<open>
  Decoded JSON and the interpreter of the artifacts' schema (\<^verbatim>\<open>internal/aggregate/jsonschema.go\<close>). The
  interpreter follows a \<open>$ref\<close> without reading any of the document, so a definition that refers to
  itself keeps it busy forever: it carries fuel here, and no answer is \<open>None\<close>. A message of
  the interpreter is the path it names and what is wrong there.
\<close>

section \<open>Values\<close>

text \<open>
  A \<^verbatim>\<open>json.Number\<close> is its text. \<open>JFloat\<close> is a \<^verbatim>\<open>float64\<close>: a decoder that was told to use numbers never
  makes one. An object is its members, each key once, in the order of the keys; \<open>obj\<close> makes one of
  members in any order, the first one of a key.
\<close>

datatype json =
    JNull | JBool bool | JNumber string | JFloat rat | JString string | JArray "json list" | JObject "(string \<times> json) list"

text \<open>What the standard library reads: a number (\<open>None\<close> when it is out of range) and an RFC 3339 instant.\<close>

record json_readers =
  jr_Float64 :: "string \<Rightarrow> rat option"
  jr_RFC3339 :: "string \<Rightarrow> bool"

definition obj :: "(string \<times> json) list \<Rightarrow> json" where
  "obj ms = JObject (sort_key fst (AList.clearjunk ms))"

fun member :: "string \<Rightarrow> json \<Rightarrow> json option" where
  "member k (JObject ms) = map_of ms k"
| "member k v = None"

section \<open>Keywords\<close>

definition supportedKeywords :: "string list" where
  "supportedKeywords =
     [''$schema'', ''$id'', ''$ref'', ''$defs'', ''title'', ''description'', ''type'', ''enum'', ''oneOf'', ''anyOf'', ''allOf'',
      ''properties'', ''required'', ''additionalProperties'', ''items'', ''format'', ''minimum'', ''maximum'', ''minItems'', ''maxItems'']"

datatype schema_problem =
    NodeNotObject | UnsupportedKeyword string | RefUnresolved string | NoVariant | SeveralVariants nat | WrongType
  | NotInEnum | NotText | NotADateTime | Missing string | Undeclared string | TooFewItems | TooManyItems
  | NotReadable | BelowMinimum | AboveMaximum

type_synonym mismatch = "string \<times> schema_problem"

section \<open>Type, enum, bounds\<close>

definition integral :: "rat \<Rightarrow> bool" where
  "integral q = (of_int \<lfloor>q\<rfloor> = q)"

definition matchesOneType :: "json_readers \<Rightarrow> string \<Rightarrow> json \<Rightarrow> bool" where
  "matchesOneType R name value =
     (if name = ''null'' then value = JNull
      else if name = ''boolean'' then (case value of JBool b \<Rightarrow> True | x \<Rightarrow> False)
      else if name = ''string'' then (case value of JString s \<Rightarrow> True | x \<Rightarrow> False)
      else if name = ''number'' then (case value of JNumber n \<Rightarrow> True | x \<Rightarrow> False)
      else if name = ''integer''
      then (case value of JNumber n \<Rightarrow> (case jr_Float64 R n of None \<Rightarrow> False | Some q \<Rightarrow> integral q) | x \<Rightarrow> False)
      else if name = ''array'' then (case value of JArray vs \<Rightarrow> True | x \<Rightarrow> False)
      else if name = ''object'' then (case value of JObject ms \<Rightarrow> True | x \<Rightarrow> False)
      else False)"

definition typeMatches :: "json_readers \<Rightarrow> json \<Rightarrow> json \<Rightarrow> bool" where
  "typeMatches R rawType value =
     (case rawType of
        JString name \<Rightarrow> matchesOneType R name value
      | JArray candidates \<Rightarrow> list_ex (\<lambda>c. case c of JString name \<Rightarrow> matchesOneType R name value | x \<Rightarrow> False) candidates
      | x \<Rightarrow> False)"

definition equalJSON :: "json_readers \<Rightarrow> json \<Rightarrow> json \<Rightarrow> bool" where
  "equalJSON R a b =
     (case (a, b) of
        (JNumber m, JNumber n) \<Rightarrow> (case (jr_Float64 R m, jr_Float64 R n) of (Some p, Some q) \<Rightarrow> p = q | x \<Rightarrow> False)
      | x \<Rightarrow> a = b)"

definition enumContains :: "json_readers \<Rightarrow> json list \<Rightarrow> json \<Rightarrow> bool" where
  "enumContains R allowed value = list_ex (\<lambda>c. equalJSON R c value) allowed"

text \<open>\<^verbatim>\<open>schema[key].(float64)\<close>.\<close>

definition float_bound :: "string \<Rightarrow> json \<Rightarrow> rat option" where
  "float_bound key schema = (case member key schema of Some (JFloat q) \<Rightarrow> Some q | x \<Rightarrow> None)"

definition checkBounds :: "json_readers \<Rightarrow> json \<Rightarrow> string \<Rightarrow> string \<Rightarrow> mismatch list" where
  "checkBounds R schema number path =
     (case jr_Float64 R number of
        None \<Rightarrow> [(path, NotReadable)]
      | Some q \<Rightarrow>
          (case float_bound ''minimum'' schema of Some m \<Rightarrow> if q < m then [(path, BelowMinimum)] else [] | None \<Rightarrow> []) @
          (case float_bound ''maximum'' schema of Some m \<Rightarrow> if m < q then [(path, AboveMaximum)] else [] | None \<Rightarrow> []))"

section \<open>The interpreter\<close>

text \<open>The answers of several runs in their order; one that does not return is no answer.\<close>

fun in_order :: "'a list option list \<Rightarrow> 'a list option" where
  "in_order [] = Some []"
| "in_order (None # rs) = None"
| "in_order (Some ps # rs) = map_option (append ps) (in_order rs)"

type_synonym runner = "json \<Rightarrow> json \<Rightarrow> string \<Rightarrow> mismatch list option"

fun run_variants :: "mismatch list option list \<Rightarrow> (nat \<times> mismatch list option) option" where
  "run_variants [] = Some (0, None)"
| "run_variants (None # rs) = None"
| "run_variants (Some ps # rs) =
     (case run_variants rs of
        None \<Rightarrow> None
      | Some (matched, failed) \<Rightarrow> Some (if ps = [] then (Suc matched, failed) else (matched, Some ps)))"

definition validateVariants :: "runner \<Rightarrow> json list \<Rightarrow> json \<Rightarrow> string \<Rightarrow> bool \<Rightarrow> mismatch list option" where
  "validateVariants run variants value path exactlyOne =
     (case run_variants (map (\<lambda>variant. run variant value path) variants) of
        None \<Rightarrow> None
      | Some (matched, failed) \<Rightarrow>
          Some (if matched = 0 then (path, NoVariant) # (case failed of Some ps \<Rightarrow> ps | None \<Rightarrow> [(path, NoVariant)])
                else if exactlyOne \<and> 1 < matched then [(path, SeveralVariants matched)] else []))"

definition missing_properties :: "json \<Rightarrow> (string \<times> json) list \<Rightarrow> string \<Rightarrow> mismatch list" where
  "missing_properties schema members path =
     (case member ''required'' schema of
        Some (JArray names) \<Rightarrow>
          concat (map (\<lambda>n. case n of JString key \<Rightarrow> if map_of members key = None then [(path, Missing key)] else [] | x \<Rightarrow> []) names)
      | x \<Rightarrow> [])"

definition validate_member :: "runner \<Rightarrow> json \<Rightarrow> string \<Rightarrow> string \<Rightarrow> json \<Rightarrow> mismatch list option" where
  "validate_member run schema path key v =
     (case (case member ''properties'' schema of Some (JObject ps) \<Rightarrow> map_of ps key | x \<Rightarrow> None) of
        Some property \<Rightarrow> run property v (path @ ''.'' @ key)
      | None \<Rightarrow>
          (case member ''additionalProperties'' schema of
             Some (JBool b) \<Rightarrow> Some (if b then [] else [(path, Undeclared key)])
           | Some (JObject ms) \<Rightarrow> run (JObject ms) v (path @ ''.'' @ key)
           | x \<Rightarrow> Some []))"

definition validateObject :: "runner \<Rightarrow> json \<Rightarrow> (string \<times> json) list \<Rightarrow> string \<Rightarrow> mismatch list option" where
  "validateObject run schema members path =
     map_option (append (missing_properties schema members path))
       (in_order (map (\<lambda>(key, v). validate_member run schema path key v) members))"

definition validateArray :: "runner \<Rightarrow> json \<Rightarrow> json list \<Rightarrow> string \<Rightarrow> mismatch list option" where
  "validateArray run schema elements path =
     map_option
       (append
         ((case float_bound ''minItems'' schema of Some m \<Rightarrow> if of_nat (length elements) < m then [(path, TooFewItems)] else [] | None \<Rightarrow> []) @
          (case float_bound ''maxItems'' schema of Some m \<Rightarrow> if m < of_nat (length elements) then [(path, TooManyItems)] else [] | None \<Rightarrow> [])))
       (case member ''items'' schema of
          None \<Rightarrow> Some []
        | Some items \<Rightarrow>
            in_order (map (\<lambda>(i, e). run items e (path @ ''['' @ show_int (int i) @ '']'')) (List.enumerate 0 elements)))"

definition refPrefix :: string where
  "refPrefix = ''#/$defs/''"

definition resolve_ref :: "(string \<times> json) list \<Rightarrow> string \<Rightarrow> json option" where
  "resolve_ref defs ref = (if has_prefix refPrefix ref then map_of defs (drop (length refPrefix) ref) else None)"

definition date_time_problem :: "json_readers \<Rightarrow> json \<Rightarrow> json \<Rightarrow> string \<Rightarrow> mismatch list" where
  "date_time_problem R schema value path =
     (if member ''format'' schema \<noteq> Some (JString ''date-time'') then []
      else (case value of JString s \<Rightarrow> if jr_RFC3339 R s then [] else [(path, NotADateTime)] | x \<Rightarrow> [(path, NotText)]))"

text \<open>What follows the combinators: type, enum and format in turn, then bounds and the members or elements.\<close>

definition validate_value :: "json_readers \<Rightarrow> runner \<Rightarrow> json \<Rightarrow> json \<Rightarrow> string \<Rightarrow> mismatch list option" where
  "validate_value R run schema value path =
     (if (case member ''type'' schema of Some t \<Rightarrow> \<not> typeMatches R t value | None \<Rightarrow> False) then Some [(path, WrongType)]
      else if (case member ''enum'' schema of Some (JArray allowed) \<Rightarrow> \<not> enumContains R allowed value | x \<Rightarrow> False)
      then Some [(path, NotInEnum)]
      else if date_time_problem R schema value path \<noteq> [] then Some (date_time_problem R schema value path)
      else (case value of
              JNumber n \<Rightarrow> Some (checkBounds R schema n path)
            | JObject members \<Rightarrow> validateObject run schema members path
            | JArray elements \<Rightarrow> validateArray run schema elements path
            | x \<Rightarrow> Some []))"

definition unsupported :: "(string \<times> json) list \<Rightarrow> string option" where
  "unsupported node = find (\<lambda>k. k \<notin> set supportedKeywords) (map fst node)"

definition validate_node :: "json_readers \<Rightarrow> (string \<times> json) list \<Rightarrow> runner \<Rightarrow> runner" where
  "validate_node R defs run schema value path =
     (case schema of
        JObject node \<Rightarrow>
          (case unsupported node of
             Some k \<Rightarrow> Some [(path, UnsupportedKeyword k)]
           | None \<Rightarrow>
          (case member ''$ref'' schema of
             Some (JString ref) \<Rightarrow>
               (case resolve_ref defs ref of None \<Rightarrow> Some [(path, RefUnresolved ref)] | Some target \<Rightarrow> run target value path)
           | x \<Rightarrow>
          (case member ''oneOf'' schema of
             Some (JArray variants) \<Rightarrow> validateVariants run variants value path True
           | x \<Rightarrow>
          (case member ''anyOf'' schema of
             Some (JArray variants) \<Rightarrow> validateVariants run variants value path False
           | x \<Rightarrow>
          (case member ''allOf'' schema of
             Some (JArray variants) \<Rightarrow> in_order (map (\<lambda>variant. run variant value path) variants)
           | x \<Rightarrow> validate_value R run schema value path)))))
      | x \<Rightarrow> Some [(path, NodeNotObject)])"

primrec validate :: "json_readers \<Rightarrow> (string \<times> json) list \<Rightarrow> nat \<Rightarrow> runner" where
  "validate R defs 0 = (\<lambda>schema value path. None)"
| "validate R defs (Suc n) = validate_node R defs (validate R defs n)"

section \<open>The validator\<close>

datatype validator_error = NoDefs | DefsNotObject | DefsEmpty

definition newSchemaValidator :: "json \<Rightarrow> validator_error + (string \<times> json) list" where
  "newSchemaValidator schema =
     (case member ''$defs'' schema of
        None \<Rightarrow> Inl NoDefs
      | Some (JObject defs) \<Rightarrow> if defs = [] then Inl DefsEmpty else Inr defs
      | Some x \<Rightarrow> Inl DefsNotObject)"

datatype verdict = NoDefinition | DoesNotMatch "mismatch list" | Matches

text \<open>\<^verbatim>\<open>Validate\<close> of a document that decodes; \<open>None\<close> when the interpreter did not return on its fuel.\<close>

definition Validate :: "json_readers \<Rightarrow> (string \<times> json) list \<Rightarrow> nat \<Rightarrow> string \<Rightarrow> json \<Rightarrow> verdict option" where
  "Validate R defs fuel name value =
     (case map_of defs name of
        None \<Rightarrow> Some NoDefinition
      | Some definition_node \<Rightarrow>
          map_option (\<lambda>ps. if ps = [] then Matches else DoesNotMatch ps) (validate R defs fuel definition_node value name))"

end
