(* ===== verification/Agg_Schema.thy ===== *)
theory Agg_Schema
  imports Json_Schema
begin

text \<open>
  The schema of the artifacts and how it comes from their Go types (\<^verbatim>\<open>internal/aggmodel/schema.go\<close>, the
  declarations of \<^verbatim>\<open>model.go\<close>). A type is what reflection shows of it: its kind, and for a structure its
  name and fields with their tags. The schema is the decoded document, as the verifier reads it
  after \<^verbatim>\<open>MarshalSchema\<close>.
\<close>

section \<open>Types as reflection shows them\<close>

text \<open>A string type carries its name; the plain one has none.\<close>

datatype gotype =
    GoBool | GoInt | GoFloat | GoString string | GoSlice gotype | GoMap gotype | GoPointer gotype | GoTime
  | GoStruct (struct_name: string) (struct_fields: "gofield list") | GoOther
and gofield = GoField (field_name: string) (field_tag: string) (field_anonymous: bool) (field_type: gotype)

abbreviation go_text :: gotype where "go_text \<equiv> GoString []"

section \<open>Fields\<close>

text \<open>\<^verbatim>\<open>jsonField\<close>: the name and whether the field is optional; \<open>None\<close> when it takes no part.\<close>

definition jsonField :: "gofield \<Rightarrow> (string \<times> bool) option" where
  "jsonField f =
     (if field_tag f = ''-'' then None
      else (case split_on (CHR '','') (field_tag f) of
              [] \<Rightarrow> Some (field_name f, False)
            | p # ps \<Rightarrow> Some (if p = [] then field_name f else p, ''omitempty'' \<in> set ps)))"

definition embedded :: "gofield \<Rightarrow> bool" where
  "embedded f = (field_anonymous f \<and> (case field_type f of GoStruct n fs \<Rightarrow> True | x \<Rightarrow> False))"

definition embeddedFields :: "gofield list \<Rightarrow> gofield list" where
  "embeddedFields fs = filter embedded fs"

definition ownFields :: "gofield list \<Rightarrow> gofield list" where
  "ownFields fs = filter (\<lambda>f. \<not> field_anonymous f \<and> jsonField f \<noteq> None) fs"

definition json_name :: "gofield \<Rightarrow> string" where
  "json_name f = (case jsonField f of Some (name, opt) \<Rightarrow> name | None \<Rightarrow> [])"

definition json_optional :: "gofield \<Rightarrow> bool" where
  "json_optional f = (case jsonField f of Some (name, opt) \<Rightarrow> opt | None \<Rightarrow> False)"

section \<open>The registry of closed vocabularies\<close>

definition Brackets :: "string list" where
  "Brackets = [BracketAll, ''emerald_plus'', ''platinum_plus'', ''diamond_plus'', ''master_plus'']"

definition Sources :: "string list" where
  "Sources = [SourceRiotMatchV5, SourceDemo]"

text \<open>By name, as \<^verbatim>\<open>sortedEnumTypes\<close> lists it.\<close>

definition enumRegistry :: "(string \<times> string list) list" where
  "enumRegistry = [(''Bracket'', Brackets), (''Role'', Roles), (''Source'', Sources), (''Tier'', Tiers)]"

section \<open>Schemas\<close>

definition ref_to :: "string \<Rightarrow> json" where
  "ref_to name = obj [(''$ref'', JString (refPrefix @ name))]"

definition typed :: "string \<Rightarrow> json" where
  "typed name = obj [(''type'', JString name)]"

fun jsonSchemaFor :: "gotype \<Rightarrow> json" where
  "jsonSchemaFor (GoPointer t) = jsonSchemaFor t"
| "jsonSchemaFor GoBool = typed ''boolean''"
| "jsonSchemaFor GoInt = typed ''integer''"
| "jsonSchemaFor GoFloat = typed ''number''"
| "jsonSchemaFor (GoString n) = (if map_of enumRegistry n \<noteq> None then ref_to n else typed ''string'')"
| "jsonSchemaFor (GoSlice t) = obj [(''items'', jsonSchemaFor t), (''type'', JString ''array'')]"
| "jsonSchemaFor (GoMap t) = obj [(''additionalProperties'', jsonSchemaFor t), (''type'', JString ''object'')]"
| "jsonSchemaFor GoTime = obj [(''format'', JString ''date-time''), (''type'', JString ''string'')]"
| "jsonSchemaFor (GoStruct n fs) = ref_to n"
| "jsonSchemaFor GoOther = obj []"

text \<open>
  \<^verbatim>\<open>structSchema\<close> inlines the embedded structures: the fields it describes are theirs and then the
  structure's own. A property met later replaces an earlier one of its name.
\<close>

lemma embedded_smaller [termination_simp]: "embedded f \<Longrightarrow> size_list size (struct_fields (field_type f)) < size f"
  by (cases f; cases "field_type f") (auto simp: embedded_def)

fun inherited :: "gofield list \<Rightarrow> gofield list" where
  "inherited [] = []"
| "inherited (f # fs) =
     (if embedded f then inherited (struct_fields (field_type f)) @ ownFields (struct_fields (field_type f)) else []) @ inherited fs"

definition all_fields :: "gofield list \<Rightarrow> gofield list" where
  "all_fields fs = inherited fs @ ownFields fs"

definition required_names :: "gofield list \<Rightarrow> string list" where
  "required_names fs = map json_name (filter (\<lambda>f. \<not> json_optional f) (all_fields fs))"

definition field_types :: "gofield list \<Rightarrow> (string \<times> gotype) list" where
  "field_types fs = rev (map (\<lambda>f. (json_name f, field_type f)) (all_fields fs))"

definition structSchema :: "gofield list \<Rightarrow> json" where
  "structSchema fs =
     obj ([(''type'', JString ''object''),
           (''properties'', obj (map (\<lambda>(k, t). (k, jsonSchemaFor t)) (field_types fs))),
           (''additionalProperties'', JBool False)] @
          (if required_names fs = [] then [] else [(''required'', JArray (map JString (required_names fs)))]))"

definition enum_schema :: "string list \<Rightarrow> json" where
  "enum_schema values = obj [(''enum'', JArray (map JString values)), (''type'', JString ''string'')]"

text \<open>\<^verbatim>\<open>namedStructs\<close>: depth first in the order of the fields, each structure once.\<close>

lemma field_smaller [termination_simp]: "f \<in> set fs \<Longrightarrow> size (field_type f) < Suc (size_list size fs)"
proof -
  assume "f \<in> set fs"
  then have "size f \<le> size_list size fs" by (rule size_list_estimation') simp
  then show "size (field_type f) < Suc (size_list size fs)" by (cases f) simp
qed

fun visit :: "gotype \<Rightarrow> gotype list \<Rightarrow> gotype list" where
  "visit (GoPointer t) order = visit t order"
| "visit (GoSlice t) order = visit t order"
| "visit (GoMap t) order = visit t order"
| "visit (GoStruct n fs) order =
     (if GoStruct n fs \<in> set order then order
      else fold (\<lambda>f. visit (field_type f)) fs (order @ [GoStruct n fs]))"
| "visit t order = order"

definition namedStructs :: "gotype list \<Rightarrow> gotype list" where
  "namedStructs roots = fold visit roots []"

definition schema_defs :: "gotype list \<Rightarrow> (string \<times> json) list" where
  "schema_defs roots =
     map (\<lambda>(n, values). (n, enum_schema values)) enumRegistry @
     map (\<lambda>t. (struct_name t, structSchema (struct_fields t))) (namedStructs roots)"

definition SchemaDocumentID :: string where
  "SchemaDocumentID = ''https://github.com/Erik-Schuetze/league-of-legends/agg/v1/schema.json''"

definition Schema :: "gotype list \<Rightarrow> json" where
  "Schema roots =
     obj [(''$schema'', JString ''https://json-schema.org/draft/2020-12/schema''), (''$id'', JString SchemaDocumentID),
          (''title'', JString ''League of Legends aggregate artifacts (agg/v1)''),
          (''oneOf'', JArray (map (\<lambda>root. ref_to (struct_name root)) roots)), (''$defs'', obj (schema_defs roots))]"

end
