(* ===== verification/Agg_Artifacts.thy ===== *)
theory Agg_Artifacts
  imports Agg_Schema
begin

text \<open>
  The artifacts' types as reflection shows the declarations of \<^verbatim>\<open>internal/aggmodel/model.go\<close>, and the JSON a
  document becomes (\<^verbatim>\<open>marshalDoc\<close> of \<^verbatim>\<open>internal/aggregate/jsonio.go\<close>): one member for each field under the
  name of its tag, those of an embedded structure among them. How a number and an instant are
  written is the library's.
\<close>

section \<open>Types\<close>

definition own :: "string \<Rightarrow> string \<Rightarrow> gotype \<Rightarrow> gofield" where
  "own name tag t = GoField name tag False t"

definition Window_type :: gotype where
  "Window_type = GoStruct ''Window'' [own ''From'' ''from'' go_text, own ''To'' ''to'' go_text]"

definition Envelope_type :: gotype where
  "Envelope_type = GoStruct ''Envelope''
     [own ''Schema'' ''schema'' GoInt, own ''Source'' ''source'' (GoString ''Source''), own ''Patch'' ''patch'' go_text,
      own ''Region'' ''region'' go_text, own ''Queue'' ''queue'' GoInt, own ''Bracket'' ''bracket'' (GoString ''Bracket''),
      own ''GeneratedAt'' ''generated_at'' GoTime, own ''SourceWindow'' ''source_window'' Window_type,
      own ''MinCellN'' ''min_cell_n'' GoInt, own ''SuppressedCells'' ''suppressed_cells'' GoInt]"

definition embedded_envelope :: gofield where
  "embedded_envelope = GoField ''Envelope'' [] True Envelope_type"

definition Cell_type :: gotype where
  "Cell_type = GoStruct ''Cell''
     [own ''ChampionID'' ''champion_id'' GoInt, own ''Role'' ''role'' (GoString ''Role''), own ''N'' ''n'' GoInt, own ''Wins'' ''wins'' GoInt,
      own ''WinRate'' ''win_rate'' GoFloat, own ''PickRate'' ''pick_rate'' GoFloat, own ''BanRate'' ''ban_rate'' GoFloat,
      own ''Tier'' ''tier'' (GoString ''Tier''), own ''CI95HalfWidth'' ''ci95_half_width'' GoFloat]"

definition TierList_type :: gotype where
  "TierList_type = GoStruct ''TierList'' [embedded_envelope, own ''Cells'' ''cells'' (GoSlice Cell_type)]"

definition Build_type :: gotype where
  "Build_type = GoStruct ''Build''
     [own ''Kind'' ''kind'' go_text, own ''Key'' ''key'' (GoSlice GoInt), own ''Label'' ''label'' go_text, own ''N'' ''n'' GoInt,
      own ''Wins'' ''wins'' GoInt, own ''WinRate'' ''win_rate'' GoFloat]"

definition SkillOrder_type :: gotype where
  "SkillOrder_type = GoStruct ''SkillOrder''
     [own ''Order'' ''order'' go_text, own ''N'' ''n'' GoInt, own ''Wins'' ''wins'' GoInt, own ''WinRate'' ''win_rate'' GoFloat]"

definition ChampionRole_type :: gotype where
  "ChampionRole_type = GoStruct ''ChampionRole''
     [own ''Role'' ''role'' (GoString ''Role''), own ''Stats'' ''stats'' Cell_type, own ''Items'' ''items'' (GoSlice Build_type),
      own ''Runes'' ''runes'' (GoSlice Build_type), own ''Spells'' ''spells'' (GoSlice Build_type),
      own ''SkillOrders'' ''skill_orders'' (GoSlice SkillOrder_type)]"

definition Champion_type :: gotype where
  "Champion_type = GoStruct ''Champion''
     [embedded_envelope, own ''ChampionID'' ''champion_id'' GoInt, own ''ChampionSlug'' ''champion_slug'' go_text,
      own ''Roles'' ''roles'' (GoSlice ChampionRole_type)]"

definition MatchupCell_type :: gotype where
  "MatchupCell_type = GoStruct ''MatchupCell''
     [own ''ChampionID'' ''champion_id'' GoInt, own ''OpponentID'' ''opponent_id'' GoInt, own ''N'' ''n'' GoInt, own ''Wins'' ''wins'' GoInt,
      own ''WinRate'' ''win_rate'' GoFloat, own ''CI95HalfWidth'' ''ci95_half_width'' GoFloat]"

definition Matchups_type :: gotype where
  "Matchups_type = GoStruct ''Matchups''
     [embedded_envelope, own ''Role'' ''role'' (GoString ''Role''), own ''Champions'' ''champions'' (GoSlice GoInt),
      own ''Cells'' ''cells'' (GoSlice MatchupCell_type)]"

definition Partition_type :: gotype where
  "Partition_type = GoStruct ''Partition''
     [own ''Patch'' ''patch'' go_text, own ''Region'' ''region'' go_text, own ''Queue'' ''queue'' GoInt,
      own ''Bracket'' ''bracket'' (GoString ''Bracket''), own ''GeneratedAt'' ''generated_at'' GoTime,
      own ''SourceWindow'' ''source_window'' Window_type, own ''MinCellN'' ''min_cell_n'' GoInt,
      own ''SuppressedCells'' ''suppressed_cells'' GoInt, own ''CellsPublished'' ''cells_published'' GoInt,
      own ''BuildRunID'' ''build_run_id'' GoInt, own ''GitSHA'' ''git_sha'' go_text, own ''Champions'' ''champions'' (GoSlice GoInt),
      own ''MatchupRoles'' ''matchup_roles'' (GoSlice (GoString ''Role''))]"

definition Manifest_type :: gotype where
  "Manifest_type = GoStruct ''Manifest''
     [own ''Schema'' ''schema'' GoInt, own ''Source'' ''source'' (GoString ''Source''), own ''GeneratedAt'' ''generated_at'' GoTime,
      own ''Latest'' ''latest'' Partition_type, own ''Partitions'' ''partitions'' (GoSlice Partition_type)]"

definition StaticChampion_type :: gotype where
  "StaticChampion_type = GoStruct ''StaticChampion''
     [own ''ID'' ''id'' GoInt, own ''Key'' ''key'' go_text, own ''Slug'' ''slug'' go_text, own ''Name'' ''name'' go_text,
      own ''Icon'' ''icon'' go_text, own ''Roles'' ''roles'' (GoSlice (GoString ''Role''))]"

definition StaticItem_type :: gotype where
  "StaticItem_type = GoStruct ''StaticItem'' [own ''ID'' ''id'' GoInt, own ''Name'' ''name'' go_text, own ''Icon'' ''icon'' go_text]"

definition StaticRune_type :: gotype where
  "StaticRune_type = GoStruct ''StaticRune''
     [own ''ID'' ''id'' GoInt, own ''Name'' ''name'' go_text, own ''Icon'' ''icon'' go_text, own ''Tree'' ''tree'' GoInt]"

definition StaticSummonerSpell_type :: gotype where
  "StaticSummonerSpell_type = GoStruct ''StaticSummonerSpell''
     [own ''ID'' ''id'' GoInt, own ''Name'' ''name'' go_text, own ''Icon'' ''icon'' go_text]"

definition StaticChampions_type :: gotype where
  "StaticChampions_type = GoStruct ''StaticChampions''
     [own ''DDragonVersion'' ''ddragon_version'' go_text, own ''Champions'' ''champions'' (GoSlice StaticChampion_type)]"

definition StaticItems_type :: gotype where
  "StaticItems_type = GoStruct ''StaticItems''
     [own ''DDragonVersion'' ''ddragon_version'' go_text, own ''Items'' ''items'' (GoSlice StaticItem_type)]"

definition StaticRunes_type :: gotype where
  "StaticRunes_type = GoStruct ''StaticRunes''
     [own ''DDragonVersion'' ''ddragon_version'' go_text, own ''Runes'' ''runes'' (GoSlice StaticRune_type)]"

definition StaticSummonerSpells_type :: gotype where
  "StaticSummonerSpells_type = GoStruct ''StaticSummonerSpells''
     [own ''DDragonVersion'' ''ddragon_version'' go_text, own ''Spells'' ''spells'' (GoSlice StaticSummonerSpell_type)]"

definition StaticPatches_type :: gotype where
  "StaticPatches_type = GoStruct ''StaticPatches''
     [own ''DDragonVersion'' ''ddragon_version'' go_text, own ''Latest'' ''latest'' go_text, own ''Patches'' ''patches'' (GoSlice go_text)]"

definition ArtifactRoots :: "gotype list" where
  "ArtifactRoots =
     [TierList_type, Champion_type, Matchups_type, Manifest_type, StaticChampions_type, StaticItems_type, StaticRunes_type,
      StaticSummonerSpells_type, StaticPatches_type]"

section \<open>Documents as JSON\<close>

record json_writers =
  jw_float :: "rat \<Rightarrow> string"
  jw_time :: "gtime \<Rightarrow> string"

definition json_int :: "int \<Rightarrow> json" where
  "json_int n = JNumber (show_int n)"

definition json_float :: "json_writers \<Rightarrow> rat \<Rightarrow> json" where
  "json_float W q = JNumber (jw_float W q)"

definition json_time :: "json_writers \<Rightarrow> gtime \<Rightarrow> json" where
  "json_time W t = JString (jw_time W t)"

definition window_json :: "Window \<Rightarrow> json" where
  "window_json w = obj [(''from'', JString (win_From w)), (''to'', JString (win_To w))]"

definition envelope_members :: "json_writers \<Rightarrow> Envelope \<Rightarrow> (string \<times> json) list" where
  "envelope_members W e =
     [(''schema'', json_int (env_Schema e)), (''source'', JString (env_Source e)), (''patch'', JString (env_Patch e)),
      (''region'', JString (env_Region e)), (''queue'', json_int (env_Queue e)), (''bracket'', JString (env_Bracket e)),
      (''generated_at'', json_time W (env_GeneratedAt e)), (''source_window'', window_json (env_SourceWindow e)),
      (''min_cell_n'', json_int (env_MinCellN e)), (''suppressed_cells'', json_int (env_SuppressedCells e))]"

definition cell_json :: "json_writers \<Rightarrow> Cell \<Rightarrow> json" where
  "cell_json W c =
     obj [(''champion_id'', json_int (ce_ChampionID c)), (''role'', JString (ce_Role c)), (''n'', json_int (ce_N c)),
          (''wins'', json_int (ce_Wins c)), (''win_rate'', json_float W (ce_WinRate c)), (''pick_rate'', json_float W (ce_PickRate c)),
          (''ban_rate'', json_float W (ce_BanRate c)), (''tier'', JString (ce_Tier c)),
          (''ci95_half_width'', json_float W (ce_CI95HalfWidth c))]"

definition tierlist_json :: "json_writers \<Rightarrow> TierList \<Rightarrow> json" where
  "tierlist_json W d = obj (envelope_members W (tl_Envelope d) @ [(''cells'', JArray (map (cell_json W) (tl_Cells d)))])"

definition build_json :: "json_writers \<Rightarrow> Build \<Rightarrow> json" where
  "build_json W b =
     obj [(''kind'', JString (bu_Kind b)), (''key'', JArray (map json_int (bu_Key b))), (''label'', JString (bu_Label b)),
          (''n'', json_int (bu_N b)), (''wins'', json_int (bu_Wins b)), (''win_rate'', json_float W (bu_WinRate b))]"

text \<open>No artifact carries a skill order: the list is empty.\<close>

definition champion_role_json :: "json_writers \<Rightarrow> ChampionRole \<Rightarrow> json" where
  "champion_role_json W r =
     obj [(''role'', JString (cr_Role r)), (''stats'', cell_json W (cr_Stats r)), (''items'', JArray (map (build_json W) (cr_Items r))),
          (''runes'', JArray (map (build_json W) (cr_Runes r))), (''spells'', JArray (map (build_json W) (cr_Spells r))),
          (''skill_orders'', JArray [])]"

definition champion_json :: "json_writers \<Rightarrow> Champion \<Rightarrow> json" where
  "champion_json W d =
     obj (envelope_members W (ch_Envelope d) @
       [(''champion_id'', json_int (ch_ChampionID d)), (''champion_slug'', JString (ch_ChampionSlug d)),
        (''roles'', JArray (map (champion_role_json W) (ch_Roles d)))])"

definition matchup_cell_json :: "json_writers \<Rightarrow> MatchupCell \<Rightarrow> json" where
  "matchup_cell_json W c =
     obj [(''champion_id'', json_int (mc_ChampionID c)), (''opponent_id'', json_int (mc_OpponentID c)), (''n'', json_int (mc_N c)),
          (''wins'', json_int (mc_Wins c)), (''win_rate'', json_float W (mc_WinRate c)),
          (''ci95_half_width'', json_float W (mc_CI95HalfWidth c))]"

definition matchups_json :: "json_writers \<Rightarrow> Matchups \<Rightarrow> json" where
  "matchups_json W d =
     obj (envelope_members W (mu_Envelope d) @
       [(''role'', JString (mu_Role d)), (''champions'', JArray (map json_int (mu_Champions d))),
        (''cells'', JArray (map (matchup_cell_json W) (mu_Cells d)))])"

definition partition_json :: "json_writers \<Rightarrow> Partition \<Rightarrow> json" where
  "partition_json W p =
     obj [(''patch'', JString (pa_Patch p)), (''region'', JString (pa_Region p)), (''queue'', json_int (pa_Queue p)),
          (''bracket'', JString (pa_Bracket p)), (''generated_at'', json_time W (pa_GeneratedAt p)),
          (''source_window'', window_json (pa_SourceWindow p)), (''min_cell_n'', json_int (pa_MinCellN p)),
          (''suppressed_cells'', json_int (pa_SuppressedCells p)), (''cells_published'', json_int (pa_CellsPublished p)),
          (''build_run_id'', json_int (pa_BuildRunID p)), (''git_sha'', JString (pa_GitSHA p)),
          (''champions'', JArray (map json_int (pa_Champions p))), (''matchup_roles'', JArray (map JString (pa_MatchupRoles p)))]"

definition manifest_json :: "json_writers \<Rightarrow> Manifest \<Rightarrow> json" where
  "manifest_json W m =
     obj [(''schema'', json_int (ma_Schema m)), (''source'', JString (ma_Source m)), (''generated_at'', json_time W (ma_GeneratedAt m)),
          (''latest'', partition_json W (ma_Latest m)), (''partitions'', JArray (map (partition_json W) (ma_Partitions m)))]"

end
