(* ===== verification/Schema_Props.thy ===== *)
theory Schema_Props
  imports Agg_Artifacts
begin

text \<open>
  The interpreter on a generated schema: what it finds at a node of each kind, the members of an object, the
  elements of an array, and by induction on the type, with enough fuel for the value, that it finds nothing wrong
  exactly with a value of the type's shape (\<open>generated_exact\<close>).
\<close>

section \<open>Objects\<close>

lemma map_of_filter: "map_of ms k = (case filter (\<lambda>p. fst p = k) ms of [] \<Rightarrow> None | p # ps \<Rightarrow> Some (snd p))"
  by (induction ms) auto

lemma map_of_sort_key: "map_of (sort_key fst ms) k = map_of ms k"
  by (simp add: map_of_filter [of "sort_key fst ms"] map_of_filter [of ms] sort_key_stable)

lemma member_obj [simp]: "member k (obj ms) = map_of ms k"
  by (simp add: obj_def map_of_sort_key map_of_clearjunk)

lemma obj_node: "\<exists>node. obj ms = JObject node \<and> map_of node = map_of ms \<and> fst ` set node = fst ` set ms"
  by (auto simp: obj_def map_of_sort_key map_of_clearjunk fun_eq_iff dom_clearjunk)

lemma supported_obj: "obj ms = JObject node \<Longrightarrow> set (map fst ms) \<subseteq> set supportedKeywords \<Longrightarrow> unsupported node = None"
  using obj_node [of ms] by (auto simp: unsupported_def find_None_iff)

lemma in_order_some:
  assumes "\<And>x. x \<in> set xs \<Longrightarrow> \<exists>ps. f x = Some ps \<and> (ps = [] \<longleftrightarrow> good x)"
  shows "\<exists>ps. in_order (map f xs) = Some ps \<and> (ps = [] \<longleftrightarrow> list_all good xs)"
  using assms
proof (induction xs)
  case (Cons x xs)
  obtain p where p: "f x = Some p" "p = [] \<longleftrightarrow> good x" using Cons.prems [of x] by auto
  obtain ps where "in_order (map f xs) = Some ps" "ps = [] \<longleftrightarrow> list_all good xs" using Cons by auto
  then show ?case using p by auto
qed simp

section \<open>The shape a type gives its JSON\<close>

text \<open>
  What a reader expects of a value of a Go type. Of a structure: an object with every field that
  is not optional and nothing that is no field, each member of the shape of its field's type.
\<close>

definition readable :: "json_readers \<Rightarrow> json \<Rightarrow> bool" where
  "readable R v = (case v of JNumber n \<Rightarrow> jr_Float64 R n \<noteq> None | x \<Rightarrow> True)"

definition in_vocabulary :: "string \<Rightarrow> string \<Rightarrow> bool" where
  "in_vocabulary name s = (case map_of enumRegistry name of None \<Rightarrow> True | Some values \<Rightarrow> s \<in> set values)"

fun shaped :: "json_readers \<Rightarrow> gotype \<Rightarrow> json \<Rightarrow> bool" where
  "shaped R (GoPointer t) v = shaped R t v"
| "shaped R GoBool v = (case v of JBool b \<Rightarrow> True | x \<Rightarrow> False)"
| "shaped R GoInt v = (case v of JNumber n \<Rightarrow> (case jr_Float64 R n of Some q \<Rightarrow> integral q | None \<Rightarrow> False) | x \<Rightarrow> False)"
| "shaped R GoFloat v = (case v of JNumber n \<Rightarrow> jr_Float64 R n \<noteq> None | x \<Rightarrow> False)"
| "shaped R (GoString name) v = (case v of JString s \<Rightarrow> in_vocabulary name s | x \<Rightarrow> False)"
| "shaped R (GoSlice t) v = (case v of JArray es \<Rightarrow> list_all (\<lambda>e. shaped R t e) es | x \<Rightarrow> False)"
| "shaped R (GoMap t) v = (case v of JObject ms \<Rightarrow> list_all (\<lambda>m. shaped R t (snd m)) ms | x \<Rightarrow> False)"
| "shaped R GoTime v = (case v of JString s \<Rightarrow> jr_RFC3339 R s | x \<Rightarrow> False)"
| "shaped R (GoStruct name fs) v =
     (case v of
        JObject ms \<Rightarrow>
          list_all (\<lambda>k. map_of ms k \<noteq> None) (required_names fs) \<and>
          list_all (\<lambda>m. case map_of (field_types fs) (fst m) of None \<Rightarrow> False | Some t \<Rightarrow> shaped R t (snd m)) ms
      | x \<Rightarrow> False)"
| "shaped R GoOther v = readable R v"

section \<open>Nodes\<close>

lemma plain_node:
  assumes "set (map fst ms) \<subseteq> {''type'', ''enum'', ''format'', ''items'', ''properties'', ''required'', ''additionalProperties''}"
  shows "validate R defs (Suc n) (obj ms) v path = validate_value R (validate R defs n) (obj ms) v path"
proof -
  obtain node where node: "obj ms = JObject node" using obj_node by blast
  have "unsupported node = None" using supported_obj [OF node] assms by (fastforce simp: supportedKeywords_def)
  moreover have "map_of ms k = None" if "k \<in> {''$ref'', ''oneOf'', ''anyOf'', ''allOf''}" for k
    using that assms by (auto simp: map_of_eq_None_iff)
  then have "member k (JObject node) = None" if "k \<in> {''$ref'', ''oneOf'', ''anyOf'', ''allOf''}" for k
    using that by (simp flip: node)
  ultimately show ?thesis by (simp add: node validate_node_def)
qed

lemma ref_node:
  "map_of defs name = Some target \<Longrightarrow> validate R defs (Suc n) (ref_to name) v path = validate R defs n target v path"
proof -
  assume known: "map_of defs name = Some target"
  obtain node where node: "ref_to name = JObject node" using obj_node [of "[(''$ref'', JString (refPrefix @ name))]"] by (auto simp: ref_to_def)
  have "unsupported node = None"
    using supported_obj [OF node [unfolded ref_to_def]] by (simp add: supportedKeywords_def)
  moreover have "member ''$ref'' (JObject node) = Some (JString (refPrefix @ name))" by (simp flip: node add: ref_to_def)
  moreover have "resolve_ref defs (refPrefix @ name) = Some target" using known by (simp add: resolve_ref_def has_prefix_def)
  ultimately show ?thesis by (simp add: node validate_node_def)
qed

lemma enum_exact:
  "\<exists>ps. validate R defs (Suc n) (enum_schema values) v path = Some ps \<and>
     (ps = [] \<longleftrightarrow> (case v of JString s \<Rightarrow> s \<in> set values | x \<Rightarrow> False))"
  unfolding enum_schema_def
  by (subst plain_node)
    (auto simp: validate_value_def typeMatches_def matchesOneType_def enumContains_def equalJSON_def list_ex_iff
      date_time_problem_def split: json.splits)

section \<open>The types a schema knows\<close>

fun structs_in :: "gotype \<Rightarrow> gotype list" where
  "structs_in (GoPointer t) = structs_in t"
| "structs_in (GoSlice t) = structs_in t"
| "structs_in (GoMap t) = structs_in t"
| "structs_in (GoStruct name fs) = GoStruct name fs # concat (map (\<lambda>f. structs_in (field_type f)) fs)"
| "structs_in t = []"

lemma embedded_structs:
  "embedded f \<Longrightarrow> g \<in> set (struct_fields (field_type f)) \<Longrightarrow> set (structs_in (field_type g)) \<subseteq> set (structs_in (field_type f))"
  by (cases "field_type f") (auto simp: embedded_def)

lemma inherited_structs: "g \<in> set (inherited fs) \<Longrightarrow> \<exists>f \<in> set fs. set (structs_in (field_type g)) \<subseteq> set (structs_in (field_type f))"
proof (induction fs rule: inherited.induct)
  case (2 f fs)
  show ?case
  proof (cases "embedded f \<and> g \<in> set (inherited (struct_fields (field_type f)) @ ownFields (struct_fields (field_type f)))")
    case True
    then have "\<exists>h \<in> set (struct_fields (field_type f)). set (structs_in (field_type g)) \<subseteq> set (structs_in (field_type h))"
      using 2 by (auto simp: ownFields_def)
    then show ?thesis using embedded_structs [of f] True by (metis list.set_intros(1) subset_trans)
  next
    case False
    then show ?thesis using 2 by (auto split: if_splits)
  qed
qed simp

lemma field_structs:
  assumes "map_of (field_types fs) k = Some t"
  shows "set (structs_in t) \<subseteq> set (concat (map (\<lambda>f. structs_in (field_type f)) fs))"
proof -
  obtain g where g: "g \<in> set (all_fields fs)" "t = field_type g"
    using map_of_SomeD [OF assms] by (auto simp: field_types_def)
  then obtain f where "f \<in> set fs" "set (structs_in t) \<subseteq> set (structs_in (field_type f))"
    using inherited_structs [of g fs] by (auto simp: all_fields_def ownFields_def)
  then show ?thesis by auto
qed

definition schema_knows :: "(string \<times> json) list \<Rightarrow> gotype \<Rightarrow> bool" where
  "schema_knows defs T =
     ((\<forall>t \<in> set (structs_in T). map_of defs (struct_name t) = Some (structSchema (struct_fields t))) \<and>
      (\<forall>(name, values) \<in> set enumRegistry. map_of defs name = Some (enum_schema values)))"

lemma schema_knows_field: "schema_knows defs (GoStruct name fs) \<Longrightarrow> map_of (field_types fs) k = Some t \<Longrightarrow> schema_knows defs t"
  using field_structs [of fs k t] by (force simp: schema_knows_def)

section \<open>The generated schema is exact\<close>

lemma string_exact:
  assumes "schema_knows defs (GoString name)"
  shows "\<exists>ps. validate R defs (Suc (Suc n)) (jsonSchemaFor (GoString name)) v path = Some ps \<and> (ps = [] \<longleftrightarrow> shaped R (GoString name) v)"
proof (cases "map_of enumRegistry name")
  case None
  then show ?thesis
    by (simp add: typed_def plain_node del: validate.simps)
      (auto simp: validate_value_def typeMatches_def matchesOneType_def in_vocabulary_def date_time_problem_def split: json.splits)
next
  case (Some vs)
  then have "map_of defs name = Some (enum_schema vs)" using assms by (auto simp: schema_knows_def dest: map_of_SomeD)
  then show ?thesis
    using enum_exact [of R defs n vs v path] Some
    by (cases v) (simp_all add: ref_node in_vocabulary_def del: validate.simps)
qed


lemma in_order_nothing [simp]: "in_order (map (\<lambda>x. Some []) xs) = Some []" "in_order (map (\<lambda>(a, b). Some []) ps) = Some []"
  by (induction xs, auto, induction ps, auto)

lemmas value_defs = validate_value_def typeMatches_def matchesOneType_def date_time_problem_def checkBounds_def float_bound_def

lemma simple_exact:
  "\<exists>ps. validate R defs (Suc n) (jsonSchemaFor GoBool) v path = Some ps \<and> (ps = [] \<longleftrightarrow> shaped R GoBool v)"
  "\<exists>ps. validate R defs (Suc n) (jsonSchemaFor GoInt) v path = Some ps \<and> (ps = [] \<longleftrightarrow> shaped R GoInt v)"
  "\<exists>ps. validate R defs (Suc n) (jsonSchemaFor GoFloat) v path = Some ps \<and> (ps = [] \<longleftrightarrow> shaped R GoFloat v)"
  "\<exists>ps. validate R defs (Suc n) (jsonSchemaFor GoTime) v path = Some ps \<and> (ps = [] \<longleftrightarrow> shaped R GoTime v)"
  "\<exists>ps. validate R defs (Suc n) (jsonSchemaFor GoOther) v path = Some ps \<and> (ps = [] \<longleftrightarrow> shaped R GoOther v)"
  by (simp_all add: typed_def plain_node del: validate.simps;
      cases v; simp add: value_defs readable_def validateArray_def validateObject_def validate_member_def missing_properties_def split_beta
        split: option.splits)+

lemma element_smaller: "e \<in> set es \<Longrightarrow> size e < size (JArray es)"
  by (simp add: less_Suc_eq_le size_list_estimation')

lemma member_smaller: "m \<in> set ms \<Longrightarrow> size (snd m) < size (JObject ms)"
proof -
  assume "m \<in> set ms"
  then have "size_prod (\<lambda>x. 0) size m \<le> size_list (size_prod (\<lambda>x. 0) size) ms" by (rule size_list_estimation') simp
  then show ?thesis by (cases m) simp
qed


lemma matches_structure:
  "matchesOneType R ''array'' v = (case v of JArray es \<Rightarrow> True | x \<Rightarrow> False)"
  "matchesOneType R ''object'' v = (case v of JObject ms \<Rightarrow> True | x \<Rightarrow> False)"
  by (simp_all add: matchesOneType_def)

lemma plain_type_node:
  assumes keys: "set (map fst ms) \<subseteq> {''items'', ''properties'', ''required'', ''additionalProperties'', ''type''}"
    and type: "map_of ms ''type'' = Some (JString name)"
  shows "validate R defs (Suc n) (obj ms) v path =
       (if matchesOneType R name v
        then (case v of
                JNumber k \<Rightarrow> Some (checkBounds R (obj ms) k path)
              | JObject members \<Rightarrow> validateObject (validate R defs n) (obj ms) members path
              | JArray elements \<Rightarrow> validateArray (validate R defs n) (obj ms) elements path
              | x \<Rightarrow> Some [])
        else Some [(path, WrongType)])"
proof -
  have none: "map_of ms ''enum'' = None" "map_of ms ''format'' = None" using keys by (auto simp: map_of_eq_None_iff)
  have "validate R defs (Suc n) (obj ms) v path = validate_value R (validate R defs n) (obj ms) v path"
    by (rule plain_node, rule subset_trans [OF keys]) simp
  also have "\<dots> = (if matchesOneType R name v
        then (case v of
                JNumber k \<Rightarrow> Some (checkBounds R (obj ms) k path)
              | JObject members \<Rightarrow> validateObject (validate R defs n) (obj ms) members path
              | JArray elements \<Rightarrow> validateArray (validate R defs n) (obj ms) elements path
              | x \<Rightarrow> Some [])
        else Some [(path, WrongType)])"
    unfolding validate_value_def date_time_problem_def member_obj type none typeMatches_def by simp
  finally show ?thesis .
qed

lemma append_Nil_id: "(@) [] = (\<lambda>x. x)"
  by (rule ext) simp

lemma no_item_bounds: "map_of ms ''minItems'' = None \<Longrightarrow> map_of ms ''maxItems'' = None \<Longrightarrow>
    validateArray run (obj ms) es path =
      (case map_of ms ''items'' of None \<Rightarrow> Some []
       | Some items \<Rightarrow> in_order (map (\<lambda>(i, e). run items e (path @ ''['' @ show_int (int i) @ '']'')) (List.enumerate 0 es)))"
  by (simp add: validateArray_def float_bound_def append_Nil_id option.map_ident split: option.splits)

lemma schema_is_object: "\<exists>ms. jsonSchemaFor t = JObject ms"
  by (induction t rule: jsonSchemaFor.induct) (auto simp: obj_def typed_def ref_to_def)

lemma missing_exact:
  assumes "map_of ms ''required'' = (if names = [] then None else Some (JArray (map JString names)))"
  shows "missing_properties (obj ms) members path = [] \<longleftrightarrow> list_all (\<lambda>k. map_of members k \<noteq> None) names"
proof -
  have "missing_properties (obj ms) members path = concat (map (\<lambda>k. if map_of members k = None then [(path, Missing k)] else []) names)"
    using assms by (simp add: missing_properties_def o_def)
  moreover have "concat (map (\<lambda>k. if map_of members k = None then [(path, Missing k)] else []) names) = [] \<longleftrightarrow>
      list_all (\<lambda>k. map_of members k \<noteq> None) names"
    by (induction names) auto
  ultimately show ?thesis by simp
qed

lemma members_exact:
  assumes "\<And>m. m \<in> set members \<Longrightarrow> \<exists>ps. validate_member run (obj ms) path (fst m) (snd m) = Some ps \<and> (ps = [] \<longleftrightarrow> good m)"
    and "map_of ms ''required'' = (if names = [] then None else Some (JArray (map JString names)))"
  shows "\<exists>ps. validateObject run (obj ms) members path = Some ps \<and>
    (ps = [] \<longleftrightarrow> list_all (\<lambda>k. map_of members k \<noteq> None) names \<and> list_all good members)"
proof -
  have "\<exists>ps. in_order (map (\<lambda>m. validate_member run (obj ms) path (fst m) (snd m)) members) = Some ps \<and> (ps = [] \<longleftrightarrow> list_all good members)"
    using assms(1) by (rule in_order_some)
  then obtain ps where "in_order (map (\<lambda>(key, v). validate_member run (obj ms) path key v) members) = Some ps" "ps = [] \<longleftrightarrow> list_all good members"
    by (auto simp: split_def)
  then show ?thesis
    unfolding missing_exact [OF assms(2), where path = path, symmetric] by (auto simp: validateObject_def)
qed

lemma struct_member:
  assumes "map_of ms ''properties'' = Some (obj props)" and "map_of ms ''additionalProperties'' = Some (JBool False)"
  shows "validate_member run (obj ms) path key v =
    (case map_of props key of Some p \<Rightarrow> run p v (path @ ''.'' @ key) | None \<Rightarrow> Some [(path, Undeclared key)])"
proof -
  obtain node where "obj props = JObject node" "map_of node = map_of props" using obj_node by metis
  then show ?thesis using assms by (cases "map_of props key") (simp_all add: validate_member_def)
qed

lemma two_steps: "2 * a + 2 \<le> n \<Longrightarrow> \<exists>k. n = Suc (Suc k)" for a n :: nat
  by (rule exI [of _ "n - 2"]) simp

lemma list_all_enumerate: "list_all (\<lambda>(i, e). P e) (List.enumerate n es) = list_all P es"
  by (induction es arbitrary: n) simp_all

lemma generated_exact:
  "schema_knows defs T \<Longrightarrow> 2 * size v + 2 \<le> n \<Longrightarrow>
     \<exists>ps. validate R defs n (jsonSchemaFor T) v path = Some ps \<and> (ps = [] \<longleftrightarrow> shaped R T v)"
proof (induction R T v arbitrary: n path rule: shaped.induct)
  case (6 R t v)
  obtain k where n: "n = Suc k" using 6(3) by (cases n) auto
  have knows: "schema_knows defs t" using 6(2) by (simp add: schema_knows_def)
  show ?case
  proof (cases "\<exists>es. v = JArray es")
    case True
    then obtain es where v: "v = JArray es" by blast
    have "\<exists>ps. in_order (map (\<lambda>(i, e). validate R defs k (jsonSchemaFor t) e (path @ ''['' @ show_int (int i) @ '']'')) (List.enumerate 0 es)) = Some ps \<and>
        (ps = [] \<longleftrightarrow> list_all (\<lambda>(i, e). shaped R t e) (List.enumerate 0 es))"
    proof (rule in_order_some)
      fix x assume "x \<in> set (List.enumerate 0 es)"
      moreover obtain i e where x: "x = (i, e)" by (cases x)
      ultimately have e: "e \<in> set es" by (auto simp: in_set_enumerate_eq)
      have "2 * size e + 2 \<le> k" using 6(3) element_smaller [OF e] v n by simp
      from 6(1) [OF v e knows this] x
      show "\<exists>ps. (case x of (i, e) \<Rightarrow> validate R defs k (jsonSchemaFor t) e (path @ ''['' @ show_int (int i) @ '']'')) = Some ps \<and>
        (ps = [] \<longleftrightarrow> (case x of (i, e) \<Rightarrow> shaped R t e))" by simp
    qed
    then show ?thesis unfolding list_all_enumerate
      unfolding n v jsonSchemaFor.simps by (subst plain_type_node [where name = "''array''"]) (simp_all add: no_item_bounds matches_structure)
  next
    case False
    then show ?thesis unfolding n jsonSchemaFor.simps by (subst plain_type_node [where name = "''array''"]; cases v) (simp_all add: matches_structure)
  qed
next
  case (7 R t v)
  obtain k where n: "n = Suc k" using 7(3) by (cases n) auto
  have knows: "schema_knows defs t" using 7(2) by (simp add: schema_knows_def)
  obtain node where node: "jsonSchemaFor t = JObject node" using schema_is_object by blast
  show ?case
  proof (cases "\<exists>ms. v = JObject ms")
    case True
    then obtain ms where v: "v = JObject ms" by blast
    let ?node = "[(''additionalProperties'', jsonSchemaFor t), (''type'', JString ''object'')]"
    have "\<exists>ps. validateObject (validate R defs k) (obj ?node) ms path = Some ps \<and>
        (ps = [] \<longleftrightarrow> list_all (\<lambda>k. map_of ms k \<noteq> None) [] \<and> list_all (\<lambda>m. shaped R t (snd m)) ms)"
    proof (rule members_exact)
      fix m assume m: "m \<in> set ms"
      have "2 * size (snd m) + 2 \<le> k" using 7(3) member_smaller [OF m] v n by simp
      from 7(1) [OF v m knows this] node
      show "\<exists>ps. validate_member (validate R defs k) (obj ?node) path (fst m) (snd m) = Some ps \<and> (ps = [] \<longleftrightarrow> shaped R t (snd m))"
        by (simp add: validate_member_def)
    qed simp
    then show ?thesis unfolding n v jsonSchemaFor.simps by (subst plain_type_node [where name = "''object''"]) (simp_all add: matches_structure)
  next
    case False
    then show ?thesis unfolding n jsonSchemaFor.simps by (subst plain_type_node [where name = "''object''"]; cases v) (simp_all add: matches_structure)
  qed
next
  case (9 R name fs v)
  obtain k where n: "n = Suc (Suc k)" using two_steps [OF 9(3)] by blast
  have "map_of defs name = Some (structSchema fs)" using 9(2) by (simp add: schema_knows_def)
  then have deref: "validate R defs n (jsonSchemaFor (GoStruct name fs)) v path = validate R defs (Suc k) (structSchema fs) v path"
    by (simp add: n ref_node del: validate.simps)
  let ?node = "[(''type'', JString ''object''), (''properties'', obj (map (\<lambda>(k, t). (k, jsonSchemaFor t)) (field_types fs))),
      (''additionalProperties'', JBool False)] @
      (if required_names fs = [] then [] else [(''required'', JArray (map JString (required_names fs)))])"
  have keys: "set (map fst ?node) \<subseteq> {''items'', ''properties'', ''required'', ''additionalProperties'', ''type''}"
    and type: "map_of ?node ''type'' = Some (JString ''object'')"
    and required: "map_of ?node ''required'' = (if required_names fs = [] then None else Some (JArray (map JString (required_names fs))))"
    by simp_all
  have member_run: "validate_member run (obj ?node) path key w =
      (case map_of (field_types fs) key of Some t \<Rightarrow> run (jsonSchemaFor t) w (path @ ''.'' @ key) | None \<Rightarrow> Some [(path, Undeclared key)])"
    for run key w
  proof -
    have "validate_member run (obj ?node) path key w =
        (case map_of (map (\<lambda>(k, t). (k, jsonSchemaFor t)) (field_types fs)) key of
           Some p \<Rightarrow> run p w (path @ ''.'' @ key) | None \<Rightarrow> Some [(path, Undeclared key)])"
      by (rule struct_member) simp_all
    then show ?thesis by (simp add: map_of_map split: option.splits)
  qed
  show ?case
  proof (cases "\<exists>ms. v = JObject ms")
    case True
    then obtain ms where v: "v = JObject ms" by blast
    have "\<exists>ps. validateObject (validate R defs k) (obj ?node) ms path = Some ps \<and>
        (ps = [] \<longleftrightarrow> list_all (\<lambda>k. map_of ms k \<noteq> None) (required_names fs) \<and>
           list_all (\<lambda>m. case map_of (field_types fs) (fst m) of None \<Rightarrow> False | Some t \<Rightarrow> shaped R t (snd m)) ms)"
    proof (rule members_exact [OF _ required])
      fix m assume m: "m \<in> set ms"
      have fits: "2 * size (snd m) + 2 \<le> k" using 9(3) member_smaller [OF m] v n by simp
      show "\<exists>ps. validate_member (validate R defs k) (obj ?node) path (fst m) (snd m) = Some ps \<and>
        (ps = [] \<longleftrightarrow> (case map_of (field_types fs) (fst m) of None \<Rightarrow> False | Some t \<Rightarrow> shaped R t (snd m)))"
      proof (cases "map_of (field_types fs) (fst m)")
        case None
        then show ?thesis unfolding member_run by simp
      next
        case (Some t)
        from 9(1) [OF v m Some schema_knows_field [OF 9(2) Some] fits] Some
        show ?thesis unfolding member_run by simp
      qed
    qed
    then show ?thesis unfolding deref structSchema_def plain_type_node [OF keys type] by (simp add: v matches_structure)
  next
    case False
    then show ?thesis unfolding deref structSchema_def plain_type_node [OF keys type] by (cases v) (simp_all add: matches_structure)
  qed
next
  case (5 R name v)
  obtain k where "n = Suc (Suc k)" using two_steps [OF 5(2)] by blast
  then show ?case using string_exact [OF 5(1)] by blast
next
  case (1 R t v)
  then show ?case by (simp add: schema_knows_def del: validate.simps)
next
  case (2 R v)
  then obtain k where "n = Suc k" by (cases n) auto
  then show ?case using simple_exact(1) by blast
next
  case (3 R v)
  then obtain k where "n = Suc k" by (cases n) auto
  then show ?case using simple_exact(2) by blast
next
  case (4 R v)
  then obtain k where "n = Suc k" by (cases n) auto
  then show ?case using simple_exact(3) by blast
next
  case (8 R v)
  then obtain k where "n = Suc k" by (cases n) auto
  then show ?case using simple_exact(4) by blast
next
  case (10 R v)
  then obtain k where "n = Suc k" by (cases n) auto
  then show ?case using simple_exact(5) by blast
qed

end
