(* ===== verification/Schema_Docs.thy ===== *)
theory Schema_Docs
  imports Schema_Props Agg_Manifest
begin

text \<open>
  The generated schema against the documents of a build: what the JSON of a document must be for its
  type's schema to accept it, and that the interpreter, run on the schema made from the artifacts' types,
  decides exactly that. At the end, what the interpreter does not check.
\<close>

section \<open>Fields of the artifacts\<close>

lemma own_field:
  assumes "tag \<noteq> []" and "tag \<noteq> ''-''" and "CHR '','' \<notin> set tag"
  shows "jsonField (own name tag t) = Some (tag, False)"
  using assms by (simp add: jsonField_def own_def split_on_no_sep)

lemma own_plain: "field_anonymous (own name tag t) = False" "field_type (own name tag t) = t" "embedded (own name tag t) = False"
  by (simp_all add: own_def embedded_def)

lemma shaped_struct:
  assumes "distinct (map fst ms)"
  shows "shaped R (GoStruct name fs) (obj ms) =
    (list_all (\<lambda>k. map_of ms k \<noteq> None) (required_names fs) \<and>
     list_all (\<lambda>m. case map_of (field_types fs) (fst m) of None \<Rightarrow> False | Some t \<Rightarrow> shaped R t (snd m)) ms)"
  using assms by (simp add: obj_def map_of_sort_key map_of_clearjunk list_all_iff distinct_clearjunk_id)

lemma lookup_zip:
  assumes "distinct ks" and "length ts = length ks" and "length vs = length ks"
  shows "list_all (\<lambda>m. case map_of (zip ks ts) (fst m) of None \<Rightarrow> False | Some t \<Rightarrow> P t (snd m)) (zip ks vs) = list_all2 P ts vs"
  using assms by (simp add: list_all_length list_all2_conv_all_nth map_of_zip_nth)

lemma map_of_rev_distinct: "distinct (map fst ms) \<Longrightarrow> map_of (rev ms) = map_of ms"
proof
  fix k
  assume dist: "distinct (map fst ms)"
  show "map_of (rev ms) k = map_of ms k"
  proof (cases "map_of ms k")
    case None
    then have "map_of (rev ms) k = None" by (simp add: map_of_eq_None_iff)
    with None show ?thesis by simp
  next
    case (Some v)
    then have "map_of (rev ms) k = Some v" using dist by (simp add: map_of_eq_Some_iff rev_map [symmetric])
    with Some show ?thesis by simp
  qed
qed

lemma names_types: "map (\<lambda>f. (json_name f, field_type f)) xs = zip (map json_name xs) (map field_type xs)"
  by (induction xs) simp_all

text \<open>A structure of which no field is optional, written field by field.\<close>

lemma shaped_fields:
  assumes names: "map json_name (all_fields fs) = map fst ms" and dist: "distinct (map fst ms)"
    and all: "list_all (\<lambda>f. \<not> json_optional f) (all_fields fs)"
  shows "shaped R (GoStruct name fs) (obj ms) = list_all2 (shaped R) (map field_type (all_fields fs)) (map snd ms)"
proof -
  let ?ts = "map field_type (all_fields fs)"
  have len: "length ?ts = length ms" using arg_cong [OF names, of length] by simp
  have "required_names fs = map fst ms" using all names by (simp add: required_names_def list_all_iff filter_True)
  moreover have "field_types fs = rev (zip (map fst ms) ?ts)" by (simp add: field_types_def names_types names)
  moreover have "map_of (rev (zip (map fst ms) ?ts)) = map_of (zip (map fst ms) ?ts)"
    using dist len by (intro map_of_rev_distinct) simp
  moreover have "list_all (\<lambda>m. case map_of (zip (map fst ms) ?ts) (fst m) of None \<Rightarrow> False | Some t \<Rightarrow> shaped R t (snd m)) ms =
      list_all2 (shaped R) ?ts (map snd ms)"
    using lookup_zip [OF dist, of ?ts "map snd ms" "shaped R"] len by (simp add: zip_map_fst_snd)
  moreover have "list_all (\<lambda>k. map_of ms k \<noteq> None) (map fst ms)" by (auto simp: list_all_iff map_of_eq_None_iff)
  ultimately show ?thesis unfolding shaped_struct [OF dist] by simp
qed

lemma ownFields_rules:
  "ownFields [] = []"
  "tag \<noteq> [] \<Longrightarrow> tag \<noteq> ''-'' \<Longrightarrow> CHR '','' \<notin> set tag \<Longrightarrow> ownFields (own name tag t # fs) = own name tag t # ownFields fs"
  "ownFields (embedded_envelope # fs) = ownFields fs"
  by (simp_all add: ownFields_def own_field own_plain embedded_envelope_def del: not_None_eq)

lemmas field_rules = all_fields_def ownFields_rules own_field own_plain json_name_def json_optional_def

section \<open>Documents whose vocabulary is closed\<close>

definition envelope_ok :: "Envelope \<Rightarrow> bool" where
  "envelope_ok e = (env_Source e \<in> set Sources \<and> env_Bracket e \<in> set Brackets)"

definition cell_ok :: "Cell \<Rightarrow> bool" where
  "cell_ok c = (ce_Role c \<in> set Roles \<and> ce_Tier c \<in> set Tiers)"

definition role_part_ok :: "ChampionRole \<Rightarrow> bool" where
  "role_part_ok r = (cr_Role r \<in> set Roles \<and> cell_ok (cr_Stats r))"

definition partition_ok :: "Partition \<Rightarrow> bool" where
  "partition_ok p = (pa_Bracket p \<in> set Brackets \<and> set (pa_MatchupRoles p) \<subseteq> set Roles)"

definition doc_ok :: "doc \<Rightarrow> bool" where
  "doc_ok d =
     (case d of
        DocTierList t \<Rightarrow> envelope_ok (tl_Envelope t) \<and> list_all cell_ok (tl_Cells t)
      | DocChampion c \<Rightarrow> envelope_ok (ch_Envelope c) \<and> list_all role_part_ok (ch_Roles c)
      | DocMatchups m \<Rightarrow> envelope_ok (mu_Envelope m) \<and> mu_Role m \<in> set Roles
      | DocManifest m \<Rightarrow> ma_Source m \<in> set Sources \<and> partition_ok (ma_Latest m) \<and> list_all partition_ok (ma_Partitions m)
      | x \<Rightarrow> False)"

section \<open>What is written has the shape of its type\<close>

text \<open>The library reads back what it writes: a number as a number, an integer as one, an instant as RFC 3339.\<close>

definition reads_back :: "json_readers \<Rightarrow> json_writers \<Rightarrow> bool" where
  "reads_back R W =
     ((\<forall>n. \<exists>q. jr_Float64 R (show_int n) = Some q \<and> integral q) \<and> (\<forall>q. jr_Float64 R (jw_float W q) \<noteq> None) \<and>
      (\<forall>t. jr_RFC3339 R (jw_time W t)))"

lemma shaped_numbers:
  assumes "reads_back R W"
  shows "shaped R GoInt (json_int n)" "shaped R GoFloat (json_float W q)" "shaped R GoTime (json_time W t)"
proof -
  obtain p where "jr_Float64 R (show_int n) = Some p" "integral p" using assms unfolding reads_back_def by blast
  then show "shaped R GoInt (json_int n)" by (simp add: json_int_def)
qed (use assms in \<open>simp_all add: reads_back_def json_float_def json_time_def\<close>)

lemma shaped_text: "shaped R (GoString name) (JString s) = in_vocabulary name s" "in_vocabulary [] s"
  "in_vocabulary ''Source'' s = (s \<in> set Sources)" "in_vocabulary ''Bracket'' s = (s \<in> set Brackets)"
  "in_vocabulary ''Role'' s = (s \<in> set Roles)" "in_vocabulary ''Tier'' s = (s \<in> set Tiers)"
  by (simp_all add: in_vocabulary_def enumRegistry_def)

lemma shaped_list: "shaped R (GoSlice t) (JArray (map f xs)) = list_all (\<lambda>x. shaped R t (f x)) xs"
  by (simp add: list_all_iff)

lemma shaped_empty: "shaped R (GoSlice t) (JArray [])"
  by simp

lemmas written = field_rules shaped_text shaped_numbers shaped_list shaped_empty

lemma shaped_window: "shaped R Window_type (window_json w)"
  unfolding Window_type_def window_json_def
  by (subst shaped_fields) (simp_all add: written del: shaped.simps)

lemma shaped_cell: "reads_back R W \<Longrightarrow> shaped R Cell_type (cell_json W c) = cell_ok c"
  unfolding Cell_type_def cell_json_def
  by (subst shaped_fields) (simp_all add: written cell_ok_def del: shaped.simps)

lemma shaped_build: "reads_back R W \<Longrightarrow> shaped R Build_type (build_json W b)"
  unfolding Build_type_def build_json_def
  by (subst shaped_fields) (simp_all add: written list_all_iff del: shaped.simps)

lemma shaped_champion_role: "reads_back R W \<Longrightarrow> shaped R ChampionRole_type (champion_role_json W r) = role_part_ok r"
  unfolding ChampionRole_type_def champion_role_json_def
  by (subst shaped_fields) (simp_all add: written shaped_cell shaped_build role_part_ok_def list_all_iff del: shaped.simps)

lemma shaped_matchup_cell: "reads_back R W \<Longrightarrow> shaped R MatchupCell_type (matchup_cell_json W c)"
  unfolding MatchupCell_type_def matchup_cell_json_def
  by (subst shaped_fields) (simp_all add: written del: shaped.simps)

lemma shaped_partition: "reads_back R W \<Longrightarrow> shaped R Partition_type (partition_json W p) = partition_ok p"
  unfolding Partition_type_def partition_json_def
  by (subst shaped_fields) (simp_all add: written shaped_window partition_ok_def list_all_iff subset_iff Ball_def del: shaped.simps)

lemma shaped_manifest:
  "reads_back R W \<Longrightarrow> shaped R Manifest_type (manifest_json W m) = doc_ok (DocManifest m)"
  unfolding Manifest_type_def manifest_json_def
  by (subst shaped_fields) (simp_all add: written shaped_partition doc_ok_def del: shaped.simps)

text \<open>The documents with an envelope: its members come first.\<close>

lemma embedded_here: "embedded embedded_envelope" "field_type embedded_envelope = Envelope_type"
  by (simp_all add: embedded_envelope_def embedded_def Envelope_type_def)

lemma envelope_fields:
  "inherited (embedded_envelope # fs) = struct_fields Envelope_type @ inherited fs"
  by (simp add: embedded_here) (simp add: Envelope_type_def written)

lemma shaped_envelope:
  "reads_back R W \<Longrightarrow>
     list_all2 (shaped R) (map field_type (struct_fields Envelope_type)) (map snd (envelope_members W e)) = envelope_ok e"
  by (simp add: Envelope_type_def envelope_members_def written shaped_window envelope_ok_def del: shaped.simps)

lemma envelope_names: "map json_name (struct_fields Envelope_type) = map fst (envelope_members W e)"
  by (simp add: Envelope_type_def envelope_members_def written)

lemma envelope_required: "list_all (\<lambda>f. \<not> json_optional f) (struct_fields Envelope_type)"
  by (simp add: Envelope_type_def written)

lemma shaped_with_envelope:
  assumes ok: "reads_back R W" and names: "map json_name (inherited fs @ ownFields fs) = map fst ms"
    and dist: "distinct (map fst (envelope_members W e @ ms))" and all: "list_all (\<lambda>f. \<not> json_optional f) (inherited fs @ ownFields fs)"
  shows "shaped R (GoStruct name (embedded_envelope # fs)) (obj (envelope_members W e @ ms)) =
    (envelope_ok e \<and> list_all2 (shaped R) (map field_type (inherited fs @ ownFields fs)) (map snd ms))"
proof -
  have fields: "all_fields (embedded_envelope # fs) = struct_fields Envelope_type @ inherited fs @ ownFields fs"
    by (simp add: all_fields_def envelope_fields ownFields_rules del: inherited.simps)
  have "shaped R (GoStruct name (embedded_envelope # fs)) (obj (envelope_members W e @ ms)) =
      list_all2 (shaped R) (map field_type (struct_fields Envelope_type @ inherited fs @ ownFields fs)) (map snd (envelope_members W e @ ms))"
    unfolding fields [symmetric]
    by (rule shaped_fields) (use names dist all envelope_names [of W e] envelope_required in \<open>simp_all add: fields\<close>)
  also have "\<dots> = (envelope_ok e \<and> list_all2 (shaped R) (map field_type (inherited fs @ ownFields fs)) (map snd ms))"
    unfolding map_append using arg_cong [OF envelope_names [of W e], of length] shaped_envelope [OF ok, of e]
    by (subst list_all2_append) simp_all
  finally show ?thesis .
qed

lemma shaped_tierlist: "reads_back R W \<Longrightarrow> shaped R TierList_type (tierlist_json W d) = doc_ok (DocTierList d)"
  unfolding TierList_type_def tierlist_json_def
  by (subst shaped_with_envelope) (simp_all add: written shaped_cell envelope_members_def doc_ok_def del: shaped.simps)

lemma shaped_champion: "reads_back R W \<Longrightarrow> shaped R Champion_type (champion_json W d) = doc_ok (DocChampion d)"
  unfolding Champion_type_def champion_json_def
  by (subst shaped_with_envelope) (simp_all add: written shaped_champion_role envelope_members_def doc_ok_def del: shaped.simps)

lemma shaped_matchups: "reads_back R W \<Longrightarrow> shaped R Matchups_type (matchups_json W d) = doc_ok (DocMatchups d)"
  unfolding Matchups_type_def matchups_json_def
  by (subst shaped_with_envelope)
    (simp_all add: written shaped_matchup_cell envelope_members_def doc_ok_def list_all_iff del: shaped.simps)

section \<open>The artifacts' schema\<close>

lemma artifact_structs:
  "list_all (\<lambda>t. map_of (schema_defs ArtifactRoots) (struct_name t) = Some (structSchema (struct_fields t)))
     (concat (map structs_in ArtifactRoots))"
  by code_simp

lemma artifact_enums: "list_all (\<lambda>e. map_of (schema_defs ArtifactRoots) (fst e) = Some (enum_schema (snd e))) enumRegistry"
  by code_simp

lemma validator_knows:
  assumes "newSchemaValidator (Schema ArtifactRoots) = Inr defs" and "T \<in> set ArtifactRoots"
  shows "schema_knows defs T"
proof -
  obtain node where node: "obj (schema_defs ArtifactRoots) = JObject node" "map_of node = map_of (schema_defs ArtifactRoots)"
    using obj_node by metis
  have "defs = node" using assms(1) by (simp add: newSchemaValidator_def Schema_def node split: if_splits)
  then show ?thesis
    using artifact_structs artifact_enums assms(2) by (auto simp: schema_knows_def node(2) list_all_iff)
qed

lemma validator_made: "\<exists>defs. newSchemaValidator (Schema ArtifactRoots) = Inr defs"
proof -
  obtain node where node: "obj (schema_defs ArtifactRoots) = JObject node" "map_of node = map_of (schema_defs ArtifactRoots)"
    using obj_node by metis
  have "map_of (schema_defs ArtifactRoots) ''Role'' = Some (enum_schema Roles)"
    using artifact_enums by (simp add: list_all_iff enumRegistry_def)
  then have "node \<noteq> []" using node(2) by auto
  then show ?thesis by (simp add: newSchemaValidator_def Schema_def node)
qed

lemma validate_root:
  assumes "newSchemaValidator (Schema ArtifactRoots) = Inr defs" and "GoStruct name fs \<in> set ArtifactRoots"
    and "2 * size v + 1 \<le> fuel"
  shows "\<exists>verdict. Validate R defs fuel name v = Some verdict \<and> (verdict = Matches \<longleftrightarrow> shaped R (GoStruct name fs) v)"
proof -
  have knows: "schema_knows defs (GoStruct name fs)" using assms(1,2) by (rule validator_knows)
  then have here: "map_of defs name = Some (structSchema fs)" by (simp add: schema_knows_def)
  have "2 * size v + 2 \<le> Suc fuel" using assms(3) by simp
  from generated_exact [OF knows this, of R name] obtain ps
    where "validate R defs fuel (structSchema fs) v name = Some ps" "ps = [] \<longleftrightarrow> shaped R (GoStruct name fs) v"
    by (auto simp: ref_node here simp del: validate.simps shaped.simps)
  then show ?thesis by (auto simp: Validate_def here)
qed

text \<open>
  The generated schema says what the types say. The interpreter, run on the schema made from the
  artifacts' types, returns for every JSON value and finds nothing wrong exactly with the values of
  the type's shape: every field that is not optional, no other member, numbers that are whole where
  the type is, vocabularies respected, instants readable, at every depth (\<open>validate_root\<close>).
\<close>

section \<open>What the build writes against the schema\<close>

definition doc_json :: "json_writers \<Rightarrow> doc \<Rightarrow> json" where
  "doc_json W d =
     (case d of
        DocTierList t \<Rightarrow> tierlist_json W t | DocChampion c \<Rightarrow> champion_json W c | DocMatchups m \<Rightarrow> matchups_json W m
      | DocManifest m \<Rightarrow> manifest_json W m | x \<Rightarrow> JNull)"

definition definition_of :: "doc \<Rightarrow> string" where
  "definition_of d =
     (case d of
        DocTierList t \<Rightarrow> ''TierList'' | DocChampion c \<Rightarrow> ''Champion'' | DocMatchups m \<Rightarrow> ''Matchups'' | DocManifest m \<Rightarrow> ''Manifest''
      | x \<Rightarrow> [])"

definition root_of :: "doc \<Rightarrow> gotype option" where
  "root_of d =
     (case d of
        DocTierList t \<Rightarrow> Some TierList_type | DocChampion c \<Rightarrow> Some Champion_type | DocMatchups m \<Rightarrow> Some Matchups_type
      | DocManifest m \<Rightarrow> Some Manifest_type | x \<Rightarrow> None)"

lemma root_of_artifact: "root_of d = Some T \<Longrightarrow> T \<in> set ArtifactRoots \<and> (\<exists>fs. T = GoStruct (definition_of d) fs)"
  by (cases d) (auto simp: root_of_def ArtifactRoots_def definition_of_def TierList_type_def Champion_type_def Matchups_type_def Manifest_type_def)

lemma shaped_doc: "reads_back R W \<Longrightarrow> root_of d = Some T \<Longrightarrow> shaped R T (doc_json W d) = doc_ok d"
  by (cases d) (auto simp: root_of_def doc_json_def shaped_tierlist shaped_champion shaped_matchups shaped_manifest simp del: shaped.simps)

text \<open>
  A document passes its schema exactly when its vocabulary is closed. Of what a build writes - tier
  lists, champions, matchups and the manifest - the schema's check refuses nothing but a role, grade,
  bracket or source outside the contract, wherever in the document it is.
\<close>

lemma document_verdict:
  assumes "newSchemaValidator (Schema ArtifactRoots) = Inr defs" and "reads_back R W" and "root_of d \<noteq> None"
    and "2 * size (doc_json W d) + 1 \<le> fuel"
  shows "\<exists>verdict. Validate R defs fuel (definition_of d) (doc_json W d) = Some verdict \<and> (verdict = Matches \<longleftrightarrow> doc_ok d)"
proof -
  obtain T where T: "root_of d = Some T" using assms(3) by blast
  then obtain fs where fs: "T = GoStruct (definition_of d) fs" "T \<in> set ArtifactRoots" using root_of_artifact [OF T] by blast
  then show ?thesis using validate_root [OF assms(1) _ assms(4), of "definition_of d" fs R] shaped_doc [OF assms(2) T] by simp
qed

section \<open>What the interpreter does not check\<close>

text \<open>
  The bounds of a decoded schema are never applied: a decoder that was told to use numbers leaves no
  \<^verbatim>\<open>float64\<close> for them to be.
\<close>

fun has_float :: "json \<Rightarrow> bool" where
  "has_float (JFloat q) = True"
| "has_float (JArray vs) = list_ex has_float vs"
| "has_float (JObject ms) = list_ex (\<lambda>m. has_float (snd m)) ms"
| "has_float v = False"

lemma decoded_bounds_are_ignored: "\<not> has_float schema \<Longrightarrow> float_bound key schema = None"
  by (cases schema) (auto simp: float_bound_def list_ex_iff split: option.splits json.splits dest!: map_of_SomeD)

text \<open>A definition that refers to itself keeps the interpreter from returning.\<close>

lemma self_reference_never_returns: "validate R [(name, ref_to name)] n (ref_to name) v path = None"
  by (induction n) (simp_all add: ref_node del: validate.simps(2))

end
