(* ===== verification/Build_Verify.thy ===== *)
theory Build_Verify
  imports Build_Props Schema_Docs
begin

text \<open>
  The build against the verifier: every document of a built partition passes the JSON schema generated
  from the published types, and every check \<^verbatim>\<open>verify.go\<close> makes of the tree accepts what a
  build published. Here the verifier's schema check is no parameter: it is the interpreter of
  \<^verbatim>\<open>jsonschema.go\<close>, run on the schema \<^verbatim>\<open>aggmodel/schema.go\<close> generates, on the JSON of the document.
\<close>

section \<open>The schema check of the verifier\<close>

text \<open>
  \<open>defs\<close> are the definitions of the loaded schema; the fuel is twice the size of the value, which
  is enough for every value (\<open>validate_root\<close>).
\<close>

definition passes_schema :: "json_readers \<Rightarrow> json_writers \<Rightarrow> (string \<times> json) list \<Rightarrow> doc \<Rightarrow> bool" where
  "passes_schema R W defs d =
     (Validate R defs (2 * size (doc_json W d) + 1) (definition_of d) (doc_json W d) = Some Matches)"

lemma passes_iff_ok:
  assumes "newSchemaValidator (Schema ArtifactRoots) = Inr defs" and "reads_back R W" and "root_of d \<noteq> None"
  shows "passes_schema R W defs d \<longleftrightarrow> doc_ok d"
  using document_verdict [OF assms order_refl] by (auto simp: passes_schema_def)

section \<open>The documents of a built partition\<close>

lemma envelope_in_vocabulary:
  assumes "checkEnvelope e part source = []" and "source_valid source" and "pa_Bracket part \<in> set Brackets"
  shows "envelope_ok e"
  using assms by (auto simp: checkEnvelope_def problem_if_def same_seg_def envelope_ok_def source_valid_def Sources_def split: if_splits)

lemma cell_in_vocabulary:
  assumes "ComputeCells inp = Inr out" and "c \<in> set (co_Cells out)"
  shows "cell_ok c"
proof -
  obtain t role where "RoleFromRiotPosition (cc_Role t) = Some role" and c: "c = cell_of inp (co_BaselineWinRate out) t role"
    using published_cell [OF assms] by metis
  then show ?thesis
    using role_of_position tierForRate_valid by (auto simp: cell_ok_def cell_of_def Let_def tier_valid_def)
qed

lemma found_listed: "List.find P xs = Some c \<Longrightarrow> c \<in> set xs"
  by (induction xs) (auto split: if_splits)

lemma champion_parts_in_vocabulary:
  assumes "\<And>c. c \<in> set (co_Cells (ai_Cells ai)) \<Longrightarrow> cell_ok c"
  shows "list_all role_part_ok (champion_roles ai champion)"
  unfolding list_all_iff
proof
  fix r assume "r \<in> set (champion_roles ai champion)"
  then obtain role c where role: "role \<in> set Roles" and found: "Some c = cellForRole (filter (\<lambda>c. ce_ChampionID c = champion) (co_Cells (ai_Cells ai))) role"
    and r: "cr_Role r = role" "cr_Stats r = c"
    by (auto simp: champion_roles_def Let_def split: option.splits)
  have "c \<in> set (co_Cells (ai_Cells ai))" using found_listed [of _ _ c] found by (fastforce simp: cellForRole_def)
  then show "role_part_ok r" using assms role r by (simp add: role_part_ok_def)
qed

lemma built_docs_ok:
  assumes made: "partition_made inp out ai source part" and "source_valid source" and "pa_Bracket part \<in> set Brackets"
    and doc: "(rel, d) \<in> set (partition_docs ai (seg_of part) minCellN)"
  shows "root_of d \<noteq> None \<and> doc_ok d"
proof -
  have env: "envelope_ok (ai_Envelope ai)"
    using made assms(2,3) by (intro envelope_in_vocabulary [of _ part source]) (auto simp: partition_made_def)
  have cells: "cell_ok c" if "c \<in> set (co_Cells (ai_Cells ai))" for c
    using that cell_in_vocabulary [OF partition_made_champions(4) [OF made]] partition_made_champions(3) [OF made] by simp
  from doc consider "d = DocTierList (buildTierList ai)" | c where "d = DocChampion (buildChampion ai c)"
    | role where "role \<in> set Roles" "d = DocMatchups (buildMatchups ai role minCellN)"
    by (auto simp: partition_docs_def buildChampions_def)
  then show ?thesis
  proof cases
    case 1
    then show ?thesis using env cells by (simp add: doc_ok_def root_of_def buildTierList_def list_all_iff)
  next
    case 2
    then show ?thesis using env champion_parts_in_vocabulary [OF cells] by (simp add: doc_ok_def root_of_def buildChampion_def)
  next
    case 3
    then show ?thesis using env by (simp add: doc_ok_def root_of_def buildMatchups_def Let_def)
  qed
qed

lemma best_of_listed: "best_of p ps \<in> set (p # ps)"
  by (induction ps arbitrary: p) (auto split: if_splits)

lemma manifest_latest_listed:
  assumes "UpdateManifest ord rd t built source now = Inr m"
  shows "ma_Latest m \<in> insert built (set (ma_Partitions m))"
proof -
  obtain known where "m = manifest_of ord built source now known" using UpdateManifest_result [OF assms] by metis
  then have "ma_Latest m = latestOf (ma_Partitions m) built" by (simp add: manifest_of_def Let_def)
  then show ?thesis
    using best_of_listed by (auto simp: latestOf_def Let_def split: list.splits)
qed

text \<open>A bracket the vocabulary does not list passes every check of a build, and then no document made with it passes the schema.\<close>

lemma unlisted_bracket_is_refused:
  assumes "pa_Bracket p \<notin> set Brackets" and "p \<in> set (ma_Partitions m)"
  shows "\<not> doc_ok (DocManifest m)"
  using assms by (auto simp: doc_ok_def list_all_iff partition_ok_def)

section \<open>Published, then verified\<close>

text \<open>What a successful build leaves in the live tree: its partition's documents and the merged manifest.\<close>

lemma build_publishes:
  assumes build: "BuildAgg ord ordp (\<lambda>q. True) E eng opt w = ([], b, w')"
    and sound: "\<And>patch ta. en_reduce eng patch = Some ta \<Longrightarrow> tallies_sound (bo_MinCellN opt) ta"
    and seg: "Seg_Validate (bs_seg b)"
    and days: "\<And>to. parseDate (win_To (bs_window b)) = Some to \<Longrightarrow> 400 \<le> to \<and> to < 3652059"
  obtains inp ai part m t now where "published_as inp (bs_cells b) ai SourceRiotMatchV5 part (fs_live (bw_fs w'))"
    and "seg_of part = bs_seg b" and "UpdateManifest ordp (\<lambda>q. True) t part SourceRiotMatchV5 now = Inr m"
    and "map_of (fs_live (bw_fs w')) (slash_path ManifestPath) = Some (NFile (DocManifest m))"
proof -
  let ?opt = "normalize_build opt" and ?live = "fs_live (bw_fs w')" and ?m = "slash_path ManifestPath"
  have min: "bo_MinCellN ?opt = bo_MinCellN opt" by (simp add: normalize_build_def)
  obtain window b2 w1 w2 w3 where plan: "planArchive eng ?opt = Inr window" and comp: "computed_state eng ?opt b2"
    and win: "bs_window b2 = window" and asm: "assemble ordp (\<lambda>q. True) E ?opt b2 w1 = ([], b, w2)"
    and pub: "publishLive E b w2 = ([], w3)" and stage: "fs_stage (bw_fs w1) = []" and live: "?live = fs_live (bw_fs w3)"
    using Build_ok [OF build] by metis
  let ?ai = "artifact_input (loadChampionSlugs (\<lambda>q. True) (fs_live (bw_fs w1))) ?opt b2 (bw_now w1)"
  let ?part = "new_partition ?opt b2 (bw_now w1)"
  obtain m where b: "b = b2\<lparr>bs_partition := ?part\<rparr>"
    and up: "UpdateManifest ordp (\<lambda>q. True) (fs_live (bw_fs w1)) ?part SourceRiotMatchV5 (bw_now w1) = Inr m"
    and docs: "write_docs E (partition_docs ?ai (bs_seg b2) (bo_MinCellN ?opt) @ [(ManifestPath, DocManifest m)]) w1 = (True, w2)"
    using assemble_ok [OF asm] .
  have same: "bs_seg b = bs_seg b2" "bs_window b = window" "bs_cells b = bs_cells b2" by (simp_all add: b win)
  have part: "seg_of ?part = bs_seg b2" "pa_MinCellN ?part = bo_MinCellN ?opt" by (simp_all add: seg_of_def new_partition_def)
  have "en_reduce eng (seg_Patch (bs_seg b2)) = Some (bs_tallies b2)" using comp by (simp add: computed_state_def)
  then have sound2: "tallies_sound (bo_MinCellN ?opt) (bs_tallies b2)" using sound min by simp
  have window: "window_problems (bs_window b2) = []" using window_accepted [OF plan] days same by (simp add: win)
  have made: "partition_made (cell_input ?opt b2) (bs_cells b2) ?ai SourceRiotMatchV5 ?part"
    by (rule build_makes_its_partition [OF comp sound2 window]) (use seg same in simp)
  have tidy: "tidy (partition_docs ?ai (bs_seg b2) (bo_MinCellN ?opt) @ [(ManifestPath, DocManifest m)])"
    using partition_made_champions(1,2) [OF made] by (intro partition_docs_tidy) auto
  from write_docs_holds [OF docs, of "[]"] stage tidy holds_Nil
  have held: "holds (partition_docs ?ai (bs_seg b2) (bo_MinCellN ?opt) @ [(ManifestPath, DocManifest m)]) (fs_stage (bw_fs w2))" by simp
  obtain r s where P: "Publish E [seg_dir (bs_seg b2)] [] ?m (bw_fs w2) = (None, r, s)" and s: "fs_live (bw_fs w3) = fs_live s"
    using pub same(1) by (auto simp: publishLive_def seg_dir_def split: prod.splits option.splits)
  have served: "served (seg_dir (bs_seg b2)) ?m (fs_stage (bw_fs w2)) ?live"
    unfolding live s using manifest_apart(2) [of _ "[]"] by (intro published_is_served [OF P] manifest_apart(1)) simp
  have as: "published_as (cell_input ?opt b2) (bs_cells b2) ?ai SourceRiotMatchV5 ?part ?live"
    unfolding published_as_def part using made held served by blast
  have "map_of ?live ?m = Some (NFile (DocManifest m))" using held served by (auto simp: holds_def served_def)
  with as up part(1) show thesis by (intro that [of _ _ ?part]) (simp_all add: same)
qed

text \<open>
  C6: what a build publishes, the verifier accepts, its JSON schema included. After a build that
  reports success, verifying the partition it published finds nothing wrong with the manifest's entries, the
  tier list, any champion's document or any role's matrix, files included that no entry lists. The only
  complaint left is about \<open>latest\<close>, which the two parts choose differently when regions share a patch.
  The conditions: the counting statements keep their promises (\<open>tallies_sound\<close>); no two cells of a role
  whose rates round alike have different grades (\<open>ties_agree\<close>, without which the verifier refuses the order); the
  partition's patch, region, queue and bracket are proper values and the bracket is one of the
  published vocabulary; every published file can be read; the window ends between the years 1 and 9999; every entry of the published
  manifest, the older ones included, has a known bracket and known roles; and the JSON library reads back the
  numbers and instants it writes.
\<close>

theorem published_build_verifies:
  assumes ord: "\<And>ps. mset (ordp ps) = mset ps" and build: "BuildAgg ord ordp (\<lambda>q. True) E eng opt w = ([], b, w')"
    and sound: "\<And>patch ta. en_reduce eng patch = Some ta \<Longrightarrow> tallies_sound (bo_MinCellN opt) ta"
    and seg: "Seg_Validate (bs_seg b)" "seg_Bracket (bs_seg b) \<in> set Brackets" and ties: "ties_agree (co_Cells (bs_cells b))"
    and days: "\<And>to. parseDate (win_To (bs_window b)) = Some to \<Longrightarrow> 400 \<le> to \<and> to < 3652059"
    and known: "\<And>m p. map_of (fs_live (bw_fs w')) (slash_path ManifestPath) = Some (NFile (DocManifest m)) \<Longrightarrow>
      p \<in> set (ma_Partitions m) \<Longrightarrow> pa_Bracket p \<in> set Brackets \<and> set (pa_MatchupRoles p) \<subseteq> set Roles"
    and schema: "newSchemaValidator (Schema ArtifactRoots) = Inr defs" "reads_back R W"
  shows "\<exists>problems. Verify (\<lambda>q. True) (passes_schema R W defs) (fs_live (bw_fs w')) (bs_seg b) SourceRiotMatchV5 = Some problems
    \<and> set problems \<subseteq> {''latest is not the newest partition''}"
proof -
  let ?live = "fs_live (bw_fs w')" and ?m = "slash_path ManifestPath" and ?schema = "passes_schema R W defs"
  obtain inp ai part m t now where as: "published_as inp (bs_cells b) ai SourceRiotMatchV5 part ?live" and part: "seg_of part = bs_seg b"
    and up: "UpdateManifest ordp (\<lambda>q. True) t part SourceRiotMatchV5 now = Inr m"
    and listed: "map_of ?live ?m = Some (NFile (DocManifest m))"
    by (rule build_publishes [OF build sound seg(1) days]) (assumption | rule that)+
  have made: "partition_made inp (bs_cells b) ai SourceRiotMatchV5 part" using as by (simp add: published_as_def)
  have source: "source_valid SourceRiotMatchV5" by (simp add: source_valid_def)
  have bracket: "pa_Bracket part \<in> set Brackets" using seg(2) by (simp flip: part add: seg_of_def)
  have clean: "check_partition (\<lambda>q. True) ?schema ?live SourceRiotMatchV5 part = []"
    using built_docs_ok [OF made source bracket] passes_iff_ok [OF schema] ties by (intro partition_accepted [OF as]) blast+
  have "pa_Patch part \<noteq> []" using seg(1) by (auto simp flip: part simp: seg_of_def Seg_Validate_def is_patch_def)
  note man = merged_manifest [OF ord up this]
  have read: "read_file (\<lambda>q. True) ?live ?m = Readable (DocManifest m)" using listed by (simp add: read_file_def)
  have "ma_Latest m \<in> set (ma_Partitions m)" using manifest_latest_listed [OF up] man(2) by auto
  then have "doc_ok (DocManifest m)"
    using known [OF listed] by (simp add: doc_ok_def list_all_iff partition_ok_def man(3) Sources_def)
  then have ok: "?schema (DocManifest m)" using passes_iff_ok [OF schema, of "DocManifest m"] by (simp add: root_of_def)
  have sel: "set (selectPartitions (bs_seg b) (ma_Partitions m)) = {part}"
    using select_one [OF man(1,2)] seg(1) by (simp add: part)
  have dup: "duplicatePartitions {} (ma_Partitions m) = []"
    using man(1) by (intro duplicatePartitions_Nil) (auto simp: Seg_Dir_key distinct_map inj_on_def)
  have "concat (map (check_partition (\<lambda>q. True) ?schema ?live (ma_Source m)) (selectPartitions (bs_seg b) (ma_Partitions m))) = []"
    using sel clean by (simp add: man(3))
  moreover have "set (check_latest m) \<subseteq> {''latest is not the newest partition''}"
    using man(2) by (auto simp: check_latest_def Let_def problem_if_def split: list.splits)
  moreover have "selectPartitions (bs_seg b) (ma_Partitions m) \<noteq> []" using sel by auto
  ultimately show ?thesis
    using ok dup man(3,4) by (simp add: Verify_def read source_valid_def)
qed

text \<open>A library for the example: instants and rates are written as whole numbers, and a number is read by \<open>atoi\<close>.\<close>

definition demo_readers :: json_readers where
  "demo_readers = \<lparr>jr_Float64 = (\<lambda>s. case atoi s of Some n \<Rightarrow> Some (of_int n) | None \<Rightarrow> Some 0), jr_RFC3339 = (\<lambda>s. s \<noteq> [])\<rparr>"

definition demo_writers :: json_writers where
  "demo_writers = \<lparr>jw_float = (\<lambda>q. show_int \<lfloor>q\<rfloor>), jw_time = (\<lambda>t. ''T'' @ show_int t)\<rparr>"

lemma demo_library: "reads_back demo_readers demo_writers"
  by (auto simp: reads_back_def demo_readers_def demo_writers_def integral_def split: option.splits)

theorem published_build_verifies_witness:
  "\<exists>defs problems. newSchemaValidator (Schema ArtifactRoots) = Inr defs
    \<and> Verify (\<lambda>q. True) (passes_schema demo_readers demo_writers defs) (fs_live (bw_fs demo_published)) (bs_seg demo_state)
        SourceRiotMatchV5 = Some problems
    \<and> set problems \<subseteq> {''latest is not the newest partition''}"
proof -
  obtain defs where defs: "newSchemaValidator (Schema ArtifactRoots) = Inr defs" using validator_made by blast
  have listed: "case map_of (fs_live (bw_fs demo_published)) (slash_path ManifestPath) of
      Some (NFile (DocManifest m)) \<Rightarrow> list_all (\<lambda>p. pa_Bracket p \<in> set Brackets \<and> list_all (\<lambda>r. r \<in> set Roles) (pa_MatchupRoles p)) (ma_Partitions m)
    | x \<Rightarrow> False" by code_simp
  have "\<exists>problems. Verify (\<lambda>q. True) (passes_schema demo_readers demo_writers defs) (fs_live (bw_fs demo_published)) (bs_seg demo_state)
        SourceRiotMatchV5 = Some problems
    \<and> set problems \<subseteq> {''latest is not the newest partition''}"
  proof (rule published_build_verifies [OF _ demo_build_runs _ _ _ _ _ _ defs demo_library])
    show "tallies_sound (bo_MinCellN demo_opts) ta" if "en_reduce demo_engine patch = Some ta" for patch ta
      using that demo_tallies_sound by (simp add: demo_engine_def demo_opts_def)
    show "Seg_Validate (bs_seg demo_state)" by code_simp
    show "seg_Bracket (bs_seg demo_state) \<in> set Brackets" by code_simp
    show "ties_agree (co_Cells (bs_cells demo_state))" by code_simp
    have "parseDate (win_To (bs_window demo_state)) = Some 739681" by code_simp
    then show "400 \<le> to \<and> to < 3652059" if "parseDate (win_To (bs_window demo_state)) = Some to" for to using that by simp
    show "pa_Bracket p \<in> set Brackets \<and> set (pa_MatchupRoles p) \<subseteq> set Roles"
      if "map_of (fs_live (bw_fs demo_published)) (slash_path ManifestPath) = Some (NFile (DocManifest m))" "p \<in> set (ma_Partitions m)" for m p
      using listed that by (auto simp: list_all_iff)
  qed simp
  with defs show ?thesis by blast
qed

end
