(* ===== verification/Crawl_Static.thy ===== *)
theory Crawl_Static
  imports Crawl_Worker
begin

text \<open>
  The mirror of the static game data (\<^verbatim>\<open>internal/crawl/static.go\<close>): the list of versions and the
  documents of one patch, fetched with a bounded retry and retained in the archive, then flushed.
  The state is the worker's \<open>world\<close>, of which the mirror uses the clock and the archive. The server
  is an argument: what the n-th interaction answers for a path and how long it takes; so are gzip
  and the JSON decoder. Logs and metrics are left out.
\<close>

section \<open>Constants\<close>

definition DefaultDDragonURL :: string where
  "DefaultDDragonURL = ''https://ddragon.leagueoflegends.com''"

definition DefaultDDragonLocale :: string where
  "DefaultDDragonLocale = ''en_US''"

definition KindVersions :: string where
  "KindVersions = ''versions''"

definition KindChampions :: string where
  "KindChampions = ''champions''"

definition KindItems :: string where
  "KindItems = ''items''"

definition KindRunes :: string where
  "KindRunes = ''runes''"

definition KindSummonerSpells :: string where
  "KindSummonerSpells = ''summoner-spells''"

definition DefaultStaticAttempts :: int where
  "DefaultStaticAttempts = 3"

definition defaultStaticTimeout :: duration where
  "defaultStaticTimeout = seconds 20"

definition maxStaticBytes :: int where
  "maxStaticBytes = 64 * 2 ^ 20"

definition staticBackoffBase :: duration where
  "staticBackoffBase = 250000000"

definition StaticKinds :: "string list" where
  "StaticKinds = [KindVersions, KindChampions, KindItems, KindRunes, KindSummonerSpells]"

lemmas static_kind_defs = KindVersions_def KindChampions_def KindItems_def KindRunes_def KindSummonerSpells_def

section \<open>Versions\<close>

text \<open>A 64-bit signed integer wraps.\<close>

definition wrap_int64 :: "int \<Rightarrow> int" where
  "wrap_int64 v = (v + 2 ^ 63) mod 2 ^ 64 - 2 ^ 63"

fun leading_value :: "int \<Rightarrow> string \<Rightarrow> int" where
  "leading_value v [] = v"
| "leading_value v (c # cs) =
     (if \<not> is_digit c then v else leading_value (wrap_int64 (v * 10 + int (digit_val c))) cs)"

definition splitNumeric :: "string \<Rightarrow> int list" where
  "splitNumeric version = map (leading_value 0) (split_on (CHR ''.'') version)"

text \<open>The loop over the segments: a missing one counts as zero.\<close>

fun segments_greater :: "int list \<Rightarrow> int list \<Rightarrow> bool" where
  "segments_greater [] [] = False"
| "segments_greater (a # as) [] = (if a \<noteq> 0 then 0 < a else segments_greater as [])"
| "segments_greater [] (b # bs) = (if 0 \<noteq> b then b < 0 else segments_greater [] bs)"
| "segments_greater (a # as) (b # bs) = (if a \<noteq> b then b < a else segments_greater as bs)"

definition patchGreater :: "string \<Rightarrow> string \<Rightarrow> bool" where
  "patchGreater a b = segments_greater (splitNumeric a) (splitNumeric b)"

definition newest_version :: "string list \<Rightarrow> string" where
  "newest_version versions = foldl (\<lambda>latest v. if patchGreater v latest then v else latest) [] versions"

section \<open>Options, server, errors\<close>

record static_opts =
  so_Writer :: bool
  so_BaseURL :: string
  so_Version :: string
  so_Locale :: string
  so_Kinds :: "string list"
  so_Attempts :: int
  so_Timeout :: duration

text \<open>A response: its status, the content coding it declares, its body and how reading and closing it end.\<close>

record doc_response =
  dr_Status :: int
  dr_Encoding :: string
  dr_Body :: string
  dr_Broken :: bool
  dr_Closes :: bool

text \<open>
  \<open>se_get n path timeout\<close> is the n-th request's answer (\<open>None\<close>: it cannot be built or the transport
  fails, the timeout included) and the time it takes; \<open>se_gunzip\<close> the bytes a gzip stream inflates to
  and whether it is damaged after them, \<open>None\<close> when it has no header.
\<close>

record static_env =
  se_get :: "nat \<Rightarrow> string \<Rightarrow> duration \<Rightarrow> doc_response option \<times> duration"
  se_gunzip :: "string \<Rightarrow> (string \<times> bool) option"
  se_decode :: "string \<Rightarrow> string list option"

datatype doc_error = NoResponse | BadGzip | BodyBroken | BodyTooLarge | CloseBroken | BadStatus int | SleepStopped ctx_err | DelayPanic

datatype static_error =
    NoStaticWriter | DocFailed string doc_error | VersionsUndecodable | VersionsEmpty
  | StaticNotArchived string raw_error | StaticStopped ctx_err | UnknownDocument string | StaticFlushFailed raw_error

definition trim_right_slashes :: "string \<Rightarrow> string" where
  "trim_right_slashes s = rev (dropWhile (\<lambda>c. c = CHR ''/'') (rev s))"

definition normalizeStatic :: "static_opts \<Rightarrow> static_opts" where
  "normalizeStatic o1 =
     o1\<lparr>so_BaseURL := trim_right_slashes (if trim_space (so_BaseURL o1) = [] then DefaultDDragonURL else so_BaseURL o1),
        so_Locale := (if trim_space (so_Locale o1) = [] then DefaultDDragonLocale else so_Locale o1),
        so_Kinds := (if so_Kinds o1 = [] then StaticKinds else so_Kinds o1),
        so_Attempts := default_if_nonpos (so_Attempts o1) DefaultStaticAttempts,
        so_Timeout := default_if_nonpos (so_Timeout o1) defaultStaticTimeout\<rparr>"

definition staticDocumentPath :: "string \<Rightarrow> string \<Rightarrow> string \<Rightarrow> string option" where
  "staticDocumentPath kind version locale =
     (let path = (\<lambda>name. ''/cdn/'' @ version @ ''/data/'' @ locale @ ''/'' @ name)
      in if kind = KindChampions then Some (path ''champion.json'')
         else if kind = KindItems then Some (path ''item.json'')
         else if kind = KindRunes then Some (path ''runesReforged.json'')
         else if kind = KindSummonerSpells then Some (path ''summoner.json'')
         else None)"

definition versionsPath :: string where
  "versionsPath = ''/api/versions.json''"

definition latestVersion :: "static_env \<Rightarrow> string \<Rightarrow> static_error + string" where
  "latestVersion S payload =
     (case se_decode S payload of
        None \<Rightarrow> Inl VersionsUndecodable
      | Some versions \<Rightarrow> (if newest_version versions = [] then Inl VersionsEmpty else Inr (newest_version versions)))"

section \<open>One document\<close>

text \<open>The reader stops one byte past the limit, so a longer body is refused before its damage is seen.\<close>

definition read_limited :: "string \<Rightarrow> bool \<Rightarrow> doc_error + string" where
  "read_limited content broken =
     (if maxStaticBytes < int (length content) then Inl BodyTooLarge
      else if broken then Inl BodyBroken
      else Inr content)"

definition decodeStaticBody :: "static_env \<Rightarrow> doc_response \<Rightarrow> doc_error + string" where
  "decodeStaticBody S resp =
     (if to_upper (dr_Encoding resp) = ''GZIP''
      then (case se_gunzip S (dr_Body resp) of
              None \<Rightarrow> Inl BadGzip
            | Some (content, damaged) \<Rightarrow> read_limited content (damaged \<or> dr_Broken resp))
      else read_limited (dr_Body resp) (dr_Broken resp))"

definition static_attempt :: "static_env \<Rightarrow> static_opts \<Rightarrow> string \<Rightarrow> world \<Rightarrow> ((doc_error + string) \<times> int) \<times> world" where
  "static_attempt S opt path w =
     (let (answer, took) = se_get S (w_tick w) (so_BaseURL opt @ path) (so_Timeout opt);
          w1 = (bump w)\<lparr>w_now := w_now w + max 0 took\<rparr>
      in case answer of
           None \<Rightarrow> ((Inl NoResponse, 0), w1)
         | Some resp \<Rightarrow>
             (case decodeStaticBody S resp of
                Inl e \<Rightarrow> ((Inl e, dr_Status resp), w1)
              | Inr body \<Rightarrow>
                  (if \<not> dr_Closes resp then ((Inl CloseBroken, dr_Status resp), w1)
                   else if dr_Status resp \<noteq> 200 then ((Inl (BadStatus (dr_Status resp)), dr_Status resp), w1)
                   else ((Inr body, dr_Status resp), w1))))"

text \<open>
  The delay before the next attempt: the base shifted left at 64 bits, plus a random share of half of
  it. \<^verbatim>\<open>Int63n\<close> panics on a bound that is not positive, which a shift into the sign bit gives.
\<close>

definition shifted_delay :: "nat \<Rightarrow> duration" where
  "shifted_delay attempt = wrap_int64 (staticBackoffBase * 2 ^ (attempt - 1))"

definition static_delay :: "env \<Rightarrow> nat \<Rightarrow> world \<Rightarrow> duration option" where
  "static_delay E attempt w =
     (let delay = shifted_delay attempt; bound = (if delay < 0 then - ((- delay) div 2) else delay div 2) + 1
      in if bound \<le> 0 then None else Some (wrap_int64 (delay + draw E bound w)))"

text \<open>\<open>n\<close> attempts are left, \<open>attempt\<close> is the number of the next one.\<close>

fun fetch_from :: "static_env \<Rightarrow> env \<Rightarrow> static_opts \<Rightarrow> string \<Rightarrow> nat \<Rightarrow> nat \<Rightarrow> doc_error \<Rightarrow> world \<Rightarrow> (doc_error + string) \<times> world" where
  "fetch_from S E opt path 0 attempt last_error w = (Inl last_error, w)"
| "fetch_from S E opt path (Suc n) attempt last_error w =
     (case static_attempt S opt path w of
        ((Inr payload, status), w1) \<Rightarrow> (Inr payload, w1)
      | ((Inl e, status), w1) \<Rightarrow>
          (if (400 \<le> status \<and> status < 500) \<or> n = 0 then (Inl e, w1)
           else (case static_delay E attempt w1 of
                   None \<Rightarrow> (Inl DelayPanic, w1)
                 | Some delay \<Rightarrow>
                     (case clock_sleep (run_ctx E) (w_now w1) delay of
                        (t, Some c) \<Rightarrow> (Inl (SleepStopped c), (bump w1)\<lparr>w_now := t\<rparr>)
                      | (t, None) \<Rightarrow> fetch_from S E opt path n (Suc attempt) e ((bump w1)\<lparr>w_now := t\<rparr>)))))"

definition static_fetch :: "static_env \<Rightarrow> env \<Rightarrow> static_opts \<Rightarrow> string \<Rightarrow> world \<Rightarrow> (doc_error + string) \<times> world" where
  "static_fetch S E opt path w = fetch_from S E opt path (nat (so_Attempts opt)) 1 NoResponse w"

definition static_store :: "env \<Rightarrow> static_opts \<Rightarrow> string \<Rightarrow> string \<Rightarrow> string \<Rightarrow> world \<Rightarrow> static_error option \<times> world" where
  "static_store E opt kind version payload w =
     (case WriteStatic (e_sha E) (e_io E (w_tick w)) (w_now w) (stopped E w) kind version (so_Locale opt) payload (w_now w) (w_arch w) of
        (None, ar) \<Rightarrow> (None, (bump w)\<lparr>w_arch := ar\<rparr>)
      | (Some e, ar) \<Rightarrow> (Some (StaticNotArchived kind e), (bump w)\<lparr>w_arch := ar\<rparr>))"

section \<open>The run\<close>

record StaticDocument =
  sd_Kind :: string
  sd_URL :: string
  sd_Version :: string
  sd_Locale :: string
  sd_Bytes :: int

record StaticResult =
  sr_Version :: string
  sr_Locale :: string
  sr_Documents :: "StaticDocument list"

text \<open>Retaining one fetched document and reporting it.\<close>

definition retain_document :: "env \<Rightarrow> static_opts \<Rightarrow> string \<Rightarrow> string \<Rightarrow> string \<Rightarrow> string \<Rightarrow> StaticResult \<Rightarrow> world
    \<Rightarrow> static_error option \<times> StaticResult \<times> world" where
  "retain_document E opt kind path version payload res w =
     (case static_store E opt kind version payload w of
        (Some e, w1) \<Rightarrow> (Some e, res, w1)
      | (None, w1) \<Rightarrow>
          (None, res\<lparr>sr_Documents := sr_Documents res @
             [\<lparr>sd_Kind = kind, sd_URL = so_BaseURL opt @ path, sd_Version = version, sd_Locale = so_Locale opt,
               sd_Bytes = int (length payload)\<rparr>]\<rparr>, w1))"

fun sync_kinds :: "static_env \<Rightarrow> env \<Rightarrow> static_opts \<Rightarrow> string \<Rightarrow> string list \<Rightarrow> StaticResult \<Rightarrow> world
    \<Rightarrow> static_error option \<times> StaticResult \<times> world" where
  "sync_kinds S E opt version [] res w = (None, res, w)"
| "sync_kinds S E opt version (kind # kinds) res w =
     (if kind = KindVersions then sync_kinds S E opt version kinds res w
      else (case ctx_err (run_ctx E) (w_now w) of
              Some c \<Rightarrow> (Some (StaticStopped c), res, w)
            | None \<Rightarrow>
                (case staticDocumentPath kind version (so_Locale opt) of
                   None \<Rightarrow> (Some (UnknownDocument kind), res, w)
                 | Some path \<Rightarrow>
                     (case static_fetch S E opt path w of
                        (Inl e, w1) \<Rightarrow> (Some (DocFailed kind e), res, w1)
                      | (Inr payload, w1) \<Rightarrow>
                          (case retain_document E opt kind path version payload res w1 of
                             (Some e, res1, w2) \<Rightarrow> (Some e, res1, w2)
                           | (None, res1, w2) \<Rightarrow> sync_kinds S E opt version kinds res1 w2)))))"

definition StaticSync :: "static_env \<Rightarrow> env \<Rightarrow> static_opts \<Rightarrow> world \<Rightarrow> static_error option \<times> StaticResult \<times> world" where
  "StaticSync S E opt0 w =
     (let opt = normalizeStatic opt0; res = \<lparr>sr_Version = [], sr_Locale = so_Locale opt, sr_Documents = []\<rparr>
      in if \<not> so_Writer opt then (Some NoStaticWriter, res, w)
         else (case static_fetch S E opt versionsPath w of
                 (Inl e, w1) \<Rightarrow> (Some (DocFailed KindVersions e), res, w1)
               | (Inr payload, w1) \<Rightarrow>
                   (case (if so_Version opt = [] then latestVersion S payload else Inr (so_Version opt)) of
                      Inl e \<Rightarrow> (Some e, res, w1)
                    | Inr version \<Rightarrow>
                        (case retain_document E opt KindVersions versionsPath version payload res w1 of
                           (Some e, res1, w2) \<Rightarrow> (Some e, res1, w2)
                         | (None, res1, w2) \<Rightarrow>
                             (case sync_kinds S E opt version (so_Kinds opt) (res1\<lparr>sr_Version := version\<rparr>) w2 of
                                (Some e, res2, w3) \<Rightarrow> (Some e, res2, w3)
                              | (None, res2, w3) \<Rightarrow>
                                  (case Flush (e_fio E (w_tick w3)) (stopped E w3) (w_arch w3) of
                                     (Some e, ar) \<Rightarrow> (Some (StaticFlushFailed e), res2, (bump w3)\<lparr>w_arch := ar\<rparr>)
                                   | (None, ar) \<Rightarrow> (None, res2, (bump w3)\<lparr>w_arch := ar\<rparr>)))))))"

end
