(* ===== verification/Static_Props.thy ===== *)
theory Static_Props
  imports Crawl_Static Worker_Theorems
begin

text \<open>
  The mirror of the static data: the version it takes is a maximum of the list served, a run makes
  a bounded number of requests, and one that succeeds has published every document it reports.
\<close>

section \<open>The newest version\<close>

text \<open>Padding with zeroes turns the loop into the lexicographic order on lists of one length.\<close>

definition padded :: "nat \<Rightarrow> int list \<Rightarrow> int list" where
  "padded n xs = xs @ replicate (n - length xs) 0"

lemma padded_Cons: "length xs \<le> n \<Longrightarrow> padded (Suc n) (x # xs) = x # padded n xs"
  by (simp add: padded_def)

lemma padded_Nil: "padded (Suc n) [] = 0 # padded n []"
  by (simp add: padded_def)

lemma segments_greater_padded:
  "length as \<le> n \<Longrightarrow> length bs \<le> n \<Longrightarrow> segments_greater as bs = (padded n bs < padded n as)"
proof (induction as bs arbitrary: n rule: segments_greater.induct)
  case 1
  then show ?case by simp
next
  case (2 a as)
  then obtain m where n: "n = Suc m" by (cases n) auto
  with 2 have "padded n (a # as) = a # padded m as" "padded n [] = 0 # padded m []"
    by (simp_all add: padded_Cons padded_Nil)
  with 2 n show ?case by simp
next
  case (3 b bs)
  then obtain m where n: "n = Suc m" by (cases n) auto
  with 3 have "padded n (b # bs) = b # padded m bs" "padded n [] = 0 # padded m []"
    by (simp_all add: padded_Cons padded_Nil)
  with 3 n show ?case by simp
next
  case (4 a as b bs)
  then obtain m where n: "n = Suc m" by (cases n) auto
  with 4 have "padded n (a # as) = a # padded m as" "padded n (b # bs) = b # padded m bs"
    by (simp_all add: padded_Cons)
  with 4 n show ?case by simp
qed

definition version_rank :: "nat \<Rightarrow> string \<Rightarrow> int list" where
  "version_rank n v = padded n (splitNumeric v)"

lemma patchGreater_rank:
  "length (splitNumeric a) \<le> n \<Longrightarrow> length (splitNumeric b) \<le> n \<Longrightarrow>
     patchGreater a b = (version_rank n b < version_rank n a)"
  by (simp add: patchGreater_def version_rank_def segments_greater_padded)

lemma fold_newest:
  assumes "\<forall>v \<in> insert s (set vs). length (splitNumeric v) \<le> n"
  shows "foldl (\<lambda>latest v. if patchGreater v latest then v else latest) s vs \<in> insert s (set vs) \<and>
    (\<forall>u \<in> insert s (set vs). \<not> patchGreater u (foldl (\<lambda>latest v. if patchGreater v latest then v else latest) s vs))"
  using assms
proof (induction vs arbitrary: s)
  case Nil
  then show ?case using patchGreater_rank [of s n s] by simp
next
  case (Cons v vs)
  let ?s = "if patchGreater v s then v else s"
  let ?m = "foldl (\<lambda>latest v. if patchGreater v latest then v else latest) ?s vs"
  have IH: "?m \<in> insert ?s (set vs)" "\<forall>u \<in> insert ?s (set vs). \<not> patchGreater u ?m"
    using Cons.IH [of ?s] Cons.prems by simp_all
  have short: "length (splitNumeric u) \<le> n" if "u \<in> insert s (set (v # vs))" for u using Cons.prems that by blast
  have m: "?m \<in> insert s (set (v # vs))" using IH(1) by (auto split: if_splits)
  have rank: "patchGreater a b = (version_rank n b < version_rank n a)"
    if "a \<in> insert s (set (v # vs))" "b \<in> insert s (set (v # vs))" for a b
    using patchGreater_rank short that by blast
  have le: "\<not> version_rank n ?m < version_rank n ?s" using IH(2) rank [OF _ m] by (auto split: if_splits)
  have "\<not> patchGreater u ?m" if u: "u \<in> insert s (set (v # vs))" for u
  proof (cases "u \<in> insert ?s (set vs)")
    case True
    then show ?thesis using IH(2) by blast
  next
    case False
    then have "u = s \<and> patchGreater v s \<or> u = v \<and> \<not> patchGreater v s" using u by (auto split: if_splits)
    then have "\<not> version_rank n ?s < version_rank n u" using rank [of v s] by auto
    then show ?thesis using le rank [OF u m] by auto
  qed
  then show ?case using m by simp
qed

lemma newest_version_is_maximal:
  "newest_version vs \<in> insert [] (set vs) \<and> (\<forall>u \<in> set vs. \<not> patchGreater u (newest_version vs))"
proof -
  let ?n = "Max (insert 0 ((\<lambda>v. length (splitNumeric v)) ` insert [] (set vs)))"
  have "\<forall>v \<in> insert [] (set vs). length (splitNumeric v) \<le> ?n" by (auto intro: Max_ge)
  from fold_newest [OF this] show ?thesis by (simp add: newest_version_def)
qed

section \<open>The archive\<close>

lemma static_dirs_differ: "StaticDir r x y \<noteq> LeagueDir r z u" "StaticDir r x y \<noteq> AccountDir r z"
  by (simp_all add: dir_defs)

lemma static_dir_elsewhere:
  assumes "keys_ok w"
  shows "StaticDir (wr_root w) x y \<notin> fst ` set (wr_match w @ wr_timeline w @ wr_league w) \<and>
    StaticDir (wr_root w) x y \<notin> fst ` set (wr_account w)"
proof -
  note k = keys_okD(1,2,3,5) [OF assms]
  let ?d = "StaticDir (wr_root w) x y"
  have "?d \<notin> fst ` set (wr_match w)" "?d \<notin> fst ` set (wr_timeline w)"
    "?d \<notin> fst ` set (wr_league w)" "?d \<notin> fst ` set (wr_account w)"
    by (rule key_elsewhere(1) [OF k(1)] key_elsewhere(1) [OF k(2)] key_elsewhere(2) [OF k(3)]
        key_elsewhere(1) [OF k(4)], rule static_dirs_differ dirs_differ [symmetric])+
  then show ?thesis by (simp only: set_append image_Un Un_iff simp_thms)
qed

definition static_row :: "(string \<Rightarrow> string) \<Rightarrow> string \<Rightarrow> string \<Rightarrow> string \<Rightarrow> string \<Rightarrow> gtime \<Rightarrow> archive_row" where
  "static_row sha kind version locale payload t =
     RowStatic \<lparr>s_Kind = kind, s_Version = version, s_Locale = locale, s_FetchedAt = t, s_Payload = payload, s_SHA = sha payload\<rparr>"

lemma WriteStatic_spec:
  assumes "WriteStatic sha io now cancelled kind version locale payload t ar = (e, ar')" and "archive_ok N ar"
    and "N + indexSkips \<le> max_duration" and "\<not> loses_rows e"
  shows "archive_ok (N + indexSkips) ar' \<and> held_rows ar \<subseteq> held_rows ar' \<and>
    (e = None \<longrightarrow> static_row sha kind version locale payload t \<in> held_rows ar')"
proof -
  obtain w fs where ar: "ar = (w, fs)" by (cases ar)
  let ?dir = "StaticDir (wr_root w) (date_only t) kind" and ?row = "static_row sha kind version locale payload t"
  let ?A = "wr_match w @ wr_timeline w @ wr_league w"
  have N: "N \<le> N + indexSkips" by (simp add: indexSkips_def)
  show ?thesis
  proof (cases "cancelled \<or> kind = [] \<or> t = 0 \<or> wr_closed w")
    case True
    then have "ar' = ar" "e \<noteq> None" using assms(1) by (auto simp: WriteStatic_def ar split: if_splits)
    then show ?thesis using archive_ok_mono [OF assms(2) N] by auto
  next
    case False
    then obtain parts fs' where a: "append_to (wr_rowsPerPart w) io now ?dir ?row (wr_static w) fs = (e, parts, fs')"
      and ar': "ar' = (w\<lparr>wr_static := parts\<rparr>, fs')"
      using assms(1) by (auto simp: WriteStatic_def static_row_def Let_def ar split: prod.splits)
    have ok: "parts_ok N (?A @ wr_static w @ wr_account w) fs" "dirs_ok N fs" "0 \<le> N" "keys_ok w"
      using assms(2) by (simp_all add: archive_ok_def ar all_parts_def)
    have out: "?dir \<notin> fst ` set ?A" "?dir \<notin> fst ` set (wr_account w)"
      using static_dir_elsewhere [OF ok(4)] by blast+
    note spec = append_to_spec [OF a ok(1-3) assms(3) out]
    have logs: "arch_log ar x = dir_log (?A @ wr_static w @ wr_account w) fs x"
      "arch_log ar' x = dir_log (?A @ parts @ wr_account w) fs' x" for x
      by (simp_all add: arch_log_def ar ar' all_parts_def)
    have "keys_ok (w\<lparr>wr_static := parts\<rparr>)" using ok(4) spec by (auto simp: keys_ok_def)
    then have ok': "archive_ok (N + indexSkips) ar'"
      using spec ok(3) N by (simp add: archive_ok_def ar' all_parts_def)
    have grows: "set (arch_log ar x) \<subseteq> set (arch_log ar' x)" for x
    proof (cases "x = ?dir")
      case True
      then show ?thesis using spec assms(4) unfolding logs by (cases e) auto
    next
      case False
      then show ?thesis using spec unfolding logs by simp
    qed
    have "e = None \<longrightarrow> ?row \<in> set (arch_log ar' ?dir)" using spec unfolding logs by simp
    then show ?thesis using ok' grows by (auto simp: held_rows_def)
  qed
qed

lemma WriteStatic_publishes:
  "publishes io \<Longrightarrow> \<not> loses_rows (fst (WriteStatic sha io now c kind version locale payload t ar))"
  by (simp add: WriteStatic_def Let_def split_beta append_to_publishes) (simp add: loses_rows_def)

text \<open>One write of the mirror, as the archive's contract sees it.\<close>

record static_put =
  sp_sha :: "string \<Rightarrow> string"
  sp_io :: io
  sp_now :: gtime
  sp_cancelled :: bool
  sp_kind :: string
  sp_version :: string
  sp_locale :: string
  sp_payload :: string

definition static_write :: "static_put \<Rightarrow> archive \<Rightarrow> raw_error option \<times> archive" where
  "static_write p ar =
     WriteStatic (sp_sha p) (sp_io p) (sp_now p) (sp_cancelled p) (sp_kind p) (sp_version p) (sp_locale p) (sp_payload p) (sp_now p) ar"

definition static_put_row :: "static_put \<Rightarrow> archive_row" where
  "static_put_row p = static_row (sp_sha p) (sp_kind p) (sp_version p) (sp_locale p) (sp_payload p) (sp_now p)"

interpretation mirror: archive_contract archive_room static_write static_put_row "\<lambda>p. publishes (sp_io p)"
  "\<lambda>f. Flush f False" held_rows safe_rows
proof
  fix n s x e s'
  assume a: "archive_room (Suc n) s" "publishes (sp_io x)" "static_write x s = (e, s')"
  obtain N where N: "archive_ok N s" "N + int (Suc n) * indexSkips \<le> max_duration"
    using a(1) by (auto simp: archive_room_def)
  have split: "int (Suc n) * indexSkips = indexSkips + int n * indexSkips" by (simp add: algebra_simps)
  have nn: "0 \<le> int n * indexSkips" using indexSkips_nonneg by simp
  have lim: "N + indexSkips \<le> max_duration" using N(2) split nn by linarith
  have room: "N + indexSkips + int n * indexSkips \<le> max_duration" using N(2) split by linarith
  have w: "WriteStatic (sp_sha x) (sp_io x) (sp_now x) (sp_cancelled x) (sp_kind x) (sp_version x) (sp_locale x)
      (sp_payload x) (sp_now x) s = (e, s')" using a(3) by (simp add: static_write_def)
  have "\<not> loses_rows e" using WriteStatic_publishes [OF a(2)] w by (metis fst_conv)
  note spec = WriteStatic_spec [OF w N(1) lim this]
  then have "archive_room n s'" using room by (auto simp: archive_room_def)
  then show "archive_room n s' \<and> held_rows s \<subseteq> held_rows s' \<and> (e = None \<longrightarrow> static_put_row x \<in> held_rows s')"
    using spec by (simp add: static_put_row_def)
qed (use archive.flush_law archive_room_mono in blast)+

section \<open>Fetching\<close>

lemma static_attempt_frame:
  "static_attempt S opt path w = ((r, status), w') \<Longrightarrow> w_arch w' = w_arch w \<and> w_tick w' = w_tick w + 1 \<and> w_now w \<le> w_now w'"
  by (auto simp: static_attempt_def bump_def Let_def split: prod.splits option.splits sum.splits if_splits)

lemma fetch_from_frame:
  "fetch_from S E opt path n attempt e w = (r, w') \<Longrightarrow>
     w_arch w' = w_arch w \<and> w_tick w' \<le> w_tick w + 2 * n \<and> w_now w \<le> w_now w'"
proof (induction n arbitrary: attempt e w)
  case (Suc n)
  obtain a status w1 where a: "static_attempt S opt path w = ((a, status), w1)" by (metis prod.collapse)
  note f = static_attempt_frame [OF a]
  show ?case
  proof (cases a)
    case (Inr body)
    then show ?thesis using Suc.prems f by (simp add: a)
  next
    case (Inl e1)
    show ?thesis
    proof (cases "(400 \<le> status \<and> status < 500) \<or> n = 0")
      case True
      then show ?thesis using Suc.prems f by (simp add: a Inl)
    next
      case again: False
      show ?thesis
      proof (cases "static_delay E attempt w1")
        case None
        then show ?thesis using Suc.prems f again by (simp add: a Inl)
      next
        case (Some delay)
        obtain t c where s: "clock_sleep (run_ctx E) (w_now w1) delay = (t, c)" by (metis surj_pair)
        have t: "w_now w1 \<le> t" using clock_sleep_mono [of "w_now w1" "run_ctx E" delay] by (simp add: s)
        show ?thesis
        proof (cases c)
          case None
          then have "fetch_from S E opt path n (Suc attempt) e1 ((bump w1)\<lparr>w_now := t\<rparr>) = (r, w')"
            using Suc.prems again by (simp add: a Inl Some s)
          from Suc.IH [OF this] show ?thesis using f t by (simp add: bump_def)
        next
          case (Some x)
          then show ?thesis using Suc.prems f again t \<open>static_delay E attempt w1 = Some delay\<close>
            by (auto simp: a Inl s bump_def)
        qed
      qed
    qed
  qed
qed simp

lemma static_fetch_frame:
  "static_fetch S E opt path w = (r, w') \<Longrightarrow>
     w_arch w' = w_arch w \<and> w_tick w' \<le> w_tick w + 2 * nat (so_Attempts opt) \<and> w_now w \<le> w_now w'"
  by (simp add: static_fetch_def fetch_from_frame)

text \<open>An answer with a client error is not asked for again.\<close>

lemma refused_document_is_not_retried:
  assumes "se_get S (w_tick w) (so_BaseURL opt @ path) (so_Timeout opt) = (Some resp, took)"
    and "400 \<le> dr_Status resp" and "dr_Status resp < 500" and "0 < so_Attempts opt"
  shows "\<exists>e w'. static_fetch S E opt path w = (Inl e, w') \<and> w_tick w' = w_tick w + 1"
proof -
  obtain n where n: "nat (so_Attempts opt) = Suc n" using assms(4) by (metis gr0_conv_Suc zero_less_nat_eq)
  have "\<exists>e w1. static_attempt S opt path w = ((Inl e, dr_Status resp), w1)"
    using assms(1-3) by (auto simp: static_attempt_def Let_def split: sum.splits)
  then obtain e w1 where a: "static_attempt S opt path w = ((Inl e, dr_Status resp), w1)" by blast
  then show ?thesis using static_attempt_frame [OF a] assms(2,3) by (simp add: static_fetch_def n)
qed

section \<open>A run\<close>

definition document_held :: "(string \<Rightarrow> string) \<Rightarrow> archive_row set \<Rightarrow> StaticDocument \<Rightarrow> bool" where
  "document_held sha rows d =
     (\<exists>payload t. static_row sha (sd_Kind d) (sd_Version d) (sd_Locale d) payload t \<in> rows
        \<and> int (length payload) = sd_Bytes d)"

lemma document_held_mono: "document_held sha rows d \<Longrightarrow> rows \<subseteq> rows' \<Longrightarrow> document_held sha rows' d"
  by (auto simp: document_held_def)

lemma retain_document_spec:
  assumes "retain_document E opt kind path version payload res w = (e, res', w')"
    and "archive_room (Suc n) (w_arch w)" and "\<And>k. publishes (e_io E k)"
  shows "archive_room n (w_arch w') \<and> held_rows (w_arch w) \<subseteq> held_rows (w_arch w') \<and> w_tick w' = w_tick w + 1 \<and>
    (e = None \<longrightarrow> static_row (e_sha E) kind version (so_Locale opt) payload (w_now w) \<in> held_rows (w_arch w') \<and>
       res' = res\<lparr>sr_Documents := sr_Documents res @
             [\<lparr>sd_Kind = kind, sd_URL = so_BaseURL opt @ path, sd_Version = version, sd_Locale = so_Locale opt,
               sd_Bytes = int (length payload)\<rparr>]\<rparr>)"
proof -
  let ?p = "\<lparr>sp_sha = e_sha E, sp_io = e_io E (w_tick w), sp_now = w_now w, sp_cancelled = stopped E w, sp_kind = kind,
    sp_version = version, sp_locale = so_Locale opt, sp_payload = payload\<rparr>"
  obtain x ar where p: "static_write ?p (w_arch w) = (x, ar)" by (metis surj_pair)
  then have ws: "WriteStatic (e_sha E) (e_io E (w_tick w)) (w_now w) (stopped E w) kind version (so_Locale opt) payload (w_now w) (w_arch w)
      = (x, ar)" by (simp add: static_write_def)
  have law: "archive_room n ar" "held_rows (w_arch w) \<subseteq> held_rows ar" "x = None \<Longrightarrow> static_put_row ?p \<in> held_rows ar"
    using mirror.put_law [OF assms(2) _ p] assms(3) by simp_all
  show ?thesis
    using assms(1) law by (cases x) (auto simp: retain_document_def static_store_def ws static_put_row_def bump_def)
qed

lemma sync_kinds_spec:
  assumes "sync_kinds S E opt version kinds res w = (e, res', w')"
    and "archive_room (length kinds + n) (w_arch w)" and "\<And>k. publishes (e_io E k)"
  shows "archive_room n (w_arch w') \<and> held_rows (w_arch w) \<subseteq> held_rows (w_arch w') \<and> sr_Version res' = sr_Version res \<and>
    w_tick w' \<le> w_tick w + length kinds * (2 * nat (so_Attempts opt) + 1) \<and>
    (\<exists>docs. sr_Documents res' = sr_Documents res @ docs \<and>
       (\<forall>d \<in> set docs. sd_Version d = version \<and> document_held (e_sha E) (held_rows (w_arch w')) d) \<and>
       (e = None \<longrightarrow> map sd_Kind docs = filter (\<lambda>k. k \<noteq> KindVersions) kinds))"
  using assms(1,2)
proof (induction kinds arbitrary: res w)
  case Nil
  then show ?case by simp
next
  case (Cons kind kinds)
  have stop: ?case if "res' = res" "w_arch w' = w_arch w" "e \<noteq> None" "w_tick w' \<le> w_tick w + 2 * nat (so_Attempts opt)"
    using that archive_room_mono [OF Cons.prems(2), of n] by auto
  show ?case
  proof (cases "kind = KindVersions")
    case True
    have "archive_room (length kinds + n) (w_arch w)"
      using archive_room_mono [OF Cons.prems(2), of "length kinds + n"] by simp
    moreover have "sync_kinds S E opt version kinds res w = (e, res', w')" using Cons.prems(1) True by simp
    ultimately show ?thesis using Cons.IH [of res w] True by fastforce
  next
    case other: False
    show ?thesis
    proof (cases "ctx_err (run_ctx E) (w_now w)")
      case (Some c)
      then show ?thesis using Cons.prems(1) other by (intro stop) auto
    next
      case live: None
      show ?thesis
      proof (cases "staticDocumentPath kind version (so_Locale opt)")
        case None
        then show ?thesis using Cons.prems(1) other live by (intro stop) auto
      next
        case (Some path)
        obtain r w1 where f: "static_fetch S E opt path w = (r, w1)" by (metis surj_pair)
        note fr = static_fetch_frame [OF f]
        show ?thesis
        proof (cases r)
          case (Inl x)
          then show ?thesis using Cons.prems(1) other live Some fr by (intro stop) (auto simp: f)
        next
          case (Inr payload)
          obtain e1 res1 w2 where r: "retain_document E opt kind path version payload res w1 = (e1, res1, w2)"
            by (metis prod_cases3)
          have room: "archive_room (Suc (length kinds + n)) (w_arch w1)" using Cons.prems(2) fr by simp
          note sp = retain_document_spec [OF r room assms(3)]
          show ?thesis
          proof (cases e1)
            case (Some x)
            then have eqs: "e = Some x" "res' = res1" "w' = w2"
              using Cons.prems(1) other live \<open>staticDocumentPath kind version (so_Locale opt) = _\<close> Inr by (auto simp: f r)
            have "res1 = res" using r Some by (auto simp: retain_document_def split: prod.splits option.splits)
            then show ?thesis using eqs sp fr archive_room_mono [of "length kinds + n" "w_arch w2" n] by auto
          next
            case None
            let ?d = "\<lparr>sd_Kind = kind, sd_URL = so_BaseURL opt @ path, sd_Version = version, sd_Locale = so_Locale opt,
               sd_Bytes = int (length payload)\<rparr>"
            have "sync_kinds S E opt version kinds res1 w2 = (e, res', w')"
              using Cons.prems(1) other live \<open>staticDocumentPath kind version (so_Locale opt) = _\<close> Inr None by (auto simp: f r)
            from Cons.IH [OF this] sp obtain docs where IH: "archive_room n (w_arch w')"
              "held_rows (w_arch w2) \<subseteq> held_rows (w_arch w')" "sr_Version res' = sr_Version res1"
              "w_tick w' \<le> w_tick w2 + length kinds * (2 * nat (so_Attempts opt) + 1)"
              "sr_Documents res' = sr_Documents res1 @ docs"
              "\<forall>d \<in> set docs. sd_Version d = version \<and> document_held (e_sha E) (held_rows (w_arch w')) d"
              "e = None \<longrightarrow> map sd_Kind docs = filter (\<lambda>k. k \<noteq> KindVersions) kinds" by blast
            have d: "document_held (e_sha E) (held_rows (w_arch w')) ?d"
              using sp None IH(2) unfolding document_held_def by force
            have docs: "sr_Documents res' = sr_Documents res @ (?d # docs)" using IH(5) sp None by simp
            have tick: "w_tick w' \<le> w_tick w + length (kind # kinds) * (2 * nat (so_Attempts opt) + 1)"
              using IH(4) sp fr by simp
            have held: "held_rows (w_arch w) \<subseteq> held_rows (w_arch w')" using sp fr IH(2) by auto
            have ver: "sr_Version res' = sr_Version res" using IH(3) sp None by simp
            show ?thesis
              using IH(1,6,7) d docs tick held ver other by (intro conjI exI [of _ "?d # docs"]) auto
          qed
        qed
      qed
    qed
  qed
qed

definition all_documents_room :: "static_opts \<Rightarrow> nat" where
  "all_documents_room opt0 = Suc (length (so_Kinds (normalizeStatic opt0)))"

lemma StaticSync_phases:
  assumes "StaticSync S E opt0 w = (None, res, w')"
  obtains payload version w1 res1 w2 res2 w3 where
    "static_fetch S E (normalizeStatic opt0) versionsPath w = (Inr payload, w1)"
    "(if so_Version opt0 = [] then latestVersion S payload else Inr (so_Version opt0)) = Inr version"
    "retain_document E (normalizeStatic opt0) KindVersions versionsPath version payload
       \<lparr>sr_Version = [], sr_Locale = so_Locale (normalizeStatic opt0), sr_Documents = []\<rparr> w1 = (None, res1, w2)"
    "sync_kinds S E (normalizeStatic opt0) version (so_Kinds (normalizeStatic opt0)) (res1\<lparr>sr_Version := version\<rparr>) w2
       = (None, res2, w3)"
    "Flush (e_fio E (w_tick w3)) False (w_arch w3) = (None, w_arch w')" "res = res2" "w_tick w' = w_tick w3 + 1"
proof -
  let ?opt = "normalizeStatic opt0"
  let ?res = "\<lparr>sr_Version = [], sr_Locale = so_Locale ?opt, sr_Documents = []\<rparr>"
  have v: "so_Version ?opt = so_Version opt0" by (simp add: normalizeStatic_def)
  note run = assms [unfolded StaticSync_def Let_def v]
  have wr: "so_Writer ?opt" using run by (simp split: if_splits)
  obtain payload w1 where f: "static_fetch S E ?opt versionsPath w = (Inr payload, w1)"
    using run wr by (cases "static_fetch S E ?opt versionsPath w"; cases "fst (static_fetch S E ?opt versionsPath w)")
      simp_all
  obtain version where ver: "(if so_Version opt0 = [] then latestVersion S payload else Inr (so_Version opt0)) = Inr version"
    using run wr f by (cases "if so_Version opt0 = [] then latestVersion S payload else Inr (so_Version opt0)")
      simp_all
  obtain e1 res1 w2 where r: "retain_document E ?opt KindVersions versionsPath version payload ?res w1 = (e1, res1, w2)"
    by (metis prod_cases3)
  have e1: "e1 = None" using run wr f ver r by (cases e1) simp_all
  obtain e2 res2 w3 where k: "sync_kinds S E ?opt version (so_Kinds ?opt) (res1\<lparr>sr_Version := version\<rparr>) w2 = (e2, res2, w3)"
    by (metis prod_cases3)
  have e2: "e2 = None" using run wr f ver r e1 k by (cases e2) simp_all
  obtain e3 ar where fl: "Flush (e_fio E (w_tick w3)) (stopped E w3) (w_arch w3) = (e3, ar)" by (metis surj_pair)
  have e3: "e3 = None" using run wr f ver r e1 k e2 fl by (cases e3) simp_all
  have live: "\<not> stopped E w3" using fl e3 by (auto simp: Flush_def split: if_splits)
  have out: "res = res2" "w' = (bump w3)\<lparr>w_arch := ar\<rparr>"
    using run wr f ver r e1 k e2 fl e3 by simp_all
  show thesis
    using that [OF f ver, of res1 w2 res2 w3] r e1 k e2 fl e3 live out by (simp add: bump_def)
qed

text \<open>
  C27: the mirror of the static data is durable. When a run reports success, the documents it lists
  are the version list and then the kinds asked for, in order, all of one version; each of them, and
  every row the archive held before, is in a published part. Unless the version was pinned, it is
  an entry of the served list that no other entry is numerically greater than.
\<close>

theorem static_sync_is_durable:
  assumes sync: "StaticSync S E opt0 w = (None, res, w')"
    and room: "archive_room (all_documents_room opt0) (w_arch w)" and io: "\<And>k. publishes (e_io E k)"
  shows "map sd_Kind (sr_Documents res) = KindVersions # filter (\<lambda>k. k \<noteq> KindVersions) (so_Kinds (normalizeStatic opt0)) \<and>
    (\<forall>d \<in> set (sr_Documents res). sd_Version d = sr_Version res \<and> document_held (e_sha E) (safe_rows (w_arch w')) d) \<and>
    held_rows (w_arch w) \<subseteq> safe_rows (w_arch w') \<and>
    (if so_Version opt0 = []
     then \<exists>payload versions t. se_decode S payload = Some versions \<and> sr_Version res \<in> set versions \<and>
       (\<forall>v \<in> set versions. \<not> patchGreater v (sr_Version res)) \<and>
       static_row (e_sha E) KindVersions (sr_Version res) (so_Locale (normalizeStatic opt0)) payload t \<in> safe_rows (w_arch w')
     else sr_Version res = so_Version opt0)"
proof -
  let ?opt = "normalizeStatic opt0"
  obtain payload version w1 res1 w2 res2 w3 where
    f: "static_fetch S E ?opt versionsPath w = (Inr payload, w1)"
    and v: "(if so_Version opt0 = [] then latestVersion S payload else Inr (so_Version opt0)) = Inr version"
    and r: "retain_document E ?opt KindVersions versionsPath version payload
       \<lparr>sr_Version = [], sr_Locale = so_Locale ?opt, sr_Documents = []\<rparr> w1 = (None, res1, w2)"
    and k: "sync_kinds S E ?opt version (so_Kinds ?opt) (res1\<lparr>sr_Version := version\<rparr>) w2 = (None, res2, w3)"
    and fl: "Flush (e_fio E (w_tick w3)) False (w_arch w3) = (None, w_arch w')" and res: "res = res2"
    and "w_tick w' = w_tick w3 + 1"
    by (rule StaticSync_phases [OF sync])
  have room1: "archive_room (Suc (length (so_Kinds ?opt))) (w_arch w1)"
    using room static_fetch_frame [OF f] by (simp add: all_documents_room_def)
  note r' = retain_document_spec [OF r room1 io]
  have "archive_room (length (so_Kinds ?opt) + 0) (w_arch w2)" using r' by simp
  note k' = sync_kinds_spec [OF k this io]
  have safe: "safe_rows (w_arch w') = held_rows (w_arch w3)"
    using mirror.flush_law [OF _ fl, of 0] k' by simp
  obtain docs where docs: "sr_Documents res2 = sr_Documents res1 @ docs"
    "\<forall>d \<in> set docs. sd_Version d = version \<and> document_held (e_sha E) (held_rows (w_arch w3)) d"
    "map sd_Kind docs = filter (\<lambda>k. k \<noteq> KindVersions) (so_Kinds ?opt)" using k' by auto
  have ver: "sr_Version res = version" using k' res by simp
  have list: "static_row (e_sha E) KindVersions version (so_Locale ?opt) payload (w_now w1) \<in> safe_rows (w_arch w')"
    using r' k' safe by auto
  then have "document_held (e_sha E) (safe_rows (w_arch w')) d" if "d \<in> set (sr_Documents res1)" for d
    using that r' unfolding document_held_def by force
  then have held: "\<forall>d \<in> set (sr_Documents res). sd_Version d = sr_Version res \<and> document_held (e_sha E) (safe_rows (w_arch w')) d"
    using docs r' ver by (auto simp: res safe)
  have kinds: "map sd_Kind (sr_Documents res) = KindVersions # filter (\<lambda>k. k \<noteq> KindVersions) (so_Kinds ?opt)"
    using docs r' by (simp add: res)
  have before: "held_rows (w_arch w) \<subseteq> safe_rows (w_arch w')"
    using r' k' static_fetch_frame [OF f] by (auto simp: safe)
  have newest: "\<exists>versions. se_decode S payload = Some versions \<and> version \<in> set versions \<and>
      (\<forall>u \<in> set versions. \<not> patchGreater u version)" if unpinned: "so_Version opt0 = []"
  proof -
    obtain versions where "se_decode S payload = Some versions" "newest_version versions \<noteq> []" "version = newest_version versions"
      using v unfolding if_P [OF unpinned] by (auto simp: latestVersion_def split: option.splits if_splits)
    then show ?thesis using newest_version_is_maximal [of versions] by auto
  qed
  have pinned: "version = so_Version opt0" if "so_Version opt0 \<noteq> []" using v that by simp
  show ?thesis
  proof (intro conjI)
    show "if so_Version opt0 = []
      then \<exists>payload versions t. se_decode S payload = Some versions \<and> sr_Version res \<in> set versions \<and>
        (\<forall>v \<in> set versions. \<not> patchGreater v (sr_Version res)) \<and>
        static_row (e_sha E) KindVersions (sr_Version res) (so_Locale ?opt) payload t \<in> safe_rows (w_arch w')
      else sr_Version res = so_Version opt0"
      using newest pinned list unfolding ver by (simp only: split: if_split) blast
  qed (rule kinds held before)+
qed

lemma retain_document_tick:
  "retain_document E opt kind path version payload res w = (e, res', w') \<Longrightarrow> w_tick w' = w_tick w + 1"
  by (auto simp: retain_document_def static_store_def bump_def split: prod.splits option.splits)

lemma sync_kinds_tick:
  "sync_kinds S E opt version kinds res w = (e, res', w') \<Longrightarrow>
     w_tick w' \<le> w_tick w + length kinds * (2 * nat (so_Attempts opt) + 1)"
proof (induction kinds arbitrary: res w)
  case (Cons kind kinds)
  show ?case
  proof (cases "kind = KindVersions \<or> ctx_err (run_ctx E) (w_now w) \<noteq> None \<or> staticDocumentPath kind version (so_Locale opt) = None")
    case True
    then show ?thesis using Cons.prems Cons.IH [of res w] by (auto split: if_splits option.splits)
  next
    case False
    then obtain path where path: "staticDocumentPath kind version (so_Locale opt) = Some path" by blast
    obtain r w1 where f: "static_fetch S E opt path w = (r, w1)" by (metis surj_pair)
    note fr = static_fetch_frame [OF f]
    show ?thesis
    proof (cases r)
      case (Inl x)
      then show ?thesis using Cons.prems False fr by (auto simp: f path)
    next
      case (Inr payload)
      obtain e1 res1 w2 where r: "retain_document E opt kind path version payload res w1 = (e1, res1, w2)"
        by (metis prod_cases3)
      have "w' = w2 \<or> sync_kinds S E opt version kinds res1 w2 = (e, res', w')"
        using Cons.prems False Inr by (cases e1) (auto simp: f path r)
      then show ?thesis using Cons.IH [of res1 w2] retain_document_tick [OF r] fr by auto
    qed
  qed
qed simp

text \<open>
  A run of the mirror is bounded. However the server and the archive behave, it interacts with
  them at most twice per attempt of every document, once per write and once for the flush.
\<close>

theorem static_sync_is_bounded:
  "w_tick (snd (snd (StaticSync S E opt0 w)))
     \<le> w_tick w + all_documents_room opt0 * (2 * nat (so_Attempts (normalizeStatic opt0)) + 1) + 1"
proof -
  let ?opt = "normalizeStatic opt0" and ?n = "2 * nat (so_Attempts (normalizeStatic opt0)) + 1"
  let ?res = "\<lparr>sr_Version = [], sr_Locale = so_Locale ?opt, sr_Documents = []\<rparr>"
  obtain a w1 where f: "static_fetch S E ?opt versionsPath w = (a, w1)" by (metis surj_pair)
  note t1 = static_fetch_frame [OF f]
  show ?thesis
  proof (cases "so_Writer ?opt \<and> (\<exists>payload version. a = Inr payload \<and>
      (if so_Version ?opt = [] then latestVersion S payload else Inr (so_Version ?opt)) = Inr version)")
    case False
    then show ?thesis using t1
      by (cases a) (auto simp: StaticSync_def Let_def f all_documents_room_def split: sum.splits)
  next
    case True
    then obtain payload version where ok: "so_Writer ?opt" "a = Inr payload"
      "(if so_Version ?opt = [] then latestVersion S payload else Inr (so_Version ?opt)) = Inr version" by blast
    obtain e1 res1 w2 where r: "retain_document E ?opt KindVersions versionsPath version payload ?res w1 = (e1, res1, w2)"
      by (metis prod_cases3)
    note t2 = retain_document_tick [OF r]
    obtain e2 res2 w3 where k: "sync_kinds S E ?opt version (so_Kinds ?opt) (res1\<lparr>sr_Version := version\<rparr>) w2 = (e2, res2, w3)"
      by (metis prod_cases3)
    note t3 = sync_kinds_tick [OF k]
    obtain e3 ar where fl: "Flush (e_fio E (w_tick w3)) (stopped E w3) (w_arch w3) = (e3, ar)" by (metis surj_pair)
    have "w_tick (snd (snd (StaticSync S E opt0 w))) \<le> w_tick w3 + 1 \<or>
        w_tick (snd (snd (StaticSync S E opt0 w))) = w_tick w2"
      by (cases e1; cases e2; cases e3) (simp_all add: StaticSync_def Let_def f ok r k fl bump_def)
    then show ?thesis using t1 t2 t3 by (auto simp: all_documents_room_def)
  qed
qed

section \<open>A run evaluated\<close>

text \<open>A server whose first answer is an error; the list it then serves is not in order.\<close>

definition demo_served :: "string list" where
  "demo_served = [''9.24.2'', ''16.18.1'', ''lolpatch_7.20'']"

definition demo_server :: static_env where
  "demo_server = \<lparr>se_get = \<lambda>n url timeout.
       (Some \<lparr>dr_Status = (if n = 0 then 503 else 200), dr_Encoding = ''gzip'', dr_Body = url, dr_Broken = False, dr_Closes = True\<rparr>, 1),
     se_gunzip = \<lambda>s. Some (s, False), se_decode = \<lambda>s. Some demo_served\<rparr>"

definition demo_mirror :: static_opts where
  "demo_mirror = \<lparr>so_Writer = True, so_BaseURL = ''http://d/'', so_Version = [], so_Locale = [],
     so_Kinds = [KindItems], so_Attempts = 0, so_Timeout = 0\<rparr>"

definition demo_sync :: "static_error option \<times> StaticResult \<times> world" where
  "demo_sync = StaticSync demo_server demo_env demo_mirror demo_world"

lemma demo_sync_runs:
  "(case demo_sync of (e, res, w) \<Rightarrow> (e, sr_Version res, map sd_URL (sr_Documents res))) =
     (None, ''16.18.1'', [''http://d/api/versions.json'', ''http://d/cdn/16.18.1/data/en_US/item.json''])"
  by code_simp

theorem static_sync_is_durable_witness:
  "map sd_Kind (sr_Documents (fst (snd demo_sync))) = [KindVersions, KindItems] \<and>
   sd_Version (hd (sr_Documents (fst (snd demo_sync)))) = ''16.18.1'' \<and>
   document_held (e_sha demo_env) (safe_rows (w_arch (snd (snd demo_sync)))) (hd (sr_Documents (fst (snd demo_sync))))"
proof -
  have v: "sr_Version (fst (snd demo_sync)) = ''16.18.1''" and e: "fst demo_sync = None"
    using demo_sync_runs by (simp_all add: split_beta)
  then have run: "StaticSync demo_server demo_env demo_mirror demo_world = (None, fst (snd demo_sync), snd (snd demo_sync))"
    by (simp add: demo_sync_def prod_eq_iff)
  have kinds: "so_Kinds (normalizeStatic demo_mirror) = [KindItems]" by (simp add: normalizeStatic_def demo_mirror_def)
  have "archive_room (all_documents_room demo_mirror) (w_arch demo_world)"
    using demo_sound [of 2] by (simp add: sound_def all_documents_room_def kinds numeral_2_eq_2)
  moreover have "publishes (e_io demo_env k)" for k using demo_publishes by (simp add: parts_publish_def)
  ultimately have r: "map sd_Kind (sr_Documents (fst (snd demo_sync))) = [KindVersions, KindItems]"
    "\<forall>d \<in> set (sr_Documents (fst (snd demo_sync))).
      sd_Version d = ''16.18.1'' \<and> document_held (e_sha demo_env) (safe_rows (w_arch (snd (snd demo_sync)))) d"
    using static_sync_is_durable [OF run] v by (simp_all add: kinds) (simp_all add: static_kind_defs)
  then have "sr_Documents (fst (snd demo_sync)) \<noteq> []" by force
  then show ?thesis using r by simp
qed

end
