(* ===== verification/Config.thy ===== *)
theory Config
  imports Raw_Layout
begin

text \<open>
  The configuration (\<^verbatim>\<open>internal/config/config.go\<close>): every setting is a variable of the environment with
  a default, and a load reports every variable it cannot use. The parsers of the standard library
  whose grammar is not the program's (floating-point numbers, durations, timestamps) are arguments;
  a parsed float is a rational, an infinity or not a number, since \<^verbatim>\<open>ParseFloat\<close> accepts those too.
\<close>

section \<open>Values\<close>

datatype gofloat = Finite rat | PosInf | NegInf | NotANumber

text \<open>Comparisons with a constant: with \<open>NotANumber\<close> each of them is false.\<close>

fun float_le :: "gofloat \<Rightarrow> rat \<Rightarrow> bool" where
  "float_le (Finite q) c = (q \<le> c)"
| "float_le PosInf c = False"
| "float_le NegInf c = True"
| "float_le NotANumber c = False"

fun float_lt :: "gofloat \<Rightarrow> rat \<Rightarrow> bool" where
  "float_lt (Finite q) c = (q < c)"
| "float_lt PosInf c = False"
| "float_lt NegInf c = True"
| "float_lt NotANumber c = False"

fun float_gt :: "gofloat \<Rightarrow> rat \<Rightarrow> bool" where
  "float_gt (Finite q) c = (c < q)"
| "float_gt PosInf c = True"
| "float_gt NegInf c = False"
| "float_gt NotANumber c = False"

datatype Level = LevelDebug | LevelInfo | LevelWarn | LevelError

datatype config_problem =
    NotOneOf "string list" | NotABoolean | NotADuration | NotAnInteger | MustNotBeNegative | NotANumberText
  | NotAShare | NotARate | OutOfBounds int int | NotATimestamp | NotALevel

type_synonym config_error = "string \<times> config_problem"

record parsers =
  ps_float :: "string \<Rightarrow> gofloat option"
  ps_duration :: "string \<Rightarrow> duration option"
  ps_stamp :: "string \<Rightarrow> gtime option"

type_synonym Getenv = "string \<Rightarrow> string option"

definition to_lower :: "string \<Rightarrow> string" where
  "to_lower s = map lower_char s"

definition ParseBool :: "string \<Rightarrow> bool option" where
  "ParseBool s =
     (if s \<in> {''1'', ''t'', ''T'', ''TRUE'', ''true'', ''True''} then Some True
      else if s \<in> {''0'', ''f'', ''F'', ''FALSE'', ''false'', ''False''} then Some False
      else None)"

text \<open>\<^verbatim>\<open>ParseInt(v, 10, 32)\<close>.\<close>

definition ParseInt32 :: "string \<Rightarrow> int option" where
  "ParseInt32 s = (case atoi s of None \<Rightarrow> None | Some n \<Rightarrow> if - (2 ^ 31) \<le> n \<and> n < 2 ^ 31 then Some n else None)"

definition envPrefix :: string where
  "envPrefix = ''LOLSTATS_''"

definition env_name :: "string \<Rightarrow> string" where
  "env_name name = envPrefix @ name"

definition AggRequireProvenanceEnv :: string where
  "AggRequireProvenanceEnv = envPrefix @ ''AGG_REQUIRE_PROVENANCE''"

section \<open>The reader\<close>

text \<open>A method of the reader gives its value and the problems it appends.\<close>

type_synonym 'a setting_read = "'a \<times> config_error list"

definition raw_setting :: "Getenv \<Rightarrow> string \<Rightarrow> string option" where
  "raw_setting getenv key =
     (case getenv key of None \<Rightarrow> None | Some v \<Rightarrow> if trim_space v = [] then None else Some (trim_space v))"

text \<open>What every typed method does: the default when unset or unusable, and the problem in the second case.\<close>

definition read_setting :: "(string \<Rightarrow> config_problem + 'a) \<Rightarrow> Getenv \<Rightarrow> string \<Rightarrow> 'a \<Rightarrow> 'a setting_read" where
  "read_setting parse getenv key def =
     (case raw_setting getenv key of
        None \<Rightarrow> (def, [])
      | Some v \<Rightarrow> (case parse v of Inl p \<Rightarrow> (def, [(key, p)]) | Inr a \<Rightarrow> (a, [])))"

definition str_setting :: "Getenv \<Rightarrow> string \<Rightarrow> string \<Rightarrow> string setting_read" where
  "str_setting getenv key def = (case raw_setting getenv key of None \<Rightarrow> (def, []) | Some v \<Rightarrow> (v, []))"

definition parse_oneOf :: "string list \<Rightarrow> string \<Rightarrow> config_problem + string" where
  "parse_oneOf allowed v = (if v \<in> set allowed then Inr v else Inl (NotOneOf allowed))"

definition parse_boolean :: "string \<Rightarrow> config_problem + bool" where
  "parse_boolean v = (case ParseBool v of None \<Rightarrow> Inl NotABoolean | Some b \<Rightarrow> Inr b)"

definition parse_dur :: "parsers \<Rightarrow> string \<Rightarrow> config_problem + duration" where
  "parse_dur P v = (case ps_duration P v of None \<Rightarrow> Inl NotADuration | Some d \<Rightarrow> Inr d)"

definition parse_integer :: "string \<Rightarrow> config_problem + int" where
  "parse_integer v = (case atoi v of None \<Rightarrow> Inl NotAnInteger | Some n \<Rightarrow> Inr n)"

definition parse_nonNegativeInteger :: "string \<Rightarrow> config_problem + int" where
  "parse_nonNegativeInteger v =
     (case atoi v of None \<Rightarrow> Inl NotAnInteger | Some n \<Rightarrow> if n < 0 then Inl MustNotBeNegative else Inr n)"

definition parse_share :: "parsers \<Rightarrow> string \<Rightarrow> config_problem + gofloat" where
  "parse_share P v =
     (case ps_float P v of None \<Rightarrow> Inl NotANumberText
      | Some f \<Rightarrow> if float_le f 0 \<or> float_gt f 1 then Inl NotAShare else Inr f)"

definition parse_nonNegativeShare :: "parsers \<Rightarrow> string \<Rightarrow> config_problem + gofloat" where
  "parse_nonNegativeShare P v =
     (case ps_float P v of None \<Rightarrow> Inl NotANumberText
      | Some f \<Rightarrow> if float_lt f 0 \<or> float_gt f 1 then Inl NotARate else Inr f)"

definition parse_int32Range :: "int \<Rightarrow> int \<Rightarrow> string \<Rightarrow> config_problem + int" where
  "parse_int32Range lo hi v =
     (case ParseInt32 v of None \<Rightarrow> Inl NotAnInteger
      | Some n \<Rightarrow> if n < lo \<or> hi < n then Inl (OutOfBounds lo hi) else Inr n)"

definition parse_float :: "parsers \<Rightarrow> string \<Rightarrow> config_problem + gofloat" where
  "parse_float P v = (case ps_float P v of None \<Rightarrow> Inl NotANumberText | Some f \<Rightarrow> Inr f)"

definition parse_stamp :: "parsers \<Rightarrow> string \<Rightarrow> config_problem + gtime" where
  "parse_stamp P v = (case ps_stamp P v of None \<Rightarrow> Inl NotATimestamp | Some t \<Rightarrow> Inr t)"

definition parse_level :: "string \<Rightarrow> config_problem + Level" where
  "parse_level v =
     (let l = to_lower v
      in if l = ''debug'' then Inr LevelDebug
         else if l = ''info'' then Inr LevelInfo
         else if l = ''warn'' \<or> l = ''warning'' then Inr LevelWarn
         else if l = ''error'' then Inr LevelError
         else Inl NotALevel)"

section \<open>The configuration\<close>

record RiotConfig =
  rc_APIKey :: string
  rc_Region :: string
  rc_PlatformRoute :: string
  rc_RegionalRoute :: string
  rc_Timeout :: duration
  rc_MaxAttempts :: int
  rc_AppRatePerSecond :: gofloat
  rc_AppRatePer2Min :: int
  rc_KeyExpiresAt :: gtime

record PostgresConfig =
  pg_DSN :: string
  pg_MaxConns :: int
  pg_ConnTimeout :: duration

record RawConfig =
  rw_Root :: string
  rw_RowsPerPart :: int
  rw_CompressionLevel :: int

record AggregateConfig =
  ag_Root :: string
  ag_SchemaVersion :: int
  ag_MinCellN :: int
  ag_MaxRejectedRows :: int
  ag_MaxRejectedRate :: gofloat
  ag_MinConfidentShare :: gofloat
  ag_RequireProvenance :: bool
  ag_SourceWindowDays :: int
  ag_Bracket :: string
  ag_QueueID :: int
  ag_Patch :: string
  ag_DatasetRoot :: string
  ag_FeatureMinDurationS :: int
  ag_DuckDBMemoryLimit :: string
  ag_DuckDBThreads :: int
  ag_DuckDBTempDir :: string
  ag_DuckDBMaxTempSize :: string

record HTTPConfig =
  ht_ReadHeaderTimeout :: duration
  ht_ReadTimeout :: duration
  ht_WriteTimeout :: duration
  ht_IdleTimeout :: duration

record Config =
  cf_Env :: string
  cf_LogLevel :: Level
  cf_LogFormat :: string
  cf_MetricsAddr :: string
  cf_ShutdownGrace :: duration
  cf_Riot :: RiotConfig
  cf_Postgres :: PostgresConfig
  cf_Raw :: RawConfig
  cf_Aggregate :: AggregateConfig
  cf_HTTP :: HTTPConfig

definition load_riot :: "parsers \<Rightarrow> Getenv \<Rightarrow> RiotConfig setting_read" where
  "load_riot P g =
     (let (key, e1) = str_setting g (env_name ''RIOT_API_KEY'') [];
          (region, e2) = str_setting g (env_name ''RIOT_REGION'') ''EUW'';
          (platform, e3) = str_setting g (env_name ''RIOT_PLATFORM_ROUTE'') ''euw1'';
          (regional, e4) = str_setting g (env_name ''RIOT_REGIONAL_ROUTE'') ''europe'';
          (timeout, e5) = read_setting (parse_dur P) g (env_name ''RIOT_TIMEOUT'') (seconds 10);
          (attempts, e6) = read_setting parse_integer g (env_name ''RIOT_MAX_ATTEMPTS'') 5;
          (rate, e7) = read_setting (parse_float P) g (env_name ''RIOT_APP_RATE_PER_SECOND'') (Finite 18);
          (per2, e8) = read_setting parse_integer g (env_name ''RIOT_APP_RATE_PER_2MIN'') 95;
          (expires, e9) = read_setting (parse_stamp P) g (env_name ''RIOT_API_KEY_EXPIRES_AT'') 0
      in (\<lparr>rc_APIKey = key, rc_Region = to_upper region, rc_PlatformRoute = to_lower platform,
            rc_RegionalRoute = to_lower regional, rc_Timeout = timeout, rc_MaxAttempts = attempts,
            rc_AppRatePerSecond = rate, rc_AppRatePer2Min = per2, rc_KeyExpiresAt = expires\<rparr>,
          e1 @ e2 @ e3 @ e4 @ e5 @ e6 @ e7 @ e8 @ e9))"

definition load_postgres :: "parsers \<Rightarrow> Getenv \<Rightarrow> PostgresConfig setting_read" where
  "load_postgres P g =
     (let (dsn, e1) = str_setting g (env_name ''POSTGRES_DSN'') [];
          (conns, e2) = read_setting (parse_int32Range 1 512) g (env_name ''POSTGRES_MAX_CONNS'') 8;
          (timeout, e3) = read_setting (parse_dur P) g (env_name ''POSTGRES_CONN_TIMEOUT'') (seconds 5)
      in (\<lparr>pg_DSN = dsn, pg_MaxConns = conns, pg_ConnTimeout = timeout\<rparr>, e1 @ e2 @ e3))"

definition load_raw :: "Getenv \<Rightarrow> RawConfig setting_read" where
  "load_raw g =
     (let (root, e1) = str_setting g (env_name ''RAW_ROOT'') ''/var/lib/lolstats/raw'';
          (rows, e2) = read_setting parse_integer g (env_name ''RAW_ROWS_PER_PART'') 20000;
          (level, e3) = read_setting parse_integer g (env_name ''RAW_COMPRESSION_LEVEL'') 3
      in (\<lparr>rw_Root = root, rw_RowsPerPart = rows, rw_CompressionLevel = level\<rparr>, e1 @ e2 @ e3))"

definition load_aggregate :: "parsers \<Rightarrow> Getenv \<Rightarrow> AggregateConfig setting_read" where
  "load_aggregate P g =
     (let (root, e1) = str_setting g (env_name ''AGG_ROOT'') ''/var/lib/lolstats/agg'';
          (schema, e2) = read_setting parse_integer g (env_name ''AGG_SCHEMA_VERSION'') 1;
          (cell, e3) = read_setting parse_integer g (env_name ''AGG_MIN_CELL_N'') 100;
          (rejected, e4) = read_setting parse_nonNegativeInteger g (env_name ''AGG_MAX_REJECTED_ROWS'') 0;
          (rate, e5) = read_setting (parse_nonNegativeShare P) g (env_name ''AGG_MAX_REJECTED_RATE'') (Finite 0);
          (share, e6) = read_setting (parse_share P) g (env_name ''AGG_MIN_CONFIDENT_SHARE'') (Finite (1 / 2));
          (prov, e7) = read_setting parse_boolean g AggRequireProvenanceEnv False;
          (days, e8) = read_setting parse_integer g (env_name ''AGG_SOURCE_WINDOW_DAYS'') 14;
          (bracket, e9) = str_setting g (env_name ''AGG_BRACKET'') ''all'';
          (queue, e10) = read_setting parse_integer g (env_name ''AGG_QUEUE_ID'') 420;
          (patch, e11) = str_setting g (env_name ''AGG_PATCH'') [];
          (dataset, e12) = str_setting g (env_name ''AGG_DATASET_ROOT'') ''/var/lib/lolstats/datasets'';
          (duration, e13) = read_setting parse_integer g (env_name ''AGG_FEATURE_MIN_DURATION_S'') 600;
          (memory, e14) = str_setting g (env_name ''AGG_DUCKDB_MEMORY_LIMIT'') [];
          (threads, e15) = read_setting parse_integer g (env_name ''AGG_DUCKDB_THREADS'') 0;
          (tempdir, e16) = str_setting g (env_name ''AGG_DUCKDB_TEMP_DIR'') [];
          (tempsize, e17) = str_setting g (env_name ''AGG_DUCKDB_MAX_TEMP_SIZE'') []
      in (\<lparr>ag_Root = root, ag_SchemaVersion = schema, ag_MinCellN = cell, ag_MaxRejectedRows = rejected,
            ag_MaxRejectedRate = rate, ag_MinConfidentShare = share, ag_RequireProvenance = prov,
            ag_SourceWindowDays = days, ag_Bracket = bracket, ag_QueueID = queue, ag_Patch = patch,
            ag_DatasetRoot = dataset, ag_FeatureMinDurationS = duration, ag_DuckDBMemoryLimit = memory,
            ag_DuckDBThreads = threads, ag_DuckDBTempDir = tempdir, ag_DuckDBMaxTempSize = tempsize\<rparr>,
          e1 @ e2 @ e3 @ e4 @ e5 @ e6 @ e7 @ e8 @ e9 @ e10 @ e11 @ e12 @ e13 @ e14 @ e15 @ e16 @ e17))"

definition load_http :: "parsers \<Rightarrow> Getenv \<Rightarrow> HTTPConfig setting_read" where
  "load_http P g =
     (let (header, e1) = read_setting (parse_dur P) g (env_name ''HTTP_READ_HEADER_TIMEOUT'') (seconds 10);
          (rd, e2) = read_setting (parse_dur P) g (env_name ''HTTP_READ_TIMEOUT'') (seconds 30);
          (wr, e3) = read_setting (parse_dur P) g (env_name ''HTTP_WRITE_TIMEOUT'') (seconds 30);
          (idle, e4) = read_setting (parse_dur P) g (env_name ''HTTP_IDLE_TIMEOUT'') (seconds 60)
      in (\<lparr>ht_ReadHeaderTimeout = header, ht_ReadTimeout = rd, ht_WriteTimeout = wr, ht_IdleTimeout = idle\<rparr>,
          e1 @ e2 @ e3 @ e4))"

definition LoadFrom :: "parsers \<Rightarrow> Getenv \<Rightarrow> config_error list + Config" where
  "LoadFrom P g =
     (let (name, e1) = read_setting (parse_oneOf [''dev'', ''staging'', ''prod'']) g (env_name ''ENV'') ''dev'';
          (level, e2) = read_setting parse_level g (env_name ''LOG_LEVEL'') LevelInfo;
          (format, e3) = read_setting (parse_oneOf [''json'', ''text'']) g (env_name ''LOG_FORMAT'') ''json'';
          (addr, e4) = str_setting g (env_name ''METRICS_ADDR'') '':9090'';
          (grace, e5) = read_setting (parse_dur P) g (env_name ''SHUTDOWN_GRACE'') (seconds 20);
          (riot, e6) = load_riot P g;
          (postgres, e7) = load_postgres P g;
          (raw, e8) = load_raw g;
          (aggregate, e9) = load_aggregate P g;
          (http, e10) = load_http P g;
          errs = e1 @ e2 @ e3 @ e4 @ e5 @ e6 @ e7 @ e8 @ e9 @ e10
      in if errs \<noteq> [] then Inl errs
         else Inr \<lparr>cf_Env = name, cf_LogLevel = level, cf_LogFormat = format, cf_MetricsAddr = addr, cf_ShutdownGrace = grace,
                   cf_Riot = riot, cf_Postgres = postgres, cf_Raw = raw, cf_Aggregate = aggregate, cf_HTTP = http\<rparr>)"

section \<open>Validation\<close>

definition riot_validate :: "RiotConfig \<Rightarrow> string list" where
  "riot_validate r =
     (if trim_space (rc_APIKey r) = [] then [env_name ''RIOT_API_KEY''] else []) @
     (if trim_space (rc_Region r) = [] then [env_name ''RIOT_REGION''] else []) @
     (if trim_space (rc_PlatformRoute r) = [] then [env_name ''RIOT_PLATFORM_ROUTE''] else []) @
     (if trim_space (rc_RegionalRoute r) = [] then [env_name ''RIOT_REGIONAL_ROUTE''] else [])"

definition postgres_validate :: "PostgresConfig \<Rightarrow> string list" where
  "postgres_validate p = (if trim_space (pg_DSN p) = [] then [env_name ''POSTGRES_DSN''] else [])"

section \<open>Every problem at once\<close>

text \<open>The settings as a table: the variable, and what is wrong with a text for it.\<close>

definition fault :: "(string \<Rightarrow> config_problem + 'a) \<Rightarrow> string \<Rightarrow> config_problem option" where
  "fault parse v = (case parse v of Inl p \<Rightarrow> Some p | Inr a \<Rightarrow> None)"

definition setting_table :: "parsers \<Rightarrow> (string \<times> (string \<Rightarrow> config_problem option)) list" where
  "setting_table P =
     [(''ENV'', fault (parse_oneOf [''dev'', ''staging'', ''prod''])), (''LOG_LEVEL'', fault parse_level),
      (''LOG_FORMAT'', fault (parse_oneOf [''json'', ''text''])), (''SHUTDOWN_GRACE'', fault (parse_dur P)),
      (''RIOT_TIMEOUT'', fault (parse_dur P)), (''RIOT_MAX_ATTEMPTS'', fault parse_integer),
      (''RIOT_APP_RATE_PER_SECOND'', fault (parse_float P)), (''RIOT_APP_RATE_PER_2MIN'', fault parse_integer),
      (''RIOT_API_KEY_EXPIRES_AT'', fault (parse_stamp P)), (''POSTGRES_MAX_CONNS'', fault (parse_int32Range 1 512)),
      (''POSTGRES_CONN_TIMEOUT'', fault (parse_dur P)), (''RAW_ROWS_PER_PART'', fault parse_integer),
      (''RAW_COMPRESSION_LEVEL'', fault parse_integer), (''AGG_SCHEMA_VERSION'', fault parse_integer),
      (''AGG_MIN_CELL_N'', fault parse_integer), (''AGG_MAX_REJECTED_ROWS'', fault parse_nonNegativeInteger),
      (''AGG_MAX_REJECTED_RATE'', fault (parse_nonNegativeShare P)), (''AGG_MIN_CONFIDENT_SHARE'', fault (parse_share P)),
      (''AGG_REQUIRE_PROVENANCE'', fault parse_boolean), (''AGG_SOURCE_WINDOW_DAYS'', fault parse_integer),
      (''AGG_QUEUE_ID'', fault parse_integer), (''AGG_FEATURE_MIN_DURATION_S'', fault parse_integer),
      (''AGG_DUCKDB_THREADS'', fault parse_integer), (''HTTP_READ_HEADER_TIMEOUT'', fault (parse_dur P)),
      (''HTTP_READ_TIMEOUT'', fault (parse_dur P)), (''HTTP_WRITE_TIMEOUT'', fault (parse_dur P)),
      (''HTTP_IDLE_TIMEOUT'', fault (parse_dur P))]"

definition setting_problem :: "Getenv \<Rightarrow> string \<times> (string \<Rightarrow> config_problem option) \<Rightarrow> config_error option" where
  "setting_problem g s =
     (case raw_setting g (env_name (fst s)) of
        None \<Rightarrow> None
      | Some v \<Rightarrow> map_option (Pair (env_name (fst s))) (snd s v))"

definition option_list :: "'a option \<Rightarrow> 'a list" where
  "option_list x = (case x of None \<Rightarrow> [] | Some a \<Rightarrow> [a])"

lemma str_setting_silent: "snd (str_setting g key def) = []"
  by (simp add: str_setting_def split: option.splits)

lemma read_setting_problem:
  "snd (read_setting parse g (env_name key) def) = option_list (setting_problem g (key, fault parse))"
  by (auto simp: read_setting_def setting_problem_def fault_def option_list_def split: option.splits sum.splits)

lemma require_provenance_name: "AggRequireProvenanceEnv = env_name ''AGG_REQUIRE_PROVENANCE''"
  by (simp add: AggRequireProvenanceEnv_def env_name_def)

definition load_problems :: "parsers \<Rightarrow> Getenv \<Rightarrow> config_error list" where
  "load_problems P g = concat (map (\<lambda>s. option_list (setting_problem g s)) (setting_table P))"

lemma LoadFrom_problems:
  "\<exists>c. LoadFrom P g = (if load_problems P g \<noteq> [] then Inl (load_problems P g) else Inr c)"
  unfolding LoadFrom_def load_riot_def load_postgres_def load_raw_def load_aggregate_def load_http_def Let_def split_beta
    fst_conv snd_conv str_setting_silent read_setting_problem require_provenance_name
    load_problems_def setting_table_def list.map concat.simps append_Nil append_Nil2 append_assoc
  by (rule exI, rule refl)

text \<open>
  C23: A load reports every problem at once. It fails exactly when some variable of the table is set to
  a text its parser refuses, and then lists each such variable with its fault, once, in the order of
  the table; no other variable of the environment can make it fail.
\<close>

theorem load_reports_every_problem:
  "\<forall>errs. LoadFrom P g = Inl errs \<longleftrightarrow> errs = load_problems P g \<and> errs \<noteq> []"
proof -
  obtain c where "LoadFrom P g = (if load_problems P g \<noteq> [] then Inl (load_problems P g) else Inr c)"
    using LoadFrom_problems by blast
  then show ?thesis by auto
qed

section \<open>What a loaded configuration satisfies\<close>

lemma read_setting_holds:
  assumes "Q def" and "\<And>v a. parse v = Inr a \<Longrightarrow> Q a"
  shows "Q (fst (read_setting parse g key def))"
  using assms by (auto simp: read_setting_def split: option.splits sum.splits)

definition share_ok :: "gofloat \<Rightarrow> bool" where
  "share_ok f = (case f of Finite q \<Rightarrow> 0 < q \<and> q \<le> 1 | NotANumber \<Rightarrow> True | x \<Rightarrow> False)"

definition rate_ok :: "gofloat \<Rightarrow> bool" where
  "rate_ok f = (case f of Finite q \<Rightarrow> 0 \<le> q \<and> q \<le> 1 | NotANumber \<Rightarrow> True | x \<Rightarrow> False)"

lemma parse_share_ok: "parse_share P v = Inr f \<Longrightarrow> share_ok f"
  by (cases f) (auto simp: parse_share_def share_ok_def split: option.splits if_splits)

lemma parse_rate_ok: "parse_nonNegativeShare P v = Inr f \<Longrightarrow> rate_ok f"
  by (cases f) (auto simp: parse_nonNegativeShare_def rate_ok_def split: option.splits if_splits)

lemma parse_conns_ok: "parse_int32Range lo hi v = Inr n \<Longrightarrow> lo \<le> n \<and> n \<le> hi"
  by (auto simp: parse_int32Range_def split: option.splits if_splits)

lemma parse_count_ok: "parse_nonNegativeInteger v = Inr n \<Longrightarrow> 0 \<le> n"
  by (auto simp: parse_nonNegativeInteger_def split: option.splits if_splits)

lemma parse_oneOf_ok: "parse_oneOf allowed v = Inr a \<Longrightarrow> a \<in> set allowed"
  by (auto simp: parse_oneOf_def split: if_splits)

text \<open>
  C40: The bounds of a loaded configuration. The bounded settings are inside their bounds, except that
  a share or a rate may be not a number: \<^verbatim>\<open>ParseFloat\<close> reads \<open>NaN\<close>, and both range checks are false of it.
\<close>

theorem loaded_settings_are_bounded:
  assumes "LoadFrom P g = Inr c"
  shows "cf_Env c \<in> {''dev'', ''staging'', ''prod''} \<and> cf_LogFormat c \<in> {''json'', ''text''} \<and>
    1 \<le> pg_MaxConns (cf_Postgres c) \<and> pg_MaxConns (cf_Postgres c) \<le> 512 \<and>
    0 \<le> ag_MaxRejectedRows (cf_Aggregate c) \<and>
    share_ok (ag_MinConfidentShare (cf_Aggregate c)) \<and> rate_ok (ag_MaxRejectedRate (cf_Aggregate c))"
proof -
  have c: "cf_Env c = fst (read_setting (parse_oneOf [''dev'', ''staging'', ''prod'']) g (env_name ''ENV'') ''dev'')"
    "cf_LogFormat c = fst (read_setting (parse_oneOf [''json'', ''text'']) g (env_name ''LOG_FORMAT'') ''json'')"
    "cf_Postgres c = fst (load_postgres P g)" "cf_Aggregate c = fst (load_aggregate P g)"
    using assms by (auto simp: LoadFrom_def Let_def split_beta split: if_splits)
  have "cf_Env c \<in> set [''dev'', ''staging'', ''prod'']" "cf_LogFormat c \<in> set [''json'', ''text'']"
    unfolding c by (rule read_setting_holds, simp, erule parse_oneOf_ok)+
  moreover have "1 \<le> pg_MaxConns (cf_Postgres c) \<and> pg_MaxConns (cf_Postgres c) \<le> 512"
    using read_setting_holds [of "\<lambda>n. 1 \<le> n \<and> n \<le> 512" 8 "parse_int32Range 1 512"] parse_conns_ok
    by (simp add: c load_postgres_def Let_def split_beta)
  moreover have "0 \<le> ag_MaxRejectedRows (cf_Aggregate c)"
    using read_setting_holds [of "\<lambda>n. 0 \<le> n" 0 parse_nonNegativeInteger] parse_count_ok
    by (simp add: c load_aggregate_def Let_def split_beta)
  moreover have "share_ok (ag_MinConfidentShare (cf_Aggregate c))"
    using read_setting_holds [of share_ok "Finite (1 / 2)" "parse_share P"] parse_share_ok
    by (simp add: c load_aggregate_def Let_def split_beta share_ok_def)
  moreover have "rate_ok (ag_MaxRejectedRate (cf_Aggregate c))"
    using read_setting_holds [of rate_ok "Finite 0" "parse_nonNegativeShare P"] parse_rate_ok
    by (simp add: c load_aggregate_def Let_def split_beta rate_ok_def)
  ultimately show ?thesis by simp
qed

definition bare_parsers :: parsers where
  "bare_parsers = \<lparr>ps_float = \<lambda>s. if s = ''NaN'' then Some NotANumber else map_option (\<lambda>n. Finite (of_nat n)) (decimal_val s),
     ps_duration = \<lambda>s. None, ps_stamp = \<lambda>s. None\<rparr>"

definition bare_env :: Getenv where
  "bare_env = [''LOLSTATS_ENV'' \<mapsto> '' prod '', ''LOLSTATS_POSTGRES_MAX_CONNS'' \<mapsto> ''64'']"

definition bare_config :: Config where
  "bare_config = projr (LoadFrom bare_parsers bare_env)"

lemma bare_loads: "LoadFrom bare_parsers bare_env = Inr bare_config"
proof -
  have "(case LoadFrom bare_parsers bare_env of Inl e \<Rightarrow> False | Inr c \<Rightarrow> True)" by code_simp
  then show ?thesis by (simp add: bare_config_def split: sum.splits)
qed

theorem loaded_settings_are_bounded_witness:
  "cf_Env bare_config = ''prod'' \<and> pg_MaxConns (cf_Postgres bare_config) = 64 \<and>
   share_ok (ag_MinConfidentShare (cf_Aggregate bare_config))"
proof -
  have "cf_Env bare_config = ''prod''" "pg_MaxConns (cf_Postgres bare_config) = 64"
    by (simp_all add: bare_config_def, code_simp+)
  then show ?thesis using loaded_settings_are_bounded [OF bare_loads] by simp
qed

text \<open>The documented range of the share, (0, 1], does not keep \<open>NaN\<close> out, and no cell share is below it.\<close>

lemma nan_share_is_accepted:
  "parse_share bare_parsers ''NaN'' = Inr NotANumber \<and> parse_nonNegativeShare bare_parsers ''NaN'' = Inr NotANumber"
  by code_simp

lemma one_bad_setting_hides_none:
  "LoadFrom bare_parsers [''LOLSTATS_ENV'' \<mapsto> ''test'', ''LOLSTATS_AGG_MAX_REJECTED_ROWS'' \<mapsto> ''-1'', ''LOLSTATS_HTTP_IDLE_TIMEOUT'' \<mapsto> ''1x''] =
     Inl [(''LOLSTATS_ENV'', NotOneOf [''dev'', ''staging'', ''prod'']), (''LOLSTATS_AGG_MAX_REJECTED_ROWS'', MustNotBeNegative),
          (''LOLSTATS_HTTP_IDLE_TIMEOUT'', NotADuration)]"
  by code_simp

end
