(* ===== verification/Agg_SQL.thy ===== *)
theory Agg_SQL
  imports Agg_Model
begin

text \<open>
  The text of the statements DuckDB runs for a build (\<^verbatim>\<open>internal/aggregate/sql.go\<close> and the scripts of
  \<^verbatim>\<open>extract.go\<close>). A raw string of the source is the list of its lines; in the constants a backquote
  stands for the single quote, which \<open>sq\<close> puts in. What DuckDB makes of a statement is not modelled;
  where a literal and a statement end is, as the lexical rule of SQL.
\<close>

section \<open>Text\<close>

definition quote_char :: char where
  "quote_char = CHR 0x27"

definition line_end :: char where
  "line_end = CHR 0x0A"

definition sq :: "string \<Rightarrow> string" where
  "sq s = map (\<lambda>c. if c = CHR ''`'' then quote_char else c) s"

text \<open>\<^verbatim>\<open>strings.Join\<close>.\<close>

fun strings_join :: "string \<Rightarrow> string list \<Rightarrow> string" where
  "strings_join sep [] = []"
| "strings_join sep [x] = x"
| "strings_join sep (x # y # ys) = x @ sep @ strings_join sep (y # ys)"

definition sql_lines :: "string list \<Rightarrow> string" where
  "sql_lines ls = strings_join [line_end] ls"

section \<open>Quoting\<close>

definition quoteLiteral :: "string \<Rightarrow> string" where
  "quoteLiteral s = [quote_char] @ concat (map (\<lambda>c. if c = quote_char then [quote_char, quote_char] else [c]) s) @ [quote_char]"

definition fileList :: "string list \<Rightarrow> string" where
  "fileList paths = ''['' @ strings_join '', '' (map quoteLiteral paths) @ '']''"

definition parquetOf :: "string \<Rightarrow> string" where
  "parquetOf path = ''read_parquet('' @ quoteLiteral path @ '', union_by_name = true)''"

section \<open>The spill\<close>

definition participantRoleSQL :: "string \<Rightarrow> string \<Rightarrow> string" where
  "participantRoleSQL teamPosition individualPosition =
     (let chosen = ''COALESCE(NULLIF('' @ teamPosition @ sq '', ``), '' @ individualPosition @ '')''
      in ''CASE '' @
         ''WHEN '' @ chosen @ sq '' = `TOP` THEN `TOP` '' @
         ''WHEN '' @ chosen @ sq '' = `JUNGLE` THEN `JUNGLE` '' @
         ''WHEN '' @ chosen @ sq '' IN (`MIDDLE`, `MID`) THEN `MID` '' @
         ''WHEN '' @ chosen @ sq '' IN (`BOTTOM`, `ADC`) THEN `BOTTOM` '' @
         ''WHEN '' @ chosen @ sq '' IN (`UTILITY`, `SUPPORT`) THEN `SUPPORT` '' @
         ''ELSE NULL END'')"

definition guardedSQL :: "string \<Rightarrow> string" where
  "guardedSQL expression = ''CASE WHEN json_valid(payload) THEN '' @ expression @ '' END''"

definition envelope_text :: "string \<Rightarrow> string" where
  "envelope_text path = guardedSQL (''json_extract_string(payload, '' @ quoteLiteral path @ '')'')"

definition envelope_number :: "string \<Rightarrow> string \<Rightarrow> string" where
  "envelope_number path kind =
     ''CAST('' @ guardedSQL (''json_extract(payload, '' @ quoteLiteral path @ '')'') @ '' AS '' @ kind @ '')''"

definition envelope_arrayLen :: "string \<Rightarrow> string" where
  "envelope_arrayLen path =
     (let array = ''json_extract(payload, '' @ quoteLiteral path @ '')''
      in ''CASE WHEN json_valid(payload) AND json_type('' @ array @ sq '') = `ARRAY`'' @
         '' THEN CAST(json_array_length('' @ array @ '') AS INTEGER) ELSE NULL END'')"

definition envelopeSQL :: "string list \<Rightarrow> string" where
  "envelopeSQL parts =
     sql_lines
     [''SELECT'',
      ''  part,'',
      ''  part_row,'',
      ''  match_id,'',
      ''  game_version,'',
      ''  platform_id,'',
      ''  queue_id,'',
      ''  game_creation_ms,'',
      ''  payload_valid,'',
      ''  participants'',
      ''FROM ('',
      ''  SELECT filename AS part,'',
      ''         file_row_number AS part_row,'',
      ''         '' @ envelope_text ''$.metadata.matchId'' @ '' AS match_id,'',
      ''         '' @ envelope_text ''$.info.gameVersion'' @ '' AS game_version,'',
      ''         '' @ envelope_text ''$.info.platformId'' @ '' AS platform_id,'',
      ''         '' @ envelope_number ''$.info.queueId'' ''INTEGER'' @ '' AS queue_id,'',
      ''         '' @ envelope_number ''$.info.gameCreation'' ''BIGINT'' @ '' AS game_creation_ms,'',
      ''         '' @ envelope_arrayLen ''$.info.participants'' @ '' AS participants,'',
      ''         json_valid(payload) AS payload_valid'',
      ''  FROM read_parquet('' @ fileList parts @ '', union_by_name = true, filename = true, file_row_number = true)'',
      '') extracted'',
      ''QUALIFY ROW_NUMBER() OVER ('',
      sq ''  PARTITION BY COALESCE(match_id, part || `#` || CAST(part_row AS VARCHAR))'',
      ''  ORDER BY part, part_row) = 1'']"

definition payloadSQL :: "string \<Rightarrow> string list \<Rightarrow> string" where
  "payloadSQL envelopePath parts =
     sql_lines
     [''SELECT'',
      ''  e.match_id,'',
      ''  e.game_version,'',
      ''  e.platform_id,'',
      ''  e.queue_id,'',
      ''  e.game_creation_ms,'',
      ''  CASE WHEN e.payload_valid THEN CAST(a.payload AS VARCHAR) END AS payload'',
      ''FROM ('',
      ''  SELECT filename, file_row_number, payload'',
      ''  FROM read_parquet('' @ fileList parts @ '', union_by_name = true, filename = true, file_row_number = true)'',
      '') a'',
      ''JOIN '' @ parquetOf envelopePath @ '' e ON a.filename = e.part AND a.file_row_number = e.part_row'']"

text \<open>The rune style: two payload shapes, six numbers each.\<close>

definition rune_at :: "string \<Rightarrow> string \<Rightarrow> string" where
  "rune_at alias path = ''json_extract('' @ alias @ sq ''.value, `'' @ path @ sq ''`)''"

definition rune_text :: "string \<Rightarrow> string \<Rightarrow> string" where
  "rune_text alias path = ''json_extract_string('' @ alias @ sq ''.value, `'' @ path @ sq ''`)''"

definition rune_nonNull :: "string \<Rightarrow> string list \<Rightarrow> string" where
  "rune_nonNull alias paths = strings_join '' AND '' (map (\<lambda>path. rune_at alias path @ '' IS NOT NULL'') paths)"

definition rune_ordered :: "string \<Rightarrow> string" where
  "rune_ordered alias =
     ''COALESCE('' @ rune_text alias ''$.perks.styles[0].description'' @ sq '' = `primaryStyle`, FALSE) AND '' @
     ''COALESCE('' @ rune_text alias ''$.perks.styles[1].description'' @ sq '' = `subStyle`, FALSE)''"

definition rune_list :: "string \<Rightarrow> string list \<Rightarrow> string" where
  "rune_list alias paths =
     ''['' @ strings_join '', '' (map (\<lambda>path. ''CAST('' @ rune_at alias path @ '' AS INTEGER)'') paths) @ '']''"

definition rune_trees :: "string list" where
  "rune_trees = [''$.perks.styles[0].style'', ''$.perks.styles[0].selections[0].perk'', ''$.perks.styles[1].style'']"

definition stat_perk_paths :: "string list" where
  "stat_perk_paths = [''$.perks.statPerks.offense'', ''$.perks.statPerks.flex'', ''$.perks.statPerks.defense'']"

definition shard_paths :: "string list" where
  "shard_paths = [''$.perks.styles[2].selections[0].perk'', ''$.perks.styles[2].selections[1].perk'',
     ''$.perks.styles[2].selections[2].perk'']"

definition runeStyleSQL :: "string \<Rightarrow> string" where
  "runeStyleSQL alias =
     ''CASE '' @
     ''WHEN '' @ rune_ordered alias @ '' AND '' @ rune_nonNull alias stat_perk_paths @
     '' THEN '' @ rune_list alias (rune_trees @ stat_perk_paths) @ '' '' @
     ''WHEN '' @ rune_ordered alias @ '' AND '' @ rune_text alias ''$.perks.styles[2].description'' @ sq '' IN (`statMods`, `statMod`)'' @
     '' AND '' @ rune_nonNull alias shard_paths @
     '' THEN '' @ rune_list alias (rune_trees @ shard_paths) @ '' '' @
     ''ELSE NULL END''"

definition position_field :: "string \<Rightarrow> string" where
  "position_field path = sq ''json_extract_string(p.value, `'' @ path @ sq ''`)''"

definition participantsSQL :: "string \<Rightarrow> string \<Rightarrow> string" where
  "participantsSQL matchesPath filters =
     sql_lines
     [''SELECT'',
      ''  m.match_id,'',
      ''  m.game_version,'',
      ''  m.platform_id,'',
      ''  m.queue_id,'',
      ''  epoch_ms(m.game_creation_ms) AS game_creation,'',
      sq ''  CAST(split_part(m.game_version, `.`, 1) || `.` || split_part(m.game_version, `.`, 2) AS VARCHAR) AS patch,'',
      sq ''  CAST(json_extract(p.value, `$.championId`) AS INTEGER) AS champion_id,'',
      ''  '' @ participantRoleSQL (position_field ''$.teamPosition'') (position_field ''$.individualPosition'') @ '' AS role,'',
      sq ''  CAST(json_extract(p.value, `$.win`) AS BOOLEAN) AS win,'',
      sq ''  CAST(json_extract(p.value, `$.teamId`) AS INTEGER) AS team_id,'',
      sq ''  CAST(json_extract(p.value, `$.item0`) AS INTEGER) AS item0,'',
      sq ''  CAST(json_extract(p.value, `$.item1`) AS INTEGER) AS item1,'',
      sq ''  CAST(json_extract(p.value, `$.item2`) AS INTEGER) AS item2,'',
      sq ''  CAST(json_extract(p.value, `$.item3`) AS INTEGER) AS item3,'',
      sq ''  CAST(json_extract(p.value, `$.item4`) AS INTEGER) AS item4,'',
      sq ''  CAST(json_extract(p.value, `$.item5`) AS INTEGER) AS item5,'',
      sq ''  CAST(json_extract(p.value, `$.item6`) AS INTEGER) AS item6,'',
      sq ''  CAST(json_extract(p.value, `$.summoner1Id`) AS INTEGER) AS summoner1_id,'',
      sq ''  CAST(json_extract(p.value, `$.summoner2Id`) AS INTEGER) AS summoner2_id,'',
      ''  '' @ runeStyleSQL ''p'' @ '' AS rune_style'',
      ''FROM '' @ parquetOf matchesPath @ sq '' m, UNNEST(from_json(json_extract(m.payload, `$.info.participants`), `[\"JSON\"]`)) AS p(value)'',
      ''WHERE '' @ filters]"

definition bansSQL :: "string \<Rightarrow> string \<Rightarrow> string" where
  "bansSQL matchesPath filters =
     sql_lines
     [''SELECT'',
      ''  m.match_id,'',
      sq ''  CAST(split_part(m.game_version, `.`, 1) || `.` || split_part(m.game_version, `.`, 2) AS VARCHAR) AS patch,'',
      sq ''  CAST(json_extract(b.value, `$.championId`) AS INTEGER) AS champion_id'',
      ''FROM '' @ parquetOf matchesPath @ '' m,'',
      sq ''     UNNEST(from_json(json_extract(m.payload, `$.info.teams`), `[\"JSON\"]`)) AS t(team),'',
      sq ''     UNNEST(from_json(json_extract(t.team, `$.bans`), `[\"JSON\"]`)) AS b(value)'',
      ''WHERE '' @ filters @ sq '' AND CAST(json_extract(b.value, `$.championId`) AS INTEGER) > 0'']"

section \<open>Filters\<close>

definition nonEmpty :: "string list \<Rightarrow> string list" where
  "nonEmpty values = filter (\<lambda>v. v \<noteq> []) values"

definition queueCondition :: "string \<Rightarrow> int \<Rightarrow> string" where
  "queueCondition alias queue =
     (if queue \<le> 0 then alias @ ''.queue_id > 0'' else alias @ ''.queue_id = '' @ show_int queue)"

definition platformCondition :: "string \<Rightarrow> string list \<Rightarrow> string" where
  "platformCondition alias platforms =
     (let column = (if alias \<noteq> [] then alias @ ''.platform_id'' else ''platform_id''); values = map quoteLiteral platforms
      in case values of
           [v] \<Rightarrow> column @ '' = '' @ v
         | vs \<Rightarrow> column @ '' IN ('' @ strings_join '', '' vs @ '')'')"

definition patch_expression :: "string \<Rightarrow> string" where
  "patch_expression alias =
     ''CAST(split_part('' @ alias @ sq ''.game_version, `.`, 1) || `.` || split_part('' @ alias @ sq ''.game_version, `.`, 2) AS VARCHAR)''"

definition patchCondition :: "string \<Rightarrow> string \<Rightarrow> string" where
  "patchCondition alias patch = (if patch = [] then [] else patch_expression alias @ '' = '' @ quoteLiteral patch)"

definition patchOnlyFilter :: "string \<Rightarrow> string \<Rightarrow> string" where
  "patchOnlyFilter alias patch = (if patch = [] then [] else alias @ ''.patch = '' @ quoteLiteral patch)"

definition scopeConditions :: "string \<Rightarrow> string \<Rightarrow> string \<Rightarrow> int \<Rightarrow> Window \<Rightarrow> string list" where
  "scopeConditions alias region platform queue window =
     [platformCondition alias (platformFilter region platform),
      queueCondition alias queue,
      ''CAST(epoch_ms('' @ alias @ ''.game_creation_ms) AS DATE) BETWEEN DATE '' @ quoteLiteral (win_From window) @
        '' AND DATE '' @ quoteLiteral (win_To window)]"

definition and_lines :: "string list \<Rightarrow> string" where
  "and_lines conditions = strings_join ([line_end] @ ''    AND '') conditions"

definition filterSQL :: "string \<Rightarrow> string \<Rightarrow> int \<Rightarrow> Window \<Rightarrow> string \<Rightarrow> string" where
  "filterSQL region platform queue window patch =
     and_lines (nonEmpty ([''m.game_version IS NOT NULL'', ''m.match_id IS NOT NULL'', ''m.payload IS NOT NULL''] @
       scopeConditions ''m'' region platform queue window @ [patchCondition ''m'' patch]))"

definition envelopeFilterSQL :: "string \<Rightarrow> string \<Rightarrow> int \<Rightarrow> Window \<Rightarrow> string" where
  "envelopeFilterSQL region platform queue window =
     and_lines (nonEmpty ([''m.game_version IS NOT NULL'', ''m.match_id IS NOT NULL'', ''m.payload_valid'', ''m.participants > 0''] @
       scopeConditions ''m'' region platform queue window))"

definition featureFilter :: "string \<Rightarrow> string \<Rightarrow> string" where
  "featureFilter alias patch =
     strings_join '' AND '' (nonEmpty [alias @ ''.role IS NOT NULL'', alias @ ''.champion_id > 0'', alias @ ''.win IS NOT NULL'',
       patchOnlyFilter alias patch])"

definition banReduceFilter :: "string \<Rightarrow> string \<Rightarrow> string" where
  "banReduceFilter alias patch = strings_join '' AND '' (nonEmpty [alias @ ''.champion_id > 0'', patchOnlyFilter alias patch])"

section \<open>The tallies\<close>

definition cellCountsSQL :: "string \<Rightarrow> string \<Rightarrow> string" where
  "cellCountsSQL featuresPath patch =
     sql_lines
     [''SELECT'',
      ''  p.champion_id,'',
      ''  p.role,'',
      ''  CAST(count(*) AS INTEGER) AS n,'',
      ''  CAST(sum(CASE WHEN p.win THEN 1 ELSE 0 END) AS INTEGER) AS wins'',
      ''FROM '' @ parquetOf featuresPath @ '' p'',
      ''WHERE '' @ featureFilter ''p'' patch,
      ''GROUP BY p.champion_id, p.role'',
      ''ORDER BY p.role, p.champion_id'']"

definition banCountsSQL :: "string \<Rightarrow> string \<Rightarrow> string" where
  "banCountsSQL bansPath patch =
     sql_lines
     [''SELECT'',
      ''  b.champion_id,'',
      ''  CAST(count(DISTINCT b.match_id) AS INTEGER) AS bans'',
      ''FROM '' @ parquetOf bansPath @ '' b'',
      ''WHERE '' @ banReduceFilter ''b'' patch,
      ''GROUP BY b.champion_id'',
      ''ORDER BY b.champion_id'']"

definition buildCountsSQL :: "string \<Rightarrow> string \<Rightarrow> string \<Rightarrow> string \<Rightarrow> string" where
  "buildCountsSQL featuresPath patch keyExpr extra =
     sql_lines
     [''SELECT'',
      ''  p.champion_id,'',
      ''  p.role,'',
      ''  '' @ keyExpr @ '' AS key,'',
      ''  CAST(count(*) AS INTEGER) AS n,'',
      ''  CAST(sum(CASE WHEN p.win THEN 1 ELSE 0 END) AS INTEGER) AS wins'',
      ''FROM '' @ parquetOf featuresPath @ '' p'',
      ''WHERE '' @ strings_join '' AND '' (nonEmpty [featureFilter ''p'' patch, extra]),
      ''GROUP BY 1, 2, 3'',
      ''ORDER BY 1, 2'']"

definition matchupCountsSQL :: "string \<Rightarrow> string \<Rightarrow> string" where
  "matchupCountsSQL featuresPath patch =
     sql_lines
     [''SELECT'',
      ''  a.role AS role,'',
      ''  a.champion_id,'',
      ''  b.champion_id AS opponent_id,'',
      ''  CAST(count(*) AS INTEGER) AS n,'',
      ''  CAST(sum(CASE WHEN a.win THEN 1 ELSE 0 END) AS INTEGER) AS wins'',
      ''FROM '' @ parquetOf featuresPath @ '' a'',
      ''JOIN '' @ parquetOf featuresPath @ '' b'',
      ''  ON a.match_id = b.match_id'',
      '' AND a.role = b.role'',
      '' AND a.team_id <> b.team_id'',
      ''WHERE '' @ featureFilter ''a'' patch @ '' AND '' @ featureFilter ''b'' patch,
      ''  AND (a.champion_id < b.champion_id OR (a.champion_id = b.champion_id AND a.team_id < b.team_id))'',
      ''GROUP BY 1, 2, 3'',
      ''ORDER BY 1, 2, 3'']"

definition patchListSQL :: "string \<Rightarrow> string" where
  "patchListSQL featuresPath =
     sql_lines
     [''SELECT'',
      ''  p.patch,'',
      ''  CAST(count(DISTINCT p.match_id) AS INTEGER) AS matches,'',
      ''  CAST(count(*) AS INTEGER) AS participant_rows'',
      ''FROM '' @ parquetOf featuresPath @ '' p'',
      ''WHERE p.patch IS NOT NULL'',
      ''GROUP BY p.patch'',
      ''ORDER BY p.patch'']"

definition envelopePatchListSQL :: "string \<Rightarrow> string \<Rightarrow> string" where
  "envelopePatchListSQL envelopePath filters =
     sql_lines
     [''SELECT'',
      sq ''  CAST(split_part(m.game_version, `.`, 1) || `.` || split_part(m.game_version, `.`, 2) AS VARCHAR) AS patch,'',
      ''  CAST(count(*) AS INTEGER) AS matches,'',
      ''  CAST(sum(m.participants) AS INTEGER) AS participant_rows'',
      ''FROM '' @ parquetOf envelopePath @ '' m'',
      ''WHERE '' @ filters,
      ''GROUP BY 1'',
      ''ORDER BY 1'']"

definition archiveStatsSQL :: "string \<Rightarrow> string" where
  "archiveStatsSQL matchesPath =
     sql_lines
     [''SELECT'',
      ''  CAST((SELECT count(*) FROM '' @ parquetOf matchesPath @ '') AS INTEGER) AS archive_rows,'',
      ''  CAST((SELECT count(*) FROM '' @ parquetOf matchesPath @ '' WHERE payload IS NULL OR match_id IS NULL OR game_version IS NULL OR queue_id IS NULL OR game_creation_ms IS NULL) AS INTEGER) AS malformed_rows'',
      []]"

definition match_filter :: "string \<Rightarrow> string \<Rightarrow> string" where
  "match_filter filters patch = strings_join '' AND '' (nonEmpty [filters, patchCondition ''m'' patch])"

definition rejected_filter :: "string \<Rightarrow> string" where
  "rejected_filter patch =
     strings_join '' AND '' (nonEmpty [patchOnlyFilter ''p'' patch,
       ''(p.role IS NULL OR p.champion_id IS NULL OR p.champion_id <= 0 OR p.win IS NULL)''])"

definition scoped_where :: "string \<Rightarrow> string" where
  "scoped_where patch = (if patchOnlyFilter ''p'' patch \<noteq> [] then ''WHERE '' @ patchOnlyFilter ''p'' patch else [])"

definition windowStatsSQL :: "string \<Rightarrow> string \<Rightarrow> string \<Rightarrow> string \<Rightarrow> string \<Rightarrow> string" where
  "windowStatsSQL matchesPath featuresPath bansPath filters patch =
     sql_lines
     [''SELECT'',
      ''  CAST((SELECT count(DISTINCT m.match_id) FROM '' @ parquetOf matchesPath @ '' m WHERE '' @ match_filter filters patch @ '') AS INTEGER) AS matches_used,'',
      ''  CAST((SELECT count(*) FROM '' @ parquetOf featuresPath @ '' p '' @ scoped_where patch @ '') AS INTEGER) AS participant_rows,'',
      ''  CAST((SELECT count(*) FROM '' @ parquetOf featuresPath @ '' p WHERE '' @ rejected_filter patch @ '') AS INTEGER) AS rejected_rows,'',
      ''  CAST((SELECT count(*) FROM '' @ parquetOf bansPath @ '' b) AS INTEGER) AS ban_rows'',
      []]"

section \<open>Scripts\<close>

definition copyJSON :: "string \<Rightarrow> string \<Rightarrow> string" where
  "copyJSON query target =
     sql_lines [''COPY ('', query, '') TO '' @ quoteLiteral target @ '' (FORMAT JSON, ARRAY true);'', []]"

definition copyParquet :: "string \<Rightarrow> string \<Rightarrow> string" where
  "copyParquet query target =
     sql_lines [''COPY ('', query, '') TO '' @ quoteLiteral target @ '' (FORMAT PARQUET, COMPRESSION ZSTD);'', []]"

definition joinStatements :: "string list \<Rightarrow> string" where
  "joinStatements stmts = strings_join [line_end] stmts"

definition itemKeyExpr :: string where
  "itemKeyExpr = ''[p.item0, p.item1, p.item2, p.item3, p.item4, p.item5, p.item6]''"

definition itemExtra :: string where
  "itemExtra = ''(p.item0 > 0 OR p.item1 > 0 OR p.item2 > 0 OR p.item3 > 0 OR p.item4 > 0 OR p.item5 > 0)''"

definition runeKeyExpr :: string where
  "runeKeyExpr = ''p.rune_style''"

definition runeExtra :: string where
  "runeExtra = ''(p.rune_style IS NOT NULL)''"

definition spellKeyExpr :: string where
  "spellKeyExpr = ''[p.summoner1_id, p.summoner2_id]''"

definition spellExtra :: string where
  "spellExtra = ''(p.summoner1_id > 0 AND p.summoner2_id > 0)''"

definition extractBatchParts :: nat where
  "extractBatchParts = 8"

definition batchFileName :: "string \<Rightarrow> nat \<Rightarrow> string" where
  "batchFileName kind i = kind @ ''-'' @ pad 5 (int i) @ ''.parquet''"

text \<open>The paths of one build: the staged parts, the spill and the scratch directory.\<close>

record build_paths =
  bp_staged :: "string list"
  bp_envelope :: string
  bp_matchesDir :: string
  bp_featuresDir :: string
  bp_bansDir :: string
  bp_matches :: string
  bp_features :: string
  bp_bans :: string
  bp_scratch :: string

definition scratch_path :: "build_paths \<Rightarrow> string \<Rightarrow> string" where
  "scratch_path b name = join (bp_scratch b) name"

function batches :: "nat \<Rightarrow> 'a list \<Rightarrow> 'a list list" where
  "batches n xs = (if xs = [] \<or> n = 0 then [] else take n xs # batches n (drop n xs))"
  by auto
termination by (relation "measure (\<lambda>(n, xs). length xs)") auto

declare batches.simps [simp del]

definition batch_statements :: "build_paths \<Rightarrow> string \<Rightarrow> nat \<times> string list \<Rightarrow> string list" where
  "batch_statements b filters =
     (\<lambda>(i, parts).
        let matches = join (bp_matchesDir b) (batchFileName ''matches'' i)
        in [copyParquet (payloadSQL (bp_envelope b) parts) matches,
            copyParquet (participantsSQL matches filters) (join (bp_featuresDir b) (batchFileName ''features'' i)),
            copyParquet (bansSQL matches filters) (join (bp_bansDir b) (batchFileName ''bans'' i))])"

definition extractScript :: "build_paths \<Rightarrow> string \<Rightarrow> string" where
  "extractScript b filters =
     joinStatements
       (concat (map (batch_statements b filters) (List.enumerate 0 (batches extractBatchParts (bp_staged b)))) @
        [copyJSON (archiveStatsSQL (bp_matches b)) (scratch_path b ''archive_stats.json''),
         copyJSON (patchListSQL (bp_features b)) (scratch_path b ''patches.json'')])"

definition envelopeScript :: "build_paths \<Rightarrow> string" where
  "envelopeScript b = copyParquet (envelopeSQL (bp_staged b)) (bp_envelope b)"

definition patchesScript :: "build_paths \<Rightarrow> string \<Rightarrow> string \<Rightarrow> int \<Rightarrow> Window \<Rightarrow> string" where
  "patchesScript b region platform queue window =
     copyJSON (envelopePatchListSQL (bp_envelope b) (envelopeFilterSQL region platform queue window))
       (scratch_path b ''patches_envelope.json'')"

definition reduceScript :: "build_paths \<Rightarrow> string \<Rightarrow> string \<Rightarrow> string" where
  "reduceScript b filters patch =
     joinStatements
       [copyJSON (windowStatsSQL (bp_matches b) (bp_features b) (bp_bans b) filters patch) (scratch_path b ''window_stats.json''),
        copyJSON (cellCountsSQL (bp_features b) patch) (scratch_path b ''cell_counts.json''),
        copyJSON (banCountsSQL (bp_bans b) patch) (scratch_path b ''ban_counts.json''),
        copyJSON (buildCountsSQL (bp_features b) patch itemKeyExpr itemExtra) (scratch_path b ''items.json''),
        copyJSON (buildCountsSQL (bp_features b) patch runeKeyExpr runeExtra) (scratch_path b ''runes.json''),
        copyJSON (buildCountsSQL (bp_features b) patch spellKeyExpr spellExtra) (scratch_path b ''spells.json''),
        copyJSON (matchupCountsSQL (bp_features b) patch) (scratch_path b ''matchups.json'')]"

end
