(* ===== verification/Agg_Engine.thy ===== *)
theory Agg_Engine
  imports Agg_SQL Config
begin

text \<open>
  The engine (\<^verbatim>\<open>internal/aggregate/engine.go\<close>): the bounds of the DuckDB process, the search for its
  binary, the check of its version and the script handed to one run. The operating system is an
  argument: what it answers about paths and files, what the binary prints and how a run ends.
\<close>

section \<open>Sizes\<close>

definition duckDBSizeUnits :: "(string \<times> int) list" where
  "duckDBSizeUnits =
     [(''b'', 1), (''k'', 10 ^ 3), (''m'', 10 ^ 6), (''g'', 10 ^ 9), (''t'', 10 ^ 12),
      (''kb'', 10 ^ 3), (''mb'', 10 ^ 6), (''gb'', 10 ^ 9), (''tb'', 10 ^ 12),
      (''kib'', 2 ^ 10), (''mib'', 2 ^ 20), (''gib'', 2 ^ 30), (''tib'', 2 ^ 40)]"

datatype size_error = SizeEmpty | UnknownUnit string | NotASize | NotPositive

text \<open>
  The size is the quantity and the bytes of its unit: the callers ask only whether there is one, and
  the product in floating point is left out.
\<close>

definition parseDuckDBSize :: "parsers \<Rightarrow> string \<Rightarrow> size_error + gofloat \<times> int" where
  "parseDuckDBSize P value =
     (case to_lower (trim_space value) of
        [] \<Rightarrow> Inl SizeEmpty
      | c # cs \<Rightarrow>
          (let (sign, body) = (if c = CHR ''+'' \<or> c = CHR ''-'' then ([c], cs) else ([], c # cs));
               digits = takeWhile (\<lambda>d. d = CHR ''.'' \<or> is_digit d) body;
               number = trim_space (sign @ digits);
               unit_name = trim_space (drop (length digits) body)
           in case map_of duckDBSizeUnits unit_name of
                None \<Rightarrow> Inl (UnknownUnit unit_name)
              | Some multiplier \<Rightarrow>
                  (case ps_float P number of
                     None \<Rightarrow> Inl NotASize
                   | Some quantity \<Rightarrow> if float_le quantity 0 then Inl NotPositive else Inr (quantity, multiplier))))"

section \<open>Settings\<close>

definition DuckDBVersion :: string where
  "DuckDBVersion = ''1.4.5''"

definition DuckDBBinEnv :: string where
  "DuckDBBinEnv = ''LOLSTATS_DUCKDB_BIN''"

definition DefaultDuckDBMemoryLimit :: string where
  "DefaultDuckDBMemoryLimit = ''2GiB''"

definition DefaultDuckDBThreads :: int where
  "DefaultDuckDBThreads = 2"

definition DefaultDuckDBMaxTempSize :: string where
  "DefaultDuckDBMaxTempSize = ''10GiB''"

definition spillDirName :: string where
  "spillDirName = ''duckdb-spill''"

record DuckDBSettings =
  ds_MemoryLimit :: string
  ds_Threads :: int
  ds_TempDir :: string
  ds_MaxTempSize :: string

record os =
  os_TempDir :: string
  os_Abs :: "string \<Rightarrow> string option"
  os_Stat :: "string \<Rightarrow> bool option"
  os_Getenv :: "string \<Rightarrow> string"
  os_LookPath :: "string option"
  os_MkdirAll :: "string \<Rightarrow> bool"
  os_CreateTemp :: "string \<Rightarrow> bool"
  os_Remove :: bool
  os_Version :: "string \<Rightarrow> string option"
  os_Run :: "string \<Rightarrow> string \<Rightarrow> bool"

datatype engine_error =
    BadMemoryLimit size_error | BadSpillSize size_error | TempDirUnresolved | SpillNotCreated | SpillNotWritable | ProbeNotRemoved
  | BinaryUnresolved string | BinaryMissing string | BinaryIsDirectory string | NoDuckDBBinary
  | VersionFailed | VersionEmpty | VersionMismatch string | EmptyScript | ScriptFailed

definition text_or :: "string \<Rightarrow> string \<Rightarrow> string" where
  "text_or s fallback = (if s = [] then fallback else s)"

definition with_defaults :: "DuckDBSettings \<Rightarrow> DuckDBSettings" where
  "with_defaults s =
     s\<lparr>ds_MemoryLimit := text_or (ds_MemoryLimit s) DefaultDuckDBMemoryLimit,
       ds_Threads := default_if_nonpos (ds_Threads s) DefaultDuckDBThreads,
       ds_MaxTempSize := text_or (ds_MaxTempSize s) DefaultDuckDBMaxTempSize\<rparr>"

definition resolve_settings :: "os \<Rightarrow> parsers \<Rightarrow> DuckDBSettings \<Rightarrow> engine_error + DuckDBSettings" where
  "resolve_settings os P s0 =
     (let s = with_defaults s0
      in case parseDuckDBSize P (ds_MemoryLimit s) of
           Inl e \<Rightarrow> Inl (BadMemoryLimit e)
         | Inr m \<Rightarrow>
             (case parseDuckDBSize P (ds_MaxTempSize s) of
                Inl e \<Rightarrow> Inl (BadSpillSize e)
              | Inr t \<Rightarrow>
                  (case os_Abs os (text_or (ds_TempDir s) (os_TempDir os)) of
                     None \<Rightarrow> Inl TempDirUnresolved
                   | Some parent \<Rightarrow>
                       (let spill = join parent spillDirName
                        in if \<not> os_MkdirAll os spill then Inl SpillNotCreated
                           else if \<not> os_CreateTemp os spill then Inl SpillNotWritable
                           else if \<not> os_Remove os then Inl ProbeNotRemoved
                           else Inr (s\<lparr>ds_TempDir := spill\<rparr>)))))"

definition preamble_statements :: "DuckDBSettings \<Rightarrow> string list" where
  "preamble_statements s =
     [''SET memory_limit = '' @ quoteLiteral (ds_MemoryLimit s),
      ''SET threads = '' @ show_int (ds_Threads s),
      ''SET temp_directory = '' @ quoteLiteral (ds_TempDir s),
      ''SET max_temp_directory_size = '' @ quoteLiteral (ds_MaxTempSize s),
      ''SET preserve_insertion_order = false'']"

definition preamble :: "DuckDBSettings \<Rightarrow> string" where
  "preamble s = strings_join [line_end] (map (\<lambda>st. st @ '';'') (preamble_statements s)) @ [line_end]"

section \<open>The client\<close>

definition duckDBLookupCandidates :: "string list" where
  "duckDBLookupCandidates = [''.agent-artifacts/duckdb/duckdb'', ''bin/duckdb'']"

fun find_configured :: "os \<Rightarrow> string list \<Rightarrow> (engine_error + string) option" where
  "find_configured os [] = None"
| "find_configured os (c # cs) =
     (if c = [] then find_configured os cs
      else Some (case os_Abs os c of
                   None \<Rightarrow> Inl (BinaryUnresolved c)
                 | Some path \<Rightarrow>
                     (case os_Stat os path of
                        None \<Rightarrow> Inl (BinaryMissing c)
                      | Some dir \<Rightarrow> if dir then Inl (BinaryIsDirectory c) else Inr path)))"

fun find_candidate :: "os \<Rightarrow> string list \<Rightarrow> (engine_error + string) option" where
  "find_candidate os [] = None"
| "find_candidate os (c # cs) =
     (if os_Stat os c = Some False
      then Some (case os_Abs os c of None \<Rightarrow> Inl (BinaryUnresolved c) | Some path \<Rightarrow> Inr path)
      else find_candidate os cs)"

definition FindDuckDBBin :: "os \<Rightarrow> string \<Rightarrow> engine_error + string" where
  "FindDuckDBBin os configured =
     (case find_configured os [configured, os_Getenv os DuckDBBinEnv] of
        Some r \<Rightarrow> r
      | None \<Rightarrow>
          (case find_candidate os duckDBLookupCandidates of
             Some r \<Rightarrow> r
           | None \<Rightarrow> (case os_LookPath os of Some path \<Rightarrow> Inr path | None \<Rightarrow> Inl NoDuckDBBinary)))"

text \<open>\<^verbatim>\<open>strings.Fields\<close>.\<close>

fun fields_from :: "string \<Rightarrow> string \<Rightarrow> string list" where
  "fields_from acc [] = (if acc = [] then [] else [rev acc])"
| "fields_from acc (c # cs) =
     (if is_space c then (if acc = [] then fields_from [] cs else rev acc # fields_from [] cs) else fields_from (c # acc) cs)"

definition engine_version :: "os \<Rightarrow> string \<Rightarrow> engine_error + string" where
  "engine_version os bin =
     (case os_Version os bin of
        None \<Rightarrow> Inl VersionFailed
      | Some stdout \<Rightarrow>
          (case fields_from [] (trim_space stdout) of
             [] \<Rightarrow> Inl VersionEmpty
           | f # fs \<Rightarrow> Inr (case f of c # cs \<Rightarrow> if c = CHR ''v'' then cs else f | [] \<Rightarrow> f)))"

record CLIEngine =
  ce_bin :: string
  ce_version :: string
  ce_settings :: DuckDBSettings

definition OpenCLIEngine :: "os \<Rightarrow> parsers \<Rightarrow> string \<Rightarrow> bool \<Rightarrow> DuckDBSettings \<Rightarrow> engine_error + CLIEngine" where
  "OpenCLIEngine os P configuredBin allowMismatch settings =
     (case FindDuckDBBin os configuredBin of
        Inl e \<Rightarrow> Inl e
      | Inr bin \<Rightarrow>
          (case resolve_settings os P settings of
             Inl e \<Rightarrow> Inl e
           | Inr resolved \<Rightarrow>
               (case engine_version os bin of
                  Inl e \<Rightarrow> Inl e
                | Inr version \<Rightarrow>
                    (if version \<noteq> DuckDBVersion \<and> \<not> allowMismatch then Inl (VersionMismatch version)
                     else Inr \<lparr>ce_bin = bin, ce_version = version, ce_settings = resolved\<rparr>))))"

text \<open>What one run reads on its standard input, and how it ends.\<close>

definition Exec_script :: "CLIEngine \<Rightarrow> string \<Rightarrow> string" where
  "Exec_script e sql = preamble (ce_settings e) @ sql"

definition Exec :: "os \<Rightarrow> CLIEngine \<Rightarrow> string \<Rightarrow> engine_error option" where
  "Exec os e sql =
     (if trim_space sql = [] then Some EmptyScript
      else if os_Run os (ce_bin e) (Exec_script e sql) then None
      else Some ScriptFailed)"

end
