(* ===== verification/SQL_Props.thy ===== *)
theory SQL_Props
  imports Agg_Engine
begin

text \<open>
  What the engine reads: a quoted text is read back as it was, and the scripts of a build are exactly
  the statements the code means them to be, whatever paths, patches, regions and settings they are
  made from.
\<close>

section \<open>Where literals and statements end\<close>

text \<open>
  The lexical rule of SQL for the text generated here: a literal is between single quotes, a doubled
  quote inside it is a quote, a semicolon outside ends a statement. A script is read as its
  statements, without the space before them.
\<close>

fun literal_body :: "string \<Rightarrow> string \<Rightarrow> (string \<times> string) option" where
  "literal_body acc [] = None"
| "literal_body acc [c] = (if c = quote_char then Some (rev acc, []) else None)"
| "literal_body acc (c # d # cs) =
     (if c = quote_char
      then (if d = quote_char then literal_body (quote_char # acc) cs else Some (rev acc, d # cs))
      else literal_body (c # acc) (d # cs))"

definition read_literal :: "string \<Rightarrow> (string \<times> string) option" where
  "read_literal s = (case s of [] \<Rightarrow> None | c # cs \<Rightarrow> if c = quote_char then literal_body [] cs else None)"

fun sql_split :: "bool \<Rightarrow> string \<Rightarrow> string \<Rightarrow> string list" where
  "sql_split q acc [] = (if trim_left (rev acc) = [] then [] else [trim_left (rev acc)])"
| "sql_split q acc (c # cs) =
     (if c = quote_char then sql_split (\<not> q) (c # acc) cs
      else if c = CHR '';'' \<and> \<not> q then trim_left (rev acc) # sql_split False [] cs
      else sql_split q (c # acc) cs)"

definition sql_statements :: "string \<Rightarrow> string list" where
  "sql_statements s = sql_split False [] s"

text \<open>
  A text is closed when no literal is left open at its end and no character outside a literal ends a
  statement or opens another form of quotation.
\<close>

fun sql_scan :: "bool \<Rightarrow> string \<Rightarrow> bool option" where
  "sql_scan q [] = Some q"
| "sql_scan q (c # cs) =
     (if c = quote_char then sql_scan (\<not> q) cs
      else if (c = CHR '';'' \<or> c = CHR 0x22 \<or> c = CHR ''$'') \<and> \<not> q then None
      else sql_scan q cs)"

definition closed_sql :: "string \<Rightarrow> bool" where
  "closed_sql s = (sql_scan False s = Some False)"

lemma sql_scan_append: "sql_scan q (a @ b) = Option.bind (sql_scan q a) (\<lambda>q'. sql_scan q' b)"
  by (induction q a rule: sql_scan.induct) simp_all

lemma sql_split_scan: "sql_scan q s = Some q' \<Longrightarrow> sql_split q acc (s @ rest) = sql_split q' (rev s @ acc) rest"
  by (induction q s arbitrary: acc rule: sql_scan.induct) (auto split: if_splits)

lemma closed_split: "closed_sql s \<Longrightarrow> sql_split False acc (s @ rest) = sql_split False (rev s @ acc) rest"
  by (simp add: closed_sql_def sql_split_scan)

section \<open>Closed texts\<close>

lemma closed_Nil [simp]: "closed_sql []"
  by (simp add: closed_sql_def)

lemma closed_append [simp]: "closed_sql a \<Longrightarrow> closed_sql (a @ b) = closed_sql b"
  by (simp add: closed_sql_def sql_scan_append)

lemma scan_quoted_body:
  "sql_scan True (concat (map (\<lambda>c. if c = quote_char then [quote_char, quote_char] else [c]) s) @ t) = sql_scan True t"
  by (induction s) (auto simp: quote_char_def)

lemma closed_quoteLiteral [simp]: "closed_sql (quoteLiteral s)"
proof -
  have "sql_scan True (concat (map (\<lambda>c. if c = quote_char then [quote_char, quote_char] else [c]) s) @ [quote_char]) = Some False"
    by (simp only: scan_quoted_body) simp
  then show ?thesis by (simp add: closed_sql_def quoteLiteral_def)
qed

lemma closed_join [simp]: "closed_sql sep \<Longrightarrow> \<forall>x \<in> set xs. closed_sql x \<Longrightarrow> closed_sql (strings_join sep xs)"
  by (induction sep xs rule: strings_join.induct) simp_all

lemma closed_plain: "(\<And>c. c \<in> set s \<Longrightarrow> c \<notin> {quote_char, CHR '';'', CHR 0x22, CHR ''$''}) \<Longrightarrow> closed_sql s"
  by (induction s) (auto simp: closed_sql_def)

lemma closed_newline [simp]: "closed_sql [line_end]"
  by (simp add: closed_sql_def line_end_def quote_char_def)

lemma closed_lines [simp]: "\<forall>x \<in> set xs. closed_sql x \<Longrightarrow> closed_sql (sql_lines xs)"
  by (simp add: sql_lines_def)

definition open_sql :: "string \<Rightarrow> bool" where
  "open_sql s = (sql_scan True s = Some False)"

text \<open>A constant of the source is checked character by character.\<close>

lemma closed_Cons: "closed_sql (c # cs) =
    (if c = CHR 0x27 then open_sql cs else c \<noteq> CHR '';'' \<and> c \<noteq> CHR 0x22 \<and> c \<noteq> CHR ''$'' \<and> closed_sql cs)"
  by (simp add: closed_sql_def open_sql_def quote_char_def)

lemma open_Cons: "open_sql (c # cs) = (if c = CHR 0x27 then closed_sql cs else open_sql cs)"
  by (simp add: closed_sql_def open_sql_def quote_char_def)

lemmas sql_check = closed_Cons open_Cons sq_def quote_char_def

lemma closed_nonEmpty [simp]: "\<forall>x \<in> set xs. closed_sql x \<Longrightarrow> \<forall>x \<in> set (nonEmpty xs). closed_sql x"
  by (simp add: nonEmpty_def)

lemma closed_fileList [simp]: "closed_sql (fileList paths)"
  by (simp add: fileList_def sql_check)

lemma closed_parquetOf [simp]: "closed_sql (parquetOf path)"
  by (simp add: parquetOf_def sql_check)

lemma decimal_int_digits: "0 \<le> n \<Longrightarrow> c \<in> set (decimal_int n) \<Longrightarrow> is_digit c"
  using decimal_digits decimal_int_nat by metis

lemma digit_plain: "is_digit c \<Longrightarrow> c \<notin> {quote_char, CHR '';'', CHR 0x22, CHR ''$''}"
  by (auto simp: is_digit_def quote_char_def)

lemma closed_show_int [simp]: "closed_sql (show_int n)"
proof -
  have d: "closed_sql (decimal_int m)" if "0 \<le> m" for m
    using that by (intro closed_plain) (meson decimal_int_digits digit_plain)
  show ?thesis by (cases "n < 0") (simp_all add: show_int_def d closed_Cons)
qed

section \<open>The builders\<close>

lemma closed_spill [simp]:
  "closed_sql (envelopeSQL parts)" "closed_sql (payloadSQL envelopePath parts)"
  by (simp_all add: envelopeSQL_def envelope_text_def envelope_number_def envelope_arrayLen_def guardedSQL_def payloadSQL_def
      Let_def sql_check)

lemma closed_role: "closed_sql (participantRoleSQL (position_field ''$.teamPosition'') (position_field ''$.individualPosition''))"
  by (simp add: participantRoleSQL_def position_field_def Let_def sql_check)

lemma closed_rune_fields:
  "closed_sql (rune_ordered ''p'')" "closed_sql (rune_nonNull ''p'' stat_perk_paths)" "closed_sql (rune_nonNull ''p'' shard_paths)"
  "closed_sql (rune_list ''p'' (rune_trees @ stat_perk_paths))" "closed_sql (rune_list ''p'' (rune_trees @ shard_paths))"
  "closed_sql (rune_text ''p'' ''$.perks.styles[2].description'')"
  by (simp_all add: rune_ordered_def rune_nonNull_def rune_list_def rune_text_def rune_at_def stat_perk_paths_def shard_paths_def
      rune_trees_def sql_check)

lemma closed_runeStyle: "closed_sql (runeStyleSQL ''p'')"
  by (simp add: runeStyleSQL_def closed_rune_fields sql_check)

lemma closed_unnest [simp]:
  assumes "closed_sql filters"
  shows "closed_sql (participantsSQL matchesPath filters)" "closed_sql (bansSQL matchesPath filters)"
  using assms by (simp_all add: participantsSQL_def bansSQL_def closed_role closed_runeStyle sql_check)

lemma closed_scope: "x \<in> set (scopeConditions ''m'' region platform queue window) \<Longrightarrow> closed_sql x"
  by (auto simp: scopeConditions_def platformCondition_def queueCondition_def Let_def sql_check split: list.splits)

lemma closed_patch [simp]: "closed_sql (patchCondition ''m'' patch)" "closed_sql (patchOnlyFilter ''p'' patch)"
    "closed_sql (patchOnlyFilter ''a'' patch)" "closed_sql (patchOnlyFilter ''b'' patch)"
  by (simp_all add: patchCondition_def patchOnlyFilter_def patch_expression_def sql_check)

lemma closed_filters [simp]:
  "closed_sql (filterSQL region platform queue window patch)" "closed_sql (envelopeFilterSQL region platform queue window)"
  by (auto simp: filterSQL_def envelopeFilterSQL_def and_lines_def nonEmpty_def sql_check line_end_def dest: closed_scope
      intro!: closed_join)

lemma closed_feature_filters [simp]:
  "closed_sql (featureFilter ''p'' patch)" "closed_sql (featureFilter ''a'' patch)" "closed_sql (featureFilter ''b'' patch)"
  "closed_sql (banReduceFilter ''b'' patch)" "closed_sql (rejected_filter patch)" "closed_sql (scoped_where patch)"
  by (auto simp: featureFilter_def banReduceFilter_def rejected_filter_def scoped_where_def nonEmpty_def sql_check
      intro!: closed_join)

lemma closed_match_filter [simp]: "closed_sql filters \<Longrightarrow> closed_sql (match_filter filters patch)"
  by (auto simp: match_filter_def nonEmpty_def sql_check intro!: closed_join)

lemma closed_tallies [simp]:
  "closed_sql (cellCountsSQL featuresPath patch)" "closed_sql (banCountsSQL bansPath patch)"
  "closed_sql (matchupCountsSQL featuresPath patch)" "closed_sql (patchListSQL featuresPath)" "closed_sql (archiveStatsSQL matchesPath)"
  by (simp_all add: cellCountsSQL_def banCountsSQL_def matchupCountsSQL_def patchListSQL_def archiveStatsSQL_def sql_check)

lemma closed_buildCounts [simp]:
  assumes "closed_sql keyExpr" and "closed_sql extra"
  shows "closed_sql (buildCountsSQL featuresPath patch keyExpr extra)"
proof -
  have "closed_sql (strings_join '' AND '' (nonEmpty [featureFilter ''p'' patch, extra]))"
    using assms by (intro closed_join) (auto simp: nonEmpty_def sql_check)
  then show ?thesis using assms by (simp add: buildCountsSQL_def sql_check)
qed

lemma closed_keys [simp]:
  "closed_sql itemKeyExpr" "closed_sql itemExtra" "closed_sql runeKeyExpr" "closed_sql runeExtra" "closed_sql spellKeyExpr"
  "closed_sql spellExtra"
  by (simp_all add: itemKeyExpr_def itemExtra_def runeKeyExpr_def runeExtra_def spellKeyExpr_def spellExtra_def sql_check)

lemma closed_envelope_patches [simp]: "closed_sql filters \<Longrightarrow> closed_sql (envelopePatchListSQL envelopePath filters)"
  by (simp add: envelopePatchListSQL_def sql_check)

lemma closed_windowStats [simp]: "closed_sql filters \<Longrightarrow> closed_sql (windowStatsSQL matchesPath featuresPath bansPath filters patch)"
  by (simp add: windowStatsSQL_def sql_check)

section \<open>Scripts\<close>

text \<open>A statement followed by anything is read as that statement and then the rest.\<close>

definition reads_as :: "string \<Rightarrow> string \<Rightarrow> bool" where
  "reads_as st txt = (\<forall>rest. sql_split False [] (st @ rest) = txt # sql_split False [] rest)"

lemma leading_newline: "sql_split q (acc @ [line_end]) s = sql_split q acc s"
proof (induction q acc s rule: sql_split.induct)
  case (1 q acc)
  then show ?case by (simp add: trim_left_def line_end_def is_space_def)
next
  case (2 q acc c cs)
  have "trim_left (line_end # rev acc) = trim_left (rev acc)" by (simp add: trim_left_def line_end_def is_space_def)
  then show ?case using 2 by simp
qed

lemma newline_skipped: "sql_split False [] (line_end # s) = sql_split False [] s"
  using leading_newline [of False "[]" s] by (simp add: line_end_def quote_char_def)

definition copy_text :: "string \<Rightarrow> string \<Rightarrow> string \<Rightarrow> string" where
  "copy_text query target options = sql_lines [''COPY ('', query, '') TO '' @ quoteLiteral target @ options]"

lemma copy_text_closed: "closed_sql query \<Longrightarrow> closed_sql options \<Longrightarrow> closed_sql (copy_text query target options)"
  by (simp add: copy_text_def sql_check)

lemma terminated: "closed_sql st \<Longrightarrow> trim_left st = st \<Longrightarrow> reads_as (st @ '';'') st"
  by (simp add: reads_as_def closed_split quote_char_def)

lemma reads_as_newline: "reads_as st txt \<Longrightarrow> reads_as (st @ [line_end]) txt"
  by (simp add: reads_as_def newline_skipped del: sql_split.simps)

lemma copy_starts: "trim_left (copy_text query target options) = copy_text query target options"
  by (simp add: copy_text_def sql_lines_def trim_left_def is_space_def)

lemma copyJSON_reads [simp]:
  assumes "closed_sql query"
  shows "reads_as (copyJSON query target) (copy_text query target '' (FORMAT JSON, ARRAY true)'')"
proof -
  have "copyJSON query target = (copy_text query target '' (FORMAT JSON, ARRAY true)'' @ '';'') @ [line_end]"
    by (simp add: copyJSON_def copy_text_def sql_lines_def)
  moreover have "closed_sql '' (FORMAT JSON, ARRAY true)''" by (simp add: sql_check)
  ultimately show ?thesis
    using reads_as_newline [OF terminated [OF copy_text_closed [OF assms] copy_starts]] by metis
qed

lemma copyParquet_reads [simp]:
  assumes "closed_sql query"
  shows "reads_as (copyParquet query target) (copy_text query target '' (FORMAT PARQUET, COMPRESSION ZSTD)'')"
proof -
  have "copyParquet query target = (copy_text query target '' (FORMAT PARQUET, COMPRESSION ZSTD)'' @ '';'') @ [line_end]"
    by (simp add: copyParquet_def copy_text_def sql_lines_def)
  moreover have "closed_sql '' (FORMAT PARQUET, COMPRESSION ZSTD)''" by (simp add: sql_check)
  ultimately show ?thesis
    using reads_as_newline [OF terminated [OF copy_text_closed [OF assms] copy_starts]] by metis
qed

lemma join_reads: "list_all2 reads_as sts txts \<Longrightarrow> sql_split False [] (joinStatements sts @ rest) = txts @ sql_split False [] rest"
proof (induction sts txts arbitrary: rest rule: list_all2_induct)
  case Nil
  then show ?case by (simp add: joinStatements_def)
next
  case (Cons st sts u us)
  note IH = Cons.IH and st = Cons.hyps(1)
  show ?case
  proof (cases "sts = []")
    case True
    then have "us = []" using Cons.hyps by simp
    then show ?thesis using True st by (simp add: joinStatements_def reads_as_def)
  next
    case False
    then have "joinStatements (st # sts) @ rest = st @ line_end # joinStatements sts @ rest"
      by (cases sts) (simp_all add: joinStatements_def)
    then show ?thesis using st IH by (simp add: reads_as_def newline_skipped del: sql_split.simps)
  qed
qed

lemma script_reads: "list_all2 reads_as sts txts \<Longrightarrow> sql_statements (joinStatements sts) = txts"
  using join_reads [of sts txts "[]"] by (simp add: sql_statements_def trim_left_def)

section \<open>Literals\<close>

lemma literal_body_quoted:
  assumes "rest = [] \<or> hd rest \<noteq> quote_char"
  shows "literal_body acc (concat (map (\<lambda>c. if c = quote_char then [quote_char, quote_char] else [c]) s) @ quote_char # rest)
    = Some (rev acc @ s, rest)"
proof (induction s arbitrary: acc)
  case Nil
  then show ?case using assms by (cases rest) auto
next
  case (Cons c s)
  let ?t = "concat (map (\<lambda>c. if c = quote_char then [quote_char, quote_char] else [c]) s) @ quote_char # rest"
  obtain d t where t: "?t = d # t" by (cases ?t) auto
  show ?case
  proof (cases "c = quote_char")
    case True
    then show ?thesis using Cons.IH [of "quote_char # acc"] by simp
  next
    case False
    then show ?thesis using Cons.IH [of "c # acc"] t by simp
  qed
qed

lemma read_quoteLiteral: "rest = [] \<or> hd rest \<noteq> quote_char \<Longrightarrow> read_literal (quoteLiteral s @ rest) = Some (s, rest)"
  using literal_body_quoted [of rest "[]" s] by (simp add: read_literal_def quoteLiteral_def)

text \<open>
  C39: quoting is lossless. The literal read from a quoted text, alone or followed by the text the
  builders put after one, is the text that was quoted: whatever quotes, backslashes or separators it
  holds, none of it is outside the literal.
\<close>

theorem quoting_roundtrip:
  "read_literal (quoteLiteral s) = Some (s, []) \<and>
   read_literal (quoteLiteral s @ '', union_by_name = true)'') = Some (s, '', union_by_name = true)'') \<and>
   read_literal (quoteLiteral s @ '' (FORMAT JSON, ARRAY true);'') = Some (s, '' (FORMAT JSON, ARRAY true);'')"
  using read_quoteLiteral [of "[]" s] read_quoteLiteral [of "'', union_by_name = true)''" s]
    read_quoteLiteral [of "'' (FORMAT JSON, ARRAY true);''" s]
  by (simp add: quote_char_def)

section \<open>What the engine runs\<close>

definition parquet_copy :: "string \<Rightarrow> string \<Rightarrow> string" where
  "parquet_copy query target = copy_text query target '' (FORMAT PARQUET, COMPRESSION ZSTD)''"

definition json_copy :: "string \<Rightarrow> string \<Rightarrow> string" where
  "json_copy query target = copy_text query target '' (FORMAT JSON, ARRAY true)''"

lemma copy_reads [simp]:
  "closed_sql query \<Longrightarrow> reads_as (copyJSON query target) (json_copy query target)"
  "closed_sql query \<Longrightarrow> reads_as (copyParquet query target) (parquet_copy query target)"
  by (simp_all add: json_copy_def parquet_copy_def)

text \<open>The statements of one batch of parts.\<close>

definition batch_copies :: "build_paths \<Rightarrow> string \<Rightarrow> nat \<times> string list \<Rightarrow> string list" where
  "batch_copies b filters =
     (\<lambda>(i, parts).
        let matches = join (bp_matchesDir b) (batchFileName ''matches'' i)
        in [parquet_copy (payloadSQL (bp_envelope b) parts) matches,
            parquet_copy (participantsSQL matches filters) (join (bp_featuresDir b) (batchFileName ''features'' i)),
            parquet_copy (bansSQL matches filters) (join (bp_bansDir b) (batchFileName ''bans'' i))])"

lemma batch_reads: "closed_sql filters \<Longrightarrow> list_all2 reads_as (batch_statements b filters p) (batch_copies b filters p)"
  by (cases p) (simp add: batch_statements_def batch_copies_def Let_def)

lemma concat_reads:
  "(\<And>x. x \<in> set xs \<Longrightarrow> list_all2 R (f x) (g x)) \<Longrightarrow> list_all2 R (concat (map f xs)) (concat (map g xs))"
  by (induction xs) (auto intro!: list_all2_appendI)

lemma preamble_closed: "\<forall>st \<in> set (preamble_statements s). closed_sql st"
  by (simp add: preamble_statements_def sql_check)

lemma preamble_trimmed: "\<forall>st \<in> set (preamble_statements s). trim_left st = st"
  by (simp add: preamble_statements_def trim_left_def is_space_def)

lemma preamble_reads: "sql_split False [] (preamble s @ rest) = preamble_statements s @ sql_split False [] rest"
proof -
  have "list_all2 reads_as (map (\<lambda>st. st @ '';'') (preamble_statements s)) (preamble_statements s)"
    unfolding list_all2_map1
    using preamble_closed [of s] preamble_trimmed [of s] terminated by (intro list.rel_refl_strong) blast
  from join_reads [OF this, of "line_end # rest"] show ?thesis
    by (simp add: preamble_def joinStatements_def newline_skipped del: sql_split.simps)
qed

lemma engine_script_reads:
  assumes "list_all2 reads_as sts us"
  shows "sql_statements (Exec_script e (joinStatements sts)) = preamble_statements (ce_settings e) @ us"
  using preamble_reads [of "ce_settings e" "joinStatements sts"] script_reads [OF assms]
  by (simp add: Exec_script_def sql_statements_def)

text \<open>
  C10: a build runs the statements it means to run, and nothing else. Whatever the paths of the archive
  and of the scratch directory, the configured region and platform, the window, the patch and the
  engine's settings contain, each process reads first the five bounds and then exactly the copies of
  its phase: three for every batch of parts and two at the end for the extraction, seven for the
  reduction.
\<close>

theorem build_scripts_are_their_statements:
  "sql_statements (Exec_script e (extractScript b (filterSQL region platform queue window []))) =
     preamble_statements (ce_settings e) @
     concat (map (batch_copies b (filterSQL region platform queue window [])) (List.enumerate 0 (batches extractBatchParts (bp_staged b)))) @
     [json_copy (archiveStatsSQL (bp_matches b)) (scratch_path b ''archive_stats.json''),
      json_copy (patchListSQL (bp_features b)) (scratch_path b ''patches.json'')] \<and>
   sql_statements (Exec_script e (reduceScript b (filterSQL region platform queue window []) patch)) =
     preamble_statements (ce_settings e) @
     [json_copy (windowStatsSQL (bp_matches b) (bp_features b) (bp_bans b) (filterSQL region platform queue window []) patch)
        (scratch_path b ''window_stats.json''),
      json_copy (cellCountsSQL (bp_features b) patch) (scratch_path b ''cell_counts.json''),
      json_copy (banCountsSQL (bp_bans b) patch) (scratch_path b ''ban_counts.json''),
      json_copy (buildCountsSQL (bp_features b) patch itemKeyExpr itemExtra) (scratch_path b ''items.json''),
      json_copy (buildCountsSQL (bp_features b) patch runeKeyExpr runeExtra) (scratch_path b ''runes.json''),
      json_copy (buildCountsSQL (bp_features b) patch spellKeyExpr spellExtra) (scratch_path b ''spells.json''),
      json_copy (matchupCountsSQL (bp_features b) patch) (scratch_path b ''matchups.json'')] \<and>
   sql_statements (Exec_script e (envelopeScript b)) =
     preamble_statements (ce_settings e) @ [parquet_copy (envelopeSQL (bp_staged b)) (bp_envelope b)] \<and>
   sql_statements (Exec_script e (patchesScript b region platform queue window)) =
     preamble_statements (ce_settings e) @
     [json_copy (envelopePatchListSQL (bp_envelope b) (envelopeFilterSQL region platform queue window))
        (scratch_path b ''patches_envelope.json'')]"
proof (intro conjI)
  let ?f = "filterSQL region platform queue window []"
  show "sql_statements (Exec_script e (extractScript b ?f)) =
     preamble_statements (ce_settings e) @
     concat (map (batch_copies b ?f) (List.enumerate 0 (batches extractBatchParts (bp_staged b)))) @
     [json_copy (archiveStatsSQL (bp_matches b)) (scratch_path b ''archive_stats.json''),
      json_copy (patchListSQL (bp_features b)) (scratch_path b ''patches.json'')]"
    unfolding extractScript_def by (intro engine_script_reads list_all2_appendI concat_reads batch_reads) simp_all
next
  show "sql_statements (Exec_script e (envelopeScript b)) =
     preamble_statements (ce_settings e) @ [parquet_copy (envelopeSQL (bp_staged b)) (bp_envelope b)]"
    using engine_script_reads [of "[copyParquet (envelopeSQL (bp_staged b)) (bp_envelope b)]"]
    by (simp add: envelopeScript_def joinStatements_def)
next
  show "sql_statements (Exec_script e (patchesScript b region platform queue window)) =
     preamble_statements (ce_settings e) @
     [json_copy (envelopePatchListSQL (bp_envelope b) (envelopeFilterSQL region platform queue window))
        (scratch_path b ''patches_envelope.json'')]"
    using engine_script_reads [of "[copyJSON (envelopePatchListSQL (bp_envelope b)
      (envelopeFilterSQL region platform queue window)) (scratch_path b ''patches_envelope.json'')]"]
    by (simp add: patchesScript_def joinStatements_def)
qed (unfold reduceScript_def, rule engine_script_reads, simp)

section \<open>The bounds are in force\<close>

lemma resolved_settings:
  "resolve_settings os P s0 = Inr s \<Longrightarrow>
     (\<exists>m. parseDuckDBSize P (ds_MemoryLimit s) = Inr m) \<and> (\<exists>t. parseDuckDBSize P (ds_MaxTempSize s) = Inr t) \<and>
     0 < ds_Threads s \<and> (\<exists>parent. ds_TempDir s = join parent spillDirName) \<and> os_CreateTemp os (ds_TempDir s)"
  by (auto simp: resolve_settings_def with_defaults_def DefaultDuckDBThreads_def default_if_nonpos_def Let_def
      split: sum.splits option.splits if_splits)

text \<open>
  C25: the bounds of the engine are in force. An engine that was opened has a memory limit and a spill
  limit DuckDB can read, at least one thread, a spill directory of its own that was written to, and the
  pinned version unless a mismatch was allowed; every script it runs, whatever it contains, begins
  with the statements that set them.
\<close>

theorem engine_bounds_in_force:
  assumes "OpenCLIEngine os P configuredBin allowMismatch s0 = Inr e"
  shows "(\<exists>m. parseDuckDBSize P (ds_MemoryLimit (ce_settings e)) = Inr m) \<and>
    (\<exists>t. parseDuckDBSize P (ds_MaxTempSize (ce_settings e)) = Inr t) \<and> 0 < ds_Threads (ce_settings e) \<and>
    os_CreateTemp os (ds_TempDir (ce_settings e)) \<and> (allowMismatch \<or> ce_version e = DuckDBVersion) \<and>
    take 5 (sql_statements (Exec_script e sql)) = preamble_statements (ce_settings e) \<and>
    drop 5 (sql_statements (Exec_script e sql)) = sql_statements sql"
proof -
  have r: "resolve_settings os P s0 = Inr (ce_settings e)" "allowMismatch \<or> ce_version e = DuckDBVersion"
    using assms by (auto simp: OpenCLIEngine_def split: sum.splits if_splits)
  have "length (preamble_statements (ce_settings e)) = 5" by (simp add: preamble_statements_def)
  then show ?thesis
    using r(2) resolved_settings [OF r(1)] preamble_reads [of "ce_settings e" sql]
    by (simp add: Exec_script_def sql_statements_def del: sql_split.simps)
qed

text \<open>An engine opened with no configuration, on a machine with the pinned client on its path.\<close>

definition demo_parsers :: parsers where
  "demo_parsers = \<lparr>ps_float = \<lambda>s. map_option (\<lambda>n. Finite (of_nat n)) (decimal_val s), ps_duration = \<lambda>s. None, ps_stamp = \<lambda>s. None\<rparr>"

definition demo_os :: os where
  "demo_os = \<lparr>os_TempDir = ''/tmp'', os_Abs = Some, os_Stat = \<lambda>p. None, os_Getenv = \<lambda>v. [], os_LookPath = Some ''/usr/bin/duckdb'',
     os_MkdirAll = \<lambda>p. True, os_CreateTemp = \<lambda>p. True, os_Remove = True,
     os_Version = \<lambda>b. Some ''v1.4.5 (Andium) f31be57c18'', os_Run = \<lambda>b s. True\<rparr>"

definition no_settings :: DuckDBSettings where
  "no_settings = \<lparr>ds_MemoryLimit = [], ds_Threads = 0, ds_TempDir = [], ds_MaxTempSize = []\<rparr>"

definition demo_cli :: CLIEngine where
  "demo_cli = \<lparr>ce_bin = ''/usr/bin/duckdb'', ce_version = ''1.4.5'',
     ce_settings = \<lparr>ds_MemoryLimit = ''2GiB'', ds_Threads = 2, ds_TempDir = ''/tmp/duckdb-spill'', ds_MaxTempSize = ''10GiB''\<rparr>\<rparr>"

lemma demo_opens: "OpenCLIEngine demo_os demo_parsers [] False no_settings = Inr demo_cli"
  by code_simp

theorem engine_bounds_in_force_witness:
  "take 5 (sql_statements (Exec_script demo_cli ''SELECT 1; SELECT 2'')) = preamble_statements (ce_settings demo_cli) \<and>
   drop 5 (sql_statements (Exec_script demo_cli ''SELECT 1; SELECT 2'')) = [''SELECT 1'', ''SELECT 2'']"
proof -
  have "sql_statements ''SELECT 1; SELECT 2'' = [''SELECT 1'', ''SELECT 2'']" by code_simp
  then show ?thesis using engine_bounds_in_force [OF demo_opens] by simp
qed

text \<open>
  An injected quote stays inside its literal: the archive of a build may be anywhere.
\<close>

lemma hostile_path_is_one_statement:
  "length (sql_statements (copyJSON (patchListSQL (sq ''x`); DROP TABLE t; --'')) ''out.json'')) = 1"
  by code_simp

end
