(* ===== verification/Agg_Archive.thy ===== *)
theory Agg_Archive
  imports Agg_Build Raw_Props
begin

text \<open>
  The build's view of the raw archive (\<^verbatim>\<open>internal/aggregate/rawarchive.go\<close>, \<^verbatim>\<open>planArchive\<close> of
  \<^verbatim>\<open>extract.go\<close>): walking the partitions of one source, pruning them by date, and making their parts
  readable. A directory is what listing it answers; the first bytes of a file and the outcome of
  decompressing it are arguments.
\<close>

section \<open>Walking\<close>

definition RawSourceTimeline :: string where
  "RawSourceTimeline = ''match-v5-timeline''"

definition rawSourceDir :: string where
  "rawSourceDir = ''match-v5''"

definition rawPartitionPr :: string where
  "rawPartitionPr = ''dt=''"

record ArchivePart =
  ap_PartitionDate :: string
  ap_Path :: string

record RawArchive =
  ra_Root :: string
  ra_Before :: string
  ra_Source :: string

text \<open>An entry of a listing: its name and whether it is a directory; \<open>None\<close> when the listing fails.\<close>

type_synonym dir_listing = "string \<Rightarrow> (string \<times> bool) list option"

datatype archive_error =
    ArchiveUnreadable string | BadPartition string | PartitionUnreadable string | ArchiveEmpty | NoTimelineArchive
  | ScratchNotCreated | StageStopped | PartUnreadable string | UnknownMagic string | NotDecompressed string

definition sourceDir :: "RawArchive \<Rightarrow> string" where
  "sourceDir a = (if ra_Source a = [] then rawSourceDir else ra_Source a)"

definition emptyErr :: "RawArchive \<Rightarrow> archive_error" where
  "emptyErr a = (if ra_Source a = RawSourceTimeline then NoTimelineArchive else ArchiveEmpty)"

definition isParquetPart :: "string \<Rightarrow> bool" where
  "isParquetPart name = (has_suffix ''.parquet'' name \<or> has_suffix ''.parquet.zst'' name)"

definition archive_base :: "RawArchive \<Rightarrow> string" where
  "archive_base a = join (join (ra_Root a) ''riot'') (sourceDir a)"

definition partition_files :: "string \<Rightarrow> string \<Rightarrow> (string \<times> bool) list \<Rightarrow> ArchivePart list" where
  "partition_files date dir files =
     map (\<lambda>(n, d). \<lparr>ap_PartitionDate = date, ap_Path = join dir n\<rparr>) (filter (\<lambda>(n, d). \<not> d \<and> isParquetPart n) files)"

fun walk_partitions :: "dir_listing \<Rightarrow> RawArchive \<Rightarrow> (string \<times> bool) list \<Rightarrow> archive_error + ArchivePart list" where
  "walk_partitions ls a [] = Inr []"
| "walk_partitions ls a ((name, is_directory) # es) =
     (if \<not> is_directory \<or> \<not> has_prefix rawPartitionPr name then walk_partitions ls a es
      else (let date = drop (length rawPartitionPr) name; dir = join (archive_base a) name
            in if parseDate date = None then Inl (BadPartition name)
               else if ra_Before a \<noteq> [] \<and> date < ra_Before a then walk_partitions ls a es
               else (case ls dir of
                       None \<Rightarrow> Inl (PartitionUnreadable dir)
                     | Some files \<Rightarrow>
                         (case walk_partitions ls a es of
                            Inl e \<Rightarrow> Inl e
                          | Inr ps \<Rightarrow> Inr (partition_files date dir files @ ps)))))"

definition Parts :: "dir_listing \<Rightarrow> RawArchive \<Rightarrow> archive_error + ArchivePart list" where
  "Parts ls a =
     (case ls (archive_base a) of
        None \<Rightarrow> Inl (ArchiveUnreadable (archive_base a))
      | Some es \<Rightarrow>
          (case walk_partitions ls a es of
             Inl e \<Rightarrow> Inl e
           | Inr ps \<Rightarrow> (if ps = [] then Inl (emptyErr a) else Inr (sort_key ap_Path ps))))"

section \<open>Staging\<close>

text \<open>The four bytes of the zstd frame and of Parquet.\<close>

definition zstdMagic :: string where
  "zstdMagic = [CHR 0x28, CHR 0xB5, CHR 0x2F, CHR 0xFD]"

definition parquetMagic :: string where
  "parquetMagic = ''PAR1''"

text \<open>\<open>fa_head\<close>: the bytes of a file, \<open>None\<close> when it cannot be opened; \<open>fa_stop\<close>: the context at the n-th part.\<close>

record file_answers =
  fa_head :: "string \<Rightarrow> string option"
  fa_mkdir :: bool
  fa_decompress :: "string \<Rightarrow> string \<Rightarrow> bool"
  fa_stop :: "nat \<Rightarrow> bool"

definition readMagic :: "file_answers \<Rightarrow> string \<Rightarrow> archive_error + string" where
  "readMagic F path =
     (case fa_head F path of
        None \<Rightarrow> Inl (PartUnreadable path)
      | Some content \<Rightarrow>
          (if length content < length parquetMagic then Inl (PartUnreadable path) else Inr (take (length parquetMagic) content)))"

definition staged_name :: "string \<Rightarrow> nat \<Rightarrow> string" where
  "staged_name scratch i = join scratch (''part-'' @ pad 5 (int i) @ ''.parquet'')"

fun stage_from :: "file_answers \<Rightarrow> string \<Rightarrow> nat \<Rightarrow> ArchivePart list \<Rightarrow> archive_error + string list" where
  "stage_from F scratch i [] = Inr []"
| "stage_from F scratch i (part # parts) =
     (if fa_stop F i then Inl StageStopped
      else (case readMagic F (ap_Path part) of
              Inl e \<Rightarrow> Inl e
            | Inr magic \<Rightarrow>
                (if magic = zstdMagic
                 then (if fa_decompress F (ap_Path part) (staged_name scratch i)
                       then (case stage_from F scratch (Suc i) parts of
                               Inl e \<Rightarrow> Inl e
                             | Inr ps \<Rightarrow> Inr (staged_name scratch i # ps))
                       else Inl (NotDecompressed (ap_Path part)))
                 else if magic = parquetMagic
                 then (case stage_from F scratch (Suc i) parts of
                         Inl e \<Rightarrow> Inl e
                       | Inr ps \<Rightarrow> Inr (ap_Path part # ps))
                 else Inl (UnknownMagic (ap_Path part)))))"

definition StageParts :: "file_answers \<Rightarrow> string \<Rightarrow> ArchivePart list \<Rightarrow> archive_error + string list" where
  "StageParts F scratch parts = (if \<not> fa_mkdir F then Inl ScratchNotCreated else stage_from F scratch 0 parts)"

section \<open>Planning on the archive itself\<close>

datatype plan_error = PlanArchive archive_error | PlanWindow

definition plan_on :: "dir_listing \<Rightarrow> string \<Rightarrow> build_opts \<Rightarrow> plan_error + ArchivePart list \<times> Window" where
  "plan_on ls arch opt =
     (case Parts ls \<lparr>ra_Root = arch, ra_Before = [], ra_Source = []\<rparr> of
        Inl e \<Rightarrow> Inl (PlanArchive e)
      | Inr ps \<Rightarrow>
          (let end_date = (if bo_WindowEnd opt = [] then max_date (map ap_PartitionDate ps) else bo_WindowEnd opt)
           in case windowForEnd end_date (bo_WindowDays opt) of
                None \<Rightarrow> Inl PlanWindow
              | Some window \<Rightarrow>
                  (case Parts ls \<lparr>ra_Root = arch, ra_Before = win_From window, ra_Source = []\<rparr> of
                     Inl e \<Rightarrow> Inl (PlanArchive e)
                   | Inr parts \<Rightarrow> Inr (parts, window))))"

section \<open>What a walk finds\<close>

definition found_in_partition :: "dir_listing \<Rightarrow> RawArchive \<Rightarrow> string \<Rightarrow> ArchivePart \<Rightarrow> bool" where
  "found_in_partition ls a name p =
     (has_prefix rawPartitionPr name \<and> ap_PartitionDate p = drop (length rawPartitionPr) name \<and>
      (ra_Before a \<noteq> [] \<longrightarrow> \<not> ap_PartitionDate p < ra_Before a) \<and>
      (\<exists>files n. ls (join (archive_base a) name) = Some files \<and> (n, False) \<in> set files \<and> isParquetPart n \<and>
         ap_Path p = join (join (archive_base a) name) n))"

definition found_in_walk :: "dir_listing \<Rightarrow> RawArchive \<Rightarrow> (string \<times> bool) list \<Rightarrow> ArchivePart \<Rightarrow> bool" where
  "found_in_walk ls a es p = (\<exists>name. (name, True) \<in> set es \<and> found_in_partition ls a name p)"

lemma mem_partition_files:
  "p \<in> set (partition_files date dir files) \<longleftrightarrow>
     ap_PartitionDate p = date \<and> (\<exists>n. (n, False) \<in> set files \<and> isParquetPart n \<and> ap_Path p = join dir n)"
  by (cases p) (auto simp: partition_files_def image_iff)

lemma found_in_walk_Cons:
  "found_in_walk ls a ((name, d) # es) p \<longleftrightarrow> d \<and> found_in_partition ls a name p \<or> found_in_walk ls a es p"
  by (auto simp: found_in_walk_def)

lemma walk_finds: "walk_partitions ls a es = Inr ps \<Longrightarrow> p \<in> set ps \<longleftrightarrow> found_in_walk ls a es p"
proof (induction es arbitrary: ps)
  case Nil
  then show ?case by (simp add: found_in_walk_def)
next
  case (Cons entry es)
  obtain name is_directory where entry: "entry = (name, is_directory)" by (cases entry)
  let ?date = "drop (length rawPartitionPr) name" and ?dir = "join (archive_base a) name"
  show ?case
  proof (cases "\<not> is_directory \<or> \<not> has_prefix rawPartitionPr name \<or> (ra_Before a \<noteq> [] \<and> ?date < ra_Before a)")
    case True
    then have "walk_partitions ls a es = Inr ps" using Cons.prems by (auto simp: entry Let_def split: if_splits)
    moreover have "\<not> (is_directory \<and> found_in_partition ls a name p)" using True by (auto simp: found_in_partition_def)
    ultimately show ?thesis using Cons.IH by (auto simp: entry found_in_walk_Cons)
  next
    case False
    then obtain files qs where f: "ls ?dir = Some files" "walk_partitions ls a es = Inr qs"
      "ps = partition_files ?date ?dir files @ qs"
      using Cons.prems by (auto simp: entry Let_def split: if_splits option.splits sum.splits)
    have "found_in_partition ls a name p \<longleftrightarrow> p \<in> set (partition_files ?date ?dir files)"
      using False f(1) by (auto simp: found_in_partition_def mem_partition_files)
    then show ?thesis using Cons.IH [OF f(2)] f(3) False by (simp add: entry found_in_walk_Cons)
  qed
qed

lemma Parts_walk:
  assumes "Parts ls a = Inr ps"
  obtains es qs where "ls (archive_base a) = Some es" "walk_partitions ls a es = Inr qs" "qs \<noteq> []" "ps = sort_key ap_Path qs"
  using assms by (auto simp: Parts_def split: option.splits sum.splits if_splits)

text \<open>
  C38: a walk of the archive is exact. What it returns is the parts of the source, sorted by path: every
  regular file with a part's name in a directory of a date not before the bound, and nothing else,
  whatever order the listings have.
\<close>

theorem archive_walk_is_exact:
  assumes "Parts ls a = Inr ps" and "ls (archive_base a) = Some es"
  shows "ps \<noteq> [] \<and> sorted (map ap_Path ps) \<and> (p \<in> set ps \<longleftrightarrow> found_in_walk ls a es p)"
proof -
  obtain qs where q: "walk_partitions ls a es = Inr qs" "qs \<noteq> []" "ps = sort_key ap_Path qs"
    using Parts_walk [OF assms(1)] assms(2) by force
  then have "ps \<noteq> []" by (metis length_0_conv length_sort)
  then show ?thesis using walk_finds [OF q(1)] q(3) by simp
qed

section \<open>Pruning\<close>

lemma prune_partition_files:
  "date < b \<Longrightarrow> filter (\<lambda>p. \<not> ap_PartitionDate p < b) (partition_files date dir files) = []"
  "\<not> date < b \<Longrightarrow> filter (\<lambda>p. \<not> ap_PartitionDate p < b) (partition_files date dir files) = partition_files date dir files"
  by (auto simp: mem_partition_files filter_empty_conv filter_id_conv)

lemma walk_pruned:
  "walk_partitions ls (a\<lparr>ra_Before := []\<rparr>) es = Inr ps \<Longrightarrow> b \<noteq> [] \<Longrightarrow>
     walk_partitions ls (a\<lparr>ra_Before := b\<rparr>) es = Inr (filter (\<lambda>p. \<not> ap_PartitionDate p < b) ps)"
proof (induction es arbitrary: ps)
  case (Cons entry es)
  obtain name is_directory where entry: "entry = (name, is_directory)" by (cases entry)
  show ?case
  proof (cases "\<not> is_directory \<or> \<not> has_prefix rawPartitionPr name")
    case True
    then show ?thesis using Cons by (auto simp: entry)
  next
    case False
    let ?date = "drop (length rawPartitionPr) name" and ?dir = "join (archive_base (a\<lparr>ra_Before := []\<rparr>)) name"
    have base: "archive_base (a\<lparr>ra_Before := b\<rparr>) = archive_base (a\<lparr>ra_Before := []\<rparr>)"
      by (simp add: archive_base_def sourceDir_def)
    obtain files qs where f: "ls ?dir = Some files" "walk_partitions ls (a\<lparr>ra_Before := []\<rparr>) es = Inr qs"
      "ps = partition_files ?date ?dir files @ qs" "parseDate ?date \<noteq> None"
      using Cons.prems(1) False by (auto simp: entry Let_def split: if_splits option.splits sum.splits)
    note IH = Cons.IH [OF f(2) Cons.prems(2)]
    show ?thesis
      using False f IH Cons.prems(2) prune_partition_files [of ?date b ?dir files]
      by (cases "?date < b") (simp_all add: entry Let_def base)
  qed
qed simp

lemma format_date_nonempty: "format_date d \<noteq> []"
  by (simp add: format_date_def Let_def split: prod.splits)

definition engine_parts :: "dir_listing \<Rightarrow> string \<Rightarrow> string list option" where
  "engine_parts ls arch =
     (case Parts ls \<lparr>ra_Root = arch, ra_Before = [], ra_Source = []\<rparr> of
        Inr ps \<Rightarrow> Some (map ap_PartitionDate ps)
      | Inl e \<Rightarrow> if e = ArchiveEmpty then Some [] else None)"

lemma Parts_pruned:
  assumes "Parts ls (a\<lparr>ra_Before := []\<rparr>) = Inr ps" and "b \<noteq> []"
  shows "Parts ls (a\<lparr>ra_Before := b\<rparr>) =
    (let kept = filter (\<lambda>p. \<not> ap_PartitionDate p < b) ps in if kept = [] then Inl (emptyErr a) else Inr kept)"
proof -
  have base: "archive_base (a\<lparr>ra_Before := c\<rparr>) = archive_base a" "emptyErr (a\<lparr>ra_Before := c\<rparr>) = emptyErr a" for c
    by (simp_all add: archive_base_def sourceDir_def emptyErr_def)
  obtain es qs where q: "ls (archive_base a) = Some es" "walk_partitions ls (a\<lparr>ra_Before := []\<rparr>) es = Inr qs"
    "ps = sort_key ap_Path qs" using Parts_walk [OF assms(1)] base by metis
  have "filter (\<lambda>p. \<not> ap_PartitionDate p < b) ps = sort_key ap_Path (filter (\<lambda>p. \<not> ap_PartitionDate p < b) qs)"
    by (simp add: q(3) filter_sort)
  moreover have "(sort_key ap_Path (filter (\<lambda>p. \<not> ap_PartitionDate p < b) qs) = []) = (filter (\<lambda>p. \<not> ap_PartitionDate p < b) qs = [])"
    by (metis length_0_conv length_sort)
  ultimately show ?thesis
    using walk_pruned [OF q(2) assms(2)] by (simp add: Parts_def base q(1) Let_def)
qed

lemma plan_of_walk:
  assumes "en_parts eng = engine_parts ls arch"
  shows "(planArchive eng opt = Inr window) = (\<exists>parts. plan_on ls arch opt = Inr (parts, window)) \<and>
    (\<forall>parts. plan_on ls arch opt = Inr (parts, window) \<longrightarrow>
       (\<exists>found. Parts ls \<lparr>ra_Root = arch, ra_Before = [], ra_Source = []\<rparr> = Inr found \<and>
          parts = filter (\<lambda>p. \<not> ap_PartitionDate p < win_From window) found))"
proof -
  let ?a = "\<lparr>ra_Root = arch, ra_Before = [], ra_Source = []\<rparr>"
  show ?thesis
  proof (cases "Parts ls ?a")
    case (Inl e)
    then show ?thesis using assms by (auto simp: plan_on_def planArchive_def engine_parts_def split: if_splits)
  next
    case (Inr found)
    then have some: "found \<noteq> []" using Parts_walk [OF Inr] by (metis length_0_conv length_sort)
    have dates: "en_parts eng = Some (map ap_PartitionDate found)" using assms Inr by (simp add: engine_parts_def)
    let ?last_day = "if bo_WindowEnd opt = [] then max_date (map ap_PartitionDate found) else bo_WindowEnd opt"
    show ?thesis
    proof (cases "windowForEnd ?last_day (bo_WindowDays opt)")
      case None
      then show ?thesis using Inr dates some by (simp add: plan_on_def planArchive_def Let_def)
    next
      case (Some w)
      then have "win_From w \<noteq> []"
        by (auto simp: windowForEnd_def format_date_nonempty split: option.splits if_splits)
      then have pruned: "Parts ls (?a\<lparr>ra_Before := win_From w\<rparr>) =
          (let kept = filter (\<lambda>p. \<not> ap_PartitionDate p < win_From w) found in if kept = [] then Inl (emptyErr ?a) else Inr kept)"
        using Parts_pruned [of ls ?a found "win_From w"] Inr by simp
      have "(filter (\<lambda>d. \<not> d < win_From w) (map ap_PartitionDate found) = []) =
          (filter (\<lambda>p. \<not> ap_PartitionDate p < win_From w) found = [])" by (simp add: filter_map o_def)
      then show ?thesis
        using Inr dates some Some pruned by (auto simp: plan_on_def planArchive_def Let_def split: if_splits)
    qed
  qed
qed

text \<open>
  C37: planning reads the archive it was given. The plan the build's model makes from the dates of the
  parts is the plan the code makes by walking the archive twice: they succeed together, with the same
  window, and the parts the second walk returns are those of the first that are not older than it.
\<close>

theorem plan_refines_the_walk:
  "(planArchive (eng\<lparr>en_parts := engine_parts ls arch\<rparr>) opt = Inr window) = (\<exists>parts. plan_on ls arch opt = Inr (parts, window)) \<and>
   (case plan_on ls arch opt of
      Inl e \<Rightarrow> True
    | Inr (parts, w) \<Rightarrow>
        \<exists>found. Parts ls \<lparr>ra_Root = arch, ra_Before = [], ra_Source = []\<rparr> = Inr found \<and>
          parts = filter (\<lambda>p. \<not> ap_PartitionDate p < win_From w) found)"
proof -
  have dates: "en_parts (eng\<lparr>en_parts := engine_parts ls arch\<rparr>) = engine_parts ls arch" by simp
  show ?thesis
    using plan_of_walk [OF dates, of opt window] plan_of_walk [OF dates, of opt]
    by (auto split: sum.splits prod.splits)
qed

section \<open>Staging\<close>

lemma stage_from_spec:
  "stage_from F scratch i parts = Inr paths \<Longrightarrow>
     length paths = length parts \<and>
     (\<forall>k < length parts. paths ! k = ap_Path (parts ! k) \<and> readMagic F (ap_Path (parts ! k)) = Inr parquetMagic \<or>
        paths ! k = staged_name scratch (i + k) \<and> readMagic F (ap_Path (parts ! k)) = Inr zstdMagic \<and>
        fa_decompress F (ap_Path (parts ! k)) (staged_name scratch (i + k)))"
proof (induction parts arbitrary: i paths)
  case (Cons part parts)
  obtain magic ps where m: "readMagic F (ap_Path part) = Inr magic" "stage_from F scratch (Suc i) parts = Inr ps"
    "magic = zstdMagic \<and> fa_decompress F (ap_Path part) (staged_name scratch i) \<and> paths = staged_name scratch i # ps \<or>
     magic = parquetMagic \<and> paths = ap_Path part # ps"
    using Cons.prems by (auto split: if_splits sum.splits)
  show ?case using Cons.IH [OF m(2)] m by (auto simp: nth_Cons split: nat.splits)
qed simp

lemma staged_name_inj: "staged_name scratch i = staged_name scratch j \<Longrightarrow> i = j"
  by (auto simp: staged_name_def join_def dest: pad_inj [of "int i" "int j" 5, simplified])

text \<open>
  Staging keeps the parts apart and in order. When it succeeds there is one readable file for each
  part, in the order of the parts: the part itself when it is Parquet, otherwise a decompressed copy in
  the scratch directory, and no two parts share a file.
\<close>

theorem staged_parts_are_distinct:
  assumes "StageParts F scratch parts = Inr paths" and "distinct (map ap_Path parts)"
    and "\<And>p i. p \<in> set parts \<Longrightarrow> ap_Path p \<noteq> staged_name scratch i"
  shows "length paths = length parts \<and> distinct paths \<and>
    (\<forall>k < length parts. paths ! k = (if readMagic F (ap_Path (parts ! k)) = Inr zstdMagic then staged_name scratch k
       else ap_Path (parts ! k)))"
proof -
  have s: "stage_from F scratch 0 parts = Inr paths" using assms(1) by (simp add: StageParts_def split: if_splits)
  note spec = stage_from_spec [OF s]
  have magics: "zstdMagic \<noteq> parquetMagic" by (simp add: zstdMagic_def parquetMagic_def)
  have each: "paths ! k = (if readMagic F (ap_Path (parts ! k)) = Inr zstdMagic then staged_name scratch k
       else ap_Path (parts ! k))" if "k < length parts" for k
    using spec that magics by force
  have "paths ! i \<noteq> paths ! j" if "i < length parts" "j < length parts" "i \<noteq> j" for i j
  proof -
    have "ap_Path (parts ! i) \<noteq> ap_Path (parts ! j)" using assms(2) that by (simp add: distinct_conv_nth)
    moreover have "ap_Path (parts ! i) \<noteq> staged_name scratch k" "ap_Path (parts ! j) \<noteq> staged_name scratch k" for k
      using assms(3) that by simp_all
    ultimately show ?thesis using each that staged_name_inj by (auto split: if_splits) metis+
  qed
  then have "distinct paths" using spec by (simp add: distinct_conv_nth)
  then show ?thesis using spec each by simp
qed

section \<open>An archive of three days\<close>

definition demo_archive :: RawArchive where
  "demo_archive = \<lparr>ra_Root = ''/r'', ra_Before = ''2026-01-02'', ra_Source = []\<rparr>"

definition demo_days :: dir_listing where
  "demo_days p =
     (if p = ''/r/riot/match-v5''
      then Some [(''dt=2026-01-03'', True), (''notes'', True), (''dt=2026-01-01'', True), (''dt=2026-01-02'', True), (''dt=x'', False)]
      else if p = ''/r/riot/match-v5/dt=2026-01-02'' then Some [(''b.parquet'', False), (''a.parquet.zst'', False), (''a.tmp'', False)]
      else if p = ''/r/riot/match-v5/dt=2026-01-03'' then Some [(''c.parquet.zst'', False)] else None)"

definition demo_walked :: "ArchivePart list" where
  "demo_walked =
     [\<lparr>ap_PartitionDate = ''2026-01-02'', ap_Path = ''/r/riot/match-v5/dt=2026-01-02/a.parquet.zst''\<rparr>,
      \<lparr>ap_PartitionDate = ''2026-01-02'', ap_Path = ''/r/riot/match-v5/dt=2026-01-02/b.parquet''\<rparr>,
      \<lparr>ap_PartitionDate = ''2026-01-03'', ap_Path = ''/r/riot/match-v5/dt=2026-01-03/c.parquet.zst''\<rparr>]"

lemma demo_walk: "Parts demo_days demo_archive = Inr demo_walked"
  by code_simp

theorem archive_walk_is_exact_witness:
  "found_in_walk demo_days demo_archive (the (demo_days (archive_base demo_archive))) (hd demo_walked) \<and>
   \<not> found_in_walk demo_days demo_archive (the (demo_days (archive_base demo_archive)))
       \<lparr>ap_PartitionDate = ''2026-01-01'', ap_Path = ''/r/riot/match-v5/dt=2026-01-01/a.parquet''\<rparr>"
proof -
  have "demo_days (archive_base demo_archive) = Some (the (demo_days (archive_base demo_archive)))" by code_simp
  note exact = archive_walk_is_exact [OF demo_walk this]
  have "hd demo_walked \<in> set demo_walked" "\<lparr>ap_PartitionDate = ''2026-01-01'', ap_Path = ''/r/riot/match-v5/dt=2026-01-01/a.parquet''\<rparr> \<notin> set demo_walked"
    by (simp_all add: demo_walked_def)
  then show ?thesis using exact by blast
qed

definition demo_part_heads :: file_answers where
  "demo_part_heads = \<lparr>fa_head = \<lambda>p. Some (if has_suffix ''.zst'' p then zstdMagic @ ''xyz'' else ''PAR1 and more''), fa_mkdir = True,
     fa_decompress = \<lambda>a b. True, fa_stop = \<lambda>n. False\<rparr>"

theorem staged_parts_are_distinct_witness:
  "\<exists>paths. StageParts demo_part_heads ''/s'' demo_walked = Inr paths \<and> distinct paths \<and> length paths = 3"
proof -
  have staged: "StageParts demo_part_heads ''/s'' demo_walked =
      Inr [''/s/part-00000.parquet'', ''/r/riot/match-v5/dt=2026-01-02/b.parquet'', ''/s/part-00002.parquet'']" by code_simp
  have "distinct (map ap_Path demo_walked)" by code_simp
  moreover have "ap_Path p \<noteq> staged_name ''/s'' i" if "p \<in> set demo_walked" for p i
    using that by (auto simp: demo_walked_def staged_name_def join_def)
  ultimately have "length [''/s/part-00000.parquet'', ''/r/riot/match-v5/dt=2026-01-02/b.parquet'', ''/s/part-00002.parquet''] = length demo_walked \<and>
      distinct [''/s/part-00000.parquet'', ''/r/riot/match-v5/dt=2026-01-02/b.parquet'', ''/s/part-00002.parquet'']"
    using staged_parts_are_distinct [OF staged] by blast
  then show ?thesis using staged by (simp add: demo_walked_def)
qed

end
