(* ===== verification/Agg_Features_SQL.thy ===== *)
theory Agg_Features_SQL
  imports Agg_SQL
begin

text \<open>
  The text of the statements of the feature dataset (\<^verbatim>\<open>internal/aggregate/features_sql.go\<close>), in the
  order of the source, as \<open>Agg_SQL\<close> writes text.
\<close>

section \<open>Constants and filters\<close>

definition featureSummarySource :: string where
  "featureSummarySource = ''match-v5''"

definition featureTimelineSource :: string where
  "featureTimelineSource = ''match-v5-timeline''"

definition featureBatchParts :: nat where
  "featureBatchParts = 4"

definition featureScopeFilter :: "string \<Rightarrow> string \<Rightarrow> string \<Rightarrow> int \<Rightarrow> string" where
  "featureScopeFilter prefix region platform queue =
     (let conditions =
        (if to_upper (trim_space region) \<noteq> [] \<or> trim_space platform \<noteq> []
         then [platformCondition prefix (platformFilter region platform)] else []) @
        (if 0 < queue then [(if prefix \<noteq> [] then prefix @ ''.queue_id'' else ''queue_id'') @ '' = '' @ show_int queue] else [])
      in if conditions = [] then [] else ''WHERE '' @ strings_join '' AND '' conditions)"

section \<open>The two envelopes\<close>

definition patchOf :: "string \<Rightarrow> string" where
  "patchOf column =
     ''CASE WHEN '' @ column @ '' IS NOT NULL AND length('' @ column @ '') - length(replace('' @ column @ sq '', `.`, ``)) >= 1'' @
     '' THEN split_part('' @ column @ sq '', `.`, 1) || `.` || split_part('' @ column @ sq '', `.`, 2) END''"

definition summaryEnvelopeSQL :: "string list \<Rightarrow> string" where
  "summaryEnvelopeSQL parts =
     sql_lines
     [''SELECT'',
      ''  part,'',
      ''  part_row,'',
      ''  match_id,'',
      ''  region,'',
      ''  '' @ patchOf ''game_version'' @ '' AS patch,'',
      ''  game_version,'',
      ''  queue_id,'',
      ''  game_creation_ms,'',
      ''  game_duration_s,'',
      ''  platform_id,'',
      ''  participants,'',
      ''  end_of_game_result,'',
      ''  payload_valid'',
      ''FROM ('',
      ''  SELECT filename AS part,'',
      ''         file_row_number AS part_row,'',
      ''         region,'',
      ''         '' @ envelope_text ''$.metadata.matchId'' @ '' AS match_id,'',
      ''         '' @ envelope_text ''$.info.gameVersion'' @ '' AS game_version,'',
      ''         '' @ envelope_number ''$.info.queueId'' ''INTEGER'' @ '' AS queue_id,'',
      ''         '' @ envelope_number ''$.info.gameCreation'' ''BIGINT'' @ '' AS game_creation_ms,'',
      ''         '' @ envelope_number ''$.info.gameDuration'' ''INTEGER'' @ '' AS game_duration_s,'',
      ''         '' @ envelope_text ''$.info.platformId'' @ '' AS platform_id,'',
      ''         '' @ envelope_arrayLen ''$.info.participants'' @ '' AS participants,'',
      ''         '' @ envelope_text ''$.info.endOfGameResult'' @ '' AS end_of_game_result,'',
      ''         json_valid(payload) AS payload_valid'',
      ''  FROM read_parquet('' @ fileList parts @ '', union_by_name = true, filename = true, file_row_number = true)'',
      '') extracted'',
      ''QUALIFY ROW_NUMBER() OVER ('',
      sq ''  PARTITION BY COALESCE(match_id, part || `#` || CAST(part_row AS VARCHAR))'',
      ''  ORDER BY part, part_row) = 1'']"

definition participantFrameCount :: string where
  "participantFrameCount =
     (let frames = ''COALESCE(CAST(json_extract(payload, '' @ quoteLiteral ''$.info.frames'' @ sq '') AS VARCHAR), `[]`)''
      in ''CASE WHEN json_valid(payload) THEN (SELECT count(*) FROM UNNEST(from_json('' @ frames @
         sq '', `[\"JSON\"]`)) AS f(value), json_each(json_extract(f.value, '' @
         quoteLiteral ''$.participantFrames'' @ '')) AS pf WHERE pf.key IS NOT NULL) END'')"

definition timelineEnvelopeSQL :: "string list \<Rightarrow> string" where
  "timelineEnvelopeSQL parts =
     sql_lines
     [''SELECT'',
      ''  part,'',
      ''  part_row,'',
      ''  match_id,'',
      ''  region,'',
      ''  patch,'',
      ''  game_version,'',
      ''  queue_id,'',
      ''  game_creation_ms,'',
      ''  game_duration_s,'',
      ''  platform_id,'',
      ''  frame_interval_ms,'',
      ''  frame_count,'',
      ''  participant_frame_count,'',
      ''  payload_valid'',
      ''FROM ('',
      ''  SELECT filename AS part,'',
      ''         file_row_number AS part_row,'',
      ''         match_id,'',
      ''         region,'',
      ''         patch,'',
      ''         game_version,'',
      ''         queue_id,'',
      ''         game_creation_ms,'',
      ''         game_duration_s,'',
      ''         region AS platform_id,'',
      ''         '' @ envelope_number ''$.info.frameInterval'' ''INTEGER'' @ '' AS frame_interval_ms,'',
      ''         '' @ envelope_arrayLen ''$.info.frames'' @ '' AS frame_count,'',
      ''         '' @ participantFrameCount @ '' AS participant_frame_count,'',
      ''         json_valid(payload) AS payload_valid'',
      ''  FROM read_parquet('' @ fileList parts @ '', union_by_name = true, filename = true, file_row_number = true)'',
      '') extracted'',
      ''QUALIFY ROW_NUMBER() OVER ('',
      sq ''  PARTITION BY COALESCE(match_id, part || `#` || CAST(part_row AS VARCHAR))'',
      ''  ORDER BY part, part_row) = 1'']"

section \<open>Payloads and participants\<close>

definition projected_columns :: "string list \<Rightarrow> string" where
  "projected_columns columns = concat (map (\<lambda>c. ''  e.'' @ c @ '','' @ [line_end]) columns)"

definition carriedPayloadSQL :: "string \<Rightarrow> string list \<Rightarrow> string \<Rightarrow> string list \<Rightarrow> string" where
  "carriedPayloadSQL envelopePath parts scope columns =
     sql_lines
     [''SELECT'',
      projected_columns columns @ ''  CASE WHEN e.payload_valid THEN CAST(a.payload AS VARCHAR) END AS payload'',
      ''FROM ('',
      ''  SELECT filename, file_row_number, payload'',
      ''  FROM read_parquet('' @ fileList parts @ '', union_by_name = true, filename = true, file_row_number = true)'',
      '') a'',
      ''JOIN '' @ parquetOf envelopePath @ '' e ON a.filename = e.part AND a.file_row_number = e.part_row'',
      scope]"

definition summaryParticipantSQL :: "string \<Rightarrow> string" where
  "summaryParticipantSQL matchesPath =
     sql_lines
     [''SELECT'',
      ''  m.match_id,'',
      ''  m.region,'',
      ''  m.patch,'',
      ''  m.queue_id,'',
      ''  m.platform_id,'',
      ''  epoch_ms(m.game_creation_ms) AS game_creation,'',
      ''  m.game_duration_s,'',
      sq ''  CAST(json_extract(p.value, `$.participantId`) AS INTEGER) AS participant_id,'',
      sq ''  CAST(json_extract(p.value, `$.championId`) AS INTEGER) AS champion_id,'',
      sq ''  CAST(json_extract(p.value, `$.teamId`) AS INTEGER) AS team_id,'',
      ''  '' @ participantRoleSQL (position_field ''$.teamPosition'') (position_field ''$.individualPosition'') @ '' AS role,'',
      sq ''  json_extract_string(p.value, `$.teamPosition`) AS team_position,'',
      sq ''  json_extract_string(p.value, `$.individualPosition`) AS individual_position,'',
      sq ''  CAST(json_extract(p.value, `$.win`) AS BOOLEAN) AS win'',
      ''FROM '' @ parquetOf matchesPath @ '' m,'',
      sq ''     UNNEST(from_json(json_extract(m.payload, `$.info.participants`), `[\"JSON\"]`)) AS p(value)'',
      ''WHERE m.payload IS NOT NULL'']"

section \<open>Frames and events\<close>

definition framesExpr :: "string \<Rightarrow> string" where
  "framesExpr payload =
     ''from_json(COALESCE(CAST(json_extract('' @ payload @ sq '', `$.info.frames`) AS VARCHAR), `[]`), `[\"JSON\"]`)''"

definition frame_field :: "string \<Rightarrow> string \<Rightarrow> string" where
  "frame_field path kind = sq ''CAST(json_extract(pf.value, `'' @ path @ sq ''`) AS '' @ kind @ '')''"

definition event_value :: "string \<Rightarrow> string \<Rightarrow> string" where
  "event_value path kind = sq ''CAST(json_extract(e.value, `'' @ path @ sq ''`) AS '' @ kind @ '')''"

definition event_text :: "string \<Rightarrow> string" where
  "event_text path = sq ''json_extract_string(e.value, `'' @ path @ sq ''`)''"

definition event_timestamp :: string where
  "event_timestamp = sq ''CAST(json_extract(e.value, `$.timestamp`) AS BIGINT)''"

definition timelineFramesSQL :: "string \<Rightarrow> string" where
  "timelineFramesSQL matchesPath =
     sql_lines
     [''SELECT'',
      ''  m.match_id,'',
      ''  m.region,'',
      ''  m.patch,'',
      ''  m.queue_id,'',
      ''  CAST(pf.key AS INTEGER) AS participant_id,'',
      sq ''  CAST(json_extract(f.value, `$.timestamp`) AS BIGINT) AS frame_timestamp_ms,'',
      sq ''  CAST(floor(CAST(json_extract(f.value, `$.timestamp`) AS BIGINT) / 60000.0) AS INTEGER) AS minute,'',
      ''  '' @ frame_field ''$.level'' ''INTEGER'' @ '' AS level,'',
      ''  '' @ frame_field ''$.xp'' ''BIGINT'' @ '' AS xp,'',
      ''  '' @ frame_field ''$.totalGold'' ''INTEGER'' @ '' AS total_gold,'',
      ''  '' @ frame_field ''$.currentGold'' ''INTEGER'' @ '' AS current_gold,'',
      ''  '' @ frame_field ''$.minionsKilled'' ''INTEGER'' @ '' AS minions_killed,'',
      ''  '' @ frame_field ''$.jungleMinionsKilled'' ''INTEGER'' @ '' AS jungle_minions_killed,'',
      ''  '' @ frame_field ''$.minionsKilled'' ''INTEGER'' @ '' + '' @ frame_field ''$.jungleMinionsKilled'' ''INTEGER'' @ '' AS cs_total,'',
      ''  '' @ frame_field ''$.position.x'' ''INTEGER'' @ '' AS position_x,'',
      ''  '' @ frame_field ''$.position.y'' ''INTEGER'' @ '' AS position_y'',
      ''FROM '' @ parquetOf matchesPath @ '' m,'',
      ''     UNNEST('' @ framesExpr ''m.payload'' @ '') AS f(value),'',
      sq ''     json_each(json_extract(f.value, `$.participantFrames`)) AS pf'',
      ''WHERE m.payload IS NOT NULL'']"

definition timelineEventsSQL :: "string \<Rightarrow> string" where
  "timelineEventsSQL matchesPath =
     sql_lines
     [''SELECT'',
      ''  match_id,'',
      ''  region,'',
      ''  patch,'',
      ''  queue_id,'',
      ''  CAST(row_number() OVER (PARTITION BY match_id ORDER BY frame_index, event_in_frame) - 1 AS INTEGER) AS event_index,'',
      ''  timestamp_ms,'',
      ''  minute,'',
      ''  event_type,'',
      ''  actor_participant_id,'',
      ''  target_participant_id,'',
      ''  assisting_participant_ids,'',
      ''  team_id,'',
      ''  position_x,'',
      ''  position_y,'',
      ''  lane_type,'',
      ''  monster_type,'',
      ''  monster_subtype,'',
      ''  building_type,'',
      ''  tower_type,'',
      ''  ward_type,'',
      ''  item_id,'',
      ''  before_item_id,'',
      ''  after_item_id,'',
      ''  skill_slot,'',
      ''  level,'',
      ''  kill_type,'',
      ''  multi_kill_length,'',
      ''  transform_type,'',
      ''  kill_streak_length,'',
      ''  bounty,'',
      ''  shutdown_bounty,'',
      ''  winning_team,'',
      sq ''  (event_type = `SKILL_LEVEL_UP`'',
      ''    AND row_number() OVER ('',
      ''      PARTITION BY match_id, actor_participant_id, skill_slot, level'',
      ''      ORDER BY frame_index, event_in_frame) > 1) AS is_duplicate_skill_level_up'',
      ''FROM ('',
      ''  SELECT'',
      ''    m.match_id,'',
      ''    m.region,'',
      ''    m.patch,'',
      ''    m.queue_id,'',
      ''    f.frame_index,'',
      ''    e.event_index AS event_in_frame,'',
      ''    '' @ event_timestamp @ '' AS timestamp_ms,'',
      ''    CAST(floor('' @ event_timestamp @ '' / 60000.0) AS INTEGER) AS minute,'',
      ''    '' @ event_text ''$.type'' @ '' AS event_type,'',
      ''    COALESCE('' @ event_value ''$.participantId'' ''INTEGER'' @ '', '' @ event_value ''$.killerId'' ''INTEGER'' @ '', '' @ event_value ''$.creatorId'' ''INTEGER'' @ '') AS actor_participant_id,'',
      ''    '' @ event_value ''$.victimId'' ''INTEGER'' @ '' AS target_participant_id,'',
      ''    '' @ event_value ''$.assistingParticipantIds'' ''INTEGER[]'' @ '' AS assisting_participant_ids,'',
      ''    '' @ event_value ''$.teamId'' ''INTEGER'' @ '' AS team_id,'',
      ''    '' @ event_value ''$.position.x'' ''INTEGER'' @ '' AS position_x,'',
      ''    '' @ event_value ''$.position.y'' ''INTEGER'' @ '' AS position_y,'',
      ''    '' @ event_text ''$.laneType'' @ '' AS lane_type,'',
      ''    '' @ event_text ''$.monsterType'' @ '' AS monster_type,'',
      ''    COALESCE('' @ event_text ''$.monsterSubType'' @ '', '' @ event_text ''$.soulType'' @ '') AS monster_subtype,'',
      ''    '' @ event_text ''$.buildingType'' @ '' AS building_type,'',
      ''    '' @ event_text ''$.towerType'' @ '' AS tower_type,'',
      ''    '' @ event_text ''$.wardType'' @ '' AS ward_type,'',
      ''    '' @ event_value ''$.itemId'' ''INTEGER'' @ '' AS item_id,'',
      ''    '' @ event_value ''$.beforeId'' ''INTEGER'' @ '' AS before_item_id,'',
      ''    '' @ event_value ''$.afterId'' ''INTEGER'' @ '' AS after_item_id,'',
      ''    '' @ event_value ''$.skillSlot'' ''INTEGER'' @ '' AS skill_slot,'',
      ''    '' @ event_value ''$.level'' ''INTEGER'' @ '' AS level,'',
      ''    '' @ event_text ''$.killType'' @ '' AS kill_type,'',
      ''    '' @ event_value ''$.multiKillLength'' ''INTEGER'' @ '' AS multi_kill_length,'',
      ''    '' @ event_text ''$.transformType'' @ '' AS transform_type,'',
      ''    '' @ event_value ''$.killStreakLength'' ''INTEGER'' @ '' AS kill_streak_length,'',
      ''    '' @ event_value ''$.bounty'' ''INTEGER'' @ '' AS bounty,'',
      ''    '' @ event_value ''$.shutdownBounty'' ''INTEGER'' @ '' AS shutdown_bounty,'',
      ''    '' @ event_value ''$.winningTeam'' ''INTEGER'' @ '' AS winning_team'',
      ''  FROM '' @ parquetOf matchesPath @ '' m,'',
      ''       UNNEST('' @ framesExpr ''m.payload'' @ '') WITH ORDINALITY AS f(value, frame_index),'',
      sq ''       UNNEST(from_json(COALESCE(CAST(json_extract(f.value, `$.events`) AS VARCHAR), `[]`), `[\"JSON\"]`))'',
      ''         WITH ORDINALITY AS e(value, event_index)'',
      ''  WHERE m.payload IS NOT NULL'',
      '') extracted'']"

section \<open>Kill points and checkpoints\<close>

definition kill_branch :: "string \<Rightarrow> string \<Rightarrow> string \<Rightarrow> string \<Rightarrow> string \<Rightarrow> string" where
  "kill_branch eventsPath participant kills deaths assists =
     sql_lines
     [''  SELECT'',
      ''    match_id,'',
      ''    '' @ participant @ '' AS participant_id,'',
      ''    timestamp_ms,'',
      ''    '' @ kills @ '' AS kills,'',
      ''    '' @ deaths @ '' AS deaths,'',
      ''    '' @ assists @ '' AS assists'',
      ''  FROM '' @ parquetOf eventsPath,
      sq ''  WHERE event_type = `CHAMPION_KILL` AND '' @ participant @ '' > 0'']"

definition killPointsSQL :: "string \<Rightarrow> string" where
  "killPointsSQL eventsPath =
     sql_lines
     [''SELECT match_id, participant_id, timestamp_ms, kills, deaths, assists'',
      ''FROM ('',
      kill_branch eventsPath ''actor_participant_id'' ''1'' ''0'' ''0'',
      ''  UNION ALL'',
      kill_branch eventsPath ''target_participant_id'' ''0'' ''1'' ''0'',
      ''  UNION ALL'',
      ''  SELECT'',
      ''    match_id,'',
      ''    CAST(unnest(assisting_participant_ids) AS INTEGER) AS participant_id,'',
      ''    timestamp_ms,'',
      ''    0 AS kills,'',
      ''    0 AS deaths,'',
      ''    1 AS assists'',
      ''  FROM '' @ parquetOf eventsPath,
      sq ''  WHERE event_type = `CHAMPION_KILL` AND length(assisting_participant_ids) > 0'',
      '') points'']"

definition checkpointPicksSQL :: "string \<Rightarrow> string" where
  "checkpointPicksSQL minutesPath =
     sql_lines
     [''WITH frames AS ('',
      ''  SELECT match_id, participant_id, frame_timestamp_ms, cs_total, xp, total_gold, level,'',
      ''         kills_to_minute, deaths_to_minute, assists_to_minute'',
      ''  FROM '' @ parquetOf minutesPath,
      ''),'',
      ''checkpoints AS (SELECT * FROM (VALUES (5), (10), (15)) AS t(checkpoint)),'',
      ''last_frame AS ('',
      ''  SELECT match_id, max(frame_timestamp_ms) AS last_frame_ms FROM frames GROUP BY match_id'',
      ''),'',
      ''nearest AS ('',
      ''  SELECT'',
      ''    f.match_id,'',
      ''    f.participant_id,'',
      ''    c.checkpoint,'',
      ''    f.frame_timestamp_ms,'',
      ''    f.cs_total,'',
      ''    f.xp,'',
      ''    f.total_gold,'',
      ''    f.level,'',
      ''    f.kills_to_minute,'',
      ''    f.deaths_to_minute,'',
      ''    f.assists_to_minute,'',
      ''    row_number() OVER ('',
      ''      PARTITION BY f.match_id, f.participant_id, c.checkpoint'',
      ''      ORDER BY abs(f.frame_timestamp_ms - c.checkpoint * 60000), f.frame_timestamp_ms) AS pick'',
      ''  FROM frames f'',
      ''  JOIN checkpoints c'',
      ''    ON f.frame_timestamp_ms BETWEEN c.checkpoint * 60000 - 60000 AND c.checkpoint * 60000 + 30000'',
      ''  JOIN last_frame l'',
      ''    ON l.match_id = f.match_id AND c.checkpoint * 60000 <= l.last_frame_ms'',
      '')'',
      ''SELECT'',
      ''  match_id,'',
      ''  participant_id,'',
      ''  checkpoint,'',
      ''  frame_timestamp_ms,'',
      ''  cs_total,'',
      ''  xp,'',
      ''  total_gold,'',
      ''  level,'',
      ''  kills_to_minute,'',
      ''  deaths_to_minute,'',
      ''  assists_to_minute'',
      ''FROM nearest'',
      ''WHERE pick = 1'']"

section \<open>Lane matchups\<close>

definition lane_joins :: "int \<Rightarrow> string list" where
  "lane_joins minute =
     (let mine = ''c'' @ show_int minute; theirs = ''o'' @ show_int minute
      in [''LEFT JOIN chk '' @ mine @ '' ON '' @ mine @ ''.match_id = pr.match_id AND '' @ mine @
            ''.participant_id = pr.participant_id AND '' @ mine @ ''.checkpoint = '' @ show_int minute,
          ''LEFT JOIN chk '' @ theirs @ '' ON '' @ theirs @ ''.match_id = pr.match_id AND '' @ theirs @
            ''.participant_id = pr.opponent_participant_id AND '' @ theirs @ ''.checkpoint = '' @ show_int minute])"

definition lane_pairs :: "int \<Rightarrow> (string \<times> string) list" where
  "lane_pairs minute =
     (let m = show_int minute; mine = ''c'' @ m; theirs = ''o'' @ m
      in [(mine @ ''.cs_total'', ''cs_'' @ m),
          (theirs @ ''.cs_total'', ''opponent_cs_'' @ m),
          (mine @ ''.cs_total - '' @ theirs @ ''.cs_total'', ''cs_diff_'' @ m),
          (mine @ ''.xp - '' @ theirs @ ''.xp'', ''xp_diff_'' @ m),
          (mine @ ''.total_gold - '' @ theirs @ ''.total_gold'', ''gold_diff_'' @ m),
          (mine @ ''.level - '' @ theirs @ ''.level'', ''level_diff_'' @ m),
          (mine @ ''.kills_to_minute'', ''kills_'' @ m),
          (mine @ ''.deaths_to_minute'', ''deaths_'' @ m),
          (mine @ ''.assists_to_minute'', ''assists_'' @ m)])"

definition lane_columns :: "string list" where
  "lane_columns = concat (map (\<lambda>minute. map (\<lambda>(e, a). e @ '' AS '' @ a) (lane_pairs minute)) [5, 10, 15])"

definition laneMatchupsSQL :: "string \<Rightarrow> string \<Rightarrow> string \<Rightarrow> string" where
  "laneMatchupsSQL matchIndexPath participantsPath checkpointsPath =
     sql_lines
     [''WITH p AS ('',
      ''  SELECT pa.*'',
      ''  FROM '' @ parquetOf participantsPath @ '' pa'',
      ''  JOIN '' @ parquetOf matchIndexPath @ '' mi ON mi.match_id = pa.match_id AND mi.timeline_eligible'',
      ''),'',
      ''pairs AS ('',
      ''  SELECT'',
      ''    a.match_id,'',
      ''    a.region,'',
      ''    a.patch,'',
      ''    a.queue_id,'',
      ''    a.participant_id,'',
      ''    b.participant_id AS opponent_participant_id,'',
      ''    a.role,'',
      ''    a.champion_id,'',
      ''    b.champion_id AS opponent_champion_id,'',
      ''    a.team_id,'',
      ''    a.win,'',
      sq ''    `team_position` AS pairing_basis,'',
      sq ''    a.role IN (`BOTTOM`, `SUPPORT`) AS is_duo_lane,'',
      sq ''    a.role <> `JUNGLE` AS has_nominal_opponent'',
      ''  FROM p a'',
      ''  JOIN p b ON b.match_id = a.match_id AND b.role = a.role AND b.team_id <> a.team_id'',
      ''  WHERE a.role IS NOT NULL'',
      ''),'',
      ''chk AS (SELECT * FROM '' @ parquetOf checkpointsPath @ '')'',
      ''SELECT'',
      ''  pr.match_id,'',
      ''  pr.region,'',
      ''  pr.patch,'',
      ''  pr.queue_id,'',
      ''  pr.participant_id,'',
      ''  pr.opponent_participant_id,'',
      ''  pr.role,'',
      ''  pr.champion_id,'',
      ''  pr.opponent_champion_id,'',
      ''  pr.team_id,'',
      ''  pr.win,'',
      ''  pr.pairing_basis,'',
      ''  pr.is_duo_lane,'',
      ''  pr.has_nominal_opponent,'',
      ''  '' @ strings_join ('','' @ [line_end] @ ''  '') lane_columns,
      ''FROM pairs pr'',
      strings_join [line_end] (concat (map lane_joins [5, 10, 15]))]"

section \<open>Event actors and early features\<close>

definition actor_columns :: "string" where
  "actor_columns =
     sql_lines
     [''match_id,'',
      ''    event_index,'',
      ''    event_type,'',
      ''    timestamp_ms,'',
      ''    minute,'',
      ''    team_id,'',
      ''    lane_type,'',
      ''    ward_type,'',
      ''    monster_type,'',
      ''    monster_subtype,'',
      ''    skill_slot,'',
      ''    level,'',
      ''    item_id,'',
      ''    position_x,'',
      ''    position_y,'',
      ''    is_duplicate_skill_level_up'']"

definition actor_branch :: "string \<Rightarrow> string \<Rightarrow> string \<Rightarrow> string" where
  "actor_branch eventsPath column role =
     sql_lines
     [''  SELECT'',
      ''    '' @ actor_columns @ '','',
      ''    '' @ column @ '' AS participant_id,'',
      sq ''    `'' @ role @ sq ''` AS role_in_event'',
      ''  FROM '' @ parquetOf eventsPath,
      ''  WHERE '' @ column @ '' > 0'']"

definition eventActorsSQL :: "string \<Rightarrow> string" where
  "eventActorsSQL eventsPath =
     sql_lines
     [''SELECT * FROM ('',
      actor_branch eventsPath ''actor_participant_id'' ''actor'',
      ''  UNION ALL'',
      actor_branch eventsPath ''target_participant_id'' ''target'',
      ''  UNION ALL'',
      ''  SELECT'',
      ''    '' @ actor_columns @ '','',
      ''    CAST(unnest(assisting_participant_ids) AS INTEGER) AS participant_id,'',
      sq ''    `assist` AS role_in_event'',
      ''  FROM '' @ parquetOf eventsPath,
      ''  WHERE length(assisting_participant_ids) > 0'',
      '') event_participants'']"

definition participantEarlySQL :: "string \<Rightarrow> string \<Rightarrow> string \<Rightarrow> string \<Rightarrow> string" where
  "participantEarlySQL matchIndexPath participantsPath actorsPath checkpointsPath =
     sql_lines
     [''WITH p AS ('',
      ''  SELECT pa.match_id, pa.region, pa.patch, pa.queue_id, pa.participant_id, pa.champion_id,'',
      ''         pa.role, pa.team_id, pa.win'',
      ''  FROM '' @ parquetOf participantsPath @ '' pa'',
      ''  JOIN '' @ parquetOf matchIndexPath @ '' mi ON mi.match_id = pa.match_id AND mi.timeline_eligible'',
      ''),'',
      ''a AS (SELECT * FROM '' @ parquetOf actorsPath @ ''),'',
      ''involvement AS ('',
      ''  SELECT'',
      ''    match_id,'',
      ''    participant_id,'',
      sq ''    count(*) FILTER (WHERE event_type = `WARD_PLACED` AND role_in_event = `actor`) AS wards_placed,'',
      sq ''    count(*) FILTER (WHERE event_type = `WARD_KILL` AND role_in_event = `actor`) AS wards_killed,'',
      sq ''    count(*) FILTER (WHERE event_type = `TURRET_PLATE_DESTROYED` AND role_in_event = `actor`) AS plates_destroyed,'',
      sq ''    count(*) FILTER (WHERE event_type = `ELITE_MONSTER_KILL` AND monster_type = `DRAGON`'',
      sq ''                       AND role_in_event IN (`actor`, `assist`)) AS dragons_participated,'',
      sq ''    count(*) FILTER (WHERE event_type = `ELITE_MONSTER_KILL` AND monster_type = `HORDE`'',
      sq ''                       AND role_in_event IN (`actor`, `assist`)) AS grubs_participated,'',
      sq ''    count(*) FILTER (WHERE event_type = `ELITE_MONSTER_KILL` AND monster_type = `RIFTHERALD`'',
      sq ''                       AND role_in_event IN (`actor`, `assist`)) AS heralds_participated,'',
      sq ''    count(*) FILTER (WHERE event_type = `ELITE_MONSTER_KILL` AND monster_type = `BARON_NASHOR`'',
      sq ''                       AND role_in_event IN (`actor`, `assist`)) AS barons_participated,'',
      sq ''    count(*) FILTER (WHERE event_type = `ELITE_MONSTER_KILL` AND monster_type = `ATAKHAN`'',
      sq ''                       AND role_in_event IN (`actor`, `assist`)) AS atakhan_participated,'',
      sq ''    count(*) FILTER (WHERE event_type = `SKILL_LEVEL_UP` AND role_in_event = `actor`'',
      ''                       AND is_duplicate_skill_level_up) AS duplicate_skill_ups,'',
      sq ''    min(timestamp_ms) FILTER (WHERE event_type = `CHAMPION_KILL` AND role_in_event = `target`)'',
      ''      AS first_death_ts_ms,'',
      sq ''    arg_min(position_x, timestamp_ms) FILTER (WHERE event_type = `CHAMPION_KILL` AND role_in_event = `target`)'',
      ''      AS first_death_position_x,'',
      sq ''    arg_min(position_y, timestamp_ms) FILTER (WHERE event_type = `CHAMPION_KILL` AND role_in_event = `target`)'',
      ''      AS first_death_position_y'',
      ''  FROM a'',
      ''  GROUP BY 1, 2'',
      ''),'',
      ''first_blood_event AS ('',
      ''  SELECT match_id, min(event_index) AS event_index'',
      ''  FROM a'',
      sq ''  WHERE event_type = `CHAMPION_KILL`'',
      ''  GROUP BY match_id'',
      ''),'',
      ''first_blood AS ('',
      ''  SELECT a.match_id, a.participant_id, TRUE AS first_blood_involvement'',
      ''  FROM a'',
      ''  JOIN first_blood_event fb ON fb.match_id = a.match_id AND fb.event_index = a.event_index'',
      sq ''  WHERE a.role_in_event IN (`actor`, `assist`)'',
      ''),'',
      ''skills AS ('',
      ''  SELECT'',
      ''    match_id,'',
      ''    participant_id,'',
      sq ''    string_agg(CAST(skill_slot AS VARCHAR), `` ORDER BY timestamp_ms, event_index) AS skill_order'',
      ''  FROM a'',
      sq ''  WHERE event_type = `SKILL_LEVEL_UP` AND role_in_event = `actor`'',
      ''    AND NOT is_duplicate_skill_level_up AND skill_slot IS NOT NULL'',
      ''  GROUP BY 1, 2'',
      ''),'',
      ''item_sequence AS ('',
      ''  SELECT'',
      ''    match_id,'',
      ''    participant_id,'',
      ''    timestamp_ms,'',
      ''    item_id,'',
      ''    row_number() OVER (PARTITION BY match_id, participant_id ORDER BY timestamp_ms, event_index) AS seq'',
      ''  FROM a'',
      sq ''  WHERE event_type = `ITEM_PURCHASED` AND role_in_event = `actor` AND item_id > 0'',
      ''),'',
      ''items AS ('',
      ''  SELECT'',
      ''    match_id,'',
      ''    participant_id,'',
      ''    min(timestamp_ms) FILTER (WHERE seq = 1) AS first_item_ts_ms,'',
      ''    min(item_id) FILTER (WHERE seq = 1) AS first_item_id,'',
      ''    min(timestamp_ms) FILTER (WHERE seq = 2) AS second_item_ts_ms,'',
      ''    min(item_id) FILTER (WHERE seq = 2) AS second_item_id'',
      ''  FROM item_sequence'',
      ''  GROUP BY 1, 2'',
      ''),'',
      ''plate_cum AS ('',
      ''  SELECT'',
      ''    match_id,'',
      ''    participant_id,'',
      ''    timestamp_ms,'',
      ''    count(*) OVER ('',
      ''      PARTITION BY match_id, participant_id'',
      ''      ORDER BY timestamp_ms ROWS BETWEEN UNBOUNDED PRECEDING AND CURRENT ROW) AS plates'',
      ''  FROM a'',
      sq ''  WHERE event_type = `TURRET_PLATE_DESTROYED` AND role_in_event = `actor`'',
      ''),'',
      ''plates_at AS ('',
      ''  SELECT'',
      ''    c.match_id,'',
      ''    c.participant_id,'',
      ''    max(COALESCE(pc.plates, 0)) FILTER (WHERE c.checkpoint = 5) AS plates_at_5,'',
      ''    max(COALESCE(pc.plates, 0)) FILTER (WHERE c.checkpoint = 10) AS plates_at_10,'',
      ''    max(COALESCE(pc.plates, 0)) FILTER (WHERE c.checkpoint = 15) AS plates_at_15'',
      ''  FROM '' @ parquetOf checkpointsPath @ '' c'',
      ''  ASOF LEFT JOIN plate_cum pc'',
      ''    ON pc.match_id = c.match_id AND pc.participant_id = c.participant_id'',
      ''   AND c.frame_timestamp_ms >= pc.timestamp_ms'',
      ''  GROUP BY 1, 2'',
      '')'',
      ''SELECT'',
      ''  p.match_id,'',
      ''  p.region,'',
      ''  p.patch,'',
      ''  p.queue_id,'',
      ''  p.participant_id,'',
      ''  p.champion_id,'',
      ''  p.role,'',
      ''  p.team_id,'',
      ''  p.win,'',
      ''  COALESCE(fb.first_blood_involvement, FALSE) AS first_blood_involvement,'',
      ''  inv.first_death_ts_ms,'',
      ''  CAST(floor(inv.first_death_ts_ms / 60000.0) AS INTEGER) AS first_death_minute,'',
      ''  inv.first_death_position_x,'',
      ''  inv.first_death_position_y,'',
      ''  COALESCE(inv.plates_destroyed, 0) AS plates_destroyed,'',
      ''  pa.plates_at_5,'',
      ''  pa.plates_at_10,'',
      ''  pa.plates_at_15,'',
      ''  it.first_item_ts_ms,'',
      ''  it.first_item_id,'',
      ''  it.second_item_ts_ms,'',
      ''  it.second_item_id,'',
      ''  s.skill_order,'',
      ''  COALESCE(inv.duplicate_skill_ups, 0) AS duplicate_skill_ups,'',
      ''  COALESCE(inv.wards_placed, 0) AS wards_placed,'',
      ''  COALESCE(inv.wards_killed, 0) AS wards_killed,'',
      ''  COALESCE(inv.dragons_participated, 0) AS dragons_participated,'',
      ''  COALESCE(inv.grubs_participated, 0) AS grubs_participated,'',
      ''  COALESCE(inv.heralds_participated, 0) AS heralds_participated,'',
      ''  COALESCE(inv.barons_participated, 0) AS barons_participated,'',
      ''  COALESCE(inv.atakhan_participated, 0) AS atakhan_participated'',
      ''FROM p'',
      ''LEFT JOIN involvement inv ON inv.match_id = p.match_id AND inv.participant_id = p.participant_id'',
      ''LEFT JOIN first_blood fb ON fb.match_id = p.match_id AND fb.participant_id = p.participant_id'',
      ''LEFT JOIN skills s ON s.match_id = p.match_id AND s.participant_id = p.participant_id'',
      ''LEFT JOIN items it ON it.match_id = p.match_id AND it.participant_id = p.participant_id'',
      ''LEFT JOIN plates_at pa ON pa.match_id = p.match_id AND pa.participant_id = p.participant_id'']"

section \<open>The ledger and the remaining tables\<close>

definition matchIndexSQL :: "string \<Rightarrow> string \<Rightarrow> string \<Rightarrow> int \<Rightarrow> string" where
  "matchIndexSQL envelopePath timelineEnvelopePath scope minDurationS =
     sql_lines
     [''WITH s AS ('',
      ''  SELECT * FROM '' @ parquetOf envelopePath,
      ''  '' @ scope,
      ''),'',
      ''t AS ('',
      ''  SELECT * FROM '' @ parquetOf timelineEnvelopePath,
      ''),'',
      ''graded AS ('',
      ''  SELECT'',
      ''    s.match_id,'',
      ''    s.region,'',
      ''    s.platform_id,'',
      ''    s.patch,'',
      ''    s.queue_id,'',
      ''    s.game_version,'',
      ''    epoch_ms(s.game_creation_ms) AS game_creation,'',
      ''    s.game_duration_s,'',
      ''    s.end_of_game_result,'',
      ''    t.frame_interval_ms,'',
      ''    t.frame_count,'',
      ''    t.participant_frame_count,'',
      ''    CASE'',
      sq ''      WHEN t.match_id IS NULL THEN `no_timeline`'',
      sq ''      WHEN t.frame_interval_ms = 0 AND COALESCE(t.participant_frame_count, 0) = 0 THEN `aborted`'',
      sq ''      WHEN t.frame_interval_ms = 0 THEN `frame_interval_zero`'',
      ''      WHEN COALESCE(s.game_duration_s, 0) < '' @ show_int minDurationS @ sq '' THEN `too_short`'',
      sq ''      WHEN COALESCE(t.participant_frame_count, 0) = 0 THEN `frames_null`'',
      sq ''      ELSE `ok`'',
      ''    END AS exclusion_reason,'',
      ''    t.match_id IS NOT NULL AS timeline_present'',
      ''  FROM s'',
      ''  LEFT JOIN t ON t.match_id = s.match_id'',
      '')'',
      ''SELECT'',
      ''  match_id,'',
      ''  region,'',
      ''  platform_id,'',
      ''  patch,'',
      ''  queue_id,'',
      ''  game_version,'',
      ''  game_creation,'',
      ''  game_duration_s,'',
      ''  end_of_game_result,'',
      ''  frame_interval_ms,'',
      ''  frame_count,'',
      ''  participant_frame_count,'',
      ''  timeline_present,'',
      ''  exclusion_reason,'',
      sq ''  exclusion_reason = `ok` AS timeline_eligible'',
      ''FROM graded'']"

definition participantMinutesSQL :: "string \<Rightarrow> string \<Rightarrow> string \<Rightarrow> string \<Rightarrow> string" where
  "participantMinutesSQL matchIndexPath participantsPath framesPath killPointsPath =
     sql_lines
     [''WITH p AS ('',
      ''  SELECT pa.*'',
      ''  FROM '' @ parquetOf participantsPath @ '' pa'',
      ''  JOIN '' @ parquetOf matchIndexPath @ '' mi ON mi.match_id = pa.match_id AND mi.timeline_eligible'',
      ''),'',
      ''f AS (SELECT * FROM '' @ parquetOf framesPath @ ''),'',
      ''merged AS ('',
      ''  SELECT'',
      ''    match_id,'',
      ''    participant_id,'',
      ''    timestamp_ms,'',
      ''    sum(kills) AS kills,'',
      ''    sum(deaths) AS deaths,'',
      ''    sum(assists) AS assists'',
      ''  FROM '' @ parquetOf killPointsPath,
      ''  GROUP BY 1, 2, 3'',
      ''),'',
      ''running AS ('',
      ''  SELECT'',
      ''    match_id,'',
      ''    participant_id,'',
      ''    timestamp_ms,'',
      ''    CAST(sum(kills) OVER ('',
      ''      PARTITION BY match_id, participant_id ORDER BY timestamp_ms'',
      ''      ROWS BETWEEN UNBOUNDED PRECEDING AND CURRENT ROW) AS BIGINT) AS kills_to_minute,'',
      ''    CAST(sum(deaths) OVER ('',
      ''      PARTITION BY match_id, participant_id ORDER BY timestamp_ms'',
      ''      ROWS BETWEEN UNBOUNDED PRECEDING AND CURRENT ROW) AS BIGINT) AS deaths_to_minute,'',
      ''    CAST(sum(assists) OVER ('',
      ''      PARTITION BY match_id, participant_id ORDER BY timestamp_ms'',
      ''      ROWS BETWEEN UNBOUNDED PRECEDING AND CURRENT ROW) AS BIGINT) AS assists_to_minute'',
      ''  FROM merged'',
      '')'',
      ''SELECT'',
      ''  f.match_id,'',
      ''  f.participant_id,'',
      ''  p.champion_id,'',
      ''  p.role,'',
      ''  p.team_id,'',
      ''  p.win,'',
      ''  f.frame_timestamp_ms,'',
      ''  f.minute,'',
      ''  f.level,'',
      ''  f.xp,'',
      ''  f.total_gold,'',
      ''  f.current_gold,'',
      ''  f.minions_killed,'',
      ''  f.jungle_minions_killed,'',
      ''  f.cs_total,'',
      ''  f.position_x,'',
      ''  f.position_y,'',
      ''  COALESCE(r.kills_to_minute, 0) AS kills_to_minute,'',
      ''  COALESCE(r.deaths_to_minute, 0) AS deaths_to_minute,'',
      ''  COALESCE(r.assists_to_minute, 0) AS assists_to_minute,'',
      ''  p.patch,'',
      ''  p.region,'',
      ''  p.queue_id'',
      ''FROM f'',
      ''JOIN p ON p.match_id = f.match_id AND p.participant_id = f.participant_id'',
      ''ASOF LEFT JOIN running r'',
      ''  ON r.match_id = f.match_id AND r.participant_id = f.participant_id'',
      '' AND f.frame_timestamp_ms >= r.timestamp_ms'']"

definition eventsTableSQL :: "string \<Rightarrow> string \<Rightarrow> string" where
  "eventsTableSQL matchIndexPath eventsPath =
     sql_lines
     [''SELECT'',
      ''  e.match_id,'',
      ''  mi.region,'',
      ''  mi.patch,'',
      ''  mi.queue_id,'',
      ''  e.event_index,'',
      ''  e.timestamp_ms,'',
      ''  e.minute,'',
      ''  e.event_type,'',
      ''  e.actor_participant_id,'',
      ''  e.target_participant_id,'',
      ''  e.assisting_participant_ids,'',
      ''  e.team_id,'',
      ''  e.position_x,'',
      ''  e.position_y,'',
      ''  e.lane_type,'',
      ''  e.monster_type,'',
      ''  e.monster_subtype,'',
      ''  e.building_type,'',
      ''  e.tower_type,'',
      ''  e.ward_type,'',
      ''  e.item_id,'',
      ''  e.before_item_id,'',
      ''  e.after_item_id,'',
      ''  e.skill_slot,'',
      ''  e.level,'',
      ''  e.kill_type,'',
      ''  e.multi_kill_length,'',
      ''  e.transform_type,'',
      ''  e.kill_streak_length,'',
      ''  e.bounty,'',
      ''  e.shutdown_bounty,'',
      ''  e.winning_team,'',
      ''  e.is_duplicate_skill_level_up'',
      ''FROM '' @ parquetOf eventsPath @ '' e'',
      ''JOIN '' @ parquetOf matchIndexPath @ '' mi ON mi.match_id = e.match_id AND mi.timeline_eligible'']"

definition teamCounts :: "string \<Rightarrow> string \<Rightarrow> string list" where
  "teamCounts eventFilter name =
     map (\<lambda>team. ''count(*) FILTER (WHERE team_id = '' @ show_int team @ '' AND '' @ eventFilter @ '') AS '' @ name @ ''_team_'' @ show_int team)
       [100, 200]"

text \<open>What follows the last \<open>AS\<close> of a column, or the column.\<close>

fun strip_text :: "string \<Rightarrow> string \<Rightarrow> string option" where
  "strip_text [] s = Some s"
| "strip_text (p # ps) [] = None"
| "strip_text (p # ps) (c # cs) = (if p = c then strip_text ps cs else None)"

fun after_last :: "string \<Rightarrow> string \<Rightarrow> string option" where
  "after_last sep [] = strip_text sep []"
| "after_last sep (c # cs) =
     (case after_last sep cs of
        Some r \<Rightarrow> Some r
      | None \<Rightarrow> strip_text sep (c # cs))"

definition prefixed :: "string list \<Rightarrow> string \<Rightarrow> string list" where
  "prefixed columns qualifier =
     map (\<lambda>column. qualifier @ (case after_last '' AS '' column of Some alias \<Rightarrow> alias | None \<Rightarrow> column)) columns"

definition objective_specs :: "(string \<times> string) list" where
  "objective_specs =
     [(sq ''event_type = `CHAMPION_KILL`'', ''kills''),
      (sq ''event_type = `ELITE_MONSTER_KILL` AND monster_type = `DRAGON`'', ''dragons''),
      (sq ''event_type = `ELITE_MONSTER_KILL` AND monster_type = `HORDE`'', ''grubs''),
      (sq ''event_type = `ELITE_MONSTER_KILL` AND monster_type = `RIFTHERALD`'', ''heralds''),
      (sq ''event_type = `ELITE_MONSTER_KILL` AND monster_type = `BARON_NASHOR`'', ''barons''),
      (sq ''event_type = `ELITE_MONSTER_KILL` AND monster_type = `ATAKHAN`'', ''atakhan''),
      (sq ''event_type = `DRAGON_SOUL_GIVEN`'', ''souls''),
      (sq ''event_type = `BUILDING_KILL` AND tower_type IS NOT NULL'', ''towers''),
      (sq ''event_type = `TURRET_PLATE_DESTROYED`'', ''plates'')]"

definition objective_columns :: "string list" where
  "objective_columns = concat (map (\<lambda>(f, n). teamCounts f n) objective_specs)"

definition matchObjectivesSQL :: "string \<Rightarrow> string \<Rightarrow> string \<Rightarrow> string" where
  "matchObjectivesSQL matchIndexPath eventsPath participantsPath =
     sql_lines
     [''WITH mi AS ('',
      ''  SELECT * FROM '' @ parquetOf matchIndexPath @ '' WHERE timeline_eligible'',
      ''),'',
      ''e AS (SELECT * FROM '' @ parquetOf eventsPath @ ''),'',
      ''p AS (SELECT match_id, participant_id, team_id FROM '' @ parquetOf participantsPath @ ''),'',
      ''team_events AS ('',
      ''  SELECT'',
      ''    e.match_id,'',
      ''    e.event_index,'',
      ''    e.timestamp_ms,'',
      ''    e.event_type,'',
      ''    e.monster_type,'',
      ''    e.monster_subtype,'',
      ''    e.tower_type,'',
      sq ''    CASE WHEN e.event_type = `CHAMPION_KILL` THEN killer.team_id ELSE e.team_id END AS team_id'',
      ''  FROM e'',
      ''  LEFT JOIN p killer'',
      ''    ON killer.match_id = e.match_id AND killer.participant_id = e.actor_participant_id'',
      ''),'',
      ''per_match AS ('',
      ''  SELECT'',
      ''    match_id,'',
      sq ''    arg_min(team_id, event_index) FILTER (WHERE event_type = `CHAMPION_KILL` AND team_id IS NOT NULL)'',
      ''      AS first_blood_team,'',
      sq ''    min(timestamp_ms) FILTER (WHERE event_type = `CHAMPION_KILL`) AS first_blood_ts_ms,'',
      ''    arg_min(team_id, event_index) FILTER ('',
      sq ''      WHERE event_type = `BUILDING_KILL` AND tower_type = `OUTER` AND team_id IS NOT NULL)'',
      ''      AS first_tower_team,'',
      sq ''    min(timestamp_ms) FILTER (WHERE event_type = `BUILDING_KILL` AND tower_type = `OUTER`)'',
      ''      AS first_tower_ts_ms,'',
      ''    arg_min(team_id, event_index) FILTER ('',
      sq ''      WHERE event_type = `ELITE_MONSTER_KILL` AND monster_type = `DRAGON` AND team_id IS NOT NULL)'',
      ''      AS first_dragon_team,'',
      sq ''    min(timestamp_ms) FILTER (WHERE event_type = `ELITE_MONSTER_KILL` AND monster_type = `DRAGON`)'',
      ''      AS first_dragon_ts_ms,'',
      sq ''    arg_min(team_id, event_index) FILTER (WHERE event_type = `DRAGON_SOUL_GIVEN` AND team_id IS NOT NULL)'',
      ''      AS soul_team,'',
      sq ''    arg_min(monster_subtype, event_index) FILTER (WHERE event_type = `DRAGON_SOUL_GIVEN`)'',
      ''      AS soul_type,'',
      ''    '' @ strings_join ('','' @ [line_end] @ ''    '') objective_columns,
      ''  FROM team_events'',
      ''  GROUP BY match_id'',
      '')'',
      ''SELECT'',
      ''  mi.match_id,'',
      ''  mi.region,'',
      ''  mi.patch,'',
      ''  mi.queue_id,'',
      ''  mi.game_duration_s,'',
      ''  pm.first_blood_team,'',
      ''  pm.first_blood_ts_ms,'',
      ''  pm.first_tower_team,'',
      ''  pm.first_tower_ts_ms,'',
      ''  pm.first_dragon_team,'',
      ''  pm.first_dragon_ts_ms,'',
      ''  pm.soul_team,'',
      ''  pm.soul_type,'',
      ''  '' @ strings_join ('','' @ [line_end] @ ''  '') (prefixed objective_columns ''pm.''),
      ''FROM mi'',
      ''LEFT JOIN per_match pm ON pm.match_id = mi.match_id'']"

section \<open>Counts\<close>

definition featureLedgerCountsSQL :: "string \<Rightarrow> string \<Rightarrow> string \<Rightarrow> string" where
  "featureLedgerCountsSQL summaryEnvelope timelineEnvelope ledger =
     sql_lines
     [''SELECT'',
      ''  CAST((SELECT count(*) FROM '' @ parquetOf summaryEnvelope @ '') AS BIGINT) AS summary_rows,'',
      ''  CAST((SELECT count(*) FROM '' @ parquetOf timelineEnvelope @ '') AS BIGINT) AS timeline_rows,'',
      ''  CAST((SELECT count(*) FROM '' @ parquetOf ledger @ '') AS BIGINT) AS matches,'',
      ''  CAST((SELECT count(*) FROM '' @ parquetOf ledger @ '' WHERE timeline_present) AS BIGINT) AS timeline_present,'',
      ''  CAST((SELECT count(*) FROM '' @ parquetOf ledger @ '' WHERE timeline_eligible) AS BIGINT) AS eligible,'',
      ''  CAST((SELECT count(*) FROM '' @ parquetOf summaryEnvelope @ '' WHERE NOT payload_valid OR match_id IS NULL) AS BIGINT) AS malformed_summary,'',
      ''  CAST((SELECT count(*) FROM '' @ parquetOf timelineEnvelope @ '' WHERE NOT payload_valid OR match_id IS NULL) AS BIGINT) AS malformed_timeline,'',
      ''  CAST((SELECT count(*) FROM '' @ parquetOf timelineEnvelope @ '' t'',
      ''        LEFT JOIN '' @ parquetOf summaryEnvelope @ '' s ON s.match_id = t.match_id'',
      ''        WHERE s.match_id IS NULL) AS BIGINT) AS orphans'']"

definition featureExclusionsSQL :: "string \<Rightarrow> string" where
  "featureExclusionsSQL ledger =
     sql_lines
     [sq ''SELECT COALESCE(exclusion_reason, `unexplained`) AS reason, CAST(count(*) AS BIGINT) AS rows'',
      ''FROM '' @ parquetOf ledger,
      ''GROUP BY 1'',
      ''ORDER BY 1'']"

definition featureReconciliationSQL :: "string \<Rightarrow> string \<Rightarrow> string" where
  "featureReconciliationSQL ledger matchups =
     sql_lines
     [''SELECT'',
      ''  CAST((SELECT count(*) FROM '' @ parquetOf matchups @ '') AS BIGINT) AS matchup_rows,'',
      ''  CAST((SELECT count(DISTINCT match_id) FROM '' @ parquetOf matchups @ '') AS BIGINT) AS matchup_matches,'',
      ''  CAST((SELECT count(DISTINCT match_id) FROM '' @ parquetOf ledger @ '' WHERE timeline_eligible) AS BIGINT) AS ledger_matches'']"

definition row_count_SQL :: "string \<Rightarrow> string \<Rightarrow> string" where
  "row_count_SQL table glob =
     ''SELECT '' @ quoteLiteral table @ '' AS table, CAST(count(*) AS BIGINT) AS rows FROM '' @ parquetOf glob"

definition describe_SQL :: "string \<Rightarrow> string" where
  "describe_SQL glob = ''SELECT column_name AS name, column_type AS type FROM (DESCRIBE SELECT * FROM '' @ parquetOf glob @ '')''"

end
