(* ===== verification/Agg_Features.thy ===== *)
theory Agg_Features
  imports Agg_Features_SQL Agg_Engine Agg_Archive
begin

text \<open>
  The feature dataset, what it is made of (\<^verbatim>\<open>internal/aggregate/features.go\<close> and
  \<^verbatim>\<open>features_schema.go\<close>): the specification of its columns, its options, the paths and counts of one
  build and the scripts handed to the engine. The run itself is \<open>Agg_FeatureRun\<close>.
\<close>

section \<open>The column specification\<close>

record featureColumn =
  fc_Name :: string
  fc_Type :: string
  fc_Unit :: string
  fc_Semantics :: string

definition feature_column :: "string \<times> string \<times> string \<times> string \<Rightarrow> featureColumn" where
  "feature_column = (\<lambda>(n, t, u, s). \<lparr>fc_Name = n, fc_Type = t, fc_Unit = u, fc_Semantics = s\<rparr>)"

definition match_index_columns :: "featureColumn list" where
  "match_index_columns = map feature_column
     [(''match_id'', ''VARCHAR'', [], ''Riot match id. The join key of every other table, and unique in this one.''),
      (''region'', ''VARCHAR'', [], ''Regional routing value from the raw archive (e.g. EUW).''),
      (''platform_id'', ''VARCHAR'', [], ''Platform the match was played on, as the summary payload reports it.''),
      (''patch'', ''VARCHAR'', [], ''Two-component game version (e.g. 16.18), echoed rather than derived from game_version.''),
      (''queue_id'', ''INTEGER'', [], ''Riot queue id; 420 is ranked solo, which is the queue the sample was drawn from.''),
      (''game_version'', ''VARCHAR'', [], ''Full client version string, for a minor-patch split the patch column hides.''),
      (''game_creation'', ''TIMESTAMP'', [], ''Game creation time, from game_creation_ms. UTC.''),
      (''game_duration_s'', ''INTEGER'', ''seconds'', ''Game duration as the summary reports it.''),
      (''end_of_game_result'', ''VARCHAR'', [], ''info.endOfGameResult verbatim. Riot does not document its values (#890), so treat anything other than GameComplete as suspicious rather than as a category.''),
      (''frame_interval_ms'', ''INTEGER'', ''milliseconds'', ''info.frameInterval. NULL when there is no timeline or it is unreadable. 0 with no frames is the aborted-game shape (#898).''),
      (''frame_count'', ''INTEGER'', [], ''Number of frames in the timeline payload, or NULL when the payload is unreadable.''),
      (''participant_frame_count'', ''BIGINT'', [], ''Number of per-participant frame records the timeline yielded. This, not frame_count, is what decides frames_null: Riot returns frames whose participantFrames are null, so a timeline can carry frames and still contribute no minutes.''),
      (''timeline_present'', ''BOOLEAN'', [], ''Whether a timeline row exists for this match at all. This is a fact about the archive, not about the game.''),
      (''exclusion_reason'', ''VARCHAR'', [], ''Exactly one of no_timeline, aborted, frame_interval_zero, too_short, frames_null, ok. The first matching reason, in that order. A payload the envelope cannot identify never reaches this column: the build fails closed on it instead, so an unreadable archive row cannot be mistaken for a graded one.''),
      (''timeline_eligible'', ''BOOLEAN'', [], sq ''exclusion_reason = `ok`. Every other table is a subset of the eligible matches, so filtering on this reproduces the dataset`s own working set.'')]"

definition participant_minutes_columns :: "featureColumn list" where
  "participant_minutes_columns = map feature_column
     [(''match_id'', ''VARCHAR'', [], ''Riot match id.''),
      (''participant_id'', ''INTEGER'', [], ''1-10, as the payload states it. There is no puuid anywhere in this dataset; this is the only identity a participant has.''),
      (''champion_id'', ''INTEGER'', [], ''Champion played, from the summary payload.''),
      (''role'', ''VARCHAR'', [], ''Normalised teamPosition, falling back to individualPosition when teamPosition is empty: TOP, JUNGLE, MID, BOTTOM, SUPPORT.''),
      (''team_id'', ''INTEGER'', [], ''100 or 200.''),
      (''win'', ''BOOLEAN'', [], sq ''Whether this participant`s team won. The outcome column every other table can be joined to.''),
      (''frame_timestamp_ms'', ''BIGINT'', ''milliseconds'', ''Frame timestamp. Frames are not evenly spaced since about patch 16.1 (#1129), so this is carried beside minute rather than implied by it.''),
      (''minute'', ''INTEGER'', ''minutes'', ''floor(frame_timestamp_ms / 60000). Derived from the timestamp, never from the frame index. Two frames can share a minute.''),
      (''level'', ''INTEGER'', [], ''Champion level at this frame.''),
      (''xp'', ''BIGINT'', [], ''Total experience at this frame.''),
      (''total_gold'', ''INTEGER'', ''gold'', ''Total gold earned (not current gold) at this frame.''),
      (''current_gold'', ''INTEGER'', ''gold'', ''Unspent gold at this frame. total_gold minus current_gold is roughly what has been spent.''),
      (''minions_killed'', ''INTEGER'', [], ''Lane minions killed, cumulative.''),
      (''jungle_minions_killed'', ''INTEGER'', [], sq ''Jungle monsters killed, cumulative. No per-camp events exist, so clear paths can only be inferred from this column`s deltas.''),
      (''cs_total'', ''INTEGER'', [], ''minions_killed + jungle_minions_killed. The CS a CS@5 comparison uses.''),
      (''position_x'', ''INTEGER'', [], sq ''Map x at this frame, in Riot`s game units, not a map image pixel.''),
      (''position_y'', ''INTEGER'', [], ''Map y at this frame.''),
      (''kills_to_minute'', ''BIGINT'', [], ''CHAMPION_KILL events involving this participant as killer at or before frame_timestamp_ms. 0 when none, never NULL.''),
      (''deaths_to_minute'', ''BIGINT'', [], ''Deaths at or before frame_timestamp_ms. Deaths by minion, turret or execute are not counted: only kills the timeline attributes to a participant.''),
      (''assists_to_minute'', ''BIGINT'', [], ''Assists at or before frame_timestamp_ms.''),
      (''patch'', ''VARCHAR'', [], ''Scope column from match_index, so a patch split needs no join.''),
      (''region'', ''VARCHAR'', [], ''Scope column from match_index.''),
      (''queue_id'', ''INTEGER'', [], ''Scope column from match_index.'')]"

definition events_columns :: "featureColumn list" where
  "events_columns = map feature_column
     [(''match_id'', ''VARCHAR'', [], ''Riot match id.''),
      (''region'', ''VARCHAR'', [], ''Scope column from match_index.''),
      (''patch'', ''VARCHAR'', [], ''Scope column from match_index.''),
      (''queue_id'', ''INTEGER'', [], ''Scope column from match_index.''),
      (''event_index'', ''INTEGER'', [], ''0-based position of this event in the match, ordered by frame then by position within the frame. Stable for a given payload.''),
      (''timestamp_ms'', ''BIGINT'', ''milliseconds'', ''Milliseconds since game start, as Riot reports it.''),
      (''minute'', ''INTEGER'', ''minutes'', ''floor(timestamp_ms / 60000).''),
      (''event_type'', ''VARCHAR'', [], sq ''Riot`s type string verbatim, e.g. CHAMPION_KILL, ELITE_MONSTER_KILL, SKILL_LEVEL_UP.''),
      (''actor_participant_id'', ''INTEGER'', [], sq ''Who did it: participantId, killerId or creatorId, whichever the event type carries. 0 is Riot`s sentinel for no participant (a minion, a turret, an execute) and is preserved, never converted to NULL.''),
      (''target_participant_id'', ''INTEGER'', [], ''victimId. 0 as above.''),
      (''assisting_participant_ids'', ''INTEGER[]'', [], ''assistingParticipantIds, verbatim, in the order Riot emitted them. Empty list when none.''),
      (''team_id'', ''INTEGER'', [], sq ''The event`s team where it carries one. See the README on Riot`s acknowledged attribution bugs (#1000, #1026).''),
      (''position_x'', ''INTEGER'', [], ''Event position on the map, where the event carries one.''),
      (''position_y'', ''INTEGER'', [], ''Event position on the map, where the event carries one.''),
      (''lane_type'', ''VARCHAR'', [], ''laneType, e.g. on TURRET_PLATE_DESTROYED.''),
      (''monster_type'', ''VARCHAR'', [], ''monsterType: DRAGON, RIFTHERALD, BARON_NASHOR, HORDE, ATAKHAN.''),
      (''monster_subtype'', ''VARCHAR'', [], ''monsterSubType, or soulType for DRAGON_SOUL_GIVEN. Atakhan carries no sub-type (#1034), so it is NULL here.''),
      (''building_type'', ''VARCHAR'', [], ''buildingType, e.g. TOWER_BUILDING on BUILDING_KILL.''),
      (''tower_type'', ''VARCHAR'', [], ''towerType: OUTER, INNER, BASE, NEXUS_TURRET.''),
      (''ward_type'', ''VARCHAR'', [], ''wardType on WARD_PLACED and WARD_KILL. UNDEFINED appears in practice (#1125) and is kept rather than filtered.''),
      (''item_id'', ''INTEGER'', [], ''itemId on ITEM_PURCHASED, ITEM_SOLD and ITEM_DESTROYED. Zeroed ids occur (#1174).''),
      (''before_item_id'', ''INTEGER'', [], ''beforeId on ITEM_UNDO. The undo is reported inverted in some cases (#126).''),
      (''after_item_id'', ''INTEGER'', [], ''afterId on ITEM_UNDO.''),
      (''skill_slot'', ''INTEGER'', [], ''skillSlot, 1-4 on SKILL_LEVEL_UP, plus 0 for the unspent first slot in some payloads.''),
      (''level'', ''INTEGER'', [], ''level on SKILL_LEVEL_UP: the champion level the slot was spent at.''),
      (''kill_type'', ''VARCHAR'', [], ''killType on CHAMPION_SPECIAL_KILL: KILL_FIRST_BLOOD, KILL_ACE, KILL_MULTI.''),
      (''multi_kill_length'', ''INTEGER'', [], ''multiKillLength on a KILL_MULTI. NULL on every other kill type.''),
      (''transform_type'', ''VARCHAR'', [], ''transformType, e.g. on the transformation events of transform champions.''),
      (''kill_streak_length'', ''INTEGER'', [], sq ''killStreakLength on CHAMPION_KILL: the victim`s streak before the death.''),
      (''bounty'', ''INTEGER'', ''gold'', ''bounty on the kill, as reported.''),
      (''shutdown_bounty'', ''INTEGER'', ''gold'', ''shutdownBounty on the kill, as reported.''),
      (''winning_team'', ''INTEGER'', [], ''winningTeam on GAME_END. 0 on an aborted game (#898).''),
      (''is_duplicate_skill_level_up'', ''BOOLEAN'', [], ''True on the second and later SKILL_LEVEL_UP for the same participant, slot and level, which Riot emits since patch 15.17 (#1100). Marked, never dropped.'')]"

definition lane_matchups_columns :: "featureColumn list" where
  "lane_matchups_columns = map feature_column
     [(''match_id'', ''VARCHAR'', [], ''Riot match id.''),
      (''region'', ''VARCHAR'', [], ''Scope column from match_index.''),
      (''patch'', ''VARCHAR'', [], ''Scope column.''),
      (''queue_id'', ''INTEGER'', [], ''Scope column.''),
      (''participant_id'', ''INTEGER'', [], ''The participant whose line this is.''),
      (''opponent_participant_id'', ''INTEGER'', [], ''The opposite-team participant with the same role. See pairing_basis.''),
      (''role'', ''VARCHAR'', [], ''The shared role the pairing was made on.''),
      (''champion_id'', ''INTEGER'', [], ''Champion played by this participant.''),
      (''opponent_champion_id'', ''INTEGER'', [], ''Champion played by the opponent.''),
      (''team_id'', ''INTEGER'', [], ''100 or 200.''),
      (''win'', ''BOOLEAN'', [], sq ''Whether this participant`s team won.''),
      (''pairing_basis'', ''VARCHAR'', [], sq ''Always `team_position` in this version: the pairing is an inference from the constrained role assignment, not an observed lane.''),
      (''is_duo_lane'', ''BOOLEAN'', [], ''True for BOTTOM and SUPPORT, whose lane has two players per side and therefore no single lane opponent.''),
      (''has_nominal_opponent'', ''BOOLEAN'', [], ''False for JUNGLE, which has a nominal opposite jungler but no lane. A filter, not a reason to drop the row.''),
      (''cs_5'', ''INTEGER'', [], ''CS (lane plus jungle minions) at minute 5. NULL when the game has no frame near minute 5.''),
      (''opponent_cs_5'', ''INTEGER'', [], sq ''The opponent`s cs_5, from the same frame selection. NULL as above; never imputed.''),
      (''cs_diff_5'', ''INTEGER'', [], ''cs_5 - opponent_cs_5. NULL whenever either side is NULL, which is the point: 0 and unknown must not be the same value.''),
      (''xp_diff_5'', ''BIGINT'', [], ''Experience difference at minute 5.''),
      (''gold_diff_5'', ''INTEGER'', ''gold'', ''total_gold difference at minute 5.''),
      (''level_diff_5'', ''INTEGER'', [], ''Level difference at minute 5.''),
      (''kills_5'', ''BIGINT'', [], sq ''This participant`s kills at minute 5, counted from CHAMPION_KILL events at or before the chosen frame.''),
      (''deaths_5'', ''BIGINT'', [], ''Deaths at minute 5.''),
      (''assists_5'', ''BIGINT'', [], ''Assists at minute 5.''),
      (''cs_10'', ''INTEGER'', [], ''CS at minute 10, as cs_5.''),
      (''opponent_cs_10'', ''INTEGER'', [], sq ''The opponent`s cs_10.''),
      (''cs_diff_10'', ''INTEGER'', [], ''cs_10 - opponent_cs_10.''),
      (''xp_diff_10'', ''BIGINT'', [], ''Experience difference at minute 10.''),
      (''gold_diff_10'', ''INTEGER'', ''gold'', ''total_gold difference at minute 10.''),
      (''level_diff_10'', ''INTEGER'', [], ''Level difference at minute 10.''),
      (''kills_10'', ''BIGINT'', [], ''Kills at minute 10.''),
      (''deaths_10'', ''BIGINT'', [], ''Deaths at minute 10.''),
      (''assists_10'', ''BIGINT'', [], ''Assists at minute 10.''),
      (''cs_15'', ''INTEGER'', [], ''CS at minute 15, as cs_5.''),
      (''opponent_cs_15'', ''INTEGER'', [], sq ''The opponent`s cs_15.''),
      (''cs_diff_15'', ''INTEGER'', [], ''cs_15 - opponent_cs_15.''),
      (''xp_diff_15'', ''BIGINT'', [], ''Experience difference at minute 15.''),
      (''gold_diff_15'', ''INTEGER'', ''gold'', ''total_gold difference at minute 15.''),
      (''level_diff_15'', ''INTEGER'', [], ''Level difference at minute 15.''),
      (''kills_15'', ''BIGINT'', [], ''Kills at minute 15.''),
      (''deaths_15'', ''BIGINT'', [], ''Deaths at minute 15.''),
      (''assists_15'', ''BIGINT'', [], ''Assists at minute 15.'')]"

definition participant_early_columns :: "featureColumn list" where
  "participant_early_columns = map feature_column
     [(''match_id'', ''VARCHAR'', [], ''Riot match id.''),
      (''region'', ''VARCHAR'', [], ''Scope column from match_index.''),
      (''patch'', ''VARCHAR'', [], ''Scope column.''),
      (''queue_id'', ''INTEGER'', [], ''Scope column.''),
      (''participant_id'', ''INTEGER'', [], ''1-10. One row per participant per eligible match, whether or not anything happened to them.''),
      (''champion_id'', ''INTEGER'', [], ''Champion played.''),
      (''role'', ''VARCHAR'', [], ''Normalised role, as participant_minutes.role.''),
      (''team_id'', ''INTEGER'', [], ''100 or 200.''),
      (''win'', ''BOOLEAN'', [], sq ''Whether this participant`s team won.''),
      (''first_blood_involvement'', ''BOOLEAN'', [], ''Whether this participant killed or assisted the first CHAMPION_KILL of the game. False rather than NULL when there was no kill.''),
      (''first_death_ts_ms'', ''BIGINT'', ''milliseconds'', sq ''Timestamp of this participant`s first death, or NULL when they never died to a participant.''),
      (''first_death_minute'', ''INTEGER'', ''minutes'', ''floor(first_death_ts_ms / 60000). NULL when first_death_ts_ms is NULL.''),
      (''first_death_position_x'', ''INTEGER'', [], ''Map x of the first death, taken at the earliest such event.''),
      (''first_death_position_y'', ''INTEGER'', [], ''Map y of the first death.''),
      (''plates_destroyed'', ''BIGINT'', [], ''Turret plates this participant destroyed, over the whole game, from TURRET_PLATE_DESTROYED. Zero rather than NULL.''),
      (''plates_at_5'', ''BIGINT'', [], ''Plates destroyed at or before the minute-5 checkpoint frame. NULL when the game has no such frame, never 0.''),
      (''plates_at_10'', ''BIGINT'', [], ''Plates destroyed at or before minute 10, as plates_at_5.''),
      (''plates_at_15'', ''BIGINT'', [], ''Plates destroyed at or before minute 15, as plates_at_5.''),
      (''first_item_ts_ms'', ''BIGINT'', ''milliseconds'', ''Timestamp of the first ITEM_PURCHASED event attributed to this participant. NULL when the timeline carries none or Riot attributed it to participant 0 (#1069).''),
      (''first_item_id'', ''INTEGER'', [], ''Item id of that first purchase.''),
      (''second_item_ts_ms'', ''BIGINT'', ''milliseconds'', ''Timestamp of the second purchase: the two-item powerspike timing. NULL when fewer than two purchases were attributed.''),
      (''second_item_id'', ''INTEGER'', [], ''Item id of the second purchase.''),
      (''skill_order'', ''VARCHAR'', [], sq ''Skill slots in the order they were spent, one character per slot, e.g. `1234567890` style strings of digits. Duplicates from #1100 are excluded. NULL when the payload carries no SKILL_LEVEL_UP.''),
      (''duplicate_skill_ups'', ''BIGINT'', [], ''How many SKILL_LEVEL_UP events for this participant were marked duplicates. Published so the magnitude of #1100 is visible rather than assumed.''),
      (''wards_placed'', ''BIGINT'', [], ''WARD_PLACED events with this participant as actor. Includes the UNDEFINED ward types of #1125, which is why the events table keeps the type.''),
      (''wards_killed'', ''BIGINT'', [], ''WARD_KILL events with this participant as actor.''),
      (''dragons_participated'', ''BIGINT'', [], ''Dragons this participant killed or assisted. Each dragon counts once per participant, from the events relation, not the objective totals.''),
      (''grubs_participated'', ''BIGINT'', [], ''Voidgrubs (monsterType HORDE) this participant killed or assisted.''),
      (''heralds_participated'', ''BIGINT'', [], ''Rift Heralds this participant killed or assisted.''),
      (''barons_participated'', ''BIGINT'', [], ''Barons this participant killed or assisted.''),
      (''atakhan_participated'', ''BIGINT'', [], ''Atakhan kills this participant took part in. Atakhan carries no monsterSubType (#1034), so it is counted here by type alone.'')]"

definition match_objectives_columns :: "featureColumn list" where
  "match_objectives_columns = map feature_column
     [(''match_id'', ''VARCHAR'', [], ''Riot match id. One row per eligible match.''),
      (''region'', ''VARCHAR'', [], ''Scope column from match_index.''),
      (''patch'', ''VARCHAR'', [], ''Scope column.''),
      (''queue_id'', ''INTEGER'', [], ''Scope column.''),
      (''game_duration_s'', ''INTEGER'', ''seconds'', ''Game duration, carried so an objective count can be read against the time available.''),
      (''first_blood_team'', ''INTEGER'', [], ''Team that took the first kill, by earliest event index. NULL when the game has no kills.''),
      (''first_blood_ts_ms'', ''BIGINT'', ''milliseconds'', ''When that kill happened.''),
      (''first_tower_team'', ''INTEGER'', [], ''Team that destroyed the first OUTER turret. NULL when none fell.''),
      (''first_tower_ts_ms'', ''BIGINT'', ''milliseconds'', ''When that turret fell.''),
      (''first_dragon_team'', ''INTEGER'', [], ''Team that took the first dragon. NULL when none was taken.''),
      (''first_dragon_ts_ms'', ''BIGINT'', ''milliseconds'', ''When that dragon was taken.''),
      (''soul_team'', ''INTEGER'', [], ''Team credited with the dragon soul by DRAGON_SOUL_GIVEN. NULL when no soul was taken; can be 0 because Riot has emitted the event early with teamId 0 (#1026).''),
      (''soul_type'', ''VARCHAR'', [], sq ''The soul`s element, from soulType on DRAGON_SOUL_GIVEN.''),
      (''kills_team_100'', ''BIGINT'', [], sq ''CHAMPION_KILL events with team_id 100, by Riot`s attribution.''),
      (''kills_team_200'', ''BIGINT'', [], ''CHAMPION_KILL events with team_id 200.''),
      (''dragons_team_100'', ''BIGINT'', [], ''ELITE_MONSTER_KILL with monsterType DRAGON attributed to team 100.''),
      (''dragons_team_200'', ''BIGINT'', [], ''As above for team 200. The two sum to the dragons in the timeline, which may not be the dragons in the game (#1000).''),
      (''grubs_team_100'', ''BIGINT'', [], ''monsterType HORDE kills by team 100.''),
      (''grubs_team_200'', ''BIGINT'', [], ''monsterType HORDE kills by team 200.''),
      (''heralds_team_100'', ''BIGINT'', [], ''monsterType RIFTHERALD kills by team 100.''),
      (''heralds_team_200'', ''BIGINT'', [], ''monsterType RIFTHERALD kills by team 200.''),
      (''barons_team_100'', ''BIGINT'', [], ''monsterType BARON_NASHOR kills by team 100.''),
      (''barons_team_200'', ''BIGINT'', [], ''monsterType BARON_NASHOR kills by team 200.''),
      (''atakhan_team_100'', ''BIGINT'', [], ''monsterType ATAKHAN kills by team 100.''),
      (''atakhan_team_200'', ''BIGINT'', [], ''monsterType ATAKHAN kills by team 200.''),
      (''souls_team_100'', ''BIGINT'', [], ''DRAGON_SOUL_GIVEN events attributed to team 100.''),
      (''souls_team_200'', ''BIGINT'', [], ''DRAGON_SOUL_GIVEN events attributed to team 200.''),
      (''towers_team_100'', ''BIGINT'', [], ''BUILDING_KILL events with a towerType for team 100, at any tier.''),
      (''towers_team_200'', ''BIGINT'', [], ''As above for team 200. Riot has acknowledged that this attribution flips in some payloads (#1000).''),
      (''plates_team_100'', ''BIGINT'', [], ''TURRET_PLATE_DESTROYED events attributed to team 100. Riot has acknowledged more than five plates can be credited to one turret (#703).''),
      (''plates_team_200'', ''BIGINT'', [], ''TURRET_PLATE_DESTROYED events attributed to team 200.'')]"

definition featureSchemaColumns :: "(string \<times> featureColumn list) list" where
  "featureSchemaColumns =
     [(''match_index'', match_index_columns), (''participant_minutes'', participant_minutes_columns), (''events'', events_columns),
      (''lane_matchups'', lane_matchups_columns), (''participant_early'', participant_early_columns),
      (''match_objectives'', match_objectives_columns)]"

definition featureTables :: "string list" where
  "featureTables = [''match_index'', ''participant_minutes'', ''events'', ''lane_matchups'', ''participant_early'', ''match_objectives'']"

text \<open>\<^verbatim>\<open>baseType\<close>: parameters and nullability stripped.\<close>

definition trim_suffix_text :: "string \<Rightarrow> string \<Rightarrow> string" where
  "trim_suffix_text sfx s = (if has_suffix sfx s then take (length s - length sfx) s else s)"

definition index_of :: "char \<Rightarrow> string \<Rightarrow> nat option" where
  "index_of c s = (if c \<in> set s then Some (length (takeWhile (\<lambda>d. d \<noteq> c) s)) else None)"

definition baseType :: "string \<Rightarrow> string" where
  "baseType t0 =
     (let t = trim_space t0;
          t1 = (case (index_of (CHR ''('') t, index_of (CHR '')'') t) of
                  (Some i, Some j) \<Rightarrow> if i < j then trim_space (take i t @ drop (j + 1) t) else t
                | x \<Rightarrow> t)
      in trim_space (trim_suffix_text ''NOT NULL'' t1))"

definition featureTypeMatches :: "string \<Rightarrow> string \<Rightarrow> bool" where
  "featureTypeMatches built documented = (to_upper (baseType built) = to_upper (baseType documented))"

section \<open>Options, paths, counts\<close>

definition FeatureDatasetDir :: string where
  "FeatureDatasetDir = ''timeline-v1''"

definition DefaultFeatureMinDurationS :: int where
  "DefaultFeatureMinDurationS = 600"

record feature_opts =
  fo_DatasetRoot :: string
  fo_RawRoot :: string
  fo_Region :: string
  fo_Platform :: string
  fo_Queue :: int
  fo_MinDurationS :: int
  fo_GitSHA :: string
  fo_DuckDBBin :: string
  fo_AllowVersionMismatch :: bool
  fo_DuckDB :: DuckDBSettings

text \<open>The paths of one build under its staging directory.\<close>

record feature_paths =
  fp_summaryParts :: "string list"
  fp_timelineParts :: "string list"
  fp_scratch :: string
  fp_dataset :: string

definition scratch_file :: "feature_paths \<Rightarrow> string \<Rightarrow> string" where
  "scratch_file p name = join (fp_scratch p) name"

definition summaryEnvelope :: "feature_paths \<Rightarrow> string" where
  "summaryEnvelope p = scratch_file p ''summary-envelope.parquet''"

definition timelineEnvelope :: "feature_paths \<Rightarrow> string" where
  "timelineEnvelope p = scratch_file p ''timeline-envelope.parquet''"

definition spill_glob :: "feature_paths \<Rightarrow> string \<Rightarrow> string" where
  "spill_glob p dir = join (scratch_file p dir) ''*.parquet''"

definition participantsPath :: "feature_paths \<Rightarrow> string" where
  "participantsPath p = scratch_file p ''participants.parquet''"

definition actorsPath :: "feature_paths \<Rightarrow> string" where
  "actorsPath p = scratch_file p ''event-actors.parquet''"

definition killPointsPath :: "feature_paths \<Rightarrow> string" where
  "killPointsPath p = scratch_file p ''kill-points.parquet''"

definition checkpointsPath :: "feature_paths \<Rightarrow> string" where
  "checkpointsPath p = scratch_file p ''checkpoints.parquet''"

definition tablePath :: "feature_paths \<Rightarrow> string \<Rightarrow> string" where
  "tablePath p table = join (fp_dataset p) table"

definition tableGlob :: "feature_paths \<Rightarrow> string \<Rightarrow> string" where
  "tableGlob p table = join (tablePath p table) ''*.parquet''"

definition tablePart :: "feature_paths \<Rightarrow> string \<Rightarrow> string" where
  "tablePart p table = join (tablePath p table) ''part-00000.parquet''"

record featureLedgerCounts =
  fl_SummaryRows :: int
  fl_TimelineRows :: int
  fl_Matches :: int
  fl_TimelinePresent :: int
  fl_Eligible :: int
  fl_MalformedSummary :: int
  fl_MalformedTimeline :: int
  fl_Orphans :: int

record featureReconciliation =
  fr_MatchupRows :: int
  fr_MatchupMatches :: int
  fr_LedgerMatches :: int

record FeatureCounts =
  fn_ArchiveRows :: int
  fn_TimelineRows :: int
  fn_Matches :: int
  fn_TimelinePresent :: int
  fn_Eligible :: int
  fn_Malformed :: int
  fn_Orphans :: int
  fn_Excluded :: "(string \<times> int) list"
  fn_TableRows :: "(string \<times> int) list"

definition no_feature_counts :: FeatureCounts where
  "no_feature_counts =
     \<lparr>fn_ArchiveRows = 0, fn_TimelineRows = 0, fn_Matches = 0, fn_TimelinePresent = 0, fn_Eligible = 0, fn_Malformed = 0,
      fn_Orphans = 0, fn_Excluded = [], fn_TableRows = []\<rparr>"

section \<open>The scripts\<close>

definition feature_scope :: "feature_opts \<Rightarrow> string \<Rightarrow> string" where
  "feature_scope opt prefix = featureScopeFilter prefix (fo_Region opt) (fo_Platform opt) (fo_Queue opt)"

definition envelopes_script :: "feature_paths \<Rightarrow> string" where
  "envelopes_script p =
     joinStatements [copyParquet (summaryEnvelopeSQL (fp_summaryParts p)) (summaryEnvelope p),
                     copyParquet (timelineEnvelopeSQL (fp_timelineParts p)) (timelineEnvelope p)]"

definition ledger_script :: "feature_opts \<Rightarrow> feature_paths \<Rightarrow> string" where
  "ledger_script opt p =
     copyParquet (matchIndexSQL (summaryEnvelope p) (timelineEnvelope p) (feature_scope opt []) (fo_MinDurationS opt))
       (join (tablePath p ''match_index'') ''part-00000.parquet'')"

definition summary_columns :: "string list" where
  "summary_columns =
     [''match_id'', ''region'', ''patch'', ''game_version'', ''queue_id'', ''game_creation_ms'', ''game_duration_s'', ''platform_id'',
      ''payload_valid'']"

definition timeline_columns :: "string list" where
  "timeline_columns =
     [''match_id'', ''region'', ''patch'', ''game_version'', ''queue_id'', ''game_creation_ms'', ''game_duration_s'',
      ''frame_interval_ms'', ''frame_count'', ''payload_valid'']"

definition payload_scripts :: "feature_opts \<Rightarrow> string \<Rightarrow> string list \<Rightarrow> string \<Rightarrow> string list \<Rightarrow> string \<Rightarrow> string list" where
  "payload_scripts opt envelope columns kind parts dir =
     map (\<lambda>(i, batch). copyParquet (carriedPayloadSQL envelope batch (feature_scope opt ''e'') columns) (join dir (batchFileName kind i)))
       (List.enumerate 0 (batches featureBatchParts parts))"

definition unnest_scripts :: "feature_paths \<Rightarrow> string \<Rightarrow> (string \<Rightarrow> string) \<Rightarrow> string list" where
  "unnest_scripts p kind statement =
     map (\<lambda>(i, batch). copyParquet (statement (join (scratch_file p ''timeline-payload'') (batchFileName ''timeline'' i)))
            (join (scratch_file p kind) (batchFileName kind i)))
       (List.enumerate 0 (batches featureBatchParts (fp_timelineParts p)))"

definition participants_script :: "feature_paths \<Rightarrow> string" where
  "participants_script p = copyParquet (summaryParticipantSQL (spill_glob p ''summary-payload'')) (participantsPath p)"

definition tables_script :: "feature_paths \<Rightarrow> string" where
  "tables_script p =
     (let ledger = tableGlob p ''match_index''
      in joinStatements
        [copyParquet (killPointsSQL (spill_glob p ''events'')) (killPointsPath p),
         copyParquet (participantMinutesSQL ledger (participantsPath p) (spill_glob p ''frames'') (killPointsPath p))
           (tablePart p ''participant_minutes''),
         copyParquet (checkpointPicksSQL (tableGlob p ''participant_minutes'')) (checkpointsPath p),
         copyParquet (eventsTableSQL ledger (spill_glob p ''events'')) (tablePart p ''events''),
         copyParquet (eventActorsSQL (tableGlob p ''events'')) (actorsPath p),
         copyParquet (laneMatchupsSQL ledger (participantsPath p) (checkpointsPath p)) (tablePart p ''lane_matchups''),
         copyParquet (participantEarlySQL ledger (participantsPath p) (actorsPath p) (checkpointsPath p)) (tablePart p ''participant_early''),
         copyParquet (matchObjectivesSQL ledger (tableGlob p ''events'') (participantsPath p)) (tablePart p ''match_objectives'')])"

definition counts_script :: "feature_paths \<Rightarrow> string" where
  "counts_script p =
     joinStatements
       (map (\<lambda>table. copyJSON (row_count_SQL table (tableGlob p table)) (scratch_file p (''rows-'' @ table @ ''.json''))) featureTables @
        [copyJSON (featureLedgerCountsSQL (summaryEnvelope p) (timelineEnvelope p) (tableGlob p ''match_index''))
           (scratch_file p ''ledger-counts.json''),
         copyJSON (featureExclusionsSQL (tableGlob p ''match_index'')) (scratch_file p ''exclusions.json'')])"

definition reconciliation_script :: "feature_paths \<Rightarrow> string" where
  "reconciliation_script p =
     copyJSON (featureReconciliationSQL (tableGlob p ''match_index'') (tableGlob p ''lane_matchups'')) (scratch_file p ''reconciliation.json'')"

definition describe_script :: "feature_paths \<Rightarrow> string" where
  "describe_script p =
     joinStatements (map (\<lambda>table. copyJSON (describe_SQL (tableGlob p table)) (scratch_file p (''describe-'' @ table @ ''.json''))) featureTables)"

end
