(* ===== verification/Agg_FeatureRun.thy ===== *)
theory Agg_FeatureRun
  imports Agg_Features
begin

text \<open>
  One build of the feature dataset (\<^verbatim>\<open>Features\<close> of \<^verbatim>\<open>internal/aggregate/features.go\<close>): plan and stage
  both archives, run the scripts, read the counts back, pass the gates, write the documents, publish
  six tables. How a script ends is the engine's answer; what the files it wrote hold, when the build
  reads them back, is an argument. A table in the tree is the statement its part was copied from.
  The prose of the README is not modelled: the file is the counts and options it is rendered from.
\<close>

section \<open>Documents\<close>

record FeatureManifest =
  fm_Dataset :: string
  fm_GeneratedAt :: gtime
  fm_GitSHA :: string
  fm_DuckDBVersion :: string
  fm_Sources :: "string list"
  fm_Region :: string
  fm_Platform :: string
  fm_Queue :: int
  fm_MinDurationS :: int
  fm_BatchParts :: nat
  fm_RawParts :: nat
  fm_TimelineParts :: nat
  fm_Matches :: int
  fm_Eligible :: int
  fm_Excluded :: "(string \<times> int) list"
  fm_Tables :: "(string \<times> int) list"
  fm_Notice :: string

record featureTableSchema =
  sc_Name :: string
  sc_Rows :: int
  sc_Columns :: "featureColumn list"

record featureSchemaDoc =
  sd_Dataset :: string
  sd_GeneratedBy :: string
  sd_Region :: string
  sd_Platform :: string
  sd_Queue :: int
  sd_Notice :: string
  sd_Tables :: "featureTableSchema list"

datatype fdoc =
    TablePart string | SchemaDoc featureSchemaDoc | ReadmeDoc FeatureCounts feature_opts | ReceiptDoc FeatureManifest | OtherDoc doc

definition featureNotice :: string where
  "featureNotice =
     ''This file is a build receipt, not a reader contract. It records what one '' @
     sq ''run read, excluded and wrote, and nothing in it is promised to a future reader. The dataset`s '' @
     ''columns are described in schema.json and its caveats and query recipes are in README.md.''"

definition featureSchemaNotice :: string where
  "featureSchemaNotice =
     ''One row of this document per column of every table, in the order the '' @
     ''build writes them. Types are the types DuckDB reports. This describes the dataset; it does not '' @
     ''promise those columns to a future build - a reshape publishes timeline-v2.''"

text \<open>A key of a Go map that is not there counts zero.\<close>

definition count_of :: "string \<Rightarrow> (string \<times> int) list \<Rightarrow> int" where
  "count_of k m = (case map_of m k of Some n \<Rightarrow> n | None \<Rightarrow> 0)"

definition featureSchema :: "FeatureCounts \<Rightarrow> feature_opts \<Rightarrow> featureSchemaDoc" where
  "featureSchema counts opt =
     \<lparr>sd_Dataset = FeatureDatasetDir, sd_GeneratedBy = ''lolstats-aggregate features'', sd_Region = fo_Region opt, sd_Platform = fo_Platform opt, sd_Queue = fo_Queue opt, sd_Notice = featureSchemaNotice,
      sd_Tables = map (\<lambda>name. \<lparr>sc_Name = name, sc_Rows = count_of name (fn_TableRows counts),
        sc_Columns = (case map_of featureSchemaColumns name of Some cs \<Rightarrow> cs | None \<Rightarrow> [])\<rparr>) featureTables\<rparr>"

section \<open>State, answers, errors\<close>

record fstate =
  ft_opts :: feature_opts
  ft_generatedAt :: gtime
  ft_paths :: feature_paths
  ft_version :: string
  ft_counts :: FeatureCounts
  ft_tables :: "(string \<times> int) list"
  ft_receipt :: "FeatureManifest option"
  ft_scripts :: "string list"

text \<open>The rows of the JSON files the scripts leave, by path; \<open>None\<close> when one cannot be read.\<close>

record json_answers =
  fj_ledger :: "string \<Rightarrow> featureLedgerCounts list option"
  fj_exclusions :: "string \<Rightarrow> (string \<times> int) list option"
  fj_rows :: "string \<Rightarrow> (string \<times> int) list option"
  fj_recon :: "string \<Rightarrow> featureReconciliation list option"
  fj_columns :: "string \<Rightarrow> (string \<times> string) list option"

record feature_env =
  fv_outcomes :: outcomes
  fv_readable :: "path \<Rightarrow> bool"
  fv_listing :: dir_listing
  fv_files :: file_answers
  fv_os :: os
  fv_parsers :: parsers
  fv_json :: json_answers
  fv_staging :: string
  fv_now :: gtime

datatype feature_error =
    NegativeMinDuration | RootsRequired | DemoTree | RootNotCreated | StagingNotCreated
  | ArchiveRefused archive_error | DirNotCreated path | EngineRefused engine_error
  | RowsUnreadable string | NotOneRow string nat
  | MalformedRows int | UnexplainedRows int | OrphanRows int | NoMatches | NoTimelines
  | MatchesDiffer int int | RowsDiffer int int
  | NoSpecification string | ColumnCount string nat nat | SchemaDrift "string list"
  | DocNotWritten string | NotPublished pub_error

type_synonym fworld = "fdoc Agg_Publish.fs"

type_synonym fstep = "fstate \<Rightarrow> fworld \<Rightarrow> feature_error option \<times> fstate \<times> fworld"

section \<open>Running scripts\<close>

definition dataset_path :: "string list \<Rightarrow> path" where
  "dataset_path names = FeatureDatasetDir # names"

definition put_file :: "path \<Rightarrow> 'a \<Rightarrow> 'a tree \<Rightarrow> 'a tree" where
  "put_file p d t = (p, NFile d) # filter (\<lambda>(q, n). q \<noteq> p) t"

text \<open>
  \<^verbatim>\<open>Exec\<close>, and the copies of the script that land in the dataset's tree: each a table and the
  statement its part is copied from.
\<close>

definition run_script :: "feature_env \<Rightarrow> CLIEngine \<Rightarrow> string \<Rightarrow> (string \<times> string) list \<Rightarrow> fstep" where
  "run_script V cli sql tables st s =
     (let st1 = st\<lparr>ft_scripts := ft_scripts st @ [sql]\<rparr>
      in case Exec (fv_os V) cli sql of
           Some x \<Rightarrow> (Some (EngineRefused x), st1, s)
         | None \<Rightarrow> (None, st1, s\<lparr>fs_stage := fold (\<lambda>(t, q). put_file (dataset_path [t, ''part-00000.parquet'']) (TablePart q))
             tables (fs_stage s)\<rparr>))"

fun run_scripts :: "feature_env \<Rightarrow> CLIEngine \<Rightarrow> string list \<Rightarrow> fstep" where
  "run_scripts V cli [] st s = (None, st, s)"
| "run_scripts V cli (sql # sqls) st s =
     (case run_script V cli sql [] st s of
        (Some x, st1, s1) \<Rightarrow> (Some x, st1, s1)
      | (None, st1, s1) \<Rightarrow> run_scripts V cli sqls st1 s1)"

fun in_turn :: "fstep list \<Rightarrow> fstep" where
  "in_turn [] st s = (None, st, s)"
| "in_turn (f # fs) st s =
     (case f st s of
        (Some x, st1, s1) \<Rightarrow> (Some x, st1, s1)
      | (None, st1, s1) \<Rightarrow> in_turn fs st1 s1)"

definition spillEnvelopes :: "feature_env \<Rightarrow> CLIEngine \<Rightarrow> fstep" where
  "spillEnvelopes V cli st = run_script V cli (envelopes_script (ft_paths st)) [] st"

definition ledger_query :: "fstate \<Rightarrow> string" where
  "ledger_query st =
     matchIndexSQL (summaryEnvelope (ft_paths st)) (timelineEnvelope (ft_paths st)) (feature_scope (ft_opts st) [])
       (fo_MinDurationS (ft_opts st))"

definition writeLedger :: "feature_env \<Rightarrow> CLIEngine \<Rightarrow> fstep" where
  "writeLedger V cli st = run_script V cli (ledger_script (ft_opts st) (ft_paths st)) [(''match_index'', ledger_query st)] st"

definition summary_payload_scripts :: "fstate \<Rightarrow> string list" where
  "summary_payload_scripts st =
     payload_scripts (ft_opts st) (summaryEnvelope (ft_paths st)) summary_columns ''summary'' (fp_summaryParts (ft_paths st))
       (scratch_file (ft_paths st) ''summary-payload'')"

definition timeline_payload_scripts :: "fstate \<Rightarrow> string list" where
  "timeline_payload_scripts st =
     payload_scripts (ft_opts st) (timelineEnvelope (ft_paths st)) timeline_columns ''timeline'' (fp_timelineParts (ft_paths st))
       (scratch_file (ft_paths st) ''timeline-payload'')"

definition spillPayloads :: "feature_env \<Rightarrow> CLIEngine \<Rightarrow> fstep" where
  "spillPayloads V cli =
     in_turn [\<lambda>st. run_scripts V cli (summary_payload_scripts st) st, \<lambda>st. run_scripts V cli (timeline_payload_scripts st) st]"

definition selectParticipants :: "feature_env \<Rightarrow> CLIEngine \<Rightarrow> fstep" where
  "selectParticipants V cli st = run_script V cli (participants_script (ft_paths st)) [] st"

definition spillFrames :: "feature_env \<Rightarrow> CLIEngine \<Rightarrow> fstep" where
  "spillFrames V cli st = run_scripts V cli (unnest_scripts (ft_paths st) ''frames'' timelineFramesSQL) st"

definition spillEvents :: "feature_env \<Rightarrow> CLIEngine \<Rightarrow> fstep" where
  "spillEvents V cli st = run_scripts V cli (unnest_scripts (ft_paths st) ''events'' timelineEventsSQL) st"

text \<open>The five derived tables and the statements they are copied from.\<close>

definition derived_tables :: "feature_paths \<Rightarrow> (string \<times> string) list" where
  "derived_tables p =
     (let ledger = tableGlob p ''match_index''
      in [(''participant_minutes'', participantMinutesSQL ledger (participantsPath p) (spill_glob p ''frames'') (killPointsPath p)),
          (''events'', eventsTableSQL ledger (spill_glob p ''events'')),
          (''lane_matchups'', laneMatchupsSQL ledger (participantsPath p) (checkpointsPath p)),
          (''participant_early'', participantEarlySQL ledger (participantsPath p) (actorsPath p) (checkpointsPath p)),
          (''match_objectives'', matchObjectivesSQL ledger (tableGlob p ''events'') (participantsPath p))])"

definition writeTables :: "feature_env \<Rightarrow> CLIEngine \<Rightarrow> fstep" where
  "writeTables V cli st = run_script V cli (tables_script (ft_paths st)) (derived_tables (ft_paths st)) st"

section \<open>Counting\<close>

definition ledger_counts :: "featureLedgerCounts \<Rightarrow> FeatureCounts \<Rightarrow> FeatureCounts" where
  "ledger_counts l counts =
     counts\<lparr>fn_ArchiveRows := fl_SummaryRows l, fn_TimelineRows := fl_TimelineRows l, fn_Matches := fl_Matches l,
       fn_TimelinePresent := fl_TimelinePresent l, fn_Eligible := fl_Eligible l,
       fn_Malformed := fl_MalformedSummary l + fl_MalformedTimeline l, fn_Orphans := fl_Orphans l\<rparr>"

fun read_table_rows :: "json_answers \<Rightarrow> feature_paths \<Rightarrow> string list \<Rightarrow> FeatureCounts \<times> (string \<times> int) list
    \<Rightarrow> feature_error option \<times> FeatureCounts \<times> (string \<times> int) list" where
  "read_table_rows J p [] (counts, rows) = (None, counts, rows)"
| "read_table_rows J p (t # ts) (counts, rows) =
     (let file = scratch_file p (''rows-'' @ t @ ''.json'')
      in case fj_rows J file of
           None \<Rightarrow> (Some (RowsUnreadable file), counts, rows)
         | Some [(name, n)] \<Rightarrow> read_table_rows J p ts (counts\<lparr>fn_TableRows := AList.update t n (fn_TableRows counts)\<rparr>, rows @ [(t, n)])
         | Some rs \<Rightarrow> (Some (NotOneRow t (length rs)), counts, rows))"

definition read_counts :: "json_answers \<Rightarrow> fstate \<Rightarrow> feature_error option \<times> fstate" where
  "read_counts J st =
     (let p = ft_paths st; ledger = scratch_file p ''ledger-counts.json''; exclusions = scratch_file p ''exclusions.json''
      in case fj_ledger J ledger of
           None \<Rightarrow> (Some (RowsUnreadable ledger), st)
         | Some [l] \<Rightarrow>
             (let st1 = st\<lparr>ft_counts := ledger_counts l (ft_counts st)\<rparr>
              in case fj_exclusions J exclusions of
                   None \<Rightarrow> (Some (RowsUnreadable exclusions), st1)
                 | Some es \<Rightarrow>
                     (let counts = (ft_counts st1)\<lparr>fn_Excluded := fold (\<lambda>(r, n). AList.update r n) es []\<rparr>
                      in case read_table_rows J p featureTables (counts, []) of
                           (Some x, counts1, rows) \<Rightarrow> (Some x, st1\<lparr>ft_counts := counts1\<rparr>)
                         | (None, counts1, rows) \<Rightarrow> (None, st1\<lparr>ft_counts := counts1, ft_tables := rows\<rparr>)))
         | Some ls \<Rightarrow> (Some (NotOneRow ''ledger counts'' (length ls)), st))"

definition countRows :: "feature_env \<Rightarrow> CLIEngine \<Rightarrow> fstep" where
  "countRows V cli =
     in_turn [\<lambda>st. run_script V cli (counts_script (ft_paths st)) [] st,
              \<lambda>st s. (let (x, st1) = read_counts (fv_json V) st in (x, st1, s))]"

section \<open>Gates\<close>

definition check_counts :: "FeatureCounts \<Rightarrow> feature_error option" where
  "check_counts counts =
     (if 0 < fn_Malformed counts then Some (MalformedRows (fn_Malformed counts))
      else if 0 < count_of ''unexplained'' (fn_Excluded counts)
      then Some (UnexplainedRows (count_of ''unexplained'' (fn_Excluded counts)))
      else if 0 < fn_Orphans counts then Some (OrphanRows (fn_Orphans counts))
      else if fn_Matches counts = 0 then Some NoMatches
      else if fn_TimelinePresent counts = 0 then Some NoTimelines
      else None)"

definition check_reconciliation :: "json_answers \<Rightarrow> feature_paths \<Rightarrow> feature_error option" where
  "check_reconciliation J p =
     (let file = scratch_file p ''reconciliation.json''
      in case fj_recon J file of
           None \<Rightarrow> Some (RowsUnreadable file)
         | Some [r] \<Rightarrow>
             (if fr_MatchupMatches r \<noteq> fr_LedgerMatches r then Some (MatchesDiffer (fr_MatchupMatches r) (fr_LedgerMatches r))
              else if fr_MatchupRows r \<noteq> fr_MatchupMatches r * 10 then Some (RowsDiffer (fr_MatchupRows r) (fr_MatchupMatches r))
              else None)
         | Some rs \<Rightarrow> Some (NotOneRow ''reconciliation'' (length rs)))"

text \<open>The mismatches of one table: a column of another name, or of another base type.\<close>

definition column_drift :: "string \<Rightarrow> (string \<times> string) list \<Rightarrow> featureColumn list \<Rightarrow> string list" where
  "column_drift table described expected =
     concat (map (\<lambda>((name, typ), c).
       if name \<noteq> fc_Name c then [table @ '' column '' @ name]
       else if \<not> featureTypeMatches typ (fc_Type c) then [table @ ''.'' @ name @ '' built '' @ typ] else [])
       (zip described expected))"

fun check_tables :: "json_answers \<Rightarrow> feature_paths \<Rightarrow> string list \<Rightarrow> string list \<Rightarrow> feature_error option" where
  "check_tables J p drift [] = (if drift = [] then None else Some (SchemaDrift drift))"
| "check_tables J p drift (t # ts) =
     (let file = scratch_file p (''describe-'' @ t @ ''.json'')
      in case fj_columns J file of
           None \<Rightarrow> Some (RowsUnreadable file)
         | Some described \<Rightarrow>
             (case map_of featureSchemaColumns t of
                None \<Rightarrow> Some (NoSpecification t)
              | Some expected \<Rightarrow>
                  (if length described \<noteq> length expected then Some (ColumnCount t (length described) (length expected))
                   else check_tables J p (drift @ column_drift t described expected) ts)))"

definition checkSchema :: "feature_env \<Rightarrow> CLIEngine \<Rightarrow> fstep" where
  "checkSchema V cli =
     in_turn [\<lambda>st. run_script V cli (describe_script (ft_paths st)) [] st,
              \<lambda>st s. (check_tables (fv_json V) (ft_paths st) [] featureTables, st, s)]"

definition checkGates :: "feature_env \<Rightarrow> CLIEngine \<Rightarrow> fstep" where
  "checkGates V cli =
     in_turn [\<lambda>st s. (check_counts (ft_counts st), st, s),
              \<lambda>st. run_script V cli (reconciliation_script (ft_paths st)) [] st,
              \<lambda>st s. (check_reconciliation (fv_json V) (ft_paths st), st, s),
              checkSchema V cli]"

section \<open>Documents\<close>

text \<open>\<^verbatim>\<open>writeDoc\<close> below the staged dataset, whose directory is there.\<close>

definition write_fdoc :: "feature_env \<Rightarrow> string \<Rightarrow> fdoc \<Rightarrow> fstep" where
  "write_fdoc V name d st s =
     (if step_ok (fv_outcomes V) s \<and> \<not> is_dir (fs_stage s) (dataset_path [name])
      then (None, st, (tick s)\<lparr>fs_stage := put_file (dataset_path [name]) d (fs_stage s)\<rparr>)
      else (Some (DocNotWritten name), st, tick s))"

definition chmod_readme :: "feature_env \<Rightarrow> fstep" where
  "chmod_readme V st s = (if step_ok (fv_outcomes V) s then (None, st, tick s) else (Some (DocNotWritten ''README.md''), st, tick s))"

definition writeDocs :: "feature_env \<Rightarrow> fstep" where
  "writeDocs V =
     in_turn [\<lambda>st. write_fdoc V ''schema.json'' (SchemaDoc (featureSchema (ft_counts st) (ft_opts st))) st,
              \<lambda>st. write_fdoc V ''README.md'' (ReadmeDoc (ft_counts st) (ft_opts st)) st,
              chmod_readme V]"

definition feature_manifest :: "fstate \<Rightarrow> FeatureManifest" where
  "feature_manifest st =
     (let opt = ft_opts st; counts = ft_counts st
      in \<lparr>fm_Dataset = FeatureDatasetDir, fm_GeneratedAt = ft_generatedAt st, fm_GitSHA = fo_GitSHA opt, fm_DuckDBVersion = ft_version st,
          fm_Sources = [featureSummarySource, featureTimelineSource], fm_Region = fo_Region opt, fm_Platform = fo_Platform opt,
          fm_Queue = fo_Queue opt, fm_MinDurationS = fo_MinDurationS opt, fm_BatchParts = featureBatchParts,
          fm_RawParts = length (fp_summaryParts (ft_paths st)), fm_TimelineParts = length (fp_timelineParts (ft_paths st)),
          fm_Matches = fn_Matches counts, fm_Eligible = fn_Eligible counts, fm_Excluded = fn_Excluded counts,
          fm_Tables = ft_tables st, fm_Notice = featureNotice\<rparr>)"

definition writeManifest :: "feature_env \<Rightarrow> fstep" where
  "writeManifest V st =
     (let m = feature_manifest st in write_fdoc V ''manifest.json'' (ReceiptDoc m) (st\<lparr>ft_receipt := Some m\<rparr>))"

section \<open>The run\<close>

definition feature_phases :: "feature_env \<Rightarrow> CLIEngine \<Rightarrow> fstep list" where
  "feature_phases V cli =
     [spillEnvelopes V cli, writeLedger V cli, spillPayloads V cli, selectParticipants V cli, spillFrames V cli,
      spillEvents V cli, writeTables V cli, countRows V cli, checkGates V cli, writeDocs V, writeManifest V]"

definition feature_run :: "feature_env \<Rightarrow> fstep" where
  "feature_run V st s =
     (case OpenCLIEngine (fv_os V) (fv_parsers V) (fo_DuckDBBin (ft_opts st)) (fo_AllowVersionMismatch (ft_opts st))
        (fo_DuckDB (ft_opts st)) of
        Inl x \<Rightarrow> (Some (EngineRefused x), st, s)
      | Inr cli \<Rightarrow> in_turn (feature_phases V cli) (st\<lparr>ft_version := ce_version cli\<rparr>) s)"

definition feature_dirs :: "path list" where
  "feature_dirs = map (\<lambda>t. dataset_path [t]) featureTables"

definition feature_files :: "path list" where
  "feature_files = [dataset_path [''schema.json''], dataset_path [''README.md'']]"

definition feature_publish :: "feature_env \<Rightarrow> fworld \<Rightarrow> feature_error option \<times> pub_result \<times> fworld" where
  "feature_publish V s =
     (case Publish (fv_outcomes V) feature_dirs feature_files (dataset_path [''manifest.json'']) s of
        (Some e, r, s1) \<Rightarrow> (Some (NotPublished e), no_publish, s1)
      | (None, r, s1) \<Rightarrow> (None, r, s1))"

section \<open>Planning and laying out\<close>

fun make_dirs :: "outcomes \<Rightarrow> path list \<Rightarrow> 'a Agg_Publish.fs \<Rightarrow> path option \<times> 'a Agg_Publish.fs" where
  "make_dirs E [] s = (None, s)"
| "make_dirs E (d # ds) s =
     (if step_ok E s \<and> \<not> blocked d (fs_stage s) then make_dirs E ds ((tick s)\<lparr>fs_stage := mkdirs d (fs_stage s)\<rparr>)
      else (Some d, tick s))"

definition layout_dirs :: "path list" where
  "layout_dirs =
     map (\<lambda>d. [''.scratch'', d]) [''summary-payload'', ''timeline-payload'', ''frames'', ''events''] @ [dataset_path []] @ feature_dirs"

definition new_feature_state :: "feature_env \<Rightarrow> feature_opts \<Rightarrow> fworld \<Rightarrow> (feature_error + fstate) \<times> fworld" where
  "new_feature_state V opt s =
     (let staging = join (fo_DatasetRoot opt) (fv_staging V); scratch = join staging ''.scratch''
      in case Parts (fv_listing V) \<lparr>ra_Root = fo_RawRoot opt, ra_Before = [], ra_Source = []\<rparr> of
           Inl e \<Rightarrow> (Inl (ArchiveRefused e), s)
         | Inr summary \<Rightarrow>
      (case Parts (fv_listing V) \<lparr>ra_Root = fo_RawRoot opt, ra_Before = [], ra_Source = RawSourceTimeline\<rparr> of
           Inl e \<Rightarrow> (Inl (ArchiveRefused e), s)
         | Inr timeline \<Rightarrow>
      (case StageParts (fv_files V) (join scratch ''raw-summary'') summary of
           Inl e \<Rightarrow> (Inl (ArchiveRefused e), s)
         | Inr summaryParts \<Rightarrow>
      (case StageParts (fv_files V) (join scratch ''raw-timeline'') timeline of
           Inl e \<Rightarrow> (Inl (ArchiveRefused e), s)
         | Inr timelineParts \<Rightarrow>
      (case make_dirs (fv_outcomes V) layout_dirs s of
           (Some d, s1) \<Rightarrow> (Inl (DirNotCreated d), s1)
         | (None, s1) \<Rightarrow>
             (Inr \<lparr>ft_opts = opt, ft_generatedAt = fv_now V,
                   ft_paths = \<lparr>fp_summaryParts = summaryParts, fp_timelineParts = timelineParts, fp_scratch = scratch,
                               fp_dataset = join staging FeatureDatasetDir\<rparr>,
                   ft_version = [], ft_counts = no_feature_counts, ft_tables = [], ft_receipt = None, ft_scripts = []\<rparr>, s1))))))"

section \<open>The build\<close>

record FeatureResult =
  fu_Dir :: string
  fu_StagingDir :: string
  fu_Manifest :: "FeatureManifest option"
  fu_Counts :: FeatureCounts
  fu_Tables :: "(string \<times> int) list"
  fu_Published :: pub_result
  fu_Scripts :: "string list"

definition no_feature_result :: FeatureResult where
  "no_feature_result = \<lparr>fu_Dir = [], fu_StagingDir = [], fu_Manifest = None, fu_Counts = no_feature_counts, fu_Tables = [],
     fu_Published = no_publish, fu_Scripts = []\<rparr>"

definition normalize_features :: "feature_opts \<Rightarrow> feature_opts" where
  "normalize_features opt =
     opt\<lparr>fo_MinDurationS := (if fo_MinDurationS opt = 0 then DefaultFeatureMinDurationS else fo_MinDurationS opt)\<rparr>"

text \<open>The guard reads the dataset root as an aggregate root.\<close>

definition root_docs :: "fdoc tree \<Rightarrow> docs" where
  "root_docs t =
     map (\<lambda>(q, n). (q, case n of NDir \<Rightarrow> NDir | NFile d \<Rightarrow> NFile (case d of OtherDoc x \<Rightarrow> x | y \<Rightarrow> Damaged))) t"

definition result_of :: "FeatureResult \<Rightarrow> fstate \<Rightarrow> FeatureResult" where
  "result_of r st = r\<lparr>fu_Counts := ft_counts st, fu_Tables := ft_tables st, fu_Scripts := ft_scripts st\<rparr>"

text \<open>The staging tree is new when the build starts and removed on every path out.\<close>

definition build_staged :: "feature_env \<Rightarrow> feature_opts \<Rightarrow> FeatureResult \<Rightarrow> fworld
    \<Rightarrow> feature_error option \<times> FeatureResult \<times> fworld" where
  "build_staged V opt r s =
     (case new_feature_state V opt s of
        (Inl x, s1) \<Rightarrow> (Some x, r, s1)
      | (Inr st, s1) \<Rightarrow>
          (case feature_run V st s1 of
             (Some x, st1, s2) \<Rightarrow> (Some x, result_of r st1, s2)
           | (None, st1, s2) \<Rightarrow>
               (case feature_publish V s2 of
                  (Some x, pr, s3) \<Rightarrow> (Some x, result_of r st1, s3)
                | (None, pr, s3) \<Rightarrow> (None, (result_of r st1)\<lparr>fu_Published := pr, fu_Manifest := ft_receipt st1\<rparr>, s3))))"

definition Features :: "feature_env \<Rightarrow> feature_opts \<Rightarrow> fworld \<Rightarrow> feature_error option \<times> FeatureResult \<times> fworld" where
  "Features V opt0 s =
     (let opt = normalize_features opt0; E = fv_outcomes V
      in if fo_MinDurationS opt < 0 then (Some NegativeMinDuration, no_feature_result, s)
         else if fo_DatasetRoot opt = [] \<or> fo_RawRoot opt = [] then (Some RootsRequired, no_feature_result, s)
         else if refuseDemoTree (fv_readable V) (root_docs (fs_live s)) then (Some DemoTree, no_feature_result, s)
         else if \<not> step_ok E s then (Some RootNotCreated, no_feature_result, tick s)
         else if \<not> step_ok E (tick s) then (Some StagingNotCreated, no_feature_result, tick (tick s))
         else (let (x, r, s1) =
                     build_staged V opt
                       (no_feature_result\<lparr>fu_StagingDir := join (fo_DatasetRoot opt) (fv_staging V),
                                  fu_Dir := join (fo_DatasetRoot opt) FeatureDatasetDir\<rparr>)
                       ((tick (tick s))\<lparr>fs_stage := []\<rparr>)
               in (x, r, s1\<lparr>fs_stage := []\<rparr>)))"

end
