(* ===== verification/Features_SQL_Props.thy ===== *)
theory Features_SQL_Props
  imports SQL_Props Agg_FeatureRun
begin

text \<open>
  What the engine reads in a build of the feature dataset: its scripts are exactly the statements the
  code means them to be.
\<close>

section \<open>The builders\<close>

lemma closed_platform: "closed_sql alias \<Longrightarrow> closed_sql (platformCondition alias platforms)"
  by (auto simp: platformCondition_def Let_def sql_check intro!: closed_join split: list.splits)

lemma closed_scope_filter [simp]:
  "closed_sql (featureScopeFilter [] region platform queue)" "closed_sql (featureScopeFilter ''e'' region platform queue)"
  by (simp_all add: featureScopeFilter_def closed_platform sql_check)

text \<open>The lines of a statement are its constants and the places where a path is quoted.\<close>

definition closed_all :: "string list \<Rightarrow> bool" where
  "closed_all xs = (\<forall>x \<in> set xs. closed_sql x)"

lemma closed_text_intros:
  "closed_all xs \<Longrightarrow> closed_sql (sql_lines xs)"
  "closed_all []"
  "closed_sql x \<Longrightarrow> closed_all xs \<Longrightarrow> closed_all (x # xs)"
  "closed_sql x \<Longrightarrow> closed_sql y \<Longrightarrow> closed_sql (x @ y)"
  "closed_sql (parquetOf path)"
  "closed_sql (fileList paths)"
  by (simp_all add: closed_all_def)

lemma closed_joined: "closed_sql sep \<Longrightarrow> closed_all xs \<Longrightarrow> closed_sql (strings_join sep xs)"
  by (simp add: closed_all_def)

lemma closed_envelopes [simp]: "closed_sql (summaryEnvelopeSQL parts)" "closed_sql (timelineEnvelopeSQL parts)"
  unfolding summaryEnvelopeSQL_def timelineEnvelopeSQL_def by (intro closed_text_intros; code_simp)+

lemma closed_projected: "closed_all columns \<Longrightarrow> closed_sql (projected_columns columns)"
  by (induction columns) (simp_all add: projected_columns_def closed_all_def line_end_def sql_check)

lemma closed_carried [simp]:
  assumes "closed_sql scope" and "closed_all columns"
  shows "closed_sql (carriedPayloadSQL envelopePath parts scope columns)"
  unfolding carriedPayloadSQL_def
  by (intro closed_text_intros closed_projected assms; code_simp)

lemma closed_columns [simp]: "closed_all summary_columns" "closed_all timeline_columns"
  by code_simp+

lemma closed_participants [simp]: "closed_sql (summaryParticipantSQL path)"
  unfolding summaryParticipantSQL_def by (intro closed_text_intros; code_simp)

lemma closed_frames [simp]: "closed_sql (timelineFramesSQL path)"
  unfolding timelineFramesSQL_def by (intro closed_text_intros; code_simp)

lemma closed_events [simp]: "closed_sql (timelineEventsSQL path)"
  unfolding timelineEventsSQL_def by (intro closed_text_intros; code_simp)

lemma closed_kill_points [simp]: "closed_sql (killPointsSQL path)"
  unfolding killPointsSQL_def kill_branch_def by (intro closed_text_intros; code_simp)

lemma closed_checkpoints [simp]: "closed_sql (checkpointPicksSQL path)"
  unfolding checkpointPicksSQL_def by (intro closed_text_intros; code_simp)

lemma closed_lane_matchups [simp]: "closed_sql (laneMatchupsSQL a b c)"
  unfolding laneMatchupsSQL_def by (intro closed_text_intros closed_joined; code_simp)

lemma closed_actor_branches:
  "closed_sql (actor_branch path ''actor_participant_id'' ''actor'')" "closed_sql (actor_branch path ''target_participant_id'' ''target'')"
  by (simp_all add: actor_branch_def actor_columns_def sql_check)

lemma closed_actors [simp]: "closed_sql (eventActorsSQL path)"
  unfolding eventActorsSQL_def by (intro closed_text_intros closed_actor_branches; code_simp)

lemma closed_early [simp]: "closed_sql (participantEarlySQL a b c d)"
  unfolding participantEarlySQL_def by (intro closed_text_intros; code_simp)

lemma closed_ledger [simp]: "closed_sql scope \<Longrightarrow> closed_sql (matchIndexSQL a b scope n)"
  unfolding matchIndexSQL_def by (intro closed_text_intros closed_show_int; (assumption | code_simp))

lemma closed_minutes [simp]: "closed_sql (participantMinutesSQL a b c d)"
  unfolding participantMinutesSQL_def by (intro closed_text_intros; code_simp)

lemma closed_events_table [simp]: "closed_sql (eventsTableSQL a b)"
  unfolding eventsTableSQL_def by (intro closed_text_intros; code_simp)

lemma closed_objectives [simp]: "closed_sql (matchObjectivesSQL a b c)"
  unfolding matchObjectivesSQL_def by (intro closed_text_intros closed_joined; code_simp)

lemma closed_counts [simp]:
  "closed_sql (featureLedgerCountsSQL a b c)" "closed_sql (featureExclusionsSQL a)" "closed_sql (featureReconciliationSQL a b)"
  "closed_sql (row_count_SQL t a)" "closed_sql (describe_SQL a)"
  unfolding featureLedgerCountsSQL_def featureExclusionsSQL_def featureReconciliationSQL_def row_count_SQL_def describe_SQL_def
  by (intro closed_text_intros closed_quoteLiteral; code_simp)+

section \<open>Scripts\<close>

lemma single_script_reads: "reads_as st txt \<Longrightarrow> sql_statements (Exec_script e st) = preamble_statements (ce_settings e) @ [txt]"
  using engine_script_reads [of "[st]" "[txt]" e] by (simp add: joinStatements_def)

definition table_copies :: "feature_paths \<Rightarrow> string list" where
  "table_copies p =
     (let ledger = tableGlob p ''match_index''
      in [parquet_copy (killPointsSQL (spill_glob p ''events'')) (killPointsPath p),
          parquet_copy (participantMinutesSQL ledger (participantsPath p) (spill_glob p ''frames'') (killPointsPath p))
            (tablePart p ''participant_minutes''),
          parquet_copy (checkpointPicksSQL (tableGlob p ''participant_minutes'')) (checkpointsPath p),
          parquet_copy (eventsTableSQL ledger (spill_glob p ''events'')) (tablePart p ''events''),
          parquet_copy (eventActorsSQL (tableGlob p ''events'')) (actorsPath p),
          parquet_copy (laneMatchupsSQL ledger (participantsPath p) (checkpointsPath p)) (tablePart p ''lane_matchups''),
          parquet_copy (participantEarlySQL ledger (participantsPath p) (actorsPath p) (checkpointsPath p))
            (tablePart p ''participant_early''),
          parquet_copy (matchObjectivesSQL ledger (tableGlob p ''events'') (participantsPath p)) (tablePart p ''match_objectives'')])"

text \<open>
  C22: a build of the features runs the statements it means to run, and nothing else. Whatever the paths,
  the configured region, platform and queue and the engine's settings contain, each process reads the
  five bounds and then exactly its copies: the two envelopes, the ledger, one payload for each batch of
  parts, one unnesting for each batch of timelines, the eight statements of the derived tables, and the
  counts.
\<close>

theorem feature_scripts_are_their_statements:
  "sql_statements (Exec_script e (envelopes_script p)) =
     preamble_statements (ce_settings e) @
     [parquet_copy (summaryEnvelopeSQL (fp_summaryParts p)) (summaryEnvelope p),
      parquet_copy (timelineEnvelopeSQL (fp_timelineParts p)) (timelineEnvelope p)] \<and>
   sql_statements (Exec_script e (ledger_script opt p)) =
     preamble_statements (ce_settings e) @
     [parquet_copy (matchIndexSQL (summaryEnvelope p) (timelineEnvelope p) (feature_scope opt []) (fo_MinDurationS opt))
        (tablePart p ''match_index'')] \<and>
   map (\<lambda>s. sql_statements (Exec_script e s)) (payload_scripts opt envelope summary_columns kind parts dir) =
     map (\<lambda>(i, batch). preamble_statements (ce_settings e) @
            [parquet_copy (carriedPayloadSQL envelope batch (feature_scope opt ''e'') summary_columns) (join dir (batchFileName kind i))])
       (List.enumerate 0 (batches featureBatchParts parts)) \<and>
   map (\<lambda>s. sql_statements (Exec_script e s)) (payload_scripts opt envelope timeline_columns kind parts dir) =
     map (\<lambda>(i, batch). preamble_statements (ce_settings e) @
            [parquet_copy (carriedPayloadSQL envelope batch (feature_scope opt ''e'') timeline_columns) (join dir (batchFileName kind i))])
       (List.enumerate 0 (batches featureBatchParts parts)) \<and>
   map (\<lambda>s. sql_statements (Exec_script e s)) (unnest_scripts p ''frames'' timelineFramesSQL) =
     map (\<lambda>(i, batch). preamble_statements (ce_settings e) @
            [parquet_copy (timelineFramesSQL (join (scratch_file p ''timeline-payload'') (batchFileName ''timeline'' i)))
               (join (scratch_file p ''frames'') (batchFileName ''frames'' i))])
       (List.enumerate 0 (batches featureBatchParts (fp_timelineParts p))) \<and>
   map (\<lambda>s. sql_statements (Exec_script e s)) (unnest_scripts p ''events'' timelineEventsSQL) =
     map (\<lambda>(i, batch). preamble_statements (ce_settings e) @
            [parquet_copy (timelineEventsSQL (join (scratch_file p ''timeline-payload'') (batchFileName ''timeline'' i)))
               (join (scratch_file p ''events'') (batchFileName ''events'' i))])
       (List.enumerate 0 (batches featureBatchParts (fp_timelineParts p))) \<and>
   sql_statements (Exec_script e (participants_script p)) =
     preamble_statements (ce_settings e) @
     [parquet_copy (summaryParticipantSQL (spill_glob p ''summary-payload'')) (participantsPath p)] \<and>
   sql_statements (Exec_script e (tables_script p)) = preamble_statements (ce_settings e) @ table_copies p \<and>
   sql_statements (Exec_script e (counts_script p)) =
     preamble_statements (ce_settings e) @
     map (\<lambda>t. json_copy (row_count_SQL t (tableGlob p t)) (scratch_file p (''rows-'' @ t @ ''.json''))) featureTables @
     [json_copy (featureLedgerCountsSQL (summaryEnvelope p) (timelineEnvelope p) (tableGlob p ''match_index''))
        (scratch_file p ''ledger-counts.json''),
      json_copy (featureExclusionsSQL (tableGlob p ''match_index'')) (scratch_file p ''exclusions.json'')] \<and>
   sql_statements (Exec_script e (reconciliation_script p)) =
     preamble_statements (ce_settings e) @
     [json_copy (featureReconciliationSQL (tableGlob p ''match_index'') (tableGlob p ''lane_matchups''))
        (scratch_file p ''reconciliation.json'')] \<and>
   sql_statements (Exec_script e (describe_script p)) =
     preamble_statements (ce_settings e) @
     map (\<lambda>t. json_copy (describe_SQL (tableGlob p t)) (scratch_file p (''describe-'' @ t @ ''.json''))) featureTables"
proof (intro conjI)
  show "sql_statements (Exec_script e (counts_script p)) =
     preamble_statements (ce_settings e) @
     map (\<lambda>t. json_copy (row_count_SQL t (tableGlob p t)) (scratch_file p (''rows-'' @ t @ ''.json''))) featureTables @
     [json_copy (featureLedgerCountsSQL (summaryEnvelope p) (timelineEnvelope p) (tableGlob p ''match_index''))
        (scratch_file p ''ledger-counts.json''),
      json_copy (featureExclusionsSQL (tableGlob p ''match_index'')) (scratch_file p ''exclusions.json'')]"
    unfolding counts_script_def by (rule engine_script_reads) (simp add: featureTables_def)
  show "sql_statements (Exec_script e (describe_script p)) =
     preamble_statements (ce_settings e) @
     map (\<lambda>t. json_copy (describe_SQL (tableGlob p t)) (scratch_file p (''describe-'' @ t @ ''.json''))) featureTables"
    unfolding describe_script_def by (rule engine_script_reads) (simp add: featureTables_def)
  show "sql_statements (Exec_script e (tables_script p)) = preamble_statements (ce_settings e) @ table_copies p"
    unfolding tables_script_def table_copies_def Let_def by (rule engine_script_reads) simp
  show "sql_statements (Exec_script e (envelopes_script p)) =
     preamble_statements (ce_settings e) @
     [parquet_copy (summaryEnvelopeSQL (fp_summaryParts p)) (summaryEnvelope p),
      parquet_copy (timelineEnvelopeSQL (fp_timelineParts p)) (timelineEnvelope p)]"
    unfolding envelopes_script_def by (rule engine_script_reads) simp
qed (auto simp: ledger_script_def participants_script_def reconciliation_script_def payload_scripts_def unnest_scripts_def
      tablePart_def feature_scope_def
      o_def case_prod_unfold intro!: single_script_reads)

end
