(* ===== verification/Feature_Columns.thy ===== *)
theory Feature_Columns
  imports Features_SQL_Props
begin

text \<open>
  The columns of the feature dataset: the names the statement of a table projects, read off its text, are
  the names its specification documents. A newline inside a literal does not end a line, so what the
  paths contain does not matter.
\<close>

section \<open>Lines\<close>

fun lines_from :: "bool \<Rightarrow> string \<Rightarrow> string \<Rightarrow> string list" where
  "lines_from q acc [] = [rev acc]"
| "lines_from q acc (c # cs) =
     (if c = quote_char then lines_from (\<not> q) (c # acc) cs
      else if c = line_end \<and> \<not> q then rev acc # lines_from False [] cs
      else lines_from q (c # acc) cs)"

definition text_lines :: "string \<Rightarrow> string list" where
  "text_lines s = lines_from False [] s"

lemma lines_from_append:
  "sql_scan q a = Some False \<Longrightarrow> lines_from q acc (a @ line_end # rest) = lines_from q acc a @ text_lines rest"
  by (induction q acc a rule: lines_from.induct) (auto simp: text_lines_def line_end_def quote_char_def split: if_splits)

lemma text_lines_append: "closed_sql a \<Longrightarrow> text_lines (a @ line_end # rest) = text_lines a @ text_lines rest"
  by (simp add: text_lines_def closed_sql_def lines_from_append)

lemma text_lines_sql_lines: "closed_all xs \<Longrightarrow> xs \<noteq> [] \<Longrightarrow> text_lines (sql_lines xs) = concat (map text_lines xs)"
proof (induction xs)
  case (Cons x xs)
  show ?case
  proof (cases "xs = []")
    case False
    then have "sql_lines (x # xs) = x @ line_end # sql_lines xs" by (cases xs) (simp_all add: sql_lines_def)
    then show ?thesis using Cons False by (simp add: closed_all_def text_lines_append)
  qed (simp add: sql_lines_def)
qed simp

text \<open>A column list joined by commas and newlines.\<close>

fun joined_lines :: "string \<Rightarrow> string \<Rightarrow> string \<Rightarrow> string list \<Rightarrow> string list" where
  "joined_lines p s t [] = text_lines p"
| "joined_lines p s t [x] = text_lines (p @ x)"
| "joined_lines p s t (x # y # ys) = text_lines (p @ x @ s) @ joined_lines t s t (y # ys)"

lemma text_lines_join:
  "closed_sql p \<Longrightarrow> closed_sql s \<Longrightarrow> closed_sql t \<Longrightarrow> closed_all xs \<Longrightarrow>
    text_lines (p @ strings_join (s @ [line_end] @ t) xs) = joined_lines p s t xs"
proof (induction p s t xs rule: joined_lines.induct)
  case (3 p s t x y ys)
  then show ?case
    using text_lines_append [of "p @ x @ s" "t @ strings_join (s @ line_end # t) (y # ys)"] by (simp add: closed_all_def)
qed simp_all

lemma column_list:
  "closed_all xs \<Longrightarrow> text_lines (''  '' @ strings_join ('','' @ [line_end] @ ''  '') xs) = joined_lines ''  '' '','' ''  '' xs"
  by (intro text_lines_join) (simp_all add: sql_check)

section \<open>The columns a statement projects\<close>

text \<open>The lines between the last \<open>SELECT\<close> and its \<open>FROM\<close>, each named by its alias or by its column.\<close>

definition trim_comma :: "string \<Rightarrow> string" where
  "trim_comma s = (if s \<noteq> [] \<and> last s = CHR '','' then butlast s else s)"

definition column_alias :: "string \<Rightarrow> string" where
  "column_alias l =
     (case after_last '' AS '' l of
        Some a \<Rightarrow> a
      | None \<Rightarrow> (case after_last ''.'' l of Some a \<Rightarrow> a | None \<Rightarrow> l))"

definition from_line :: "string \<Rightarrow> bool" where
  "from_line l = (strip_text ''FROM'' l \<noteq> None)"

definition last_select :: "string list \<Rightarrow> string list" where
  "last_select ls = takeWhile (\<lambda>x. \<not> from_line x) (rev (takeWhile (\<lambda>x. x \<noteq> ''SELECT'') (rev ls)))"

definition named :: "string list \<Rightarrow> string list" where
  "named ls = map (\<lambda>l. column_alias (trim_comma (trim_space l))) (last_select ls)"

definition output_columns :: "string \<Rightarrow> string list" where
  "output_columns sql = named (text_lines sql)"

lemma last_select_suffix: "''SELECT'' \<in> set ls \<Longrightarrow> last_select (pre @ ls) = last_select ls"
  by (simp add: last_select_def)

text \<open>What comes before the last \<open>SELECT\<close> does not matter.\<close>

lemma columns_after:
  assumes "closed_all xs" and "''SELECT'' \<in> set (concat (map text_lines (drop k xs)))"
    and "named (concat (map text_lines (drop k xs))) = cols"
  shows "output_columns (sql_lines xs) = cols"
proof -
  have "xs \<noteq> []" using assms(2) by auto
  from text_lines_sql_lines [OF assms(1) this]
  have "text_lines (sql_lines xs) = concat (map text_lines (take k xs)) @ concat (map text_lines (drop k xs))"
    by (metis append_take_drop_id concat_append map_append)
  then show ?thesis using last_select_suffix [OF assms(2)] assms(3) by (simp add: output_columns_def named_def)
qed

lemmas take_drop_eval = take_Suc_Cons drop_Suc_Cons take_0 drop_0 eval_nat_numeral BitM.simps numeral_One One_nat_def

lemma index_columns: "closed_sql scope \<Longrightarrow> output_columns (matchIndexSQL a b scope n) = map fc_Name match_index_columns"
  unfolding matchIndexSQL_def
  by (rule columns_after [where k = 33]; (simp only: take_drop_eval)?; (intro closed_text_intros closed_show_int)?; (assumption | code_simp))

lemma minutes_columns: "output_columns (participantMinutesSQL a b c d) = map fc_Name participant_minutes_columns"
  unfolding participantMinutesSQL_def
  by (rule columns_after [where k = 33]; (simp only: take_drop_eval)?; (intro closed_text_intros)?; code_simp)

lemma closed_lane_lists: "closed_all Agg_Features_SQL.lane_columns" "closed_all (concat (map lane_joins [5, 10, 15]))"
  by code_simp+

lemma matchups_columns: "output_columns (laneMatchupsSQL a b c) = map fc_Name lane_matchups_columns"
  unfolding laneMatchupsSQL_def
  by (rule columns_after [where k = 26];
      (simp only: take_drop_eval list.map column_list [OF closed_lane_lists(1)])?;
      (intro closed_text_intros closed_joined closed_lane_lists)?; code_simp)

lemma early_columns: "output_columns (participantEarlySQL a b c d) = map fc_Name participant_early_columns"
  unfolding participantEarlySQL_def
  by (rule columns_after [where k = 102]; (simp only: take_drop_eval)?; (intro closed_text_intros)?; code_simp)

lemma closed_objective_lists: "closed_all objective_columns" "closed_all (prefixed objective_columns ''pm.'')"
  by code_simp+

lemma objectives_columns: "output_columns (matchObjectivesSQL a b c) = map fc_Name match_objectives_columns"
  unfolding matchObjectivesSQL_def
  by (rule columns_after [where k = 43];
      (simp only: take_drop_eval list.map column_list [OF closed_objective_lists(2)])?;
      (intro closed_text_intros closed_joined closed_objective_lists)?; code_simp)

text \<open>The events are joined to the ledger: the paths come after the columns.\<close>

definition one_line :: "string \<Rightarrow> bool" where
  "one_line s = (\<forall>acc rest. lines_from False acc (s @ rest) = lines_from False (rev s @ acc) rest)"

lemma one_line_intros:
  "one_line x \<Longrightarrow> one_line y \<Longrightarrow> one_line (x @ y)"
  "line_end \<notin> set x \<Longrightarrow> quote_char \<notin> set x \<Longrightarrow> one_line x"
proof -
  show "one_line (x @ y)" if "one_line x" "one_line y" using that by (simp add: one_line_def)
  show "one_line x" if "line_end \<notin> set x" "quote_char \<notin> set x"
    using that by (induction x) (auto simp: one_line_def)
qed

lemma one_line_quoted: "one_line (quoteLiteral s)"
proof -
  have "lines_from True acc (concat (map (\<lambda>c. if c = quote_char then [quote_char, quote_char] else [c]) s) @ rest) =
      lines_from True (rev (concat (map (\<lambda>c. if c = quote_char then [quote_char, quote_char] else [c]) s)) @ acc) rest" for acc rest
    by (induction s arbitrary: acc) simp_all
  then show ?thesis by (simp add: one_line_def quoteLiteral_def)
qed

lemma one_line_text: "one_line s \<Longrightarrow> text_lines s = [s]"
  by (simp add: one_line_def text_lines_def) (metis append_Nil2 lines_from.simps(1) rev_rev_ident)

lemma one_line_parquetOf: "one_line (parquetOf path)"
  unfolding parquetOf_def by (intro one_line_intros(1) one_line_quoted; rule one_line_intros(2); code_simp)

lemma events_tail:
  "text_lines (''FROM '' @ parquetOf a @ '' e'') = [''FROM '' @ parquetOf a @ '' e'']"
  "text_lines (''JOIN '' @ parquetOf b @ '' mi ON mi.match_id = e.match_id AND mi.timeline_eligible'') =
     [''JOIN '' @ parquetOf b @ '' mi ON mi.match_id = e.match_id AND mi.timeline_eligible'']"
  by (rule one_line_text, intro one_line_intros(1) one_line_parquetOf; rule one_line_intros(2); code_simp)+

lemma events_columns_built: "output_columns (eventsTableSQL a b) = map fc_Name events_columns"
  unfolding eventsTableSQL_def
  by (rule columns_after [where k = 0]; (simp only: drop_0 list.map events_tail)?; (intro closed_text_intros)?; code_simp)

text \<open>
  C21: the documented columns are the built ones. For each of the six tables, the columns its statement
  projects, in their order, are the columns of the specification from which the documents are written
  and against which the build checks, whatever the paths, the scope and the floor are.
\<close>

theorem documented_columns_are_built:
  "map (\<lambda>(t, q). (t, output_columns q)) ((''match_index'', matchIndexSQL summaries timelines (feature_scope opt []) n) # derived_tables p) =
     map (\<lambda>(t, cs). (t, map fc_Name cs)) featureSchemaColumns"
proof -
  have "closed_sql (feature_scope opt [])" by (simp add: feature_scope_def)
  then show ?thesis
    by (simp add: derived_tables_def featureSchemaColumns_def Let_def index_columns minutes_columns matchups_columns early_columns
        objectives_columns events_columns_built)
qed

end
