(* ===== verification/Features_Props.thy ===== *)
theory Features_Props
  imports SQL_Props Agg_FeatureRun Publish_Props
begin

text \<open>
  What a build of the feature dataset promises: nothing a reader can see changes unless every gate
  passed, what is published is what was measured, and the scripts run in their order.
\<close>

section \<open>Steps\<close>

text \<open>A step that leaves the live tree alone and keeps the plan, the scripts only growing.\<close>

definition private_step :: "fstep \<Rightarrow> bool" where
  "private_step f =
     (\<forall>st s x st' s'. f st s = (x, st', s') \<longrightarrow>
        fs_live s' = fs_live s \<and> ft_opts st' = ft_opts st \<and> ft_paths st' = ft_paths st)"

lemma private_stepD:
  "private_step f \<Longrightarrow> f st s = (x, st', s') \<Longrightarrow> fs_live s' = fs_live s \<and> ft_opts st' = ft_opts st \<and> ft_paths st' = ft_paths st"
  by (simp add: private_step_def)

lemma private_in_turn: "list_all private_step fs \<Longrightarrow> private_step (in_turn fs)"
proof (induction fs)
  case (Cons f fs)
  then have f: "private_step f" and fs: "private_step (in_turn fs)" by simp_all
  show ?case
    unfolding private_step_def
  proof (intro allI impI)
    fix st s x st' s' assume run: "in_turn (f # fs) st s = (x, st', s')"
    obtain y st1 s1 where one: "f st s = (y, st1, s1)" by (cases "f st s") auto
    with run show "fs_live s' = fs_live s \<and> ft_opts st' = ft_opts st \<and> ft_paths st' = ft_paths st"
      using private_stepD [OF f one] private_stepD [OF fs, of st1 s1 x st' s'] by (cases y) auto
  qed
qed (simp add: private_step_def)

lemma private_run_script: "private_step (run_script V cli sql tables)"
  by (auto simp: private_step_def run_script_def Let_def split: option.splits)

lemma private_run_scripts: "private_step (run_scripts V cli sqls)"
proof (induction sqls)
  case (Cons sql sqls)
  show ?case
    unfolding private_step_def
  proof (intro allI impI)
    fix st s x st' s' assume run: "run_scripts V cli (sql # sqls) st s = (x, st', s')"
    obtain y st1 s1 where one: "run_script V cli sql [] st s = (y, st1, s1)" by (cases "run_script V cli sql [] st s") auto
    with run show "fs_live s' = fs_live s \<and> ft_opts st' = ft_opts st \<and> ft_paths st' = ft_paths st"
      using private_stepD [OF private_run_script one] private_stepD [OF Cons.IH, of st1 s1 x st' s'] by (cases y) auto
  qed
qed (simp add: private_step_def)

text \<open>The steps of the build, each chosen from the state it starts in.\<close>

lemma private_steps:
  "private_step (\<lambda>st. run_script V cli (g st) (h st) st)"
  "private_step (\<lambda>st. run_scripts V cli (k st) st)"
  "private_step (\<lambda>st. write_fdoc V name (d st) st)"
  "private_step (chmod_readme V)"
  "private_step (\<lambda>st s. (G st, st, s))"
proof -
  show "private_step (\<lambda>st. run_script V cli (g st) (h st) st)" using private_run_script unfolding private_step_def by blast
  show "private_step (\<lambda>st. run_scripts V cli (k st) st)" using private_run_scripts unfolding private_step_def by blast
  show "private_step (\<lambda>st. write_fdoc V name (d st) st)" by (auto simp: private_step_def write_fdoc_def)
qed (auto simp: private_step_def chmod_readme_def)

lemma read_counts_keeps:
  "read_counts J st = (x, st') \<Longrightarrow> ft_opts st' = ft_opts st \<and> ft_paths st' = ft_paths st \<and> ft_scripts st' = ft_scripts st"
  by (auto simp: read_counts_def Let_def split: option.splits list.splits prod.splits)

lemma private_counting: "private_step (\<lambda>st s. case read_counts J st of (x, st1) \<Rightarrow> (x, st1, s))"
  by (auto simp: private_step_def split: prod.splits dest: read_counts_keeps)

lemma private_receipt: "private_step (writeManifest V)"
  by (auto simp: private_step_def writeManifest_def write_fdoc_def Let_def)

lemmas phase_defs = spillEnvelopes_def [abs_def] writeLedger_def [abs_def] spillPayloads_def [abs_def] selectParticipants_def [abs_def]
  spillFrames_def [abs_def] spillEvents_def [abs_def] writeTables_def [abs_def] countRows_def checkGates_def checkSchema_def writeDocs_def

lemma private_phases: "list_all private_step (feature_phases V cli)"
  by (simp add: feature_phases_def phase_defs private_steps private_counting private_receipt private_in_turn del: in_turn.simps)

lemma private_run: "private_step (feature_run V)"
  unfolding private_step_def
proof (intro allI impI)
  fix st s x st' s' assume run: "feature_run V st s = (x, st', s')"
  then show "fs_live s' = fs_live s \<and> ft_opts st' = ft_opts st \<and> ft_paths st' = ft_paths st"
    using private_stepD [OF private_in_turn [OF private_phases]]
    by (auto simp: feature_run_def simp del: in_turn.simps split: sum.splits)
qed

section \<open>Laying out\<close>

lemma make_dirs_live: "make_dirs E ds s = (x, s') \<Longrightarrow> fs_live s' = fs_live s \<and> file_at (fs_stage s') = file_at (fs_stage s)"
  by (induction ds arbitrary: s) (auto simp: file_at_mkdirs fun_eq_iff split: if_splits)

text \<open>The scratch directory of a build.\<close>

definition feature_scratch :: "feature_env \<Rightarrow> feature_opts \<Rightarrow> string" where
  "feature_scratch V opt = join (join (fo_DatasetRoot opt) (fv_staging V)) ''.scratch''"

lemma new_feature_state_live: "new_feature_state V opt s = (r, s') \<Longrightarrow> fs_live s' = fs_live s \<and> file_at (fs_stage s') = file_at (fs_stage s)"
  by (auto simp: new_feature_state_def Let_def dest: make_dirs_live split: sum.splits option.splits prod.splits)

lemma new_feature_state_ok:
  "new_feature_state V opt s = (Inr st, s') \<Longrightarrow>
     ft_opts st = opt \<and> fp_scratch (ft_paths st) = feature_scratch V opt \<and> ft_scripts st = [] \<and>
     ft_counts st = no_feature_counts"
  by (auto simp: new_feature_state_def feature_scratch_def Let_def split: sum.splits option.splits prod.splits)

section \<open>Publishing\<close>

lemma feature_items_apart: "apart (feature_dirs @ feature_files @ [dataset_path [''manifest.json'']])"
  by code_simp

lemma feature_items_not_manifest: "slash_path ManifestPath \<notin> set (feature_dirs @ feature_files)"
  by code_simp

lemma feature_items_below: "p \<in> set (feature_dirs @ feature_files @ [dataset_path [''manifest.json'']]) \<Longrightarrow> below (dataset_path []) p"
  by (auto simp: feature_dirs_def feature_files_def dataset_path_def below_def)

lemma overlay_unchanged: "list_all (\<lambda>p. \<not> below p q) ps \<Longrightarrow> overlay ps stage live q = file_at live q"
  by (auto simp: overlay_def list_ex_iff list_all_iff)

text \<open>What a publication leaves: everything, nothing, or the items before the one that could not be moved.\<close>

lemma Publish_result:
  assumes "\<And>n. oc_undo E n" and "tree_ok (fs_live s)" and "apart (dirs @ files @ [m])"
    and "slash_path ManifestPath \<notin> set (dirs @ files)" and "Publish E dirs files m s = (e, r, s')"
  shows "(e = None \<and> file_at (fs_live s') = overlay (dirs @ files @ [m]) (fs_stage s) (fs_live s))
    \<or> (\<exists>x. e = Some x \<and> (\<forall>q. x \<noteq> MoveFailed q) \<and> file_at (fs_live s') = file_at (fs_live s))
    \<or> (\<exists>q n. e = Some (MoveFailed q) \<and> file_at (fs_live s') = overlay (take n (dirs @ files)) (fs_stage s) (fs_live s))"
proof (cases rule: Publish_cases [OF assms(5), case_names refused worked])
  case (refused x)
  then show ?thesis by auto
next
  case (worked s0 s1)
  from work_result [OF assms(1-4) worked(1-3,5)] worked(6) show ?thesis by auto
qed

section \<open>Nothing changes unless every gate passed\<close>

definition reconciled :: "json_answers \<Rightarrow> string \<Rightarrow> bool" where
  "reconciled J scratch =
     (\<exists>r. fj_recon J (join scratch ''reconciliation.json'') = Some [r] \<and> fr_MatchupMatches r = fr_LedgerMatches r \<and>
        fr_MatchupRows r = fr_MatchupMatches r * 10)"

definition documented :: "json_answers \<Rightarrow> string \<Rightarrow> string \<Rightarrow> bool" where
  "documented J scratch table =
     (\<exists>built cs. fj_columns J (join scratch (''describe-'' @ table @ ''.json'')) = Some built \<and> map_of featureSchemaColumns table = Some cs \<and>
        map fst built = map fc_Name cs \<and> list_all2 (\<lambda>b c. featureTypeMatches (snd b) (fc_Type c)) built cs)"

definition counts_pass :: "FeatureCounts \<Rightarrow> bool" where
  "counts_pass c =
     (fn_Malformed c \<le> 0 \<and> count_of ''unexplained'' (fn_Excluded c) \<le> 0 \<and> fn_Orphans c \<le> 0 \<and> fn_Matches c \<noteq> 0 \<and>
      fn_TimelinePresent c \<noteq> 0)"

lemma check_counts_passes: "check_counts c = None \<longleftrightarrow> counts_pass c"
  by (auto simp: check_counts_def counts_pass_def)

lemma check_reconciliation_passes: "check_reconciliation J p = None \<longleftrightarrow> reconciled J (fp_scratch p)"
  by (auto simp: check_reconciliation_def reconciled_def scratch_file_def Let_def split: option.splits list.splits)

lemma column_drift_Nil:
  "length built = length cs \<Longrightarrow> column_drift table built cs = [] \<longleftrightarrow>
     map fst built = map fc_Name cs \<and> list_all2 (\<lambda>b c. featureTypeMatches (snd b) (fc_Type c)) built cs"
  by (induction built cs rule: list_induct2) (auto simp: column_drift_def split: if_splits)

lemma check_tables_passes:
  "check_tables J p drift ts = None \<longleftrightarrow> drift = [] \<and> list_all (documented J (fp_scratch p)) ts"
proof (induction ts arbitrary: drift)
  case (Cons t ts)
  show ?case
    using Cons column_drift_Nil
    by (auto simp: documented_def scratch_file_def Let_def dest: list_all2_lengthD split: option.splits)
qed simp

lemma in_turn_ok:
  "in_turn [] st s = (None, st', s') \<longleftrightarrow> st' = st \<and> s' = s"
  "in_turn (f # fs) st s = (None, st', s') \<longleftrightarrow> (\<exists>st1 s1. f st s = (None, st1, s1) \<and> in_turn fs st1 s1 = (None, st', s'))"
  by (auto split: prod.splits option.splits)

definition put_parts :: "(string \<times> string) list \<Rightarrow> fdoc tree \<Rightarrow> fdoc tree" where
  "put_parts tables = fold (\<lambda>(t, q). put_file (dataset_path [t, ''part-00000.parquet'']) (TablePart q)) tables"

lemma run_script_ok:
  "run_script V cli sql tables st s = (None, st', s') \<longleftrightarrow>
     Exec (fv_os V) cli sql = None \<and> st' = st\<lparr>ft_scripts := ft_scripts st @ [sql]\<rparr> \<and> s' = s\<lparr>fs_stage := put_parts tables (fs_stage s)\<rparr>"
  by (auto simp: run_script_def put_parts_def Let_def split: option.splits)

lemma put_parts_Nil: "s\<lparr>fs_stage := put_parts [] (fs_stage s)\<rparr> = s"
  by (simp add: put_parts_def)

lemma put_parts_none: "put_parts [] t = t"
  by (simp add: put_parts_def)

lemma run_scripts_ok:
  "run_scripts V cli sqls st s = (None, st', s') \<longleftrightarrow>
     list_all (\<lambda>sql. Exec (fv_os V) cli sql = None) sqls \<and> st' = st\<lparr>ft_scripts := ft_scripts st @ sqls\<rparr> \<and> s' = s"
proof (induction sqls arbitrary: st)
  case (Cons sql sqls)
  have "run_scripts V cli (sql # sqls) st s = (None, st', s') \<longleftrightarrow>
      (\<exists>st1 s1. run_script V cli sql [] st s = (None, st1, s1) \<and> run_scripts V cli sqls st1 s1 = (None, st', s'))"
    by (auto split: prod.splits option.splits)
  then show ?case using Cons.IH by (auto simp: run_script_ok put_parts_Nil)
qed auto

lemma write_fdoc_ok:
  "write_fdoc V name d st s = (None, st', s') \<longleftrightarrow>
     step_ok (fv_outcomes V) s \<and> \<not> is_dir (fs_stage s) (dataset_path [name]) \<and> st' = st \<and>
     s' = (tick s)\<lparr>fs_stage := put_file (dataset_path [name]) d (fs_stage s)\<rparr>"
  by (auto simp: write_fdoc_def)

lemma chmod_readme_ok: "chmod_readme V st s = (None, st', s') \<longleftrightarrow> step_ok (fv_outcomes V) s \<and> st' = st \<and> s' = tick s"
  by (auto simp: chmod_readme_def)

lemma counting_ok:
  "(case read_counts J st of (x, st1) \<Rightarrow> (x, st1, s)) = (None, st', s') \<longleftrightarrow> read_counts J st = (None, st') \<and> s' = s"
  by (auto split: prod.splits)

lemmas step_oks = in_turn_ok run_script_ok run_scripts_ok write_fdoc_ok chmod_readme_ok counting_ok put_parts_Nil

lemma checkGates_ok:
  "checkGates V cli st s = (None, st', s') \<longleftrightarrow>
     counts_pass (ft_counts st) \<and> Exec (fv_os V) cli (reconciliation_script (ft_paths st)) = None \<and>
     reconciled (fv_json V) (fp_scratch (ft_paths st)) \<and> Exec (fv_os V) cli (describe_script (ft_paths st)) = None \<and>
     list_all (documented (fv_json V) (fp_scratch (ft_paths st))) featureTables \<and>
     st' = st\<lparr>ft_scripts := ft_scripts st @ [reconciliation_script (ft_paths st), describe_script (ft_paths st)]\<rparr> \<and> s' = s"
  by (auto simp: checkGates_def checkSchema_def step_oks check_counts_passes check_reconciliation_passes check_tables_passes
      simp del: in_turn.simps)

text \<open>The counts are read before the gates and kept after them.\<close>

definition gates_passed :: "feature_env \<Rightarrow> string \<Rightarrow> FeatureCounts \<Rightarrow> bool" where
  "gates_passed V scratch counts =
     (counts_pass counts \<and> reconciled (fv_json V) scratch \<and> list_all (documented (fv_json V) scratch) featureTables)"

definition written_parts :: "fstate \<Rightarrow> (string \<times> string) list" where
  "written_parts st = (''match_index'', ledger_query st) # derived_tables (ft_paths st)"

text \<open>What a run that succeeds leaves in the staging tree, newest first.\<close>

definition staged_docs :: "fstate \<Rightarrow> (path \<times> fdoc) list" where
  "staged_docs st =
     [(dataset_path [''manifest.json''], ReceiptDoc (feature_manifest st)),
      (dataset_path [''README.md''], ReadmeDoc (ft_counts st) (ft_opts st)),
      (dataset_path [''schema.json''], SchemaDoc (featureSchema (ft_counts st) (ft_opts st)))] @
     map (\<lambda>(t, q). (dataset_path [t, ''part-00000.parquet''], TablePart q)) (written_parts st)"

lemma file_at_put_file: "file_at (put_file p d t) q = (if q = p then Some d else file_at t q)"
proof -
  have "map_of (filter (\<lambda>(q, n). q \<noteq> p) t) q = map_of t q" if "q \<noteq> p" using that by (induction t) auto
  then show ?thesis by (auto simp: file_at_def put_file_def)
qed

lemma file_at_put_parts:
  "distinct (map fst ts) \<Longrightarrow> file_at (put_parts ts t) q =
     (case map_of (map (\<lambda>(t, q). (dataset_path [t, ''part-00000.parquet''], TablePart q)) ts) q of Some d \<Rightarrow> Some d | None \<Rightarrow> file_at t q)"
proof (induction ts arbitrary: t)
  case (Cons x ts)
  obtain n sql where x: "x = (n, sql)" by (cases x)
  have other: "map_of (map (\<lambda>(t, q). (dataset_path [t, ''part-00000.parquet''], TablePart q)) ts) (dataset_path [n, ''part-00000.parquet'']) = None"
    using Cons.prems by (force simp: map_of_eq_None_iff x dataset_path_def)
  show ?case using Cons other by (auto simp: put_parts_def x file_at_put_file split: option.splits)
qed (simp add: put_parts_def)

lemma derived_tables_names: "map fst (derived_tables p) = tl featureTables"
  by (simp add: derived_tables_def featureTables_def Let_def)

lemma plan_updates [simp]:
  "feature_manifest (st\<lparr>ft_receipt := m\<rparr>) = feature_manifest st" "feature_manifest (st\<lparr>ft_scripts := x\<rparr>) = feature_manifest st"
  "ledger_query (st\<lparr>ft_receipt := m\<rparr>) = ledger_query st" "ledger_query (st\<lparr>ft_scripts := x\<rparr>) = ledger_query st"
  "ledger_query (st\<lparr>ft_version := v\<rparr>) = ledger_query st" "ledger_query (st\<lparr>ft_counts := c\<rparr>) = ledger_query st"
  "ledger_query (st\<lparr>ft_tables := t\<rparr>) = ledger_query st"
  by (simp_all add: feature_manifest_def ledger_query_def Let_def)

lemma read_counts_ok:
  "read_counts J st = (None, st') \<Longrightarrow> \<exists>c rows. st' = st\<lparr>ft_counts := c, ft_tables := rows\<rparr>"
  by (auto simp: read_counts_def Let_def split: option.splits list.splits prod.splits)

text \<open>The phases up to the tables, and those that write the documents, as one change of the state.\<close>

definition early_scripts :: "fstate \<Rightarrow> string list" where
  "early_scripts st =
     [envelopes_script (ft_paths st), ledger_script (ft_opts st) (ft_paths st)] @ summary_payload_scripts st @ timeline_payload_scripts st @
     [participants_script (ft_paths st)] @ unnest_scripts (ft_paths st) ''frames'' timelineFramesSQL @
     unnest_scripts (ft_paths st) ''events'' timelineEventsSQL @ [tables_script (ft_paths st)]"

lemma early_phases_ok:
  "in_turn [spillEnvelopes V cli, writeLedger V cli, spillPayloads V cli, selectParticipants V cli, spillFrames V cli, spillEvents V cli,
      writeTables V cli] st s = (None, st', s') \<Longrightarrow>
    st' = st\<lparr>ft_scripts := ft_scripts st @ early_scripts st\<rparr> \<and>
    s' = s\<lparr>fs_stage := put_parts (derived_tables (ft_paths st)) (put_parts [(''match_index'', ledger_query st)] (fs_stage s))\<rparr>"
  by (simp add: phase_defs step_oks early_scripts_def summary_payload_scripts_def timeline_payload_scripts_def ledger_query_def
      del: in_turn.simps)

lemma countRows_ok:
  "countRows V cli st s = (None, st', s') \<Longrightarrow>
     read_counts (fv_json V) (st\<lparr>ft_scripts := ft_scripts st @ [counts_script (ft_paths st)]\<rparr>) = (None, st') \<and> s' = s"
  by (simp add: countRows_def step_oks del: in_turn.simps)

lemma late_phases_ok:
  "in_turn [writeDocs V, writeManifest V] st s = (None, st', s') \<Longrightarrow>
    st' = st\<lparr>ft_receipt := Some (feature_manifest st)\<rparr> \<and>
    fs_stage s' = put_file (dataset_path [''manifest.json'']) (ReceiptDoc (feature_manifest st))
      (put_file (dataset_path [''README.md'']) (ReadmeDoc (ft_counts st) (ft_opts st))
        (put_file (dataset_path [''schema.json'']) (SchemaDoc (featureSchema (ft_counts st) (ft_opts st))) (fs_stage s)))"
  by (simp add: writeDocs_def writeManifest_def step_oks Let_def del: in_turn.simps)

lemma in_turn_append:
  "in_turn (fs @ gs) st s = (None, st', s') \<longleftrightarrow> (\<exists>st1 s1. in_turn fs st s = (None, st1, s1) \<and> in_turn gs st1 s1 = (None, st', s'))"
  by (induction fs arbitrary: st s) (auto simp: in_turn_ok simp del: in_turn.simps)

definition last_scripts :: "feature_paths \<Rightarrow> string list" where
  "last_scripts p = [counts_script p, reconciliation_script p, describe_script p]"

lemma feature_run_ok:
  assumes "feature_run V st s = (None, st', s')"
  obtains st1 st2 where "read_counts (fv_json V) st1 = (None, st2)" and "ft_counts st1 = ft_counts st"
    and "ft_paths st1 = ft_paths st" and "ft_opts st1 = ft_opts st"
    and "st' = st2\<lparr>ft_scripts := ft_scripts st @ early_scripts st @ last_scripts (ft_paths st), ft_receipt := Some (feature_manifest st2)\<rparr>"
    and "gates_passed V (fp_scratch (ft_paths st)) (ft_counts st2)"
    and "file_at (fs_stage s') = (\<lambda>q. case map_of (staged_docs st') q of Some d \<Rightarrow> Some d | None \<Rightarrow> file_at (fs_stage s) q)"
proof -
  obtain cli where "in_turn (feature_phases V cli) (st\<lparr>ft_version := ce_version cli\<rparr>) s = (None, st', s')"
    using assms by (auto simp: feature_run_def simp del: in_turn.simps split: sum.splits)
  moreover have "feature_phases V cli =
      [spillEnvelopes V cli, writeLedger V cli, spillPayloads V cli, selectParticipants V cli, spillFrames V cli, spillEvents V cli,
       writeTables V cli] @ [countRows V cli, checkGates V cli] @ [writeDocs V, writeManifest V]"
    by (simp add: feature_phases_def)
  ultimately obtain sa ta sb tb sc tc where
    early: "in_turn [spillEnvelopes V cli, writeLedger V cli, spillPayloads V cli, selectParticipants V cli, spillFrames V cli,
       spillEvents V cli, writeTables V cli] (st\<lparr>ft_version := ce_version cli\<rparr>) s = (None, sa, ta)"
    and counts: "countRows V cli sa ta = (None, sb, tb)" and gates: "checkGates V cli sb tb = (None, sc, tc)"
    and late: "in_turn [writeDocs V, writeManifest V] sc tc = (None, st', s')"
    by (simp only: in_turn_append) (auto simp: in_turn_ok simp del: in_turn.simps)
  note early = early_phases_ok [OF early] and counts = countRows_ok [OF counts] and gates = gates [unfolded checkGates_ok]
    and late = late_phases_ok [OF late]
  obtain c rows where sb: "sb = sa\<lparr>ft_scripts := ft_scripts sa @ [counts_script (ft_paths sa)], ft_counts := c, ft_tables := rows\<rparr>"
    using counts read_counts_ok by fastforce
  have same: "early_scripts (st\<lparr>ft_version := v\<rparr>) = early_scripts st" for v
    by (simp add: early_scripts_def summary_payload_scripts_def timeline_payload_scripts_def)
  have st': "st' = sb\<lparr>ft_scripts := ft_scripts st @ early_scripts st @ last_scripts (ft_paths st), ft_receipt := Some (feature_manifest sb)\<rparr>"
    using early gates late by (simp add: sb same last_scripts_def feature_manifest_def Let_def)
  have parts: "file_at (put_parts (derived_tables p) (put_parts [(''match_index'', l)] t)) q =
      (case map_of (map (\<lambda>(t, q). (dataset_path [t, ''part-00000.parquet''], TablePart q)) ((''match_index'', l) # derived_tables p)) q of
         Some d \<Rightarrow> Some d | None \<Rightarrow> file_at t q)" for p l t q
  proof -
    have "distinct (map fst (derived_tables p))" "''match_index'' \<notin> set (map fst (derived_tables p))"
      unfolding derived_tables_names by code_simp+
    then have "map_of (map (\<lambda>(t, q). (dataset_path [t, ''part-00000.parquet''], TablePart q)) (derived_tables p))
        (dataset_path [''match_index'', ''part-00000.parquet'']) = None"
      by (force simp: map_of_eq_None_iff dataset_path_def)
    then show ?thesis
      using \<open>distinct (map fst (derived_tables p))\<close> by (auto simp: file_at_put_parts split: option.splits)
  qed
  show thesis
  proof (rule that)
    show "read_counts (fv_json V) (sa\<lparr>ft_scripts := ft_scripts sa @ [counts_script (ft_paths sa)]\<rparr>) = (None, sb)" using counts by simp
    show "gates_passed V (fp_scratch (ft_paths st)) (ft_counts sb)" using gates early by (simp add: gates_passed_def sb)
    show "file_at (fs_stage s') = (\<lambda>q. case map_of (staged_docs st') q of Some d \<Rightarrow> Some d | None \<Rightarrow> file_at (fs_stage s) q)"
    proof
      fix q
      have stage: "fs_stage tc = put_parts (derived_tables (ft_paths st)) (put_parts [(''match_index'', ledger_query st)] (fs_stage s))"
        using early counts gates by simp
      have docs: "staged_docs st' = staged_docs sc" using gates early by (simp add: st' sb staged_docs_def written_parts_def)
      have query: "ledger_query sc = ledger_query st" "ft_paths sc = ft_paths st" using gates early by (simp_all add: sb)
      show "file_at (fs_stage s') q = (case map_of (staged_docs st') q of Some d \<Rightarrow> Some d | None \<Rightarrow> file_at (fs_stage s) q)"
        unfolding docs
        using late by (simp add: file_at_put_file stage parts staged_docs_def written_parts_def query split: option.splits)
    qed
  qed (use early st' in simp_all)
qed

lemma overlay_changed:
  assumes "overlay ps stage live q \<noteq> file_at live q"
    and "set ps \<subseteq> set (feature_dirs @ feature_files @ [dataset_path [''manifest.json'']])"
  shows "below (dataset_path []) q"
proof -
  obtain p where "p \<in> set ps" "below p q" using assms(1) by (auto simp: overlay_def list_ex_iff split: if_splits)
  then show ?thesis using feature_items_below assms(2) below_trans by blast
qed

text \<open>A build that succeeded, or after which the live tree is another, ran every phase.\<close>

lemma Features_built:
  assumes "Features V opt s = (x, r, s')" and "x = None \<or> fs_live s' \<noteq> fs_live s"
  obtains st s2 st1 s3 e pr s4 where "new_feature_state V (normalize_features opt) ((tick (tick s))\<lparr>fs_stage := []\<rparr>) = (Inr st, s2)"
    and "feature_run V st s2 = (None, st1, s3)"
    and "Publish (fv_outcomes V) feature_dirs feature_files (dataset_path [''manifest.json'']) s3 = (e, pr, s4)"
    and "fs_live s3 = fs_live s" and "file_at (fs_stage s2) = (\<lambda>q. None)" and "fs_live s' = fs_live s4"
    and "x = map_option NotPublished e" and "fu_Counts r = ft_counts st1" and "fu_Tables r = ft_tables st1"
    and "fu_Scripts r = ft_scripts st1" and "e = None \<Longrightarrow> fu_Manifest r = ft_receipt st1"
proof -
  let ?opt = "normalize_features opt"
  let ?r0 = "no_feature_result\<lparr>fu_StagingDir := join (fo_DatasetRoot ?opt) (fv_staging V), fu_Dir := join (fo_DatasetRoot ?opt) FeatureDatasetDir\<rparr>"
  let ?s0 = "(tick (tick s))\<lparr>fs_stage := []\<rparr>"
  obtain s1 where built: "build_staged V ?opt ?r0 ?s0 = (x, r, s1)" and live: "fs_live s' = fs_live s1"
    using assms by (auto simp: Features_def Let_def split: if_splits prod.splits)
  obtain res s2 where laid: "new_feature_state V ?opt ?s0 = (res, s2)" by fastforce
  have laid_live: "fs_live s2 = fs_live s" "file_at (fs_stage s2) = file_at []" using new_feature_state_live [OF laid] by simp_all
  obtain st where res: "res = Inr st"
    using built assms(2) live laid laid_live by (cases res) (auto simp: build_staged_def)
  note new = laid [unfolded res]
  obtain y st1 s3 where ran: "feature_run V st s2 = (y, st1, s3)" by (metis prod_cases3)
  have ran_live: "fs_live s3 = fs_live s" using private_stepD [OF private_run ran] laid_live by simp
  have "y = None" using built assms(2) live new ran ran_live by (cases y) (auto simp: build_staged_def)
  note run = ran [unfolded this]
  obtain e pr s4 where pub: "Publish (fv_outcomes V) feature_dirs feature_files (dataset_path [''manifest.json'']) s3 = (e, pr, s4)"
    by (metis prod_cases3)
  have out: "fs_live s1 = fs_live s4" "x = map_option NotPublished e" "fu_Counts r = ft_counts st1" "fu_Tables r = ft_tables st1"
    "fu_Scripts r = ft_scripts st1" "e = None \<Longrightarrow> fu_Manifest r = ft_receipt st1"
    using built new run pub by (auto simp: build_staged_def feature_publish_def result_of_def split: option.splits)
  show thesis
    by (rule that [OF new run pub ran_live]) (use laid_live live out in \<open>simp_all add: file_at_def [abs_def]\<close>)
qed

text \<open>
  C8: the feature build fails closed, as long as undoing a swap succeeds. If a build changed anything a reader can see, every gate had
  passed: the archives had no malformed row, the ledger explained every row, no timeline was without
  its summary, there was something to publish, the matchups were ten rows for each eligible match of the
  ledger, and each table had exactly the columns documented for it. What changed is in the dataset's own
  directory, and the build either succeeded or was stopped by a directory that could not be moved.
\<close>

theorem features_fail_closed:
  assumes "\<And>n. oc_undo (fv_outcomes V) n" and "tree_ok (fs_live s)" and "Features V opt s = (x, r, s')"
    and "file_at (fs_live s') q \<noteq> file_at (fs_live s) q"
  shows "gates_passed V (feature_scratch V opt) (fu_Counts r) \<and> below (dataset_path []) q \<and>
    (x = None \<or> (\<exists>p. x = Some (NotPublished (MoveFailed p))))"
proof -
  have "x = None \<or> fs_live s' \<noteq> fs_live s" using assms(4) by auto
  from Features_built [OF assms(3) this] obtain st s2 st1 s3 e pr s4 where
    new: "new_feature_state V (normalize_features opt) ((tick (tick s))\<lparr>fs_stage := []\<rparr>) = (Inr st, s2)"
    and run: "feature_run V st s2 = (None, st1, s3)"
    and pub: "Publish (fv_outcomes V) feature_dirs feature_files (dataset_path [''manifest.json'']) s3 = (e, pr, s4)"
    and live: "fs_live s3 = fs_live s" "fs_live s' = fs_live s4"
    and out: "x = map_option NotPublished e" "fu_Counts r = ft_counts st1" by metis
  have scratch: "fp_scratch (ft_paths st) = feature_scratch V opt"
    using new_feature_state_ok [OF new] by (simp add: feature_scratch_def normalize_features_def)
  have "gates_passed V (feature_scratch V opt) (ft_counts st1)"
    by (rule feature_run_ok [OF run]) (simp add: scratch)
  moreover have taken: "below (dataset_path []) q"
    if "overlay (take n (feature_dirs @ feature_files)) stage live q \<noteq> file_at live q" for n stage live
    by (rule overlay_changed [OF that]) (auto dest: in_set_takeD simp del: take_append)
  have "tree_ok (fs_live s3)" using assms(2) live by simp
  from Publish_result [OF assms(1) this feature_items_apart feature_items_not_manifest pub]
  have "(e = None \<or> (\<exists>p. e = Some (MoveFailed p))) \<and> below (dataset_path []) q"
    using assms(4) live overlay_changed [OF _ order.refl] taken by (auto simp del: take_append)
  ultimately show ?thesis using out by auto
qed

section \<open>What is published\<close>

lemma read_table_rows_ok:
  "read_table_rows J p ts (c, rows) = (None, c', rows') \<Longrightarrow> distinct (map fst rows @ ts) \<Longrightarrow>
    (\<And>t n. map_of rows t = Some n \<Longrightarrow> map_of (fn_TableRows c) t = Some n) \<Longrightarrow>
    map fst rows' = map fst rows @ ts \<and> (\<forall>t n. map_of rows' t = Some n \<longrightarrow> map_of (fn_TableRows c') t = Some n) \<and>
    c' = c\<lparr>fn_TableRows := fn_TableRows c'\<rparr>"
proof (induction ts arbitrary: c rows)
  case (Cons t ts)
  obtain name n where rest: "read_table_rows J p ts (c\<lparr>fn_TableRows := AList.update t n (fn_TableRows c)\<rparr>, rows @ [(t, n)]) = (None, c', rows')"
    using Cons.prems(1) by (auto simp: Let_def split: option.splits list.splits prod.splits)
  have "map_of (fn_TableRows (c\<lparr>fn_TableRows := AList.update t n (fn_TableRows c)\<rparr>)) u = Some m"
    if "map_of (rows @ [(t, n)]) u = Some m" for u m
  proof (cases "u = t")
    case True
    then have "map_of rows u = None" using Cons.prems(2) by (auto simp: map_of_eq_None_iff)
    then show ?thesis using that True by (simp add: update_conv map_add_def)
  next
    case False
    then show ?thesis using that Cons.prems(3) by (auto simp: update_conv map_add_def split: option.splits)
  qed
  with Cons.IH [OF rest] Cons.prems(2) show ?case by (auto simp del: map_of_append) 
qed simp

lemma read_counts_tables:
  assumes "read_counts J st = (None, st')" and "fn_TableRows (ft_counts st) = []"
  shows "map fst (ft_tables st') = featureTables"
    and "map_of (ft_tables st') t = Some n \<Longrightarrow> map_of (fn_TableRows (ft_counts st')) t = Some n"
proof -
  obtain c c' rows where r: "read_table_rows J (ft_paths st) featureTables (c, []) = (None, c', rows)"
    "ft_counts st' = c'" "ft_tables st' = rows"
    using assms(1) by (auto simp: read_counts_def Let_def split: option.splits list.splits prod.splits)
  have "distinct featureTables" by code_simp
  then show "map fst (ft_tables st') = featureTables"
    and "map_of (ft_tables st') t = Some n \<Longrightarrow> map_of (fn_TableRows (ft_counts st')) t = Some n"
    using read_table_rows_ok [OF r(1)] r(2,3) by simp_all
qed

lemma featureTables_distinct: "distinct featureTables"
  by code_simp

lemma counted_rows:
  assumes "map fst rows = featureTables" and "\<And>t n. map_of rows t = Some n \<Longrightarrow> map_of counts t = Some n"
  shows "map (\<lambda>t. (t, count_of t counts)) featureTables = rows"
proof -
  have "count_of t counts = n" if "(t, n) \<in> set rows" for t n
    using assms(2) [of t n] that assms(1) featureTables_distinct by (simp add: count_of_def)
  then show ?thesis unfolding assms(1) [symmetric] map_map by (auto simp: o_def intro!: map_idI)
qed

lemma written_parts_names: "map fst (written_parts st) = featureTables"
  by (simp add: written_parts_def derived_tables_names) (simp add: featureTables_def)

lemma map_of_parts:
  "map_of (map (\<lambda>(t, q). (dataset_path [t, ''part-00000.parquet''], TablePart q)) ts) (dataset_path [t, name]) =
     (if name = ''part-00000.parquet'' then map_option TablePart (map_of ts t) else None)"
  by (induction ts) (auto simp: dataset_path_def)

lemma map_of_parts_deep:
  "length q \<noteq> 3 \<Longrightarrow> map_of (map (\<lambda>(t, q). (dataset_path [t, ''part-00000.parquet''], TablePart q)) ts) q = None"
  by (induction ts) (auto simp: dataset_path_def)

lemma staged_table:
  assumes "t \<in> set featureTables" and "below (dataset_path [t]) q"
  shows "map_of (staged_docs st) q =
    (if q = dataset_path [t, ''part-00000.parquet''] then map_option TablePart (map_of (written_parts st) t) else None)"
proof -
  obtain rest where q: "q = FeatureDatasetDir # t # rest" using assms(2) by (auto simp: below_iff dataset_path_def)
  have names: "t \<noteq> ''manifest.json''" "t \<noteq> ''README.md''" "t \<noteq> ''schema.json''" using assms(1) by (auto simp: featureTables_def)
  show ?thesis
  proof (cases "length rest = 1")
    case True
    then obtain name where "rest = [name]" by (cases rest) auto
    then have "q = dataset_path [t, name]" by (simp add: q dataset_path_def)
    then show ?thesis by (simp add: staged_docs_def map_of_parts) (simp add: dataset_path_def)
  next
    case False
    then show ?thesis using names by (auto simp: staged_docs_def q map_of_parts_deep) (auto simp: dataset_path_def)
  qed
qed

lemma schema_of_specification: "map (\<lambda>t. (t, case map_of featureSchemaColumns t of Some cs \<Rightarrow> cs | None \<Rightarrow> [])) featureTables = featureSchemaColumns"
  by (simp add: featureTables_def featureSchemaColumns_def)

lemma published_overlay:
  "p \<in> set ps \<Longrightarrow> below p q \<Longrightarrow> overlay ps stage live q = file_at stage q"
  by (auto simp: overlay_def list_ex_iff)

text \<open>The statement each table was copied from.\<close>

definition table_queries :: "feature_opts \<Rightarrow> feature_paths \<Rightarrow> (string \<times> string) list" where
  "table_queries opt p =
     (''match_index'', matchIndexSQL (summaryEnvelope p) (timelineEnvelope p) (feature_scope opt []) (fo_MinDurationS opt)) #
     derived_tables p"

text \<open>
  C9: what is published is what was measured. After a build that succeeded the receipt is this build's,
  with the counts it reports; the schema document lists the six tables with the rows the receipt states
  and the columns of the specification; each table is one part, copied by this build's statement, and
  nothing of an earlier build is left beside it.
\<close>

theorem published_features_are_receipted:
  assumes "\<And>n. oc_undo (fv_outcomes V) n" and "tree_ok (fs_live s)" and "Features V opt s = (None, r, s')"
  shows "\<exists>m d p. fu_Manifest r = Some m \<and> file_at (fs_live s') (dataset_path [''manifest.json'']) = Some (ReceiptDoc m) \<and>
    file_at (fs_live s') (dataset_path [''schema.json'']) = Some (SchemaDoc d) \<and>
    fm_Matches m = fn_Matches (fu_Counts r) \<and> fm_Eligible m = fn_Eligible (fu_Counts r) \<and> fm_Excluded m = fn_Excluded (fu_Counts r) \<and>
    fm_Tables m = fu_Tables r \<and> map (\<lambda>t. (sc_Name t, sc_Rows t)) (sd_Tables d) = fm_Tables m \<and>
    map (\<lambda>t. (sc_Name t, sc_Columns t)) (sd_Tables d) = featureSchemaColumns \<and> fp_scratch p = feature_scratch V opt \<and>
    (t \<in> set featureTables \<longrightarrow> below (dataset_path [t]) q \<longrightarrow>
       file_at (fs_live s') q =
         (if q = dataset_path [t, ''part-00000.parquet''] then map_option TablePart (map_of (table_queries (normalize_features opt) p) t) else None))"
proof -
  from Features_built [OF assms(3)] obtain st s2 st1 s3 e pr s4 where
    new: "new_feature_state V (normalize_features opt) ((tick (tick s))\<lparr>fs_stage := []\<rparr>) = (Inr st, s2)"
    and run: "feature_run V st s2 = (None, st1, s3)"
    and pub: "Publish (fv_outcomes V) feature_dirs feature_files (dataset_path [''manifest.json'']) s3 = (e, pr, s4)"
    and live: "fs_live s3 = fs_live s" "fs_live s' = fs_live s4" and empty: "file_at (fs_stage s2) = (\<lambda>q. None)"
    and out: "None = map_option NotPublished e" "fu_Counts r = ft_counts st1" "fu_Tables r = ft_tables st1"
    and receipt: "e = None \<Longrightarrow> fu_Manifest r = ft_receipt st1" by metis
  have e: "e = None" using out(1) by (cases e) simp_all
  note fresh = new_feature_state_ok [OF new]
  obtain sa sb where counted: "read_counts (fv_json V) sa = (None, sb)" "ft_counts sa = ft_counts st" "ft_paths sa = ft_paths st" "ft_opts sa = ft_opts st"
    and st1: "st1 = sb\<lparr>ft_scripts := ft_scripts st @ early_scripts st @ last_scripts (ft_paths st), ft_receipt := Some (feature_manifest sb)\<rparr>"
    and staged: "file_at (fs_stage s3) = (\<lambda>q. case map_of (staged_docs st1) q of Some d \<Rightarrow> Some d | None \<Rightarrow> file_at (fs_stage s2) q)"
    by (rule feature_run_ok [OF run], rule that; assumption)
  have keeps: "ft_opts sb = normalize_features opt" "ft_paths sb = ft_paths st"
    using read_counts_keeps [OF counted(1)] counted fresh by simp_all
  have "tree_ok (fs_live s3)" using assms(2) live by simp
  from Publish_result [OF assms(1) this feature_items_apart feature_items_not_manifest pub]
  have live': "file_at (fs_live s') = overlay (feature_dirs @ feature_files @ [dataset_path [''manifest.json'']]) (fs_stage s3) (fs_live s)"
    using e live by auto
  have here: "file_at (fs_live s') q = map_of (staged_docs st1) q"
    if "p \<in> set (feature_dirs @ feature_files @ [dataset_path [''manifest.json'']])" "below p q" for p q
    using published_overlay [OF that, of "fs_stage s3" "fs_live s"] by (simp add: live' staged empty split: option.splits)
  let ?m = "feature_manifest sb" and ?d = "featureSchema (ft_counts sb) (ft_opts sb)"
  have rows: "map fst (ft_tables sb) = featureTables" "\<And>t n. map_of (ft_tables sb) t = Some n \<Longrightarrow> map_of (fn_TableRows (ft_counts sb)) t = Some n"
    using read_counts_tables [OF counted(1)] counted(2) fresh by (simp_all add: no_feature_counts_def)
  show ?thesis
  proof (intro exI conjI impI)
    show "fu_Manifest r = Some ?m" using receipt [OF e] by (simp add: st1)
    show "file_at (fs_live s') (dataset_path [''manifest.json'']) = Some (ReceiptDoc ?m)"
      using here [of "dataset_path [''manifest.json'']" "dataset_path [''manifest.json'']"] by (simp add: staged_docs_def st1)
    show "file_at (fs_live s') (dataset_path [''schema.json'']) = Some (SchemaDoc ?d)"
      using here [of "dataset_path [''schema.json'']" "dataset_path [''schema.json'']"]
      by (simp add: feature_files_def staged_docs_def st1) (simp add: dataset_path_def)
    show "fm_Matches ?m = fn_Matches (fu_Counts r)" "fm_Eligible ?m = fn_Eligible (fu_Counts r)" "fm_Excluded ?m = fn_Excluded (fu_Counts r)"
      "fm_Tables ?m = fu_Tables r" by (simp_all add: out st1 feature_manifest_def Let_def)
    show "map (\<lambda>t. (sc_Name t, sc_Rows t)) (sd_Tables ?d) = fm_Tables ?m"
      using counted_rows [OF rows] by (simp add: featureSchema_def feature_manifest_def Let_def o_def)
    show "map (\<lambda>t. (sc_Name t, sc_Columns t)) (sd_Tables ?d) = featureSchemaColumns"
      using schema_of_specification by (simp add: featureSchema_def o_def)
    show "fp_scratch (ft_paths st) = feature_scratch V opt" using fresh by (simp add: feature_scratch_def normalize_features_def)
    show "file_at (fs_live s') q =
        (if q = dataset_path [t, ''part-00000.parquet''] then map_option TablePart (map_of (table_queries (normalize_features opt) (ft_paths st)) t) else None)"
      if t: "t \<in> set featureTables" "below (dataset_path [t]) q"
    proof -
      have "dataset_path [t] \<in> set (feature_dirs @ feature_files @ [dataset_path [''manifest.json'']])"
        using t by (simp add: feature_dirs_def)
      moreover have "written_parts st1 = table_queries (normalize_features opt) (ft_paths st)"
        by (simp add: st1 written_parts_def table_queries_def ledger_query_def keeps)
      ultimately show ?thesis using here t staged_table [OF t] by simp
    qed
  qed
qed

section \<open>The order of the scripts\<close>

text \<open>A step runs some first scripts of a plan that the options and paths fix, and all of them when it succeeds.\<close>

definition runs :: "fstep \<Rightarrow> (feature_opts \<Rightarrow> feature_paths \<Rightarrow> string list) \<Rightarrow> bool" where
  "runs f plan =
     (\<forall>st s x st' s'. f st s = (x, st', s') \<longrightarrow>
        (\<exists>n. ft_scripts st' = ft_scripts st @ take n (plan (ft_opts st) (ft_paths st))) \<and>
        (x = None \<longrightarrow> ft_scripts st' = ft_scripts st @ plan (ft_opts st) (ft_paths st)))"

definition planned_step :: "fstep \<Rightarrow> (feature_opts \<Rightarrow> feature_paths \<Rightarrow> string list) \<Rightarrow> bool" where
  "planned_step f plan = (private_step f \<and> runs f plan)"

lemma runs_in_turn:
  "list_all2 planned_step fs plans \<Longrightarrow> runs (in_turn fs) (\<lambda>opt p. concat (map (\<lambda>plan. plan opt p) plans))"
proof (induction fs plans rule: list_all2_induct)
  case Nil
  then show ?case by (simp add: runs_def)
next
  case (Cons f fs plan plans)
  show ?case
    unfolding runs_def
  proof (intro allI impI)
    fix st s x st' s' assume run: "in_turn (f # fs) st s = (x, st', s')"
    let ?rest = "concat (map (\<lambda>plan. plan (ft_opts st) (ft_paths st)) plans)"
    obtain y st1 s1 where one: "f st s = (y, st1, s1)" by (cases "f st s") auto
    have f: "private_step f" "runs f plan" using Cons.hyps by (simp_all add: planned_step_def)
    note first = f(2) [unfolded runs_def, rule_format, OF one] and same = private_stepD [OF f(1) one]
    show "(\<exists>n. ft_scripts st' = ft_scripts st @ take n (concat (map (\<lambda>plan. plan (ft_opts st) (ft_paths st)) (plan # plans)))) \<and>
      (x = None \<longrightarrow> ft_scripts st' = ft_scripts st @ concat (map (\<lambda>plan. plan (ft_opts st) (ft_paths st)) (plan # plans)))"
    proof (cases y)
      case (Some z)
      then have "x = Some z" "st' = st1" using run one by simp_all
      moreover obtain n where "ft_scripts st1 = ft_scripts st @ take n (plan (ft_opts st) (ft_paths st))" using first by blast
      moreover have "take n (plan (ft_opts st) (ft_paths st)) = take (min n (length (plan (ft_opts st) (ft_paths st)))) (plan (ft_opts st) (ft_paths st) @ ?rest)"
        by (simp add: min_def)
      ultimately show ?thesis
        by (intro conjI exI [of _ "min n (length (plan (ft_opts st) (ft_paths st)))"]) simp_all
    next
      case None
      then have rest: "in_turn fs st1 s1 = (x, st', s')" using run one by simp
      have all: "ft_scripts st1 = ft_scripts st @ plan (ft_opts st) (ft_paths st)" using first None by simp
      note later = Cons.IH [unfolded runs_def, rule_format, OF rest]
      then obtain n where "ft_scripts st' = ft_scripts st1 @ take n ?rest" using same by metis
      moreover have "x = None \<longrightarrow> ft_scripts st' = ft_scripts st1 @ ?rest" using later same by simp
      ultimately have n: "ft_scripts st' = ft_scripts st1 @ take n ?rest" "x = None \<longrightarrow> ft_scripts st' = ft_scripts st1 @ ?rest" by simp_all
      have "ft_scripts st' = ft_scripts st @
          take (length (plan (ft_opts st) (ft_paths st)) + n) (concat (map (\<lambda>plan. plan (ft_opts st) (ft_paths st)) (plan # plans)))"
        using n all by simp
      moreover have "x = None \<longrightarrow> ft_scripts st' = ft_scripts st @ concat (map (\<lambda>plan. plan (ft_opts st) (ft_paths st)) (plan # plans))"
        using n all by simp
      ultimately show ?thesis by blast
    qed
  qed
qed

lemma runs_scripts:
  "run_scripts V cli sqls st s = (x, st', s') \<Longrightarrow>
     (\<exists>n. ft_scripts st' = ft_scripts st @ take n sqls) \<and> (x = None \<longrightarrow> ft_scripts st' = ft_scripts st @ sqls)"
proof (induction sqls arbitrary: st s)
  case (Cons sql sqls)
  obtain y st1 s1 where one: "run_script V cli sql [] st s = (y, st1, s1)" by (cases "run_script V cli sql [] st s") auto
  have first: "ft_scripts st1 = ft_scripts st @ [sql]" using one by (auto simp: run_script_def Let_def split: option.splits)
  show ?case
  proof (cases y)
    case None
    then have "run_scripts V cli sqls st1 s1 = (x, st', s')" using Cons.prems one by simp
    note rest = Cons.IH [OF this]
    then obtain n where "ft_scripts st' = ft_scripts st1 @ take n sqls" by blast
    then have "ft_scripts st' = ft_scripts st @ take (Suc n) (sql # sqls)" using first by simp
    moreover have "x = None \<longrightarrow> ft_scripts st' = ft_scripts st @ sql # sqls" using rest first by simp
    ultimately show ?thesis by blast
  next
    case (Some z)
    then show ?thesis using Cons.prems one first by (auto intro: exI [of _ 1])
  qed
qed auto

lemma runs_steps:
  "runs (\<lambda>st. run_script V cli (g (ft_opts st) (ft_paths st)) (h st) st) (\<lambda>opt p. [g opt p])"
  "runs (\<lambda>st. run_scripts V cli (k (ft_opts st) (ft_paths st)) st) k"
  "runs (\<lambda>st. write_fdoc V name (d st) st) (\<lambda>opt p. [])"
  "runs (chmod_readme V) (\<lambda>opt p. [])"
  "runs (\<lambda>st s. (G st, st, s)) (\<lambda>opt p. [])"
  "runs (\<lambda>st s. case read_counts J st of (x, st1) \<Rightarrow> (x, st1, s)) (\<lambda>opt p. [])"
  "runs (writeManifest V) (\<lambda>opt p. [])"
proof -
  show "runs (\<lambda>st. run_script V cli (g (ft_opts st) (ft_paths st)) (h st) st) (\<lambda>opt p. [g opt p])"
    by (auto simp: runs_def run_script_def Let_def intro: exI [of _ 1] split: option.splits)
  show "runs (\<lambda>st. run_scripts V cli (k (ft_opts st) (ft_paths st)) st) k"
    unfolding runs_def using runs_scripts by blast
qed (auto simp: runs_def write_fdoc_def chmod_readme_def writeManifest_def Let_def split: prod.splits dest: read_counts_keeps)

text \<open>The scripts of one build, in their order.\<close>

definition feature_plan :: "feature_opts \<Rightarrow> feature_paths \<Rightarrow> string list" where
  "feature_plan opt p =
     [envelopes_script p, ledger_script opt p] @
     payload_scripts opt (summaryEnvelope p) summary_columns ''summary'' (fp_summaryParts p) (scratch_file p ''summary-payload'') @
     payload_scripts opt (timelineEnvelope p) timeline_columns ''timeline'' (fp_timelineParts p) (scratch_file p ''timeline-payload'') @
     [participants_script p] @ unnest_scripts p ''frames'' timelineFramesSQL @ unnest_scripts p ''events'' timelineEventsSQL @
     [tables_script p, counts_script p, reconciliation_script p, describe_script p]"

lemma turn_plan:
  assumes "list_all2 planned_step fs plans" and "\<And>opt p. concat (map (\<lambda>g. g opt p) plans) = plan opt p"
  shows "planned_step (in_turn fs) plan"
proof -
  have "list_all private_step fs" using assms(1) by (induction rule: list_all2_induct) (simp_all add: planned_step_def)
  then show ?thesis using runs_in_turn [OF assms(1)] assms(2) private_in_turn by (simp add: planned_step_def runs_def)
qed

lemma plain_plans:
  "planned_step (\<lambda>st. run_script V cli (g (ft_opts st) (ft_paths st)) (h st) st) (\<lambda>opt p. [g opt p])"
  "planned_step (\<lambda>st. run_scripts V cli (k (ft_opts st) (ft_paths st)) st) k"
  "planned_step (\<lambda>st. write_fdoc V name (d st) st) (\<lambda>opt p. [])"
  "planned_step (chmod_readme V) (\<lambda>opt p. [])"
  "planned_step (\<lambda>st s. (G st, st, s)) (\<lambda>opt p. [])"
  "planned_step (\<lambda>st s. case read_counts J st of (x, st1) \<Rightarrow> (x, st1, s)) (\<lambda>opt p. [])"
  "planned_step (writeManifest V) (\<lambda>opt p. [])"
  by (simp_all add: planned_step_def runs_steps private_steps private_counting private_receipt)

lemma phase_plans:
  "planned_step (spillEnvelopes V cli) (\<lambda>opt p. [envelopes_script p])"
  "planned_step (writeLedger V cli) (\<lambda>opt p. [ledger_script opt p])"
  "planned_step (selectParticipants V cli) (\<lambda>opt p. [participants_script p])"
  "planned_step (spillFrames V cli) (\<lambda>opt p. unnest_scripts p ''frames'' timelineFramesSQL)"
  "planned_step (spillEvents V cli) (\<lambda>opt p. unnest_scripts p ''events'' timelineEventsSQL)"
  "planned_step (writeTables V cli) (\<lambda>opt p. [tables_script p])"
proof -
  note one = plain_plans(1) [where V = V and cli = cli] and many = plain_plans(2) [where V = V and cli = cli]
  show "planned_step (spillEnvelopes V cli) (\<lambda>opt p. [envelopes_script p])"
    using one [of "\<lambda>opt p. envelopes_script p" "\<lambda>st. []"] by (simp add: spillEnvelopes_def [abs_def])
  show "planned_step (writeLedger V cli) (\<lambda>opt p. [ledger_script opt p])"
    using one [of "\<lambda>opt p. ledger_script opt p" "\<lambda>st. [(''match_index'', ledger_query st)]"] by (simp add: writeLedger_def [abs_def])
  show "planned_step (selectParticipants V cli) (\<lambda>opt p. [participants_script p])"
    using one [of "\<lambda>opt p. participants_script p" "\<lambda>st. []"] by (simp add: selectParticipants_def [abs_def])
  show "planned_step (spillFrames V cli) (\<lambda>opt p. unnest_scripts p ''frames'' timelineFramesSQL)"
    using many [of "\<lambda>opt p. unnest_scripts p ''frames'' timelineFramesSQL"] by (simp add: spillFrames_def [abs_def])
  show "planned_step (spillEvents V cli) (\<lambda>opt p. unnest_scripts p ''events'' timelineEventsSQL)"
    using many [of "\<lambda>opt p. unnest_scripts p ''events'' timelineEventsSQL"] by (simp add: spillEvents_def [abs_def])
  show "planned_step (writeTables V cli) (\<lambda>opt p. [tables_script p])"
    using one [of "\<lambda>opt p. tables_script p" "\<lambda>st. derived_tables (ft_paths st)"] by (simp add: writeTables_def [abs_def])
qed

definition summary_plan :: "feature_opts \<Rightarrow> feature_paths \<Rightarrow> string list" where
  "summary_plan opt p =
     payload_scripts opt (summaryEnvelope p) summary_columns ''summary'' (fp_summaryParts p) (scratch_file p ''summary-payload'')"

definition timeline_plan :: "feature_opts \<Rightarrow> feature_paths \<Rightarrow> string list" where
  "timeline_plan opt p =
     payload_scripts opt (timelineEnvelope p) timeline_columns ''timeline'' (fp_timelineParts p) (scratch_file p ''timeline-payload'')"

lemma payload_plan: "planned_step (spillPayloads V cli) (\<lambda>opt p. summary_plan opt p @ timeline_plan opt p)"
  using plain_plans(2) [of V cli summary_plan] plain_plans(2) [of V cli timeline_plan]
  unfolding spillPayloads_def
  by (intro turn_plan [where plans = "[summary_plan, timeline_plan]"])
    (simp_all add: summary_payload_scripts_def timeline_payload_scripts_def summary_plan_def timeline_plan_def)

lemma counting_plan: "planned_step (countRows V cli) (\<lambda>opt p. [counts_script p])"
  using plain_plans(1) [of V cli "\<lambda>opt p. counts_script p" "\<lambda>st. []"] plain_plans(6) [of "fv_json V"]
  unfolding countRows_def by (intro turn_plan [where plans = "[\<lambda>opt p. [counts_script p], \<lambda>opt p. []]"]) simp_all

lemma schema_plan: "planned_step (checkSchema V cli) (\<lambda>opt p. [describe_script p])"
  using plain_plans(1) [of V cli "\<lambda>opt p. describe_script p" "\<lambda>st. []"]
    plain_plans(5) [of "\<lambda>st. check_tables (fv_json V) (ft_paths st) [] featureTables"]
  unfolding checkSchema_def by (intro turn_plan [where plans = "[\<lambda>opt p. [describe_script p], \<lambda>opt p. []]"]) simp_all

lemma gates_plan: "planned_step (checkGates V cli) (\<lambda>opt p. [reconciliation_script p, describe_script p])"
  using plain_plans(1) [of V cli "\<lambda>opt p. reconciliation_script p" "\<lambda>st. []"] plain_plans(5) [of "\<lambda>st. check_counts (ft_counts st)"]
    plain_plans(5) [of "\<lambda>st. check_reconciliation (fv_json V) (ft_paths st)"] schema_plan [of V cli]
  unfolding checkGates_def
  by (intro turn_plan [where plans = "[\<lambda>opt p. [], \<lambda>opt p. [reconciliation_script p], \<lambda>opt p. [], \<lambda>opt p. [describe_script p]]"]) simp_all

lemma docs_plan: "planned_step (writeDocs V) (\<lambda>opt p. [])"
  unfolding writeDocs_def by (intro turn_plan [where plans = "[\<lambda>opt p. [], \<lambda>opt p. [], \<lambda>opt p. []]"]) (simp_all add: plain_plans)

lemma run_plan: "planned_step (in_turn (feature_phases V cli)) feature_plan"
proof (rule turn_plan)
  show "list_all2 planned_step (feature_phases V cli)
     [\<lambda>opt p. [envelopes_script p], \<lambda>opt p. [ledger_script opt p], \<lambda>opt p. summary_plan opt p @ timeline_plan opt p,
      \<lambda>opt p. [participants_script p], \<lambda>opt p. unnest_scripts p ''frames'' timelineFramesSQL,
      \<lambda>opt p. unnest_scripts p ''events'' timelineEventsSQL, \<lambda>opt p. [tables_script p], \<lambda>opt p. [counts_script p],
      \<lambda>opt p. [reconciliation_script p, describe_script p], \<lambda>opt p. [], \<lambda>opt p. []]"
    by (simp add: feature_phases_def phase_plans payload_plan counting_plan gates_plan docs_plan plain_plans)
qed (simp add: feature_plan_def summary_plan_def timeline_plan_def)

lemma feature_run_plan:
  assumes "feature_run V st s = (x, st', s')"
  shows "(\<exists>n. ft_scripts st' = ft_scripts st @ take n (feature_plan (ft_opts st) (ft_paths st))) \<and>
    (x = None \<longrightarrow> ft_scripts st' = ft_scripts st @ feature_plan (ft_opts st) (ft_paths st))"
proof (cases "OpenCLIEngine (fv_os V) (fv_parsers V) (fo_DuckDBBin (ft_opts st)) (fo_AllowVersionMismatch (ft_opts st)) (fo_DuckDB (ft_opts st))")
  case (Inl e)
  then show ?thesis using assms by (auto simp: feature_run_def intro: exI [of _ 0])
next
  case (Inr cli)
  then have "in_turn (feature_phases V cli) (st\<lparr>ft_version := ce_version cli\<rparr>) s = (x, st', s')"
    using assms by (simp add: feature_run_def)
  from run_plan [of V cli, unfolded planned_step_def runs_def, THEN conjunct2, rule_format, OF this] show ?thesis by simp
qed

text \<open>The scratch directory and the staged parts of a build's paths are what its two archives gave.\<close>

definition staged_inputs :: "feature_env \<Rightarrow> feature_opts \<Rightarrow> feature_paths \<Rightarrow> bool" where
  "staged_inputs V opt p =
     (fp_scratch p = feature_scratch V opt \<and>
      (\<exists>summary timeline.
         Parts (fv_listing V) \<lparr>ra_Root = fo_RawRoot opt, ra_Before = [], ra_Source = []\<rparr> = Inr summary \<and>
         Parts (fv_listing V) \<lparr>ra_Root = fo_RawRoot opt, ra_Before = [], ra_Source = RawSourceTimeline\<rparr> = Inr timeline \<and>
         StageParts (fv_files V) (join (fp_scratch p) ''raw-summary'') summary = Inr (fp_summaryParts p) \<and>
         StageParts (fv_files V) (join (fp_scratch p) ''raw-timeline'') timeline = Inr (fp_timelineParts p)))"

lemma new_feature_state_inputs: "new_feature_state V opt s = (Inr st, s') \<Longrightarrow> staged_inputs V opt (ft_paths st)"
  by (auto simp: new_feature_state_def staged_inputs_def feature_scratch_def Let_def split: sum.splits option.splits prod.splits)

lemma feature_plan_begins: "feature_plan opt p \<noteq> []"
  by (simp add: feature_plan_def)

lemma scripts_ran:
  assumes "Features V opt s = (x, r, s')"
  shows "fu_Scripts r = [] \<and> x \<noteq> None \<or>
    (\<exists>n p. staged_inputs V (normalize_features opt) p \<and> fu_Scripts r = take n (feature_plan (normalize_features opt) p) \<and>
      (x = None \<longrightarrow> fu_Scripts r = feature_plan (normalize_features opt) p))"
proof -
  let ?opt = "normalize_features opt" and ?s0 = "(tick (tick s))\<lparr>fs_stage := []\<rparr>"
  let ?r0 = "no_feature_result\<lparr>fu_StagingDir := join (fo_DatasetRoot ?opt) (fv_staging V), fu_Dir := join (fo_DatasetRoot ?opt) FeatureDatasetDir\<rparr>"
  show ?thesis
  proof (cases "\<exists>s1. build_staged V ?opt ?r0 ?s0 = (x, r, s1)")
    case False
    then have "fu_Scripts r = []" "x \<noteq> None" using assms by (auto simp: Features_def no_feature_result_def Let_def split: if_splits prod.splits)
    then show ?thesis by simp
  next
    case True
    then obtain s1 where built: "build_staged V ?opt ?r0 ?s0 = (x, r, s1)" ..
    obtain res s2 where laid: "new_feature_state V ?opt ?s0 = (res, s2)" by fastforce
    show ?thesis
    proof (cases res)
      case (Inl e)
      then have "fu_Scripts r = []" "x \<noteq> None" using built laid by (auto simp: build_staged_def no_feature_result_def)
      then show ?thesis by simp
    next
      case (Inr st)
      note fresh = new_feature_state_ok [OF laid [unfolded Inr]] and inputs = new_feature_state_inputs [OF laid [unfolded Inr]]
      obtain y st1 s3 where run: "feature_run V st s2 = (y, st1, s3)" by (metis prod_cases3)
      have "fu_Scripts r = ft_scripts st1" "x = None \<longrightarrow> y = None"
        using built laid run Inr by (auto simp: build_staged_def result_of_def split: option.splits prod.splits)
      then show ?thesis using feature_run_plan [OF run] fresh inputs by auto
    qed
  qed
qed

text \<open>
  C24: a build of the features runs its scripts in one order. Whatever fails, the scripts that ran are the
  first ones of the plan the options, the scratch directory and the parts staged from the two archives
  fix: the envelopes, the ledger, the payloads
  of both archives, the participants, the frames, the events, the tables, the counts and the gates'
  queries; a build that succeeds ran all of them, each once.
\<close>

theorem feature_scripts_run_in_order:
  "case Features V opt s of (x, r, s') \<Rightarrow>
     (if fu_Scripts r = [] then x \<noteq> None
      else (\<exists>p. staged_inputs V (normalize_features opt) p \<and>
              (if x = None then fu_Scripts r = feature_plan (normalize_features opt) p
               else (\<exists>n. fu_Scripts r = take n (feature_plan (normalize_features opt) p)))))"
proof (cases "Features V opt s")
  case (fields x r s')
  have "if fu_Scripts r = [] then x \<noteq> None
    else (\<exists>p. staged_inputs V (normalize_features opt) p \<and>
            (if x = None then fu_Scripts r = feature_plan (normalize_features opt) p
             else (\<exists>n. fu_Scripts r = take n (feature_plan (normalize_features opt) p))))"
    using scripts_ran [OF fields] by (cases x) (auto simp: feature_plan_begins feature_plan_begins [symmetric])
  then show ?thesis by (simp only: fields prod.case)
qed

section \<open>What the gates let through\<close>

text \<open>
  A dataset of which no match is eligible passes the gates, provided a timeline is there: the count of
  eligible matches is read and published, but not checked.
\<close>

lemma nothing_eligible_passes:
  "counts_pass (no_feature_counts\<lparr>fn_Matches := 5, fn_TimelinePresent := 5, fn_Eligible := 0, fn_Excluded := [(''too_short'', 5)]\<rparr>)"
  "fj_recon J (join scratch ''reconciliation.json'') =
     Some [\<lparr>fr_MatchupRows = 0, fr_MatchupMatches = 0, fr_LedgerMatches = 0\<rparr>] \<Longrightarrow> reconciled J scratch"
  by (simp_all add: counts_pass_def no_feature_counts_def count_of_def reconciled_def)

section \<open>A build that succeeds\<close>

definition demo_feature_opts :: feature_opts where
  "demo_feature_opts = \<lparr>fo_DatasetRoot = ''/d'', fo_RawRoot = ''/r'', fo_Region = [], fo_Platform = [], fo_Queue = 0, fo_MinDurationS = 0,
     fo_GitSHA = ''abc'', fo_DuckDBBin = [], fo_AllowVersionMismatch = False, fo_DuckDB = no_settings\<rparr>"

definition demo_listing :: dir_listing where
  "demo_listing p =
     (if p \<in> {''/r/riot/match-v5'', ''/r/riot/match-v5-timeline''} then Some [(''dt=2026-01-01'', True)]
      else Some [(''a.parquet'', False)])"

definition demo_json :: json_answers where
  "demo_json =
     \<lparr>fj_ledger = \<lambda>p. Some [\<lparr>fl_SummaryRows = 1, fl_TimelineRows = 1, fl_Matches = 1, fl_TimelinePresent = 1, fl_Eligible = 1,
        fl_MalformedSummary = 0, fl_MalformedTimeline = 0, fl_Orphans = 0\<rparr>],
      fj_exclusions = \<lambda>p. Some [(''ok'', 1)], fj_rows = \<lambda>p. Some [(''t'', 1)],
      fj_recon = \<lambda>p. Some [\<lparr>fr_MatchupRows = 10, fr_MatchupMatches = 1, fr_LedgerMatches = 1\<rparr>],
      fj_columns = \<lambda>p. (case filter (\<lambda>(t, cs). p = join ''/d/s/.scratch'' (''describe-'' @ t @ ''.json'')) featureSchemaColumns of
         (t, cs) # rest \<Rightarrow> Some (map (\<lambda>c. (fc_Name c, fc_Type c)) cs) | [] \<Rightarrow> None)\<rparr>"

definition demo_feature_env :: feature_env where
  "demo_feature_env = \<lparr>fv_outcomes = \<lparr>oc_io = \<lambda>n. True, oc_undo = \<lambda>n. True\<rparr>, fv_readable = \<lambda>p. True, fv_listing = demo_listing,
     fv_files = \<lparr>fa_head = \<lambda>p. Some ''PAR1'', fa_mkdir = True, fa_decompress = \<lambda>a b. True, fa_stop = \<lambda>n. False\<rparr>,
     fv_os = demo_os, fv_parsers = demo_parsers, fv_json = demo_json, fv_staging = ''s'', fv_now = 0\<rparr>"

definition demo_disk :: fworld where
  "demo_disk = \<lparr>fs_live = [], fs_stage = [], fs_trash = [], fs_tick = 0, fs_seen = []\<rparr>"

lemma own_columns_match: "list_all2 (\<lambda>b c. featureTypeMatches (snd b) (fc_Type c)) (map (\<lambda>c. (fc_Name c, fc_Type c)) cs) cs"
  by (simp add: list_all2_map1 featureTypeMatches_def list_all2_same)

lemma demo_columns: "list_all (documented demo_json ''/d/s/.scratch'') featureTables"
  by (simp add: featureTables_def documented_def demo_json_def featureSchemaColumns_def join_def o_def own_columns_match)

text \<open>Every script begins with a copy, so the engine has something to run.\<close>

definition begins :: "string \<Rightarrow> bool" where
  "begins s = (case s of [] \<Rightarrow> False | c # cs \<Rightarrow> \<not> is_space c)"

lemma begins_runs: "begins s \<Longrightarrow> Exec demo_os cli s = None"
  by (cases s) (auto simp: begins_def Exec_def demo_os_def trim_space_def trim_left_def)

lemma begins_copy: "begins (copyJSON q t)" "begins (copyParquet q t)"
  by (simp_all add: begins_def copyJSON_def copyParquet_def sql_lines_def is_space_def)

lemma begins_join: "begins x \<Longrightarrow> begins (joinStatements (x # xs))"
  by (cases xs; cases x) (simp_all add: begins_def joinStatements_def)

lemma plan_begins: "list_all begins (feature_plan opt p)"
  by (auto simp: feature_plan_def envelopes_script_def ledger_script_def participants_script_def tables_script_def counts_script_def
      reconciliation_script_def describe_script_def payload_scripts_def unnest_scripts_def list_all_iff begins_copy begins_join
      featureTables_def Let_def)

lemma demo_runs_all: "x \<in> set (feature_plan opt p) \<Longrightarrow> Exec demo_os cli x = None"
  using plan_begins [of opt p] begins_runs by (auto simp: list_all_iff)

lemma is_dir_put_file: "is_dir (put_file p d t) q = (q \<noteq> p \<and> is_dir t q)"
proof -
  have "map_of (filter (\<lambda>(q, n). q \<noteq> p) t) q = map_of t q" if "q \<noteq> p" using that by (induction t) auto
  then show ?thesis by (auto simp: is_dir_def put_file_def)
qed

definition demo_laid :: "(feature_error + fstate) \<times> fworld" where
  "demo_laid = new_feature_state demo_feature_env (normalize_features demo_feature_opts) ((tick (tick demo_disk))\<lparr>fs_stage := []\<rparr>)"

definition demo_plan_state :: fstate where
  "demo_plan_state = (case fst demo_laid of Inr st \<Rightarrow> st | Inl e \<Rightarrow> undefined)"

lemma demo_lays_out:
  "fst demo_laid = Inr demo_plan_state" "ft_counts demo_plan_state = no_feature_counts" "fp_scratch (ft_paths demo_plan_state) = ''/d/s/.scratch''"
  "ft_opts demo_plan_state = normalize_features demo_feature_opts" "fs_live (snd demo_laid) = []"
proof -
  have "case fst demo_laid of Inr st \<Rightarrow> True | Inl e \<Rightarrow> False" by code_simp
  then obtain st where st: "fst demo_laid = Inr st" by (auto split: sum.splits)
  then have here: "demo_plan_state = st" by (simp add: demo_plan_state_def)
  have "new_feature_state demo_feature_env (normalize_features demo_feature_opts) ((tick (tick demo_disk))\<lparr>fs_stage := []\<rparr>) = (Inr st, snd demo_laid)"
    using st by (simp add: demo_laid_def prod_eq_iff)
  note fresh = new_feature_state_ok [OF this]
  have "feature_scratch demo_feature_env (normalize_features demo_feature_opts) = ''/d/s/.scratch''" by code_simp
  then show "fst demo_laid = Inr demo_plan_state" "fp_scratch (ft_paths demo_plan_state) = ''/d/s/.scratch''"
     "ft_opts demo_plan_state = normalize_features demo_feature_opts" "ft_counts demo_plan_state = no_feature_counts"
    using st here fresh by simp_all
  show "fs_live (snd demo_laid) = []" by code_simp
qed

lemma demo_stage_dirs:
  "\<not> is_dir (fs_stage (snd demo_laid)) (dataset_path [''schema.json''])"
  "\<not> is_dir (fs_stage (snd demo_laid)) (dataset_path [''README.md''])"
  "\<not> is_dir (fs_stage (snd demo_laid)) (dataset_path [''manifest.json''])"
  by code_simp+

lemma is_dir_put_parts: "is_dir (put_parts ts t) q \<Longrightarrow> is_dir t q"
proof (induction ts arbitrary: t)
  case (Cons x ts)
  obtain n sql where x: "x = (n, sql)" by (cases x)
  let ?t = "put_file (dataset_path [n, ''part-00000.parquet'']) (TablePart sql) t"
  have "put_parts (x # ts) t = put_parts ts ?t" by (simp add: put_parts_def x)
  then have "is_dir ?t q" using Cons.IH [of ?t] Cons.prems by simp
  then show ?case by (simp add: is_dir_put_file)
qed (simp add: put_parts_def)

text \<open>The published tree, for any content of the files.\<close>

lemma demo_features_publish:
  "case Publish (fv_outcomes demo_feature_env) feature_dirs feature_files (dataset_path [''manifest.json''])
     \<lparr>fs_live = [],
      fs_stage = put_file (dataset_path [''manifest.json'']) m (put_file (dataset_path [''README.md'']) d
        (put_file (dataset_path [''schema.json'']) c
          (put_parts [(''participant_minutes'', q1), (''events'', q2), (''lane_matchups'', q3), (''participant_early'', q4), (''match_objectives'', q5)]
            (put_parts [(''match_index'', q0)] (fs_stage (snd demo_laid)))))),
      fs_trash = trash, fs_tick = n, fs_seen = seen\<rparr> of
   (e, r, s') \<Rightarrow> e = None \<and> file_at (fs_live s') (dataset_path [''manifest.json'']) = Some m"
  by code_simp

lemma demo_feature_run:
  "\<exists>st' s'. feature_run demo_feature_env demo_plan_state (snd demo_laid) = (None, st', s') \<and> fs_live s' = [] \<and>
     fs_stage s' = put_file (dataset_path [''manifest.json'']) (ReceiptDoc (feature_manifest st'))
       (put_file (dataset_path [''README.md'']) (ReadmeDoc (ft_counts st') (ft_opts st'))
         (put_file (dataset_path [''schema.json'']) (SchemaDoc (featureSchema (ft_counts st') (ft_opts st')))
           (put_parts (derived_tables (ft_paths demo_plan_state)) (put_parts [(''match_index'', ledger_query demo_plan_state)] (fs_stage (snd demo_laid))))))"
proof -
  let ?st = "demo_plan_state\<lparr>ft_version := ce_version demo_cli\<rparr>" and ?s = "snd demo_laid"
  let ?sa = "?st\<lparr>ft_scripts := ft_scripts ?st @ early_scripts ?st\<rparr>"
  let ?ta = "?s\<lparr>fs_stage := put_parts (derived_tables (ft_paths ?st)) (put_parts [(''match_index'', ledger_query ?st)] (fs_stage ?s))\<rparr>"
  have ok: "Exec demo_os demo_cli x = None" if "x \<in> set (feature_plan (ft_opts demo_plan_state) (ft_paths demo_plan_state))" for x
    using demo_runs_all that by blast
  have early: "in_turn [spillEnvelopes demo_feature_env demo_cli, writeLedger demo_feature_env demo_cli, spillPayloads demo_feature_env demo_cli,
      selectParticipants demo_feature_env demo_cli, spillFrames demo_feature_env demo_cli, spillEvents demo_feature_env demo_cli, writeTables demo_feature_env demo_cli]
      ?st ?s = (None, ?sa, ?ta)"
    using ok
    by (simp add: phase_defs step_oks early_scripts_def summary_payload_scripts_def timeline_payload_scripts_def ledger_query_def
        feature_plan_def demo_feature_env_def list_all_iff del: in_turn.simps)
  let ?sc = "?sa\<lparr>ft_scripts := ft_scripts ?sa @ [counts_script (ft_paths ?sa)]\<rparr>"
  obtain c rows where counted: "read_counts demo_json ?sc = (None, ?sc\<lparr>ft_counts := c, ft_tables := rows\<rparr>)" and pass: "counts_pass c"
    by (simp add: read_counts_def ledger_counts_def demo_json_def featureTables_def demo_lays_out no_feature_counts_def counts_pass_def
        count_of_def Let_def)
  let ?sb = "?sc\<lparr>ft_counts := c, ft_tables := rows\<rparr>"
  let ?sg = "?sb\<lparr>ft_scripts := ft_scripts ?sb @ [reconciliation_script (ft_paths ?sb), describe_script (ft_paths ?sb)]\<rparr>"
  have counting: "countRows demo_feature_env demo_cli ?sa ?ta = (None, ?sb, ?ta)"
    using ok counted by (simp add: put_parts_none countRows_def step_oks feature_plan_def demo_feature_env_def del: in_turn.simps)
  have "reconciled demo_json ''/d/s/.scratch''" by (simp add: reconciled_def demo_json_def)
  then have gates: "checkGates demo_feature_env demo_cli ?sb ?ta = (None, ?sg, ?ta)"
    using ok pass demo_columns by (simp add: checkGates_ok feature_plan_def demo_feature_env_def demo_lays_out)
  let ?td = "(tick (tick (tick (tick ?ta))))\<lparr>fs_stage := put_file (dataset_path [''manifest.json'']) (ReceiptDoc (feature_manifest ?sg))
       (put_file (dataset_path [''README.md'']) (ReadmeDoc (ft_counts ?sg) (ft_opts ?sg))
         (put_file (dataset_path [''schema.json'']) (SchemaDoc (featureSchema (ft_counts ?sg) (ft_opts ?sg))) (fs_stage ?ta)))\<rparr>"
  have late: "in_turn [writeDocs demo_feature_env, writeManifest demo_feature_env] ?sg ?ta = (None, ?sg\<lparr>ft_receipt := Some (feature_manifest ?sg)\<rparr>, ?td)"
    using demo_stage_dirs
    by (auto simp: writeDocs_def writeManifest_def step_oks Let_def demo_feature_env_def step_ok_def is_dir_put_file tick_def
        simp del: in_turn.simps dest!: is_dir_put_parts)
  have "feature_phases demo_feature_env demo_cli =
      [spillEnvelopes demo_feature_env demo_cli, writeLedger demo_feature_env demo_cli, spillPayloads demo_feature_env demo_cli, selectParticipants demo_feature_env demo_cli,
       spillFrames demo_feature_env demo_cli, spillEvents demo_feature_env demo_cli, writeTables demo_feature_env demo_cli] @
      [countRows demo_feature_env demo_cli, checkGates demo_feature_env demo_cli] @ [writeDocs demo_feature_env, writeManifest demo_feature_env]"
    by (simp add: feature_phases_def)
  moreover have "in_turn [countRows demo_feature_env demo_cli, checkGates demo_feature_env demo_cli] ?sa ?ta = (None, ?sg, ?ta)"
    by (simp only: in_turn.simps counting gates prod.case option.case)
  ultimately have "in_turn (feature_phases demo_feature_env demo_cli) ?st ?s = (None, ?sg\<lparr>ft_receipt := Some (feature_manifest ?sg)\<rparr>, ?td)"
    using early late by (simp only: in_turn_append) blast
  moreover have "OpenCLIEngine (fv_os demo_feature_env) (fv_parsers demo_feature_env) (fo_DuckDBBin (ft_opts demo_plan_state))
      (fo_AllowVersionMismatch (ft_opts demo_plan_state)) (fo_DuckDB (ft_opts demo_plan_state)) = Inr demo_cli"
    using demo_opens by (simp add: demo_lays_out demo_feature_env_def normalize_features_def demo_feature_opts_def)
  ultimately have "feature_run demo_feature_env demo_plan_state ?s = (None, ?sg\<lparr>ft_receipt := Some (feature_manifest ?sg)\<rparr>, ?td)"
    by (simp only: feature_run_def sum.case)
  then show ?thesis using demo_lays_out(5) by simp
qed

text \<open>The build of the demonstration, whose result is what the code returns.\<close>

definition demo_features :: "feature_error option \<times> FeatureResult \<times> fworld" where
  "demo_features = Features demo_feature_env demo_feature_opts demo_disk"

lemma demo_features_build:
  "fst demo_features = None" "file_at (fs_live (snd (snd demo_features))) (dataset_path [''manifest.json'']) \<noteq> None"
proof -
  obtain st' s' where run: "feature_run demo_feature_env demo_plan_state (snd demo_laid) = (None, st', s')" and live: "fs_live s' = []"
    and stage: "fs_stage s' = put_file (dataset_path [''manifest.json'']) (ReceiptDoc (feature_manifest st'))
       (put_file (dataset_path [''README.md'']) (ReadmeDoc (ft_counts st') (ft_opts st'))
         (put_file (dataset_path [''schema.json'']) (SchemaDoc (featureSchema (ft_counts st') (ft_opts st')))
           (put_parts (derived_tables (ft_paths demo_plan_state)) (put_parts [(''match_index'', ledger_query demo_plan_state)] (fs_stage (snd demo_laid))))))"
    using demo_feature_run by blast
  obtain q1 q2 q3 q4 q5 where d: "derived_tables (ft_paths demo_plan_state) =
      [(''participant_minutes'', q1), (''events'', q2), (''lane_matchups'', q3), (''participant_early'', q4), (''match_objectives'', q5)]"
    by (simp add: derived_tables_def Let_def)
  have s': "s' = \<lparr>fs_live = [], fs_stage = put_file (dataset_path [''manifest.json'']) (ReceiptDoc (feature_manifest st'))
       (put_file (dataset_path [''README.md'']) (ReadmeDoc (ft_counts st') (ft_opts st'))
         (put_file (dataset_path [''schema.json'']) (SchemaDoc (featureSchema (ft_counts st') (ft_opts st')))
           (put_parts [(''participant_minutes'', q1), (''events'', q2), (''lane_matchups'', q3), (''participant_early'', q4), (''match_objectives'', q5)]
             (put_parts [(''match_index'', ledger_query demo_plan_state)] (fs_stage (snd demo_laid)))))),
       fs_trash = fs_trash s', fs_tick = fs_tick s', fs_seen = fs_seen s'\<rparr>"
    using live stage [unfolded d] by (cases s') simp
  have "case Publish (fv_outcomes demo_feature_env) feature_dirs feature_files (dataset_path [''manifest.json'']) s' of
      (e, r, s4) \<Rightarrow> e = None \<and> file_at (fs_live s4) (dataset_path [''manifest.json'']) = Some (ReceiptDoc (feature_manifest st'))"
    by (subst s') (rule demo_features_publish)
  then obtain r s4 where pub: "Publish (fv_outcomes demo_feature_env) feature_dirs feature_files (dataset_path [''manifest.json'']) s' = (None, r, s4)"
    and there: "file_at (fs_live s4) (dataset_path [''manifest.json'']) \<noteq> None" by (auto split: prod.splits)
  have laid: "new_feature_state demo_feature_env (normalize_features demo_feature_opts) ((tick (tick demo_disk))\<lparr>fs_stage := []\<rparr>) = (Inr demo_plan_state, snd demo_laid)"
    using demo_lays_out(1) by (simp add: demo_laid_def prod_eq_iff)
  have guards: "\<not> fo_MinDurationS (normalize_features demo_feature_opts) < 0" "fo_DatasetRoot (normalize_features demo_feature_opts) \<noteq> []"
    "fo_RawRoot (normalize_features demo_feature_opts) \<noteq> []" "\<not> refuseDemoTree (fv_readable demo_feature_env) (root_docs (fs_live demo_disk))"
    "step_ok (fv_outcomes demo_feature_env) demo_disk" "step_ok (fv_outcomes demo_feature_env) (tick demo_disk)" by code_simp+
  show "fst demo_features = None" "file_at (fs_live (snd (snd demo_features))) (dataset_path [''manifest.json'']) \<noteq> None"
    using guards laid run pub there
    by (simp_all add: demo_features_def Features_def Let_def build_staged_def feature_publish_def)
qed

theorem features_fail_closed_witness:
  "gates_passed demo_feature_env ''/d/s/.scratch'' (fu_Counts (fst (snd demo_features))) \<and>
   file_at (fs_live (snd (snd demo_features))) (dataset_path [''manifest.json'']) \<noteq> None"
proof -
  have "Features demo_feature_env demo_feature_opts demo_disk = (fst demo_features, fst (snd demo_features), snd (snd demo_features))"
    by (simp add: demo_features_def)
  moreover have before: "file_at (fs_live demo_disk) (dataset_path [''manifest.json'']) = None" by (simp add: demo_disk_def file_at_def)
  moreover have "feature_scratch demo_feature_env demo_feature_opts = ''/d/s/.scratch''" by code_simp
  ultimately show ?thesis
    using features_fail_closed [of demo_feature_env demo_disk demo_feature_opts "fst demo_features" "fst (snd demo_features)"
        "snd (snd demo_features)" "dataset_path [''manifest.json'']"] demo_features_build(2)
    by (simp add: demo_feature_env_def demo_disk_def tree_ok_def)
qed

theorem published_features_are_receipted_witness:
  "\<exists>m. fu_Manifest (fst (snd demo_features)) = Some m \<and>
     file_at (fs_live (snd (snd demo_features))) (dataset_path [''manifest.json'']) = Some (ReceiptDoc m)"
proof -
  have "Features demo_feature_env demo_feature_opts demo_disk = (None, fst (snd demo_features), snd (snd demo_features))"
    using demo_features_build(1) by (simp add: demo_features_def prod_eq_iff)
  from published_features_are_receipted [OF _ _ this] show ?thesis
    by (auto simp: demo_disk_def demo_feature_env_def tree_ok_def)
qed

end
