(* ===== verification/Spec2Isabelle.thy ===== *)
theory Spec2Isabelle
  imports Limiter_Props Client_Props Riot_Breaker Riot_Key Queue_Props Frontier_Props Matches_Props
    Store_Connect Store_Migrate Raw_Props Archive_Props Worker_Theorems Command_Props Maintain_Props
    Timeline_Props Publish_Props Cells_Props Manifest_Props Date_Props
    Verify_Props Build_Props Build_Verify Static_Props Config SQL_Props Agg_Archive Features_SQL_Props
    Feature_Columns Features_Props
begin

text \<open>
  A verification development for lolstats: the crawler that fetches matches from the Riot API, keeps
  its control plane in PostgreSQL and archives every payload in Parquet parts, and the aggregation
  that turns the archive into a published tree of tier lists.

  \<^bold>\<open>The program.\<close> \<^verbatim>\<open>internal/riot\<close> is the API client: a rate limiter that learns its windows from
  response headers, a circuit breaker, a key that may rotate, and one call with its retries.
  \<^verbatim>\<open>internal/store\<close> is the control plane: the fetch queue, the crawl frontier, the matches, the runs,
  the connection and the migrations. \<^verbatim>\<open>internal/raw\<close> is the archive. \<^verbatim>\<open>internal/crawl\<close> is the worker that
  composes them: claim a batch of rows, fetch, archive, record, flush, close the rows; when there is
  none, walk the frontier. \<^verbatim>\<open>internal/aggregate\<close> is the build: plan the archive, let DuckDB count, pass the
  gates, compute the cells, write the documents into a staging tree and swap them into the live one;
  it also holds the verifier of a published tree, and the second build, which unnests the timelines into
  a dataset of six tables. \<^verbatim>\<open>internal/config\<close> reads the environment. \<^verbatim>\<open>internal/aggmodel\<close> is the shape of what is published.

  \<^bold>\<open>Theories and sources.\<close>
  \<^item> \<open>Prelude\<close>: Go's durations, instants, strings and number parsing, de-duplication.
  \<^item> \<open>Contract\<close>: \<^verbatim>\<open>internal/contract/contract.go\<close>.
  \<^item> \<open>Riot_Headers\<close>, \<open>Riot_Limiter\<close>, \<open>Limiter_Props\<close>: \<^verbatim>\<open>headers.go\<close>, \<^verbatim>\<open>limiter.go\<close>. The limiter is the list
    of its buckets; \<open>reserve\<close>, \<open>Observe\<close>, \<open>Penalize\<close> are functions on it.
  \<^item> \<open>Riot_Clock\<close>, \<open>Riot_Breaker\<close>, \<open>Riot_Key\<close>, \<open>Riot_Errors\<close>: \<^verbatim>\<open>clock.go\<close>, \<^verbatim>\<open>breaker.go\<close>, \<^verbatim>\<open>key.go\<close> and
    \<^verbatim>\<open>expiry.go\<close>, \<^verbatim>\<open>errors.go\<close>.
  \<^item> \<open>Riot_Client\<close>, \<open>Client_Props\<close>: \<^verbatim>\<open>client.go\<close>, one call with its attempts and waits.
  \<^item> \<open>Store_Queue\<close>, \<open>Queue_Props\<close>: \<^verbatim>\<open>queue.go\<close> and the queue statements of \<^verbatim>\<open>maintain.go\<close>. A table is the
    list of its rows, a statement a function on it; the rows other transactions hold are a set.
  \<^item> \<open>Store_Frontier\<close>, \<open>Frontier_Props\<close>: \<^verbatim>\<open>frontier.go\<close> and the re-ranking of \<^verbatim>\<open>maintain.go\<close>.
  \<^item> \<open>Store_Matches\<close>, \<open>Matches_Props\<close>: \<^verbatim>\<open>matches.go\<close>, \<^verbatim>\<open>timeline.go\<close>, \<^verbatim>\<open>runs.go\<close>.
  \<^item> \<open>Store_Connect\<close>, \<open>Store_Migrate\<close>: \<^verbatim>\<open>connect.go\<close>, \<^verbatim>\<open>migrate.go\<close>.
  \<^item> \<open>Raw_Layout\<close>, \<open>Raw_Writer\<close>, \<open>Raw_Props\<close>, \<open>Archive_Props\<close>: \<^verbatim>\<open>raw.go\<close>, \<^verbatim>\<open>writer.go\<close>, \<^verbatim>\<open>read.go\<close>. A
    directory is a list of files; every file operation has an outcome supplied from outside.
  \<^item> \<open>Crawl_Meta\<close>, \<open>Crawl_Worker\<close>, \<open>Crawl_Loop\<close>, \<open>Worker_Props\<close>, \<open>Worker_Theorems\<close>: \<^verbatim>\<open>crawl.go\<close>,
    \<^verbatim>\<open>worker.go\<close>, \<^verbatim>\<open>timeline.go\<close>. The worker's state holds the tables, the archive and the loop's own
    fields; its environment says how the n-th interaction with the outside ends.
  \<^item> \<open>Crawl_Commands\<close>, \<open>Command_Props\<close>, \<open>Maintain_Props\<close>, \<open>Timeline_Props\<close>: \<^verbatim>\<open>backfill.go\<close>, \<^verbatim>\<open>seed.go\<close>,
    \<^verbatim>\<open>maintain.go\<close>, \<^verbatim>\<open>timeline_backfill.go\<close>, on the worker's state and environment.
  \<^item> \<open>Crawl_Static\<close>, \<open>Static_Props\<close>: \<^verbatim>\<open>static.go\<close>, the mirror of the game's static data; the server is an argument.

  \<^item> \<open>Agg_Model\<close>, \<open>Date_Props\<close>: \<^verbatim>\<open>model.go\<close>, \<^verbatim>\<open>paths.go\<close>, \<^verbatim>\<open>dates.go\<close>, \<^verbatim>\<open>region.go\<close>. Rates are exact rationals, rounded where the
    code rounds.
  \<^item> \<open>Agg_Cells\<close>, \<open>Cells_Props\<close>: \<^verbatim>\<open>cells.go\<close>, \<^verbatim>\<open>tier.go\<close>, \<^verbatim>\<open>artifacts.go\<close>, from the tallies to the documents.
  \<^item> \<open>Agg_Gate\<close>: \<^verbatim>\<open>gate.go\<close>, \<^verbatim>\<open>provenance.go\<close>, the classification of \<^verbatim>\<open>audit.go\<close>, the choice of the patch of
    \<^verbatim>\<open>extract.go\<close>.
  \<^item> \<open>Agg_Publish\<close>, \<open>Publish_Props\<close>: \<^verbatim>\<open>publish.go\<close>, on a file tree that is the list of its paths.
  \<^item> \<open>Agg_Manifest\<close>, \<open>Manifest_Props\<close>: \<^verbatim>\<open>manifest.go\<close>, the guards of \<^verbatim>\<open>build.go\<close> and \<^verbatim>\<open>assemble.go\<close> that read the
    published tree.
  \<^item> \<open>Agg_Verify\<close>, \<open>Verify_Props\<close>: \<^verbatim>\<open>verify.go\<close>, and that it accepts the documents the build makes.
  \<^item> \<open>Agg_Build\<close>, \<open>Assemble_Props\<close>, \<open>Build_Props\<close>: \<^verbatim>\<open>build.go\<close>, \<^verbatim>\<open>extract.go\<close>, \<^verbatim>\<open>assemble.go\<close>: a build from its options
    to its audit row; the staged and the published tree.
  \<^item> \<open>Json_Schema\<close>, \<open>Agg_Schema\<close>, \<open>Agg_Artifacts\<close>: \<^verbatim>\<open>jsonschema.go\<close>, \<^verbatim>\<open>aggmodel/schema.go\<close>, the declarations of
    \<^verbatim>\<open>aggmodel/model.go\<close> and the JSON of a document: the interpreter of a schema, with fuel because a reference
    may lead back to itself, and the schema made from the types. \<open>Schema_Props\<close> and \<open>Schema_Docs\<close> show that the
    two agree, and that fuel of twice the size of the value is enough; \<open>Build_Verify\<close> puts a build and the
    verifier with this schema together.
  \<^item> \<open>Agg_Archive\<close>: \<^verbatim>\<open>rawarchive.go\<close> and \<^verbatim>\<open>planArchive\<close> of \<^verbatim>\<open>extract.go\<close>: the walk over the archive's partitions and the
    staging of its parts, on what listing a directory answers; a build's plan is shown to be a plan over that walk.
  \<^item> \<open>Agg_SQL\<close>, \<open>Agg_Engine\<close>, \<open>SQL_Props\<close>: \<^verbatim>\<open>sql.go\<close>, the scripts of \<^verbatim>\<open>extract.go\<close>, \<^verbatim>\<open>engine.go\<close>. A statement is its
    text, character by character; the engine is its settings, and how a script ends is outside.
  \<^item> \<open>Agg_Features_SQL\<close>, \<open>Agg_Features\<close>, \<open>Agg_FeatureRun\<close>: \<^verbatim>\<open>features_sql.go\<close>, \<^verbatim>\<open>features_schema.go\<close>, \<^verbatim>\<open>features.go\<close>: the
    statements of the dataset, its documented columns, and one build from its options to the published
    tables. \<open>Features_SQL_Props\<close>, \<open>Feature_Columns\<close> and \<open>Features_Props\<close> hold the theorems.
  \<^item> \<open>Config\<close>: \<^verbatim>\<open>config.go\<close>. A setting is a variable, a default and a parser; a load is the configuration or the
    list of every problem.

  \<^bold>\<open>Interfaces.\<close> \<open>row_transition\<close> and \<open>claim_exit\<close> state what a statement that rewrites queue rows
  promises; every transition of the queue interprets them, and the invariant, idempotence and the
  worker's bookkeeping of claims come from their lemmas. \<open>archive_contract\<close> is the archive as its
  callers see it, rows held and rows safe; the writer is its interpretation, once for the
  crawl's payloads and once for the static documents, and the lemmas of the worker and of the mirror use
  nothing else of the writer. \<open>row_rewrite\<close> is the frontier's counterpart.

  \<^bold>\<open>What is shown.\<close> The queue's claims are exclusive and every history keeps its constraints; the
  limiter releases to a caller no more than every configured ceiling allows; a client call is bounded in
  requests and time; a partition of the archive is a durable log of the rows it accepted; a run of
  the worker that starts from a sound state leaves every row it closed with its payload in a published part,
  as long as publishing a part does not fail, and another theorem shows what a failed flush costs; a batch whose
  statements reach the database leaves no claim behind; failures cost rows what the policy says. A build of the
  aggregation fails closed, closes its audit row, and publishes what the verifier accepts, its JSON schema
  included; publishing
  is all or nothing but for one failure; the manifest forgets nothing. The scripts the
  engine gets are exactly the statements the code means, whatever text the settings carry: a quoted value
  is read back and cannot open or end a statement, and the engine's bounds head every script.
  The dataset build fails closed, runs its scripts in one order whatever fails, documents the columns its
  statements project, and publishes tables, schema and receipt of one run. A
  load of the configuration reports every problem at once. The remaining theorems state the
  behaviour of each operation, error paths included.

  \<^bold>\<open>Bounds.\<close> Loops that end structurally are recursions on their list. The breaker's, the client's,
  the connect's and the migration's loops carry fuel, and a lemma of each shows that the fuel given
  is enough. \<^verbatim>\<open>Run\<close> may go on forever, so its theorems are about every number of passes after which
  it has returned; a stopped run returns in one. Part indices are bounded by an int64, so the
  archive's contract counts the writes there is room for.

  \<^bold>\<open>Not modelled.\<close> Logs and metrics. What DuckDB computes from a statement: the text of every
  statement is modelled and so is the use of its answers, which are parameters. The Parquet
  encoding, JSON, sha256 and the zstd frames, which are parameters. The typed endpoints of the client,
  which build URLs. The prose of the dataset's README, which is kept as the counts and options it is
  rendered from. The demo archive, which is simulated data; the decoding of JSON text; the TypeScript made from
  the types; the file-backed auditor; the command line.

  \<^bold>\<open>Simplifications.\<close> An attempt of the client is one request: the redirects the standard library follows are
  inside it. Rates and their differences are exact rationals until they are rounded, where the code has
  floating-point numbers. The product of quantity and unit in \<^verbatim>\<open>parseDuckDBSize\<close> is not computed: only what parses is
  modelled. A write of the archive that fails is taken not to have stored its row. A removal that fails while a
  publication is undone leaves its entry whole. The clock of the worker moves on requests and sleeps, so a stop
  does not fall between two statements. The rows a discovered match adds to the frontier are one statement: a match
  has ten players, a statement takes five hundred.
\<close>

end
